(* ===== verification/Prelude.thy ===== *)
theory Prelude
  imports Main "HOL-Library.AList"
begin

text \<open>
  Shared vocabulary of the development: the exceptions the program raises as values of
  one datatype, results as sums, transactions with rollback, and SQL tables keyed by a
  text primary key as association lists.
  The collection \<open>tbl\<close> holds the rewriting rules for tables.
\<close>

named_theorems tbl \<open>lookup, insertion and deletion in keyed tables\<close>
named_theorems res_iff \<open>success and failure of sequenced fallible computations\<close>
named_theorems txn \<open>transactions that commit or roll back\<close>

subsection \<open>Exceptions and results\<close>

text \<open>
  One constructor per exception class the program raises or catches; the argument is the
  message.  \<open>Other\<close> stands for an exception class of a library that is passed through.
\<close>

datatype py_error =
    ValueError string
  | KeyError string
  | TypeError string
  | RuntimeError string
  | TimeoutError string
  | OSError string
  | AssertionError
  | IndexError
  | ZeroDivisionError
  | OverflowError
  | IntegrityError
  | ControlConflict string
  | RegistryConflict string
  | JobConflict string
  | JobCapacityError string
  | NoReplicaAvailable string
  | ReplicaCapacityUnavailable string
  | EngineProtocolError string
  | EngineUnavailableError string
  | HTTPClosureError
  | CancelledError
  | Other string

text \<open>\<open>type(exc).__name__\<close>, which the controllers persist as the error of an attempt.\<close>

fun class_name :: "py_error \<Rightarrow> string" where
  "class_name (ValueError _) = ''ValueError''"
| "class_name (KeyError _) = ''KeyError''"
| "class_name (TypeError _) = ''TypeError''"
| "class_name (RuntimeError _) = ''RuntimeError''"
| "class_name (TimeoutError _) = ''TimeoutError''"
| "class_name (OSError _) = ''OSError''"
| "class_name AssertionError = ''AssertionError''"
| "class_name IndexError = ''IndexError''"
| "class_name ZeroDivisionError = ''ZeroDivisionError''"
| "class_name OverflowError = ''OverflowError''"
| "class_name IntegrityError = ''IntegrityError''"
| "class_name (ControlConflict _) = ''ControlConflict''"
| "class_name (RegistryConflict _) = ''RegistryConflict''"
| "class_name (JobConflict _) = ''JobConflict''"
| "class_name (JobCapacityError _) = ''JobCapacityError''"
| "class_name (NoReplicaAvailable _) = ''NoReplicaAvailable''"
| "class_name (ReplicaCapacityUnavailable _) = ''ReplicaCapacityUnavailable''"
| "class_name (EngineProtocolError _) = ''EngineProtocolError''"
| "class_name (EngineUnavailableError _) = ''EngineUnavailableError''"
| "class_name HTTPClosureError = ''HTTPClosureError''"
| "class_name CancelledError = ''CancelledError''"
| "class_name (Other n) = n"

type_synonym 'a res = "py_error + 'a"

fun is_ok :: "'a res \<Rightarrow> bool" where
  "is_ok (Inl _) = False"
| "is_ok (Inr _) = True"

lemma is_okE: "is_ok r \<Longrightarrow> (\<And>a. r = Inr a \<Longrightarrow> P) \<Longrightarrow> P"
  by (cases r) auto

lemma is_ok_iff: "is_ok r \<longleftrightarrow> (\<exists>a. r = Inr a)"
  by (cases r) auto

text \<open>
  Sequencing of fallible computations: \<open>bind_res\<close> stops at the first exception and
  \<open>ensure\<close> is \<open>if not b: raise e\<close>.  The collection \<open>res_iff\<close> says when a sequence
  succeeds and with which exception it fails.
\<close>

definition bind_res :: "'a res \<Rightarrow> ('a \<Rightarrow> 'b res) \<Rightarrow> 'b res" where
  "bind_res r f = (case r of Inl e \<Rightarrow> Inl e | Inr a \<Rightarrow> f a)"

definition ensure :: "bool \<Rightarrow> py_error \<Rightarrow> unit res" where
  "ensure b e = (if b then Inr () else Inl e)"

fun each_res :: "('a \<Rightarrow> 'b res) \<Rightarrow> 'a list \<Rightarrow> 'b list res" where
  "each_res f [] = Inr []"
| "each_res f (a # as) = bind_res (f a) (\<lambda>b. bind_res (each_res f as) (\<lambda>bs. Inr (b # bs)))"

lemma bind_res_simps [simp]: "bind_res (Inl e) f = Inl e" "bind_res (Inr a) f = f a"
  by (simp_all add: bind_res_def)

lemma bind_res_Inr [res_iff]: "bind_res r f = Inr b \<longleftrightarrow> (\<exists>a. r = Inr a \<and> f a = Inr b)"
  by (cases r) auto

lemma bind_res_Inl [res_iff]:
  "bind_res r f = Inl e \<longleftrightarrow> r = Inl e \<or> (\<exists>a. r = Inr a \<and> f a = Inl e)"
  by (cases r) auto

lemma ensure_Inr [res_iff]: "ensure b e = Inr u \<longleftrightarrow> b"
  by (simp add: ensure_def)

lemma ensure_Inl [res_iff]: "ensure b e = Inl e' \<longleftrightarrow> \<not> b \<and> e' = e"
  by (auto simp: ensure_def)

lemma ensure_True [simp]: "ensure True e = Inr ()"
  by (simp add: ensure_def)

lemma ensure_False [simp]: "ensure False e = Inl e"
  by (simp add: ensure_def)

lemma bind_res_cong [fundef_cong]:
  "r = r' \<Longrightarrow> (\<And>a. r' = Inr a \<Longrightarrow> f a = g a) \<Longrightarrow> bind_res r f = bind_res r' g"
  by (cases r') auto

lemma each_res_Inr: "each_res f as = Inr bs \<Longrightarrow> list_all2 (\<lambda>a b. f a = Inr b) as bs"
  by (induction as arbitrary: bs) (auto simp: res_iff)

lemma each_res_length: "each_res f as = Inr bs \<Longrightarrow> length bs = length as"
  using each_res_Inr list_all2_lengthD by fastforce

subsection \<open>Transactions\<close>

text \<open>
  The body of a \<open>with self.transaction()\<close> block takes the database and either raises or
  returns a value with the changed database.  \<open>atomically\<close> is \<open>BEGIN IMMEDIATE\<close>, the
  body, then \<open>COMMIT\<close>, or \<open>ROLLBACK\<close> and re-raise: an exception leaves the database
  as it was.
\<close>

type_synonym ('s, 'a) body = "'s \<Rightarrow> py_error + ('a \<times> 's)"
type_synonym ('s, 'a) action = "'s \<Rightarrow> 'a res \<times> 's"

definition atomically :: "('s, 'a) body \<Rightarrow> ('s, 'a) action" where
  "atomically f s = (case f s of Inl e \<Rightarrow> (Inl e, s) | Inr (a, s') \<Rightarrow> (Inr a, s'))"

lemma atomically_Inl [txn]: "f s = Inl e \<Longrightarrow> atomically f s = (Inl e, s)"
  by (simp add: atomically_def)

lemma atomically_Inr [txn]: "f s = Inr (a, s') \<Longrightarrow> atomically f s = (Inr a, s')"
  by (simp add: atomically_def)

lemma atomically_rollback: "atomically f s = (Inl e, s') \<Longrightarrow> s' = s \<and> f s = Inl e"
  by (auto simp: atomically_def split: sum.splits)

lemma atomically_commit: "atomically f s = (Inr a, s') \<longleftrightarrow> f s = Inr (a, s')"
  by (auto simp: atomically_def split: sum.splits)

lemma atomically_invariant:
  assumes "I s" and "\<And>a s'. f s = Inr (a, s') \<Longrightarrow> I s'"
  shows "I (snd (atomically f s))"
  using assms by (auto simp: atomically_def split: sum.splits)

lemma atomically_cases:
  assumes "atomically f s = (r, s')"
  obtains (rolled_back) e where "f s = Inl e" "r = Inl e" "s' = s"
  | (committed) a where "f s = Inr (a, s')" "r = Inr a"
  using assms by (auto simp: atomically_def split: sum.splits)

text \<open>
  Sequencing of actions: an exception stops the sequence with the state reached so far.
  \<open>recover\<close> is \<open>try ... except\<close>, \<open>finally\<close> runs its second action in any case and
  keeps the first outcome unless the second raises.
\<close>

definition seq :: "('s, 'a) action \<Rightarrow> ('a \<Rightarrow> ('s, 'b) action) \<Rightarrow> ('s, 'b) action" where
  "seq f g s = (case f s of (Inl e, s') \<Rightarrow> (Inl e, s') | (Inr a, s') \<Rightarrow> g a s')"

definition recover :: "('s, 'a) action \<Rightarrow> (py_error \<Rightarrow> ('s, 'a) action) \<Rightarrow> ('s, 'a) action" where
  "recover f h s = (case f s of (Inl e, s') \<Rightarrow> h e s' | (Inr a, s') \<Rightarrow> (Inr a, s'))"

definition finally_do :: "('s, 'a) action \<Rightarrow> ('s, unit) action \<Rightarrow> ('s, 'a) action" where
  "finally_do f c s = (case f s of (r, s') \<Rightarrow>
     (case c s' of (Inl e, s'') \<Rightarrow> (Inl e, s'') | (Inr _, s'') \<Rightarrow> (r, s'')))"

definition return :: "'a \<Rightarrow> ('s, 'a) action" where
  "return a s = (Inr a, s)"

definition raise :: "py_error \<Rightarrow> ('s, 'a) action" where
  "raise e s = (Inl e, s)"

lemma seq_Inr [txn]: "f s = (Inr a, s') \<Longrightarrow> seq f g s = g a s'"
  by (simp add: seq_def)

lemma seq_Inl [txn]: "f s = (Inl e, s') \<Longrightarrow> seq f g s = (Inl e, s')"
  by (simp add: seq_def)

text \<open>A relation between the states before and after that every part keeps is kept by the whole.\<close>

lemma seq_rel:
  assumes "R s (snd (f s))"
    and "\<And>a s'. f s = (Inr a, s') \<Longrightarrow> R s s' \<Longrightarrow> R s (snd (g a s'))"
  shows "R s (snd (seq f g s))"
  using assms by (cases "f s"; cases "fst (f s)") (auto simp: seq_def)

lemma recover_rel:
  assumes "R s (snd (f s))"
    and "\<And>e s'. f s = (Inl e, s') \<Longrightarrow> R s s' \<Longrightarrow> R s (snd (h e s'))"
  shows "R s (snd (recover f h s))"
  using assms by (cases "f s"; cases "fst (f s)") (auto simp: recover_def)

lemma finally_do_rel:
  assumes "R s (snd (f s))" and "\<And>s'. R s s' \<Longrightarrow> R s (snd (c s'))"
  shows "R s (snd (finally_do f c s))"
proof -
  obtain r s' where f: "f s = (r, s')" by (cases "f s")
  obtain q s'' where c: "c s' = (q, s'')" by (cases "c s'")
  from assms(1) f have "R s s'" by simp
  from assms(2) [OF this] c have "R s s''" by simp
  with f c show ?thesis by (cases q) (auto simp: finally_do_def)
qed

subsection \<open>Outcomes of actions\<close>

text \<open>\<open>outcome f s Q E\<close>: \<open>f\<close> from \<open>s\<close> returns with \<open>Q\<close> or raises with \<open>E\<close>.
  The equations compute it along an action.\<close>

definition outcome :: "('s, 'a) action \<Rightarrow> 's \<Rightarrow> ('a \<Rightarrow> 's \<Rightarrow> bool) \<Rightarrow> (py_error \<Rightarrow> 's \<Rightarrow> bool) \<Rightarrow> bool" where
  "outcome f s Q E = (case f s of (Inl e, s') \<Rightarrow> E e s' | (Inr a, s') \<Rightarrow> Q a s')"

named_theorems wp

lemma outcome_seq [wp]: "outcome (seq f g) s Q E = outcome f s (\<lambda>a s'. outcome (g a) s' Q E) E"
  by (auto simp: outcome_def seq_def split: prod.splits sum.splits)

lemma outcome_recover [wp]: "outcome (recover f h) s Q E = outcome f s Q (\<lambda>e s'. outcome (h e) s' Q E)"
  by (auto simp: outcome_def recover_def split: prod.splits sum.splits)

lemma outcome_finally [wp]:
  "outcome (finally_do f c) s Q E =
     outcome f s (\<lambda>a s'. outcome c s' (\<lambda>_. Q a) E) (\<lambda>e s'. outcome c s' (\<lambda>_. E e) E)"
  by (auto simp: outcome_def finally_do_def split: prod.splits sum.splits)

lemma outcome_return [wp]: "outcome (return a) s Q E = Q a s"
  by (simp add: outcome_def return_def)

lemma outcome_raise [wp]: "outcome (raise e) s Q E = E e s"
  by (simp add: outcome_def raise_def)

lemma outcome_if [wp]: "outcome (if b then f else g) s Q E = (if b then outcome f s Q E else outcome g s Q E)"
  by simp

lemma outcome_mono:
  "outcome f s Q E \<Longrightarrow> (\<And>a s'. f s = (Inr a, s') \<Longrightarrow> Q a s' \<Longrightarrow> Q' a s') \<Longrightarrow>
     (\<And>e s'. f s = (Inl e, s') \<Longrightarrow> E e s' \<Longrightarrow> E' e s') \<Longrightarrow> outcome f s Q' E'"
  by (auto simp: outcome_def split: prod.splits sum.splits)

lemma outcomeI:
  "(\<And>a s'. f s = (Inr a, s') \<Longrightarrow> Q a s') \<Longrightarrow> (\<And>e s'. f s = (Inl e, s') \<Longrightarrow> E e s') \<Longrightarrow> outcome f s Q E"
  by (auto simp: outcome_def split: prod.splits sum.splits)

lemma outcomeD: "outcome f s Q E \<Longrightarrow> f s = (Inr a, s') \<Longrightarrow> Q a s'"
  by (simp add: outcome_def)

lemma outcome_query: "outcome (\<lambda>s. (f s, s)) s Q E = (case f s of Inl e \<Rightarrow> E e s | Inr a \<Rightarrow> Q a s)"
  by (simp add: outcome_def)

lemma outcome_any: "outcome f w (\<lambda>_ _. True) (\<lambda>_ _. True)"
  by (simp add: outcome_def split: prod.splits sum.splits)

subsection \<open>Keyed tables\<close>

text \<open>
  A table with a text primary key is an association list in insertion order.
  \<open>upsert\<close> is \<open>INSERT ... ON CONFLICT(id) DO UPDATE\<close>, \<open>delete_key\<close> is
  \<open>DELETE ... WHERE id=?\<close>; \<open>insert_new\<close> is a plain \<open>INSERT\<close>, which fails with
  \<open>IntegrityError\<close> on an existing key; \<open>insert_or_ignore\<close> keeps an existing row.
\<close>

type_synonym 'v table = "(string \<times> 'v) list"

abbreviation lookup :: "('k \<times> 'v) list \<Rightarrow> 'k \<Rightarrow> 'v option" where
  "lookup \<equiv> map_of"

abbreviation keys :: "('k \<times> 'v) list \<Rightarrow> 'k set" where
  "keys t \<equiv> fst ` set t"

abbreviation upsert :: "'k \<Rightarrow> 'v \<Rightarrow> ('k \<times> 'v) list \<Rightarrow> ('k \<times> 'v) list" where
  "upsert \<equiv> AList.update"

definition unique_keys :: "('k \<times> 'v) list \<Rightarrow> bool" where
  "unique_keys t \<longleftrightarrow> distinct (map fst t)"

definition insert_new :: "'k \<Rightarrow> 'v \<Rightarrow> ('k \<times> 'v) list \<Rightarrow> ('k \<times> 'v) list res" where
  "insert_new k v t = (if lookup t k = None then Inr (t @ [(k, v)]) else Inl IntegrityError)"

definition insert_or_ignore :: "'k \<Rightarrow> 'v \<Rightarrow> ('k \<times> 'v) list \<Rightarrow> ('k \<times> 'v) list" where
  "insert_or_ignore k v t = (if lookup t k = None then t @ [(k, v)] else t)"

definition delete_key :: "'k \<Rightarrow> ('k \<times> 'v) list \<Rightarrow> ('k \<times> 'v) list" where
  "delete_key k t = filter (\<lambda>row. fst row \<noteq> k) t"

lemma lookup_upsert [tbl]: "lookup (upsert k v t) k' = (if k' = k then Some v else lookup t k')"
  by (simp add: update_conv')

lemma unique_keys_upsert [tbl, intro]: "unique_keys t \<Longrightarrow> unique_keys (upsert k v t)"
  by (simp add: unique_keys_def distinct_update)

lemma lookup_append_new [tbl]:
  "lookup t k = None \<Longrightarrow> lookup (t @ [(k, v)]) k' = (if k' = k then Some v else lookup t k')"
  by (auto simp: map_add_def split: option.split)

lemma lookup_none_notin: "lookup t k = None \<longleftrightarrow> k \<notin> keys t"
  by (simp add: map_of_eq_None_iff)

lemma unique_keys_append_new [tbl]:
  "lookup t k = None \<Longrightarrow> unique_keys t \<Longrightarrow> unique_keys (t @ [(k, v)])"
  by (auto simp: unique_keys_def map_of_eq_None_iff)

lemma lookup_insert_or_ignore [tbl]:
  "lookup (insert_or_ignore k v t) k' =
     (if k' = k then Some (case lookup t k of None \<Rightarrow> v | Some w \<Rightarrow> w) else lookup t k')"
  by (auto simp: insert_or_ignore_def lookup_append_new simp del: map_of_append
      split: option.splits)

lemma unique_keys_insert_or_ignore [tbl, intro]:
  "unique_keys t \<Longrightarrow> unique_keys (insert_or_ignore k v t)"
  by (simp add: insert_or_ignore_def unique_keys_append_new)

lemma lookup_delete_key [tbl]:
  "lookup (delete_key k t) k' = (if k' = k then None else lookup t k')"
  by (induction t) (auto simp: delete_key_def)

lemma unique_keys_delete_key [tbl, intro]: "unique_keys t \<Longrightarrow> unique_keys (delete_key k t)"
  by (induction t) (auto simp: unique_keys_def delete_key_def)

lemma length_delete_key_le: "length (delete_key k t) \<le> length t"
  by (simp add: delete_key_def)

lemma length_upsert:
  "length (upsert k v t) = (if lookup t k = None then Suc (length t) else length t)"
  by (induction t) auto

lemma delete_key_absent: "lookup t k = None \<Longrightarrow> delete_key k t = t"
  by (induction t) (auto simp: delete_key_def split: if_splits)

lemma length_delete_key:
  "unique_keys t \<Longrightarrow> lookup t k = Some v \<Longrightarrow> Suc (length (delete_key k t)) = length t"
proof (induction t)
  case (Cons row t)
  then have u: "unique_keys t" by (simp add: unique_keys_def)
  show ?case
  proof (cases "fst row = k")
    case True
    with Cons.prems(1) have "lookup t k = None"
      by (auto simp: unique_keys_def map_of_eq_None_iff)
    with True show ?thesis using delete_key_absent [of t k] by (simp add: delete_key_def)
  next
    case False
    with Cons u show ?thesis by (auto simp: delete_key_def)
  qed
qed simp

lemma unique_keys_Nil [simp]: "unique_keys []"
  by (simp add: unique_keys_def)

lemma unique_keys_lookup: "unique_keys t \<Longrightarrow> (k, v) \<in> set t \<Longrightarrow> lookup t k = Some v"
  by (simp add: unique_keys_def)

lemma in_delete_key: "row \<in> set (delete_key k t) \<longleftrightarrow> row \<in> set t \<and> fst row \<noteq> k"
  by (auto simp: delete_key_def)

lemma lookup_mem: "lookup t k = Some v \<Longrightarrow> (k, v) \<in> set t"
  by (rule map_of_SomeD)

lemma mem_lookup_ex: "(k, v) \<in> set t \<Longrightarrow> \<exists>w. lookup t k = Some w"
  by (metis fst_conv image_eqI map_of_eq_None_iff not_None_eq)

subsection \<open>Immutable registration\<close>

text \<open>
  Several stores register a value under an identity once: a retry with the same value
  succeeds, a different value for the same identity is refused, and a bound identity is
  never changed.  The contract is stated once; the client lemma says that no sequence of
  registrations, accepted or refused, changes what an identity is bound to.
\<close>

locale immutable_registry =
  fixes ident :: "'v \<Rightarrow> 'k"
    and get :: "'s \<Rightarrow> 'k \<Rightarrow> 'v option"
    and put :: "'v \<Rightarrow> 's \<Rightarrow> unit res \<times> 's"
  assumes put_bound: "put v s = (Inr u, s') \<Longrightarrow> get s' (ident v) = Some v"
    and put_keeps: "get s k = Some w \<Longrightarrow> get (snd (put v s)) k = Some w"
    and put_conflict: "get s (ident v) = Some w \<Longrightarrow> w \<noteq> v \<Longrightarrow> \<not> is_ok (fst (put v s))"
begin

fun put_all :: "'v list \<Rightarrow> 's \<Rightarrow> 's" where
  "put_all [] s = s"
| "put_all (v # vs) s = put_all vs (snd (put v s))"

lemma put_all_keeps: "get s k = Some w \<Longrightarrow> get (put_all vs s) k = Some w"
  by (induction vs arbitrary: s) (auto simp: put_keeps)

lemma put_then_put_all:
  assumes "put v s = (Inr u, s')"
  shows "get (put_all vs s') (ident v) = Some v"
  using put_all_keeps put_bound assms by blast

text \<open>Two accepted registrations of one identity carry the same value.\<close>

lemma put_agree:
  assumes "put v s = (Inr u, s')" and "put v' (put_all vs s') = (Inr u', s'')"
    and "ident v' = ident v"
  shows "v' = v"
proof (rule ccontr)
  assume "v' \<noteq> v"
  with put_then_put_all [OF assms(1), of vs] assms(3)
  have "\<not> is_ok (fst (put v' (put_all vs s')))"
    by (intro put_conflict) auto
  with assms(2) show False by simp
qed

end

subsection \<open>Text patterns\<close>

text \<open>The character classes of the program's \<open>Field(pattern=...)\<close> declarations.\<close>

definition lower_hex :: "char \<Rightarrow> bool" where
  "lower_hex c \<longleftrightarrow> c \<in> set ''0123456789abcdef''"

definition is_sha256 :: "string \<Rightarrow> bool" where
  "is_sha256 s \<longleftrightarrow> length s = 64 \<and> list_all lower_hex s"

definition digit_char :: "char \<Rightarrow> bool" where
  "digit_char c \<longleftrightarrow> 48 \<le> (of_char c :: nat) \<and> (of_char c :: nat) \<le> 57"

definition alnum_char :: "char \<Rightarrow> bool" where
  "alnum_char c \<longleftrightarrow>
     c \<in> set ''ABCDEFGHIJKLMNOPQRSTUVWXYZabcdefghijklmnopqrstuvwxyz0123456789''"

definition bounded_text :: "nat \<Rightarrow> nat \<Rightarrow> string \<Rightarrow> bool" where
  "bounded_text lo hi s \<longleftrightarrow> lo \<le> length s \<and> length s \<le> hi"

fun opt_all :: "('a \<Rightarrow> bool) \<Rightarrow> 'a option \<Rightarrow> bool" where
  "opt_all P None = True"
| "opt_all P (Some a) = P a"

lemma opt_all_iff: "opt_all P x \<longleftrightarrow> (\<forall>a. x = Some a \<longrightarrow> P a)"
  by (cases x) auto

subsection \<open>The first least element\<close>

text \<open>\<open>min(xs, key=k)\<close> on a nonempty list: the first element with the least key.\<close>

fun first_min :: "('a \<Rightarrow> 'k::linorder) \<Rightarrow> 'a \<Rightarrow> 'a list \<Rightarrow> 'a" where
  "first_min k b [] = b"
| "first_min k b (x # xs) = first_min k (if k x < k b then x else b) xs"

definition min_by :: "('a \<Rightarrow> 'k::linorder) \<Rightarrow> 'a list \<Rightarrow> 'a" where
  "min_by k xs = first_min k (hd xs) (tl xs)"

lemma first_min_mem: "first_min k b xs \<in> insert b (set xs)"
proof (induction xs arbitrary: b)
  case (Cons y xs)
  show ?case using Cons.IH [of b] Cons.IH [of y] by auto
qed simp

lemma first_min_le: "x \<in> insert b (set xs) \<Longrightarrow> k (first_min k b xs) \<le> k x"
proof (induction xs arbitrary: b x)
  case (Cons y xs)
  let ?c = "if k y < k b then y else b"
  have "k (first_min k ?c xs) \<le> k ?c" using Cons.IH [of ?c ?c] by simp
  moreover have "k ?c \<le> k b" "k ?c \<le> k y" by auto
  ultimately show ?case using Cons.prems Cons.IH [of x ?c] by fastforce
qed simp

lemma min_by_mem: "xs \<noteq> [] \<Longrightarrow> min_by k xs \<in> set xs"
  using first_min_mem [of k "hd xs" "tl xs"] by (cases xs) (auto simp: min_by_def)

lemma min_by_le: "x \<in> set xs \<Longrightarrow> k (min_by k xs) \<le> k x"
  using first_min_le [of x "hd xs" "tl xs" k] by (cases xs) (auto simp: min_by_def)

end
