(* ===== verification/Float64.thy ===== *)
theory Float64
  imports Complex_Main "HOL-Library.Log_Nat" Prelude
begin

text \<open>
  Python floats.  Every finite double is a rational, so a validated float field is a
  \<open>rat\<close> and comparisons of stored values are exact.  Every arithmetic operation rounds
  its exact result to the nearest double, ties to even (\<open>fl\<close>): 53 significant bits, least
  exponent -1074.  The exponent has no upper bound here; a result whose rounded magnitude
  reaches \<open>2 ^ 1024\<close> is what Python represents as an infinity (\<open>overflows\<close>), and a
  comparison of it with a finite double has the same answer as the comparison with
  infinity.
\<close>

type_synonym flt = rat

subsection \<open>Rounding to the nearest integer, ties to even\<close>

definition rne :: "rat \<Rightarrow> int" where
  "rne y = (let n = \<lfloor>y\<rfloor>; d = y - of_int n in
     if d < 1 / 2 then n else if 1 / 2 < d then n + 1 else if even n then n else n + 1)"

lemma rne_of_int [simp]: "rne (of_int n) = n"
  by (simp add: rne_def)

lemma rne_bounds: "\<lfloor>y\<rfloor> \<le> rne y" "rne y \<le> \<lfloor>y\<rfloor> + 1"
  by (auto simp: rne_def Let_def)

lemma rne_mono:
  assumes "x \<le> y"
  shows "rne x \<le> rne y"
proof (cases "\<lfloor>x\<rfloor> = \<lfloor>y\<rfloor>")
  case True
  with assms show ?thesis by (auto simp: rne_def Let_def)
next
  case False
  with floor_mono [OF assms] have "\<lfloor>x\<rfloor> + 1 \<le> \<lfloor>y\<rfloor>" by linarith
  with rne_bounds [of x] rne_bounds [of y] show ?thesis by linarith
qed

lemma rne_le: "y \<le> of_int n \<Longrightarrow> rne y \<le> n"
  using rne_mono [of y "of_int n"] by simp

lemma rne_ge: "of_int n \<le> y \<Longrightarrow> n \<le> rne y"
  using rne_mono [of "of_int n" y] by simp

subsection \<open>Rounding to a double\<close>

text \<open>
  \<open>scaled\<close> measures in units of the least subnormal.  The unit in the last place is
  \<open>2 ^ ulp_shift\<close> of these units; the truncated subtraction clamps it at the least
  exponent, which is gradual underflow.
\<close>

definition scale :: rat where
  "scale = 2 ^ 1074"

definition ulp_shift :: "rat \<Rightarrow> nat" where
  "ulp_shift y = floorlog 2 (nat \<lfloor>y\<rfloor>) - 53"

definition fl_pos :: "rat \<Rightarrow> rat" where
  "fl_pos x = (let y = x * scale; s = ulp_shift y in of_int (rne (y / 2 ^ s)) * 2 ^ s / scale)"

definition fl :: "rat \<Rightarrow> rat" where
  "fl x = (if x < 0 then - fl_pos (- x) else fl_pos x)"

definition overflows :: "rat \<Rightarrow> bool" where
  "overflows x \<longleftrightarrow> 2 ^ 1024 \<le> \<bar>fl x\<bar>"

lemma scale_pos [simp]: "0 < scale"
  by (simp add: scale_def)

lemma scale_nz [simp]: "scale \<noteq> 0"
  by (simp add: scale_def)

lemma fl_pos_nonneg: "0 \<le> x \<Longrightarrow> 0 \<le> fl_pos x"
proof -
  assume "0 \<le> x"
  then have "of_int 0 \<le> x * scale / 2 ^ ulp_shift (x * scale)"
    using less_imp_le [OF scale_pos] by simp
  then have "0 \<le> rne (x * scale / 2 ^ ulp_shift (x * scale))"
    by (rule rne_ge)
  then show ?thesis
    using less_imp_le [OF scale_pos] by (simp add: fl_pos_def Let_def)
qed

lemma floor_between_powers:
  assumes "0 \<le> (y::rat)" and "b = floorlog 2 (nat \<lfloor>y\<rfloor>)"
  shows "y < 2 ^ b" and "0 < b \<Longrightarrow> 2 ^ (b - 1) \<le> y"
proof -
  have "nat \<lfloor>y\<rfloor> < 2 ^ b"
    using floorlog_leD [of 2 "nat \<lfloor>y\<rfloor>" b] assms(2) by simp
  with assms(1) have "\<lfloor>y\<rfloor> < 2 ^ b"
    by (metis nat_less_iff of_nat_numeral of_nat_power zero_le_floor)
  then show "y < 2 ^ b"
    by (simp add: floor_less_iff)
  assume "0 < b"
  then have "2 ^ (b - 1) \<le> nat \<lfloor>y\<rfloor>"
    using floorlog_geD [of b 2 "nat \<lfloor>y\<rfloor>"] assms(2) by simp
  then have "(2::int) ^ (b - 1) \<le> \<lfloor>y\<rfloor>"
    by (metis assms(1) nat_le_iff nat_less_iff not_le of_nat_numeral of_nat_power zero_le_floor)
  then show "2 ^ (b - 1) \<le> y"
    by (simp add: le_floor_iff)
qed

lemma fl_pos_mono:
  assumes "0 \<le> x" and "x \<le> y"
  shows "fl_pos x \<le> fl_pos y"
proof -
  define u where "u = x * scale"
  define v where "v = y * scale"
  have uv: "0 \<le> u" "u \<le> v" "0 \<le> v"
    using assms less_imp_le [OF scale_pos] by (auto simp: u_def v_def mult_right_mono)
  define s where "s = ulp_shift u"
  define t where "t = ulp_shift v"
  have st: "s \<le> t"
    using uv by (auto simp: s_def t_def ulp_shift_def intro!: diff_le_mono floorlog_mono nat_mono
        floor_mono)
  have "of_int (rne (u / 2 ^ s)) * (2::rat) ^ s \<le> of_int (rne (v / 2 ^ t)) * 2 ^ t"
  proof (cases "s = t")
    case True
    have "rne (u / 2 ^ s) \<le> rne (v / 2 ^ s)"
      using uv by (intro rne_mono divide_right_mono) auto
    then have "of_int (rne (u / 2 ^ s)) \<le> (of_int (rne (v / 2 ^ s)) :: rat)"
      by (simp only: of_int_le_iff)
    with True show ?thesis by (simp add: mult_right_mono)
  next
    case False
    define b where "b = floorlog 2 (nat \<lfloor>v\<rfloor>)"
    define a where "a = floorlog 2 (nat \<lfloor>u\<rfloor>)"
    have "s = a - 53" and "t = b - 53"
      by (simp_all add: s_def t_def ulp_shift_def a_def b_def)
    with False st have b: "b = t + 53" and ab: "a \<le> b - 1" and sb: "s \<le> b - 1"
      by linarith+
    have lo: "2 ^ (b - 1) \<le> v"
      using floor_between_powers(2) [OF uv(3) b_def] b by simp
    have "u < 2 ^ a"
      using floor_between_powers(1) [OF uv(1) a_def] .
    also have "(2::rat) ^ a \<le> 2 ^ (b - 1)"
      using ab by (intro power_increasing) auto
    finally have "u \<le> 2 ^ (b - 1)" by simp
    then have "u / 2 ^ s \<le> 2 ^ (b - 1) / 2 ^ s"
      by (intro divide_right_mono) auto
    also have "\<dots> = of_int (2 ^ (b - 1 - s))"
      using power_diff [of "2::rat" s "b - 1"] sb by simp
    finally have "rne (u / 2 ^ s) \<le> 2 ^ (b - 1 - s)"
      by (rule rne_le)
    then have "of_int (rne (u / 2 ^ s)) \<le> (of_int (2 ^ (b - 1 - s)) :: rat)"
      by (simp only: of_int_le_iff)
    then have "of_int (rne (u / 2 ^ s)) * (2::rat) ^ s \<le> 2 ^ (b - 1 - s) * 2 ^ s"
      by (intro mult_right_mono) auto
    also have "\<dots> = 2 ^ (b - 1)"
      using sb by (simp flip: power_add)
    also have "\<dots> = of_int (2 ^ (b - 1 - t)) * 2 ^ t"
      using b by (simp add: power_add)
    also have "\<dots> \<le> of_int (rne (v / 2 ^ t)) * (2::rat) ^ t"
    proof -
      have "of_int (2 ^ (b - 1 - t)) * 2 ^ t \<le> v"
        using lo b by (simp add: power_add)
      then have "of_int (2 ^ (b - 1 - t)) \<le> v / 2 ^ t"
        by (simp add: pos_le_divide_eq)
      then have "2 ^ (b - 1 - t) \<le> rne (v / 2 ^ t)"
        by (rule rne_ge)
      then have "of_int (2 ^ (b - 1 - t)) \<le> (of_int (rne (v / 2 ^ t)) :: rat)"
        by (simp only: of_int_le_iff)
      then show ?thesis by (intro mult_right_mono) auto
    qed
    finally show ?thesis .
  qed
  then show ?thesis
    by (simp add: fl_pos_def Let_def u_def v_def s_def t_def divide_right_mono
        less_imp_le [OF scale_pos])
qed

lemma fl_zero [simp]: "fl 0 = 0"
  by (simp add: fl_def fl_pos_def rne_def)

lemma fl_nonneg: "0 \<le> x \<Longrightarrow> 0 \<le> fl x"
  by (simp add: fl_def fl_pos_nonneg)

lemma fl_mono: "x \<le> y \<Longrightarrow> fl x \<le> fl y"
proof -
  assume xy: "x \<le> y"
  consider "0 \<le> x" | "x < 0" "0 \<le> y" | "y < 0"
    using xy by linarith
  then show ?thesis
  proof cases
    case 1
    with xy show ?thesis by (simp add: fl_def fl_pos_mono)
  next
    case 2
    then have "0 \<le> fl_pos (- x)" "0 \<le> fl_pos y"
      by (auto intro: fl_pos_nonneg)
    with 2 show ?thesis by (simp add: fl_def)
  next
    case 3
    with xy show ?thesis by (simp add: fl_def fl_pos_mono)
  qed
qed

lemma fl_minus: "fl (- x) = - fl x"
  by (auto simp: fl_def fl_pos_def rne_def)

subsection \<open>Exactly represented values\<close>

text \<open>
  A double is \<open>m * 2 ^ e\<close> least units with \<open>\<bar>m\<bar> \<le> 2 ^ 53\<close>; rounding returns it
  unchanged.  In particular integers up to \<open>2 ^ 53\<close> are exact.
\<close>

definition double :: "rat \<Rightarrow> bool" where
  "double x \<longleftrightarrow> (\<exists>m e. \<bar>m\<bar> \<le> 2 ^ 53 \<and> x * scale = of_int m * 2 ^ (e::nat))"

lemma fl_pos_double:
  assumes "0 \<le> x" and "x * scale = of_int m * 2 ^ e" and "\<bar>m\<bar> \<le> 2 ^ 53"
  shows "fl_pos x = x"
proof -
  define y where "y = x * scale"
  have y0: "0 \<le> y"
    using assms(1) less_imp_le [OF scale_pos] by (simp add: y_def)
  have m0: "0 \<le> m"
  proof (rule ccontr)
    assume "\<not> 0 \<le> m"
    then have "(of_int m :: rat) < 0" by simp
    then have "of_int m * (2::rat) ^ e < 0"
      by (simp add: mult_less_0_iff)
    with y0 assms(2) show False by (simp add: y_def)
  qed
  have yi: "y = of_int (m * 2 ^ e)"
    using assms(2) by (simp add: y_def)
  define s where "s = ulp_shift y"
  have "\<exists>k. y = of_int k * 2 ^ s"
  proof (cases "m = 2 ^ 53")
    case True
    then have "m * 2 ^ e = 2 ^ (53 + e)"
      by (simp add: power_add)
    then have "nat \<lfloor>y\<rfloor> = 1 * 2 ^ (53 + e)"
      by (simp only: yi floor_of_int) (simp add: nat_power_eq)
    then have "floorlog 2 (nat \<lfloor>y\<rfloor>) = floorlog 2 1 + (53 + e)"
      by (simp only: floorlog_power)
    then have "s = e + 1"
      by (simp add: s_def ulp_shift_def floorlog_def)
    then have "y = of_int (2 ^ 52) * 2 ^ s"
      by (simp add: yi True flip: power_add)
    then show ?thesis by blast
  next
    case False
    with assms(3) m0 have m: "nat m < 2 ^ 53"
      by (simp add: nat_less_iff)
    have "nat \<lfloor>y\<rfloor> = nat m * 2 ^ e"
      using m0 by (simp add: yi nat_mult_distrib nat_power_eq flip: of_int_power of_int_mult)
    then have "floorlog 2 (nat \<lfloor>y\<rfloor>) \<le> 53 + e"
      using m by (auto intro!: floorlog_leI simp: power_add)
    then have "s \<le> e"
      by (simp add: s_def ulp_shift_def)
    then have "y = of_int (m * 2 ^ (e - s)) * 2 ^ s"
      by (simp add: yi flip: power_add)
    then show ?thesis by blast
  qed
  then obtain k where k: "y = of_int k * 2 ^ s" by blast
  have "rne (y / 2 ^ s) = k"
    by (simp add: k)
  with k show ?thesis
    by (simp add: fl_pos_def Let_def s_def y_def eq_divide_eq)
qed

lemma fl_double:
  assumes "double x"
  shows "fl x = x"
proof -
  obtain m e where me: "\<bar>m\<bar> \<le> 2 ^ 53" "x * scale = of_int m * 2 ^ e"
    using assms by (auto simp: double_def)
  show ?thesis
  proof (cases "x < 0")
    case True
    have "fl_pos (- x) = - x"
      using True me by (intro fl_pos_double [where m = "- m" and e = e]) auto
    with True show ?thesis by (simp add: fl_def)
  next
    case False
    with me show ?thesis
      by (simp add: fl_def fl_pos_double)
  qed
qed

lemma double_of_int: "\<bar>n\<bar> \<le> 2 ^ 53 \<Longrightarrow> double (of_int n)"
  unfolding double_def by (rule exI [of _ n], rule exI [of _ 1074]) (simp add: scale_def)

lemma fl_of_int: "\<bar>n\<bar> \<le> 2 ^ 53 \<Longrightarrow> fl (of_int n) = of_int n"
  by (simp add: double_of_int fl_double)

lemma fl_of_nat: "n \<le> 2 ^ 53 \<Longrightarrow> fl (of_nat n) = of_nat n"
  using fl_of_int [of "int n"] by simp

lemma fl_numeral [simp]: "(numeral n :: int) \<le> 2 ^ 53 \<Longrightarrow> fl (numeral n) = numeral n"
  using fl_of_int [of "numeral n"] by simp

lemma fl_one [simp]: "fl 1 = 1"
  using fl_of_int [of 1] by simp

lemma fl_half [simp]: "fl (1 / 2) = 1 / 2"
  by (rule fl_double, unfold double_def, rule exI [of _ 1], rule exI [of _ 1073])
    (simp add: scale_def)

lemma fl_le_double: "double y \<Longrightarrow> x \<le> y \<Longrightarrow> fl x \<le> y"
  using fl_mono [of x y] by (simp add: fl_double)

lemma fl_ge_double: "double x \<Longrightarrow> x \<le> y \<Longrightarrow> x \<le> fl y"
  using fl_mono [of x y] by (simp add: fl_double)

subsection \<open>The rounding contract\<close>

text \<open>
  What the components use of floating point: rounding is monotone, keeps zero and one, and
  is exact on small integers.  Everything below is proved from these laws alone.
\<close>

locale rounding =
  fixes rnd :: "rat \<Rightarrow> rat"
  assumes rnd_mono: "x \<le> y \<Longrightarrow> rnd x \<le> rnd y"
    and rnd_int: "\<bar>n\<bar> \<le> 2 ^ 53 \<Longrightarrow> rnd (of_int n) = of_int n"
begin

lemma rnd_zero: "rnd 0 = 0"
  using rnd_int [of 0] by simp

lemma rnd_nonneg: "0 \<le> x \<Longrightarrow> 0 \<le> rnd x"
  using rnd_mono [of 0 x] by (simp add: rnd_zero)

lemma rnd_nonpos: "x \<le> 0 \<Longrightarrow> rnd x \<le> 0"
  using rnd_mono [of x 0] by (simp add: rnd_zero)

lemma rnd_pos_arg: "0 < rnd x \<Longrightarrow> 0 < x"
  using rnd_nonpos [of x] by linarith

lemma rnd_le_int: "\<bar>n\<bar> \<le> 2 ^ 53 \<Longrightarrow> x \<le> of_int n \<Longrightarrow> rnd x \<le> of_int n"
  using rnd_mono [of x "of_int n"] by (simp add: rnd_int)

lemma rnd_ge_int: "\<bar>n\<bar> \<le> 2 ^ 53 \<Longrightarrow> of_int n \<le> x \<Longrightarrow> of_int n \<le> rnd x"
  using rnd_mono [of "of_int n" x] by (simp add: rnd_int)

text \<open>A rounded quotient of naturals stays in the unit interval when the exact one does.\<close>

lemma rnd_fraction:
  assumes "a \<le> b"
  shows "0 \<le> rnd (of_nat a / of_nat b)" and "rnd (of_nat a / of_nat b) \<le> 1"
proof -
  show "0 \<le> rnd (of_nat a / of_nat b)"
    by (rule rnd_nonneg) simp
  have "(of_nat a :: rat) / of_nat b \<le> of_int 1"
    using assms by (cases "b = 0") (simp_all add: divide_le_eq)
  then show "rnd (of_nat a / of_nat b) \<le> 1"
    using rnd_le_int [of 1] by simp
qed

end

interpretation fl: rounding fl
  by unfold_locales (auto intro: fl_mono simp: fl_of_int)

subsection \<open>Python's float operations\<close>

definition fadd :: "flt \<Rightarrow> flt \<Rightarrow> flt" where
  "fadd a b = fl (a + b)"

definition fsub :: "flt \<Rightarrow> flt \<Rightarrow> flt" where
  "fsub a b = fl (a - b)"

definition fmul :: "flt \<Rightarrow> flt \<Rightarrow> flt" where
  "fmul a b = fl (a * b)"

definition fdiv :: "flt \<Rightarrow> flt \<Rightarrow> flt" where
  "fdiv a b = fl (a / b)"

text \<open>True division of Python integers is the correctly rounded quotient.\<close>

definition int_div :: "nat \<Rightarrow> nat \<Rightarrow> flt" where
  "int_div a b = fl (of_nat a / of_nat b)"

lemmas float_ops = fadd_def fsub_def fmul_def fdiv_def int_div_def

lemma fsub_nonneg: "b \<le> a \<Longrightarrow> 0 \<le> fsub a b"
  by (simp add: fsub_def fl_nonneg)

lemma fsub_mono: "a \<le> a' \<Longrightarrow> b' \<le> b \<Longrightarrow> fsub a b \<le> fsub a' b'"
  by (simp add: fsub_def fl_mono)

lemma fadd_mono: "a \<le> a' \<Longrightarrow> b \<le> b' \<Longrightarrow> fadd a b \<le> fadd a' b'"
  by (simp add: fadd_def fl_mono)

lemma fadd_ge_left: "double a \<Longrightarrow> 0 \<le> b \<Longrightarrow> a \<le> fadd a b"
  by (simp add: fadd_def fl_ge_double)

lemma int_div_mono: "0 < c \<Longrightarrow> a \<le> b \<Longrightarrow> int_div a c \<le> int_div b c"
  by (simp add: int_div_def fl_mono divide_right_mono)

lemma int_div_ge_one: "0 < b \<Longrightarrow> b \<le> a \<Longrightarrow> 1 \<le> int_div a b"
  using fl.rnd_ge_int [of 1 "of_nat a / of_nat b"] by (simp add: int_div_def le_divide_eq)

lemma int_div_le_one: "a \<le> b \<Longrightarrow> int_div a b \<le> 1"
  by (simp add: int_div_def fl.rnd_fraction)

lemma int_div_nonneg: "0 \<le> int_div a b"
  by (simp add: int_div_def fl_nonneg)

end
