(* ===== verification/Deployment.thy ===== *)
theory Deployment
  imports Float64
begin

text \<open>
  The immutable identities and durable records of the control plane
  (\<open>contracts/deployment.py\<close>, \<open>PromotionDecision\<close> of \<open>reliability/promotion.py\<close>,
  \<open>ApplyRequest\<close> and \<open>ActivationReceipt\<close> of \<open>reliability/rollback.py\<close>), and the
  persistent store identity of \<open>reliability/store_identity.py\<close>.

  A validated model class is a record together with the predicate its field constraints
  and validators impose.  SHA-256 and pydantic's JSON serialisation are parameters, the
  fields of a \<open>codec\<close>.
\<close>

subsection \<open>Revisions\<close>

record revision =
  revision_id :: string
  model_revision :: string
  tokenizer_revision :: string
  source_revision :: string
  image_digest :: string
  config_digest :: string
  engine :: string
  engine_config :: string

record codec =
  sha256 :: "string \<Rightarrow> string"
  revision_json :: "revision \<Rightarrow> string"

definition identifier_char :: "char \<Rightarrow> bool" where
  "identifier_char c \<longleftrightarrow> alnum_char c \<or> c = CHR ''_'' \<or> c = CHR ''-''"

definition lower_char :: "char \<Rightarrow> char" where
  "lower_char c = (let n = of_char c :: nat in if 65 \<le> n \<and> n \<le> 90 then char_of (n + 32) else c)"

definition mutable_label :: "string \<Rightarrow> bool" where
  "mutable_label s \<longleftrightarrow>
     map lower_char s \<in> {''latest'', ''main'', ''master'', ''undeclared''}"

definition pinned_identity :: "revision \<Rightarrow> bool" where
  "pinned_identity r \<longleftrightarrow>
     list_all (\<lambda>v. \<not> mutable_label v)
       [model_revision r, tokenizer_revision r, source_revision r]"

definition valid_revision :: "revision \<Rightarrow> bool" where
  "valid_revision r \<longleftrightarrow>
     bounded_text 1 128 (revision_id r) \<and> list_all identifier_char (revision_id r) \<and>
     model_revision r \<noteq> [] \<and> tokenizer_revision r \<noteq> [] \<and> source_revision r \<noteq> [] \<and>
     take 7 (image_digest r) = ''sha256:'' \<and> is_sha256 (drop 7 (image_digest r)) \<and>
     is_sha256 (config_digest r) \<and> engine r \<noteq> [] \<and> engine_config r \<noteq> [] \<and>
     pinned_identity r"

definition revision_digest :: "'z codec_scheme \<Rightarrow> revision \<Rightarrow> string" where
  "revision_digest c r = sha256 c (revision_json c r)"

subsection \<open>Health observations\<close>

record health =
  h_revision_id :: string
  h_revision_digest :: string
  h_ready :: bool
  h_smoke_passed :: bool

definition verifies :: "'z codec_scheme \<Rightarrow> health \<Rightarrow> revision \<Rightarrow> bool" where
  "verifies c h r \<longleftrightarrow>
     h_ready h \<and> h_smoke_passed h \<and> h_revision_id h = revision_id r \<and>
     h_revision_digest h = revision_digest c r"

subsection \<open>Deployments, signals and rollback records\<close>

record deployment_state =
  d_deployment_id :: string
  d_active_revision :: string
  d_known_good_revision :: string
  d_generation :: nat
  d_rollback_id :: "string option"

record regression_signal =
  s_signal_id :: string
  s_deployment_id :: string
  s_observed_revision :: string
  s_observed_generation :: nat
  s_detected_at :: flt
  s_detector :: string
  s_reason :: string

definition valid_signal :: "regression_signal \<Rightarrow> bool" where
  "valid_signal s \<longleftrightarrow>
     bounded_text 1 128 (s_signal_id s) \<and> 0 < s_detected_at s \<and>
     bounded_text 1 128 (s_detector s) \<and> bounded_text 1 1000 (s_reason s)"

datatype rollback_status = Detected | Applying | Verifying | Needs_reconciliation | Restored

record rollback_record =
  o_operation_id :: string
  o_signal :: regression_signal
  o_target_revision :: string
  o_target_digest :: string
  o_status :: rollback_status
  o_detected_at :: flt
  o_received_at :: flt
  o_started_at :: "flt option"
  o_restored_at :: "flt option"
  o_last_error :: "string option"
  o_apply_attempts :: nat

text \<open>
  \<open>RollbackRecord.state_timing\<close> and the field bounds, in the order pydantic checks them:
  fields first, then the validator.  Validation errors are \<open>ValueError\<close>s.
\<close>

definition rollback_fields :: "rollback_record \<Rightarrow> bool" where
  "rollback_fields r \<longleftrightarrow>
     0 < o_detected_at r \<and> 0 < o_received_at r \<and>
     opt_all (\<lambda>t. 0 < t) (o_started_at r) \<and> opt_all (\<lambda>t. 0 < t) (o_restored_at r)"

fun restoration_error :: "rollback_status \<Rightarrow> flt option \<Rightarrow> flt option \<Rightarrow> string option" where
  "restoration_error Restored (Some st) (Some re) =
     (if re < st then Some ''rollback clock moved backward before recovery'' else None)"
| "restoration_error Restored _ _ =
     Some ''restoration requires start and verified-health timestamps''"
| "restoration_error _ _ (Some _) =
     Some ''unverified state cannot contain recovery timestamp''"
| "restoration_error _ _ None = None"

definition state_timing :: "rollback_record \<Rightarrow> string option" where
  "state_timing r =
     (if o_detected_at r \<noteq> s_detected_at (o_signal r) \<or> o_received_at r < o_detected_at r
      then Some ''detector timestamp mismatch or future detection''
      else if (case o_started_at r of None \<Rightarrow> False | Some t \<Rightarrow> t < o_received_at r)
      then Some ''rollback clock moved backward before start''
      else restoration_error (o_status r) (o_started_at r) (o_restored_at r))"

definition make_rollback :: "rollback_record \<Rightarrow> rollback_record res" where
  "make_rollback r =
     (if \<not> rollback_fields r then Inl (ValueError ''invalid rollback field'')
      else case state_timing r of Some m \<Rightarrow> Inl (ValueError m) | None \<Rightarrow> Inr r)"

definition duration_seconds :: "rollback_record \<Rightarrow> flt option" where
  "duration_seconds r =
     (case o_restored_at r of None \<Rightarrow> None | Some t \<Rightarrow> Some (fsub t (o_detected_at r)))"

lemma make_rollback_Inr:
  "make_rollback r = Inr r' \<longleftrightarrow> r' = r \<and> rollback_fields r \<and> state_timing r = None"
  by (auto simp: make_rollback_def split: option.splits)

lemma restoration_ok:
  "restoration_error st a b = None \<longleftrightarrow>
     (if st = Restored then \<exists>x y. a = Some x \<and> b = Some y \<and> x \<le> y else b = None)"
  by (cases "(st, a, b)" rule: restoration_error.cases) auto

lemma state_timing_ok:
  "state_timing r = None \<longleftrightarrow>
     o_detected_at r = s_detected_at (o_signal r) \<and> o_detected_at r \<le> o_received_at r \<and>
     (\<forall>t. o_started_at r = Some t \<longrightarrow> o_received_at r \<le> t) \<and>
     restoration_error (o_status r) (o_started_at r) (o_restored_at r) = None"
  by (auto simp: state_timing_def split: option.splits if_splits)

subsection \<open>Promotion decisions, activation receipts and apply requests\<close>

record decision =
  candidate_revision :: string
  candidate_digest :: string
  policy_version :: string
  evidence_digest :: "string option"
  rejection_reasons :: "string list"
  quality_parity :: "flt option"
  candidate_accuracy :: "flt option"

definition approved :: "decision \<Rightarrow> bool" where
  "approved d \<longleftrightarrow> evidence_digest d \<noteq> None \<and> rejection_reasons d = []"

record activation_receipt =
  ar_deployment_id :: string
  ar_expected_generation :: nat
  ar_decision_digest :: string
  ar_state :: deployment_state

record apply_request =
  q_deployment_id :: string
  q_expected_revision :: string
  q_expected_generation :: nat
  q_target :: revision
  q_idempotency_key :: string

record control_codec = codec +
  decision_json :: "decision \<Rightarrow> string"
  apply_json :: "apply_request \<Rightarrow> string"

definition decision_digest :: "'z control_codec_scheme \<Rightarrow> decision \<Rightarrow> string" where
  "decision_digest c d = sha256 c (decision_json c d)"

definition apply_fingerprint :: "'z control_codec_scheme \<Rightarrow> apply_request \<Rightarrow> string" where
  "apply_fingerprint c q = sha256 c (apply_json c q)"

subsection \<open>Decimal numerals\<close>

text \<open>\<open>str(n)\<close> for a nonnegative integer, as formatted strings use it.\<close>

definition digit :: "nat \<Rightarrow> char" where
  "digit d = char_of (48 + d)"

fun decimal :: "nat \<Rightarrow> string" where
  "decimal n = (if n < 10 then [digit n] else decimal (n div 10) @ [digit (n mod 10)])"

declare decimal.simps [simp del]

lemma decimal_nonempty: "decimal n \<noteq> []"
  by (subst decimal.simps) simp

lemma digit_char_digit: "d < 10 \<Longrightarrow> digit_char (digit d)"
  by (simp add: digit_def digit_char_def)

lemma digit_inj: "c < 10 \<Longrightarrow> d < 10 \<Longrightarrow> digit c = digit d \<Longrightarrow> c = d"
proof -
  assume "c < 10" "d < 10" "digit c = digit d"
  then have "of_char (digit c) = (of_char (digit d) :: nat)" by simp
  with \<open>c < 10\<close> \<open>d < 10\<close> show ?thesis
    by (simp add: digit_def)
qed

lemma decimal_digits: "list_all digit_char (decimal n)"
proof (induction n rule: decimal.induct)
  case (1 n)
  then show ?case
    by (subst decimal.simps) (auto simp: digit_char_digit)
qed

lemma decimal_inj: "decimal m = decimal n \<Longrightarrow> m = n"
proof (induction m arbitrary: n rule: decimal.induct)
  case (1 m)
  note eq = "1.prems" [unfolded decimal.simps [of m] decimal.simps [of n]]
  show ?case
  proof (cases "m < 10")
    case True
    with eq show ?thesis
      by (auto simp: decimal_nonempty decimal_nonempty [symmetric] digit_inj split: if_splits)
  next
    case False
    with eq have n: "\<not> n < 10"
      by (auto simp: decimal_nonempty split: if_splits)
    with False eq have "decimal (m div 10) = decimal (n div 10)"
      and "digit (m mod 10) = digit (n mod 10)"
      by simp_all
    then have "m div 10 = n div 10" and "m mod 10 = n mod 10"
      using "1.IH" [OF False] by (auto intro: digit_inj)
    then show ?thesis by (metis mult_div_mod_eq)
  qed
qed

subsection \<open>Persistent store identity\<close>

text \<open>
  The singleton row of \<open>store_identity\<close>; \<open>verify_identity\<close> runs inside every write
  transaction before protected state is examined.
\<close>

definition read_identity :: "string option \<Rightarrow> string res" where
  "read_identity row =
     (case row of None \<Rightarrow> Inl (ValueError ''invalid persistent store identity'')
      | Some i \<Rightarrow> if length i \<noteq> 32 \<or> \<not> list_all lower_hex i
                 then Inl (ValueError ''invalid persistent store identity'') else Inr i)"

definition verify_identity :: "string option \<Rightarrow> string \<Rightarrow> unit res" where
  "verify_identity row expected =
     (case read_identity row of Inl e \<Rightarrow> Inl e
      | Inr i \<Rightarrow> if i \<noteq> expected then Inl (ValueError ''persistent store identity changed'')
                else Inr ())"

definition initialize_identity :: "string \<Rightarrow> string option \<Rightarrow> string option \<times> string res" where
  "initialize_identity fresh row =
     (let row' = (case row of None \<Rightarrow> Some fresh | Some i \<Rightarrow> Some i) in (row', read_identity row'))"

lemma verify_identity_ok:
  "verify_identity row me = Inr u \<longleftrightarrow> row = Some me \<and> length me = 32 \<and> list_all lower_hex me"
  by (auto simp: verify_identity_def read_identity_def split: option.splits sum.splits if_splits)

lemma initialize_identity_keeps:
  "row = Some i \<Longrightarrow> fst (initialize_identity fresh row) = Some i"
  by (simp add: initialize_identity_def Let_def)

end
