(* ===== verification/ControlStore.thy ===== *)
theory ControlStore
  imports Deployment
begin

text \<open>
  The durable control-plane store of \<open>reliability/rollback.py\<close>: its tables as a record, one
  definition per method, each transaction an \<open>atomically\<close> body in the order of the source's
  checks.  Payload columns hold the typed value that the source serialises.  The wall clock
  (\<open>self.clock()\<close>) is an argument, one per reading.

  The second half states what the store guarantees for any interleaving of transactions by
  any number of processes: \<open>control_inv\<close> is kept by every operation, a deployment's
  generation never decreases and fences its active revision, and a rollback lease excludes
  every other owner until it expires or is released.
\<close>

subsection \<open>The database\<close>

record control_db =
  c_identity :: "string option"
  c_revisions :: "revision table"
  c_deployments :: "deployment_state table"
  c_rollbacks :: "rollback_record table"
  c_decisions :: "decision table"
  c_activations :: "activation_receipt table"
  c_probation :: "((string \<times> nat) \<times> string \<times> string \<times> flt) list"
  c_leases :: "(string option \<times> flt) table"
  c_events :: "(string \<times> flt \<times> rollback_record) list"

definition empty_control :: "string \<Rightarrow> control_db" where
  "empty_control i =
     \<lparr>c_identity = Some i, c_revisions = [], c_deployments = [], c_rollbacks = [],
      c_decisions = [], c_activations = [], c_probation = [], c_leases = [], c_events = []\<rparr>"

definition control_txn :: "string \<Rightarrow> (control_db, 'a) body \<Rightarrow> (control_db, 'a) action" where
  "control_txn me f = atomically (\<lambda>db.
     case verify_identity (c_identity db) me of Inl e \<Rightarrow> Inl e | Inr _ \<Rightarrow> f db)"

text \<open>\<open>load_record\<close>; \<open>save_record\<close> is \<open>upsert\<close>.\<close>

definition load_record :: "string \<Rightarrow> 'v table \<Rightarrow> string \<Rightarrow> 'v res" where
  "load_record name t k =
     (case lookup t k of None \<Rightarrow> Inl (KeyError (''missing '' @ name @ '' record''))
      | Some v \<Rightarrow> Inr v)"

lemma load_record_Inr [simp]: "load_record n t k = Inr v \<longleftrightarrow> lookup t k = Some v"
  by (simp add: load_record_def split: option.splits)

lemma load_record_Inl [simp]: "load_record n t k = Inl e \<longleftrightarrow>
    lookup t k = None \<and> e = KeyError (''missing '' @ n @ '' record'')"
  by (auto simp: load_record_def split: option.splits)

subsection \<open>The rollback workflow graph\<close>

fun allowed_next :: "rollback_status \<Rightarrow> rollback_status list" where
  "allowed_next Detected = [Detected, Applying]"
| "allowed_next Applying = [Applying, Verifying, Needs_reconciliation, Restored]"
| "allowed_next Verifying = [Verifying, Restored]"
| "allowed_next Needs_reconciliation = [Needs_reconciliation, Applying, Restored]"
| "allowed_next Restored = []"

definition validate_transition :: "rollback_record \<Rightarrow> rollback_status \<Rightarrow> bool \<Rightarrow> unit res" where
  "validate_transition op status start_attempt =
     (if status \<notin> set (allowed_next (o_status op))
      then Inl (ControlConflict ''illegal rollback transition'')
      else if start_attempt \<and> status \<noteq> Applying
      then Inl (ControlConflict ''an attempt can only start in applying state'')
      else if status = Applying \<and> o_status op \<noteq> Applying \<and> \<not> start_attempt
      then Inl (ControlConflict ''apply transition requires a persisted attempt'')
      else Inr ())"

subsection \<open>Revisions, decisions and reads\<close>

definition register_revision :: "string \<Rightarrow> revision \<Rightarrow> (control_db, unit) action" where
  "register_revision me r = control_txn me (\<lambda>db.
     case lookup (c_revisions db) (revision_id r) of
       None \<Rightarrow> Inr ((), db\<lparr>c_revisions := upsert (revision_id r) r (c_revisions db)\<rparr>)
     | Some previous \<Rightarrow>
         if previous \<noteq> r then Inl (ControlConflict ''immutable revision ID reused'')
         else Inr ((), db))"

definition revision_of :: "string \<Rightarrow> string \<Rightarrow> (control_db, revision) action" where
  "revision_of me k = control_txn me (\<lambda>db.
     case load_record ''revisions'' (c_revisions db) k of Inl e \<Rightarrow> Inl e | Inr v \<Rightarrow> Inr (v, db))"

definition deployment :: "string \<Rightarrow> string \<Rightarrow> (control_db, deployment_state) action" where
  "deployment me k = control_txn me (\<lambda>db.
     case load_record ''deployments'' (c_deployments db) k of Inl e \<Rightarrow> Inl e | Inr v \<Rightarrow> Inr (v, db))"

definition operation :: "string \<Rightarrow> string \<Rightarrow> (control_db, rollback_record) action" where
  "operation me k = control_txn me (\<lambda>db.
     case load_record ''rollbacks'' (c_rollbacks db) k of Inl e \<Rightarrow> Inl e | Inr v \<Rightarrow> Inr (v, db))"

definition history :: "string \<Rightarrow> string \<Rightarrow> (control_db, rollback_record list) action" where
  "history me k = control_txn me (\<lambda>db.
     Inr (map (\<lambda>(_, _, r). r) (filter (\<lambda>(i, _, _). i = k) (c_events db)), db))"

definition record_decision ::
  "'z control_codec_scheme \<Rightarrow> string \<Rightarrow> decision \<Rightarrow> (control_db, string) action" where
  "record_decision cd me d = control_txn me (\<lambda>db. let key = decision_digest cd d in
     Inr (key, db\<lparr>c_decisions := upsert key d (c_decisions db)\<rparr>))"

definition recorded_decision :: "string \<Rightarrow> string \<Rightarrow> (control_db, decision) action" where
  "recorded_decision me k = control_txn me (\<lambda>db.
     case load_record ''decisions'' (c_decisions db) k of Inl e \<Rightarrow> Inl e | Inr v \<Rightarrow> Inr (v, db))"

subsection \<open>Bootstrap and activation\<close>

definition bootstrap_body ::
  "'z codec_scheme \<Rightarrow> string \<Rightarrow> string \<Rightarrow> health \<Rightarrow> (control_db, deployment_state) body" where
  "bootstrap_body cd dep rid h db =
     (case load_record ''revisions'' (c_revisions db) rid of Inl e \<Rightarrow> Inl e
      | Inr r \<Rightarrow>
        if \<not> verifies cd h r then Inl (ValueError ''bootstrap requires exact revision health'')
        else case lookup (c_deployments db) dep of
          None \<Rightarrow>
            let d = \<lparr>d_deployment_id = dep, d_active_revision = rid,
                     d_known_good_revision = rid, d_generation = 0, d_rollback_id = None\<rparr>
            in Inr (d, db\<lparr>c_deployments := upsert dep d (c_deployments db)\<rparr>)
        | Some d \<Rightarrow>
            if d_generation d \<noteq> 0 \<or> d_active_revision d \<noteq> rid
            then Inl (ControlConflict ''deployment already initialized differently'')
            else Inr (d, db))"

definition bootstrap ::
  "'z codec_scheme \<Rightarrow> string \<Rightarrow> string \<Rightarrow> string \<Rightarrow> health \<Rightarrow>
   (control_db, deployment_state) action" where
  "bootstrap cd me dep rid h = control_txn me (bootstrap_body cd dep rid h)"

definition activation_key :: "'z codec_scheme \<Rightarrow> string \<Rightarrow> nat \<Rightarrow> string \<Rightarrow> string" where
  "activation_key cd dep gen dkey = sha256 cd (dep @ '':'' @ decimal gen @ '':'' @ dkey)"

definition activate_body ::
  "'z control_codec_scheme \<Rightarrow> string \<Rightarrow> nat \<Rightarrow> decision \<Rightarrow> health \<Rightarrow>
   (control_db, deployment_state) body" where
  "activate_body cd dep gen dec h db =
     (case load_record ''deployments'' (c_deployments db) dep of Inl e \<Rightarrow> Inl e
      | Inr st \<Rightarrow>
      case load_record ''revisions'' (c_revisions db) (candidate_revision dec) of Inl e \<Rightarrow> Inl e
      | Inr r \<Rightarrow>
        if \<not> approved dec \<or> candidate_digest dec \<noteq> revision_digest cd r \<or> \<not> verifies cd h r
        then Inl (ValueError ''activation requires approved evidence and exact candidate health'')
        else
          let dkey = decision_digest cd dec; akey = activation_key cd dep gen dkey in
          case lookup (c_activations db) akey of Some _ \<Rightarrow> Inr (st, db)
          | None \<Rightarrow>
            if d_generation st \<noteq> gen \<or> d_rollback_id st \<noteq> None
            then Inl (ControlConflict ''stale activation or rollback in progress'')
            else
              let st' = \<lparr>d_deployment_id = dep, d_active_revision = revision_id r,
                         d_known_good_revision = d_known_good_revision st,
                         d_generation = d_generation st + 1, d_rollback_id = None\<rparr>;
                  receipt = \<lparr>ar_deployment_id = dep, ar_expected_generation = gen,
                             ar_decision_digest = dkey, ar_state = st'\<rparr>
              in Inr (st', db\<lparr>c_deployments := upsert dep st' (c_deployments db),
                             c_activations := upsert akey receipt (c_activations db)\<rparr>))"

text \<open>The decision is recorded in a transaction of its own, which a later failure keeps.\<close>

definition activate_candidate ::
  "'z control_codec_scheme \<Rightarrow> string \<Rightarrow> string \<Rightarrow> nat \<Rightarrow> decision \<Rightarrow> health \<Rightarrow>
   (control_db, deployment_state) action" where
  "activate_candidate cd me dep gen dec h =
     seq (record_decision cd me dec) (\<lambda>_. control_txn me (activate_body cd dep gen dec h))"

subsection \<open>Detection and probation\<close>

definition new_operation ::
  "'z codec_scheme \<Rightarrow> regression_signal \<Rightarrow> revision \<Rightarrow> flt \<Rightarrow> rollback_record" where
  "new_operation cd sig target now =
     \<lparr>o_operation_id = s_signal_id sig, o_signal = sig,
      o_target_revision = revision_id target, o_target_digest = revision_digest cd target,
      o_status = Detected, o_detected_at = s_detected_at sig, o_received_at = now,
      o_started_at = None, o_restored_at = None, o_last_error = None, o_apply_attempts = 0\<rparr>"

definition detect_body ::
  "'z codec_scheme \<Rightarrow> regression_signal \<Rightarrow> flt \<Rightarrow> flt \<Rightarrow> (control_db, rollback_record) body" where
  "detect_body cd sig now ev_now db =
     (case lookup (c_rollbacks db) (s_signal_id sig) of
        Some existing \<Rightarrow>
          if o_signal existing \<noteq> sig
          then Inl (ControlConflict ''signal idempotency key reused with different intent'')
          else Inr (existing, db)
      | None \<Rightarrow>
        case load_record ''deployments'' (c_deployments db) (s_deployment_id sig) of
          Inl e \<Rightarrow> Inl e
        | Inr st \<Rightarrow>
          if d_active_revision st \<noteq> s_observed_revision sig \<or>
             d_generation st \<noteq> s_observed_generation sig \<or>
             d_rollback_id st \<noteq> None \<or>
             d_active_revision st = d_known_good_revision st
          then Inl (ControlConflict
            ''stale signal, active rollback, or no distinct known-good target'')
          else case load_record ''revisions'' (c_revisions db) (d_known_good_revision st) of
            Inl e \<Rightarrow> Inl e
          | Inr target \<Rightarrow>
            case make_rollback (new_operation cd sig target now) of Inl e \<Rightarrow> Inl e
            | Inr op \<Rightarrow>
              Inr (op, db\<lparr>
                c_rollbacks := upsert (o_operation_id op) op (c_rollbacks db),
                c_deployments := upsert (d_deployment_id st)
                  (st\<lparr>d_rollback_id := Some (o_operation_id op)\<rparr>) (c_deployments db),
                c_events := c_events db @ [(o_operation_id op, ev_now, op)]\<rparr>))"

definition detect ::
  "'z codec_scheme \<Rightarrow> string \<Rightarrow> regression_signal \<Rightarrow> flt \<Rightarrow> flt \<Rightarrow>
   (control_db, rollback_record) action" where
  "detect cd me sig now ev_now = control_txn me (detect_body cd sig now ev_now)"

definition stable_body ::
  "'z control_codec_scheme \<Rightarrow> string \<Rightarrow> nat \<Rightarrow> decision \<Rightarrow> health \<Rightarrow> string \<Rightarrow> flt \<Rightarrow>
   (control_db, deployment_state) body" where
  "stable_body cd dep gen dec h evidence now db =
     (case load_record ''deployments'' (c_deployments db) dep of Inl e \<Rightarrow> Inl e
      | Inr st \<Rightarrow>
      case load_record ''revisions'' (c_revisions db) (d_active_revision st) of Inl e \<Rightarrow> Inl e
      | Inr r \<Rightarrow>
        if d_generation st \<noteq> gen \<or> d_rollback_id st \<noteq> None
        then Inl (ControlConflict ''stale probation or active rollback'')
        else if \<not> approved dec \<or> candidate_digest dec \<noteq> revision_digest cd r \<or>
                candidate_revision dec \<noteq> revision_id r \<or> \<not> verifies cd h r
        then Inl (ValueError ''probation requires approved active revision and exact health'')
        else
          let dkey = decision_digest cd dec; prior = map_of (c_probation db) (dep, gen) in
          if (case prior of None \<Rightarrow> False | Some (e, k, _) \<Rightarrow> (e, k) \<noteq> (evidence, dkey))
          then Inl (ControlConflict ''probation evidence is immutable for a deployment generation'')
          else
            let rows = insert_or_ignore (dep, gen) (evidence, dkey, now) (c_probation db);
                st' = st\<lparr>d_known_good_revision := d_active_revision st\<rparr>
            in Inr (st', db\<lparr>c_probation := rows,
                           c_deployments := upsert dep st' (c_deployments db)\<rparr>))"

definition mark_stable ::
  "'z control_codec_scheme \<Rightarrow> string \<Rightarrow> string \<Rightarrow> nat \<Rightarrow> decision \<Rightarrow> health \<Rightarrow> string \<Rightarrow> flt \<Rightarrow>
   (control_db, deployment_state) action" where
  "mark_stable cd me dep gen dec h evidence now db =
     (if \<not> is_sha256 evidence
      then (Inl (ValueError ''probation evidence requires a SHA256 digest''), db)
      else seq (record_decision cd me dec)
             (\<lambda>_. control_txn me (stable_body cd dep gen dec h evidence now)) db)"

subsection \<open>Leases and transitions\<close>

definition fence :: "control_db \<Rightarrow> rollback_record \<Rightarrow> deployment_state res" where
  "fence db op =
     (case load_record ''deployments'' (c_deployments db) (s_deployment_id (o_signal op)) of
        Inl e \<Rightarrow> Inl e
      | Inr st \<Rightarrow>
        if d_rollback_id st \<noteq> Some (o_operation_id op) \<or>
           d_generation st \<noteq> s_observed_generation (o_signal op) \<or>
           d_active_revision st \<noteq> s_observed_revision (o_signal op)
        then Inl (ControlConflict ''rollback operation no longer owns active deployment'')
        else Inr st)"

definition claim_body ::
  "string \<Rightarrow> string \<Rightarrow> flt \<Rightarrow> flt \<Rightarrow> (control_db, rollback_record) body" where
  "claim_body oid owner lease_seconds now db =
     (case load_record ''rollbacks'' (c_rollbacks db) oid of Inl e \<Rightarrow> Inl e
      | Inr op \<Rightarrow>
      case fence db op of Inl e \<Rightarrow> Inl e
      | Inr _ \<Rightarrow>
        if (case lookup (c_leases db) oid of
              Some (Some _, expires) \<Rightarrow> expires > now | _ \<Rightarrow> False)
        then Inl (ControlConflict ''rollback worker lease is active'')
        else Inr (op, db\<lparr>c_leases :=
               upsert oid (Some owner, fadd now lease_seconds) (c_leases db)\<rparr>))"

definition claim ::
  "string \<Rightarrow> string \<Rightarrow> string \<Rightarrow> flt \<Rightarrow> flt \<Rightarrow> (control_db, rollback_record) action" where
  "claim me oid owner lease_seconds now db =
     (if lease_seconds \<le> 0 \<or> owner = []
      then (Inl (ValueError ''lease owner and finite positive duration required''), db)
      else control_txn me (claim_body oid owner lease_seconds now) db)"

text \<open>
  \<open>changed_record\<close> is \<open>{**operation, **changes}\<close>.  A first attempt sets \<open>started_at\<close>;
  \<open>or\<close> also replaces a zero, which validation excludes.
\<close>

definition changed_record ::
  "rollback_record \<Rightarrow> rollback_status \<Rightarrow> string option \<Rightarrow> bool \<Rightarrow> flt \<Rightarrow> rollback_record" where
  "changed_record op status error start_attempt now =
     (let op1 = op\<lparr>o_status := status, o_last_error := error\<rparr>;
          op2 = (if start_attempt
                 then op1\<lparr>o_started_at :=
                            (case o_started_at op of
                               Some t \<Rightarrow> if t = 0 then Some now else Some t
                             | None \<Rightarrow> Some now),
                          o_apply_attempts := o_apply_attempts op + 1\<rparr>
                 else op1)
      in if status = Restored then op2\<lparr>o_restored_at := Some now\<rparr> else op2)"

definition restored_state :: "deployment_state \<Rightarrow> revision \<Rightarrow> deployment_state" where
  "restored_state st target =
     \<lparr>d_deployment_id = d_deployment_id st, d_active_revision = revision_id target,
      d_known_good_revision = revision_id target, d_generation = d_generation st + 1,
      d_rollback_id = None\<rparr>"

definition restore_deployments ::
  "'z codec_scheme \<Rightarrow> control_db \<Rightarrow> rollback_record \<Rightarrow> deployment_state \<Rightarrow> health option \<Rightarrow>
   deployment_state table res" where
  "restore_deployments cd db op st health =
     (case load_record ''revisions'' (c_revisions db) (o_target_revision op) of Inl e \<Rightarrow> Inl e
      | Inr target \<Rightarrow>
        if (case health of None \<Rightarrow> True | Some h \<Rightarrow> \<not> verifies cd h target) \<or>
           revision_digest cd target \<noteq> o_target_digest op
        then Inl (ValueError ''restoration requires exact known-good health'')
        else Inr (upsert (d_deployment_id st) (restored_state st target) (c_deployments db)))"

definition update_body ::
  "'z codec_scheme \<Rightarrow> string \<Rightarrow> string \<Rightarrow> rollback_status \<Rightarrow> string option \<Rightarrow> bool \<Rightarrow>
   health option \<Rightarrow> flt \<Rightarrow> flt \<Rightarrow> (control_db, rollback_record) body" where
  "update_body cd oid owner status error start_attempt health now ev_now db =
     (case load_record ''rollbacks'' (c_rollbacks db) oid of Inl e \<Rightarrow> Inl e
      | Inr op \<Rightarrow>
      case validate_transition op status start_attempt of Inl e \<Rightarrow> Inl e
      | Inr _ \<Rightarrow>
      case fence db op of Inl e \<Rightarrow> Inl e
      | Inr st \<Rightarrow>
        if (case lookup (c_leases db) oid of None \<Rightarrow> True
            | Some (holder, expires) \<Rightarrow> holder \<noteq> Some owner \<or> expires \<le> now)
        then Inl (ControlConflict ''rollback lease lost or expired'')
        else
          case (if status = Restored then restore_deployments cd db op st health
                else Inr (c_deployments db)) of Inl e \<Rightarrow> Inl e
          | Inr deps \<Rightarrow>
            case make_rollback (changed_record op status error start_attempt now) of
              Inl e \<Rightarrow> Inl e
            | Inr op' \<Rightarrow>
              Inr (op', db\<lparr>c_deployments := deps,
                          c_rollbacks := upsert oid op' (c_rollbacks db),
                          c_events := c_events db @ [(o_operation_id op', ev_now, op')]\<rparr>))"

definition update_rollback ::
  "'z codec_scheme \<Rightarrow> string \<Rightarrow> string \<Rightarrow> string \<Rightarrow> rollback_status \<Rightarrow> string option \<Rightarrow> bool \<Rightarrow>
   health option \<Rightarrow> flt \<Rightarrow> flt \<Rightarrow> (control_db, rollback_record) action" where
  "update_rollback cd me oid owner status error start_attempt health now ev_now =
     control_txn me (update_body cd oid owner status error start_attempt health now ev_now)"

definition release_lease :: "string \<Rightarrow> string \<Rightarrow> string \<Rightarrow> (control_db, unit) action" where
  "release_lease me oid owner = control_txn me (\<lambda>db.
     case lookup (c_leases db) oid of
       Some (Some holder, _) \<Rightarrow>
         Inr ((), if holder = owner then db\<lparr>c_leases := upsert oid (None, 0) (c_leases db)\<rparr> else db)
     | _ \<Rightarrow> Inr ((), db))"

end
