(* ===== verification/ControlProofs.thy ===== *)
theory ControlProofs
  imports ControlStore
begin

text \<open>
  What the control-plane store guarantees for every interleaving of transactions.
  \<open>control_txn_op\<close> lists the transactions the methods issue, \<open>control_step\<close> runs one;
  \<open>control_inv\<close> ties deployments, rollback operations and the revision registry together.
\<close>

subsection \<open>The transactions\<close>

datatype control_txn_op =
    T_register revision
  | T_decide decision
  | T_bootstrap string string health
  | T_activate string nat decision health
  | T_detect regression_signal flt flt
  | T_stable string nat decision health string flt
  | T_claim string string flt flt
  | T_update string string rollback_status "string option" bool "health option" flt flt
  | T_release string string

fun control_step ::
  "'z control_codec_scheme \<Rightarrow> string \<Rightarrow> control_txn_op \<Rightarrow> control_db \<Rightarrow> control_db" where
  "control_step cd me (T_register r) db = snd (register_revision me r db)"
| "control_step cd me (T_decide d) db = snd (record_decision cd me d db)"
| "control_step cd me (T_bootstrap dep rid h) db = snd (bootstrap cd me dep rid h db)"
| "control_step cd me (T_activate dep gen dec h) db =
     snd (control_txn me (activate_body cd dep gen dec h) db)"
| "control_step cd me (T_detect sig now ev) db = snd (detect cd me sig now ev db)"
| "control_step cd me (T_stable dep gen dec h evid now) db =
     (if is_sha256 evid then snd (control_txn me (stable_body cd dep gen dec h evid now) db) else db)"
| "control_step cd me (T_claim oid owner secs now) db = snd (claim me oid owner secs now db)"
| "control_step cd me (T_update oid owner st err sa h now ev) db =
     snd (update_rollback cd me oid owner st err sa h now ev db)"
| "control_step cd me (T_release oid owner) db = snd (release_lease me oid owner db)"

fun control_run ::
  "'z control_codec_scheme \<Rightarrow> string \<Rightarrow> control_txn_op list \<Rightarrow> control_db \<Rightarrow> control_db" where
  "control_run cd me [] db = db"
| "control_run cd me (t # ts) db = control_run cd me ts (control_step cd me t db)"

lemma control_run_append:
  "control_run cd me (xs @ ys) db = control_run cd me ys (control_run cd me xs db)"
  by (induction xs arbitrary: db) auto

lemma control_run_invariant:
  assumes "I db" and "\<And>t db. I db \<Longrightarrow> I (control_step cd me t db)"
  shows "I (control_run cd me ts db)"
  using assms(1) by (induction ts arbitrary: db) (auto intro: assms(2))

text \<open>An invariant of every body that runs under a verified identity is kept by the transaction.\<close>

lemma control_txn_keeps:
  assumes "I db"
    and "\<And>a db'. f db = Inr (a, db') \<Longrightarrow> I db'"
  shows "I (snd (control_txn me f db))"
  using assms
  by (auto simp: control_txn_def atomically_def split: sum.splits)

lemma control_txn_Inr:
  "control_txn me f db = (Inr a, db') \<longleftrightarrow>
     (\<exists>u. verify_identity (c_identity db) me = Inr u) \<and> f db = Inr (a, db')"
  by (auto simp: control_txn_def atomically_def split: sum.splits)

lemma control_txn_Inl: "control_txn me f db = (Inl e, db') \<Longrightarrow> db' = db"
  by (auto simp: control_txn_def atomically_def split: sum.splits)

subsection \<open>Shapes of successful transactions\<close>

lemma bootstrap_body_cases:
  assumes "bootstrap_body cd dep rid h db = Inr (d, db')"
  obtains (old) "lookup (c_deployments db) dep = Some d" "db' = db"
      "d_generation d = 0" "d_active_revision d = rid"
  | (fresh) r where "lookup (c_deployments db) dep = None"
      "lookup (c_revisions db) rid = Some r" "verifies cd h r"
      "d = \<lparr>d_deployment_id = dep, d_active_revision = rid, d_known_good_revision = rid,
           d_generation = 0, d_rollback_id = None\<rparr>"
      "db' = db\<lparr>c_deployments := upsert dep d (c_deployments db)\<rparr>"
  using assms unfolding bootstrap_body_def
  by (auto simp: Let_def split: sum.splits option.splits if_splits)

lemma activate_body_cases:
  assumes "activate_body cd dep gen dec h db = Inr (d, db')"
  obtains (replay) "lookup (c_deployments db) dep = Some d" "db' = db"
      "lookup (c_activations db) (activation_key cd dep gen (decision_digest cd dec)) \<noteq> None"
  | (fresh) st r receipt where "lookup (c_deployments db) dep = Some st"
      "lookup (c_revisions db) (candidate_revision dec) = Some r"
      "approved dec" "candidate_digest dec = revision_digest cd r" "verifies cd h r"
      "lookup (c_activations db) (activation_key cd dep gen (decision_digest cd dec)) = None"
      "d_generation st = gen" "d_rollback_id st = None"
      "d = \<lparr>d_deployment_id = dep, d_active_revision = revision_id r,
           d_known_good_revision = d_known_good_revision st,
           d_generation = d_generation st + 1, d_rollback_id = None\<rparr>"
      "db' = db\<lparr>c_deployments := upsert dep d (c_deployments db),
               c_activations := upsert (activation_key cd dep gen (decision_digest cd dec))
                 receipt (c_activations db)\<rparr>"
  using assms unfolding activate_body_def
  by (auto simp: Let_def split: sum.splits option.splits if_splits)

lemma detect_body_cases:
  assumes "detect_body cd sig now ev db = Inr (op, db')"
  obtains (replay) "lookup (c_rollbacks db) (s_signal_id sig) = Some op" "o_signal op = sig"
      "db' = db"
  | (fresh) st target where "lookup (c_rollbacks db) (s_signal_id sig) = None"
      "lookup (c_deployments db) (s_deployment_id sig) = Some st"
      "d_active_revision st = s_observed_revision sig"
      "d_generation st = s_observed_generation sig" "d_rollback_id st = None"
      "d_active_revision st \<noteq> d_known_good_revision st"
      "lookup (c_revisions db) (d_known_good_revision st) = Some target"
      "op = new_operation cd sig target now" "make_rollback op = Inr op"
      "db' = db\<lparr>c_rollbacks := upsert (s_signal_id sig) op (c_rollbacks db),
               c_deployments := upsert (d_deployment_id st)
                 (st\<lparr>d_rollback_id := Some (s_signal_id sig)\<rparr>) (c_deployments db),
               c_events := c_events db @ [(s_signal_id sig, ev, op)]\<rparr>"
  using assms unfolding detect_body_def
  by (fastforce simp: make_rollback_Inr new_operation_def
      split: sum.splits option.splits if_splits)

lemma stable_body_cases:
  assumes "stable_body cd dep gen dec h evid now db = Inr (d, db')"
  obtains st r where "lookup (c_deployments db) dep = Some st"
      "lookup (c_revisions db) (d_active_revision st) = Some r"
      "d_generation st = gen" "d_rollback_id st = None" "approved dec"
      "candidate_digest dec = revision_digest cd r" "candidate_revision dec = revision_id r"
      "verifies cd h r"
      "\<And>e k t. lookup (c_probation db) (dep, gen) = Some (e, k, t) \<Longrightarrow>
         e = evid \<and> k = decision_digest cd dec"
      "d = st\<lparr>d_known_good_revision := d_active_revision st\<rparr>"
      "db' = db\<lparr>c_probation :=
                 insert_or_ignore (dep, gen) (evid, decision_digest cd dec, now) (c_probation db),
               c_deployments := upsert dep d (c_deployments db)\<rparr>"
  using assms unfolding stable_body_def
  by (auto simp: Let_def split: sum.splits option.splits if_splits prod.splits)

lemma fence_ok:
  "fence db op = Inr st \<longleftrightarrow>
     lookup (c_deployments db) (s_deployment_id (o_signal op)) = Some st \<and>
     d_rollback_id st = Some (o_operation_id op) \<and>
     d_generation st = s_observed_generation (o_signal op) \<and>
     d_active_revision st = s_observed_revision (o_signal op)"
  by (auto simp: fence_def split: sum.splits if_splits)

lemma claim_body_cases:
  assumes "claim_body oid owner secs now db = Inr (op, db')"
  obtains st where "lookup (c_rollbacks db) oid = Some op" "fence db op = Inr st"
      "\<And>holder exp. lookup (c_leases db) oid = Some (Some holder, exp) \<Longrightarrow> exp \<le> now"
      "db' = db\<lparr>c_leases := upsert oid (Some owner, fadd now secs) (c_leases db)\<rparr>"
  using assms unfolding claim_body_def
  by (auto split: sum.splits option.splits if_splits prod.splits)

lemma update_body_cases:
  assumes "update_body cd oid owner status err sa h now ev db = Inr (op', db')"
  obtains op st deps exp where "lookup (c_rollbacks db) oid = Some op"
      "validate_transition op status sa = Inr ()" "fence db op = Inr st"
      "lookup (c_leases db) oid = Some (Some owner, exp)" "now < exp"
      "op' = changed_record op status err sa now" "make_rollback op' = Inr op'"
      "status \<noteq> Restored \<Longrightarrow> deps = c_deployments db"
      "status = Restored \<Longrightarrow> restore_deployments cd db op st h = Inr deps"
      "db' = db\<lparr>c_deployments := deps, c_rollbacks := upsert oid op' (c_rollbacks db),
               c_events := c_events db @ [(o_operation_id op', ev, op')]\<rparr>"
proof (cases "status = Restored")
  case True
  show thesis
    using assms True unfolding update_body_def
    by (auto simp: make_rollback_Inr split: sum.splits option.splits if_splits prod.splits
        intro!: that)
next
  case False
  show thesis
    using assms False unfolding update_body_def
    by (auto simp: make_rollback_Inr split: sum.splits option.splits if_splits prod.splits
        intro!: that)
qed

lemma restore_deployments_ok:
  "restore_deployments cd db op st h = Inr deps \<longleftrightarrow>
     (\<exists>target hv. lookup (c_revisions db) (o_target_revision op) = Some target \<and> h = Some hv \<and>
        verifies cd hv target \<and> revision_digest cd target = o_target_digest op \<and>
        deps = upsert (d_deployment_id st) (restored_state st target) (c_deployments db))"
  by (auto simp: restore_deployments_def split: sum.splits option.splits if_splits)

lemma validate_transition_ok:
  "validate_transition op status sa = Inr u \<longleftrightarrow>
     status \<in> set (allowed_next (o_status op)) \<and> (sa \<longrightarrow> status = Applying) \<and>
     (status = Applying \<longrightarrow> o_status op = Applying \<or> sa)"
  by (auto simp: validate_transition_def)

lemma changed_record_fields [simp]:
  "o_operation_id (changed_record op s e sa now) = o_operation_id op"
  "o_signal (changed_record op s e sa now) = o_signal op"
  "o_target_revision (changed_record op s e sa now) = o_target_revision op"
  "o_target_digest (changed_record op s e sa now) = o_target_digest op"
  "o_status (changed_record op s e sa now) = s"
  "o_last_error (changed_record op s e sa now) = e"
  "o_apply_attempts (changed_record op s e sa now) = o_apply_attempts op + (if sa then 1 else 0)"
  by (auto simp: changed_record_def Let_def)

subsection \<open>One case rule for every transaction\<close>

lemma control_txn_result:
  "snd (control_txn me f db) = db \<or> (\<exists>a. f db = Inr (a, snd (control_txn me f db)))"
  by (auto simp: control_txn_def atomically_def split: sum.splits)

text \<open>
  A transaction either leaves the database as it was or is one of the successful shapes above.
  Properties of single steps are proved by this rule.
\<close>

lemma control_step_cases:
  obtains (same) "control_step cd me t db = db"
  | (registered) r where "t = T_register r" "lookup (c_revisions db) (revision_id r) = None"
      "control_step cd me t db = db\<lparr>c_revisions := upsert (revision_id r) r (c_revisions db)\<rparr>"
  | (decided) d where "t = T_decide d"
      "control_step cd me t db =
         db\<lparr>c_decisions := upsert (decision_digest cd d) d (c_decisions db)\<rparr>"
  | (bootstrapped) dep rid h d where "t = T_bootstrap dep rid h"
      "bootstrap_body cd dep rid h db = Inr (d, control_step cd me t db)"
  | (activated) dep gen dec h d where "t = T_activate dep gen dec h"
      "activate_body cd dep gen dec h db = Inr (d, control_step cd me t db)"
  | (detected) sig now ev op where "t = T_detect sig now ev"
      "detect_body cd sig now ev db = Inr (op, control_step cd me t db)"
  | (stabilised) dep gen dec h evid now d where "t = T_stable dep gen dec h evid now"
      "stable_body cd dep gen dec h evid now db = Inr (d, control_step cd me t db)"
  | (claimed) oid owner secs now op where "t = T_claim oid owner secs now" "0 < secs" "owner \<noteq> []"
      "claim_body oid owner secs now db = Inr (op, control_step cd me t db)"
  | (updated) oid owner st err sa h now ev op where "t = T_update oid owner st err sa h now ev"
      "update_body cd oid owner st err sa h now ev db = Inr (op, control_step cd me t db)"
  | (released) oid owner expiry where "t = T_release oid owner"
      "lookup (c_leases db) oid = Some (Some owner, expiry)"
      "control_step cd me t db = db\<lparr>c_leases := upsert oid (None, 0) (c_leases db)\<rparr>"
proof (cases t)
  case (T_register r)
  then show thesis
    using same registered
      control_txn_result [of me "\<lambda>db. case lookup (c_revisions db) (revision_id r) of
        None \<Rightarrow> Inr ((), db\<lparr>c_revisions := upsert (revision_id r) r (c_revisions db)\<rparr>)
      | Some previous \<Rightarrow> if previous \<noteq> r
          then Inl (ControlConflict ''immutable revision ID reused'') else Inr ((), db)" db]
    by (auto simp: register_revision_def split: option.splits if_splits)
next
  case (T_decide d)
  then show thesis
    using same decided
      control_txn_result [of me "\<lambda>db. let key = decision_digest cd d in
        Inr (key, db\<lparr>c_decisions := upsert key d (c_decisions db)\<rparr>)" db]
    by (auto simp: record_decision_def Let_def)
next
  case (T_bootstrap dep rid h)
  then show thesis
    using same bootstrapped control_txn_result [of me "bootstrap_body cd dep rid h" db]
    by (auto simp: bootstrap_def)
next
  case (T_activate dep gen dec h)
  then show thesis
    using same activated control_txn_result [of me "activate_body cd dep gen dec h" db] by auto
next
  case (T_detect sig now ev)
  then show thesis
    using same detected control_txn_result [of me "detect_body cd sig now ev" db]
    by (auto simp: detect_def)
next
  case (T_stable dep gen dec h evid now)
  then show thesis
    using same stabilised control_txn_result [of me "stable_body cd dep gen dec h evid now" db]
    by (cases "is_sha256 evid") auto
next
  case (T_claim oid owner secs now)
  then show thesis
    using same claimed control_txn_result [of me "claim_body oid owner secs now" db]
    by (cases "secs \<le> 0 \<or> owner = []") (auto simp: claim_def)
next
  case (T_update oid owner st err sa h now ev)
  then show thesis
    using same updated
      control_txn_result [of me "update_body cd oid owner st err sa h now ev" db]
    by (auto simp: update_rollback_def)
next
  case (T_release oid owner)
  then show thesis
    using same released
      control_txn_result [of me "\<lambda>db. case lookup (c_leases db) oid of
        Some (Some holder, _) \<Rightarrow> Inr ((), if holder = owner
          then db\<lparr>c_leases := upsert oid (None, 0) (c_leases db)\<rparr> else db)
      | _ \<Rightarrow> Inr ((), db)" db]
    by (auto simp: release_lease_def split: option.splits prod.splits if_splits)
qed

subsection \<open>The invariant\<close>

text \<open>
  A rollback operation that is not restored owns its deployment, and a deployment's rollback
  owner is a live operation whose signal names exactly the deployment's current generation
  and active revision and whose target is its known-good revision.
\<close>

definition owns :: "deployment_state \<Rightarrow> rollback_record \<Rightarrow> bool" where
  "owns d op \<longleftrightarrow>
     s_deployment_id (o_signal op) = d_deployment_id d \<and>
     s_observed_generation (o_signal op) = d_generation d \<and>
     s_observed_revision (o_signal op) = d_active_revision d \<and>
     o_target_revision op = d_known_good_revision d \<and>
     d_active_revision d \<noteq> d_known_good_revision d \<and> o_status op \<noteq> Restored"

definition revision_ok :: "control_db \<Rightarrow> string \<Rightarrow> revision \<Rightarrow> bool" where
  "revision_ok db k r \<longleftrightarrow> revision_id r = k"

definition deployment_ok :: "control_db \<Rightarrow> string \<Rightarrow> deployment_state \<Rightarrow> bool" where
  "deployment_ok db k d \<longleftrightarrow>
     d_deployment_id d = k \<and>
     lookup (c_revisions db) (d_active_revision d) \<noteq> None \<and>
     lookup (c_revisions db) (d_known_good_revision d) \<noteq> None \<and>
     (\<forall>oid. d_rollback_id d = Some oid \<longrightarrow> (\<exists>op. lookup (c_rollbacks db) oid = Some op \<and> owns d op))"

definition rollback_ok :: "control_db \<Rightarrow> string \<Rightarrow> rollback_record \<Rightarrow> bool" where
  "rollback_ok db k op \<longleftrightarrow>
     o_operation_id op = k \<and> make_rollback op = Inr op \<and>
     (o_status op \<noteq> Restored \<longrightarrow>
        (\<exists>d. lookup (c_deployments db) (s_deployment_id (o_signal op)) = Some d \<and>
             d_rollback_id d = Some k))"

definition control_inv :: "control_db \<Rightarrow> bool" where
  "control_inv db \<longleftrightarrow>
     (\<forall>k r. lookup (c_revisions db) k = Some r \<longrightarrow> revision_ok db k r) \<and>
     (\<forall>k d. lookup (c_deployments db) k = Some d \<longrightarrow> deployment_ok db k d) \<and>
     (\<forall>k op. lookup (c_rollbacks db) k = Some op \<longrightarrow> rollback_ok db k op)"

lemmas control_inv_defs = control_inv_def revision_ok_def deployment_ok_def rollback_ok_def

lemma control_invD:
  assumes "control_inv db"
  shows "lookup (c_revisions db) k = Some r \<Longrightarrow> revision_id r = k"
    and "lookup (c_deployments db) k = Some d \<Longrightarrow> deployment_ok db k d"
    and "lookup (c_rollbacks db) k = Some op \<Longrightarrow> rollback_ok db k op"
  using assms by (auto simp: control_inv_def revision_ok_def)

lemma control_inv_empty: "control_inv (empty_control i)"
  by (simp add: control_inv_def empty_control_def)

text \<open>Operations that leave the three tables alone keep the invariant.\<close>

lemma control_inv_frame:
  assumes "control_inv db" and "c_revisions db' = c_revisions db"
    and "c_deployments db' = c_deployments db" and "c_rollbacks db' = c_rollbacks db"
  shows "control_inv db'"
  using assms by (simp add: control_inv_defs)

text \<open>Replacing one deployment, when no rollback changes.\<close>

lemma control_inv_set_deployment:
  assumes inv: "control_inv db"
    and same: "c_revisions db' = c_revisions db" "c_rollbacks db' = c_rollbacks db"
    and deps: "c_deployments db' = upsert dep d (c_deployments db)"
    and ok: "deployment_ok db' dep d"
    and live: "\<And>k op. lookup (c_rollbacks db) k = Some op \<Longrightarrow> o_status op \<noteq> Restored \<Longrightarrow>
      s_deployment_id (o_signal op) = dep \<Longrightarrow> d_rollback_id d = Some k"
  shows "control_inv db'"
  unfolding control_inv_def
proof (intro conjI allI impI)
  fix k r assume "lookup (c_revisions db') k = Some r"
  with inv same show "revision_ok db' k r" by (simp add: control_inv_defs)
next
  fix k e assume "lookup (c_deployments db') k = Some e"
  then have e: "k = dep \<and> e = d \<or> k \<noteq> dep \<and> lookup (c_deployments db) k = Some e"
    by (auto simp: deps tbl split: if_splits)
  then show "deployment_ok db' k e"
    using ok control_invD(2) [OF inv] same by (auto simp: deployment_ok_def)
next
  fix k op assume "lookup (c_rollbacks db') k = Some op"
  then have op: "lookup (c_rollbacks db) k = Some op" by (simp add: same)
  with control_invD(3) [OF inv op] live [OF op] show "rollback_ok db' k op"
    by (cases "o_status op = Restored") (auto simp: rollback_ok_def deps tbl)
qed

text \<open>Replacing one deployment and one rollback operation together.\<close>

lemma control_inv_set_both:
  assumes inv: "control_inv db"
    and same: "c_revisions db' = c_revisions db"
    and deps: "c_deployments db' = upsert dep d (c_deployments db)"
    and rbs: "c_rollbacks db' = upsert oid op (c_rollbacks db)"
    and ok: "deployment_ok db' dep d" "rollback_ok db' oid op"
    and noref: "\<And>k e. k \<noteq> dep \<Longrightarrow> lookup (c_deployments db) k = Some e \<Longrightarrow>
      d_rollback_id e \<noteq> Some oid"
    and live: "\<And>k q. k \<noteq> oid \<Longrightarrow> lookup (c_rollbacks db) k = Some q \<Longrightarrow>
      o_status q \<noteq> Restored \<Longrightarrow> s_deployment_id (o_signal q) \<noteq> dep"
  shows "control_inv db'"
  unfolding control_inv_def
proof (intro conjI allI impI)
  fix k r assume "lookup (c_revisions db') k = Some r"
  with inv same show "revision_ok db' k r" by (simp add: control_inv_defs)
next
  fix k e assume "lookup (c_deployments db') k = Some e"
  then consider "k = dep" "e = d" | "k \<noteq> dep" "lookup (c_deployments db) k = Some e"
    by (auto simp: deps tbl split: if_splits)
  then show "deployment_ok db' k e"
  proof cases
    case 1
    with ok show ?thesis by simp
  next
    case 2
    then show ?thesis
      using control_invD(2) [OF inv 2(2)] noref [OF 2] same
      by (auto simp: deployment_ok_def rbs tbl)
  qed
next
  fix k q assume "lookup (c_rollbacks db') k = Some q"
  then consider "k = oid" "q = op" | "k \<noteq> oid" "lookup (c_rollbacks db) k = Some q"
    by (auto simp: rbs tbl split: if_splits)
  then show "rollback_ok db' k q"
  proof cases
    case 1
    with ok show ?thesis by simp
  next
    case 2
    then show ?thesis
      using control_invD(3) [OF inv 2(2)] live [OF 2]
      by (auto simp: rollback_ok_def deps tbl)
  qed
qed

text \<open>The live operation of a deployment is the one the deployment names.\<close>

lemma live_owner:
  assumes "control_inv db" and "lookup (c_rollbacks db) k = Some op"
    and "o_status op \<noteq> Restored" and "lookup (c_deployments db) (s_deployment_id (o_signal op)) = Some d"
  shows "d_rollback_id d = Some k"
  using control_invD(3) [OF assms(1,2)] assms(3,4) by (auto simp: rollback_ok_def)

lemma owner_deployment:
  assumes "control_inv db" and "lookup (c_deployments db) k = Some d"
    and "d_rollback_id d = Some oid" and "lookup (c_rollbacks db) oid = Some op"
  shows "owns d op" and "k = s_deployment_id (o_signal op)"
  using control_invD(2) [OF assms(1,2)] assms(3,4) by (auto simp: deployment_ok_def owns_def)

lemma control_inv_register:
  assumes "control_inv db" and "lookup (c_revisions db) (revision_id r) = None"
  shows "control_inv (db\<lparr>c_revisions := upsert (revision_id r) r (c_revisions db)\<rparr>)"
  using assms by (auto simp: control_inv_def revision_ok_def deployment_ok_def rollback_ok_def tbl)

lemma control_inv_bootstrap:
  assumes inv: "control_inv db" and "bootstrap_body cd dep rid h db = Inr (d, db')"
  shows "control_inv db'"
  using assms(2)
proof (cases rule: bootstrap_body_cases)
  case old
  with assms(1) show ?thesis by simp
next
  case (fresh r)
  show ?thesis
  proof (rule control_inv_set_deployment [OF inv])
    show "deployment_ok db' dep d"
      using fresh by (simp add: deployment_ok_def)
    fix k op
    assume "lookup (c_rollbacks db) k = Some op" "o_status op \<noteq> Restored"
      "s_deployment_id (o_signal op) = dep"
    with control_invD(3) [OF inv this(1)] fresh(1) show "d_rollback_id d = Some k"
      by (auto simp: rollback_ok_def)
  qed (simp_all add: fresh)
qed

lemma control_inv_activate:
  assumes inv: "control_inv db" and "activate_body cd dep gen dec h db = Inr (d, db')"
  shows "control_inv db'"
  using assms(2)
proof (cases rule: activate_body_cases)
  case replay
  with assms(1) show ?thesis by simp
next
  case (fresh st r receipt)
  show ?thesis
  proof (rule control_inv_set_deployment [OF inv])
    show "deployment_ok db' dep d"
      using fresh control_invD(1) [OF inv fresh(2)] control_invD(2) [OF inv fresh(1)]
      by (simp add: deployment_ok_def)
    fix k op
    assume "lookup (c_rollbacks db) k = Some op" "o_status op \<noteq> Restored"
      "s_deployment_id (o_signal op) = dep"
    with live_owner [OF inv this(1,2)] fresh(1,8) show "d_rollback_id d = Some k" by simp
  qed (simp_all add: fresh)
qed

lemma control_inv_detect:
  assumes inv: "control_inv db" and "detect_body cd sig now ev db = Inr (op, db')"
  shows "control_inv db'"
  using assms(2)
proof (cases rule: detect_body_cases)
  case replay
  with inv show ?thesis by simp
next
  case (fresh st target)
  have st: "deployment_ok db (s_deployment_id sig) st"
    using control_invD(2) [OF inv fresh(2)] .
  have target: "revision_id target = d_known_good_revision st"
    using control_invD(1) [OF inv fresh(7)] .
  show ?thesis
  proof (rule control_inv_set_both [OF inv, where dep = "s_deployment_id sig"
        and oid = "s_signal_id sig" and op = op
        and d = "st\<lparr>d_rollback_id := Some (s_signal_id sig)\<rparr>"])
    show "deployment_ok db' (s_deployment_id sig) (st\<lparr>d_rollback_id := Some (s_signal_id sig)\<rparr>)"
      using st fresh target by (simp add: deployment_ok_def owns_def new_operation_def tbl)
    show "rollback_ok db' (s_signal_id sig) op"
      using fresh(8,9,10) st by (simp add: rollback_ok_def new_operation_def deployment_ok_def tbl)
    fix k e assume "lookup (c_deployments db) k = Some e"
    with control_invD(2) [OF inv this] fresh(1) show "d_rollback_id e \<noteq> Some (s_signal_id sig)"
      by (auto simp: deployment_ok_def)
  next
    fix k q assume "lookup (c_rollbacks db) k = Some q" "o_status q \<noteq> Restored"
    with live_owner [OF inv this] fresh(2,5) show "s_deployment_id (o_signal q) \<noteq> s_deployment_id sig"
      by auto
  qed (use st fresh in \<open>simp_all add: deployment_ok_def\<close>)
qed

lemma control_inv_stable:
  assumes inv: "control_inv db" and "stable_body cd dep gen dec h evid now db = Inr (d, db')"
  shows "control_inv db'"
  using assms(2)
proof (cases rule: stable_body_cases)
  case (1 st r)
  show ?thesis
  proof (rule control_inv_set_deployment [OF inv])
    show "deployment_ok db' dep d"
      using 1 control_invD(2) [OF inv 1(1)] by (simp add: deployment_ok_def)
    fix k op
    assume "lookup (c_rollbacks db) k = Some op" "o_status op \<noteq> Restored"
      "s_deployment_id (o_signal op) = dep"
    with live_owner [OF inv this(1,2)] 1(1,4) show "d_rollback_id d = Some k" by simp
  qed (simp_all add: 1)
qed

lemma control_inv_claim:
  assumes "control_inv db" and "claim_body oid owner secs now db = Inr (op, db')"
  shows "control_inv db'"
  using assms(2)
proof (cases rule: claim_body_cases)
  case (1 st)
  with assms(1) show ?thesis by (auto intro: control_inv_frame)
qed

lemma control_inv_update:
  assumes inv: "control_inv db"
    and "update_body cd oid owner status err sa h now ev db = Inr (op', db')"
  shows "control_inv db'"
  using assms(2)
proof (cases rule: update_body_cases)
  case (1 op st deps expiry)
  let ?dep = "s_deployment_id (o_signal op)"
  have st: "lookup (c_deployments db) ?dep = Some st" "d_rollback_id st = Some oid"
    using 1(3) control_invD(3) [OF inv 1(1)] by (auto simp: fence_ok rollback_ok_def)
  have dok: "deployment_ok db ?dep st"
    using control_invD(2) [OF inv st(1)] .
  have own: "owns st op"
    using owner_deployment [OF inv st(1,2) 1(1)] by simp
  have oid: "o_operation_id op = oid"
    using control_invD(3) [OF inv 1(1)] by (simp add: rollback_ok_def)
  have noref: "d_rollback_id e \<noteq> Some oid"
    if "k \<noteq> ?dep" "lookup (c_deployments db) k = Some e" for k e
    using owner_deployment(2) [OF inv that(2) _ 1(1)] that(1) by auto
  have live: "s_deployment_id (o_signal q) \<noteq> ?dep"
    if "k \<noteq> oid" "lookup (c_rollbacks db) k = Some q" "o_status q \<noteq> Restored" for k q
    using live_owner [OF inv that(2,3)] st that(1) by auto
  define d where "d = (if status = Restored then
      restored_state st (the (lookup (c_revisions db) (o_target_revision op))) else st)"
  have same_upsert: "control_inv (db'\<lparr>c_deployments := upsert ?dep d (c_deployments db)\<rparr>)"
  proof (rule control_inv_set_both [OF inv, where dep = ?dep and oid = oid and op = op' and d = d])
    let ?db = "db'\<lparr>c_deployments := upsert ?dep d (c_deployments db)\<rparr>"
    show "deployment_ok ?db ?dep d"
    proof (cases "status = Restored")
      case True
      then obtain target where t: "lookup (c_revisions db) (o_target_revision op) = Some target"
        using 1(9) by (auto simp: restore_deployments_ok)
      with True control_invD(1) [OF inv t] dok 1(10) show ?thesis
        by (simp add: deployment_ok_def d_def restored_state_def)
    next
      case False
      with own dok st(2) 1(6,10) show ?thesis
        by (simp add: deployment_ok_def d_def owns_def tbl)
    qed
    show "rollback_ok ?db oid op'"
      using 1(6,7,10) oid st(2) by (simp add: rollback_ok_def d_def tbl)
  qed (use 1(10) noref live in simp_all)
  have "lookup (upsert ?dep d (c_deployments db)) k = lookup deps k" for k
  proof (cases "status = Restored")
    case True
    then show ?thesis
      using 1(9) dok by (auto simp: restore_deployments_ok d_def deployment_ok_def tbl)
  next
    case False
    then show ?thesis
      using 1(8) st by (simp add: d_def tbl)
  qed
  with same_upsert 1(10) show ?thesis
    by (simp add: control_inv_defs)
qed

lemma control_inv_step:
  assumes inv: "control_inv db"
  shows "control_inv (control_step cd me t db)"
proof (cases rule: control_step_cases [where cd = cd and me = me and t = t and db = db])
  case same
  with inv show ?thesis by simp
next
  case (registered r)
  with inv show ?thesis by (simp add: control_inv_register)
next
  case (decided d)
  with inv show ?thesis by (simp add: control_inv_frame [OF inv])
next
  case (released oid owner expiry)
  with inv show ?thesis by (simp add: control_inv_frame [OF inv])
qed (auto intro: inv control_inv_bootstrap control_inv_activate control_inv_detect
    control_inv_stable control_inv_claim control_inv_update)

lemma control_inv_run: "control_inv db \<Longrightarrow> control_inv (control_run cd me ts db)"
  by (rule control_run_invariant) (auto intro: control_inv_step)

end
