(* ===== verification/ControlGuarantees.thy ===== *)
theory ControlGuarantees
  imports ControlProofs
begin

text \<open>
  The guarantees of the control-plane store, from its invariant: one live rollback per
  deployment, the generation fence, frozen promotion during a rollback, lease exclusion,
  idempotent activation, immutable revisions and the audit trail of transitions.
\<close>

subsection \<open>A concrete store for witnesses\<close>

definition demo_codec :: control_codec where
  "demo_codec = \<lparr>sha256 = (\<lambda>s. s), revision_json = revision_id,
     decision_json = candidate_revision, apply_json = q_idempotency_key\<rparr>"

definition demo_identity :: string where
  "demo_identity = ''0123456789abcdef0123456789abcdef''"

definition demo_revision :: "string \<Rightarrow> revision" where
  "demo_revision i = \<lparr>revision_id = i, model_revision = ''m1'', tokenizer_revision = ''t1'',
     source_revision = ''s1'', image_digest = ''sha256:'', config_digest = [],
     engine = ''vllm'', engine_config = ''c''\<rparr>"

definition demo_health :: "string \<Rightarrow> health" where
  "demo_health i = \<lparr>h_revision_id = i, h_revision_digest = i, h_ready = True, h_smoke_passed = True\<rparr>"

definition demo_decision :: "string \<Rightarrow> decision" where
  "demo_decision i = \<lparr>candidate_revision = i, candidate_digest = i, policy_version = ''v1'',
     evidence_digest = Some ''e'', rejection_reasons = [], quality_parity = None,
     candidate_accuracy = None\<rparr>"

definition demo_signal :: regression_signal where
  "demo_signal = \<lparr>s_signal_id = ''op'', s_deployment_id = ''d'', s_observed_revision = ''b'',
     s_observed_generation = 1, s_detected_at = 10, s_detector = ''probe'', s_reason = ''slow''\<rparr>"

text \<open>Baseline \<open>a\<close> is bootstrapped, candidate \<open>b\<close> activated, then a regression detected.\<close>

definition demo_setup :: "control_txn_op list" where
  "demo_setup = [T_register (demo_revision ''a''), T_register (demo_revision ''b''),
     T_bootstrap ''d'' ''a'' (demo_health ''a''),
     T_activate ''d'' 0 (demo_decision ''b'') (demo_health ''b'')]"

definition demo_run :: "control_txn_op list" where
  "demo_run = demo_setup @ [T_detect demo_signal 11 11]"

lemmas demo_defs = demo_codec_def demo_identity_def demo_revision_def demo_health_def
  demo_decision_def demo_signal_def demo_setup_def demo_run_def

lemmas control_eval = control_txn_def atomically_def verify_identity_def read_identity_def
  lower_hex_def register_revision_def bootstrap_def bootstrap_body_def activate_body_def
  activation_key_def decision_digest_def revision_digest_def verifies_def approved_def
  detect_def detect_body_def new_operation_def make_rollback_def rollback_fields_def
  state_timing_def load_record_def empty_control_def decimal.simps digit_def Let_def

definition demo_db :: control_db where
  "demo_db = control_run demo_codec demo_identity demo_run (empty_control demo_identity)"

definition demo_active :: deployment_state where
  "demo_active = \<lparr>d_deployment_id = ''d'', d_active_revision = ''b'',
     d_known_good_revision = ''a'', d_generation = 1, d_rollback_id = Some ''op''\<rparr>"

definition demo_operation :: rollback_record where
  "demo_operation = new_operation demo_codec demo_signal (demo_revision ''a'') 11"

lemma demo_db_eval:
  "lookup (c_deployments demo_db) ''d'' = Some demo_active"
  "lookup (c_rollbacks demo_db) ''op'' = Some demo_operation"
  "lookup (c_revisions demo_db) ''a'' = Some (demo_revision ''a'')"
  "c_identity demo_db = Some demo_identity"
  "c_leases demo_db = []"
  by (simp_all add: demo_db_def demo_active_def demo_operation_def demo_defs control_eval)

subsection \<open>One live rollback per deployment\<close>

lemma control_inv_demo: "control_inv demo_db"
  unfolding demo_db_def by (intro control_inv_run control_inv_empty)

text \<open>C1: In every store reached from an empty one by any sequence of transactions of any
  number of processes, with any clock readings, two unrestored rollback operations of the same
  deployment are the same operation, it is the one the deployment names, and it names the
  deployment's current generation, active revision and known-good target.\<close>

theorem one_live_rollback:
  assumes "db = control_run cd me ts (empty_control i)"
    and "lookup (c_rollbacks db) k = Some op" and "o_status op \<noteq> Restored"
  shows "\<exists>d. lookup (c_deployments db) (s_deployment_id (o_signal op)) = Some d \<and>
      d_rollback_id d = Some k \<and> owns d op \<and>
      (\<forall>k' op'. lookup (c_rollbacks db) k' = Some op' \<longrightarrow> o_status op' \<noteq> Restored \<longrightarrow>
         s_deployment_id (o_signal op') = s_deployment_id (o_signal op) \<longrightarrow> k' = k)"
proof -
  have inv: "control_inv db"
    unfolding assms(1) by (intro control_inv_run control_inv_empty)
  from control_invD(3) [OF inv assms(2)] assms(3) obtain d where
    d: "lookup (c_deployments db) (s_deployment_id (o_signal op)) = Some d"
       "d_rollback_id d = Some k"
    by (auto simp: rollback_ok_def)
  moreover have "owns d op"
    using owner_deployment(1) [OF inv d assms(2)] .
  moreover have "k' = k" if "lookup (c_rollbacks db) k' = Some op'" "o_status op' \<noteq> Restored"
    "s_deployment_id (o_signal op') = s_deployment_id (o_signal op)" for k' op'
    using live_owner [OF inv that(1,2)] d that(3) by simp
  ultimately show ?thesis by blast
qed

theorem one_live_rollback_witness:
  "\<exists>d. lookup (c_deployments demo_db) ''d'' = Some d \<and> d_rollback_id d = Some ''op''"
proof -
  have s: "o_status demo_operation \<noteq> Restored"
    "s_deployment_id (o_signal demo_operation) = ''d''"
    by (simp_all add: demo_operation_def new_operation_def demo_signal_def)
  show ?thesis
    using one_live_rollback [OF demo_db_def demo_db_eval(2) s(1)] s(2) by auto
qed

subsection \<open>The generation fence\<close>

definition fenced :: "deployment_state \<Rightarrow> deployment_state \<Rightarrow> bool" where
  "fenced d d' \<longleftrightarrow>
     d_generation d \<le> d_generation d' \<and>
     (d_generation d' = d_generation d \<longrightarrow> d_active_revision d' = d_active_revision d)"

lemma fenced_refl [simp]: "fenced d d"
  by (simp add: fenced_def)

lemma fenced_trans: "fenced a b \<Longrightarrow> fenced b c \<Longrightarrow> fenced a c"
  by (auto simp: fenced_def)

lemma fenced_step:
  assumes inv: "control_inv db" and d: "lookup (c_deployments db) k = Some d"
  shows "\<exists>d'. lookup (c_deployments (control_step cd me t db)) k = Some d' \<and> fenced d d'"
proof -
  have dk: "d_deployment_id e = k'" if "lookup (c_deployments db) k' = Some e" for k' e
    using control_invD(2) [OF inv that] by (simp add: deployment_ok_def)
  show ?thesis
  proof (cases rule: control_step_cases [where cd = cd and me = me and t = t and db = db])
    case (bootstrapped dep rid h e)
    from this(2) d show ?thesis by (cases rule: bootstrap_body_cases) (auto simp: tbl)
  next
    case (activated dep gen dec h e)
    from this(2) d show ?thesis
      by (cases rule: activate_body_cases) (auto simp: tbl fenced_def)
  next
    case (detected sig now ev op)
    from this(2) d dk show ?thesis
      by (cases rule: detect_body_cases) (auto simp: tbl fenced_def)
  next
    case (stabilised dep gen dec h evid now e)
    from this(2) d show ?thesis
      by (cases rule: stable_body_cases) (auto simp: tbl fenced_def)
  next
    case (claimed oid owner secs now op)
    from this(4) d show ?thesis by (cases rule: claim_body_cases) auto
  next
    case (updated oid owner st err sa h now ev op)
    from this(2) show ?thesis
    proof (cases rule: update_body_cases)
      case (1 old st' deps expiry)
      then show ?thesis
        using dk [of "s_deployment_id (o_signal old)" st'] d
        by (cases "st = Restored")
          (auto simp: restore_deployments_ok restored_state_def fence_ok tbl fenced_def)
    qed
  qed (use d in auto)
qed

lemma fenced_run:
  assumes "control_inv db" and "lookup (c_deployments db) k = Some d"
  shows "\<exists>d'. lookup (c_deployments (control_run cd me ts db)) k = Some d' \<and> fenced d d'"
  using assms
proof (induction ts arbitrary: db d)
  case Nil
  then show ?case by simp
next
  case (Cons t ts)
  obtain d1 where d1: "lookup (c_deployments (control_step cd me t db)) k = Some d1" "fenced d d1"
    using fenced_step [OF Cons.prems] by blast
  obtain d2 where "lookup (c_deployments (control_run cd me ts (control_step cd me t db))) k = Some d2"
    "fenced d1 d2"
    using Cons.IH [OF control_inv_step [OF Cons.prems(1)] d1(1)] by blast
  with d1(2) show ?case by (auto intro: fenced_trans)
qed

text \<open>C2: A deployment, once it exists, never disappears, its generation never decreases, and
  whenever the generation is the same the active revision is the same, over every sequence of
  transactions: comparing the generation is enough to fence a stale actor.\<close>

theorem generation_fences_active_revision:
  assumes "control_inv db" and "lookup (c_deployments db) k = Some d"
  shows "\<exists>d'. lookup (c_deployments (control_run cd me ts db)) k = Some d' \<and>
      d_generation d \<le> d_generation d' \<and>
      (d_generation d' = d_generation d \<longrightarrow> d_active_revision d' = d_active_revision d)"
  using fenced_run [OF assms] by (simp add: fenced_def)

theorem generation_fences_active_revision_witness:
  "\<exists>d'. lookup (c_deployments (control_run demo_codec demo_identity demo_run demo_db)) ''d'' = Some d' \<and>
      1 \<le> d_generation d'"
  using generation_fences_active_revision [OF control_inv_demo demo_db_eval(1),
      where ts = demo_run and me = demo_identity and cd = demo_codec]
  by (auto simp: demo_active_def)

subsection \<open>Promotion is frozen during a rollback\<close>

text \<open>While a rollback owns the deployment, neither an activation that has not been
  acknowledged before nor a probation approval succeeds: both are refused and the store keeps
  its deployments.\<close>

theorem promotion_frozen:
  assumes "lookup (c_deployments db) dep = Some d" and "d_rollback_id d \<noteq> None"
    and "lookup (c_activations db) (activation_key cd dep gen (decision_digest cd dec)) = None"
  shows "\<not> is_ok (fst (activate_candidate cd me dep gen dec h db)) \<and>
    \<not> is_ok (fst (mark_stable cd me dep gen dec h evid now db)) \<and>
    c_deployments (snd (activate_candidate cd me dep gen dec h db)) = c_deployments db \<and>
    c_deployments (snd (mark_stable cd me dep gen dec h evid now db)) = c_deployments db"
proof -
  define db1 where "db1 = snd (record_decision cd me dec db)"
  have db1: "c_deployments db1 = c_deployments db" "c_activations db1 = c_activations db"
    by (auto simp: db1_def record_decision_def control_txn_def atomically_def Let_def
        split: sum.splits)
  have a: "\<not> (\<exists>x. activate_body cd dep gen dec h db1 = Inr x)"
    using assms db1 by (auto elim!: activate_body_cases)
  have s: "\<not> (\<exists>x. stable_body cd dep gen dec h evid now db1 = Inr x)"
    using assms db1 by (auto elim!: stable_body_cases)
  have fail: "\<not> is_ok (fst (control_txn me f db1)) \<and> snd (control_txn me f db1) = db1"
    if "\<not> (\<exists>x. f db1 = Inr x)" for f :: "(control_db, deployment_state) body"
    using that by (auto simp: control_txn_def atomically_def split: sum.splits)
  obtain r where r: "record_decision cd me dec db = (r, db1)"
    by (metis db1_def prod.collapse)
  show ?thesis
    using fail [of "activate_body cd dep gen dec h"] a
      fail [of "stable_body cd dep gen dec h evid now"] s db1 r
    by (cases r) (auto simp: activate_candidate_def mark_stable_def seq_def)
qed

theorem promotion_frozen_witness:
  "\<not> is_ok (fst (mark_stable demo_codec demo_identity ''d'' 1 (demo_decision ''b'')
      (demo_health ''b'') (replicate 64 CHR ''0'') 12 demo_db))"
proof -
  have a: "lookup (c_activations demo_db)
      (activation_key demo_codec ''d'' 1 (decision_digest demo_codec (demo_decision ''b''))) = None"
    by (simp add: demo_db_def demo_defs control_eval)
  have r: "d_rollback_id demo_active \<noteq> None"
    by (simp add: demo_active_def)
  show ?thesis
    using promotion_frozen [OF demo_db_eval(1) r a] by blast
qed

subsection \<open>Lease exclusion\<close>

text \<open>
  \<open>held oid owner until db\<close>: the row names the owner and expires no earlier than \<open>until\<close>.
  It survives every transaction that reads the clock before \<open>until\<close>, except a release by
  the owner itself and a new claim by the owner with a shorter lease, which is refused while
  the lease is active.
\<close>

definition held :: "string \<Rightarrow> string \<Rightarrow> flt \<Rightarrow> control_db \<Rightarrow> bool" where
  "held oid owner expiry db \<longleftrightarrow> lookup (c_leases db) oid = Some (Some owner, expiry)"

fun within_lease :: "string \<Rightarrow> string \<Rightarrow> flt \<Rightarrow> control_txn_op \<Rightarrow> bool" where
  "within_lease oid owner expiry (T_claim oid' owner' secs now) \<longleftrightarrow> now < expiry"
| "within_lease oid owner expiry (T_update oid' owner' st err sa h now ev) \<longleftrightarrow> now < expiry"
| "within_lease oid owner expiry (T_release oid' owner') \<longleftrightarrow> oid' \<noteq> oid \<or> owner' \<noteq> owner"
| "within_lease oid owner expiry _ \<longleftrightarrow> True"

lemma held_step:
  assumes held: "held oid owner expiry db" and "within_lease oid owner expiry t"
  shows "held oid owner expiry (control_step cd me t db)"
proof (cases rule: control_step_cases [where cd = cd and me = me and t = t and db = db])
  case (bootstrapped dep rid h e)
  from this(2) held show ?thesis by (cases rule: bootstrap_body_cases) (auto simp: held_def)
next
  case (activated dep gen dec h e)
  from this(2) held show ?thesis by (cases rule: activate_body_cases) (auto simp: held_def)
next
  case (detected sig now ev op)
  from this(2) held show ?thesis by (cases rule: detect_body_cases) (auto simp: held_def)
next
  case (stabilised dep gen dec h evid now e)
  from this(2) held show ?thesis by (cases rule: stable_body_cases) (auto simp: held_def)
next
  case (claimed oid' owner' secs now op)
  from this(4) show ?thesis
  proof (cases rule: claim_body_cases)
    case (1 st)
    with assms claimed(1) show ?thesis
      by (cases "oid' = oid") (fastforce simp: held_def tbl)+
  qed
next
  case (updated oid' owner' st err sa h now ev op)
  from this(2) held show ?thesis by (cases rule: update_body_cases) (auto simp: held_def)
next
  case (released oid' owner' expiry')
  with assms show ?thesis by (auto simp: held_def tbl)
qed (use held in \<open>auto simp: held_def\<close>)

lemma held_run:
  "held oid owner expiry db \<Longrightarrow> list_all (within_lease oid owner expiry) ts \<Longrightarrow>
     held oid owner expiry (control_run cd me ts db)"
  by (induction ts arbitrary: db) (auto intro: held_step)

text \<open>C3: After a successful claim, until the lease expires or its owner releases it, no other
  worker can claim the operation and no other worker can record any transition of it, whatever
  transactions run in between.\<close>

theorem lease_excludes_other_workers:
  assumes claimed: "claim me oid owner secs t0 db = (Inr op, db0)"
    and between: "list_all (within_lease oid owner (fadd t0 secs)) ts"
    and other: "owner' \<noteq> owner" and early: "now < fadd t0 secs"
  shows "\<not> is_ok (fst (claim me oid owner' secs' now (control_run cd me ts db0))) \<and>
    \<not> is_ok (fst (update_rollback cd me oid owner' status err sa h now ev
                    (control_run cd me ts db0)))"
proof -
  have "held oid owner (fadd t0 secs) db0"
    using claimed
    by (auto simp: claim_def control_txn_Inr held_def tbl split: if_splits elim!: claim_body_cases)
  then have held: "held oid owner (fadd t0 secs) (control_run cd me ts db0)"
    using between by (rule held_run)
  let ?db = "control_run cd me ts db0"
  have "claim_body oid owner' secs' now ?db \<noteq> Inr x" for x
    using held early by (cases x) (auto simp: held_def elim!: claim_body_cases)
  moreover have "update_body cd oid owner' status err sa h now ev ?db \<noteq> Inr x" for x
    using held other by (cases x) (auto simp: held_def elim!: update_body_cases)
  ultimately show ?thesis
    by (auto simp: claim_def update_rollback_def control_txn_def atomically_def
        split: sum.splits)
qed

theorem lease_excludes_other_workers_witness:
  "\<exists>db0. claim demo_identity ''op'' ''w1'' 20 20 demo_db = (Inr demo_operation, db0) \<and>
     \<not> is_ok (fst (claim demo_identity ''op'' ''w2'' 20 30 db0))"
proof -
  have c: "claim demo_identity ''op'' ''w1'' 20 20 demo_db =
      (Inr demo_operation, demo_db\<lparr>c_leases := [(''op'', Some ''w1'', 40)]\<rparr>)"
    by (simp add: claim_def claim_body_def fence_def control_txn_def atomically_def
        load_record_def demo_db_eval verify_identity_def read_identity_def demo_identity_def
        lower_hex_def demo_operation_def demo_active_def new_operation_def demo_signal_def fadd_def)
  have "\<not> is_ok (fst (claim demo_identity ''op'' ''w2'' 20 30
      (demo_db\<lparr>c_leases := [(''op'', Some ''w1'', 40)]\<rparr>)))"
    using lease_excludes_other_workers [OF c, where ts = "[]" and owner' = "''w2''" and now = 30
        and secs' = 20 and cd = demo_codec]
    by (simp add: fadd_def)
  with c show ?thesis by blast
qed

subsection \<open>Activation is acknowledged once\<close>

text \<open>
  An activation receipt is never removed, so a replay of the acknowledgement finds it.
\<close>

lemma activation_kept_step:
  assumes "lookup (c_activations db) k \<noteq> None"
  shows "lookup (c_activations (control_step cd me t db)) k \<noteq> None"
proof (cases rule: control_step_cases [where cd = cd and me = me and t = t and db = db])
  case (bootstrapped dep rid h e)
  from this(2) assms show ?thesis by (cases rule: bootstrap_body_cases) auto
next
  case (activated dep gen dec h e)
  from this(2) assms show ?thesis by (cases rule: activate_body_cases) (auto simp: tbl)
next
  case (detected sig now ev op)
  from this(2) assms show ?thesis by (cases rule: detect_body_cases) auto
next
  case (stabilised dep gen dec h evid now e)
  from this(2) assms show ?thesis by (cases rule: stable_body_cases) auto
next
  case (claimed oid owner secs now op)
  from this(4) assms show ?thesis by (cases rule: claim_body_cases) auto
next
  case (updated oid owner st err sa h now ev op)
  from this(2) assms show ?thesis by (cases rule: update_body_cases) auto
qed (use assms in auto)

lemma activation_kept_run:
  "lookup (c_activations db) k \<noteq> None \<Longrightarrow> lookup (c_activations (control_run cd me ts db)) k \<noteq> None"
proof (induction ts arbitrary: db)
  case (Cons t ts)
  from Cons.IH [OF activation_kept_step [OF Cons.prems]] show ?case by simp
qed simp

text \<open>A repeated activation with the same deployment, expected generation and decision never
  advances the deployment a second time: whatever ran since the first acknowledgement, the
  replay leaves every deployment as it is and, when it succeeds, returns the current state.\<close>

theorem activation_replay_is_inert:
  assumes "activate_candidate cd me dep gen dec h db = (Inr d, db1)"
    and "activate_candidate cd me dep gen dec h' (control_run cd me ts db1) = (r, db2)"
  shows "c_deployments db2 = c_deployments (control_run cd me ts db1) \<and>
    (\<forall>d'. r = Inr d' \<longrightarrow> lookup (c_deployments db2) dep = Some d')"
proof -
  let ?key = "activation_key cd dep gen (decision_digest cd dec)"
  obtain dbm where m: "activate_body cd dep gen dec h dbm = Inr (d, db1)"
    using assms(1) by (auto simp: activate_candidate_def seq_def control_txn_Inr
        split: prod.splits sum.splits)
  then have "lookup (c_activations db1) ?key \<noteq> None"
    by (cases rule: activate_body_cases) (auto simp: tbl)
  then have kept: "lookup (c_activations (control_run cd me ts db1)) ?key \<noteq> None"
    by (rule activation_kept_run)
  define db3 where "db3 = snd (record_decision cd me dec (control_run cd me ts db1))"
  have same: "c_deployments db3 = c_deployments (control_run cd me ts db1)"
    "c_activations db3 = c_activations (control_run cd me ts db1)"
    by (auto simp: db3_def record_decision_def control_txn_def atomically_def Let_def
        split: sum.splits)
  obtain q where q: "record_decision cd me dec (control_run cd me ts db1) = (q, db3)"
    by (metis db3_def prod.collapse)
  show ?thesis
  proof (cases q)
    case (Inl e)
    with q same assms(2) show ?thesis by (auto simp: activate_candidate_def seq_def)
  next
    case (Inr key)
    with q assms(2) have t: "control_txn me (activate_body cd dep gen dec h') db3 = (r, db2)"
      by (simp add: activate_candidate_def seq_def)
    show ?thesis
    proof (cases r)
      case (Inl e)
      with t same show ?thesis by (auto dest: control_txn_Inl)
    next
      case r: (Inr d')
      with t have "activate_body cd dep gen dec h' db3 = Inr (d', db2)"
        by (simp add: control_txn_Inr)
      then show ?thesis
        using kept same r by (cases rule: activate_body_cases) auto
    qed
  qed
qed

definition demo_ready :: control_db where
  "demo_ready = control_run demo_codec demo_identity (take 3 demo_setup) (empty_control demo_identity)"

theorem activation_replay_is_inert_witness:
  "\<exists>d db1 r db2. activate_candidate demo_codec demo_identity ''d'' 0 (demo_decision ''b'')
        (demo_health ''b'') demo_ready = (Inr d, db1) \<and>
     activate_candidate demo_codec demo_identity ''d'' 0 (demo_decision ''b'')
        (demo_health ''b'') db1 = (r, db2) \<and> c_deployments db2 = c_deployments db1"
proof -
  let ?act = "activate_candidate demo_codec demo_identity ''d'' 0 (demo_decision ''b'')
    (demo_health ''b'')"
  obtain d db1 where a: "?act demo_ready = (Inr d, db1)"
    by (simp add: activate_candidate_def seq_def record_decision_def demo_ready_def demo_defs
        control_eval)
  obtain r db2 where b: "?act db1 = (r, db2)"
    by (cases "?act db1")
  then have "?act (control_run demo_codec demo_identity [] db1) = (r, db2)"
    by simp
  from activation_replay_is_inert [OF a this] a b show ?thesis
    by auto
qed

subsection \<open>Restoration\<close>

text \<open>C4: A rollback is recorded as restored only with a health observation that verifies the
  exact registered target revision whose digest was frozen at detection, by the current holder
  of an unexpired lease, from a state after an apply attempt; then the deployment's active and
  known-good revisions are both the target, its generation is one more and it has no rollback
  owner.\<close>

theorem restoration_is_verified:
  assumes "control_inv db"
    and "update_rollback cd me oid owner Restored err sa h now ev db = (Inr op', db')"
  shows "\<exists>op target hv d expiry.
      lookup (c_rollbacks db) oid = Some op \<and> o_status op \<in> {Applying, Verifying, Needs_reconciliation} \<and>
      lookup (c_leases db) oid = Some (Some owner, expiry) \<and> now < expiry \<and>
      lookup (c_revisions db) (o_target_revision op) = Some target \<and>
      h = Some hv \<and> verifies cd hv target \<and> revision_digest cd target = o_target_digest op \<and>
      lookup (c_deployments db) (s_deployment_id (o_signal op)) = Some d \<and>
      lookup (c_deployments db') (s_deployment_id (o_signal op)) =
        Some \<lparr>d_deployment_id = d_deployment_id d, d_active_revision = o_target_revision op,
              d_known_good_revision = o_target_revision op,
              d_generation = d_generation d + 1, d_rollback_id = None\<rparr> \<and>
      o_status op' = Restored \<and> o_restored_at op' = Some now"
proof -
  have "update_body cd oid owner Restored err sa h now ev db = Inr (op', db')"
    using assms(2) by (simp add: update_rollback_def control_txn_Inr)
  then show ?thesis
  proof (cases rule: update_body_cases)
    case (1 op st deps expiry)
    let ?dep = "s_deployment_id (o_signal op)"
    from 1(9) obtain target hv where t: "lookup (c_revisions db) (o_target_revision op) = Some target"
      "h = Some hv" "verifies cd hv target" "revision_digest cd target = o_target_digest op"
      "deps = upsert (d_deployment_id st) (restored_state st target) (c_deployments db)"
      by (auto simp: restore_deployments_ok)
    have st: "lookup (c_deployments db) ?dep = Some st"
      using 1(3) by (simp add: fence_ok)
    have ids: "d_deployment_id st = ?dep" "revision_id target = o_target_revision op"
      using control_invD(1) [OF assms(1) t(1)] control_invD(2) [OF assms(1) st]
      by (auto simp: deployment_ok_def)
    have stat: "o_status op \<in> {Applying, Verifying, Needs_reconciliation}"
      using 1(2) by (cases "o_status op") (auto simp: validate_transition_ok)
    have "o_restored_at op' = Some now"
      by (simp add: 1(6) changed_record_def Let_def)
    with 1 t st ids stat show ?thesis
      by (auto simp: restored_state_def tbl)
  qed
qed

definition demo_applying :: control_db where
  "demo_applying = control_run demo_codec demo_identity
     [T_claim ''op'' ''w'' 100 20, T_update ''op'' ''w'' Applying None True None 21 21] demo_db"

lemma demo_applying_eval:
  "\<exists>op' db'. update_rollback demo_codec demo_identity ''op'' ''w'' Restored None False
     (Some (demo_health ''a'')) 30 30 demo_applying = (Inr op', db')"
  by (simp add: demo_applying_def demo_db_def demo_defs control_eval claim_def claim_body_def
      fence_def update_rollback_def update_body_def validate_transition_def changed_record_def
      restore_deployments_def fadd_def)

theorem restoration_is_verified_witness:
  "\<exists>op' db'. update_rollback demo_codec demo_identity ''op'' ''w'' Restored None False
     (Some (demo_health ''a'')) 30 30 demo_applying = (Inr op', db') \<and> o_status op' = Restored"
proof -
  have inv: "control_inv demo_applying"
    unfolding demo_applying_def by (intro control_inv_run control_inv_demo)
  obtain op' db' where u: "update_rollback demo_codec demo_identity ''op'' ''w'' Restored None False
     (Some (demo_health ''a'')) 30 30 demo_applying = (Inr op', db')"
    using demo_applying_eval by blast
  from restoration_is_verified [OF inv u] have "o_status op' = Restored" by blast
  with u show ?thesis by blast
qed

subsection \<open>Immutable revisions\<close>

lemma register_revision_shape:
  "register_revision me r db = (q, db') \<Longrightarrow>
     db' = db \<and> (is_ok q \<longrightarrow> lookup (c_revisions db) (revision_id r) = Some r) \<or>
     lookup (c_revisions db) (revision_id r) = None \<and>
     db' = db\<lparr>c_revisions := upsert (revision_id r) r (c_revisions db)\<rparr>"
  by (auto simp: register_revision_def control_txn_def atomically_def
      split: sum.splits option.splits if_splits)

interpretation revisions: immutable_registry revision_id
  "\<lambda>(db :: control_db) k. lookup (c_revisions db) k" "register_revision me"
proof
  fix r s u s' assume "register_revision me r s = (Inr u, s')"
  then show "lookup (c_revisions s') (revision_id r) = Some r"
    by (auto dest!: register_revision_shape simp: tbl)
next
  fix s :: control_db and k w r assume "lookup (c_revisions s) k = Some w"
  moreover obtain q s' where "register_revision me r s = (q, s')"
    by (cases "register_revision me r s")
  ultimately show "lookup (c_revisions (snd (register_revision me r s))) k = Some w"
    by (auto dest!: register_revision_shape simp: tbl)
next
  fix s :: control_db and r w assume "lookup (c_revisions s) (revision_id r) = Some w" "w \<noteq> r"
  moreover obtain q s' where "register_revision me r s = (q, s')"
    by (cases "register_revision me r s")
  ultimately show "\<not> is_ok (fst (register_revision me r s))"
    by (auto dest!: register_revision_shape)
qed

text \<open>No sequence of registrations rebinds an identity.\<close>

lemma revision_identity_immutable:
  "register_revision me r db = (Inr u, db1) \<Longrightarrow>
   register_revision me r' (revisions.put_all me rs db1) = (Inr u', db2) \<Longrightarrow>
   revision_id r' = revision_id r \<Longrightarrow> r' = r"
  by (rule revisions.put_agree)

subsection \<open>The audit trail\<close>

definition trail :: "control_db \<Rightarrow> string \<Rightarrow> rollback_record list" where
  "trail db k = map (\<lambda>(_, _, r). r) (filter (\<lambda>(i, _, _). i = k) (c_events db))"

definition follows :: "rollback_record \<Rightarrow> rollback_record \<Rightarrow> bool" where
  "follows a b \<longleftrightarrow>
     o_status b \<in> set (allowed_next (o_status a)) \<and>
     o_signal b = o_signal a \<and> o_target_revision b = o_target_revision a \<and>
     o_target_digest b = o_target_digest a \<and>
     (o_apply_attempts b = o_apply_attempts a \<or>
        o_status b = Applying \<and> o_apply_attempts b = o_apply_attempts a + 1) \<and>
     (o_status b = Applying \<and> o_status a \<noteq> Applying \<longrightarrow>
        o_apply_attempts b = o_apply_attempts a + 1)"

fun audit_ok :: "rollback_record option \<Rightarrow> rollback_record list \<Rightarrow> bool" where
  "audit_ok None h = (h = [])"
| "audit_ok (Some op) h =
     (h \<noteq> [] \<and> o_status (hd h) = Detected \<and> o_apply_attempts (hd h) = 0 \<and> last h = op \<and>
      successively follows h)"

definition audited :: "control_db \<Rightarrow> bool" where
  "audited db \<longleftrightarrow> (\<forall>k. audit_ok (lookup (c_rollbacks db) k) (trail db k))"

lemma audited_frame:
  "audited db \<Longrightarrow> c_rollbacks db' = c_rollbacks db \<Longrightarrow> c_events db' = c_events db \<Longrightarrow> audited db'"
  by (simp add: audited_def trail_def)

lemma audited_extend:
  assumes "audited db" and "c_rollbacks db' = upsert oid op (c_rollbacks db)"
    and "c_events db' = c_events db @ [(oid, t, op)]"
    and "audit_ok (Some op) (trail db oid @ [op])"
  shows "audited db'"
proof -
  have tr: "trail db' k = (if k = oid then trail db k @ [op] else trail db k)" for k
    using assms(3) by (simp add: trail_def)
  show ?thesis
    using assms(1,4) by (auto simp: audited_def assms(2) tr tbl simp del: audit_ok.simps)
qed

lemma update_follows:
  assumes "validate_transition op status sa = Inr u"
  shows "follows op (changed_record op status err sa now)"
  using assms by (auto simp: follows_def validate_transition_ok)

lemma audited_step:
  assumes inv: "control_inv db" and aud: "audited db"
  shows "audited (control_step cd me t db)"
proof (cases rule: control_step_cases [where cd = cd and me = me and t = t and db = db])
  case (bootstrapped dep rid h e)
  from this(2) aud show ?thesis
    by (cases rule: bootstrap_body_cases) (auto intro: audited_frame)
next
  case (activated dep gen dec h e)
  from this(2) aud show ?thesis
    by (cases rule: activate_body_cases) (auto intro: audited_frame)
next
  case (stabilised dep gen dec h evid now e)
  from this(2) aud show ?thesis
    by (cases rule: stable_body_cases) (auto intro: audited_frame)
next
  case (claimed oid owner secs now op)
  from this(4) aud show ?thesis
    by (cases rule: claim_body_cases) (auto intro: audited_frame)
next
  case (detected sig now ev op)
  from detected(2) show ?thesis
  proof (cases rule: detect_body_cases)
    case replay
    with aud show ?thesis by simp
  next
    case (fresh st target)
    have "audit_ok None (trail db (s_signal_id sig))"
      using aud fresh(1) by (metis audited_def)
    then show ?thesis
      using fresh by (intro audited_extend [OF aud, of _ "s_signal_id sig" op ev])
        (simp_all add: new_operation_def)
  qed
next
  case (updated oid owner st err sa h now ev op')
  from updated(2) show ?thesis
  proof (cases rule: update_body_cases)
    case (1 op st' deps expiry)
    have oid: "o_operation_id op' = oid"
      using control_invD(3) [OF inv 1(1)] 1(6) by (simp add: rollback_ok_def)
    have "audit_ok (Some op) (trail db oid)"
      using aud 1(1) by (metis audited_def)
    moreover have "follows op op'"
      unfolding 1(6) by (rule update_follows [OF 1(2)])
    ultimately have "audit_ok (Some op') (trail db oid @ [op'])"
      by (simp add: successively_append_iff)
    then show ?thesis
      using 1(10) oid by (intro audited_extend [OF aud, of _ oid op' ev]) simp_all
  qed
qed (use aud in \<open>auto intro: audited_frame [OF aud]\<close>)

lemma audited_run:
  "control_inv db \<Longrightarrow> audited db \<Longrightarrow> audited (control_run cd me ts db)"
proof (induction ts arbitrary: db)
  case (Cons t ts)
  then show ?case
    using control_inv_step [of db cd me t] audited_step [of db cd me t] by simp
qed simp

text \<open>C5: The persisted history of a rollback operation is a path of the workflow graph: it
  starts as detected with no apply attempt, each transition is allowed and keeps the signal and
  the target, attempts are counted exactly when an apply starts, and its last entry is the
  operation's current record.\<close>

theorem history_is_workflow_path:
  assumes "db = control_run cd me ts (empty_control me)"
    and "lookup (c_rollbacks db) k = Some op" and "history me k db = (Inr h, db')"
  shows "h \<noteq> [] \<and> o_status (hd h) = Detected \<and> o_apply_attempts (hd h) = 0 \<and> last h = op \<and>
    successively follows h"
proof -
  have "audited (empty_control me)"
    by (simp add: audited_def trail_def empty_control_def)
  then have aud: "audited db"
    unfolding assms(1) by (intro audited_run control_inv_empty)
  have "h = trail db k"
    using assms(3) by (auto simp: history_def control_txn_Inr trail_def)
  moreover have "audit_ok (Some op) (trail db k)"
    using aud assms(2) by (metis audited_def)
  ultimately show ?thesis by simp
qed

theorem history_is_workflow_path_witness:
  "\<exists>h db'. history demo_identity ''op'' demo_db = (Inr h, db') \<and> last h = demo_operation"
proof -
  have v: "verify_identity (c_identity demo_db) demo_identity = Inr ()"
    by (simp add: demo_db_eval verify_identity_def read_identity_def demo_identity_def lower_hex_def)
  then obtain h db' where h: "history demo_identity ''op'' demo_db = (Inr h, db')"
    by (simp add: history_def control_txn_def atomically_def)
  from history_is_workflow_path [OF demo_db_def demo_db_eval(2) h] h show ?thesis by blast
qed

end
