(* ===== verification/RollbackController.thy ===== *)
theory RollbackController
  imports ControlGuarantees
begin

text \<open>
  \<open>RollbackController\<close> of \<open>reliability/rollback.py\<close>: one bounded action/health cycle over
  the store, with an injected adapter.  The adapter is a parameter: its two calls are arbitrary
  functions of an external world, their outcome as the controller sees it through its deadline
  (a timeout is \<open>TimeoutError\<close>, a cancellation \<open>CancelledError\<close>).  The log of apply
  calls records each request with the operation's persisted record at the moment of the call.
\<close>

record 'w adapter =
  supports_idempotency :: bool
  adapter_apply :: "apply_request \<Rightarrow> 'w \<Rightarrow> unit res \<times> 'w"
  adapter_health :: "string \<Rightarrow> 'w \<Rightarrow> health res \<times> 'w"

record 'w ctl =
  ctl_db :: control_db
  ctl_world :: 'w
  ctl_tick :: nat
  ctl_applied :: "(apply_request \<times> rollback_record option) list"

record env =
  e_me :: string
  e_codec :: control_codec
  e_clock :: "nat \<Rightarrow> flt"
  e_timeout :: flt

definition valid_timeout :: "flt \<Rightarrow> bool" where
  "valid_timeout t \<longleftrightarrow> 0 < t \<and> t \<le> 3600"

subsection \<open>Calls of the store and the adapter\<close>

definition on_db :: "(control_db, 'a) action \<Rightarrow> ('w ctl, 'a) action" where
  "on_db f w = (case f (ctl_db w) of (r, db) \<Rightarrow> (r, w\<lparr>ctl_db := db\<rparr>))"

definition do_claim :: "env \<Rightarrow> string \<Rightarrow> string \<Rightarrow> ('w ctl, rollback_record) action" where
  "do_claim env oid owner w =
     (case claim (e_me env) oid owner (fadd (fmul 3 (e_timeout env)) 5)
             (e_clock env (ctl_tick w)) (ctl_db w) of
        (r, db) \<Rightarrow> (r, w\<lparr>ctl_db := db, ctl_tick := ctl_tick w + 1\<rparr>))"

definition do_update ::
  "env \<Rightarrow> string \<Rightarrow> string \<Rightarrow> rollback_status \<Rightarrow> string option \<Rightarrow> bool \<Rightarrow> health option \<Rightarrow>
   ('w ctl, rollback_record) action" where
  "do_update env oid owner status err sa h w =
     (case update_rollback (e_codec env) (e_me env) oid owner status err sa h
             (e_clock env (ctl_tick w)) (e_clock env (ctl_tick w + 1)) (ctl_db w) of
        (r, db) \<Rightarrow> (r, w\<lparr>ctl_db := db, ctl_tick := ctl_tick w + 2\<rparr>))"

definition do_apply :: "'w adapter \<Rightarrow> apply_request \<Rightarrow> ('w ctl, unit) action" where
  "do_apply ad q w =
     (case adapter_apply ad q (ctl_world w) of
        (r, x) \<Rightarrow> (r, w\<lparr>ctl_world := x, ctl_applied := ctl_applied w @
                   [(q, lookup (c_rollbacks (ctl_db w)) (q_idempotency_key q))]\<rparr>))"

definition do_health :: "'w adapter \<Rightarrow> string \<Rightarrow> ('w ctl, health) action" where
  "do_health ad dep w =
     (case adapter_health ad dep (ctl_world w) of (r, x) \<Rightarrow> (r, w\<lparr>ctl_world := x\<rparr>))"

subsection \<open>One cycle\<close>

definition rollback_request :: "rollback_record \<Rightarrow> revision \<Rightarrow> apply_request" where
  "rollback_request op target =
     \<lparr>q_deployment_id = s_deployment_id (o_signal op),
      q_expected_revision = s_observed_revision (o_signal op),
      q_expected_generation = s_observed_generation (o_signal op),
      q_target = target, q_idempotency_key = o_operation_id op\<rparr>"

definition apply_and_verify ::
  "env \<Rightarrow> 'w adapter \<Rightarrow> rollback_record \<Rightarrow> string \<Rightarrow> revision \<Rightarrow>
   ('w ctl, rollback_record) action" where
  "apply_and_verify env ad op owner target =
     seq (do_update env (o_operation_id op) owner Applying None True None) (\<lambda>op'.
     seq (do_apply ad (rollback_request op' target)) (\<lambda>_.
     seq (do_update env (o_operation_id op') owner Verifying None False None) (\<lambda>_.
     seq (do_health ad (s_deployment_id (o_signal op'))) (\<lambda>h.
       if verifies (e_codec env) h target
       then do_update env (o_operation_id op') owner Restored None False (Some h)
       else do_update env (o_operation_id op') owner Verifying
              (Some ''health_not_verified'') False None))))"

definition run_cycle ::
  "env \<Rightarrow> 'w adapter \<Rightarrow> rollback_record \<Rightarrow> string \<Rightarrow> ('w ctl, rollback_record) action" where
  "run_cycle env ad op owner =
     seq (on_db (revision_of (e_me env) (o_target_revision op))) (\<lambda>target.
       if o_status op \<noteq> Detected then
         seq (do_health ad (s_deployment_id (o_signal op))) (\<lambda>h.
           if verifies (e_codec env) h target
           then do_update env (o_operation_id op) owner Restored None False (Some h)
           else if o_status op = Verifying \<or> \<not> supports_idempotency ad
           then do_update env (o_operation_id op) owner
                  (if o_status op = Verifying then Verifying else Needs_reconciliation)
                  (Some ''health_not_verified'') False None
           else apply_and_verify env ad op owner target)
       else apply_and_verify env ad op owner target)"

definition handle_failure ::
  "env \<Rightarrow> string \<Rightarrow> string \<Rightarrow> py_error \<Rightarrow> ('w ctl, rollback_record) action" where
  "handle_failure env oid owner e =
     seq (on_db (operation (e_me env) oid)) (\<lambda>current.
       if e = CancelledError then
         seq (do_update env oid owner (o_status current) (Some ''CancelledError'') False None)
           (\<lambda>_. raise CancelledError)
       else do_update env oid owner (o_status current) (Some (class_name e)) False None)"

definition resume ::
  "env \<Rightarrow> 'w adapter \<Rightarrow> string \<Rightarrow> string \<Rightarrow> ('w ctl, rollback_record) action" where
  "resume env ad owner oid =
     seq (on_db (operation (e_me env) oid)) (\<lambda>op0.
       if o_status op0 = Restored then return op0
       else seq (do_claim env oid owner) (\<lambda>op.
         finally_do (recover (run_cycle env ad op owner) (handle_failure env oid owner))
           (on_db (release_lease (e_me env) oid owner))))"

text \<open>Successive calls of \<open>resume\<close>, each with a fresh worker identity.\<close>

fun resume_all :: "env \<Rightarrow> 'w adapter \<Rightarrow> string list \<Rightarrow> string \<Rightarrow> 'w ctl \<Rightarrow> 'w ctl" where
  "resume_all env ad [] oid w = w"
| "resume_all env ad (owner # owners) oid w =
     resume_all env ad owners oid (snd (resume env ad owner oid w))"

subsection \<open>What each call changes\<close>

text \<open>
  \<open>advances oid w w'\<close>: the controller's transactions between two states keep the store
  invariant and never bring an operation back to the detected status.
\<close>

definition status_of :: "'w ctl \<Rightarrow> string \<Rightarrow> rollback_status option" where
  "status_of w oid = map_option o_status (lookup (c_rollbacks (ctl_db w)) oid)"

definition begun :: "string \<Rightarrow> 'w ctl \<Rightarrow> bool" where
  "begun oid w \<longleftrightarrow> (\<exists>st. status_of w oid = Some st \<and> st \<noteq> Detected)"

lemma on_db_read:
  assumes "\<And>db. snd (f db) = db"
  shows "snd (on_db f w) = w"
  using assms [of "ctl_db w"] by (cases "f (ctl_db w)") (simp add: on_db_def)

lemma reads_keep [simp]:
  "snd (revision_of me k db) = db" "snd (operation me k db) = db" "snd (deployment me k db) = db"
  by (auto simp: revision_of_def operation_def deployment_def control_txn_def atomically_def
      split: sum.splits)

lemma operation_Inr:
  "operation me k db = (Inr op, db') \<longleftrightarrow>
     (\<exists>u. verify_identity (c_identity db) me = Inr u) \<and> lookup (c_rollbacks db) k = Some op \<and> db' = db"
  by (auto simp: operation_def control_txn_Inr split: sum.splits)

lemma revision_of_Inr:
  "revision_of me k db = (Inr r, db') \<longleftrightarrow>
     (\<exists>u. verify_identity (c_identity db) me = Inr u) \<and> lookup (c_revisions db) k = Some r \<and> db' = db"
  by (auto simp: revision_of_def control_txn_Inr split: sum.splits)

lemma do_update_step:
  "ctl_db (snd (do_update env oid owner st err sa h w)) =
     control_step (e_codec env) (e_me env)
       (T_update oid owner st err sa h (e_clock env (ctl_tick w)) (e_clock env (ctl_tick w + 1)))
       (ctl_db w)"
  "ctl_applied (snd (do_update env oid owner st err sa h w)) = ctl_applied w"
  by (auto simp: do_update_def split: prod.splits)

lemma do_claim_step:
  "ctl_db (snd (do_claim env oid owner w)) =
     control_step (e_codec env) (e_me env)
       (T_claim oid owner (fadd (fmul 3 (e_timeout env)) 5) (e_clock env (ctl_tick w))) (ctl_db w)"
  "ctl_applied (snd (do_claim env oid owner w)) = ctl_applied w"
  by (auto simp: do_claim_def split: prod.splits)

lemma release_step:
  "ctl_db (snd (on_db (release_lease me oid owner) w)) =
     control_step cd me (T_release oid owner) (ctl_db w)"
  "ctl_applied (snd (on_db (release_lease me oid owner) w)) = ctl_applied w"
  by (auto simp: on_db_def split: prod.splits)

lemma do_health_keeps [simp]:
  "ctl_db (snd (do_health ad dep w)) = ctl_db w"
  "ctl_applied (snd (do_health ad dep w)) = ctl_applied w"
  by (auto simp: do_health_def split: prod.splits)

lemma do_apply_keeps [simp]:
  "ctl_db (snd (do_apply ad q w)) = ctl_db w"
  "ctl_applied (snd (do_apply ad q w)) =
     ctl_applied w @ [(q, lookup (c_rollbacks (ctl_db w)) (q_idempotency_key q))]"
  by (auto simp: do_apply_def split: prod.splits)

lemma do_update_Inr:
  assumes "do_update env oid owner st err sa h w = (Inr op', w')"
  obtains op where "lookup (c_rollbacks (ctl_db w)) oid = Some op"
    "validate_transition op st sa = Inr ()"
    "op' = changed_record op st err sa (e_clock env (ctl_tick w))"
    "lookup (c_rollbacks (ctl_db w')) oid = Some op'"
  using assms
  by (auto simp: do_update_def update_rollback_def control_txn_Inr tbl split: prod.splits
      elim!: update_body_cases)

lemma do_claim_Inr:
  assumes "do_claim env oid owner w = (Inr op, w')"
  shows "lookup (c_rollbacks (ctl_db w)) oid = Some op"
    and "lookup (c_rollbacks (ctl_db w')) oid = Some op"
  using assms
  by (auto simp: do_claim_def claim_def control_txn_Inr split: prod.splits if_splits
      elim!: claim_body_cases)

subsection \<open>Operations only move forward\<close>

definition moved_on :: "control_db \<Rightarrow> control_db \<Rightarrow> bool" where
  "moved_on db db' \<longleftrightarrow>
     (\<forall>k r. lookup (c_revisions db) k = Some r \<longrightarrow> lookup (c_revisions db') k = Some r) \<and>
     (\<forall>k op. lookup (c_rollbacks db) k = Some op \<longrightarrow>
     (\<exists>op'. lookup (c_rollbacks db') k = Some op' \<and>
        (o_status op \<noteq> Detected \<longrightarrow> o_status op' \<noteq> Detected) \<and>
        o_operation_id op' = o_operation_id op \<and>
        o_signal op' = o_signal op \<and> o_target_revision op' = o_target_revision op))"

lemma moved_on_refl [simp]: "moved_on db db"
  by (simp add: moved_on_def)

lemma moved_on_trans: "moved_on a b \<Longrightarrow> moved_on b c \<Longrightarrow> moved_on a c"
proof -
  assume a: "moved_on a b" and b: "moved_on b c"
  have "\<exists>z. lookup (c_rollbacks c) k = Some z \<and> (o_status x \<noteq> Detected \<longrightarrow> o_status z \<noteq> Detected) \<and>
      o_operation_id z = o_operation_id x \<and> o_signal z = o_signal x \<and>
      o_target_revision z = o_target_revision x" if x: "lookup (c_rollbacks a) k = Some x" for k x
  proof -
    from a x obtain y where y: "lookup (c_rollbacks b) k = Some y"
      "o_status x \<noteq> Detected \<longrightarrow> o_status y \<noteq> Detected" "o_operation_id y = o_operation_id x"
      "o_signal y = o_signal x" "o_target_revision y = o_target_revision x"
      unfolding moved_on_def by blast
    from b y(1) obtain z where "lookup (c_rollbacks c) k = Some z"
      "o_status y \<noteq> Detected \<longrightarrow> o_status z \<noteq> Detected" "o_operation_id z = o_operation_id y"
      "o_signal z = o_signal y" "o_target_revision z = o_target_revision y"
      unfolding moved_on_def by blast
    with y show ?thesis by simp
  qed
  with a b show ?thesis unfolding moved_on_def by simp
qed

lemma moved_on_same:
  "c_rollbacks db' = c_rollbacks db \<Longrightarrow> c_revisions db' = c_revisions db \<Longrightarrow> moved_on db db'"
  by (simp add: moved_on_def)

lemma moved_on_step: "moved_on db (control_step cd me t db)"
proof (cases rule: control_step_cases [where cd = cd and me = me and t = t and db = db])
  case (registered r)
  then show ?thesis by (auto simp: moved_on_def tbl)
next
  case (bootstrapped dep rid h e)
  from this(2) show ?thesis by (cases rule: bootstrap_body_cases) (auto intro: moved_on_same)
next
  case (activated dep gen dec h e)
  from this(2) show ?thesis by (cases rule: activate_body_cases) (auto intro: moved_on_same)
next
  case (detected sig now ev op)
  from this(2) show ?thesis
    by (cases rule: detect_body_cases) (auto simp: moved_on_def tbl)
next
  case (stabilised dep gen dec h evid now e)
  from this(2) show ?thesis by (cases rule: stable_body_cases) (auto intro: moved_on_same)
next
  case (claimed oid owner secs now op)
  from this(4) show ?thesis by (cases rule: claim_body_cases) (auto intro: moved_on_same)
next
  case (updated oid owner st err sa h now ev op')
  from this(2) show ?thesis
  proof (cases rule: update_body_cases)
    case (1 op st' deps expiry)
    then have "o_status op \<noteq> Detected \<longrightarrow> st \<noteq> Detected"
      by (cases "o_status op") (auto simp: validate_transition_ok)
    with 1 show ?thesis by (auto simp: moved_on_def tbl)
  qed
qed (auto intro: moved_on_same)

lemma begun_kept: "moved_on (ctl_db w) (ctl_db w') \<Longrightarrow> begun oid w \<Longrightarrow> begun oid w'"
  unfolding begun_def status_of_def moved_on_def by fastforce

text \<open>
  \<open>quiet w w'\<close>: the controller kept the store invariant, moved operations forward and did
  not call the adapter's \<open>apply\<close>.  All parts of a cycle but the apply itself are quiet.
\<close>

definition quiet :: "'w ctl \<Rightarrow> 'w ctl \<Rightarrow> bool" where
  "quiet w w' \<longleftrightarrow> moved_on (ctl_db w) (ctl_db w') \<and> ctl_applied w' = ctl_applied w \<and>
     (control_inv (ctl_db w) \<longrightarrow> control_inv (ctl_db w'))"

lemma quiet_refl [simp]: "quiet w w"
  by (simp add: quiet_def)

lemma quiet_trans: "quiet a b \<Longrightarrow> quiet b c \<Longrightarrow> quiet a c"
  by (auto simp: quiet_def intro: moved_on_trans)

lemma quiet_update: "quiet w (snd (do_update env oid owner st err sa h w))"
  unfolding quiet_def do_update_step by (intro conjI moved_on_step refl impI control_inv_step)

lemma quiet_claim: "quiet w (snd (do_claim env oid owner w))"
  unfolding quiet_def do_claim_step by (intro conjI moved_on_step refl impI control_inv_step)

lemma quiet_release: "quiet w (snd (on_db (release_lease me oid owner) w))"
  using moved_on_step control_inv_step release_step
  unfolding quiet_def by metis

lemma quiet_health: "quiet w (snd (do_health ad dep w))"
  by (simp add: quiet_def)

lemma quiet_seq:
  assumes "quiet w (snd (f w))" and "\<And>a w'. f w = (Inr a, w') \<Longrightarrow> quiet w' (snd (g a w'))"
  shows "quiet w (snd (seq f g w))"
  by (rule seq_rel [where R = quiet]) (use assms quiet_trans in blast)+

lemma quiet_failure: "quiet (w :: 'w ctl) (snd (handle_failure env oid owner e w))"
  unfolding handle_failure_def
proof (rule quiet_seq)
  show "quiet w (snd (on_db (operation (e_me env) oid) w))"
    by (simp add: on_db_read)
  fix cur and w' :: "'w ctl"
  have "quiet w' (snd (seq (do_update env oid owner (o_status cur) (Some ''CancelledError'') False None)
      (\<lambda>_. raise CancelledError :: ('w ctl, rollback_record) action) w'))"
    by (rule quiet_seq [OF quiet_update]) (simp add: raise_def)
  then show "quiet w' (snd ((if e = CancelledError then
         seq (do_update env oid owner (o_status cur) (Some ''CancelledError'') False None)
           (\<lambda>_. raise CancelledError)
       else do_update env oid owner (o_status cur) (Some (class_name e)) False None) w'))"
    by (simp add: quiet_update)
qed


subsection \<open>The apply call\<close>

text \<open>
  A logged call has recorded its intent when the persisted operation was already in the
  applying status with a counted attempt, and the request carries its signal's generation fence.
  \<open>planned\<close> is the one request an operation can send.
\<close>

definition intent_recorded :: "apply_request \<times> rollback_record option \<Rightarrow> bool" where
  "intent_recorded e = (case e of (q, None) \<Rightarrow> False
     | (q, Some op) \<Rightarrow> o_status op = Applying \<and> 1 \<le> o_apply_attempts op \<and>
         o_started_at op \<noteq> None \<and> q = rollback_request op (q_target q))"

definition planned :: "control_db \<Rightarrow> string \<Rightarrow> apply_request \<Rightarrow> bool" where
  "planned db oid q \<longleftrightarrow> (\<exists>op t. lookup (c_rollbacks db) oid = Some op \<and>
     lookup (c_revisions db) (o_target_revision op) = Some t \<and> q = rollback_request op t)"

lemma planned_unique: "planned db oid q \<Longrightarrow> planned db oid q' \<Longrightarrow> q = q'"
  by (auto simp: planned_def)

lemma planned_kept: "moved_on db db' \<Longrightarrow> planned db oid q \<Longrightarrow> planned db' oid q"
  by (force simp: planned_def moved_on_def rollback_request_def)

text \<open>
  \<open>cycled b oid w w'\<close>: what \<open>resume\<close> may do to the controller, where \<open>b\<close> tells
  whether the adapter supports idempotent replay.
\<close>

definition cycled :: "bool \<Rightarrow> string \<Rightarrow> 'w ctl \<Rightarrow> 'w ctl \<Rightarrow> bool" where
  "cycled b oid w w' \<longleftrightarrow> moved_on (ctl_db w) (ctl_db w') \<and> control_inv (ctl_db w') \<and>
     (\<exists>new. ctl_applied w' = ctl_applied w @ new \<and>
        (\<forall>e \<in> set new. intent_recorded e \<and> planned (ctl_db w') oid (fst e)) \<and>
        (\<not> b \<longrightarrow> length new \<le> 1) \<and>
        (new \<noteq> [] \<longrightarrow> begun oid w' \<and> (b \<or> \<not> begun oid w)))"

lemma quiet_cycled: "control_inv (ctl_db w) \<Longrightarrow> quiet w w' \<Longrightarrow> cycled b oid w w'"
  by (simp add: cycled_def quiet_def)

lemma cycled_trans:
  assumes "cycled b oid u v" and "cycled b oid v w"
  shows "cycled b oid u w"
proof -
  from assms(1) obtain n1 where 1: "moved_on (ctl_db u) (ctl_db v)"
    "ctl_applied v = ctl_applied u @ n1" "n1 \<noteq> [] \<longrightarrow> begun oid v \<and> (b \<or> \<not> begun oid u)"
    "\<forall>e \<in> set n1. intent_recorded e \<and> planned (ctl_db v) oid (fst e)"
    "\<not> b \<longrightarrow> length n1 \<le> 1"
    unfolding cycled_def by blast
  from assms(2) obtain n2 where 2: "moved_on (ctl_db v) (ctl_db w)" "control_inv (ctl_db w)"
    "ctl_applied w = ctl_applied v @ n2" "n2 \<noteq> [] \<longrightarrow> begun oid w \<and> (b \<or> \<not> begun oid v)"
    "\<forall>e \<in> set n2. intent_recorded e \<and> planned (ctl_db w) oid (fst e)"
    "\<not> b \<longrightarrow> length n2 \<le> 1"
    unfolding cycled_def by blast
  have one: "b \<or> n1 = [] \<or> n2 = []" using 1(3) 2(4) by blast
  have up: "begun oid u \<Longrightarrow> begun oid v" "begun oid v \<Longrightarrow> begun oid w"
    by (erule begun_kept [OF 1(1)], erule begun_kept [OF 2(1)])
  have "ctl_applied w = ctl_applied u @ (n1 @ n2)" using 1(2) 2(3) by simp
  moreover have "\<forall>e \<in> set (n1 @ n2). intent_recorded e \<and> planned (ctl_db w) oid (fst e)"
    using 1(4) 2(5) planned_kept [OF 2(1)] by (simp add: ball_Un)
  moreover have "\<not> b \<longrightarrow> length (n1 @ n2) \<le> 1" using one 1(5) 2(6) by auto
  moreover have "n1 @ n2 \<noteq> [] \<longrightarrow> begun oid w \<and> (b \<or> \<not> begun oid u)"
    using 1(3) 2(4) up by blast
  ultimately show ?thesis
    using moved_on_trans [OF 1(1) 2(1)] 2(2) unfolding cycled_def by blast
qed

lemma cycled_quiet: "cycled b oid w w' \<Longrightarrow> quiet w' w'' \<Longrightarrow> cycled b oid w w''"
  by (rule cycled_trans, assumption, rule quiet_cycled) (auto simp: cycled_def)

lemma cycled_seq:
  assumes "cycled b oid w (snd (f w))"
    and "\<And>a w'. f w = (Inr a, w') \<Longrightarrow> control_inv (ctl_db w') \<Longrightarrow> cycled b oid w' (snd (g a w'))"
  shows "cycled b oid w (snd (seq f g w))"
proof (rule seq_rel [where R = "cycled b oid"])
  fix a w' assume "f w = (Inr a, w')" "cycled b oid w w'"
  moreover from this(2) have "control_inv (ctl_db w')" by (simp add: cycled_def)
  ultimately show "cycled b oid w (snd (g a w'))"
    using assms(2) cycled_trans by blast
qed (rule assms(1))

lemma apply_and_verify_quiet_part:
  "quiet w (snd (seq (do_update env k owner Verifying None False None) (\<lambda>_.
     seq (do_health ad dep) (\<lambda>h.
       if verifies (e_codec env) h target
       then do_update env k owner Restored None False (Some h)
       else do_update env k owner Verifying (Some ''health_not_verified'') False None)) w))"
  by (rule quiet_seq [OF quiet_update], rule quiet_seq [OF quiet_health]) (simp add: quiet_update)

lemma apply_and_verify_cycled:
  assumes inv: "control_inv (ctl_db w)"
    and op: "lookup (c_rollbacks (ctl_db w)) oid = Some op"
    and target: "lookup (c_revisions (ctl_db w)) (o_target_revision op) = Some target"
    and once: "supports_idempotency ad \<or> o_status op = Detected"
  shows "cycled (supports_idempotency ad) oid w (snd (apply_and_verify env ad op owner target w))"
proof -
  let ?b = "supports_idempotency ad"
  have oid: "o_operation_id op = oid"
    using control_invD(3) [OF inv op] by (simp add: rollback_ok_def)
  obtain r w1 where w1: "do_update env oid owner Applying None True None w = (r, w1)"
    by (cases "do_update env oid owner Applying None True None w")
  then have q1: "quiet w w1" by (metis quiet_update snd_conv)
  show ?thesis
  proof (cases r)
    case (Inl e)
    with w1 oid quiet_cycled [OF inv q1] show ?thesis
      by (simp add: apply_and_verify_def seq_Inl)
  next
    case (Inr op')
    with w1 obtain op0 where op0: "lookup (c_rollbacks (ctl_db w)) oid = Some op0"
      "op' = changed_record op0 Applying None True (e_clock env (ctl_tick w))"
      "lookup (c_rollbacks (ctl_db w1)) oid = Some op'"
      using do_update_Inr by blast
    with op have op': "op' = changed_record op Applying None True (e_clock env (ctl_tick w))" by simp
    let ?q = "rollback_request op' target"
    obtain r2 w2 where w2: "do_apply ad ?q w1 = (r2, w2)"
      by (cases "do_apply ad ?q w1")
    have key: "q_idempotency_key ?q = oid" using op' oid by (simp add: rollback_request_def)
    from w2 key op0(3) have log: "ctl_db w2 = ctl_db w1"
      "ctl_applied w2 = ctl_applied w @ [(?q, Some op')]"
      using do_apply_keeps [of ad ?q w1] q1 by (simp_all add: quiet_def)
    have "planned (ctl_db w1) oid ?q"
      using op0(3) q1 target op' by (auto simp: planned_def quiet_def moved_on_def)
    moreover have "intent_recorded (?q, Some op')"
      using op' by (auto simp: intent_recorded_def changed_record_def rollback_request_def Let_def
          split: option.splits)
    moreover have "begun oid w2" using log(1) op0(3) op' by (simp add: begun_def status_of_def)
    moreover have "?b \<or> \<not> begun oid w" using once op by (auto simp: begun_def status_of_def)
    ultimately have c2: "cycled ?b oid w w2"
      using q1 inv log by (auto simp: cycled_def quiet_def)
    show ?thesis
    proof (cases r2)
      case (Inl e)
      with c2 w1 w2 Inr oid show ?thesis by (simp add: apply_and_verify_def txn)
    next
      case Inr2: (Inr u)
      have "snd (apply_and_verify env ad op owner target w) =
        snd (seq (do_update env (o_operation_id op') owner Verifying None False None) (\<lambda>_.
           seq (do_health ad (s_deployment_id (o_signal op'))) (\<lambda>h.
           if verifies (e_codec env) h target
           then do_update env (o_operation_id op') owner Restored None False (Some h)
           else do_update env (o_operation_id op') owner Verifying
                  (Some ''health_not_verified'') False None)) w2)"
        using w1 w2 Inr Inr2 oid by (simp add: apply_and_verify_def txn)
      with cycled_quiet [OF c2 apply_and_verify_quiet_part] show ?thesis by simp
    qed
  qed
qed

lemma run_cycle_cycled:
  assumes inv: "control_inv (ctl_db w)"
    and op: "lookup (c_rollbacks (ctl_db w)) oid = Some op"
  shows "cycled (supports_idempotency ad) oid w (snd (run_cycle env ad op owner w))"
  unfolding run_cycle_def
proof (rule cycled_seq)
  show "cycled (supports_idempotency ad) oid w
      (snd (on_db (revision_of (e_me env) (o_target_revision op)) w))"
    by (rule quiet_cycled [OF inv]) (simp add: on_db_read)
next
  fix target w' assume "on_db (revision_of (e_me env) (o_target_revision op)) w = (Inr target, w')"
  then have w': "w' = w" and
    target: "lookup (c_revisions (ctl_db w)) (o_target_revision op) = Some target"
    by (auto simp: on_db_def revision_of_Inr split: prod.splits)
  note av = apply_and_verify_cycled [OF inv op target, of ad env owner]
  have "cycled (supports_idempotency ad) oid w
      (snd (seq (do_health ad (s_deployment_id (o_signal op))) (\<lambda>h.
           if verifies (e_codec env) h target
           then do_update env (o_operation_id op) owner Restored None False (Some h)
           else if o_status op = Verifying \<or> \<not> supports_idempotency ad
           then do_update env (o_operation_id op) owner
                  (if o_status op = Verifying then Verifying else Needs_reconciliation)
                  (Some ''health_not_verified'') False None
           else apply_and_verify env ad op owner target) w))" (is "cycled ?b oid w (snd (seq ?h ?k w))")
  proof (rule cycled_seq)
    show "cycled ?b oid w (snd (?h w))" by (rule quiet_cycled [OF inv quiet_health])
  next
    fix h w1 assume h: "?h w = (Inr h, w1)"
    then have "ctl_db w1 = ctl_db w" by (metis do_health_keeps(1) snd_conv)
    then show "cycled ?b oid w1 (snd (?k h w1))"
      using inv op target apply_and_verify_cycled [of w1 oid op target ad env owner]
      by (cases "supports_idempotency ad") (simp_all add: quiet_cycled quiet_update)
  qed
  with av show "cycled (supports_idempotency ad) oid w' (snd ((if o_status op \<noteq> Detected then
         seq (do_health ad (s_deployment_id (o_signal op))) (\<lambda>h.
           if verifies (e_codec env) h target
           then do_update env (o_operation_id op) owner Restored None False (Some h)
           else if o_status op = Verifying \<or> \<not> supports_idempotency ad
           then do_update env (o_operation_id op) owner
                  (if o_status op = Verifying then Verifying else Needs_reconciliation)
                  (Some ''health_not_verified'') False None
           else apply_and_verify env ad op owner target)
       else apply_and_verify env ad op owner target) w'))"
    unfolding w' by (cases "o_status op = Detected") simp_all
qed

lemma resume_cycled:
  fixes w :: "'w ctl"
  assumes inv: "control_inv (ctl_db w)"
  shows "cycled (supports_idempotency ad) oid w (snd (resume env ad owner oid w))"
  unfolding resume_def
proof (rule cycled_seq)
  show "cycled (supports_idempotency ad) oid w (snd (on_db (operation (e_me env) oid) w))"
    by (rule quiet_cycled [OF inv]) (simp add: on_db_read)
next
  fix op0 and w' :: "'w ctl" assume inv': "control_inv (ctl_db w')"
  let ?b = "supports_idempotency ad"
  have "cycled ?b oid w' (snd (seq (do_claim env oid owner) (\<lambda>op.
         finally_do (recover (run_cycle env ad op owner) (handle_failure env oid owner))
           (on_db (release_lease (e_me env) oid owner))) w'))"
  proof (rule cycled_seq)
    show "cycled ?b oid w' (snd (do_claim env oid owner w'))"
      by (rule quiet_cycled [OF inv' quiet_claim])
  next
    fix op w1 assume c: "do_claim env oid owner w' = (Inr op, w1)" and i1: "control_inv (ctl_db w1)"
    have "cycled ?b oid w1
        (snd (recover (run_cycle env ad op owner) (handle_failure env oid owner) w1))"
      by (rule recover_rel [where R = "cycled ?b oid"])
        (use run_cycle_cycled [OF i1 do_claim_Inr(2) [OF c]] cycled_quiet quiet_failure in blast)+
    then show "cycled ?b oid w1 (snd (finally_do
        (recover (run_cycle env ad op owner) (handle_failure env oid owner))
           (on_db (release_lease (e_me env) oid owner)) w1))"
      by (rule finally_do_rel) (rule cycled_quiet [OF _ quiet_release])
  qed
  then show "cycled ?b oid w' (snd ((if o_status op0 = Restored then return op0
       else seq (do_claim env oid owner) (\<lambda>op.
         finally_do (recover (run_cycle env ad op owner) (handle_failure env oid owner))
           (on_db (release_lease (e_me env) oid owner)))) w'))"
    using quiet_cycled [OF inv'] by (simp add: return_def)
qed

lemma resume_all_cycled:
  "control_inv (ctl_db w) \<Longrightarrow>
     cycled (supports_idempotency ad) oid w (resume_all env ad owners oid w)"
proof (induction owners arbitrary: w)
  case Nil
  then show ?case by (simp add: quiet_cycled)
next
  case (Cons owner owners)
  note c = resume_cycled [OF Cons.prems, of ad oid env owner]
  then have "control_inv (ctl_db (snd (resume env ad owner oid w)))" by (simp add: cycled_def)
  from cycled_trans [OF c Cons.IH [OF this]] show ?case by simp
qed

subsection \<open>Guarantees of the controller\<close>

text \<open>For witnesses: an adapter without idempotent replay whose apply call times out.\<close>

definition demo_adapter :: "bool \<Rightarrow> nat adapter" where
  "demo_adapter idem = \<lparr>supports_idempotency = idem,
     adapter_apply = (\<lambda>q n. (Inl (TimeoutError []), n + 1)),
     adapter_health = (\<lambda>dep n. (Inl (TimeoutError []), n))\<rparr>"

definition demo_env :: env where
  "demo_env = \<lparr>e_me = demo_identity, e_codec = demo_codec, e_clock = (\<lambda>n. 20), e_timeout = 10\<rparr>"

definition demo_ctl :: "nat ctl" where
  "demo_ctl = \<lparr>ctl_db = demo_db, ctl_world = 0, ctl_tick = 0, ctl_applied = []\<rparr>"

text \<open>C6: An adapter that does not support idempotent replay is asked to apply a rollback
  operation at most once over any number of resumptions by any workers, whatever fails in
  between, and never again once the operation has left the detected status.\<close>

theorem apply_at_most_once:
  assumes "ctl_db w = control_run cd me ts (empty_control i)"
    and "\<not> supports_idempotency ad"
  shows "\<exists>new. ctl_applied (resume_all env ad owners oid w) = ctl_applied w @ new \<and>
     length new \<le> 1 \<and> (begun oid w \<longrightarrow> new = [])"
proof -
  have "control_inv (ctl_db w)"
    unfolding assms(1) by (intro control_inv_run control_inv_empty)
  from resume_all_cycled [OF this, of ad oid env owners] assms(2) show ?thesis
    by (auto simp: cycled_def)
qed

theorem apply_at_most_once_witness:
  "\<exists>new. ctl_applied (resume_all demo_env (demo_adapter False) [''w1'', ''w2''] ''op'' demo_ctl)
         = ctl_applied demo_ctl @ new \<and>
     length new \<le> 1 \<and> (begun ''op'' demo_ctl \<longrightarrow> new = [])"
  by (rule apply_at_most_once [of demo_ctl demo_codec demo_identity demo_run demo_identity])
    (simp_all add: demo_ctl_def demo_db_def demo_adapter_def)

text \<open>C7: Every apply call made while an operation is resumed was preceded by a committed
  record of the intent (the operation is in the applying status with a counted attempt and a
  start time), it carries the signal's observed revision and generation as its fence and the
  operation's ID as its idempotency key, and every call repeats one and the same request.\<close>

theorem intent_precedes_apply:
  assumes "ctl_db w = control_run cd me ts (empty_control i)"
  shows "\<exists>new. ctl_applied (resume_all env ad owners oid w) = ctl_applied w @ new \<and>
     (\<forall>e \<in> set new. intent_recorded e \<and> (\<forall>e' \<in> set new. fst e' = fst e))"
proof -
  have "control_inv (ctl_db w)"
    unfolding assms(1) by (intro control_inv_run control_inv_empty)
  from resume_all_cycled [OF this, of ad oid env owners] show ?thesis
    unfolding cycled_def using planned_unique by blast
qed

theorem intent_precedes_apply_witness:
  "\<exists>new. ctl_applied (resume_all demo_env (demo_adapter True) [''w1'', ''w2''] ''op'' demo_ctl)
         = ctl_applied demo_ctl @ new \<and>
     (\<forall>e \<in> set new. intent_recorded e \<and> (\<forall>e' \<in> set new. fst e' = fst e))"
  by (rule intent_precedes_apply [of demo_ctl demo_codec demo_identity demo_run demo_identity])
    (simp add: demo_ctl_def demo_db_def)

lemma demo_timeline:
  "map (q_target \<circ> fst) (ctl_applied (resume_all demo_env (demo_adapter False) [''w1''] ''op'' demo_ctl))
     = [demo_revision ''a'']"
  by (simp add: demo_ctl_def demo_env_def demo_adapter_def resume_def on_db_def operation_def
      do_claim_def claim_def claim_body_def do_update_def update_rollback_def update_body_def
      run_cycle_def apply_and_verify_def do_apply_def control_eval seq_def recover_def finally_do_def
      handle_failure_def revision_of_def fence_def release_lease_def validate_transition_def
      changed_record_def restore_deployments_def rollback_request_def fadd_def fmul_def
      demo_db_def demo_defs)

end
