(* ===== verification/Routing.thy ===== *)
theory Routing
  imports RollbackController "HOL-Library.List_Lexorder" "HOL-Library.Char_ord"
    "HOL-Library.Product_Lexorder"
begin

text \<open>
  The replica router: the telemetry contract of \<open>contracts/routing.py\<close>, the pure policy of
  \<open>scheduler/policy.py\<close> and the reservation state of \<open>scheduler/router.py\<close>.  The
  router's lock makes each operation one step.  Sets of lease IDs are sets, dicts are tables in
  insertion order, and text is ordered by code point as Python orders it.
\<close>

subsection \<open>Telemetry\<close>

record snapshot =
  rs_replica_id :: string
  rs_model :: string
  rs_received_at :: flt
  rs_healthy :: bool
  rs_capacity :: nat
  rs_ongoing :: nat
  rs_queued :: nat
  rs_gpu_type :: "string option"
  rs_gpu_device_id :: "string option"
  rs_gpu_memory :: "flt option"
  rs_gpu_observed_at :: "flt option"
  rs_engine_running :: "nat option"
  rs_engine_waiting :: "nat option"
  rs_kv_cache :: "flt option"
  rs_engine_observed_at :: "flt option"
  rs_cached_prefixes :: "string set"
  rs_reflected :: "string set"

definition unit_interval :: "flt \<Rightarrow> bool" where
  "unit_interval x \<longleftrightarrow> 0 \<le> x \<and> x \<le> 1"

definition routing_id :: "string \<Rightarrow> bool" where
  "routing_id s \<longleftrightarrow> bounded_text 1 256 s"

text \<open>The field bounds, then \<open>validate_reflected_leases\<close>.\<close>

definition valid_snapshot :: "snapshot \<Rightarrow> bool" where
  "valid_snapshot s \<longleftrightarrow>
     routing_id (rs_replica_id s) \<and> routing_id (rs_model s) \<and> 0 \<le> rs_received_at s \<and>
     rs_capacity s \<le> 4096 \<and> opt_all routing_id (rs_gpu_type s) \<and>
     opt_all routing_id (rs_gpu_device_id s) \<and> opt_all unit_interval (rs_gpu_memory s) \<and>
     opt_all (\<lambda>t. 0 \<le> t) (rs_gpu_observed_at s) \<and>
     opt_all (\<lambda>n. n \<le> 65536) (rs_engine_running s) \<and>
     opt_all (\<lambda>n. n \<le> 65536) (rs_engine_waiting s) \<and>
     opt_all unit_interval (rs_kv_cache s) \<and> opt_all (\<lambda>t. 0 \<le> t) (rs_engine_observed_at s) \<and>
     finite (rs_cached_prefixes s) \<and> card (rs_cached_prefixes s) \<le> 128 \<and>
     Ball (rs_cached_prefixes s) is_sha256 \<and>
     finite (rs_reflected s) \<and> card (rs_reflected s) \<le> 4096 \<and> Ball (rs_reflected s) routing_id \<and>
     card (rs_reflected s) \<le> rs_ongoing s"

record routing_request =
  rr_model :: string
  rr_requires_gpu :: bool
  rr_gpu_type :: "string option"
  rr_prefix_digest :: "string option"

datatype route_mode = Least_load | Adaptive

record routing_decision =
  rd_replica_id :: string
  rd_policy :: route_mode
  rd_score :: flt
  rd_effective :: nat
  rd_capacity :: nat
  rd_affinity :: bool
  rd_age :: flt

definition valid_decision :: "routing_decision \<Rightarrow> bool" where
  "valid_decision d \<longleftrightarrow> routing_id (rd_replica_id d) \<and> 0 < rd_capacity d \<and> 0 \<le> rd_age d"

subsection \<open>Policy\<close>

record routing_policy =
  rp_mode :: route_mode
  rp_ttl :: flt
  rp_gpu_memory_limit :: flt
  rp_memory_weight :: flt
  rp_cache_bonus :: flt
  rp_cache_load_gap :: flt

definition valid_policy :: "routing_policy \<Rightarrow> bool" where
  "valid_policy p \<longleftrightarrow>
     0 < rp_ttl p \<and> rp_ttl p \<le> 300 \<and> 0 < rp_gpu_memory_limit p \<and> rp_gpu_memory_limit p \<le> 1 \<and>
     0 \<le> rp_memory_weight p \<and> rp_memory_weight p \<le> 1 \<and>
     0 \<le> rp_cache_bonus p \<and> rp_cache_bonus p \<le> 1/4 \<and>
     0 \<le> rp_cache_load_gap p \<and> rp_cache_load_gap p \<le> 1/4"

record candidate =
  ca_snapshot :: snapshot
  ca_effective :: nat

definition load :: "candidate \<Rightarrow> flt" where
  "load c = int_div (ca_effective c) (rs_capacity (ca_snapshot c))"

definition fresh :: "routing_policy \<Rightarrow> flt \<Rightarrow> flt \<Rightarrow> bool" where
  "fresh p now t \<longleftrightarrow> 0 \<le> fsub now t \<and> fsub now t \<le> rp_ttl p"

definition matches_gpu :: "snapshot \<Rightarrow> routing_request \<Rightarrow> bool" where
  "matches_gpu s q \<longleftrightarrow>
     (\<not> rr_requires_gpu q \<or> rs_gpu_type s \<noteq> None) \<and>
     (rr_gpu_type q = None \<or> rr_gpu_type q = rs_gpu_type s)"

definition memory_safe :: "snapshot \<Rightarrow> routing_policy \<Rightarrow> flt \<Rightarrow> bool" where
  "memory_safe s p now \<longleftrightarrow> rs_gpu_type s = None \<or>
     (case rs_gpu_memory s of None \<Rightarrow> False | Some u \<Rightarrow> u < rp_gpu_memory_limit p) \<and>
     (case rs_gpu_observed_at s of None \<Rightarrow> True | Some t \<Rightarrow> fresh p now t)"

definition is_eligible :: "candidate \<Rightarrow> routing_request \<Rightarrow> routing_policy \<Rightarrow> flt \<Rightarrow> bool" where
  "is_eligible c q p now \<longleftrightarrow> (let s = ca_snapshot c in
     rs_healthy s \<and> rs_model s = rr_model q \<and> fresh p now (rs_received_at s) \<and>
     (case rs_engine_observed_at s of None \<Rightarrow> True | Some t \<Rightarrow> fresh p now t) \<and>
     (ca_effective c < rs_capacity s \<and> 0 < rs_capacity s) \<and>
     matches_gpu s q \<and> memory_safe s p now)"

definition affinity :: "candidate \<Rightarrow> routing_request \<Rightarrow> routing_policy \<Rightarrow> flt \<Rightarrow> bool" where
  "affinity c q p minimum \<longleftrightarrow>
     rp_mode p = Adaptive \<and>
     (case rr_prefix_digest q of None \<Rightarrow> False
      | Some d \<Rightarrow> d \<in> rs_cached_prefixes (ca_snapshot c)) \<and>
     load c \<le> fadd minimum (rp_cache_load_gap p)"

definition memory_term :: "snapshot \<Rightarrow> flt" where
  "memory_term s = (if rs_gpu_type s = None then 0
     else case rs_gpu_memory s of None \<Rightarrow> 0 | Some u \<Rightarrow> u)"

definition score_candidate ::
  "candidate \<Rightarrow> routing_request \<Rightarrow> routing_policy \<Rightarrow> flt \<Rightarrow> flt \<Rightarrow> routing_decision" where
  "score_candidate c q p minimum now =
     \<lparr>rd_replica_id = rs_replica_id (ca_snapshot c), rd_policy = rp_mode p,
      rd_score = (if rp_mode p = Adaptive
        then fadd (load c) (fsub (fmul (rp_memory_weight p) (memory_term (ca_snapshot c)))
               (if affinity c q p minimum then rp_cache_bonus p else 0))
        else load c),
      rd_effective = ca_effective c, rd_capacity = rs_capacity (ca_snapshot c),
      rd_affinity = affinity c q p minimum, rd_age = fsub now (rs_received_at (ca_snapshot c))\<rparr>"

subsection \<open>The router\<close>

record lease =
  lease_id :: string
  lease_decision :: routing_decision

record router =
  rt_policy :: routing_policy
  rt_max_replicas :: nat
  rt_snapshots :: "snapshot table"
  rt_leases :: "lease table"
  rt_held :: "string set table"
  rt_owner :: string
  rt_sequence :: nat

definition new_router :: "string \<Rightarrow> routing_policy \<Rightarrow> nat \<Rightarrow> router res" where
  "new_router owner p maximum =
     (if maximum < 1 then Inl (ValueError ''max_replicas must be positive'')
      else Inr \<lparr>rt_policy = p, rt_max_replicas = maximum, rt_snapshots = [], rt_leases = [],
                rt_held = [], rt_owner = owner, rt_sequence = 0\<rparr>)"

definition update_snapshot :: "snapshot \<Rightarrow> (router, unit) action" where
  "update_snapshot s rt =
     (case lookup (rt_snapshots rt) (rs_replica_id s) of
        Some previous \<Rightarrow>
          if rs_received_at s < rs_received_at previous
          then (Inl (ValueError ''snapshot arrival timestamp moved backward''), rt)
          else (Inr (), rt\<lparr>rt_snapshots := upsert (rs_replica_id s) s (rt_snapshots rt)\<rparr>)
      | None \<Rightarrow>
          if rt_max_replicas rt \<le> length (rt_snapshots rt)
          then (Inl (ValueError ''replica snapshot limit reached''), rt)
          else (Inr (), rt\<lparr>rt_snapshots := upsert (rs_replica_id s) s (rt_snapshots rt)\<rparr>))"

definition held :: "router \<Rightarrow> string \<Rightarrow> string set" where
  "held rt r = (case lookup (rt_held rt) r of None \<Rightarrow> {} | Some ids \<Rightarrow> ids)"

definition candidate_of :: "router \<Rightarrow> snapshot \<Rightarrow> candidate" where
  "candidate_of rt s =
     \<lparr>ca_snapshot = s,
      ca_effective = rs_ongoing s + rs_queued s + card (held rt (rs_replica_id s) - rs_reflected s)\<rparr>"

definition candidates :: "router \<Rightarrow> candidate list" where
  "candidates rt = map (\<lambda>row. candidate_of rt (snd row)) (rt_snapshots rt)"

definition eligible :: "router \<Rightarrow> routing_request \<Rightarrow> flt \<Rightarrow> candidate list" where
  "eligible rt q now = filter (\<lambda>c. is_eligible c q (rt_policy rt) now) (candidates rt)"

definition minimum_load :: "candidate list \<Rightarrow> flt" where
  "minimum_load cs = min_by (\<lambda>x. x) (map load cs)"

definition decisions :: "router \<Rightarrow> routing_request \<Rightarrow> flt \<Rightarrow> routing_decision list" where
  "decisions rt q now = (let cs = eligible rt q now in
     map (\<lambda>c. score_candidate c q (rt_policy rt) (minimum_load cs) now) cs)"

definition lease_name :: "router \<Rightarrow> nat \<Rightarrow> string" where
  "lease_name rt n = rt_owner rt @ '':'' @ decimal n"

definition reserve :: "routing_request \<Rightarrow> flt \<Rightarrow> (router, lease) action" where
  "reserve q now rt =
     (if now < 0 then (Inl (ValueError ''router clock must be finite and nonnegative''), rt)
      else if eligible rt q now = [] then
        (if list_ex (\<lambda>c. is_eligible \<lparr>ca_snapshot = ca_snapshot c, ca_effective = 0\<rparr> q
                            (rt_policy rt) now) (candidates rt)
         then (Inl (ReplicaCapacityUnavailable ''Eligible replica capacity is saturated''), rt)
         else (Inl (NoReplicaAvailable ''No eligible replica has available capacity''), rt))
      else let d = min_by (\<lambda>d. (rd_score d, rd_replica_id d)) (decisions rt q now);
               n = rt_sequence rt + 1;
               l = \<lparr>lease_id = lease_name rt n, lease_decision = d\<rparr>
           in (Inr l, rt\<lparr>rt_sequence := n,
                rt_leases := upsert (lease_id l) l (rt_leases rt),
                rt_held := upsert (rd_replica_id d)
                  (insert (lease_id l) (held rt (rd_replica_id d))) (rt_held rt)\<rparr>))"

definition release :: "lease \<Rightarrow> (router, unit) action" where
  "release l rt =
     (if lookup (rt_leases rt) (lease_id l) \<noteq> Some l
      then (Inl (RuntimeError ''routing lease is unknown, altered, or already released''), rt)
      else let r = rd_replica_id (lease_decision l);
               rt' = rt\<lparr>rt_leases := delete_key (lease_id l) (rt_leases rt)\<rparr>
           in case lookup (rt_held rt) r of
                None \<Rightarrow> (Inl (KeyError r), rt')
              | Some ids \<Rightarrow>
                if lease_id l \<notin> ids then (Inl (KeyError (lease_id l)), rt')
                else (Inr (), rt'\<lparr>rt_held := upsert r (ids - {lease_id l}) (rt_held rt)\<rparr>))"

definition active_reservations :: "router \<Rightarrow> nat" where
  "active_reservations rt = length (rt_leases rt)"

definition forget_replica :: "string \<Rightarrow> (router, unit) action" where
  "forget_replica r rt =
     (if held rt r \<noteq> {}
      then (Inl (RuntimeError ''cannot forget a replica with active reservations''), rt)
      else (Inr (), rt\<lparr>rt_snapshots := delete_key r (rt_snapshots rt),
                       rt_held := delete_key r (rt_held rt)\<rparr>))"

text \<open>The operations the gateway can call, in any order.  Telemetry is validated when built.\<close>

datatype router_op = Telemetry snapshot | Reserve routing_request flt | Release lease | Forget string

fun router_step :: "router_op \<Rightarrow> router \<Rightarrow> router" where
  "router_step (Telemetry s) rt = (if valid_snapshot s then snd (update_snapshot s rt) else rt)"
| "router_step (Reserve q now) rt = snd (reserve q now rt)"
| "router_step (Release l) rt = snd (release l rt)"
| "router_step (Forget r) rt = snd (forget_replica r rt)"

fun router_run :: "router_op list \<Rightarrow> router \<Rightarrow> router" where
  "router_run [] rt = rt"
| "router_run (x # xs) rt = router_run xs (router_step x rt)"

end
