(* ===== verification/RouterGuarantees.thy ===== *)
theory RouterGuarantees
  imports Routing
begin

text \<open>
  Guarantees of the replica router: exact accounting of reservations, no reservation beyond
  the reported capacity, optimal and deterministic selection, and single release.
\<close>

subsection \<open>Eligibility\<close>

lemma eligible_mem:
  "c \<in> set (eligible rt q now) \<longleftrightarrow> is_eligible c q (rt_policy rt) now \<and>
     (\<exists>row \<in> set (rt_snapshots rt). c = candidate_of rt (snd row))"
  by (auto simp: eligible_def candidates_def)

lemma score_candidate_fields [simp]:
  "rd_replica_id (score_candidate c q p m now) = rs_replica_id (ca_snapshot c)"
  "rd_policy (score_candidate c q p m now) = rp_mode p"
  "rd_effective (score_candidate c q p m now) = ca_effective c"
  "rd_capacity (score_candidate c q p m now) = rs_capacity (ca_snapshot c)"
  "rd_affinity (score_candidate c q p m now) = affinity c q p m"
  "rd_age (score_candidate c q p m now) = fsub now (rs_received_at (ca_snapshot c))"
  by (simp_all add: score_candidate_def)

lemma candidate_of_fields [simp]:
  "ca_snapshot (candidate_of rt s) = s"
  by (simp add: candidate_of_def)

text \<open>The three outcomes of a reservation.\<close>

lemma reserve_cases:
  obtains (clock) "now < 0"
      "reserve q now rt = (Inl (ValueError ''router clock must be finite and nonnegative''), rt)"
  | (saturated) c where "0 \<le> now" "eligible rt q now = []" "c \<in> set (candidates rt)"
      "is_eligible \<lparr>ca_snapshot = ca_snapshot c, ca_effective = 0\<rparr> q (rt_policy rt) now"
      "reserve q now rt =
         (Inl (ReplicaCapacityUnavailable ''Eligible replica capacity is saturated''), rt)"
  | (none) "0 \<le> now" "eligible rt q now = []"
      "\<forall>c \<in> set (candidates rt).
         \<not> is_eligible \<lparr>ca_snapshot = ca_snapshot c, ca_effective = 0\<rparr> q (rt_policy rt) now"
      "reserve q now rt =
         (Inl (NoReplicaAvailable ''No eligible replica has available capacity''), rt)"
  | (granted) c d l where "0 \<le> now" "c \<in> set (eligible rt q now)"
      "d = score_candidate c q (rt_policy rt) (minimum_load (eligible rt q now)) now"
      "d = min_by (\<lambda>d. (rd_score d, rd_replica_id d)) (decisions rt q now)"
      "l = \<lparr>lease_id = lease_name rt (rt_sequence rt + 1), lease_decision = d\<rparr>"
      "reserve q now rt = (Inr l, rt\<lparr>rt_sequence := rt_sequence rt + 1,
          rt_leases := upsert (lease_id l) l (rt_leases rt),
          rt_held := upsert (rd_replica_id d)
            (insert (lease_id l) (held rt (rd_replica_id d))) (rt_held rt)\<rparr>)"
proof (cases "now < 0")
  case True
  then show thesis by (intro clock) (simp_all add: reserve_def)
next
  case now: False
  show thesis
  proof (cases "eligible rt q now = []")
    case True
    show thesis
    proof (cases "\<exists>c \<in> set (candidates rt). is_eligible \<lparr>ca_snapshot = ca_snapshot c, ca_effective = 0\<rparr>
        q (rt_policy rt) now")
      case ex: True
      with now True show thesis by (elim bexE) (rule saturated, auto simp: reserve_def list_ex_iff)
    next
      case False
      with now True show thesis by (intro none) (auto simp: reserve_def list_ex_iff)
    qed
  next
    case False
    let ?d = "min_by (\<lambda>d. (rd_score d, rd_replica_id d)) (decisions rt q now)"
    from False have "?d \<in> set (decisions rt q now)"
      by (intro min_by_mem) (simp add: decisions_def Let_def)
    then obtain c where "c \<in> set (eligible rt q now)"
      "?d = score_candidate c q (rt_policy rt) (minimum_load (eligible rt q now)) now"
      by (auto simp: decisions_def Let_def)
    with now False show thesis
      by (intro granted [OF _ _ _ refl refl]) (simp_all add: reserve_def Let_def)
  qed
qed

lemma reserve_granted:
  assumes "0 \<le> now" and "eligible rt q now \<noteq> []"
  obtains l rt' where "reserve q now rt = (Inr l, rt')"
  using assms by (cases rule: reserve_cases [of now q rt]) auto

lemma reserve_Inl: "reserve q now rt = (Inl e, rt') \<Longrightarrow> rt' = rt"
  by (cases rule: reserve_cases [of now q rt]) auto

lemma release_ok_cases:
  assumes "lookup (rt_leases rt) (lease_id l) = Some l"
    and "lease_id l \<in> held rt (rd_replica_id (lease_decision l))"
  shows "release l rt = (Inr (), rt\<lparr>rt_leases := delete_key (lease_id l) (rt_leases rt),
     rt_held := upsert (rd_replica_id (lease_decision l))
       (held rt (rd_replica_id (lease_decision l)) - {lease_id l}) (rt_held rt)\<rparr>)"
  using assms by (auto simp: release_def held_def Let_def split: option.splits)

subsection \<open>The accounting invariant\<close>

definition lease_ok :: "router \<Rightarrow> string \<Rightarrow> lease \<Rightarrow> bool" where
  "lease_ok rt k l \<longleftrightarrow> lease_id l = k \<and> k \<in> held rt (rd_replica_id (lease_decision l)) \<and>
     (\<exists>n. 1 \<le> n \<and> n \<le> rt_sequence rt \<and> k = lease_name rt n)"

definition held_ok :: "router \<Rightarrow> string \<Rightarrow> bool" where
  "held_ok rt r \<longleftrightarrow> finite (held rt r) \<and>
     (held rt r \<noteq> {} \<longrightarrow> lookup (rt_snapshots rt) r \<noteq> None) \<and>
     (\<forall>k \<in> held rt r. \<exists>l. lookup (rt_leases rt) k = Some l \<and> rd_replica_id (lease_decision l) = r)"

definition snapshot_ok :: "string \<Rightarrow> snapshot \<Rightarrow> bool" where
  "snapshot_ok r s \<longleftrightarrow> rs_replica_id s = r \<and> valid_snapshot s"

definition router_inv :: "router \<Rightarrow> bool" where
  "router_inv rt \<longleftrightarrow>
     unique_keys (rt_snapshots rt) \<and> unique_keys (rt_leases rt) \<and>
     length (rt_snapshots rt) \<le> rt_max_replicas rt \<and>
     (\<forall>r s. lookup (rt_snapshots rt) r = Some s \<longrightarrow> snapshot_ok r s) \<and>
     (\<forall>k l. lookup (rt_leases rt) k = Some l \<longrightarrow> lease_ok rt k l) \<and>
     (\<forall>r. held_ok rt r)"

lemma router_invD:
  assumes "router_inv rt"
  shows "lookup (rt_snapshots rt) r = Some s \<Longrightarrow> snapshot_ok r s"
    and "lookup (rt_leases rt) k = Some l \<Longrightarrow> lease_ok rt k l"
    and "held_ok rt r"
    and "unique_keys (rt_snapshots rt)" and "unique_keys (rt_leases rt)"
    and "length (rt_snapshots rt) \<le> rt_max_replicas rt"
  using assms by (auto simp: router_inv_def)

lemma router_inv_new: "new_router owner p maximum = Inr rt \<Longrightarrow> router_inv rt"
  by (auto simp: new_router_def router_inv_def held_ok_def held_def split: if_splits)

lemma lease_name_inj: "lease_name rt m = lease_name rt n \<longleftrightarrow> m = n"
  by (auto simp: lease_name_def dest: decimal_inj)

lemma held_upd [simp]:
  "held (rt\<lparr>rt_snapshots := s\<rparr>) r = held rt r"
  "held (rt\<lparr>rt_leases := l\<rparr>) r = held rt r"
  "held (rt\<lparr>rt_sequence := n\<rparr>) r = held rt r"
  "held (rt\<lparr>rt_held := upsert k ids (rt_held rt)\<rparr>) r = (if r = k then ids else held rt r)"
  "held (rt\<lparr>rt_sequence := n, rt_leases := l, rt_held := upsert k ids (rt_held rt)\<rparr>) r =
     (if r = k then ids else held rt r)"
  "held (rt\<lparr>rt_leases := l, rt_held := upsert k ids (rt_held rt)\<rparr>) r =
     (if r = k then ids else held rt r)"
  "held (rt\<lparr>rt_snapshots := s, rt_held := delete_key k (rt_held rt)\<rparr>) r =
     (if r = k then {} else held rt r)"
  by (simp_all add: held_def tbl)

lemma lease_name_upd [simp]:
  "lease_name (rt\<lparr>rt_snapshots := s\<rparr>) n = lease_name rt n"
  "lease_name (rt\<lparr>rt_sequence := m\<rparr>) n = lease_name rt n"
  "lease_name (rt\<lparr>rt_sequence := m, rt_leases := l, rt_held := h\<rparr>) n = lease_name rt n"
  "lease_name (rt\<lparr>rt_leases := l, rt_held := h\<rparr>) n = lease_name rt n"
  "lease_name (rt\<lparr>rt_snapshots := s, rt_held := h\<rparr>) n = lease_name rt n"
  by (simp_all add: lease_name_def)

lemma fresh_lease:
  assumes "router_inv rt" and "rt_sequence rt < n"
  shows "lookup (rt_leases rt) (lease_name rt n) = None"
proof (rule ccontr)
  assume "lookup (rt_leases rt) (lease_name rt n) \<noteq> None"
  then obtain l where "lookup (rt_leases rt) (lease_name rt n) = Some l" by auto
  from router_invD(2) [OF assms(1) this] assms(2) show False
    by (auto simp: lease_ok_def lease_name_inj)
qed

lemma router_inv_telemetry:
  assumes inv: "router_inv rt" and valid: "valid_snapshot s"
  shows "router_inv (snd (update_snapshot s rt))"
proof -
  have "router_inv (rt\<lparr>rt_snapshots := upsert (rs_replica_id s) s (rt_snapshots rt)\<rparr>)"
    if "lookup (rt_snapshots rt) (rs_replica_id s) \<noteq> None \<or>
        length (rt_snapshots rt) < rt_max_replicas rt"
    using inv valid that
    by (auto simp: router_inv_def lease_ok_def held_ok_def snapshot_ok_def tbl length_upsert)
  with inv show ?thesis
    by (auto simp: update_snapshot_def split: option.splits)
qed

lemma router_inv_reserve:
  assumes inv: "router_inv rt"
  shows "router_inv (snd (reserve q now rt))"
proof (cases rule: reserve_cases [of now q rt])
  case (granted c d l)
  from granted(2) obtain r s where s: "(r, s) \<in> set (rt_snapshots rt)" "c = candidate_of rt s"
    by (auto simp: eligible_mem)
  then have known: "lookup (rt_snapshots rt) (rd_replica_id d) = Some s"
    using router_invD(1) [OF inv] unique_keys_lookup [OF router_invD(4) [OF inv] s(1)] granted(3)
    by (auto simp: snapshot_ok_def)
  let ?k = "lease_name rt (rt_sequence rt + 1)"
  have new: "lookup (rt_leases rt) ?k = None" by (rule fresh_lease [OF inv]) simp
  have lease: "lease_ok (snd (reserve q now rt)) k l'"
    if "lookup (upsert ?k l (rt_leases rt)) k = Some l'" for k l'
  proof (cases "k = ?k")
    case True
    with that granted(5,6) show ?thesis by (auto simp: lease_ok_def tbl lease_name_inj)
  next
    case False
    with that have "lease_ok rt k l'" using router_invD(2) [OF inv] by (simp add: tbl)
    with granted(6) show ?thesis by (auto simp: lease_ok_def)
  qed
  have hold: "held_ok (snd (reserve q now rt)) r'" for r'
    using router_invD(3) [OF inv, of r'] router_invD(3) [OF inv, of "rd_replica_id d"] known new
      granted(5,6)
    by (auto simp: held_ok_def tbl)
  show ?thesis
    using inv granted(5,6) lease hold unfolding router_inv_def by (auto simp: tbl)
qed (use inv in simp_all)

lemma router_inv_release:
  assumes inv: "router_inv rt"
  shows "router_inv (snd (release l rt))"
proof (cases "lookup (rt_leases rt) (lease_id l) = Some l")
  case True
  let ?r = "rd_replica_id (lease_decision l)" and ?k = "lease_id l"
  from router_invD(2) [OF inv True] have "?k \<in> held rt ?r" by (simp add: lease_ok_def)
  note rel = release_ok_cases [OF True this]
  have lease: "lease_ok (snd (release l rt)) k l'"
    if "lookup (delete_key ?k (rt_leases rt)) k = Some l'" for k l'
    using that router_invD(2) [OF inv, of k l'] rel
    by (auto simp: lease_ok_def tbl split: if_splits)
  have hold: "held_ok (snd (release l rt)) r'" for r'
    using router_invD(3) [OF inv, of r'] rel True
    by (auto simp: held_ok_def tbl)
  show ?thesis
    using inv rel lease hold unfolding router_inv_def by (auto simp: tbl)
qed (use inv in \<open>simp add: release_def\<close>)

lemma router_inv_forget:
  assumes inv: "router_inv rt"
  shows "router_inv (snd (forget_replica r rt))"
proof (cases "held rt r = {}")
  case True
  let ?rt = "rt\<lparr>rt_snapshots := delete_key r (rt_snapshots rt),
                       rt_held := delete_key r (rt_held rt)\<rparr>"
  have lease: "lease_ok ?rt k l" if "lookup (rt_leases rt) k = Some l" for k l
    using router_invD(2) [OF inv that] True by (auto simp: lease_ok_def)
  have hold: "held_ok ?rt r'" for r'
    using router_invD(3) [OF inv, of r'] by (auto simp: held_ok_def tbl)
  have "router_inv ?rt"
    using inv lease hold length_delete_key_le [of r "rt_snapshots rt"]
    unfolding router_inv_def by (auto simp: tbl split: if_splits)
  with True show ?thesis by (simp add: forget_replica_def)
qed (use inv in \<open>simp add: forget_replica_def\<close>)

lemma router_inv_step: "router_inv rt \<Longrightarrow> router_inv (router_step x rt)"
  by (cases x) (auto intro: router_inv_telemetry router_inv_reserve router_inv_release router_inv_forget)

lemma router_inv_run: "router_inv rt \<Longrightarrow> router_inv (router_run xs rt)"
  by (induction xs arbitrary: rt) (auto intro: router_inv_step)


subsection \<open>A concrete router for witnesses\<close>

definition demo_snapshot :: snapshot where
  "demo_snapshot = \<lparr>rs_replica_id = ''a'', rs_model = ''m'', rs_received_at = 1, rs_healthy = True,
     rs_capacity = 2, rs_ongoing = 0, rs_queued = 0, rs_gpu_type = None, rs_gpu_device_id = None,
     rs_gpu_memory = None, rs_gpu_observed_at = None, rs_engine_running = None,
     rs_engine_waiting = None, rs_kv_cache = None, rs_engine_observed_at = None,
     rs_cached_prefixes = {}, rs_reflected = {}\<rparr>"

definition demo_request :: routing_request where
  "demo_request = \<lparr>rr_model = ''m'', rr_requires_gpu = False, rr_gpu_type = None,
     rr_prefix_digest = None\<rparr>"

definition demo_policy :: routing_policy where
  "demo_policy = \<lparr>rp_mode = Adaptive, rp_ttl = 5, rp_gpu_memory_limit = 1, rp_memory_weight = 1,
     rp_cache_bonus = 0, rp_cache_load_gap = 0\<rparr>"

definition demo_router :: router where
  "demo_router = \<lparr>rt_policy = demo_policy, rt_max_replicas = 4, rt_snapshots = [], rt_leases = [],
     rt_held = [], rt_owner = ''o'', rt_sequence = 0\<rparr>"

lemmas demo_router_defs = demo_snapshot_def demo_request_def demo_policy_def demo_router_def

lemma demo_router_new: "new_router ''o'' demo_policy 4 = Inr demo_router"
  by (simp add: new_router_def demo_router_def)

lemma demo_router_grants:
  obtains l rt' where "reserve demo_request 2 (router_run [Telemetry demo_snapshot] demo_router) = (Inr l, rt')"
proof (rule reserve_granted)
  show "eligible (router_run [Telemetry demo_snapshot] demo_router) demo_request 2 \<noteq> []"
    by (simp add: eligible_def candidates_def candidate_of_def is_eligible_def fresh_def
        matches_gpu_def memory_safe_def held_def update_snapshot_def valid_snapshot_def
        routing_id_def bounded_text_def fsub_def demo_router_defs)
qed (use that in simp_all)

subsection \<open>Guarantees\<close>

text \<open>The leases a router has outstanding for one replica.\<close>

definition outstanding :: "router \<Rightarrow> string \<Rightarrow> string set" where
  "outstanding rt r = {k. \<exists>l. lookup (rt_leases rt) k = Some l \<and> rd_replica_id (lease_decision l) = r}"

lemma outstanding_held: "router_inv rt \<Longrightarrow> outstanding rt r = held rt r"
  unfolding outstanding_def
  using router_invD(2) [of rt] router_invD(3) [of rt r]
  by (auto simp: lease_ok_def held_ok_def)

text \<open>Telemetry that counts its acknowledged leases makes the occupancy an upper bound.\<close>

lemma occupancy_bounds_leases:
  assumes "valid_snapshot s" and "finite (held rt (rs_replica_id s))"
  shows "card (held rt (rs_replica_id s)) \<le> ca_effective (candidate_of rt s)"
proof -
  let ?H = "held rt (rs_replica_id s)" and ?R = "rs_reflected s"
  have "card ?H \<le> card (?H - ?R) + card (?H \<inter> ?R)"
    using card_Un_le [of "?H - ?R" "?H \<inter> ?R"] by (simp add: Un_Diff_Int)
  moreover have "card (?H \<inter> ?R) \<le> card ?R"
    using assms(1) by (intro card_mono) (auto simp: valid_snapshot_def)
  ultimately show ?thesis using assms(1) by (simp add: candidate_of_def valid_snapshot_def)
qed

text \<open>Whatever telemetry, reservations, releases and retirements came before, a granted
  reservation names a known replica whose outstanding leases, the new one included, do not
  exceed the capacity of its current snapshot.\<close>

theorem reserve_within_capacity:
  assumes "new_router owner p maximum = Inr rt0" and "rt = router_run ops rt0"
    and "reserve q now rt = (Inr l, rt')"
  shows "\<exists>s. lookup (rt_snapshots rt) (rd_replica_id (lease_decision l)) = Some s \<and>
     card (outstanding rt' (rd_replica_id (lease_decision l))) \<le> rs_capacity s"
proof -
  have inv: "router_inv rt"
    unfolding assms(2) by (intro router_inv_run router_inv_new [OF assms(1)])
  from router_inv_reserve [OF inv] assms(3) have inv': "router_inv rt'" by (metis snd_conv)
  from assms(3) show ?thesis
  proof (cases rule: reserve_cases [of now q rt])
    case (granted c d l')
    let ?r = "rd_replica_id d"
    from granted(2) obtain r s where s: "(r, s) \<in> set (rt_snapshots rt)" "c = candidate_of rt s"
      "is_eligible c q (rt_policy rt) now"
      by (auto simp: eligible_mem)
    then have known: "lookup (rt_snapshots rt) ?r = Some s" and valid: "valid_snapshot s"
      and id: "rs_replica_id s = ?r"
      using router_invD(1) [OF inv] unique_keys_lookup [OF router_invD(4) [OF inv] s(1)] granted(3)
      by (auto simp: snapshot_ok_def)
    have fin: "finite (held rt ?r)" using router_invD(3) [OF inv] by (simp add: held_ok_def)
    have "card (outstanding rt' ?r) \<le> card (held rt ?r) + 1"
      using granted(6) assms(3) fin unfolding outstanding_held [OF inv']
      by (auto simp: card_insert_if)
    moreover have "card (held rt ?r) < rs_capacity s"
      using occupancy_bounds_leases [OF valid, of rt] fin id s(2,3)
      by (auto simp: is_eligible_def Let_def)
    ultimately have "card (outstanding rt' ?r) \<le> rs_capacity s" by linarith
    with known granted(5,6) assms(3) show ?thesis by auto
  qed auto
qed

theorem reserve_within_capacity_witness:
  "\<exists>l rt' (s :: snapshot).
     reserve demo_request 2 (router_run [Telemetry demo_snapshot] demo_router) = (Inr l, rt') \<and>
     card (outstanding rt' (rd_replica_id (lease_decision l))) \<le> rs_capacity s"
proof -
  obtain l rt' where
    r: "reserve demo_request 2 (router_run [Telemetry demo_snapshot] demo_router) = (Inr l, rt')"
    by (rule demo_router_grants)
  from reserve_within_capacity [OF demo_router_new refl r] obtain s :: snapshot where
    "card (outstanding rt' (rd_replica_id (lease_decision l))) \<le> rs_capacity s" by auto
  with r show ?thesis by (intro exI conjI)
qed

text \<open>C8: A reservation is granted exactly when some replica passes every eligibility check;
  the granted decision is the score of an eligible replica, no other eligible replica precedes
  it by score and then ID, and prefix affinity was used only within the configured gap of the
  least eligible load.\<close>

theorem reserve_is_optimal:
  assumes "0 \<le> now"
  shows "(eligible rt q now \<noteq> [] \<longleftrightarrow> is_ok (fst (reserve q now rt))) \<and>
    (\<forall>l rt'. reserve q now rt = (Inr l, rt') \<longrightarrow>
      (\<exists>c \<in> set (eligible rt q now).
        lease_decision l =
          score_candidate c q (rt_policy rt) (minimum_load (eligible rt q now)) now \<and>
        (\<forall>c' \<in> set (eligible rt q now). minimum_load (eligible rt q now) \<le> load c') \<and>
        (rd_affinity (lease_decision l) \<longrightarrow>
           load c \<le> fadd (minimum_load (eligible rt q now)) (rp_cache_load_gap (rt_policy rt)))) \<and>
      (\<forall>d \<in> set (decisions rt q now).
        rd_score (lease_decision l) < rd_score d \<or>
        rd_score (lease_decision l) = rd_score d \<and>
          rd_replica_id (lease_decision l) \<le> rd_replica_id d))"
proof (cases rule: reserve_cases [of now q rt])
  case (granted c d l)
  let ?m = "minimum_load (eligible rt q now)"
  have min: "\<forall>c' \<in> set (eligible rt q now). ?m \<le> load c'"
    unfolding minimum_load_def by (intro ballI min_by_le [where k = "\<lambda>x. x"]) simp
  have best: "rd_score d < rd_score d' \<or> rd_score d = rd_score d' \<and> rd_replica_id d \<le> rd_replica_id d'"
    if "d' \<in> set (decisions rt q now)" for d'
    using min_by_le [OF that, of "\<lambda>d. (rd_score d, rd_replica_id d)"] granted(4)
    by (auto simp: order.order_iff_strict)
  have "load c \<le> fadd ?m (rp_cache_load_gap (rt_policy rt))" if "rd_affinity d"
    using that granted(3) by (simp add: affinity_def)
  with granted(2,3) have
    "\<exists>c \<in> set (eligible rt q now). d = score_candidate c q (rt_policy rt) ?m now \<and>
       (rd_affinity d \<longrightarrow> load c \<le> fadd ?m (rp_cache_load_gap (rt_policy rt)))" by blast
  with granted(2,5,6) min best show ?thesis by auto
qed (use assms in auto)

theorem reserve_is_optimal_witness:
  "is_ok (fst (reserve demo_request 2 (router_run [Telemetry demo_snapshot] demo_router)))"
proof -
  have "(0::flt) \<le> 2" by simp
  note opt = reserve_is_optimal [OF this, of "router_run [Telemetry demo_snapshot] demo_router" demo_request]
  obtain l rt' where
    "reserve demo_request 2 (router_run [Telemetry demo_snapshot] demo_router) = (Inr l, rt')"
    by (rule demo_router_grants)
  with opt show ?thesis by auto
qed

text \<open>A lease stays until it is released, and a released name never returns.\<close>

lemma update_snapshot_leases [simp]:
  "rt_leases (snd (update_snapshot s rt)) = rt_leases rt"
  "rt_sequence (snd (update_snapshot s rt)) = rt_sequence rt"
  "rt_owner (snd (update_snapshot s rt)) = rt_owner rt"
  by (auto simp: update_snapshot_def split: option.splits)

lemma forget_replica_leases [simp]:
  "rt_leases (snd (forget_replica r rt)) = rt_leases rt"
  "rt_sequence (snd (forget_replica r rt)) = rt_sequence rt"
  "rt_owner (snd (forget_replica r rt)) = rt_owner rt"
  by (auto simp: forget_replica_def)

lemma release_leases:
  assumes "router_inv rt"
  shows "rt_leases (snd (release l rt)) =
      (if lookup (rt_leases rt) (lease_id l) = Some l then delete_key (lease_id l) (rt_leases rt)
       else rt_leases rt)"
    and "rt_sequence (snd (release l rt)) = rt_sequence rt"
    and "rt_owner (snd (release l rt)) = rt_owner rt"
  by (auto simp: release_def Let_def split: option.splits)

lemma lease_stays_step:
  assumes "router_inv rt" and "lookup (rt_leases rt) (lease_id l) = Some l" and "x \<noteq> Release l"
  shows "lookup (rt_leases (router_step x rt)) (lease_id l) = Some l"
proof (cases x)
  case (Reserve q now)
  show ?thesis
  proof (cases rule: reserve_cases [of now q rt])
    case (granted c d l')
    have "lookup (rt_leases rt) (lease_id l') = None"
      using fresh_lease [OF assms(1)] granted(5) by simp
    with assms(2) Reserve granted(6) show ?thesis by (auto simp: tbl)
  qed (use assms(2) Reserve in simp_all)
next
  case (Release l')
  with assms show ?thesis by (auto simp: release_leases tbl)
qed (use assms(2) in simp_all)

lemma lease_stays:
  "router_inv rt \<Longrightarrow> lookup (rt_leases rt) (lease_id l) = Some l \<Longrightarrow> Release l \<notin> set xs \<Longrightarrow>
     lookup (rt_leases (router_run xs rt)) (lease_id l) = Some l"
proof (induction xs arbitrary: rt)
  case (Cons x xs)
  then have "lookup (rt_leases (router_step x rt)) (lease_id l) = Some l"
    by (intro lease_stays_step) auto
  with Cons show ?case by (simp add: router_inv_step)
qed simp

definition spent :: "string \<Rightarrow> router \<Rightarrow> bool" where
  "spent k rt \<longleftrightarrow> lookup (rt_leases rt) k = None \<and>
     (\<exists>n \<le> rt_sequence rt. k = rt_owner rt @ '':'' @ decimal n)"

lemma spent_step:
  assumes "router_inv rt" and "spent k rt"
  shows "spent k (router_step x rt)"
proof (cases x)
  case (Reserve q now)
  show ?thesis
  proof (cases rule: reserve_cases [of now q rt])
    case (granted c d l')
    with assms(2) Reserve show ?thesis
      by (auto simp: spent_def tbl lease_name_def dest: decimal_inj intro: le_SucI)
  qed (use assms(2) Reserve in simp_all)
next
  case (Release l)
  with assms show ?thesis by (auto simp: release_leases tbl spent_def)
qed (use assms(2) in \<open>auto simp: spent_def\<close>)

lemma spent_run: "router_inv rt \<Longrightarrow> spent k rt \<Longrightarrow> spent k (router_run xs rt)"
  by (induction xs arbitrary: rt) (auto intro: spent_step router_inv_step)

lemma spent_release: "spent (lease_id l) rt \<Longrightarrow> \<not> is_ok (fst (release l rt))"
  by (simp add: spent_def release_def)

text \<open>A reservation of a reachable router can be released exactly once: releasing it gives
  back its slot, and no later operation ever makes a second release of the same lease
  succeed.\<close>

theorem lease_released_once:
  assumes "new_router owner p maximum = Inr rt0"
    and "reserve q now (router_run ops rt0) = (Inr l, rt1)"
    and "Release l \<notin> set later"
  shows "\<exists>rt2. release l (router_run later rt1) = (Inr (), rt2) \<and>
     active_reservations rt2 + 1 = active_reservations (router_run later rt1) \<and>
     (\<forall>more. \<not> is_ok (fst (release l (router_run more rt2))))"
proof -
  let ?rt = "router_run ops rt0" and ?w = "router_run later rt1"
  have inv: "router_inv ?rt" by (intro router_inv_run router_inv_new [OF assms(1)])
  from router_inv_reserve [OF inv] assms(2) have inv1: "router_inv rt1" by (metis snd_conv)
  then have invw: "router_inv ?w" by (rule router_inv_run)
  from assms(2) have "lookup (rt_leases rt1) (lease_id l) = Some l"
    by (cases rule: reserve_cases [of now q ?rt]) (auto simp: tbl)
  then have l: "lookup (rt_leases ?w) (lease_id l) = Some l"
    by (rule lease_stays [OF inv1 _ assms(3)])
  from router_invD(2) [OF invw this] have k: "lease_id l \<in> held ?w (rd_replica_id (lease_decision l))"
    "\<exists>n \<le> rt_sequence ?w. lease_id l = lease_name ?w n"
    by (auto simp: lease_ok_def)
  obtain rt2 where r: "release l ?w = (Inr (), rt2)"
    "rt_leases rt2 = delete_key (lease_id l) (rt_leases ?w)"
    "rt_sequence rt2 = rt_sequence ?w" "rt_owner rt2 = rt_owner ?w"
    using release_ok_cases [OF l k(1)] by simp
  from router_inv_release [OF invw, of l] r(1) have inv2: "router_inv rt2" by simp
  from k(2) r have "spent (lease_id l) rt2" by (simp add: spent_def tbl lease_name_def)
  then have "\<not> is_ok (fst (release l (router_run more rt2)))" for more
    by (intro spent_release spent_run inv2)
  moreover have "active_reservations rt2 + 1 = active_reservations ?w"
    using length_delete_key [OF router_invD(5) [OF invw] l] r(2) by (simp add: active_reservations_def)
  ultimately show ?thesis using r(1) by blast
qed

theorem lease_released_once_witness:
  "\<exists>l rt1 rt2. reserve demo_request 2 (router_run [Telemetry demo_snapshot] demo_router) = (Inr l, rt1) \<and>
     release l (router_run [Forget ''a''] rt1) = (Inr (), rt2) \<and>
     \<not> is_ok (fst (release l (router_run [Reserve demo_request 3] rt2)))"
proof -
  obtain l rt1 where
    r: "reserve demo_request 2 (router_run [Telemetry demo_snapshot] demo_router) = (Inr l, rt1)"
    by (rule demo_router_grants)
  obtain rt2 where r2: "release l (router_run [Forget ''a''] rt1) = (Inr (), rt2)"
    "\<forall>more. \<not> is_ok (fst (release l (router_run more rt2)))"
    using lease_released_once [OF demo_router_new r, of "[Forget ''a'']"] by auto
  from r2(2) have "\<not> is_ok (fst (release l (router_run [Reserve demo_request 3] rt2)))" by (rule spec)
  with r r2(1) show ?thesis by (intro exI conjI)
qed

end
