(* ===== verification/Gateway.thy ===== *)
theory Gateway
  imports RouterGuarantees "HOL-Library.Word"
begin

text \<open>
  Admission at the gateway: the bounded counter of \<open>gateway/admission.py\<close> behind the
  interface of a bounded pool, and the request body limit of \<open>gateway/body_limit.py\<close>
  over the messages of an ASGI receive channel.
\<close>

subsection \<open>Bounded pools\<close>

text \<open>
  A pool grants a slot when it has one free and refuses at once otherwise; giving back a slot
  that nobody holds is an error.  The client lemmas hold for any sequence of both calls:
  the slots in use stay within the limit and are the grants minus the accepted releases.
\<close>

locale bounded_pool =
  fixes in_use :: "'s \<Rightarrow> nat" and capacity :: "'s \<Rightarrow> nat"
    and take_slot :: "'s \<Rightarrow> bool \<times> 's" and give_back :: "'s \<Rightarrow> unit res \<times> 's"
  assumes take_granted: "fst (take_slot s) \<longleftrightarrow> in_use s < capacity s"
    and take_counts: "in_use (snd (take_slot s)) = in_use s + of_bool (fst (take_slot s))"
    and give_ok: "is_ok (fst (give_back s)) \<longleftrightarrow> 0 < in_use s"
    and give_counts: "in_use (snd (give_back s)) = in_use s - 1"
    and fixed_capacity: "capacity (snd (take_slot s)) = capacity s"
      "capacity (snd (give_back s)) = capacity s"
begin

fun pool_run :: "bool list \<Rightarrow> 's \<Rightarrow> 's" where
  "pool_run [] s = s"
| "pool_run (b # bs) s = pool_run bs (if b then snd (take_slot s) else snd (give_back s))"

fun granted :: "bool list \<Rightarrow> 's \<Rightarrow> nat" where
  "granted [] s = 0"
| "granted (b # bs) s =
     of_bool (b \<and> fst (take_slot s)) + granted bs (if b then snd (take_slot s) else snd (give_back s))"

fun returned :: "bool list \<Rightarrow> 's \<Rightarrow> nat" where
  "returned [] s = 0"
| "returned (b # bs) s =
     of_bool (\<not> b \<and> is_ok (fst (give_back s))) +
     returned bs (if b then snd (take_slot s) else snd (give_back s))"

lemma capacity_run [simp]: "capacity (pool_run bs s) = capacity s"
  by (induction bs arbitrary: s) (simp_all add: fixed_capacity)

lemma pool_bounded: "in_use s \<le> capacity s \<Longrightarrow> in_use (pool_run bs s) \<le> capacity s"
proof (induction bs arbitrary: s)
  case (Cons b bs)
  have "in_use (if b then snd (take_slot s) else snd (give_back s)) \<le> capacity s"
    using Cons.prems take_granted [of s] by (auto simp: take_counts give_counts)
  with Cons.IH [of "if b then snd (take_slot s) else snd (give_back s)"] show ?case
    by (cases b) (simp_all add: fixed_capacity)
qed simp

lemma pool_balance: "in_use (pool_run bs s) + returned bs s = in_use s + granted bs s"
proof (induction bs arbitrary: s)
  case (Cons b bs)
  show ?case
    using Cons.IH [of "snd (take_slot s)"] Cons.IH [of "snd (give_back s)"] give_ok [of s]
    by (cases b) (auto simp: take_counts give_counts of_bool_def)
qed simp

end

subsection \<open>Admission\<close>

record admission =
  adm_limit :: nat
  adm_active :: nat

definition make_admission :: "nat \<Rightarrow> nat \<Rightarrow> admission res" where
  "make_admission limit active =
     (if limit < 1 then Inl (ValueError ''admission limit must be positive'')
      else Inr \<lparr>adm_limit = limit, adm_active = active\<rparr>)"

definition admission_acquire :: "admission \<Rightarrow> bool \<times> admission" where
  "admission_acquire a =
     (if adm_limit a \<le> adm_active a then (False, a)
      else (True, a\<lparr>adm_active := adm_active a + 1\<rparr>))"

definition admission_release :: "(admission, unit) action" where
  "admission_release a =
     (if adm_active a < 1 then (Inl (RuntimeError ''admission lease released twice''), a)
      else (Inr (), a\<lparr>adm_active := adm_active a - 1\<rparr>))"

interpretation adm: bounded_pool adm_active adm_limit admission_acquire admission_release
  by unfold_locales (auto simp: admission_acquire_def admission_release_def)

text \<open>The requests of a process, in any order: \<open>True\<close> acquires, \<open>False\<close> releases.\<close>

definition admission_run :: "bool list \<Rightarrow> admission \<Rightarrow> admission" where
  "admission_run = adm.pool_run"

subsection \<open>Request bodies\<close>

type_synonym byte = "8 word"

text \<open>An absent \<open>body\<close> is empty, an absent \<open>more_body\<close> is false.\<close>

datatype message = Disconnect | Chunk "byte list option" "bool option"

datatype body_outcome =
    Awaiting "byte list"
  | Dropped
  | Too_large
  | Forwarded "byte list" "message list"

fun chunk_bytes :: "message \<Rightarrow> byte list" where
  "chunk_bytes (Chunk (Some b) m) = b"
| "chunk_bytes _ = []"

fun read_body :: "nat \<Rightarrow> byte list \<Rightarrow> message list \<Rightarrow> body_outcome" where
  "read_body maximum body [] = Awaiting body"
| "read_body maximum body (Disconnect # ms) = Dropped"
| "read_body maximum body (Chunk b m # ms) =
     (let chunk = chunk_bytes (Chunk b m) in
      if maximum < length body + length chunk then Too_large
      else if m = Some True then read_body maximum (body @ chunk) ms
      else Forwarded (body @ chunk) ms)"

record scope =
  sc_type :: string
  sc_method :: string
  sc_path :: string

datatype limit_result = Passed_through "message list" | Limited body_outcome

definition body_limit :: "nat \<Rightarrow> string set \<Rightarrow> scope \<Rightarrow> message list \<Rightarrow> limit_result" where
  "body_limit maximum delegated sc ms =
     (if sc_type sc \<noteq> ''http'' \<or> sc_method sc \<notin> {''POST'', ''PUT'', ''PATCH''} \<or>
         sc_path sc \<in> delegated
      then Passed_through ms else Limited (read_body maximum [] ms))"

text \<open>What the application receives: the buffered body once, then the real channel.\<close>

definition replay :: "byte list \<Rightarrow> message list \<Rightarrow> message list" where
  "replay body rest = Chunk (Some body) (Some False) # rest"

fun delivered :: "limit_result \<Rightarrow> message list option" where
  "delivered (Passed_through ms) = Some ms"
| "delivered (Limited (Forwarded body rest)) = Some (replay body rest)"
| "delivered _ = None"

fun continues :: "message \<Rightarrow> bool" where
  "continues (Chunk b (Some True)) = True"
| "continues _ = False"

fun buffered :: "body_outcome \<Rightarrow> nat" where
  "buffered (Awaiting b) = length b"
| "buffered (Forwarded b ms) = length b"
| "buffered _ = 0"

lemma read_body_bounded: "length body \<le> maximum \<Longrightarrow> buffered (read_body maximum body ms) \<le> maximum"
  by (induction maximum body ms rule: read_body.induct) (auto simp: Let_def)

lemma chunk_bytes_simp: "chunk_bytes (Chunk b m) = (case b of None \<Rightarrow> [] | Some c \<Rightarrow> c)"
  by (cases b) auto

lemma read_body_complete:
  assumes "list_all continues ms" and "final \<noteq> Disconnect" and "\<not> continues final"
    and "length body \<le> maximum"
  shows "read_body maximum body (ms @ final # rest) =
     (let whole = body @ concat (map chunk_bytes (ms @ [final])) in
      if length whole \<le> maximum then Forwarded whole rest else Too_large)"
  using assms
proof (induction ms arbitrary: body)
  case Nil
  then obtain b m where f: "final = Chunk b m" by (cases final) auto
  with Nil.prems(3) have "m \<noteq> Some True" by auto
  with f show ?case by (auto simp: Let_def)
next
  case (Cons x xs)
  then obtain b where x: "x = Chunk b (Some True)" by (cases x rule: continues.cases) auto
  let ?c = "chunk_bytes x"
  show ?case
  proof (cases "length body + length ?c \<le> maximum")
    case True
    with Cons.IH [of "body @ ?c"] Cons.prems show ?thesis by (simp add: x Let_def)
  qed (simp add: x Let_def)
qed

subsection \<open>Guarantees\<close>

text \<open>C9: The admission counter of a process never exceeds its limit and equals the granted
  acquisitions minus the accepted releases, for every sequence of calls on a constructed
  limiter.\<close>

theorem admission_balanced:
  assumes "make_admission limit 0 = Inr a"
  shows "adm_active (admission_run calls a) \<le> limit \<and>
    adm_active (admission_run calls a) + adm.returned calls a = adm.granted calls a"
proof -
  from assms have "adm_active a = 0" "adm_limit a = limit"
    by (auto simp: make_admission_def split: if_splits)
  then show ?thesis
    using adm.pool_bounded [of a calls] adm.pool_balance [of calls a]
    by (simp add: admission_run_def)
qed

theorem admission_balanced_witness:
  "adm_active (admission_run [True, True, True, False] \<lparr>adm_limit = 2, adm_active = 0\<rparr>) \<le> 2"
  using admission_balanced [of 2 "\<lparr>adm_limit = 2, adm_active = 0\<rparr>" "[True, True, True, False]"]
  by (simp add: make_admission_def)

text \<open>C10: A complete request body is handed to the application as one message holding exactly
  the bytes sent, followed by the untouched rest of the channel, when it fits the limit, and
  is refused otherwise; in every case at most the limit is buffered.\<close>

theorem body_limit_exact:
  assumes "list_all continues ms" and "final \<noteq> Disconnect" and "\<not> continues final"
    and "sc_type sc = ''http''" and "sc_method sc = ''POST''" and "sc_path sc \<notin> delegated"
  shows "(let whole = concat (map chunk_bytes (ms @ [final])) in
     delivered (body_limit maximum delegated sc (ms @ final # rest)) =
       (if length whole \<le> maximum then Some (Chunk (Some whole) (Some False) # rest) else None)) \<and>
     buffered (read_body maximum [] other) \<le> maximum"
  using read_body_complete [OF assms(1-3), of "[]" maximum rest] assms(4-6)
    read_body_bounded [of "[]" maximum other]
  by (simp add: body_limit_def replay_def Let_def)

theorem body_limit_exact_witness:
  "delivered (body_limit 3 {} \<lparr>sc_type = ''http'', sc_method = ''POST'', sc_path = ''/v1''\<rparr>
     [Chunk (Some [1, 2]) (Some True), Chunk (Some [3]) None, Disconnect]) =
     Some [Chunk (Some [1, 2, 3]) (Some False), Disconnect]"
  using body_limit_exact [of "[Chunk (Some [1, 2]) (Some True)]" "Chunk (Some [3]) None"
      "\<lparr>sc_type = ''http'', sc_method = ''POST'', sc_path = ''/v1''\<rparr>" "{}" 3 "[Disconnect]" "[]"]
  by simp

end
