(* ===== verification/CapacityPolicy.thy ===== *)
theory CapacityPolicy
  imports Gateway
begin

text \<open>
  The demand hysteresis of \<open>reliability/capacity_policy.py\<close>: a pure decision over spaced
  observations with a persisted memory.  The theorems relate a proposed change to the actual
  observations that were accepted before it.
\<close>

datatype capacity_action = Hold | Up | Down

record capacity_policy =
  cp_sample_seconds :: flt
  cp_high_load :: flt
  cp_low_load :: flt
  cp_high_samples :: nat
  cp_low_samples :: nat
  cp_cooldown_seconds :: flt

text \<open>Field bounds, then the \<open>hysteresis\<close> validator.\<close>

definition valid_capacity_policy :: "capacity_policy \<Rightarrow> bool" where
  "valid_capacity_policy p \<longleftrightarrow>
     0 < cp_sample_seconds p \<and> cp_sample_seconds p \<le> 3600 \<and>
     0 < cp_high_load p \<and> cp_high_load p \<le> 1 \<and> 0 \<le> cp_low_load p \<and> cp_low_load p < 1 \<and>
     1 \<le> cp_high_samples p \<and> cp_high_samples p \<le> 1000 \<and>
     1 \<le> cp_low_samples p \<and> cp_low_samples p \<le> 1000 \<and>
     0 \<le> cp_cooldown_seconds p \<and> cp_cooldown_seconds p \<le> 86400 \<and>
     \<not> (cp_high_load p \<le> cp_low_load p \<or> cp_low_samples p < cp_high_samples p)"

record observation =
  ob_sequence :: nat
  ob_epoch :: string
  ob_seconds :: flt
  ob_active :: nat
  ob_capacity :: nat
  ob_members :: nat
  ob_unresolved :: bool
  ob_rejected :: nat

definition valid_observation :: "observation \<Rightarrow> bool" where
  "valid_observation o1 \<longleftrightarrow>
     bounded_text 1 128 (ob_epoch o1) \<and> 0 \<le> ob_seconds o1 \<and> ob_active o1 \<le> 4096 \<and>
     1 \<le> ob_capacity o1 \<and> ob_capacity o1 \<le> 4096 \<and> ob_members o1 \<in> {1, 2}"

record memory =
  me_last :: "observation option"
  me_high :: nat
  me_low :: nat
  me_action_at :: "flt option"

definition empty_memory :: memory where
  "empty_memory = \<lparr>me_last = None, me_high = 0, me_low = 0, me_action_at = None\<rparr>"

definition valid_memory :: "memory \<Rightarrow> bool" where
  "valid_memory m \<longleftrightarrow> opt_all valid_observation (me_last m) \<and> me_high m \<le> 1000 \<and>
     me_low m \<le> 1000 \<and> opt_all (\<lambda>t. 0 \<le> t) (me_action_at m)"

subsection \<open>The decision\<close>

definition consecutive :: "capacity_policy \<Rightarrow> observation \<Rightarrow> observation \<Rightarrow> bool" where
  "consecutive p ob prev \<longleftrightarrow> ob_sequence ob = ob_sequence prev + 1 \<and>
     fsub (ob_seconds ob) (ob_seconds prev) \<le> fmul 2 (cp_sample_seconds p)"

definition rejecting :: "observation \<Rightarrow> observation \<Rightarrow> bool" where
  "rejecting ob prev \<longleftrightarrow> ob_rejected prev < ob_rejected ob"

definition is_high :: "capacity_policy \<Rightarrow> observation \<Rightarrow> observation \<Rightarrow> bool" where
  "is_high p ob prev \<longleftrightarrow> ob_members ob = 1 \<and>
     (cp_high_load p \<le> int_div (ob_active ob) (ob_capacity ob) \<or> rejecting ob prev)"

definition is_low :: "capacity_policy \<Rightarrow> observation \<Rightarrow> observation \<Rightarrow> bool" where
  "is_low p ob prev \<longleftrightarrow> ob_members ob = 2 \<and>
     int_div (ob_active ob) (ob_capacity ob) \<le> cp_low_load p \<and> \<not> rejecting ob prev \<and>
     \<not> ob_unresolved ob"

definition cooled :: "capacity_policy \<Rightarrow> observation \<Rightarrow> memory \<Rightarrow> bool" where
  "cooled p ob m \<longleftrightarrow> (case me_action_at m of None \<Rightarrow> False
     | Some t \<Rightarrow> cp_cooldown_seconds p \<le> fsub (ob_seconds ob) t)"

definition next_streak :: "nat \<Rightarrow> bool \<Rightarrow> bool \<Rightarrow> nat \<Rightarrow> nat" where
  "next_streak limit busy linked n = (if busy then min limit ((if linked then n else 0) + 1) else 0)"

definition fresh_decision ::
  "capacity_policy \<Rightarrow> observation \<Rightarrow> memory \<Rightarrow> (memory \<times> capacity_action) res" where
  "fresh_decision p ob m = (case me_last m of None \<Rightarrow> Inl AssertionError | Some prev \<Rightarrow>
     (let linked = consecutive p ob prev;
          high = next_streak (cp_high_samples p) (is_high p ob prev) linked (me_high m);
          low = next_streak (cp_low_samples p) (is_low p ob prev) linked (me_low m);
          action = (if cooled p ob m \<and> cp_high_samples p \<le> high then Up
                    else if cooled p ob m \<and> cp_low_samples p \<le> low then Down else Hold)
      in Inr (\<lparr>me_last = Some ob, me_high = (if action = Hold then high else 0),
               me_low = (if action = Hold then low else 0),
               me_action_at = (if action = Hold then me_action_at m else Some (ob_seconds ob))\<rparr>,
              action)))"

definition restarted :: "observation \<Rightarrow> flt option \<Rightarrow> memory" where
  "restarted ob t = \<lparr>me_last = Some ob, me_high = 0, me_low = 0, me_action_at = t\<rparr>"

definition decide_capacity ::
  "capacity_policy \<Rightarrow> observation \<Rightarrow> memory \<Rightarrow> (memory \<times> capacity_action) res" where
  "decide_capacity p ob m = (case me_last m of
     None \<Rightarrow> Inr (restarted ob (Some (ob_seconds ob)), Hold)
   | Some prev \<Rightarrow>
     if ob_epoch ob \<noteq> ob_epoch prev then Inr (restarted ob (Some (ob_seconds ob)), Hold)
     else if ob_sequence ob < ob_sequence prev then Inr (m, Hold)
     else if ob_sequence ob = ob_sequence prev then
       (if ob \<noteq> prev
        then Inl (ValueError ''capacity observation sequence has conflicting content'')
        else Inr (m, Hold))
     else if ob_seconds ob < ob_seconds prev \<or> ob_rejected ob < ob_rejected prev
     then Inl (ValueError ''capacity clock or rejection counter moved backward within one epoch'')
     else if ob_members ob \<noteq> ob_members prev
     then Inr (restarted ob (Some (ob_seconds ob)), Hold)
     else if fsub (ob_seconds ob) (ob_seconds prev) < cp_sample_seconds p
     then Inr (restarted ob (me_action_at m), Hold)
     else fresh_decision p ob m)"

subsection \<open>Evidence\<close>

text \<open>
  \<open>history\<close> is the list of accepted observations, newest first.  A streak of \<open>n\<close> is
  \<open>backed\<close> when each of the newest \<open>n\<close> observations satisfies the load predicate against
  the observation before it, was spaced by the sampling period, belongs to the same epoch, and
  follows its predecessor without a gap.
\<close>

definition spaced :: "capacity_policy \<Rightarrow> observation \<Rightarrow> observation \<Rightarrow> bool" where
  "spaced p ob prev \<longleftrightarrow> ob_epoch ob = ob_epoch prev \<and> ob_sequence prev < ob_sequence ob \<and>
     ob_members ob = ob_members prev \<and>
     cp_sample_seconds p \<le> fsub (ob_seconds ob) (ob_seconds prev)"

fun backed ::
  "capacity_policy \<Rightarrow> (observation \<Rightarrow> observation \<Rightarrow> bool) \<Rightarrow> nat \<Rightarrow> observation list \<Rightarrow> bool" where
  "backed p busy 0 obs = True"
| "backed p busy (Suc n) (ob # prev # obs) \<longleftrightarrow>
     busy ob prev \<and> spaced p ob prev \<and> (0 < n \<longrightarrow> consecutive p ob prev) \<and>
     backed p busy n (prev # obs)"
| "backed p busy (Suc n) obs = False"

text \<open>One sampling step of the controller, with the history it has accepted.\<close>

type_synonym sampler = "memory \<times> observation list"

definition sample :: "capacity_policy \<Rightarrow> observation \<Rightarrow> sampler \<Rightarrow> sampler \<times> capacity_action" where
  "sample p ob s = (case decide_capacity p ob (fst s) of
     Inl e \<Rightarrow> (s, Hold)
   | Inr (m, a) \<Rightarrow> ((m, if me_last m = me_last (fst s) then snd s else ob # snd s), a))"

fun sample_all :: "capacity_policy \<Rightarrow> observation list \<Rightarrow> sampler \<Rightarrow> sampler" where
  "sample_all p [] s = s"
| "sample_all p (ob # obs) s = sample_all p obs (fst (sample p ob s))"

definition sampler_inv :: "capacity_policy \<Rightarrow> sampler \<Rightarrow> bool" where
  "sampler_inv p s \<longleftrightarrow>
     (case me_last (fst s) of None \<Rightarrow> snd s = [] \<and> me_high (fst s) = 0 \<and> me_low (fst s) = 0
      | Some ob \<Rightarrow> \<exists>rest. snd s = ob # rest) \<and>
     backed p (is_high p) (me_high (fst s)) (snd s) \<and> backed p (is_low p) (me_low (fst s)) (snd s) \<and>
     (\<forall>t. me_action_at (fst s) = Some t \<longrightarrow> t \<in> ob_seconds ` set (snd s))"

lemma backed_Suc: "backed p busy (Suc n) obs \<Longrightarrow> backed p busy n obs"
proof (induction n arbitrary: obs)
  case (Suc n)
  then obtain ob prev rest where "obs = ob # prev # rest"
    by (cases obs rule: remdups_adj.cases) auto
  with Suc show ?case by auto
qed simp

lemma backed_weaken: "m \<le> n \<Longrightarrow> backed p busy n obs \<Longrightarrow> backed p busy m obs"
  by (induction rule: inc_induct) (auto dest: backed_Suc simp del: backed.simps)

text \<open>Every way a decision can end, with the memory it leaves.\<close>

lemma decide_capacity_cases:
  assumes "decide_capacity p ob m = Inr (m', a)"
  obtains (restart) t where "m' = restarted ob t" "a = Hold" "me_last m \<noteq> Some ob"
      "t = Some (ob_seconds ob) \<or> t = me_action_at m"
      "\<forall>prev. me_last m = Some prev \<longrightarrow> ob_epoch ob = ob_epoch prev \<longrightarrow> ob_seconds prev \<le> ob_seconds ob"
      "me_last m = None \<longrightarrow> t \<noteq> None"
  | (stale) "m' = m" "a = Hold" "me_last m \<noteq> None"
  | (fresh) prev where "me_last m = Some prev" "spaced p ob prev"
      "ob_seconds prev \<le> ob_seconds ob" "fresh_decision p ob m = Inr (m', a)"
proof (cases "me_last m")
  case None
  with assms show thesis by (intro restart [of "Some (ob_seconds ob)"]) (auto simp: decide_capacity_def)
next
  case (Some prev)
  note d = assms [unfolded decide_capacity_def Some option.case]
  consider "ob_epoch ob \<noteq> ob_epoch prev"
    | "ob_epoch ob = ob_epoch prev" "ob_sequence ob \<le> ob_sequence prev"
    | "ob_epoch ob = ob_epoch prev" "ob_sequence prev < ob_sequence ob" "ob_members ob \<noteq> ob_members prev"
    | "ob_epoch ob = ob_epoch prev" "ob_sequence prev < ob_sequence ob" "ob_members ob = ob_members prev"
        "fsub (ob_seconds ob) (ob_seconds prev) < cp_sample_seconds p"
    | "spaced p ob prev"
    by (cases "ob_epoch ob = ob_epoch prev"; cases "ob_sequence ob \<le> ob_sequence prev";
        cases "ob_members ob = ob_members prev";
        cases "fsub (ob_seconds ob) (ob_seconds prev) < cp_sample_seconds p")
      (auto simp: spaced_def)
  then show thesis
  proof cases
    case 1
    with d Some show thesis by (intro restart [of "Some (ob_seconds ob)"]) auto
  next
    case 2
    with d Some show thesis by (intro stale) (auto split: if_splits)
  next
    case 3
    with d Some show thesis by (intro restart [of "Some (ob_seconds ob)"]) (auto split: if_splits)
  next
    case 4
    with d Some show thesis by (intro restart [of "me_action_at m"]) (auto split: if_splits)
  next
    case 5
    with d Some show thesis by (intro fresh [of prev]) (auto simp: spaced_def split: if_splits)
  qed
qed

lemma fresh_decision_result:
  assumes "fresh_decision p ob m = Inr (m', a)" and "me_last m = Some prev"
  defines "high \<equiv> next_streak (cp_high_samples p) (is_high p ob prev) (consecutive p ob prev) (me_high m)"
    and "low \<equiv> next_streak (cp_low_samples p) (is_low p ob prev) (consecutive p ob prev) (me_low m)"
  shows "me_last m' = Some ob" "me_high m' = (if a = Hold then high else 0)"
    "me_low m' = (if a = Hold then low else 0)"
    "me_action_at m' = (if a = Hold then me_action_at m else Some (ob_seconds ob))"
    "a = Up \<Longrightarrow> cooled p ob m \<and> cp_high_samples p \<le> high"
    "a = Down \<Longrightarrow> cooled p ob m \<and> cp_low_samples p \<le> low"
  using assms by (auto simp: fresh_decision_def Let_def split: if_splits)

text \<open>A fresh sample extends a backed streak by one.\<close>

lemma backed_extend:
  assumes "spaced p ob prev" and "backed p busy n (prev # obs)"
  shows "backed p busy (next_streak k (busy ob prev) (consecutive p ob prev) n) (ob # prev # obs)"
proof (cases "busy ob prev")
  case True
  with assms have "backed p busy (Suc (if consecutive p ob prev then n else 0)) (ob # prev # obs)"
    by simp
  then show ?thesis by (rule backed_weaken [rotated]) (simp add: next_streak_def)
qed (simp add: next_streak_def)

lemma sampler_inv_sample:
  assumes inv: "sampler_inv p s"
  shows "sampler_inv p (fst (sample p ob s))"
proof (cases "decide_capacity p ob (fst s)")
  case (Inl e)
  with inv show ?thesis by (simp add: sample_def)
next
  case (Inr r)
  obtain m' a where r: "r = (m', a)" by (cases r)
  from Inr r have d: "decide_capacity p ob (fst s) = Inr (m', a)" by simp
  then show ?thesis
  proof (cases rule: decide_capacity_cases)
    case (restart t)
    with inv d show ?thesis
      by (auto simp: sample_def sampler_inv_def restarted_def split: option.splits)
  next
    case stale
    with inv d show ?thesis by (simp add: sample_def)
  next
    case (fresh prev)
    from inv fresh(1) obtain rest where h: "snd s = prev # rest" by (auto simp: sampler_inv_def)
    from fresh(2) have "ob \<noteq> prev" by (auto simp: spaced_def)
    note res = fresh_decision_result [OF fresh(4,1)]
    have s': "fst (sample p ob s) = (m', ob # snd s)"
      using d fresh(1) res(1) \<open>ob \<noteq> prev\<close> by (auto simp: sample_def)
    have "backed p (is_high p) (me_high m') (ob # snd s)"
      "backed p (is_low p) (me_low m') (ob # snd s)"
      using inv backed_extend [OF fresh(2), of "is_high p" _ rest]
        backed_extend [OF fresh(2), of "is_low p" _ rest]
      unfolding res(2,3) h by (simp_all add: sampler_inv_def h)
    then show ?thesis
      using inv res(1,4) unfolding s' by (auto simp: sampler_inv_def split: option.splits)
  qed
qed

lemma sampler_inv_all: "sampler_inv p s \<Longrightarrow> sampler_inv p (sample_all p obs s)"
  by (induction obs arbitrary: s) (simp_all add: sampler_inv_sample)

lemma sampler_inv_empty: "sampler_inv p (empty_memory, [])"
  by (simp add: sampler_inv_def empty_memory_def)

lemma history_from_samples: "set (snd (sample_all p obs s)) \<subseteq> set obs \<union> set (snd s)"
proof (induction obs arbitrary: s)
  case (Cons ob obs)
  have "set (snd (fst (sample p ob s))) \<subseteq> insert ob (set (snd s))"
    by (auto simp: sample_def split: sum.splits)
  with Cons.IH [of "fst (sample p ob s)"] show ?case by auto
qed simp

lemma sample_action:
  assumes "sampler_inv p s" and "sample p ob s = (s', a)" and "a \<noteq> Hold"
  obtains prev m' where "me_last (fst s) = Some prev" "s' = (m', ob # snd s)"
    "decide_capacity p ob (fst s) = Inr (m', a)" "fresh_decision p ob (fst s) = Inr (m', a)"
    "spaced p ob prev" "cooled p ob (fst s)" "me_action_at m' = Some (ob_seconds ob)"
proof -
  from assms(2,3) obtain m' where d: "decide_capacity p ob (fst s) = Inr (m', a)"
    by (auto simp: sample_def split: sum.splits)
  from d show thesis
  proof (cases rule: decide_capacity_cases)
    case (fresh prev)
    note res = fresh_decision_result [OF fresh(4,1)]
    from fresh(2) have "ob \<noteq> prev" by (auto simp: spaced_def)
    with d fresh(1) res(1) assms(2) have "s' = (m', ob # snd s)"
      by (auto simp: sample_def)
    moreover have "cooled p ob (fst s)" using res(5,6) assms(3) by (cases a) auto
    ultimately show thesis using that d fresh res(4) assms(3) by simp
  qed (use assms(3) in simp_all)
qed

subsection \<open>Concrete samples for witnesses\<close>

definition demo_capacity_policy :: capacity_policy where
  "demo_capacity_policy = \<lparr>cp_sample_seconds = 1, cp_high_load = 1, cp_low_load = 0,
     cp_high_samples = 1, cp_low_samples = 1, cp_cooldown_seconds = 1\<rparr>"

definition demo_observation :: "nat \<Rightarrow> flt \<Rightarrow> nat \<Rightarrow> observation" where
  "demo_observation n t active = \<lparr>ob_sequence = n, ob_epoch = ''e'', ob_seconds = t, ob_active = active,
     ob_capacity = 4, ob_members = 1, ob_unresolved = False, ob_rejected = 0\<rparr>"

lemmas demo_capacity_defs = demo_capacity_policy_def demo_observation_def sample_def
  decide_capacity_def empty_memory_def restarted_def fresh_decision_def Let_def next_streak_def
  is_high_def is_low_def rejecting_def cooled_def consecutive_def fsub_def fmul_def int_div_def

subsection \<open>Guarantees\<close>

text \<open>C11: A proposal to add capacity is backed by the configured number of observations that
  were actually accepted one after the other, each in the same epoch as its predecessor, at
  least a sampling period apart, without a gap and at high load; a proposal to remove capacity
  likewise by low-load observations without unresolved work; and both come a full cooldown after
  some accepted observation.\<close>

theorem capacity_change_needs_dwell:
  assumes "s = sample_all p obs (empty_memory, [])" and "sample p ob s = (s', a)"
  shows "set (snd s') \<subseteq> set (obs @ [ob]) \<and>
    (a = Up \<longrightarrow> backed p (is_high p) (cp_high_samples p) (snd s')) \<and>
    (a = Down \<longrightarrow> backed p (is_low p) (cp_low_samples p) (snd s')) \<and>
    (a \<noteq> Hold \<longrightarrow> (\<exists>x \<in> set obs. cp_cooldown_seconds p \<le> fsub (ob_seconds ob) (ob_seconds x)))"
proof -
  have inv: "sampler_inv p s"
    unfolding assms(1) by (intro sampler_inv_all sampler_inv_empty)
  have hist: "set (snd s) \<subseteq> set obs"
    using history_from_samples [of p obs "(empty_memory, [])"] assms(1) by simp
  have hist': "set (snd s') \<subseteq> set (obs @ [ob])"
    using hist assms(2) by (auto simp: sample_def split: sum.splits if_splits)
  show ?thesis
  proof (cases "a = Hold")
    case False
    from inv assms(2) False obtain prev m' where
      a: "me_last (fst s) = Some prev" "s' = (m', ob # snd s)"
        "fresh_decision p ob (fst s) = Inr (m', a)" "spaced p ob prev" "cooled p ob (fst s)"
      by (rule sample_action) blast
    from inv a(1) obtain rest where h: "snd s = prev # rest" by (auto simp: sampler_inv_def)
    note res = fresh_decision_result [OF a(3,1)]
    have "backed p (is_high p) (cp_high_samples p) (snd s')" if "a = Up"
      using res(5) [OF that] inv h a(2) backed_extend [OF a(4), of "is_high p" _ rest]
      by (auto simp: sampler_inv_def simp del: backed.simps intro: backed_weaken)
    moreover have "backed p (is_low p) (cp_low_samples p) (snd s')" if "a = Down"
      using res(6) [OF that] inv h a(2) backed_extend [OF a(4), of "is_low p" _ rest]
      by (auto simp: sampler_inv_def simp del: backed.simps intro: backed_weaken)
    moreover have "\<exists>x \<in> set obs. cp_cooldown_seconds p \<le> fsub (ob_seconds ob) (ob_seconds x)"
      using a(5) inv hist by (fastforce simp: cooled_def sampler_inv_def split: option.splits)
    ultimately show ?thesis using hist' by blast
  qed (use hist' in simp)
qed

theorem capacity_change_needs_dwell_witness:
  "\<exists>s'. sample demo_capacity_policy (demo_observation 1 2 4)
       (sample_all demo_capacity_policy [demo_observation 0 1 0] (empty_memory, [])) = (s', Up) \<and>
     backed demo_capacity_policy (is_high demo_capacity_policy) 1 (snd s')"
proof -
  let ?s = "sample_all demo_capacity_policy [demo_observation 0 1 0] (empty_memory, [])"
  have up: "sample demo_capacity_policy (demo_observation 1 2 4) ?s =
      (fst (sample demo_capacity_policy (demo_observation 1 2 4) ?s), Up)"
    by (simp add: demo_capacity_defs)
  have "cp_high_samples demo_capacity_policy = 1" by (simp add: demo_capacity_policy_def)
  with capacity_change_needs_dwell [OF refl up] show ?thesis using up by metis
qed

text \<open>For pacing: since a change at \<open>t0\<close> in epoch \<open>e\<close>, time and the last action moved forward.\<close>

definition paced :: "flt \<Rightarrow> string \<Rightarrow> sampler \<Rightarrow> bool" where
  "paced t0 e s \<longleftrightarrow> (\<exists>l t. me_last (fst s) = Some l \<and> ob_epoch l = e \<and> t0 \<le> ob_seconds l \<and>
     me_action_at (fst s) = Some t \<and> t0 \<le> t)"

lemma paced_sample:
  assumes "paced t0 e s" and "ob_epoch ob = e"
  shows "paced t0 e (fst (sample p ob s))"
proof (cases "decide_capacity p ob (fst s)")
  case (Inl x)
  with assms show ?thesis by (simp add: sample_def)
next
  case (Inr r)
  obtain m' a where r: "r = (m', a)" by (cases r)
  from assms obtain l t where l: "me_last (fst s) = Some l" "ob_epoch l = e" "t0 \<le> ob_seconds l"
    "me_action_at (fst s) = Some t" "t0 \<le> t" by (auto simp: paced_def)
  from Inr r have d: "decide_capacity p ob (fst s) = Inr (m', a)" by simp
  have m: "fst (fst (sample p ob s)) = m'" using d by (simp add: sample_def)
  from d show ?thesis
  proof (cases rule: decide_capacity_cases)
    case (restart u)
    with l assms(2) have "t0 \<le> ob_seconds ob" by fastforce
    with restart l assms(2) m show ?thesis by (auto simp: paced_def restarted_def)
  next
    case stale
    with assms m show ?thesis by (simp add: paced_def)
  next
    case (fresh prev)
    with l assms(2) fresh_decision_result(1,4) [OF fresh(4,1)] m show ?thesis
      by (auto simp: paced_def)
  qed
qed

lemma paced_all:
  "paced t0 e s \<Longrightarrow> \<forall>x \<in> set obs. ob_epoch x = e \<Longrightarrow> paced t0 e (sample_all p obs s)"
  by (induction obs arbitrary: s) (simp_all add: paced_sample)

text \<open>Two capacity changes proposed within one epoch are at least the cooldown apart,
  whatever observations of that epoch arrive in between.\<close>

theorem capacity_changes_are_paced:
  assumes "s = sample_all p before (empty_memory, [])" and "sample p ob s = (s1, a)" and "a \<noteq> Hold"
    and "\<forall>x \<in> set between. ob_epoch x = ob_epoch ob"
    and "sample p ob2 (sample_all p between s1) = (s2, a2)" and "a2 \<noteq> Hold"
  shows "cp_cooldown_seconds p \<le> fsub (ob_seconds ob2) (ob_seconds ob)"
proof -
  have inv: "sampler_inv p s"
    unfolding assms(1) by (intro sampler_inv_all sampler_inv_empty)
  from inv assms(2,3) obtain m' where m: "s1 = (m', ob # snd s)"
    "decide_capacity p ob (fst s) = Inr (m', a)" "me_action_at m' = Some (ob_seconds ob)"
    and f: "fresh_decision p ob (fst s) = Inr (m', a)"
    by (rule sample_action) blast
  from inv assms(2,3) have inv1: "sampler_inv p s1" using sampler_inv_sample [OF inv, of ob] by simp
  have "me_last m' = Some ob"
    using f by (auto simp: fresh_decision_def Let_def split: option.splits)
  with m have "paced (ob_seconds ob) (ob_epoch ob) s1" by (simp add: paced_def)
  then have "paced (ob_seconds ob) (ob_epoch ob) (sample_all p between s1)"
    by (rule paced_all [OF _ assms(4)])
  then obtain t where t: "me_action_at (fst (sample_all p between s1)) = Some t" "ob_seconds ob \<le> t"
    by (auto simp: paced_def)
  from sampler_inv_all [OF inv1] assms(5,6) have "cooled p ob2 (fst (sample_all p between s1))"
    by (rule sample_action) blast
  with t have "cp_cooldown_seconds p \<le> fsub (ob_seconds ob2) t" by (simp add: cooled_def)
  also have "\<dots> \<le> fsub (ob_seconds ob2) (ob_seconds ob)" using t(2) by (intro fsub_mono) simp_all
  finally show ?thesis .
qed

theorem capacity_changes_are_paced_witness:
  "cp_cooldown_seconds demo_capacity_policy \<le> fsub (ob_seconds (demo_observation 2 3 4)) (ob_seconds (demo_observation 1 2 4))"
proof (rule capacity_changes_are_paced [where before = "[demo_observation 0 1 0]" and between = "[]", OF refl])
  let ?s = "sample_all demo_capacity_policy [demo_observation 0 1 0] (empty_memory, [])"
  show "sample demo_capacity_policy (demo_observation 1 2 4) ?s =
      (fst (sample demo_capacity_policy (demo_observation 1 2 4) ?s), Up)"
    by (simp add: demo_capacity_defs)
  show "sample demo_capacity_policy (demo_observation 2 3 4) (sample_all demo_capacity_policy []
          (fst (sample demo_capacity_policy (demo_observation 1 2 4) ?s))) =
      (fst (sample demo_capacity_policy (demo_observation 2 3 4) (sample_all demo_capacity_policy []
          (fst (sample demo_capacity_policy (demo_observation 1 2 4) ?s)))), Up)"
    by (simp add: demo_capacity_defs)
qed simp_all

text \<open>Deciding again on an observation that was just processed proposes nothing and leaves the
  memory unchanged, and every memory a decision leaves satisfies the bounds of its model.\<close>

theorem capacity_replay_is_inert:
  assumes "valid_capacity_policy p" and "valid_observation ob" and "valid_memory m"
    and "decide_capacity p ob m = Inr (m', a)"
  shows "decide_capacity p ob m' = Inr (m', Hold) \<and> valid_memory m'"
  using assms(4)
proof (cases rule: decide_capacity_cases)
  case (restart t)
  with assms(2,3) show ?thesis
    by (auto simp: decide_capacity_def restarted_def valid_memory_def valid_observation_def)
next
  case stale
  with assms(3,4) show ?thesis by simp
next
  case (fresh prev)
  note res = fresh_decision_result [OF fresh(4,1)]
  have "decide_capacity p ob m' = Inr (m', Hold)" using res(1) by (simp add: decide_capacity_def)
  moreover have "valid_memory m'"
    using assms(1-3) res(1-4)
    by (auto simp: valid_memory_def valid_capacity_policy_def next_streak_def valid_observation_def)
  ultimately show ?thesis by simp
qed

theorem capacity_replay_is_inert_witness:
  "decide_capacity demo_capacity_policy (demo_observation 0 1 0) (restarted (demo_observation 0 1 0) (Some 1)) =
     Inr (restarted (demo_observation 0 1 0) (Some 1), Hold)"
proof -
  have "valid_capacity_policy demo_capacity_policy" "valid_observation (demo_observation 0 1 0)"
    "valid_memory empty_memory"
    "decide_capacity demo_capacity_policy (demo_observation 0 1 0) empty_memory =
       Inr (restarted (demo_observation 0 1 0) (Some 1), Hold)"
    by (simp_all add: valid_capacity_policy_def valid_observation_def valid_memory_def
        bounded_text_def demo_capacity_defs)
  from capacity_replay_is_inert [OF this] show ?thesis by blast
qed

end
