(* ===== verification/WarmStore.thy ===== *)
theory WarmStore
  imports CapacityPolicy
begin

text \<open>
  The traffic truth of \<open>reliability/warm_routes.py\<close> with the durable admissions of
  \<open>reliability/warm_drain.py\<close> and the pool tables of \<open>reliability/capacity_store.py\<close>:
  the database is a record of tables, each \<open>with self.transaction()\<close> block is an atomic body.
  JSON renderings, SHA-256 and the URL grammar of httpx are parameters.
\<close>

subsection \<open>Serving profiles and backends\<close>

record serving_profile =
  pr_engine :: string
  pr_engine_version :: string
  pr_parameters_json :: string
  pr_model_revision :: string
  pr_tokenizer_revision :: string
  pr_model_manifest :: string
  pr_tokenizer_manifest :: string
  pr_base_url :: string
  pr_served_model :: string
  pr_credential_env :: "string option"

record configuration =
  cf_base_url :: string
  cf_model :: string
  cf_credential_env :: "string option"

record warm_codec = control_codec +
  profile_json :: "serving_profile \<Rightarrow> string"
  configuration_json :: "configuration \<Rightarrow> string"
  canonical_url :: "string \<Rightarrow> bool"

definition profile_digest :: "'z warm_codec_scheme \<Rightarrow> serving_profile \<Rightarrow> string" where
  "profile_digest c p = sha256 c (profile_json c p)"

definition verify_revision ::
  "'z warm_codec_scheme \<Rightarrow> serving_profile \<Rightarrow> revision \<Rightarrow> unit res" where
  "verify_revision c p r =
     (if config_digest r \<noteq> profile_digest c p \<or> engine r \<noteq> pr_engine p \<or>
         engine_config r \<noteq> pr_parameters_json p \<or> model_revision r \<noteq> pr_model_revision p \<or>
         tokenizer_revision r \<noteq> pr_tokenizer_revision p
      then Inl (ValueError ''revision differs from canonical serving profile'') else Inr ())"

definition environment_name :: "string \<Rightarrow> bool" where
  "environment_name s \<longleftrightarrow> bounded_text 1 128 s \<and>
     hd s \<in> set ''ABCDEFGHIJKLMNOPQRSTUVWXYZ_'' \<and>
     list_all (\<lambda>c. c \<in> set ''ABCDEFGHIJKLMNOPQRSTUVWXYZ0123456789_'') (tl s)"

definition valid_configuration :: "'z warm_codec_scheme \<Rightarrow> configuration \<Rightarrow> bool" where
  "valid_configuration c f \<longleftrightarrow> bounded_text 1 256 (cf_model f) \<and>
     opt_all environment_name (cf_credential_env f) \<and> canonical_url c (cf_base_url f)"

definition configuration_digest :: "'z warm_codec_scheme \<Rightarrow> configuration \<Rightarrow> string" where
  "configuration_digest c f = sha256 c (configuration_json c f)"

record warm_backend =
  wb_revision :: revision
  wb_configuration :: configuration
  wb_profile :: "serving_profile option"

text \<open>The validator \<open>configuration_matches\<close>: no mislabelled endpoint can be constructed.\<close>

definition configuration_matches :: "'z warm_codec_scheme \<Rightarrow> warm_backend \<Rightarrow> unit res" where
  "configuration_matches c b =
     (case wb_profile b of
        Some p \<Rightarrow>
          (case verify_revision c p (wb_revision b) of Inl e \<Rightarrow> Inl e
           | Inr _ \<Rightarrow>
             if pr_base_url p \<noteq> cf_base_url (wb_configuration b) \<or>
                pr_served_model p \<noteq> cf_model (wb_configuration b) \<or>
                pr_credential_env p \<noteq> cf_credential_env (wb_configuration b)
             then Inl (ValueError ''warm endpoint differs from canonical serving profile'')
             else Inr ())
      | None \<Rightarrow>
          if config_digest (wb_revision b) \<noteq> configuration_digest c (wb_configuration b)
          then Inl (ValueError ''revision configuration digest does not bind the backend'')
          else Inr ())"

abbreviation backend_id :: "warm_backend \<Rightarrow> string" where
  "backend_id b \<equiv> revision_id (wb_revision b)"

subsection \<open>Routes, obligations and receipts\<close>

text \<open>The protocol fields have one admissible value, so their presence is a truth value.\<close>

record route =
  ro_deployment :: string
  ro_revision :: string
  ro_digest :: string
  ro_generation :: nat
  ro_changed_at :: flt
  ro_durable :: bool
  ro_pooled :: bool

record route_codec = warm_codec +
  route_json :: "route \<Rightarrow> string"

definition make_route :: "route \<Rightarrow> route res" where
  "make_route r = (if bounded_text 1 128 (ro_deployment r) \<and> 0 < ro_changed_at r then Inr r
     else Inl (ValueError ''invalid route snapshot''))"

datatype admission_kind = Serving | Collector | Probe

datatype admission_phase = Reserved | Dispatched

record admission_lease =
  al_id :: string
  al_route :: route
  al_backend :: warm_backend
  al_started :: nat
  al_closed :: nat
  al_kind :: "admission_kind option"
  al_phase :: admission_phase
  al_anchor :: "route option"
  al_pool_generation :: "nat option"

definition verified_closed :: "admission_lease \<Rightarrow> bool" where
  "verified_closed l \<longleftrightarrow> al_started l = al_closed l"

text \<open>
  \<open>admission_payload\<close> as the value whose JSON text the row stores; the last four keys are
  absent (\<open>None\<close>) without a kind, and an anchor or pool generation may be \<open>null\<close>.
\<close>

record admission_row =
  ap_route :: route
  ap_backend :: warm_backend
  ap_kind :: "admission_kind option"
  ap_phase :: "admission_phase option"
  ap_anchor :: "route option option"
  ap_pool_generation :: "nat option option"

definition admission_payload :: "admission_lease \<Rightarrow> admission_row" where
  "admission_payload l =
     (if al_kind l = None
      then \<lparr>ap_route = al_route l, ap_backend = al_backend l, ap_kind = None, ap_phase = None,
            ap_anchor = None, ap_pool_generation = None\<rparr>
      else \<lparr>ap_route = al_route l, ap_backend = al_backend l, ap_kind = al_kind l,
            ap_phase = Some (al_phase l), ap_anchor = Some (al_anchor l),
            ap_pool_generation = Some (al_pool_generation l)\<rparr>)"

record drain_receipt =
  dr_store_identity :: string
  dr_revision :: string
  dr_digest :: string
  dr_remaining :: nat
  dr_observed_at :: flt

text \<open>The part of a capacity plan that selection reads, and a member row.\<close>

record pool_plan =
  pp_primary_revision :: string
  pp_expected_generation :: nat
  pp_per_member_requests :: nat

record pool_member =
  pm_deployment :: string
  pm_plan :: string
  pm_anchor_revision :: string
  pm_anchor_generation :: nat
  pm_ready :: bool

subsection \<open>The database\<close>

record warm_db =
  w_identity :: "string option"
  w_backends :: "(string \<times> warm_backend) table"
  w_routes :: "route table"
  w_actions :: "(string \<times> route) table"
  w_events :: "(string \<times> route) list"
  w_retirements :: "string table"
  w_durable :: bool
  w_admissions :: "(string \<times> admission_row) table"
  w_receipts :: "drain_receipt table"
  w_pooled :: bool
  w_plans :: "pool_plan table"
  w_authority :: "string table"
  w_pool_generations :: "nat table"
  w_pool_history :: "(string \<times> nat \<times> string) list"
  w_members :: "pool_member table"
  w_probes :: "(string \<times> route \<times> string) table"
  w_demand :: "nat table"

text \<open>
  The store object: its path, the identity it verifies and the protocols it read when opened.
  A new database enrolls in durable admission; pooling only when enabled.
\<close>

record warm_handle =
  wh_path :: string
  wh_identity :: string
  wh_durable :: bool
  wh_pooled :: bool

record control_handle =
  ch_path :: string
  ch_identity :: string

definition new_warm_db :: "string \<Rightarrow> bool \<Rightarrow> warm_db" where
  "new_warm_db i pooled =
     \<lparr>w_identity = Some i, w_backends = [], w_routes = [], w_actions = [], w_events = [],
      w_retirements = [], w_durable = True, w_admissions = [], w_receipts = [], w_pooled = pooled,
      w_plans = [], w_authority = [], w_pool_generations = [], w_pool_history = [],
      w_members = [], w_probes = [], w_demand = []\<rparr>"

text \<open>Enrollment of an existing database: \<open>initialize_admissions\<close>, \<open>initialize_capacity\<close>.\<close>

definition initialize_admissions :: "bool \<Rightarrow> warm_db \<Rightarrow> warm_db" where
  "initialize_admissions new_store db =
     (if new_store \<and> w_events db = [] then db\<lparr>w_durable := True\<rparr> else db)"

definition initialize_capacity :: "bool \<Rightarrow> bool \<Rightarrow> (warm_db, unit) body" where
  "initialize_capacity new_store enabled db =
     (if enabled \<and> \<not> w_pooled db then
        (if \<not> new_store \<or> w_events db \<noteq> []
         then Inl (ControlConflict ''capacity requires a new store; legacy enrollment rejected'')
         else Inr ((), db\<lparr>w_pooled := True\<rparr>))
      else Inr ((), db))"

definition open_warm :: "string \<Rightarrow> string \<Rightarrow> bool \<Rightarrow> warm_db \<Rightarrow> warm_handle res" where
  "open_warm path expected enabled db =
     (case verify_identity (w_identity db) expected of Inl e \<Rightarrow> Inl e
      | Inr _ \<Rightarrow>
        if enabled \<and> \<not> w_pooled db
        then Inl (ControlConflict ''legacy store cannot enable capacity'')
        else Inr \<lparr>wh_path = path, wh_identity = expected, wh_durable = w_durable db,
                  wh_pooled = w_pooled db\<rparr>)"

definition warm_txn :: "string \<Rightarrow> (warm_db, 'a) body \<Rightarrow> (warm_db, 'a) action" where
  "warm_txn me f = atomically (\<lambda>db.
     case verify_identity (w_identity db) me of Inl e \<Rightarrow> Inl e | Inr _ \<Rightarrow> f db)"

subsection \<open>Registration\<close>

definition retired :: "warm_db \<Rightarrow> string \<Rightarrow> bool" where
  "retired db rid \<longleftrightarrow> lookup (w_retirements db) rid \<noteq> None"

definition require_available :: "warm_db \<Rightarrow> string \<Rightarrow> unit res" where
  "require_available db rid =
     (if retired db rid then Inl (ControlConflict ''backend revision is retired'') else Inr ())"

text \<open>\<open>INSERT INTO warm_backends\<close> with its primary key and unique endpoint.\<close>

definition insert_backend :: "warm_backend \<Rightarrow> warm_db \<Rightarrow> warm_db res" where
  "insert_backend b db =
     (if lookup (w_backends db) (backend_id b) \<noteq> None \<or>
         cf_base_url (wb_configuration b) \<in> set (map (fst \<circ> snd) (w_backends db))
      then Inl IntegrityError
      else Inr (db\<lparr>w_backends := w_backends db @
                   [(backend_id b, cf_base_url (wb_configuration b), b)]\<rparr>))"

definition register_body :: "warm_backend \<Rightarrow> (warm_db, unit) body" where
  "register_body b db =
     (case require_available db (backend_id b) of Inl e \<Rightarrow> Inl e
      | Inr _ \<Rightarrow>
      case lookup (w_backends db) (backend_id b) of
        Some (_, found) \<Rightarrow>
          if found \<noteq> b then Inl (ControlConflict ''backend revision is immutable'')
          else Inr ((), db)
      | None \<Rightarrow>
          if 32 \<le> length (filter (\<lambda>row. \<not> retired db (fst row)) (w_backends db))
          then Inl (ControlConflict ''warm backend registry limit reached'')
          else case insert_backend b db of
            Inl _ \<Rightarrow> Inl (ControlConflict ''each warm revision requires a distinct endpoint'')
          | Inr db' \<Rightarrow> Inr ((), db'))"

definition register :: "warm_handle \<Rightarrow> warm_backend \<Rightarrow> (warm_db, unit) action" where
  "register h b = warm_txn (wh_identity h) (register_body b)"

definition backend_body :: "string \<Rightarrow> (warm_db, warm_backend) body" where
  "backend_body rid db =
     (case require_available db rid of Inl e \<Rightarrow> Inl e
      | Inr _ \<Rightarrow>
      case lookup (w_backends db) rid of
        None \<Rightarrow> Inl (KeyError ''warm backend not registered'')
      | Some (_, b) \<Rightarrow> Inr (b, db))"

definition backend :: "warm_handle \<Rightarrow> string \<Rightarrow> (warm_db, warm_backend) action" where
  "backend h rid = warm_txn (wh_identity h) (backend_body rid)"

definition is_retired :: "warm_handle \<Rightarrow> string \<Rightarrow> (warm_db, bool) action" where
  "is_retired h rid = warm_txn (wh_identity h) (\<lambda>db. Inr (retired db rid, db))"

subsection \<open>Routes\<close>

definition current_route :: "warm_db \<Rightarrow> string \<Rightarrow> route res" where
  "current_route db dep =
     (case lookup (w_routes db) dep of
        None \<Rightarrow> Inl (KeyError ''warm deployment not initialized'') | Some r \<Rightarrow> Inr r)"

definition route_snapshot :: "warm_handle \<Rightarrow> string \<Rightarrow> (warm_db, route) action" where
  "route_snapshot h dep = warm_txn (wh_identity h)
     (\<lambda>db. case current_route db dep of Inl e \<Rightarrow> Inl e | Inr r \<Rightarrow> Inr (r, db))"

definition advance_pool :: "string \<Rightarrow> string \<Rightarrow> warm_db \<Rightarrow> warm_db" where
  "advance_pool dep reason db =
     (let gen = (case lookup (w_pool_generations db) dep of None \<Rightarrow> 1 | Some g \<Rightarrow> g + 1)
      in db\<lparr>w_pool_generations := upsert dep gen (w_pool_generations db),
            w_pool_history := w_pool_history db @ [(dep, gen, reason)]\<rparr>)"

text \<open>The triggers of both protocols abort a write that lacks a protocol the database requires.\<close>

definition trigger_aborts :: "warm_db \<Rightarrow> route \<Rightarrow> bool" where
  "trigger_aborts db r \<longleftrightarrow> w_durable db \<and> \<not> ro_durable r \<or> w_pooled db \<and> \<not> ro_pooled r"

definition save_route ::
  "'z route_codec_scheme \<Rightarrow> warm_handle \<Rightarrow> route \<Rightarrow> warm_db \<Rightarrow> warm_db res" where
  "save_route cd h r db =
     (if trigger_aborts db r then Inl IntegrityError
      else let db1 = (if wh_pooled h
                 then advance_pool (ro_deployment r) (''route:'' @ route_json cd r) db else db)
        in Inr (db1\<lparr>w_routes := upsert (ro_deployment r) r (w_routes db1),
                    w_events := w_events db1 @ [(ro_deployment r, r)]\<rparr>))"

definition bootstrap_route_body ::
  "'z route_codec_scheme \<Rightarrow> warm_handle \<Rightarrow> warm_backend \<Rightarrow> string \<Rightarrow> string \<Rightarrow> flt \<Rightarrow>
   (warm_db, route) body" where
  "bootstrap_route_body cd h b dep rid now db =
     (case require_available db rid of Inl e \<Rightarrow> Inl e
      | Inr _ \<Rightarrow>
      case lookup (w_routes db) dep of
        Some existing \<Rightarrow>
          if ro_generation existing \<noteq> 0 \<or> ro_revision existing \<noteq> rid
          then Inl (ControlConflict ''route already initialized differently'')
          else Inr (existing, db)
      | None \<Rightarrow>
          case make_route
            \<lparr>ro_deployment = dep, ro_revision = rid,
             ro_digest = revision_digest cd (wb_revision b), ro_generation = 0,
             ro_changed_at = now, ro_durable = wh_durable h, ro_pooled = wh_pooled h\<rparr> of
            Inl e \<Rightarrow> Inl e
          | Inr r \<Rightarrow> case save_route cd h r db of Inl e \<Rightarrow> Inl e | Inr db' \<Rightarrow> Inr (r, db'))"

definition bootstrap_route ::
  "'z route_codec_scheme \<Rightarrow> warm_handle \<Rightarrow> string \<Rightarrow> string \<Rightarrow> flt \<Rightarrow> (warm_db, route) action" where
  "bootstrap_route cd h dep rid now =
     seq (backend h rid)
       (\<lambda>b. warm_txn (wh_identity h) (bootstrap_route_body cd h b dep rid now))"

definition apply_body ::
  "'z route_codec_scheme \<Rightarrow> warm_handle \<Rightarrow> warm_backend \<Rightarrow> apply_request \<Rightarrow> flt \<Rightarrow>
   (warm_db, route) body" where
  "apply_body cd h b q now db =
     (case require_available db (revision_id (q_target q)) of Inl e \<Rightarrow> Inl e
      | Inr _ \<Rightarrow>
      case lookup (w_actions db) (q_idempotency_key q) of
        Some (fingerprint, r) \<Rightarrow>
          if fingerprint \<noteq> apply_fingerprint cd q
          then Inl (ControlConflict ''idempotency key reused for another action'')
          else Inr (r, db)
      | None \<Rightarrow>
      case current_route db (q_deployment_id q) of Inl e \<Rightarrow> Inl e
      | Inr current \<Rightarrow>
        if ro_revision current \<noteq> q_expected_revision q \<or>
           ro_generation current \<noteq> q_expected_generation q
        then Inl (ControlConflict ''stale external route generation'')
        else case lookup (w_backends db) (ro_revision current) of
          None \<Rightarrow> Inl (TypeError ''NoneType object is not subscriptable'')
        | Some (_, cb) \<Rightarrow>
          if cf_model (wb_configuration cb) \<noteq> cf_model (wb_configuration b)
          then Inl (ControlConflict ''cutover cannot change the public model alias'')
          else
            case make_route
              \<lparr>ro_deployment = ro_deployment current, ro_revision = backend_id b,
               ro_digest = revision_digest cd (wb_revision b),
               ro_generation = ro_generation current + 1, ro_changed_at = now,
               ro_durable = wh_durable h, ro_pooled = wh_pooled h\<rparr> of Inl e \<Rightarrow> Inl e
            | Inr r \<Rightarrow>
               case save_route cd h r db of Inl e \<Rightarrow> Inl e
               | Inr db' \<Rightarrow> Inr (r, db'\<lparr>w_actions :=
                   w_actions db' @ [(q_idempotency_key q, apply_fingerprint cd q, r)]\<rparr>))"

definition apply_route ::
  "'z route_codec_scheme \<Rightarrow> warm_handle \<Rightarrow> apply_request \<Rightarrow> flt \<Rightarrow> (warm_db, route) action" where
  "apply_route cd h q now =
     seq (backend h (revision_id (q_target q))) (\<lambda>b.
       if wb_revision b \<noteq> q_target q \<or> q_idempotency_key q = []
       then raise (ControlConflict ''unregistered target identity or empty action key'')
       else warm_txn (wh_identity h) (apply_body cd h b q now))"

definition route_history :: "warm_handle \<Rightarrow> string \<Rightarrow> (warm_db, route list) action" where
  "route_history h dep = warm_txn (wh_identity h)
     (\<lambda>db. Inr (map snd (filter (\<lambda>ev. fst ev = dep) (w_events db)), db))"

end
