(* ===== verification/WarmDrain.thy ===== *)
theory WarmDrain
  imports WarmStore
begin

text \<open>
  Admissions, retirement and drain of the traffic store, the pool selection of
  \<open>capacity_store.py\<close>, and the operations that span the route and the control store.  Fresh
  identifiers and clock readings are arguments.
\<close>

subsection \<open>Admissions\<close>

definition insert_admission ::
  "warm_handle \<Rightarrow> string \<Rightarrow> route \<Rightarrow> warm_backend \<Rightarrow> admission_kind \<Rightarrow> route option \<Rightarrow> nat option \<Rightarrow>
   (warm_db, admission_lease) body" where
  "insert_admission h fid r b kind anchor pool db =
     (if 4096 \<le> length (w_admissions db)
      then Inl (ControlConflict ''durable admission limit reached'')
      else
        let l = \<lparr>al_id = fid, al_route = r, al_backend = b, al_started = 0, al_closed = 0,
                 al_kind = (if wh_pooled h then Some kind else None), al_phase = Reserved,
                 al_anchor = anchor, al_pool_generation = pool\<rparr>
        in case insert_new fid (ro_revision r, admission_payload l) (w_admissions db) of
             Inl e \<Rightarrow> Inl e
           | Inr rows \<Rightarrow> Inr (l, db\<lparr>w_admissions := rows\<rparr>))"

definition admit_body ::
  "'z route_codec_scheme \<Rightarrow> warm_handle \<Rightarrow> string \<Rightarrow> string \<Rightarrow> (warm_db, admission_lease) body" where
  "admit_body cd h fid dep db =
     (case current_route db dep of Inl e \<Rightarrow> Inl e
      | Inr r \<Rightarrow>
        if \<not> w_durable db \<or> \<not> ro_durable r
        then Inl (ControlConflict ''legacy route cannot use durable admission'')
        else case require_available db (ro_revision r) of Inl e \<Rightarrow> Inl e
        | Inr _ \<Rightarrow>
        case lookup (w_backends db) (ro_revision r) of
          None \<Rightarrow> Inl (ControlConflict ''admission backend is missing'')
        | Some (_, b) \<Rightarrow>
          if revision_digest cd (wb_revision b) \<noteq> ro_digest r
          then Inl (ControlConflict ''admission backend identity changed'')
          else insert_admission h fid r b Serving None None db)"

definition admit ::
  "'z route_codec_scheme \<Rightarrow> warm_handle \<Rightarrow> string \<Rightarrow> string \<Rightarrow> (warm_db, admission_lease) action" where
  "admit cd h fid dep db =
     (if wh_pooled h
      then (Inl (ControlConflict ''capacity requires authenticated dispatch admission''), db)
      else warm_txn (wh_identity h) (admit_body cd h fid dep) db)"

definition holds_admission :: "warm_db \<Rightarrow> admission_lease \<Rightarrow> bool" where
  "holds_admission db l \<longleftrightarrow>
     (case lookup (w_admissions db) (al_id l) of None \<Rightarrow> False
      | Some (_, payload) \<Rightarrow> payload = admission_payload l)"

definition mark_dispatched :: "warm_handle \<Rightarrow> admission_lease \<Rightarrow> (warm_db, admission_lease) action" where
  "mark_dispatched h l = warm_txn (wh_identity h) (\<lambda>db.
     case lookup (w_admissions db) (al_id l) of
       None \<Rightarrow> Inl (ControlConflict ''dispatch obligation changed'')
     | Some (rid, payload) \<Rightarrow>
       if payload \<noteq> admission_payload l \<or> al_phase l \<noteq> Reserved
       then Inl (ControlConflict ''dispatch obligation changed'')
       else Inr (l\<lparr>al_phase := Dispatched\<rparr>, db\<lparr>w_admissions :=
         upsert (al_id l) (rid, payload\<lparr>ap_phase := Some Dispatched\<rparr>) (w_admissions db)\<rparr>))"

definition finish_admission :: "warm_handle \<Rightarrow> admission_lease \<Rightarrow> (warm_db, unit) action" where
  "finish_admission h l db =
     (if \<not> verified_closed l
      then (Inl (ControlConflict ''backend transport closure is unresolved''), db)
      else warm_txn (wh_identity h) (\<lambda>db.
        if \<not> holds_admission db l
        then Inl (ControlConflict ''admission identity changed or already released'')
        else Inr ((), db\<lparr>w_admissions := delete_key (al_id l) (w_admissions db)\<rparr>)) db)"

subsection \<open>Pool selection\<close>

definition probe_token ::
  "'z route_codec_scheme \<Rightarrow> warm_handle \<Rightarrow> string \<Rightarrow> route \<Rightarrow> string \<Rightarrow> (warm_db, string) action" where
  "probe_token cd h token r request = warm_txn (wh_identity h) (\<lambda>db.
     if \<not> w_pooled db then Inl (ControlConflict ''primary probe requires capacity protocol'')
     else if 64 \<le> length (w_probes db)
     then Inl (ControlConflict ''primary probe token limit reached'')
     else case insert_new (sha256 cd token) (ro_deployment r, r, sha256 cd request) (w_probes db) of
       Inl e \<Rightarrow> Inl e
     | Inr rows \<Rightarrow> Inr (token, db\<lparr>w_probes := rows\<rparr>))"

definition revoke_probe ::
  "'z route_codec_scheme \<Rightarrow> warm_handle \<Rightarrow> string \<Rightarrow> (warm_db, unit) action" where
  "revoke_probe cd h token = warm_txn (wh_identity h) (\<lambda>db.
     Inr ((), db\<lparr>w_probes := delete_key (sha256 cd token) (w_probes db)\<rparr>))"

definition admissions_of :: "warm_db \<Rightarrow> string \<Rightarrow> nat" where
  "admissions_of db rid = length (filter (\<lambda>row. fst (snd row) = rid) (w_admissions db))"

text \<open>The plan that authorizes pooling of the current route, when there is one.\<close>

definition authorized_plan :: "warm_db \<Rightarrow> route \<Rightarrow> pool_plan option" where
  "authorized_plan db r =
     (case lookup (w_authority db) (ro_deployment r) of None \<Rightarrow> None
      | Some pid \<Rightarrow> case lookup (w_plans db) pid of None \<Rightarrow> None
        | Some plan \<Rightarrow>
          if pp_primary_revision plan = ro_revision r \<and>
             pp_expected_generation plan = ro_generation r then Some plan else None)"

definition ready_members :: "warm_db \<Rightarrow> route \<Rightarrow> string list" where
  "ready_members db r = map fst (filter (\<lambda>row. let m = snd row in
     pm_deployment m = ro_deployment r \<and> pm_anchor_revision m = ro_revision r \<and>
     pm_anchor_generation m = ro_generation r \<and> pm_ready m) (w_members db))"

definition pool_candidates :: "warm_db \<Rightarrow> route \<Rightarrow> admission_kind \<Rightarrow> string list" where
  "pool_candidates db r kind = ro_revision r #
     (if authorized_plan db r \<noteq> None \<and> kind = Serving then ready_members db r else [])"

definition member_limit :: "warm_db \<Rightarrow> route \<Rightarrow> nat" where
  "member_limit db r =
     (case authorized_plan db r of None \<Rightarrow> 128 | Some plan \<Rightarrow> pp_per_member_requests plan)"

definition pool_loads :: "warm_db \<Rightarrow> route \<Rightarrow> admission_kind \<Rightarrow> (nat \<times> string) list" where
  "pool_loads db r kind =
     filter (\<lambda>x. fst x < member_limit db r)
       (map (\<lambda>rid. (admissions_of db rid, rid)) (pool_candidates db r kind))"

definition select_body ::
  "'z route_codec_scheme \<Rightarrow> warm_handle \<Rightarrow> string \<Rightarrow> route \<Rightarrow> string \<Rightarrow> string option \<Rightarrow>
   (warm_db, admission_lease option) body" where
  "select_body cd h fid expected request token db =
     (case current_route db (ro_deployment expected) of Inl e \<Rightarrow> Inl e
      | Inr r \<Rightarrow>
        if r \<noteq> expected \<or> \<not> ro_pooled r
        then Inl (ControlConflict ''capacity route changed before dispatch'')
        else if (case token of None \<Rightarrow> False
          | Some t \<Rightarrow> lookup (w_probes db) (sha256 cd t) \<noteq> Some (ro_deployment r, r, sha256 cd request))
        then Inl (ControlConflict ''primary probe authority is missing or substituted'')
        else
          let kind = (if token = None then Serving else Probe);
              generation = (case lookup (w_pool_generations db) (ro_deployment r) of
                None \<Rightarrow> 0 | Some g \<Rightarrow> g) in
          if list_ex (retired db) (pool_candidates db r kind)
          then Inl (ControlConflict ''backend revision is retired'')
          else if pool_loads db r kind = []
          then Inr (None, if kind = Serving
            then db\<lparr>w_demand := upsert (ro_deployment r)
                     (case lookup (w_demand db) (ro_deployment r) of None \<Rightarrow> 1 | Some n \<Rightarrow> n + 1)
                     (w_demand db)\<rparr>
            else db)
          else
            let rid = snd (min_by (\<lambda>x. x) (pool_loads db r kind)) in
            case lookup (w_backends db) rid of
              None \<Rightarrow> Inl (TypeError ''NoneType object is not subscriptable'')
            | Some (_, b) \<Rightarrow>
              case insert_admission h fid
                (r\<lparr>ro_revision := rid, ro_digest := revision_digest cd (wb_revision b)\<rparr>)
                b kind (Some r) (Some generation) db of
                Inl e \<Rightarrow> Inl e
              | Inr (l, db') \<Rightarrow>
                Inr (Some l, case token of None \<Rightarrow> db'
                  | Some t \<Rightarrow> db'\<lparr>w_probes := delete_key (sha256 cd t) (w_probes db')\<rparr>))"

text \<open>A refusal is counted as demand in a committed transaction before it is raised.\<close>

definition select_admission ::
  "'z route_codec_scheme \<Rightarrow> warm_handle \<Rightarrow> string \<Rightarrow> route \<Rightarrow> string \<Rightarrow> string option \<Rightarrow>
   (warm_db, admission_lease) action" where
  "select_admission cd h fid expected request token =
     seq (warm_txn (wh_identity h) (select_body cd h fid expected request token)) (\<lambda>found.
       case found of
         None \<Rightarrow> raise (ControlConflict ''capacity serving admission limit reached'')
       | Some l \<Rightarrow> return l)"

definition remove_members :: "string \<Rightarrow> string \<Rightarrow> warm_db \<Rightarrow> warm_db" where
  "remove_members plan dep db =
     (let rows = map (\<lambda>(k, m). (k, if pm_plan m = plan then m\<lparr>pm_ready := False\<rparr> else m)) (w_members db);
          db' = db\<lparr>w_members := rows\<rparr>
      in if list_ex (\<lambda>row. pm_plan (snd row) = plan \<and> pm_ready (snd row)) (w_members db)
         then advance_pool dep (''remove:'' @ plan) db' else db')"

subsection \<open>Retirement and drain\<close>

type_synonym stores = "warm_db \<times> control_db"

definition both_txn :: "warm_handle \<Rightarrow> control_handle \<Rightarrow> (stores, 'a) body \<Rightarrow> (stores, 'a) action" where
  "both_txn h ch f s =
     (if wh_path h = ch_path ch
      then (Inl (ValueError ''route and control stores require separate database files''), s)
      else atomically (\<lambda>s.
        case verify_identity (w_identity (fst s)) (wh_identity h) of Inl e \<Rightarrow> Inl e
        | Inr _ \<Rightarrow>
        case verify_identity (c_identity (snd s)) (ch_identity ch) of Inl e \<Rightarrow> Inl e
        | Inr _ \<Rightarrow> f s) s)"

definition retirement_blocked :: "warm_db \<Rightarrow> string \<Rightarrow> bool \<Rightarrow> bool" where
  "retirement_blocked db rid unserved =
     (if \<not> w_pooled db then False
      else case lookup (w_members db) rid of None \<Rightarrow> False
      | Some m \<Rightarrow>
        if unserved then True
        else pm_ready m \<and> (case lookup (w_routes db) (pm_deployment m) of None \<Rightarrow> False
          | Some r \<Rightarrow> ro_revision r = pm_anchor_revision m \<and>
                      ro_generation r = pm_anchor_generation m))"

definition controlled :: "control_db \<Rightarrow> string \<Rightarrow> bool" where
  "controlled c rid \<longleftrightarrow> list_ex (\<lambda>row. let d = snd row in
     rid = d_active_revision d \<or> rid = d_known_good_revision d) (c_deployments c)"

definition routed :: "warm_db \<Rightarrow> string \<Rightarrow> bool" where
  "routed db rid \<longleftrightarrow> list_ex (\<lambda>row. ro_revision (snd row) = rid) (w_routes db)"

definition served :: "warm_db \<Rightarrow> string \<Rightarrow> bool" where
  "served db rid \<longleftrightarrow> list_ex (\<lambda>ev. ro_revision (snd ev) = rid) (w_events db)"

definition retire :: "'z route_codec_scheme \<Rightarrow> warm_backend \<Rightarrow> warm_db \<Rightarrow> warm_db" where
  "retire cd b db = db\<lparr>w_retirements :=
     insert_or_ignore (backend_id b) (revision_digest cd (wb_revision b)) (w_retirements db)\<rparr>"

definition retirement_conflict :: "'z route_codec_scheme \<Rightarrow> warm_backend \<Rightarrow> warm_db \<Rightarrow> bool" where
  "retirement_conflict cd b db =
     (case lookup (w_retirements db) (backend_id b) of None \<Rightarrow> False
      | Some digest \<Rightarrow> digest \<noteq> revision_digest cd (wb_revision b))"

definition retire_drained_body ::
  "'z route_codec_scheme \<Rightarrow> warm_handle \<Rightarrow> warm_backend \<Rightarrow> flt \<Rightarrow> (stores, bool) body" where
  "retire_drained_body cd h b now s = (case s of (db, c) \<Rightarrow>
     let rid = backend_id b in
     if retirement_blocked db rid False \<or> \<not> w_durable db \<or> routed db rid \<or> controlled c rid
     then Inr (False, s)
     else if map_option snd (lookup (w_backends db) rid) \<noteq> Some b
     then Inl (ControlConflict ''drain backend identity changed'')
     else if list_ex (\<lambda>ev. \<not> ro_durable (snd ev)) (w_events db) then Inr (False, s)
     else if retirement_conflict cd b db
     then Inl (ControlConflict ''drain retirement identity changed'')
     else
       let db1 = retire cd b db in
       if admissions_of db rid \<noteq> 0 then Inr (False, (db1, c))
       else if now \<le> 0 then Inl (ValueError ''invalid drain receipt'')
       else
         let receipt = \<lparr>dr_store_identity = wh_identity h, dr_revision = rid,
               dr_digest = revision_digest cd (wb_revision b), dr_remaining = 0,
               dr_observed_at = now\<rparr>
         in Inr (True, (db1\<lparr>w_receipts := insert_or_ignore rid receipt (w_receipts db1)\<rparr>, c)))"

definition retire_drained ::
  "'z route_codec_scheme \<Rightarrow> warm_handle \<Rightarrow> control_handle \<Rightarrow> warm_backend \<Rightarrow> flt \<Rightarrow> (stores, bool) action" where
  "retire_drained cd h ch b now = both_txn h ch (retire_drained_body cd h b now)"

definition drain_pending ::
  "'z route_codec_scheme \<Rightarrow> warm_handle \<Rightarrow> warm_backend \<Rightarrow> (warm_db, bool) action" where
  "drain_pending cd h b = warm_txn (wh_identity h) (\<lambda>db.
     Inr (w_durable db \<and>
          lookup (w_retirements db) (backend_id b) = Some (revision_digest cd (wb_revision b)) \<and>
          lookup (w_receipts db) (backend_id b) = None, db))"

definition retire_unserved_body ::
  "'z route_codec_scheme \<Rightarrow> warm_backend \<Rightarrow> (stores, bool) body" where
  "retire_unserved_body cd b s = (case s of (db, c) \<Rightarrow>
     let rid = backend_id b in
     if retirement_blocked db rid True \<or> served db rid \<or> controlled c rid then Inr (False, s)
     else
       case (case lookup (w_backends db) rid of
               Some (_, found) \<Rightarrow>
                 if found \<noteq> b
                 then Inl (ControlConflict ''retirement differs from registered backend'')
                 else Inr db
             | None \<Rightarrow>
                 case insert_backend b db of
                   Inl _ \<Rightarrow>
                     Inl (ControlConflict ''cleanup endpoint is reserved by another revision'')
                 | Inr db' \<Rightarrow> Inr db') of
         Inl e \<Rightarrow> Inl e
       | Inr db1 \<Rightarrow>
         if retirement_conflict cd b db1
         then Inl (ControlConflict ''retirement revision identity changed'')
         else Inr (True, (retire cd b db1, c)))"

definition retire_unserved ::
  "'z route_codec_scheme \<Rightarrow> warm_handle \<Rightarrow> control_handle \<Rightarrow> warm_backend \<Rightarrow> (stores, bool) action" where
  "retire_unserved cd h ch b = both_txn h ch (retire_unserved_body cd b)"

definition release_body :: "'z route_codec_scheme \<Rightarrow> warm_backend \<Rightarrow> (warm_db, unit) body" where
  "release_body cd b db =
     (let rid = backend_id b in
      if map_option snd (lookup (w_backends db) rid) \<noteq> Some b \<or>
         lookup (w_retirements db) rid \<noteq> Some (revision_digest cd (wb_revision b))
      then Inl (ControlConflict ''endpoint release differs from retired backend'')
      else if list_ex (\<lambda>row. fst row \<noteq> rid \<and> fst (snd row) = ''retired:'' @ rid) (w_backends db)
      then Inl IntegrityError
      else Inr ((), db\<lparr>w_backends := upsert rid (''retired:'' @ rid, b) (w_backends db)\<rparr>))"

definition release_retired_endpoint ::
  "'z route_codec_scheme \<Rightarrow> warm_handle \<Rightarrow> warm_backend \<Rightarrow> (warm_db, unit) action" where
  "release_retired_endpoint cd h b = warm_txn (wh_identity h) (release_body cd b)"

end
