(* ===== verification/WarmControl.thy ===== *)
theory WarmControl
  imports WarmDrain
begin

text \<open>
  The operations of the traffic store that span the control store: reserving or checking a
  stable baseline, and acknowledging or stabilizing a cutover.  The route transaction stays open
  around calls that commit their own control transactions, so a failure after such a call keeps
  its effect on the control store and leaves the routes as they were.
\<close>

subsection \<open>Stable baselines\<close>

definition stable_baseline ::
  "'z route_codec_scheme \<Rightarrow> warm_backend \<Rightarrow> nat \<Rightarrow> route \<Rightarrow> deployment_state \<Rightarrow> revision \<Rightarrow>
   warm_backend option \<Rightarrow> bool" where
  "stable_baseline cd b gen r d registered row \<longleftrightarrow>
     row = Some b \<and> registered = wb_revision b \<and>
     ro_digest r = revision_digest cd (wb_revision b) \<and> ro_revision r = backend_id b \<and>
     d_active_revision d = backend_id b \<and> d_known_good_revision d = backend_id b \<and>
     d_generation d = gen \<and> ro_generation r = gen \<and> d_rollback_id d = None"

definition baseline_body ::
  "'z route_codec_scheme \<Rightarrow> warm_handle \<Rightarrow> string \<Rightarrow> string \<Rightarrow> warm_backend \<Rightarrow> nat \<Rightarrow> bool \<Rightarrow>
   (stores, admission_lease option) body" where
  "baseline_body cd h fid dep b gen reserved s = (case s of (db, c) \<Rightarrow>
     case require_available db (backend_id b) of Inl e \<Rightarrow> Inl e
     | Inr _ \<Rightarrow>
     case current_route db dep of Inl e \<Rightarrow> Inl e
     | Inr r \<Rightarrow>
     case load_record ''deployments'' (c_deployments c) dep of Inl e \<Rightarrow> Inl e
     | Inr d \<Rightarrow>
     case load_record ''revisions'' (c_revisions c) (backend_id b) of Inl e \<Rightarrow> Inl e
     | Inr registered \<Rightarrow>
       if \<not> stable_baseline cd b gen r d registered
             (map_option snd (lookup (w_backends db) (backend_id b)))
       then Inl (ControlConflict ''borrowed baseline is not the current stable deployment'')
       else if \<not> reserved then Inr (None, s)
       else if \<not> w_durable db \<or> \<not> ro_durable r
       then Inl (ControlConflict ''legacy store cannot reserve a collector'')
       else case insert_admission h fid r b Collector None None db of Inl e \<Rightarrow> Inl e
         | Inr (l, db') \<Rightarrow> Inr (Some l, (db', c)))"

definition require_stable_baseline ::
  "'z route_codec_scheme \<Rightarrow> warm_handle \<Rightarrow> control_handle \<Rightarrow> string \<Rightarrow> string \<Rightarrow> warm_backend \<Rightarrow> nat \<Rightarrow>
   bool \<Rightarrow> (stores, admission_lease option) action" where
  "require_stable_baseline cd h ch fid dep b gen reserved =
     both_txn h ch (baseline_body cd h fid dep b gen reserved)"

subsection \<open>Acknowledgment\<close>

text \<open>
  A route transaction that only reads: its check runs under the verified identity, then the
  control actions run on the second store.
\<close>

definition under_route ::
  "warm_handle \<Rightarrow> control_handle \<Rightarrow> (warm_db \<Rightarrow> route res) \<Rightarrow> (route \<Rightarrow> (control_db, 'a) action) \<Rightarrow>
   (stores, 'a) action" where
  "under_route h ch check act s =
     (if ch_path ch = wh_path h
      then (Inl (ValueError ''route and control stores require separate database files''), s)
      else case verify_identity (w_identity (fst s)) (wh_identity h) of Inl e \<Rightarrow> (Inl e, s)
      | Inr _ \<Rightarrow>
      case check (fst s) of Inl e \<Rightarrow> (Inl e, s)
      | Inr r \<Rightarrow> (case act r (snd s) of (result, c) \<Rightarrow> (result, (fst s, c))))"

definition baseline_route ::
  "'z route_codec_scheme \<Rightarrow> string \<Rightarrow> revision \<Rightarrow> nat \<Rightarrow> health \<Rightarrow> warm_db \<Rightarrow> route res" where
  "baseline_route cd dep rv gen hl db =
     (case current_route db dep of Inl e \<Rightarrow> Inl e
      | Inr r \<Rightarrow>
        if ro_revision r \<noteq> revision_id rv \<or> ro_digest r \<noteq> revision_digest cd rv \<or>
           ro_generation r \<noteq> gen \<or> \<not> verifies cd hl rv
        then Inl (ControlConflict ''baseline acknowledgment differs from current traffic'')
        else Inr r)"

fun is_key_error :: "py_error \<Rightarrow> bool" where
  "is_key_error (KeyError m) = True"
| "is_key_error _ = False"

definition acknowledge_baseline ::
  "'z route_codec_scheme \<Rightarrow> warm_handle \<Rightarrow> control_handle \<Rightarrow> string \<Rightarrow> revision \<Rightarrow> nat \<Rightarrow> health \<Rightarrow>
   (stores, deployment_state) action" where
  "acknowledge_baseline cd h ch dep rv gen hl =
     under_route h ch (baseline_route cd dep rv gen hl) (\<lambda>r.
       seq (register_revision (ch_identity ch) rv) (\<lambda>_.
       seq (recover (deployment (ch_identity ch) dep) (\<lambda>e.
              if \<not> is_key_error e then raise e
              else if gen \<noteq> 0
              then raise (ControlConflict ''missing controller for noninitial route'')
              else bootstrap cd (ch_identity ch) dep (revision_id rv) hl)) (\<lambda>d.
       if d_generation d \<noteq> gen \<or> d_active_revision d \<noteq> revision_id rv \<or>
          d_known_good_revision d \<noteq> revision_id rv \<or> d_rollback_id d \<noteq> None
       then raise (ControlConflict ''baseline is not the stable controller revision'')
       else return d)))"

definition verified_action ::
  "'z route_codec_scheme \<Rightarrow> apply_request \<Rightarrow> decision \<Rightarrow> health \<Rightarrow> warm_db \<Rightarrow> route res" where
  "verified_action cd q dec hl db =
     (case current_route db (q_deployment_id q) of Inl e \<Rightarrow> Inl e
      | Inr r \<Rightarrow>
        if (case lookup (w_actions db) (q_idempotency_key q) of None \<Rightarrow> True
            | Some (fingerprint, recorded) \<Rightarrow>
                fingerprint \<noteq> apply_fingerprint cd q \<or> recorded \<noteq> r) \<or>
           ro_revision r \<noteq> revision_id (q_target q) \<or>
           ro_digest r \<noteq> revision_digest cd (q_target q) \<or>
           ro_generation r \<noteq> q_expected_generation q + 1 \<or>
           candidate_revision dec \<noteq> revision_id (q_target q) \<or>
           candidate_digest dec \<noteq> revision_digest cd (q_target q) \<or>
           \<not> verifies cd hl (q_target q)
        then Inl (ControlConflict ''activation acknowledgment differs from current route action'')
        else Inr r)"

definition acknowledge_candidate ::
  "'z route_codec_scheme \<Rightarrow> warm_handle \<Rightarrow> control_handle \<Rightarrow> apply_request \<Rightarrow> decision \<Rightarrow> health \<Rightarrow>
   (stores, deployment_state) action" where
  "acknowledge_candidate cd h ch q dec hl =
     under_route h ch (verified_action cd q dec hl) (\<lambda>r.
       seq (deployment (ch_identity ch) (q_deployment_id q)) (\<lambda>current.
       if d_rollback_id current \<noteq> None \<or>
          (d_generation current, d_active_revision current) \<notin>
            {(q_expected_generation q, q_expected_revision q), (ro_generation r, ro_revision r)}
       then raise (ControlConflict ''activation acknowledgment differs from controller generation'')
       else seq (activate_candidate cd (ch_identity ch) (q_deployment_id q)
                   (q_expected_generation q) dec hl) (\<lambda>updated.
         if d_generation updated \<noteq> ro_generation r \<or> d_active_revision updated \<noteq> ro_revision r
         then raise (ControlConflict ''activation acknowledgment no longer names current traffic'')
         else return updated)))"

definition stabilize_candidate ::
  "'z route_codec_scheme \<Rightarrow> warm_handle \<Rightarrow> control_handle \<Rightarrow> apply_request \<Rightarrow> decision \<Rightarrow> health \<Rightarrow>
   string \<Rightarrow> flt \<Rightarrow> (stores, deployment_state) action" where
  "stabilize_candidate cd h ch q dec hl evidence now =
     under_route h ch (verified_action cd q dec hl) (\<lambda>r.
       mark_stable cd (ch_identity ch) (q_deployment_id q) (ro_generation r) dec hl evidence now)"

subsection \<open>The operations of all processes\<close>

text \<open>
  One step is one call.  \<open>W_control\<close> is any transaction of the control store, and \<open>W_members\<close>
  stands for the capacity controller, which may publish or remove members and plans in any way.
\<close>

datatype warm_op =
    W_register warm_backend
  | W_bootstrap string string flt
  | W_apply apply_request flt
  | W_admit string string
  | W_select string route string "string option"
  | W_baseline string string warm_backend nat bool
  | W_dispatch admission_lease
  | W_finish admission_lease
  | W_retire_drained warm_backend flt
  | W_retire_unserved warm_backend
  | W_release warm_backend
  | W_probe string route string
  | W_revoke string
  | W_remove string string
  | W_members "pool_member table" "pool_plan table" "string table"
  | W_control control_txn_op

definition on_fst :: "('s, 'a) action \<Rightarrow> 's \<times> 't \<Rightarrow> 's \<times> 't" where
  "on_fst f s = (snd (f (fst s)), snd s)"

fun warm_step ::
  "'z route_codec_scheme \<Rightarrow> warm_handle \<Rightarrow> control_handle \<Rightarrow> warm_op \<Rightarrow> stores \<Rightarrow> stores" where
  "warm_step cd h ch (W_register b) s = on_fst (register h b) s"
| "warm_step cd h ch (W_bootstrap dep rid now) s = on_fst (bootstrap_route cd h dep rid now) s"
| "warm_step cd h ch (W_apply q now) s = on_fst (apply_route cd h q now) s"
| "warm_step cd h ch (W_admit fid dep) s = on_fst (admit cd h fid dep) s"
| "warm_step cd h ch (W_select fid r request token) s =
     on_fst (select_admission cd h fid r request token) s"
| "warm_step cd h ch (W_baseline fid dep b gen reserved) s =
     snd (require_stable_baseline cd h ch fid dep b gen reserved s)"
| "warm_step cd h ch (W_dispatch l) s = on_fst (mark_dispatched h l) s"
| "warm_step cd h ch (W_finish l) s = on_fst (finish_admission h l) s"
| "warm_step cd h ch (W_retire_drained b now) s = snd (retire_drained cd h ch b now s)"
| "warm_step cd h ch (W_retire_unserved b) s = snd (retire_unserved cd h ch b s)"
| "warm_step cd h ch (W_release b) s = on_fst (release_retired_endpoint cd h b) s"
| "warm_step cd h ch (W_probe token r request) s = on_fst (probe_token cd h token r request) s"
| "warm_step cd h ch (W_revoke token) s = on_fst (revoke_probe cd h token) s"
| "warm_step cd h ch (W_remove plan dep) s = (remove_members plan dep (fst s), snd s)"
| "warm_step cd h ch (W_members ms ps auth) s =
     (fst s\<lparr>w_members := ms, w_plans := ps, w_authority := auth\<rparr>, snd s)"
| "warm_step cd h ch (W_control t) s = (fst s, control_step cd (ch_identity ch) t (snd s))"

fun warm_run ::
  "'z route_codec_scheme \<Rightarrow> warm_handle \<Rightarrow> control_handle \<Rightarrow> warm_op list \<Rightarrow> stores \<Rightarrow> stores" where
  "warm_run cd h ch [] s = s"
| "warm_run cd h ch (x # xs) s = warm_run cd h ch xs (warm_step cd h ch x s)"

end
