(* ===== verification/WarmProofs.thy ===== *)
theory WarmProofs
  imports WarmControl
begin

text \<open>
  What any call can do to the traffic tables, as a small step relation, and the store invariant:
  retired revisions are never routed, a drain receipt excludes admissions, the history of a
  deployment is its sequence of generations, and endpoints are unique.
\<close>

subsection \<open>The traffic tables\<close>

text \<open>The pool tables, probes and demand counters are not part of the traffic truth.\<close>

definition core :: "warm_db \<Rightarrow> warm_db" where
  "core db = db\<lparr>w_plans := [], w_authority := [], w_pool_generations := [], w_pool_history := [],
     w_members := [], w_probes := [], w_demand := []\<rparr>"

lemma core_fields [simp]:
  "w_identity (core db) = w_identity db" "w_backends (core db) = w_backends db"
  "w_routes (core db) = w_routes db" "w_actions (core db) = w_actions db"
  "w_events (core db) = w_events db" "w_retirements (core db) = w_retirements db"
  "w_durable (core db) = w_durable db" "w_admissions (core db) = w_admissions db"
  "w_receipts (core db) = w_receipts db" "w_pooled (core db) = w_pooled db"
  by (simp_all add: core_def)

lemma core_reads [simp]:
  "retired (core db) rid = retired db rid" "routed (core db) rid = routed db rid"
  "served (core db) rid = served db rid" "admissions_of (core db) rid = admissions_of db rid"
  "trigger_aborts (core db) r = trigger_aborts db r"
  by (simp_all add: retired_def routed_def served_def admissions_of_def trigger_aborts_def)

definition active_backends :: "warm_db \<Rightarrow> nat" where
  "active_backends db = length (filter (\<lambda>row. \<not> retired db (fst row)) (w_backends db))"

definition new_endpoint :: "warm_db \<Rightarrow> string \<Rightarrow> bool" where
  "new_endpoint db u \<longleftrightarrow> u \<notin> set (map (fst \<circ> snd) (w_backends db))"

definition next_generation :: "warm_db \<Rightarrow> route \<Rightarrow> bool" where
  "next_generation db r \<longleftrightarrow> ro_generation r =
     (case lookup (w_routes db) (ro_deployment r) of None \<Rightarrow> 0 | Some c \<Rightarrow> ro_generation c + 1)"

text \<open>Only the admissions in \<open>K\<close> may be removed.\<close>

inductive warm_delta ::
  "'z route_codec_scheme \<Rightarrow> string set \<Rightarrow> warm_db \<Rightarrow> warm_db \<Rightarrow> bool" for cd K where
  idle: "warm_delta cd K db db"
| enlist: "lookup (w_backends db) (backend_id b) = None \<Longrightarrow> new_endpoint db u \<Longrightarrow>
    active_backends db < 32 \<Longrightarrow>
    warm_delta cd K db (db\<lparr>w_backends := w_backends db @ [(backend_id b, u, b)]\<rparr>)"
| publish: "lookup (w_backends db) (ro_revision r) = Some (u, b) \<Longrightarrow>
    ro_digest r = revision_digest cd (wb_revision b) \<Longrightarrow> \<not> retired db (ro_revision r) \<Longrightarrow>
    \<not> trigger_aborts db r \<Longrightarrow> next_generation db r \<Longrightarrow>
    acts = w_actions db \<or> (\<exists>k fp. lookup (w_actions db) k = None \<and> acts = w_actions db @ [(k, fp, r)]) \<Longrightarrow>
    warm_delta cd K db (db\<lparr>w_routes := upsert (ro_deployment r) r (w_routes db),
      w_events := w_events db @ [(ro_deployment r, r)], w_actions := acts\<rparr>)"
| pin: "lookup (w_admissions db) fid = None \<Longrightarrow> \<not> retired db (ro_revision (ap_route p)) \<Longrightarrow>
    length (w_admissions db) < 4096 \<Longrightarrow>
    warm_delta cd K db (db\<lparr>w_admissions := w_admissions db @ [(fid, ro_revision (ap_route p), p)]\<rparr>)"
| mark: "lookup (w_admissions db) k = Some (rid, p) \<Longrightarrow>
    warm_delta cd K db (db\<lparr>w_admissions := upsert k (rid, p\<lparr>ap_phase := ph\<rparr>) (w_admissions db)\<rparr>)"
| unpin: "lookup (w_admissions db) k = Some (rid, p) \<Longrightarrow> k \<in> K \<Longrightarrow>
    warm_delta cd K db (db\<lparr>w_admissions := delete_key k (w_admissions db)\<rparr>)"
| retire_it: "\<not> routed db k \<or> \<not> served db k \<Longrightarrow>
    backs = w_backends db \<or>
      (\<exists>u b. lookup (w_backends db) k = None \<and> new_endpoint db u \<and> backend_id b = k \<and>
         backs = w_backends db @ [(k, u, b)]) \<Longrightarrow>
    recs = w_receipts db \<or>
      (\<exists>rc. admissions_of db k = 0 \<and> dr_revision rc = k \<and> recs = insert_or_ignore k rc (w_receipts db)) \<Longrightarrow>
    warm_delta cd K db (db\<lparr>w_retirements := insert_or_ignore k digest (w_retirements db),
      w_backends := backs, w_receipts := recs\<rparr>)"
| vacate: "lookup (w_backends db) k = Some (u, b) \<Longrightarrow> retired db k \<Longrightarrow>
    list_all (\<lambda>row. fst row \<noteq> k \<longrightarrow> fst (snd row) \<noteq> u') (w_backends db) \<Longrightarrow>
    warm_delta cd K db (db\<lparr>w_backends := upsert k (u', b) (w_backends db)\<rparr>)"

subsection \<open>Every call is one such step\<close>

lemma warm_txn_delta:
  assumes "\<And>a db'. f db = Inr (a, db') \<Longrightarrow> warm_delta cd K (core db) (core db')"
  shows "warm_delta cd K (core db) (core (snd (warm_txn me f db)))"
  using assms by (auto simp: warm_txn_def atomically_def idle split: sum.splits)

lemma warm_txn_Inr:
  "warm_txn me f db = (Inr a, db') \<longleftrightarrow>
     (\<exists>u. verify_identity (w_identity db) me = Inr u) \<and> f db = Inr (a, db')"
  by (auto simp: warm_txn_def atomically_def split: sum.splits)

lemma warm_txn_Inl: "warm_txn me f db = (Inl e, db') \<Longrightarrow> db' = db"
  by (auto simp: warm_txn_def atomically_def split: sum.splits)

lemma backend_Inr:
  "backend h rid db = (Inr b, db') \<Longrightarrow>
     db' = db \<and> \<not> retired db rid \<and> (\<exists>u. lookup (w_backends db) rid = Some (u, b))"
  by (auto simp: backend_def warm_txn_Inr backend_body_def require_available_def
      split: option.splits if_splits)

lemma backend_keeps [simp]: "snd (backend h rid db) = db"
  by (cases "backend h rid db"; cases "fst (backend h rid db)")
    (auto simp: backend_def dest: warm_txn_Inl backend_Inr [unfolded backend_def])

lemma insert_backend_Inr:
  "insert_backend b db = Inr db' \<longleftrightarrow> lookup (w_backends db) (backend_id b) = None \<and>
     new_endpoint db (cf_base_url (wb_configuration b)) \<and>
     db' = db\<lparr>w_backends := w_backends db @ [(backend_id b, cf_base_url (wb_configuration b), b)]\<rparr>"
  by (auto simp: insert_backend_def new_endpoint_def)

lemma new_endpoint_core [simp]: "new_endpoint (core db) u = new_endpoint db u"
  by (simp add: new_endpoint_def)

lemma active_core [simp]: "active_backends (core db) = active_backends db"
  by (simp add: active_backends_def)

lemma next_generation_core [simp]: "next_generation (core db) r = next_generation db r"
  by (simp add: next_generation_def)

lemmas enlist_core = enlist [where db = "core db" for db, simplified]
lemmas publish_core = publish [where db = "core db" for db, simplified]
lemmas pin_core = pin [where db = "core db" for db, simplified]
lemmas mark_core = mark [where db = "core db" for db, simplified]
lemmas unpin_core = unpin [where db = "core db" for db, simplified]
lemmas retire_core = retire_it [where db = "core db" for db, simplified]
lemmas vacate_core = vacate [where db = "core db" for db, simplified]

lemma publish_plain:
  assumes "lookup (w_backends db) (ro_revision r) = Some (u, b)"
    and "ro_digest r = revision_digest cd (wb_revision b)" and "\<not> retired db (ro_revision r)"
    and "\<not> trigger_aborts db r" and "next_generation db r"
  shows "warm_delta cd K (core db) ((core db)\<lparr>w_routes := upsert (ro_deployment r) r (w_routes db),
      w_events := w_events db @ [(ro_deployment r, r)]\<rparr>)"
proof -
  have "(core db)\<lparr>w_routes := upsert (ro_deployment r) r (w_routes db),
      w_events := w_events db @ [(ro_deployment r, r)], w_actions := w_actions db\<rparr> =
    (core db)\<lparr>w_routes := upsert (ro_deployment r) r (w_routes db),
      w_events := w_events db @ [(ro_deployment r, r)]\<rparr>" by (simp add: core_def)
  with publish_core [OF assms, of "w_actions db"] show ?thesis by simp
qed

lemma core_upd [simp]:
  "core (db\<lparr>w_backends := x\<rparr>) = (core db)\<lparr>w_backends := x\<rparr>"
  "core (db\<lparr>w_admissions := y\<rparr>) = (core db)\<lparr>w_admissions := y\<rparr>"
  "core (db\<lparr>w_demand := z\<rparr>) = core db" "core (db\<lparr>w_probes := pr\<rparr>) = core db"
  "core (db\<lparr>w_actions := ac\<rparr>) = (core db)\<lparr>w_actions := ac\<rparr>"
  "core (db\<lparr>w_retirements := rt\<rparr>) = (core db)\<lparr>w_retirements := rt\<rparr>"
  "core (db\<lparr>w_receipts := rc\<rparr>) = (core db)\<lparr>w_receipts := rc\<rparr>"
  "core (db\<lparr>w_members := ms\<rparr>) = core db"
  "core (db\<lparr>w_members := ms, w_plans := ps, w_authority := au\<rparr>) = core db"
  "core (advance_pool dep reason db) = core db"
  by (simp_all add: core_def advance_pool_def Let_def)

lemma register_delta: "warm_delta cd K (core db) (core (snd (register h b db)))"
  unfolding register_def
proof (rule warm_txn_delta)
  fix a db' assume "register_body b db = Inr (a, db')"
  then consider "db' = db"
    | "lookup (w_backends db) (backend_id b) = None"
      "new_endpoint db (cf_base_url (wb_configuration b))" "active_backends db < 32"
      "db' = db\<lparr>w_backends := w_backends db @ [(backend_id b, cf_base_url (wb_configuration b), b)]\<rparr>"
    by (auto simp: register_body_def insert_backend_Inr active_backends_def
        split: sum.splits option.splits if_splits)
  then show "warm_delta cd K (core db) (core db')"
    by cases (auto intro: idle enlist_core)
qed

lemma save_route_Inr:
  assumes "save_route cd h r db = Inr db'"
  shows "\<not> trigger_aborts db r"
    and "core db' = (core db)\<lparr>w_routes := upsert (ro_deployment r) r (w_routes db),
           w_events := w_events db @ [(ro_deployment r, r)]\<rparr>"
    and "w_actions db' = w_actions db"
  using assms
  by (auto simp: save_route_def Let_def core_def advance_pool_def split: if_splits)

lemma make_route_Inr: "make_route r = Inr r' \<longleftrightarrow> r' = r \<and> bounded_text 1 128 (ro_deployment r) \<and> 0 < ro_changed_at r"
  by (auto simp: make_route_def)

lemma bootstrap_route_delta:
  "warm_delta cd K (core db) (core (snd (bootstrap_route cd h dep rid now db)))"
proof (cases "backend h rid db")
  case (Pair r db1)
  show ?thesis
  proof (cases r)
    case (Inl e)
    with Pair have "db1 = db" using backend_keeps [of h rid db] by simp
    with Pair Inl show ?thesis by (simp add: bootstrap_route_def seq_Inl idle)
  next
    case (Inr b)
    with Pair have b: "db1 = db" "\<not> retired db rid" "\<exists>u. lookup (w_backends db) rid = Some (u, b)"
      using backend_Inr by blast+
    have "warm_delta cd K (core db)
        (core (snd (warm_txn (wh_identity h) (bootstrap_route_body cd h b dep rid now) db)))"
    proof (rule warm_txn_delta)
      fix a db' assume "bootstrap_route_body cd h b dep rid now db = Inr (a, db')"
      then consider "db' = db"
        | r where "lookup (w_routes db) dep = None" "save_route cd h r db = Inr db'"
          "ro_deployment r = dep" "ro_revision r = rid" "ro_generation r = 0"
          "ro_digest r = revision_digest cd (wb_revision b)"
        by (auto simp: bootstrap_route_body_def make_route_Inr split: sum.splits option.splits if_splits)
      then show "warm_delta cd K (core db) (core db')"
      proof cases
        case 2
        note s = save_route_Inr [OF 2(2)]
        from b(3) obtain u where "lookup (w_backends db) rid = Some (u, b)" by blast
        with 2 b(2) s publish_plain [of db r u b cd] show ?thesis
          by (simp add: next_generation_def)
      qed (simp add: idle)
    qed
    with Pair Inr b(1) show ?thesis by (simp add: bootstrap_route_def seq_Inr)
  qed
qed

lemma apply_body_Inr:
  assumes "apply_body cd h b q now db = Inr (r, db')"
  obtains (replayed) "lookup (w_actions db) (q_idempotency_key q) = Some (apply_fingerprint cd q, r)"
      "db' = db" "\<not> retired db (revision_id (q_target q))"
  | (cutover) current db1 where "lookup (w_actions db) (q_idempotency_key q) = None"
      "lookup (w_routes db) (q_deployment_id q) = Some current"
      "ro_revision current = q_expected_revision q" "ro_generation current = q_expected_generation q"
      "ro_deployment r = ro_deployment current" "ro_revision r = backend_id b"
      "ro_digest r = revision_digest cd (wb_revision b)"
      "ro_generation r = ro_generation current + 1" "save_route cd h r db = Inr db1"
      "db' = db1\<lparr>w_actions := w_actions db1 @ [(q_idempotency_key q, apply_fingerprint cd q, r)]\<rparr>"
      "\<not> retired db (revision_id (q_target q))"
  using assms
  by (auto simp: apply_body_def make_route_Inr current_route_def require_available_def
      split: sum.splits option.splits if_splits)

lemma apply_route_Inr:
  assumes "apply_route cd h q now db = (Inr r, db')"
  obtains u b where "lookup (w_backends db) (revision_id (q_target q)) = Some (u, b)"
    "wb_revision b = q_target q" "q_idempotency_key q \<noteq> []" "apply_body cd h b q now db = Inr (r, db')"
    "\<exists>u. verify_identity (w_identity db) (wh_identity h) = Inr u"
proof -
  obtain x db1 where b: "backend h (revision_id (q_target q)) db = (x, db1)"
    by (cases "backend h (revision_id (q_target q)) db")
  with assms obtain b where x: "x = Inr b" by (cases x) (auto simp: apply_route_def seq_def)
  with b have b': "db1 = db" "\<exists>u. lookup (w_backends db) (revision_id (q_target q)) = Some (u, b)"
    using backend_Inr by blast+
  with assms b x show thesis
    using that by (auto simp: apply_route_def seq_def raise_def warm_txn_Inr split: if_splits)
qed

lemma apply_route_Inl:
  assumes "apply_route cd h q now db = (Inl e, db')"
  shows "db' = db"
proof -
  obtain x db1 where b: "backend h (revision_id (q_target q)) db = (x, db1)"
    by (cases "backend h (revision_id (q_target q)) db")
  then have "db1 = db" using backend_keeps [of h "revision_id (q_target q)" db] by simp
  with assms b show ?thesis
    by (cases x) (auto simp: apply_route_def seq_def raise_def dest: warm_txn_Inl split: if_splits)
qed

definition routes_keyed :: "warm_db \<Rightarrow> bool" where
  "routes_keyed db \<longleftrightarrow> (\<forall>k r. lookup (w_routes db) k = Some r \<longrightarrow> ro_deployment r = k)"

lemma apply_route_delta:
  assumes keyed: "routes_keyed db"
  shows "warm_delta cd K (core db) (core (snd (apply_route cd h q now db)))"
proof (cases "apply_route cd h q now db")
  case (Pair x db')
  show ?thesis
  proof (cases x)
    case (Inl e)
    with Pair have "db' = db" using apply_route_Inl by blast
    with Pair show ?thesis by (simp add: idle)
  next
    case (Inr r)
    from apply_route_Inr [OF Pair [unfolded Inr]] obtain u b where
      b: "lookup (w_backends db) (revision_id (q_target q)) = Some (u, b)"
      "wb_revision b = q_target q" "apply_body cd h b q now db = Inr (r, db')" .
    from b(3) show ?thesis
    proof (cases rule: apply_body_Inr)
      case replayed
      with Pair show ?thesis by (simp add: idle)
    next
      case (cutover current db1)
      note s = save_route_Inr [OF cutover(9)]
      have "next_generation db r"
        using cutover(2,5,8) keyed by (simp add: next_generation_def routes_keyed_def)
      with b cutover s publish_core [of db r u b cd "w_actions db @
          [(q_idempotency_key q, apply_fingerprint cd q, r)]"] Pair show ?thesis by auto
    qed
  qed
qed

text \<open>Obligations.\<close>

lemma insert_admission_Inr:
  assumes "insert_admission h fid r b kind anchor pool db = Inr (l, db')"
  shows "lookup (w_admissions db) fid = None" "length (w_admissions db) < 4096"
    "db' = db\<lparr>w_admissions := w_admissions db @ [(fid, ro_revision r, admission_payload l)]\<rparr>"
    "al_id l = fid" "al_route l = r" "al_backend l = b" "ap_route (admission_payload l) = r"
    "al_started l = 0" "al_closed l = 0"
  using assms
  by (auto simp: insert_admission_def insert_new_def Let_def admission_payload_def
      split: sum.splits if_splits)

lemma insert_admission_delta:
  assumes "insert_admission h fid r b kind anchor pool db = Inr (l, db')"
    and "\<not> retired db (ro_revision r)"
  shows "warm_delta cd K (core db) (core db')"
  using insert_admission_Inr [OF assms(1)] assms(2) pin_core [of db fid "admission_payload l" cd]
  by simp

lemma admit_delta: "warm_delta cd' K (core db) (core (snd (admit cd h fid dep db)))"
proof -
  have "warm_delta cd' K (core db) (core (snd (warm_txn (wh_identity h) (admit_body cd h fid dep) db)))"
    by (rule warm_txn_delta)
      (auto simp: admit_body_def require_available_def split: sum.splits option.splits if_splits
        intro: insert_admission_delta)
  then show ?thesis by (simp add: admit_def idle)
qed

lemma mark_dispatched_delta: "warm_delta cd K (core db) (core (snd (mark_dispatched h l db)))"
  unfolding mark_dispatched_def
  by (rule warm_txn_delta)
    (auto split: option.splits if_splits intro: mark_core)

lemma holds_admission_iff:
  "holds_admission db l \<longleftrightarrow> (\<exists>rid. lookup (w_admissions db) (al_id l) = Some (rid, admission_payload l))"
  by (auto simp: holds_admission_def split: option.splits)

lemma finish_admission_delta: "warm_delta cd {al_id l} (core db) (core (snd (finish_admission h l db)))"
proof -
  have "warm_delta cd {al_id l} (core db) (core (snd (warm_txn (wh_identity h) (\<lambda>db.
        if \<not> holds_admission db l
        then Inl (ControlConflict ''admission identity changed or already released'')
        else Inr ((), db\<lparr>w_admissions := delete_key (al_id l) (w_admissions db)\<rparr>)) db)))"
    by (rule warm_txn_delta)
      (auto simp: holds_admission_iff split: if_splits intro: unpin_core)
  then show ?thesis by (simp add: finish_admission_def idle)
qed

lemma select_body_Inr:
  assumes "select_body cd h fid expected request token db = Inr (found, db')"
  obtains (refused) "found = None" "core db' = core db"
      "pool_loads db expected (if token = None then Serving else Probe) = []"
  | (chosen) l db1 rid u b where "found = Some l"
      "current_route db (ro_deployment expected) = Inr expected"
      "rid = snd (min_by (\<lambda>x. x) (pool_loads db expected (if token = None then Serving else Probe)))"
      "pool_loads db expected (if token = None then Serving else Probe) \<noteq> []"
      "list_all (\<lambda>r. \<not> retired db r) (pool_candidates db expected (if token = None then Serving else Probe))"
      "lookup (w_backends db) rid = Some (u, b)"
      "insert_admission h fid (expected\<lparr>ro_revision := rid, ro_digest := revision_digest cd (wb_revision b)\<rparr>)
         b (if token = None then Serving else Probe) (Some expected)
         (Some (case lookup (w_pool_generations db) (ro_deployment expected) of
                None \<Rightarrow> 0 | Some g \<Rightarrow> g)) db = Inr (l, db1)"
      "core db' = core db1" "w_admissions db' = w_admissions db1"
  using assms
  by (auto simp: select_body_def Let_def list_ex_iff list_all_iff split: sum.splits option.splits if_splits)

lemma chosen_available:
  assumes "pool_loads db r kind \<noteq> []" and "list_all (\<lambda>r. \<not> retired db r) (pool_candidates db r kind)"
  shows "\<not> retired db (snd (min_by (\<lambda>x. x) (pool_loads db r kind)))"
    and "fst (min_by (\<lambda>x. x) (pool_loads db r kind)) < member_limit db r"
    and "fst (min_by (\<lambda>x. x) (pool_loads db r kind)) =
      admissions_of db (snd (min_by (\<lambda>x. x) (pool_loads db r kind)))"
proof -
  have "min_by (\<lambda>x. x) (pool_loads db r kind) \<in> set (pool_loads db r kind)"
    by (rule min_by_mem [OF assms(1)])
  then show "\<not> retired db (snd (min_by (\<lambda>x. x) (pool_loads db r kind)))"
    "fst (min_by (\<lambda>x. x) (pool_loads db r kind)) < member_limit db r"
    "fst (min_by (\<lambda>x. x) (pool_loads db r kind)) =
      admissions_of db (snd (min_by (\<lambda>x. x) (pool_loads db r kind)))"
    using assms(2) by (auto simp: pool_loads_def list_all_iff)
qed

lemma select_body_delta:
  assumes "select_body cd h fid expected request token db = Inr (found, db')"
  shows "warm_delta cd' K (core db) (core db')"
  using assms
proof (cases rule: select_body_Inr)
  case refused
  then show ?thesis by (simp add: idle)
next
  case (chosen l db1 rid u b)
  then show ?thesis
    using insert_admission_delta [OF chosen(7)] chosen_available(1) [OF chosen(4,5)] by simp
qed

lemma select_admission_delta:
  "warm_delta cd' K (core db) (core (snd (select_admission cd h fid r request token db)))"
proof -
  let ?t = "warm_txn (wh_identity h) (select_body cd h fid r request token)"
  have "snd (select_admission cd h fid r request token db) = snd (?t db)"
    by (cases "?t db"; cases "fst (?t db)")
      (auto simp: select_admission_def seq_def raise_def return_def split: option.splits)
  moreover have "warm_delta cd' K (core db) (core (snd (?t db)))"
    by (rule warm_txn_delta) (rule select_body_delta)
  ultimately show ?thesis by simp
qed

lemma both_txn_delta:
  assumes "\<And>a s'. f s = Inr (a, s') \<Longrightarrow> warm_delta cd K (core (fst s)) (core (fst s'))"
  shows "warm_delta cd K (core (fst s)) (core (fst (snd (both_txn h ch f s))))"
  using assms by (auto simp: both_txn_def atomically_def idle split: sum.splits)

lemma baseline_delta:
  "warm_delta cd' K (core (fst s)) (core (fst (snd (require_stable_baseline cd h ch fid dep b gen res s))))"
  unfolding require_stable_baseline_def
proof (rule both_txn_delta)
  fix a s' assume "baseline_body cd h fid dep b gen res s = Inr (a, s')"
  then show "warm_delta cd' K (core (fst s)) (core (fst s'))"
    by (auto simp: baseline_body_def require_available_def stable_baseline_def
        split: prod.splits sum.splits if_splits intro: idle insert_admission_delta)
qed

lemma retire_drained_Inr:
  assumes "retire_drained_body cd h b now (db, c) = Inr (a, s')"
  obtains (refused) "\<not> a" "s' = (db, c)"
  | (pending) "\<not> a" "s' = (retire cd b db, c)" "\<not> routed db (backend_id b)"
      "\<not> controlled c (backend_id b)"
  | (drained) rc where "a" "admissions_of db (backend_id b) = 0" "dr_revision rc = backend_id b"
      "dr_remaining rc = 0" "\<not> routed db (backend_id b)" "\<not> controlled c (backend_id b)"
      "s' = ((retire cd b db)\<lparr>w_receipts := insert_or_ignore (backend_id b) rc (w_receipts db)\<rparr>, c)"
proof -
  let ?rc = "\<lparr>dr_store_identity = wh_identity h, dr_revision = backend_id b,
               dr_digest = revision_digest cd (wb_revision b), dr_remaining = 0,
               dr_observed_at = now\<rparr>"
  have "w_receipts (retire cd b db) = w_receipts db" by (simp add: retire_def)
  with assms show thesis
    using refused pending drained [of ?rc]
    by (auto simp: retire_drained_body_def Let_def split: if_splits)
qed

lemma retire_plain:
  assumes "\<not> routed db (backend_id b) \<or> \<not> served db (backend_id b)"
  shows "warm_delta cd K (core db) (core (retire cd' b db))"
proof -
  let ?r = "insert_or_ignore (backend_id b) (revision_digest cd' (wb_revision b)) (w_retirements db)"
  have "warm_delta cd K (core db) ((core db)\<lparr>w_retirements := ?r, w_backends := w_backends db,
      w_receipts := w_receipts db\<rparr>)"
    by (rule retire_core) (use assms in simp_all)
  also have "(core db)\<lparr>w_retirements := ?r, w_backends := w_backends db,
      w_receipts := w_receipts db\<rparr> = core (retire cd' b db)"
    by (simp add: retire_def core_def)
  finally show ?thesis .
qed

lemma retire_drained_delta:
  "warm_delta cd K (core (fst s)) (core (fst (snd (retire_drained cd' h ch b now s))))"
  unfolding retire_drained_def
proof (rule both_txn_delta)
  fix a s' assume "retire_drained_body cd' h b now s = Inr (a, s')"
  then have r: "retire_drained_body cd' h b now (fst s, snd s) = Inr (a, s')" by simp
  from r show "warm_delta cd K (core (fst s)) (core (fst s'))"
  proof (cases rule: retire_drained_Inr)
    case pending
    then show ?thesis using retire_plain [of "fst s" b cd K cd'] by simp
  next
    case (drained rc)
    let ?db = "fst s"
    let ?r = "insert_or_ignore (backend_id b) (revision_digest cd' (wb_revision b)) (w_retirements ?db)"
    have "warm_delta cd K (core ?db) ((core ?db)\<lparr>w_retirements := ?r, w_backends := w_backends ?db,
        w_receipts := insert_or_ignore (backend_id b) rc (w_receipts ?db)\<rparr>)"
      by (rule retire_core) (use drained in auto)
    also have "(core ?db)\<lparr>w_retirements := ?r, w_backends := w_backends ?db,
        w_receipts := insert_or_ignore (backend_id b) rc (w_receipts ?db)\<rparr> = core (fst s')"
      using drained by (simp add: retire_def core_def)
    finally show ?thesis .
  qed (simp add: idle)
qed

lemma retire_unserved_Inr:
  assumes "retire_unserved_body cd b (db, c) = Inr (a, s')"
  obtains (refused) "\<not> a" "s' = (db, c)"
  | (known) "a" "s' = (retire cd b db, c)" "\<not> served db (backend_id b)" "\<not> controlled c (backend_id b)"
  | (reserved) u where "a" "\<not> served db (backend_id b)" "\<not> controlled c (backend_id b)"
      "lookup (w_backends db) (backend_id b) = None" "new_endpoint db u"
      "s' = (retire cd b (db\<lparr>w_backends := w_backends db @ [(backend_id b, u, b)]\<rparr>), c)"
  using assms
  by (auto simp: retire_unserved_body_def Let_def insert_backend_Inr
      split: if_splits sum.splits option.splits)

lemma retire_unserved_delta:
  "warm_delta cd K (core (fst s)) (core (fst (snd (retire_unserved cd' h ch b s))))"
  unfolding retire_unserved_def
proof (rule both_txn_delta)
  fix a s' assume "retire_unserved_body cd' b s = Inr (a, s')"
  then have r: "retire_unserved_body cd' b (fst s, snd s) = Inr (a, s')" by simp
  from r show "warm_delta cd K (core (fst s)) (core (fst s'))"
  proof (cases rule: retire_unserved_Inr)
    case known
    then show ?thesis using retire_plain [of "fst s" b cd K cd'] by simp
  next
    case (reserved u)
    let ?db = "fst s"
    let ?r = "insert_or_ignore (backend_id b) (revision_digest cd' (wb_revision b)) (w_retirements ?db)"
    have "warm_delta cd K (core ?db) ((core ?db)\<lparr>w_retirements := ?r,
        w_backends := w_backends ?db @ [(backend_id b, u, b)], w_receipts := w_receipts ?db\<rparr>)"
      by (rule retire_core) (use reserved in auto)
    also have "(core ?db)\<lparr>w_retirements := ?r,
        w_backends := w_backends ?db @ [(backend_id b, u, b)], w_receipts := w_receipts ?db\<rparr> = core (fst s')"
      using reserved by (simp add: retire_def core_def)
    finally show ?thesis .
  qed (simp add: idle)
qed

lemma release_delta: "warm_delta cd K (core db) (core (snd (release_retired_endpoint cd' h b db)))"
  unfolding release_retired_endpoint_def
proof (rule warm_txn_delta)
  fix a db' assume "release_body cd' b db = Inr (a, db')"
  then obtain u where r: "lookup (w_backends db) (backend_id b) = Some (u, b)"
    "lookup (w_retirements db) (backend_id b) \<noteq> None"
    "\<not> list_ex (\<lambda>row. fst row \<noteq> backend_id b \<and> fst (snd row) = ''retired:'' @ backend_id b) (w_backends db)"
    "db' = db\<lparr>w_backends := upsert (backend_id b) (''retired:'' @ backend_id b, b) (w_backends db)\<rparr>"
    by (auto simp: release_body_def Let_def split: if_splits)
  from r(3) have "list_all (\<lambda>row. fst row \<noteq> backend_id b \<longrightarrow> fst (snd row) \<noteq> ''retired:'' @ backend_id b)
      (w_backends db)" unfolding list_all_iff list_ex_iff by blast
  from vacate_core [OF r(1) _ this] r(2,4) show "warm_delta cd K (core db) (core db')"
    by (simp add: retired_def)
qed

lemma probe_delta:
  "warm_delta cd K (core db) (core (snd (probe_token cd' h token r request db)))"
  "warm_delta cd K (core db) (core (snd (revoke_probe cd' h token db)))"
  unfolding probe_token_def revoke_probe_def
  by (rule warm_txn_delta, auto split: if_splits sum.splits intro: idle)+

fun finished :: "warm_op \<Rightarrow> string set" where
  "finished (W_finish l) = {al_id l}"
| "finished _ = {}"

lemma warm_step_delta:
  assumes "routes_keyed (fst s)"
  shows "warm_delta cd (finished x) (core (fst s)) (core (fst (warm_step cd h ch x s)))"
  by (cases x)
    (simp_all add: on_fst_def register_delta bootstrap_route_delta apply_route_delta assms admit_delta
      select_admission_delta baseline_delta mark_dispatched_delta finish_admission_delta
      retire_drained_delta retire_unserved_delta release_delta probe_delta idle
      remove_members_def Let_def)

subsection \<open>The store invariant\<close>

definition dep_events :: "warm_db \<Rightarrow> string \<Rightarrow> route list" where
  "dep_events db dep = map snd (filter (\<lambda>ev. fst ev = dep) (w_events db))"

definition history_ok :: "warm_db \<Rightarrow> string \<Rightarrow> bool" where
  "history_ok db dep \<longleftrightarrow>
     map ro_generation (dep_events db dep) = [0..<length (dep_events db dep)] \<and>
     lookup (w_routes db) dep =
       (if dep_events db dep = [] then None else Some (last (dep_events db dep))) \<and>
     (\<forall>r \<in> set (dep_events db dep). ro_deployment r = dep)"

definition backend_ok :: "warm_db \<Rightarrow> string \<Rightarrow> warm_backend \<Rightarrow> bool" where
  "backend_ok db k b \<longleftrightarrow> backend_id b = k"

definition route_ok :: "'z route_codec_scheme \<Rightarrow> warm_db \<Rightarrow> route \<Rightarrow> bool" where
  "route_ok cd db r \<longleftrightarrow> \<not> retired db (ro_revision r) \<and>
     (\<exists>u b. lookup (w_backends db) (ro_revision r) = Some (u, b) \<and>
        ro_digest r = revision_digest cd (wb_revision b))"

definition warm_inv :: "'z route_codec_scheme \<Rightarrow> warm_db \<Rightarrow> bool" where
  "warm_inv cd db \<longleftrightarrow>
     distinct (map (fst \<circ> snd) (w_backends db)) \<and> unique_keys (w_backends db) \<and>
     (\<forall>k u b. lookup (w_backends db) k = Some (u, b) \<longrightarrow> backend_id b = k) \<and>
     active_backends db \<le> 32 \<and>
     (\<forall>dep. history_ok db dep) \<and>
     (\<forall>dep r. lookup (w_routes db) dep = Some r \<longrightarrow> route_ok cd db r) \<and>
     (\<forall>k fp r. lookup (w_actions db) k = Some (fp, r) \<longrightarrow> (ro_deployment r, r) \<in> set (w_events db)) \<and>
     unique_keys (w_admissions db) \<and> length (w_admissions db) \<le> 4096 \<and>
     (\<forall>k rid p. (k, rid, p) \<in> set (w_admissions db) \<longrightarrow> ro_revision (ap_route p) = rid) \<and>
     (\<forall>k rc. lookup (w_receipts db) k = Some rc \<longrightarrow> retired db k \<and> admissions_of db k = 0) \<and>
     (w_durable db \<longrightarrow> (\<forall>ev \<in> set (w_events db). ro_durable (snd ev)))"

lemma dep_events_upd [simp]:
  "dep_events (db\<lparr>w_backends := x1\<rparr>) dep = dep_events db dep"
  "dep_events (db\<lparr>w_admissions := x2\<rparr>) dep = dep_events db dep"
  "dep_events (db\<lparr>w_retirements := x3, w_backends := x1, w_receipts := x4\<rparr>) dep = dep_events db dep"
  "dep_events (db\<lparr>w_routes := x5, w_events := w_events db @ [(dep', r)], w_actions := x6\<rparr>) dep =
     dep_events db dep @ (if dep' = dep then [r] else [])"
  by (simp_all add: dep_events_def)

lemma retired_upd [simp]:
  "retired (db\<lparr>w_backends := x1\<rparr>) k = retired db k"
  "retired (db\<lparr>w_admissions := x2\<rparr>) k = retired db k"
  "retired (db\<lparr>w_routes := x5, w_events := x7, w_actions := x6\<rparr>) k = retired db k"
  "retired (db\<lparr>w_retirements := insert_or_ignore k' d (w_retirements db), w_backends := x1, w_receipts := x4\<rparr>) k
     \<longleftrightarrow> k = k' \<or> retired db k"
  by (auto simp: retired_def tbl)

lemma admissions_of_upd [simp]:
  "admissions_of (db\<lparr>w_backends := x1\<rparr>) k = admissions_of db k"
  "admissions_of (db\<lparr>w_routes := x5, w_events := x7, w_actions := x6\<rparr>) k = admissions_of db k"
  "admissions_of (db\<lparr>w_retirements := x3, w_backends := x1, w_receipts := x4\<rparr>) k = admissions_of db k"
  "admissions_of (db\<lparr>w_admissions := w_admissions db @ [(fid, rid, p)]\<rparr>) k =
     admissions_of db k + of_bool (rid = k)"
  by (simp_all add: admissions_of_def)

lemma admissions_of_0: "admissions_of db k = 0 \<longleftrightarrow> (\<forall>row \<in> set (w_admissions db). fst (snd row) \<noteq> k)"
  by (auto simp: admissions_of_def filter_empty_conv)

lemma upsert_in_place:
  "lookup t k = Some v \<Longrightarrow> set (upsert k w t) \<subseteq> insert (k, w) {row \<in> set t. fst row \<noteq> k} \<union> set t"
  by (induction t) auto

lemma length_filter_mono: "(\<And>x. P x \<Longrightarrow> Q x) \<Longrightarrow> length (filter P xs) \<le> length (filter Q xs)"
  by (induction xs) auto

lemma filter_upsert_length:
  "unique_keys t \<Longrightarrow> lookup t k = Some v \<Longrightarrow> (P (k, w) \<longleftrightarrow> P (k, v)) \<Longrightarrow>
     length (filter P (upsert k w t)) = length (filter P t)"
proof (induction t)
  case (Cons row t)
  show ?case
  proof (cases "fst row = k")
    case True
    with Cons.prems show ?thesis by (cases row) auto
  next
    case False
    with Cons show ?thesis by (cases row) (auto simp: unique_keys_def)
  qed
qed simp

lemma routed_lookup: "lookup (w_routes db) dep = Some r \<Longrightarrow> routed db (ro_revision r)"
  by (force simp: routed_def list_ex_iff dest: lookup_mem)

lemma warm_invD:
  assumes "warm_inv cd db"
  shows "distinct (map (fst \<circ> snd) (w_backends db))" and "unique_keys (w_backends db)"
    and "lookup (w_backends db) k = Some (u, b) \<Longrightarrow> backend_id b = k"
    and "active_backends db \<le> 32" and "history_ok db dep"
    and "lookup (w_routes db) dep = Some r \<Longrightarrow> route_ok cd db r"
    and "lookup (w_actions db) k = Some (fp, r) \<Longrightarrow> (ro_deployment r, r) \<in> set (w_events db)"
    and "unique_keys (w_admissions db)" and "length (w_admissions db) \<le> 4096"
    and "(k, rid, p) \<in> set (w_admissions db) \<Longrightarrow> ro_revision (ap_route p) = rid"
    and "lookup (w_receipts db) k = Some rc \<Longrightarrow> retired db k \<and> admissions_of db k = 0"
    and "w_durable db \<Longrightarrow> ev \<in> set (w_events db) \<Longrightarrow> ro_durable (snd ev)"
  using assms unfolding warm_inv_def by blast+

lemma served_lookup:
  assumes "warm_inv cd db" and "lookup (w_routes db) dep = Some r"
  shows "served db (ro_revision r)"
proof -
  from warm_invD(5) [OF assms(1), of dep] assms(2)
  have "dep_events db dep \<noteq> []" "r = last (dep_events db dep)"
    by (auto simp: history_ok_def split: if_splits)
  then have "r \<in> set (dep_events db dep)" by simp
  then show ?thesis by (auto simp: dep_events_def served_def list_ex_iff)
qed

lemma warm_inv_keyed: "warm_inv cd db \<Longrightarrow> routes_keyed db"
  unfolding routes_keyed_def
proof (intro allI impI)
  fix k r assume inv: "warm_inv cd db" and r: "lookup (w_routes db) k = Some r"
  from warm_invD(5) [OF inv, of k] r show "ro_deployment r = k"
    by (auto simp: history_ok_def split: if_splits)
qed

lemma warm_inv_core [simp]: "warm_inv cd (core db) = warm_inv cd db"
  by (simp add: warm_inv_def history_ok_def dep_events_def route_ok_def)

lemma inv_enlist:
  assumes inv: "warm_inv cd db" and new: "lookup (w_backends db) (backend_id b) = None"
    and url: "new_endpoint db u" and room: "active_backends db < 32"
  shows "warm_inv cd (db\<lparr>w_backends := w_backends db @ [(backend_id b, u, b)]\<rparr>)" (is "warm_inv cd ?db")
proof -
  note look = lookup_append_new [OF new, of "(u, b)"]
  have "active_backends ?db \<le> active_backends db + 1"
    by (simp add: active_backends_def)
  moreover have "route_ok cd db r \<Longrightarrow> route_ok cd ?db r" for r
    using new by (auto simp: route_ok_def look simp del: map_of_append)
  moreover have "unique_keys (w_backends ?db)"
    using unique_keys_append_new [OF new warm_invD(2) [OF inv]] by simp
  moreover have "history_ok db dep \<Longrightarrow> history_ok ?db dep" for dep by (simp add: history_ok_def)
  ultimately show ?thesis
    using inv room url unfolding warm_inv_def
    by (auto simp: look new_endpoint_def simp del: map_of_append)
qed

lemma inv_publish:
  assumes inv: "warm_inv cd db" and b: "lookup (w_backends db) (ro_revision r) = Some (u, b)"
    and digest: "ro_digest r = revision_digest cd (wb_revision b)"
    and avail: "\<not> retired db (ro_revision r)" and trig: "\<not> trigger_aborts db r"
    and next_gen: "next_generation db r"
    and acts: "acts = w_actions db \<or>
      (\<exists>k fp. lookup (w_actions db) k = None \<and> acts = w_actions db @ [(k, fp, r)])"
  shows "warm_inv cd (db\<lparr>w_routes := upsert (ro_deployment r) r (w_routes db),
      w_events := w_events db @ [(ro_deployment r, r)], w_actions := acts\<rparr>)" (is "warm_inv cd ?db")
proof -
  have hist: "history_ok ?db dep" for dep
  proof (cases "dep = ro_deployment r")
    case True
    have "ro_generation r = length (dep_events db dep)"
    proof (cases "dep_events db dep = []")
      case True
      with warm_invD(5) [OF inv, of dep] next_gen \<open>dep = ro_deployment r\<close> show ?thesis
        by (simp add: history_ok_def next_generation_def)
    next
      case False
      with warm_invD(5) [OF inv, of dep] have h: "lookup (w_routes db) dep = Some (last (dep_events db dep))"
        "map ro_generation (dep_events db dep) = [0..<length (dep_events db dep)]"
        by (auto simp: history_ok_def)
      from h(2) False have "ro_generation (last (dep_events db dep)) = length (dep_events db dep) - 1"
        by (metis last_map last_upt length_greater_0_conv)
      with h(1) next_gen True False show ?thesis by (simp add: next_generation_def)
    qed
    with warm_invD(5) [OF inv, of dep] True show ?thesis by (simp add: history_ok_def tbl)
  next
    case False
    with warm_invD(5) [OF inv, of dep] show ?thesis by (simp add: history_ok_def tbl)
  qed
  have act: "(ro_deployment r', r') \<in> set (w_events db @ [(ro_deployment r, r)])"
    if "lookup acts k = Some (fp, r')" for k fp r'
    using acts that warm_invD(7) [OF inv, of k fp r']
    by (auto simp: lookup_append_new simp del: map_of_append split: if_splits)
  have rok: "route_ok cd ?db r'" if "route_ok cd db r'" for r' using that by (simp add: route_ok_def)
  have "route_ok cd db r" using b digest avail by (simp add: route_ok_def)
  then have routes: "route_ok cd ?db r'" if "lookup (upsert (ro_deployment r) r (w_routes db)) dep = Some r'" for dep r'
    using that rok warm_invD(6) [OF inv] by (auto simp: tbl split: if_splits)
  have durable: "\<forall>ev \<in> set (w_events db @ [(ro_deployment r, r)]). ro_durable (snd ev)" if "w_durable db"
    using that trig warm_invD(12) [OF inv] by (auto simp: trigger_aborts_def)
  show ?thesis
    using inv hist act routes durable unfolding warm_inv_def by (auto simp: active_backends_def)
qed

lemma inv_admissions:
  assumes inv: "warm_inv cd db" and "unique_keys rows" and "length rows \<le> 4096"
    and "\<forall>k rid p. (k, rid, p) \<in> set rows \<longrightarrow> ro_revision (ap_route p) = rid"
    and "\<forall>row \<in> set rows. retired db (fst (snd row)) \<longrightarrow>
           (\<exists>old \<in> set (w_admissions db). fst (snd old) = fst (snd row))"
  shows "warm_inv cd (db\<lparr>w_admissions := rows\<rparr>)"
proof -
  have "admissions_of (db\<lparr>w_admissions := rows\<rparr>) k = 0" if "lookup (w_receipts db) k = Some rc" for k rc
    using warm_invD(11) [OF inv that] assms(5) by (fastforce simp: admissions_of_0)
  moreover have "route_ok cd db r \<Longrightarrow> route_ok cd (db\<lparr>w_admissions := rows\<rparr>) r" for r
    by (simp add: route_ok_def)
  moreover have "history_ok db dep \<Longrightarrow> history_ok (db\<lparr>w_admissions := rows\<rparr>) dep" for dep
    by (simp add: history_ok_def)
  moreover have "active_backends (db\<lparr>w_admissions := rows\<rparr>) = active_backends db"
    by (simp add: active_backends_def)
  ultimately show ?thesis
    using inv assms(2-4) unfolding warm_inv_def by auto
qed

lemma inv_pin:
  assumes inv: "warm_inv cd db" and "lookup (w_admissions db) fid = None"
    and "\<not> retired db (ro_revision (ap_route p))" and "length (w_admissions db) < 4096"
  shows "warm_inv cd (db\<lparr>w_admissions := w_admissions db @ [(fid, ro_revision (ap_route p), p)]\<rparr>)"
  by (rule inv_admissions [OF inv])
    (use assms warm_invD(8,10) [OF inv] in \<open>auto intro: unique_keys_append_new\<close>)

lemma inv_mark:
  assumes inv: "warm_inv cd db" and k: "lookup (w_admissions db) k = Some (rid, p)"
  shows "warm_inv cd (db\<lparr>w_admissions := upsert k (rid, p\<lparr>ap_phase := ph\<rparr>) (w_admissions db)\<rparr>)"
proof (rule inv_admissions [OF inv])
  have old: "(k, rid, p) \<in> set (w_admissions db)" using k by (rule lookup_mem)
  have sub: "set (upsert k (rid, p\<lparr>ap_phase := ph\<rparr>) (w_admissions db)) \<subseteq>
      insert (k, rid, p\<lparr>ap_phase := ph\<rparr>) (set (w_admissions db))"
    using upsert_in_place [OF k] by blast
  show "unique_keys (upsert k (rid, p\<lparr>ap_phase := ph\<rparr>) (w_admissions db))"
    using warm_invD(8) [OF inv] by (rule unique_keys_upsert)
  show "length (upsert k (rid, p\<lparr>ap_phase := ph\<rparr>) (w_admissions db)) \<le> 4096"
    using k warm_invD(9) [OF inv] by (simp add: length_upsert)
  show "\<forall>k' rid' p'. (k', rid', p') \<in> set (upsert k (rid, p\<lparr>ap_phase := ph\<rparr>) (w_admissions db)) \<longrightarrow>
      ro_revision (ap_route p') = rid'"
    using sub warm_invD(10) [OF inv] old by fastforce
  show "\<forall>row \<in> set (upsert k (rid, p\<lparr>ap_phase := ph\<rparr>) (w_admissions db)). retired db (fst (snd row)) \<longrightarrow>
      (\<exists>old \<in> set (w_admissions db). fst (snd old) = fst (snd row))"
  proof (intro ballI impI)
    fix row assume "row \<in> set (upsert k (rid, p\<lparr>ap_phase := ph\<rparr>) (w_admissions db))"
    with sub have "row = (k, rid, p\<lparr>ap_phase := ph\<rparr>) \<or> row \<in> set (w_admissions db)" by blast
    then show "\<exists>old \<in> set (w_admissions db). fst (snd old) = fst (snd row)"
      using old by force
  qed
qed

lemma inv_unpin:
  assumes inv: "warm_inv cd db"
  shows "warm_inv cd (db\<lparr>w_admissions := delete_key k (w_admissions db)\<rparr>)"
  by (rule inv_admissions [OF inv])
    (use warm_invD(8-10) [OF inv] length_delete_key_le [of k "w_admissions db"] in
      \<open>auto simp: in_delete_key intro: le_trans\<close>)

lemma inv_retire:
  assumes inv: "warm_inv cd db" and unused: "\<not> routed db k \<or> \<not> served db k"
    and backs: "backs = w_backends db \<or>
      (\<exists>u b. lookup (w_backends db) k = None \<and> new_endpoint db u \<and> backend_id b = k \<and>
         backs = w_backends db @ [(k, u, b)])"
    and recs: "recs = w_receipts db \<or>
      (\<exists>rc. admissions_of db k = 0 \<and> dr_revision rc = k \<and> recs = insert_or_ignore k rc (w_receipts db))"
  shows "warm_inv cd (db\<lparr>w_retirements := insert_or_ignore k digest (w_retirements db),
      w_backends := backs, w_receipts := recs\<rparr>)" (is "warm_inv cd ?db")
proof -
  have noroute: "ro_revision r \<noteq> k" if "lookup (w_routes db) dep = Some r" for dep r
    using unused routed_lookup [OF that] served_lookup [OF inv that] by auto
  have keep: "lookup backs k' = Some v" if "lookup (w_backends db) k' = Some v" for k' v
    using backs that by (auto simp: lookup_append_new simp del: map_of_append)
  have routes: "route_ok cd ?db r" if "lookup (w_routes db) dep = Some r" for dep r
    using warm_invD(6) [OF inv that] noroute [OF that] keep by (auto simp: route_ok_def)
  have active: "active_backends ?db \<le> active_backends db"
  proof -
    have f: "filter (\<lambda>row. \<not> retired ?db (fst row)) (w_backends db @ [(k, v)]) =
        filter (\<lambda>row. \<not> retired ?db (fst row)) (w_backends db)" for v by simp
    have "length (filter (\<lambda>row. \<not> retired ?db (fst row)) (w_backends db)) \<le>
        length (filter (\<lambda>row. \<not> retired db (fst row)) (w_backends db))"
      by (rule length_filter_mono) simp
    with backs f show ?thesis by (auto simp: active_backends_def)
  qed
  have bk: "distinct (map (fst \<circ> snd) backs)" "unique_keys backs"
    "\<And>k' u b. lookup backs k' = Some (u, b) \<Longrightarrow> backend_id b = k'"
    using backs warm_invD(1-3) [OF inv]
    by (auto simp: new_endpoint_def lookup_append_new unique_keys_append_new
        simp del: map_of_append split: if_splits)
  have rec: "(k' = k \<or> retired db k') \<and> admissions_of db k' = 0" if "lookup recs k' = Some rc" for k' rc
    using recs that warm_invD(11) [OF inv, of k'] by (auto simp: tbl split: if_splits)
  have "history_ok ?db dep" for dep
    using warm_invD(5) [OF inv, of dep] by (simp add: history_ok_def)
  then show ?thesis
    using inv routes active bk rec unfolding warm_inv_def by auto
qed

lemma inv_vacate:
  assumes inv: "warm_inv cd db" and k: "lookup (w_backends db) k = Some (u, b)"
    and url: "list_all (\<lambda>row. fst row \<noteq> k \<longrightarrow> fst (snd row) \<noteq> u') (w_backends db)"
  shows "warm_inv cd (db\<lparr>w_backends := upsert k (u', b) (w_backends db)\<rparr>)" (is "warm_inv cd ?db")
proof -
  have dist: "distinct (map (fst \<circ> snd) t) \<Longrightarrow> unique_keys t \<Longrightarrow>
      list_all (\<lambda>row. fst row \<noteq> k \<longrightarrow> fst (snd row) \<noteq> u') t \<Longrightarrow> lookup t k = Some (u, b) \<Longrightarrow>
      distinct (map (fst \<circ> snd) (upsert k (u', b) t))" for t :: "(string \<times> warm_backend) table"
  proof (induction t)
    case (Cons row t)
    show ?case
    proof (cases "fst row = k")
      case True
      then have "\<forall>x \<in> set t. fst x \<noteq> k" using Cons.prems(2) by (force simp: unique_keys_def image_iff)
      with True Cons.prems show ?thesis by (cases row) (auto simp: list_all_iff)
    next
      case False
      with Cons have "distinct (map (fst \<circ> snd) (upsert k (u', b) t))" "lookup t k = Some (u, b)"
        by (auto simp: unique_keys_def comp_def split: if_splits)
      moreover have "fst (snd row) \<notin> (fst \<circ> snd) ` set (upsert k (u', b) t)"
        using upsert_in_place [OF calculation(2), of "(u', b)"] Cons.prems(1,3) False
        by (auto simp: list_all_iff)
      ultimately show ?thesis using False by (cases row) (auto simp: comp_def)
    qed
  qed simp
  have "route_ok cd db r \<Longrightarrow> route_ok cd ?db r" for r
    using k by (auto simp: route_ok_def tbl)
  moreover have "active_backends ?db = active_backends db"
    using filter_upsert_length [OF warm_invD(2) [OF inv] k, of "\<lambda>row. \<not> retired db (fst row)" "(u', b)"]
    by (simp add: active_backends_def)
  moreover have "history_ok db dep \<Longrightarrow> history_ok ?db dep" for dep by (simp add: history_ok_def)
  moreover have "backend_id b = k" using warm_invD(3) [OF inv k] .
  ultimately show ?thesis
    using inv dist [OF warm_invD(1,2) [OF inv] url k] unfolding warm_inv_def
    by (auto simp: tbl unique_keys_upsert)
qed

lemma warm_inv_delta: "warm_delta cd K db db' \<Longrightarrow> warm_inv cd db \<Longrightarrow> warm_inv cd db'"
proof (induction rule: warm_delta.induct)
  case (mark db k rid p ph)
  then show ?case using inv_mark by blast
next
  case (vacate db k u b u')
  then show ?case using inv_vacate by blast
qed (auto intro: inv_enlist inv_publish inv_pin inv_unpin inv_retire)

lemma warm_inv_step:
  assumes "warm_inv cd (fst s)"
  shows "warm_inv cd (fst (warm_step cd h ch x s))"
proof -
  have "warm_delta cd (finished x) (core (fst s)) (core (fst (warm_step cd h ch x s)))"
    by (rule warm_step_delta [OF warm_inv_keyed [OF assms]])
  from warm_inv_delta [OF this] assms show ?thesis by simp
qed

lemma warm_inv_run: "warm_inv cd (fst s) \<Longrightarrow> warm_inv cd (fst (warm_run cd h ch xs s))"
  by (induction xs arbitrary: s) (simp_all add: warm_inv_step)

lemma warm_inv_new: "warm_inv cd (new_warm_db i pooled)"
  by (simp add: warm_inv_def new_warm_db_def active_backends_def history_ok_def dep_events_def)

end
