(* ===== verification/WarmGuarantees.thy ===== *)
theory WarmGuarantees
  imports WarmProofs
begin

text \<open>
  Guarantees of the traffic store: retired revisions stay out of service, drain receipts are
  final, the route history is complete, cutovers are fenced and replayable, and pool members
  keep their budgets.  The contract of \<open>DeploymentAdapter.apply\<close> is a locale, interpreted on
  \<open>WarmRouteStore.apply\<close>.
\<close>

subsection \<open>A concrete store for witnesses\<close>

definition demo_warm_codec :: route_codec where
  "demo_warm_codec = \<lparr>sha256 = (\<lambda>s. s), revision_json = revision_id,
     decision_json = candidate_revision, apply_json = q_idempotency_key, profile_json = pr_engine,
     configuration_json = cf_base_url, canonical_url = (\<lambda>u. True), route_json = ro_revision\<rparr>"

definition demo_warm :: warm_handle where
  "demo_warm = \<lparr>wh_path = ''/w'', wh_identity = demo_identity, wh_durable = True, wh_pooled = False\<rparr>"

definition demo_pooled :: warm_handle where
  "demo_pooled = \<lparr>wh_path = ''/w'', wh_identity = demo_identity, wh_durable = True, wh_pooled = True\<rparr>"

definition demo_control :: control_handle where
  "demo_control = \<lparr>ch_path = ''/c'', ch_identity = demo_identity\<rparr>"

definition demo_backend :: "string \<Rightarrow> warm_backend" where
  "demo_backend i = \<lparr>wb_revision = demo_revision i,
     wb_configuration = \<lparr>cf_base_url = ''http://'' @ i, cf_model = ''m'', cf_credential_env = None\<rparr>,
     wb_profile = None\<rparr>"

definition demo_cutover :: apply_request where
  "demo_cutover = \<lparr>q_deployment_id = ''d'', q_expected_revision = ''a'', q_expected_generation = 0,
     q_target = demo_revision ''b'', q_idempotency_key = ''k''\<rparr>"

definition demo_stores :: stores where
  "demo_stores = (new_warm_db demo_identity False, empty_control demo_identity)"

lemmas demo_warm_defs = demo_warm_codec_def demo_warm_def demo_pooled_def demo_control_def
  demo_backend_def demo_cutover_def demo_stores_def demo_identity_def demo_revision_def

lemmas warm_eval = on_fst_def new_warm_db_def register_def register_body_def warm_txn_def
  atomically_def verify_identity_def read_identity_def lower_hex_def require_available_def
  retired_def insert_backend_def bootstrap_route_def backend_def backend_body_def seq_def
  bootstrap_route_body_def make_route_def bounded_text_def save_route_def trigger_aborts_def
  revision_digest_def apply_route_def apply_body_def current_route_def apply_fingerprint_def
  retire_drained_def both_txn_def retire_drained_body_def retirement_blocked_def routed_def
  controlled_def retirement_conflict_def retire_def admissions_of_def insert_or_ignore_def Let_def
  admit_def admit_body_def insert_admission_def insert_new_def admission_payload_def

definition demo_ops :: "warm_op list" where
  "demo_ops = [W_register (demo_backend ''a''), W_register (demo_backend ''b''),
     W_bootstrap ''d'' ''a'' 1]"

definition demo_traffic :: stores where
  "demo_traffic = warm_run demo_warm_codec demo_warm demo_control demo_ops demo_stores"

lemma demo_traffic_eval:
  "lookup (w_routes (fst demo_traffic)) ''d'' =
     Some \<lparr>ro_deployment = ''d'', ro_revision = ''a'', ro_digest = ''a'', ro_generation = 0,
        ro_changed_at = 1, ro_durable = True, ro_pooled = False\<rparr>"
  "is_ok (fst (apply_route demo_warm_codec demo_warm demo_cutover 2 (fst demo_traffic)))"
  "is_ok (fst (route_history demo_warm ''d'' (fst demo_traffic)))"
  by (simp_all add: demo_traffic_def demo_ops_def demo_warm_defs warm_eval route_history_def)

definition demo_retired :: stores where
  "demo_retired = warm_run demo_warm_codec demo_warm demo_control
     [W_apply demo_cutover 2, W_retire_drained (demo_backend ''a'') 5] demo_traffic"

lemma demo_retired_eval:
  "retired (fst demo_retired) ''a''" "\<exists>rc. lookup (w_receipts (fst demo_retired)) ''a'' = Some rc"
  by (simp_all add: demo_retired_def demo_traffic_def demo_ops_def demo_warm_defs warm_eval
      empty_control_def)

lemma demo_reachable:
  "demo_traffic = warm_run demo_warm_codec demo_warm demo_control demo_ops
     (new_warm_db demo_identity False, empty_control demo_identity)"
  by (simp add: demo_traffic_def demo_stores_def)

lemma warm_run_append:
  "warm_run cd h ch (xs @ ys) s = warm_run cd h ch ys (warm_run cd h ch xs s)"
  by (induction xs arbitrary: s) simp_all

lemma demo_retired_reachable:
  "demo_retired = warm_run demo_warm_codec demo_warm demo_control
     (demo_ops @ [W_apply demo_cutover 2, W_retire_drained (demo_backend ''a'') 5])
     (new_warm_db demo_identity False, empty_control demo_identity)"
  unfolding demo_retired_def warm_run_append demo_reachable [symmetric] ..

subsection \<open>Retirement is final\<close>

lemma retired_delta: "warm_delta cd K db db' \<Longrightarrow> retired db k \<Longrightarrow> retired db' k"
  by (induction rule: warm_delta.induct) auto

lemma pinned_delta:
  "warm_delta cd K db db' \<Longrightarrow> retired db k \<Longrightarrow> unique_keys (w_admissions db) \<Longrightarrow>
     admissions_of db' k \<le> admissions_of db k"
proof (induction rule: warm_delta.induct)
  case (mark db k' rid p ph)
  then show ?case
    using filter_upsert_length [OF mark(3,1), of "\<lambda>row. fst (snd row) = k" "(rid, p\<lparr>ap_phase := ph\<rparr>)"]
    by (simp add: admissions_of_def)
next
  case (unpin db k' rid p)
  have "filter (\<lambda>row. fst (snd row) = k) (delete_key k' (w_admissions db)) =
      filter (\<lambda>row. fst row \<noteq> k') (filter (\<lambda>row. fst (snd row) = k) (w_admissions db))"
    by (simp add: delete_key_def conj_commute)
  then have "length (filter (\<lambda>row. fst (snd row) = k) (delete_key k' (w_admissions db))) \<le>
      length (filter (\<lambda>row. fst (snd row) = k) (w_admissions db))"
    by (simp only: length_filter_le)
  then show ?case by (simp add: admissions_of_def)
qed auto

lemma receipt_delta:
  "warm_delta cd K db db' \<Longrightarrow> lookup (w_receipts db) k = Some rc \<Longrightarrow> lookup (w_receipts db') k = Some rc"
  by (induction rule: warm_delta.induct) (auto simp: tbl)

lemma warm_step_core:
  assumes "warm_inv cd (fst s)"
  shows "warm_delta cd (finished x) (core (fst s)) (core (fst (warm_step cd h ch x s)))"
  by (rule warm_step_delta [OF warm_inv_keyed [OF assms]])

lemma retired_run:
  "warm_inv cd (fst s) \<Longrightarrow> retired (fst s) k \<Longrightarrow>
     retired (fst (warm_run cd h ch xs s)) k \<and>
     admissions_of (fst (warm_run cd h ch xs s)) k \<le> admissions_of (fst s) k"
proof (induction xs arbitrary: s)
  case (Cons x xs)
  note d = warm_step_core [OF Cons.prems(1), of x h ch]
  from retired_delta [OF d] Cons.prems(2) have r: "retired (fst (warm_step cd h ch x s)) k" by simp
  from pinned_delta [OF d] Cons.prems(2) warm_invD(8) [OF Cons.prems(1)]
  have "admissions_of (fst (warm_step cd h ch x s)) k \<le> admissions_of (fst s) k" by simp
  with Cons.IH [OF warm_inv_step [OF Cons.prems(1)] r] show ?case
    using le_trans by auto
qed simp

lemma receipt_run:
  "warm_inv cd (fst s) \<Longrightarrow> lookup (w_receipts (fst s)) k = Some rc \<Longrightarrow>
     lookup (w_receipts (fst (warm_run cd h ch xs s))) k = Some rc"
proof (induction xs arbitrary: s)
  case (Cons x xs)
  from receipt_delta [OF warm_step_core [OF Cons.prems(1), of x h ch]] Cons.prems(2)
  have "lookup (w_receipts (fst (warm_step cd h ch x s))) k = Some rc" by simp
  from Cons.IH [OF warm_inv_step [OF Cons.prems(1)] this] show ?case by simp
qed simp

lemma warm_run_inv:
  "s = warm_run cd h ch xs (new_warm_db i pooled, c) \<Longrightarrow> warm_inv cd (fst s)"
  by (simp add: warm_inv_run warm_inv_new)

lemma not_routed:
  assumes "warm_inv cd db" and "retired db k"
  shows "\<forall>dep r. lookup (w_routes db) dep = Some r \<longrightarrow> ro_revision r \<noteq> k"
  using warm_invD(6) [OF assms(1)] assms(2) by (auto simp: route_ok_def)

lemma pin_stays_delta:
  "warm_delta cd K db db' \<Longrightarrow> lookup (w_admissions db) k = Some (rid, p) \<Longrightarrow> k \<notin> K \<Longrightarrow>
     \<exists>p'. lookup (w_admissions db') k = Some (rid, p') \<and> ap_route p' = ap_route p \<and>
        ap_backend p' = ap_backend p"
  by (induction rule: warm_delta.induct)
    (auto simp: lookup_append_new tbl simp del: map_of_append)

lemma pin_stays_run:
  "warm_inv cd (fst s) \<Longrightarrow> lookup (w_admissions (fst s)) k = Some (rid, p) \<Longrightarrow>
     \<forall>l. W_finish l \<in> set xs \<longrightarrow> al_id l \<noteq> k \<Longrightarrow>
     \<exists>p'. lookup (w_admissions (fst (warm_run cd h ch xs s))) k = Some (rid, p') \<and>
        ap_route p' = ap_route p \<and> ap_backend p' = ap_backend p"
proof (induction xs arbitrary: s p)
  case (Cons x xs)
  have "k \<notin> finished x" using Cons.prems(3) by (cases x) auto
  with pin_stays_delta [OF warm_step_core [OF Cons.prems(1), of x h ch], of k rid p] Cons.prems(2)
  have "\<exists>p'. lookup (w_admissions (fst (warm_step cd h ch x s))) k = Some (rid, p') \<and>
      ap_route p' = ap_route p \<and> ap_backend p' = ap_backend p" by simp
  then obtain p1 where p1: "lookup (w_admissions (fst (warm_step cd h ch x s))) k = Some (rid, p1)"
    "ap_route p1 = ap_route p" "ap_backend p1 = ap_backend p" by blast
  from Cons.IH [OF warm_inv_step [OF Cons.prems(1)] p1(1)] Cons.prems(3) p1(2,3) show ?case by auto
qed auto

text \<open>C12: Once a revision is retired in a reachable store, then after any further calls of any
  processes it is still retired, no deployment routes to it, and it has no more pinned streams
  than it had: no call can pin a new one.\<close>

theorem retirement_is_final:
  assumes "s = warm_run cd h ch before (new_warm_db i pooled, c)" and "retired (fst s) k"
    and "s' = warm_run cd h ch after s"
  shows "retired (fst s') k \<and> admissions_of (fst s') k \<le> admissions_of (fst s) k \<and>
     (\<forall>dep r. lookup (w_routes (fst s')) dep = Some r \<longrightarrow> ro_revision r \<noteq> k)"
proof -
  note inv = warm_run_inv [OF assms(1)]
  from retired_run [OF inv assms(2)] assms(3)
  have r: "retired (fst s') k \<and> admissions_of (fst s') k \<le> admissions_of (fst s) k" by simp
  moreover from warm_inv_run [OF inv] assms(3) have "warm_inv cd (fst s')" by simp
  ultimately show ?thesis using not_routed by blast
qed

theorem retirement_is_final_witness:
  "retired (fst (warm_run demo_warm_codec demo_warm demo_control [W_admit ''x'' ''d''] demo_retired)) ''a''"
  using retirement_is_final [OF demo_retired_reachable demo_retired_eval(1) refl] by blast

text \<open>C13: A drain receipt in a reachable store is irrevocable and true forever: in every later
  state it is still there unchanged, its revision is retired, routed nowhere, and not a single
  admission of it is pinned.\<close>

theorem drain_receipt_is_final:
  assumes "s = warm_run cd h ch before (new_warm_db i pooled, c)"
    and "lookup (w_receipts (fst s)) k = Some rc" and "s' = warm_run cd h ch after s"
  shows "lookup (w_receipts (fst s')) k = Some rc \<and> retired (fst s') k \<and>
     admissions_of (fst s') k = 0 \<and>
     (\<forall>dep r. lookup (w_routes (fst s')) dep = Some r \<longrightarrow> ro_revision r \<noteq> k)"
proof -
  note inv = warm_run_inv [OF assms(1)]
  from receipt_run [OF inv assms(2)] assms(3) have rc: "lookup (w_receipts (fst s')) k = Some rc" by simp
  from warm_inv_run [OF inv] assms(3) have inv': "warm_inv cd (fst s')" by simp
  from warm_invD(11) [OF inv' rc] not_routed [OF inv'] rc show ?thesis by blast
qed

theorem drain_receipt_is_final_witness:
  "\<exists>rc. lookup (w_receipts (fst demo_retired)) ''a'' = Some rc \<and>
     lookup (w_receipts (fst (warm_run demo_warm_codec demo_warm demo_control [W_admit ''x'' ''d''] demo_retired)))
       ''a'' = Some rc"
proof -
  obtain rc where rc: "lookup (w_receipts (fst demo_retired)) ''a'' = Some rc"
    using demo_retired_eval(2) by blast
  from drain_receipt_is_final [OF demo_retired_reachable rc refl] rc show ?thesis by blast
qed

text \<open>C14: In every reachable store the recorded history of a deployment carries the generations
  0, 1, 2, ... without gap, its last entry is the current route, and that route names a
  registered backend by its digest.\<close>

theorem route_history_is_complete:
  assumes "s = warm_run cd h ch ops (new_warm_db i pooled, c)"
    and "route_history h dep (fst s) = (Inr rs, db')"
  shows "map ro_generation rs = [0..<length rs] \<and>
     lookup (w_routes (fst s)) dep = (if rs = [] then None else Some (last rs)) \<and>
     (\<forall>r. lookup (w_routes (fst s)) dep = Some r \<longrightarrow> (\<exists>u b. 
        lookup (w_backends (fst s)) (ro_revision r) = Some (u, b) \<and>
        ro_digest r = revision_digest cd (wb_revision b)))"
proof -
  note inv = warm_run_inv [OF assms(1)]
  from assms(2) have "rs = dep_events (fst s) dep"
    by (auto simp: route_history_def warm_txn_Inr dep_events_def)
  with warm_invD(5) [OF inv, of dep] warm_invD(6) [OF inv, of dep] show ?thesis
    by (auto simp: history_ok_def route_ok_def)
qed

theorem route_history_is_complete_witness:
  "\<exists>rs db. route_history demo_warm ''d'' (fst demo_traffic) = (Inr rs, db) \<and>
     map ro_generation rs = [0..<length rs]"
proof -
  obtain rs db where r: "route_history demo_warm ''d'' (fst demo_traffic) = (Inr rs, db)"
    using demo_traffic_eval(3) by (metis is_okE prod.collapse)
  from route_history_is_complete [OF demo_reachable r] r show ?thesis by blast
qed

text \<open>In every reachable store no two registered backends share an endpoint, at most 32 are in
  service, and at most 4096 streams are pinned.\<close>

theorem traffic_store_bounded:
  "let db = fst (warm_run cd h ch ops (new_warm_db i pooled, c)) in
     distinct (map (fst \<circ> snd) (w_backends db)) \<and> active_backends db \<le> 32 \<and>
     length (w_admissions db) \<le> 4096"
proof -
  have inv: "warm_inv cd (fst (warm_run cd h ch ops (new_warm_db i pooled, c)))"
    by (rule warm_run_inv [OF refl])
  from warm_invD(1,4,9) [OF inv] show ?thesis by (simp add: Let_def)
qed

subsection \<open>Fenced, replayable cutovers\<close>

text \<open>
  The contract of \<open>DeploymentAdapter.apply\<close>: a refused call changes nothing; an accepted call
  either repeats an earlier one or advances exactly the generation it expected, of its own
  deployment only; and a completed action is remembered and repeated without effect.
\<close>

locale fenced_adapter =
  fixes inv :: "'s \<Rightarrow> bool" and act :: "'q \<Rightarrow> 's \<Rightarrow> 'r res \<times> 's"
    and gen :: "'s \<Rightarrow> string \<Rightarrow> nat option" and dep :: "'q \<Rightarrow> string" and expects :: "'q \<Rightarrow> nat"
  assumes act_inv: "inv s \<Longrightarrow> inv (snd (act q s))"
    and act_refused: "inv s \<Longrightarrow> act q s = (Inl e, s') \<Longrightarrow> s' = s"
    and act_effect: "inv s \<Longrightarrow> act q s = (Inr r, s') \<Longrightarrow> s' \<noteq> s \<Longrightarrow>
      gen s (dep q) = Some (expects q) \<and> gen s' (dep q) = Some (expects q + 1) \<and>
      (\<forall>d. d \<noteq> dep q \<longrightarrow> gen s' d = gen s d)"
begin

fun act_all :: "'q list \<Rightarrow> 's \<Rightarrow> 's" where
  "act_all [] s = s"
| "act_all (q # qs) s = act_all qs (snd (act q s))"

fun effects :: "string \<Rightarrow> 'q list \<Rightarrow> 's \<Rightarrow> 'q list" where
  "effects d [] s = []"
| "effects d (q # qs) s = (if dep q = d \<and> snd (act q s) \<noteq> s then [q] else []) @
     effects d qs (snd (act q s))"

lemma act_all_inv: "inv s \<Longrightarrow> inv (act_all qs s)"
  by (induction qs arbitrary: s) (simp_all add: act_inv)

lemma act_gen:
  assumes "inv s"
  shows "snd (act q s) = s \<or> gen s (dep q) = Some (expects q) \<and>
     gen (snd (act q s)) (dep q) = Some (expects q + 1) \<and>
     (\<forall>d. d \<noteq> dep q \<longrightarrow> gen (snd (act q s)) d = gen s d)"
proof (cases "act q s")
  case (Pair x s')
  then show ?thesis
    using act_refused [OF assms] act_effect [OF assms] by (cases x) auto
qed

text \<open>Every generation is left by exactly one effective call, in order.\<close>

lemma effects_numbered:
  assumes "inv s" and "gen s d = Some g"
  shows "map expects (effects d qs s) = [g..<g + length (effects d qs s)] \<and>
     gen (act_all qs s) d = Some (g + length (effects d qs s))"
  using assms
proof (induction qs arbitrary: s g)
  case (Cons q qs)
  note inv' = act_inv [OF Cons.prems(1), of q]
  show ?case
  proof (cases "dep q = d \<and> snd (act q s) \<noteq> s")
    case True
    with act_gen [OF Cons.prems(1), of q] Cons.prems(2)
    have g: "expects q = g" "gen (snd (act q s)) d = Some (g + 1)" by auto
    have "[g..<g + (1 + n)] = g # [g + 1..<(g + 1) + n]" for n
      by (simp add: upt_conv_Cons)
    with Cons.IH [OF inv' g(2)] g(1) True show ?thesis by simp
  next
    case False
    with act_gen [OF Cons.prems(1), of q] Cons.prems(2)
    have "gen (snd (act q s)) d = Some g" by auto
    with Cons.IH [OF inv' this] False show ?thesis by auto
  qed
qed simp

end

locale replayable_adapter = fenced_adapter inv act gen dep expects
  for inv :: "'s \<Rightarrow> bool" and act :: "'q \<Rightarrow> 's \<Rightarrow> 'r res \<times> 's"
    and gen :: "'s \<Rightarrow> string \<Rightarrow> nat option" and dep :: "'q \<Rightarrow> string" and expects :: "'q \<Rightarrow> nat" +
  fixes completed :: "'s \<Rightarrow> 'q \<Rightarrow> 'r option"
  assumes done_after: "inv s \<Longrightarrow> act q s = (Inr r, s') \<Longrightarrow> completed s' q = Some r"
    and done_kept: "inv s \<Longrightarrow> completed s q = Some r \<Longrightarrow> completed (snd (act q' s)) q = Some r"
    and done_replays: "inv s \<Longrightarrow> completed s q = Some r \<Longrightarrow> act q s = (Inr r, s)"
begin

lemma completed_all: "inv s \<Longrightarrow> completed s q = Some r \<Longrightarrow> completed (act_all qs s) q = Some r"
  by (induction qs arbitrary: s) (simp_all add: act_inv done_kept)

lemma replay_later:
  assumes "inv s" and "act q s = (Inr r, s')"
  shows "act q (act_all qs s') = (Inr r, act_all qs s')"
proof -
  from act_inv [OF assms(1), of q] assms(2) have "inv s'" by simp
  then show ?thesis
    using done_after [OF assms] completed_all act_all_inv done_replays by blast
qed

end

text \<open>The warm route store as such an adapter; a call carries its clock reading.\<close>

definition warm_act ::
  "'z route_codec_scheme \<Rightarrow> warm_handle \<Rightarrow> apply_request \<times> flt \<Rightarrow> warm_db \<Rightarrow> route res \<times> warm_db" where
  "warm_act cd h q db = apply_route cd h (fst q) (snd q) db"

definition route_generation :: "warm_db \<Rightarrow> string \<Rightarrow> nat option" where
  "route_generation db d = map_option ro_generation (lookup (w_routes db) d)"

definition action_done ::
  "'z route_codec_scheme \<Rightarrow> warm_handle \<Rightarrow> warm_db \<Rightarrow> apply_request \<times> flt \<Rightarrow> route option" where
  "action_done cd h db q = (case backend h (revision_id (q_target (fst q))) db of
     (Inr b, _) \<Rightarrow>
       if wb_revision b = q_target (fst q) \<and> q_idempotency_key (fst q) \<noteq> [] then
         (case lookup (w_actions db) (q_idempotency_key (fst q)) of None \<Rightarrow> None
          | Some (fp, r) \<Rightarrow> if fp = apply_fingerprint cd (fst q) then Some r else None)
       else None
   | _ \<Rightarrow> None)"

lemma save_route_frame:
  "save_route cd h r db = Inr db' \<Longrightarrow> w_identity db' = w_identity db \<and>
     w_backends db' = w_backends db \<and> w_retirements db' = w_retirements db \<and>
     w_routes db' = upsert (ro_deployment r) r (w_routes db) \<and> w_actions db' = w_actions db"
  by (auto simp: save_route_def advance_pool_def Let_def split: if_splits)

lemma backend_frame:
  assumes "w_identity db' = w_identity db" "w_backends db' = w_backends db"
    "w_retirements db' = w_retirements db"
  shows "fst (backend h k db') = fst (backend h k db)"
  using assms
  by (simp add: backend_def warm_txn_def atomically_def backend_body_def require_available_def
      retired_def split: sum.splits option.splits)

lemma action_done_iff:
  "action_done cd h db q = Some r \<longleftrightarrow> (\<exists>b. fst (backend h (revision_id (q_target (fst q))) db) = Inr b \<and>
     wb_revision b = q_target (fst q)) \<and> q_idempotency_key (fst q) \<noteq> [] \<and>
     lookup (w_actions db) (q_idempotency_key (fst q)) = Some (apply_fingerprint cd (fst q), r)"
  by (auto simp: action_done_def split: prod.splits sum.splits option.splits if_splits)

text \<open>An accepted call, in terms of the tables.\<close>

lemma warm_act_Inr:
  assumes "warm_act cd h q db = (Inr r, db')"
  obtains (replayed) "db' = db" "action_done cd h db q = Some r"
  | (cutover) current where
      "lookup (w_routes db) (q_deployment_id (fst q)) = Some current"
      "ro_generation current = q_expected_generation (fst q)"
      "lookup (w_actions db) (q_idempotency_key (fst q)) = None"
      "action_done cd h db' q = Some r"
      "w_routes db' = upsert (ro_deployment current) r (w_routes db)"
      "ro_generation r = ro_generation current + 1" "ro_deployment r = ro_deployment current"
      "w_actions db' = w_actions db @ [(q_idempotency_key (fst q), apply_fingerprint cd (fst q), r)]"
      "w_identity db' = w_identity db" "w_backends db' = w_backends db"
      "w_retirements db' = w_retirements db"
proof -
  let ?q = "fst q" and ?k = "revision_id (q_target (fst q))"
  from assms have ap: "apply_route cd h ?q (snd q) db = (Inr r, db')" by (simp add: warm_act_def)
  obtain b where b: "fst (backend h ?k db) = Inr b" "wb_revision b = q_target ?q"
    "q_idempotency_key ?q \<noteq> []" "apply_body cd h b ?q (snd q) db = Inr (r, db')"
  proof -
    obtain x db1 where x: "backend h ?k db = (x, db1)" by (cases "backend h ?k db")
    then have "db1 = db" using backend_keeps [of h ?k db] by simp
    with ap x that show thesis
      by (cases x) (auto simp: apply_route_def seq_def raise_def warm_txn_Inr split: if_splits)
  qed
  from b(4) show thesis
  proof (cases rule: apply_body_Inr)
    case replayed
    with b(1-3) that(1) show thesis by (auto simp: action_done_iff)
  next
    case (cutover current db1)
    note f = save_route_frame [OF cutover(9)]
    have same: "w_identity db' = w_identity db" "w_backends db' = w_backends db"
      "w_retirements db' = w_retirements db"
      "w_routes db' = upsert (ro_deployment current) r (w_routes db)"
      "w_actions db' = w_actions db @ [(q_idempotency_key ?q, apply_fingerprint cd ?q, r)]"
      using cutover(5,10) f by simp_all
    have "action_done cd h db' q = Some r"
      using b(1-3) backend_frame [OF same(1-3), of h ?k] cutover(1) same(5)
      by (auto simp: action_done_iff lookup_append_new simp del: map_of_append)
    with that(2) cutover same show thesis by auto
  qed
qed

interpretation warm: fenced_adapter routes_keyed "warm_act (cd :: route_codec) h" route_generation
  "\<lambda>q. q_deployment_id (fst q)" "\<lambda>q. q_expected_generation (fst q)"
proof
  fix s :: warm_db and q :: "apply_request \<times> flt" assume k: "routes_keyed s"
  show "routes_keyed (snd (warm_act cd h q s))"
  proof (cases "warm_act cd h q s")
    case (Pair x s')
    show ?thesis
    proof (cases x)
      case (Inl e)
      with Pair have "s' = s" using apply_route_Inl by (simp add: warm_act_def) blast
      with Pair k show ?thesis by simp
    next
      case (Inr r)
      from Pair [unfolded Inr] show ?thesis
      proof (cases rule: warm_act_Inr)
        case (cutover current)
        with k Pair cutover show ?thesis by (auto simp: routes_keyed_def tbl)
      qed (use Pair k in simp)
    qed
  qed
next
  fix s s' :: warm_db and q e assume "warm_act cd h q s = (Inl e, s')"
  then show "s' = s" using apply_route_Inl by (simp add: warm_act_def) blast
next
  fix s s' :: warm_db and q r
  assume k: "routes_keyed s" and a: "warm_act cd h q s = (Inr r, s')" and d: "s' \<noteq> s"
  from a show "route_generation s (q_deployment_id (fst q)) = Some (q_expected_generation (fst q)) \<and>
      route_generation s' (q_deployment_id (fst q)) = Some (q_expected_generation (fst q) + 1) \<and>
      (\<forall>d. d \<noteq> q_deployment_id (fst q) \<longrightarrow> route_generation s' d = route_generation s d)"
  proof (cases rule: warm_act_Inr)
    case (cutover current)
    with k show ?thesis by (simp add: route_generation_def routes_keyed_def tbl)
  qed (use d in simp)
qed

lemma warm_act_done_kept:
  assumes "action_done cd h s q = Some r"
  shows "action_done cd h (snd (warm_act cd h q' s)) q = Some r"
proof (cases "warm_act cd h q' s")
  case (Pair x s')
  show ?thesis
  proof (cases x)
    case (Inl e)
    with Pair have "s' = s" using apply_route_Inl by (simp add: warm_act_def) blast
    with Pair assms show ?thesis by simp
  next
    case (Inr r')
    from Pair [unfolded Inr] show ?thesis
    proof (cases rule: warm_act_Inr)
      case replayed
      with Pair assms show ?thesis by simp
    next
      case (cutover current)
      then show ?thesis
        using assms Pair backend_frame [OF cutover(9-11), of h "revision_id (q_target (fst q))"]
        by (auto simp: action_done_iff lookup_append_new simp del: map_of_append)
    qed
  qed
qed

lemma warm_act_replays:
  assumes "action_done cd h s q = Some r"
  shows "warm_act cd h q s = (Inr r, s)"
proof -
  let ?k = "revision_id (q_target (fst q))"
  from assms obtain b where b: "fst (backend h ?k s) = Inr b" "wb_revision b = q_target (fst q)"
    "q_idempotency_key (fst q) \<noteq> []"
    "lookup (w_actions s) (q_idempotency_key (fst q)) = Some (apply_fingerprint cd (fst q), r)"
    by (auto simp: action_done_iff)
  then have bk: "backend h ?k s = (Inr b, s)" using backend_keeps [of h ?k s] by (metis prod.collapse)
  then have "\<not> retired s ?k" "\<exists>u. verify_identity (w_identity s) (wh_identity h) = Inr u"
    using backend_Inr by (auto simp: backend_def warm_txn_Inr)
  with b bk show ?thesis
    by (auto simp: warm_act_def apply_route_def seq_def warm_txn_def atomically_def apply_body_def
        require_available_def)
qed

interpretation replay: replayable_adapter routes_keyed "warm_act (cd :: route_codec) h" route_generation
  "\<lambda>q. q_deployment_id (fst q)" "\<lambda>q. q_expected_generation (fst q)" "action_done cd h"
proof
  fix s s' :: warm_db and q r assume "warm_act cd h q s = (Inr r, s')"
  then show "action_done cd h s' q = Some r" by (cases rule: warm_act_Inr) auto
qed (rule warm_act_done_kept warm_act_replays, assumption)+

text \<open>The requests of any controllers, in the order in which the store serves them.\<close>

fun apply_all :: "route_codec \<Rightarrow> warm_handle \<Rightarrow> (apply_request \<times> flt) list \<Rightarrow> warm_db \<Rightarrow> warm_db" where
  "apply_all cd h [] db = db"
| "apply_all cd h (q # qs) db = apply_all cd h qs (snd (apply_route cd h (fst q) (snd q) db))"

text \<open>The requests among them that change the route of a deployment.\<close>

fun effective_cutovers ::
  "route_codec \<Rightarrow> warm_handle \<Rightarrow> string \<Rightarrow> (apply_request \<times> flt) list \<Rightarrow> warm_db \<Rightarrow>
   (apply_request \<times> flt) list" where
  "effective_cutovers cd h d [] db = []"
| "effective_cutovers cd h d (q # qs) db =
     (let db' = snd (apply_route cd h (fst q) (snd q) db) in
      (if q_deployment_id (fst q) = d \<and> db' \<noteq> db then [q] else []) @ effective_cutovers cd h d qs db')"

lemma apply_all_eq: "warm.act_all cd h qs db = apply_all cd h qs db"
  by (induction qs arbitrary: db) (simp_all add: warm_act_def)

lemma effective_cutovers_eq: "warm.effects cd h d qs db = effective_cutovers cd h d qs db"
  by (induction qs arbitrary: db) (simp_all add: warm_act_def Let_def)

text \<open>C15: Whatever requests promotion and rollback controllers send to a reachable store, the
  requests that take effect on a deployment expect exactly its consecutive generations, one
  winner each, and the route ends at the generation they add up to.\<close>

theorem one_cutover_per_generation:
  assumes "s = warm_run cd h ch ops (new_warm_db i pooled, c)"
    and "route_generation (fst s) d = Some g"
  shows "map (\<lambda>q. q_expected_generation (fst q)) (effective_cutovers cd h d qs (fst s)) =
      [g..<g + length (effective_cutovers cd h d qs (fst s))] \<and>
    route_generation (apply_all cd h qs (fst s)) d =
      Some (g + length (effective_cutovers cd h d qs (fst s)))"
  using warm.effects_numbered [OF warm_inv_keyed [OF warm_run_inv [OF assms(1)]] assms(2)]
  by (simp add: apply_all_eq effective_cutovers_eq)

theorem one_cutover_per_generation_witness:
  "route_generation (fst demo_traffic) ''d'' = Some 0 \<and>
     route_generation (apply_all demo_warm_codec demo_warm [(demo_cutover, 2), (demo_cutover, 3)]
        (fst demo_traffic)) ''d'' =
     Some (0 + length (effective_cutovers demo_warm_codec demo_warm ''d''
        [(demo_cutover, 2), (demo_cutover, 3)] (fst demo_traffic)))"
proof -
  have "route_generation (fst demo_traffic) ''d'' = Some 0"
    by (simp add: route_generation_def demo_traffic_eval(1))
  from one_cutover_per_generation [OF demo_reachable this] this show ?thesis by blast
qed

text \<open>An accepted cutover can be replayed: after any further cutovers the same request returns
  the same route and changes nothing.\<close>

theorem cutover_replay_is_inert:
  assumes "s = warm_run cd h ch ops (new_warm_db i pooled, c)"
    and "apply_route cd h q now (fst s) = (Inr r, db')"
  shows "apply_route cd h q now (apply_all cd h qs db') = (Inr r, apply_all cd h qs db')"
proof -
  have "warm_act cd h (q, now) (fst s) = (Inr r, db')" using assms(2) by (simp add: warm_act_def)
  from replay.replay_later [OF warm_inv_keyed [OF warm_run_inv [OF assms(1)]] this]
  show ?thesis by (simp add: apply_all_eq warm_act_def)
qed

theorem cutover_replay_is_inert_witness:
  "\<exists>r db. apply_route demo_warm_codec demo_warm demo_cutover 2 (fst demo_traffic) = (Inr r, db) \<and>
     apply_route demo_warm_codec demo_warm demo_cutover 2 (apply_all demo_warm_codec demo_warm [] db) =
       (Inr r, apply_all demo_warm_codec demo_warm [] db)"
proof -
  obtain r db where r: "apply_route demo_warm_codec demo_warm demo_cutover 2 (fst demo_traffic) = (Inr r, db)"
    using demo_traffic_eval(2) by (metis is_okE prod.collapse)
  from cutover_replay_is_inert [OF demo_reachable r] r show ?thesis by blast
qed

subsection \<open>Obligations and acknowledgments\<close>

text \<open>C16: A pinned stream of a reachable store stays pinned to the same route and backend through
  any calls of any processes, until a call finishes exactly that admission; and finishing
  succeeds only for a lease whose started responses are all closed.\<close>

theorem pinned_until_finished:
  assumes "s = warm_run cd h ch before (new_warm_db i pooled, c)"
    and "lookup (w_admissions (fst s)) k = Some (rid, p)"
    and "\<forall>l. W_finish l \<in> set after \<longrightarrow> al_id l \<noteq> k"
    and "s' = warm_run cd h ch after s"
  shows "(\<exists>p'. lookup (w_admissions (fst s')) k = Some (rid, p') \<and>
       ap_route p' = ap_route p \<and> ap_backend p' = ap_backend p) \<and>
     (\<forall>l. al_id l = k \<longrightarrow> is_ok (fst (finish_admission h l (fst s'))) \<longrightarrow>
        al_started l = al_closed l \<and> al_route l = ap_route p)"
proof -
  from pin_stays_run [OF warm_run_inv [OF assms(1)] assms(2,3)] assms(4) obtain p' where
    p': "lookup (w_admissions (fst s')) k = Some (rid, p')" "ap_route p' = ap_route p"
      "ap_backend p' = ap_backend p" by blast
  have "ap_route (admission_payload l) = al_route l" for l by (simp add: admission_payload_def)
  then have "al_started l = al_closed l \<and> al_route l = ap_route p"
    if "al_id l = k" "is_ok (fst (finish_admission h l (fst s')))" for l
    using that p'
    by (auto simp: finish_admission_def verified_closed_def warm_txn_def atomically_def
        holds_admission_iff split: if_splits sum.splits)
  with p' show ?thesis by blast
qed

definition demo_pinned :: stores where
  "demo_pinned = warm_run demo_warm_codec demo_warm demo_control [W_admit ''x'' ''d''] demo_traffic"

lemma demo_pinned_reachable:
  "demo_pinned = warm_run demo_warm_codec demo_warm demo_control (demo_ops @ [W_admit ''x'' ''d''])
     (new_warm_db demo_identity False, empty_control demo_identity)"
  unfolding demo_pinned_def warm_run_append demo_reachable [symmetric] ..

lemma demo_pinned_eval: "\<exists>p. lookup (w_admissions (fst demo_pinned)) ''x'' = Some (''a'', p)"
  by (simp add: demo_pinned_def demo_traffic_def demo_ops_def demo_warm_defs warm_eval)

theorem pinned_until_finished_witness:
  "\<exists>p'. lookup (w_admissions (fst (warm_run demo_warm_codec demo_warm demo_control
     [W_apply demo_cutover 2] demo_pinned))) ''x'' = Some (''a'', p')"
proof -
  obtain p where p: "lookup (w_admissions (fst demo_pinned)) ''x'' = Some (''a'', p)"
    using demo_pinned_eval by blast
  have "\<forall>l. W_finish l \<in> set [W_apply demo_cutover 2] \<longrightarrow> al_id l \<noteq> ''x''" by simp
  from pinned_until_finished [OF demo_pinned_reachable p this refl] show ?thesis by blast
qed

text \<open>A serving admission chosen from the pool goes to a member that was available, below its
  limit and least loaded (then first by ID) among the members of the unchanged current
  route, and leaves that member within its limit; a refusal means every member was full.\<close>

theorem pool_selection_is_bounded:
  assumes "select_body cd h fid expected request None db = Inr (found, db')"
  shows "case found of
      None \<Rightarrow> \<forall>rid \<in> set (pool_candidates db expected Serving).
        member_limit db expected \<le> admissions_of db rid
    | Some l \<Rightarrow> let rid = ro_revision (al_route l) in
        lookup (w_routes db) (ro_deployment expected) = Some expected \<and>
        rid \<in> set (pool_candidates db expected Serving) \<and> \<not> retired db rid \<and>
        admissions_of db' rid \<le> member_limit db expected \<and>
        (\<forall>m \<in> set (pool_candidates db expected Serving).
           (admissions_of db rid, rid) \<le> (admissions_of db m, m))"
  using assms
proof (cases rule: select_body_Inr)
  case refused
  then show ?thesis by (auto simp: pool_loads_def filter_empty_conv not_less)
next
  case (chosen l db1 rid u b)
  let ?ls = "pool_loads db expected Serving"
  have best: "min_by (\<lambda>x. x) ?ls = (admissions_of db rid, rid)"
    using chosen(3) chosen_available(3) [OF chosen(4,5)] by (simp add: prod_eq_iff)
  have mem: "(admissions_of db rid, rid) \<in> set ?ls"
    using min_by_mem [of ?ls "\<lambda>x. x"] chosen(4) best by simp
  then have lim: "admissions_of db rid < member_limit db expected"
    and cand: "rid \<in> set (pool_candidates db expected Serving)"
    by (auto simp: pool_loads_def)
  note ins = insert_admission_Inr [OF chosen(7)]
  have rid: "ro_revision (al_route l) = rid" using ins(5) by simp
  have "admissions_of db' rid \<le> admissions_of db rid + 1"
    using ins(3) chosen(9) by (simp add: admissions_of_def)
  with lim have fits: "admissions_of db' rid \<le> member_limit db expected" by linarith
  have least: "(admissions_of db rid, rid) \<le> (admissions_of db m, m)"
    if "m \<in> set (pool_candidates db expected Serving)" for m
  proof (cases "admissions_of db m < member_limit db expected")
    case True
    with that have "(admissions_of db m, m) \<in> set ?ls" by (simp add: pool_loads_def)
    from min_by_le [OF this, of "\<lambda>x. x"] best show ?thesis by simp
  next
    case False
    with lim show ?thesis by simp
  qed
  have "\<not> retired db rid" using chosen(5) cand by (auto simp: list_all_iff)
  moreover have "lookup (w_routes db) (ro_deployment expected) = Some expected"
    using chosen(2) by (simp add: current_route_def split: option.splits)
  ultimately show ?thesis using chosen(1) rid fits least cand by (simp add: Let_def)
qed

definition demo_pool_db :: warm_db where
  "demo_pool_db = fst (warm_run demo_warm_codec demo_pooled demo_control demo_ops
     (new_warm_db demo_identity True, empty_control demo_identity))"

definition demo_pool_route :: route where
  "demo_pool_route = \<lparr>ro_deployment = ''d'', ro_revision = ''a'', ro_digest = ''a'', ro_generation = 0,
        ro_changed_at = 1, ro_durable = True, ro_pooled = True\<rparr>"

lemma demo_pool_eval:
  "\<exists>l db. select_body demo_warm_codec demo_pooled ''x'' demo_pool_route ''r'' None demo_pool_db = Inr (Some l, db)"
  by (simp add: demo_pool_db_def demo_pool_route_def demo_ops_def demo_warm_defs warm_eval
      select_body_def pool_loads_def pool_candidates_def authorized_plan_def member_limit_def
      advance_pool_def min_by_def)

theorem pool_selection_is_bounded_witness:
  "\<exists>l db. select_body demo_warm_codec demo_pooled ''x'' demo_pool_route ''r'' None demo_pool_db = Inr (Some l, db) \<and>
     admissions_of db (ro_revision (al_route l)) \<le> member_limit demo_pool_db demo_pool_route"
proof -
  obtain l db where
    r: "select_body demo_warm_codec demo_pooled ''x'' demo_pool_route ''r'' None demo_pool_db = Inr (Some l, db)"
    using demo_pool_eval by blast
  from pool_selection_is_bounded [OF r] r show ?thesis by (auto simp: Let_def)
qed

text \<open>What a successful acknowledgment establishes, for the stages that rest on it.\<close>

lemma acknowledged_route:
  assumes "acknowledge_candidate cd h ch q dec hl s = (Inr d, s')"
  shows "fst s' = fst s \<and> (\<exists>r fp. lookup (w_routes (fst s)) (q_deployment_id q) = Some r \<and>
     lookup (w_actions (fst s)) (q_idempotency_key q) = Some (fp, r) \<and>
     lookup (c_deployments (snd s')) (q_deployment_id q) = Some d \<and>
     d_generation d = ro_generation r \<and> d_active_revision d = ro_revision r \<and>
     ro_revision r = revision_id (q_target q) \<and> ro_generation r = q_expected_generation q + 1 \<and>
     approved dec \<and> verifies cd hl (q_target q))"
proof -
  let ?dep = "q_deployment_id q" and ?me = "ch_identity ch"
  from assms obtain r where r: "verified_action cd q dec hl (fst s) = Inr r" "fst s' = fst s"
    and run: "seq (deployment ?me ?dep) (\<lambda>current.
       if d_rollback_id current \<noteq> None \<or>
          (d_generation current, d_active_revision current) \<notin>
            {(q_expected_generation q, q_expected_revision q), (ro_generation r, ro_revision r)}
       then raise (ControlConflict ''activation acknowledgment differs from controller generation'')
       else seq (activate_candidate cd ?me ?dep (q_expected_generation q) dec hl) (\<lambda>updated.
         if d_generation updated \<noteq> ro_generation r \<or> d_active_revision updated \<noteq> ro_revision r
         then raise (ControlConflict ''activation acknowledgment no longer names current traffic'')
         else return updated)) (snd s) = (Inr d, snd s')"
    by (auto simp: acknowledge_candidate_def under_route_def split: if_splits sum.splits prod.splits)
  from run obtain c1 where act:
    "activate_candidate cd ?me ?dep (q_expected_generation q) dec hl c1 = (Inr d, snd s')"
    "d_generation d = ro_generation r" "d_active_revision d = ro_revision r"
    by (auto simp: seq_def raise_def return_def split: prod.splits sum.splits if_splits)
  from act(1) obtain c2 where body:
    "activate_body cd ?dep (q_expected_generation q) dec hl c2 = Inr (d, snd s')"
    by (auto simp: activate_candidate_def seq_def control_txn_Inr split: prod.splits sum.splits)
  have "lookup (c_deployments (snd s')) ?dep = Some d"
    using body by (cases rule: activate_body_cases) (auto simp: tbl)
  moreover have "approved dec"
    using body by (auto simp: activate_body_def split: sum.splits if_splits)
  ultimately have "lookup (c_deployments (snd s')) ?dep = Some d \<and> approved dec" by simp
  with act r show ?thesis
    by (auto simp: verified_action_def current_route_def split: sum.splits option.splits if_splits)
qed

text \<open>A successful acknowledgment of a cutover leaves the routes alone and the controller at
  the current route's generation and revision, which are the ones the persisted action names;
  the decision was approved and the health evidence is of that revision.\<close>

theorem acknowledgment_agrees:
  assumes "acknowledge_candidate cd h ch q dec hl s = (Inr d, s')"
  shows "fst s' = fst s \<and> (\<exists>r fp. lookup (w_routes (fst s)) (q_deployment_id q) = Some r \<and>
     lookup (w_actions (fst s)) (q_idempotency_key q) = Some (fp, r) \<and>
     lookup (c_deployments (snd s')) (q_deployment_id q) = Some d \<and>
     d_generation d = ro_generation r \<and> d_active_revision d = ro_revision r \<and>
     ro_revision r = revision_id (q_target q) \<and> ro_generation r = q_expected_generation q + 1 \<and>
     approved dec \<and> verifies cd hl (q_target q))"
  using acknowledged_route [OF assms] .

definition demo_ready :: stores where
  "demo_ready = warm_run demo_warm_codec demo_warm demo_control
     [W_apply demo_cutover 2, W_control (T_register (demo_revision ''a'')),
      W_control (T_register (demo_revision ''b'')), W_control (T_bootstrap ''d'' ''a'' (demo_health ''a''))]
     demo_traffic"

lemma demo_ready_eval:
  "is_ok (fst (acknowledge_candidate demo_warm_codec demo_warm demo_control demo_cutover
     (demo_decision ''b'') (demo_health ''b'') demo_ready))"
  by (simp add: demo_ready_def demo_traffic_def demo_ops_def demo_warm_defs warm_eval demo_health_def
      demo_decision_def acknowledge_candidate_def under_route_def verified_action_def verifies_def
      deployment_def control_txn_def load_record_def activate_candidate_def record_decision_def
      activate_body_def approved_def activation_key_def decision_digest_def register_revision_def
      bootstrap_def bootstrap_body_def empty_control_def raise_def return_def)

theorem acknowledgment_agrees_witness:
  "\<exists>d s'. acknowledge_candidate demo_warm_codec demo_warm demo_control demo_cutover
     (demo_decision ''b'') (demo_health ''b'') demo_ready = (Inr d, s') \<and> fst s' = fst demo_ready"
proof -
  obtain d s' where r: "acknowledge_candidate demo_warm_codec demo_warm demo_control demo_cutover
     (demo_decision ''b'') (demo_health ''b'') demo_ready = (Inr d, s')"
    using demo_ready_eval by (metis is_okE prod.collapse)
  from acknowledgment_agrees [OF r] r show ?thesis by blast
qed

end
