(* ===== verification/Json.thy ===== *)
theory Json
  imports WarmGuarantees
begin

text \<open>
  Decoded JSON values as \<open>json.loads\<close> returns them.  The parser itself is a parameter of
  the definitions that decode text; it delivers every object as its list of pairs, and the
  \<open>object_pairs_hook\<close> of the caller runs on each of them, innermost first.  Text is over the
  first 256 code points.
\<close>

datatype json =
    JNull | JBool bool | JInt int | JFloat flt | JNonFinite string | JStr string
  | JArr "json list" | JObj "(string \<times> json) list"

type_synonym json_parser = "string \<Rightarrow> json res"
type_synonym pairs_hook = "(string \<times> json) list \<Rightarrow> (string \<times> json) list res"

fun hooked :: "pairs_hook \<Rightarrow> json \<Rightarrow> json res"
  and hooked_list :: "pairs_hook \<Rightarrow> json list \<Rightarrow> json list res"
  and hooked_pairs :: "pairs_hook \<Rightarrow> (string \<times> json) list \<Rightarrow> (string \<times> json) list res" where
  "hooked h (JArr xs) = bind_res (hooked_list h xs) (\<lambda>ys. Inr (JArr ys))"
| "hooked h (JObj ps) = bind_res (hooked_pairs h ps) (\<lambda>qs. bind_res (h qs) (\<lambda>rs. Inr (JObj rs)))"
| "hooked h v = Inr v"
| "hooked_list h [] = Inr []"
| "hooked_list h (x # xs) = bind_res (hooked h x) (\<lambda>y. bind_res (hooked_list h xs) (\<lambda>ys. Inr (y # ys)))"
| "hooked_pairs h [] = Inr []"
| "hooked_pairs h ((k, x) # ps) =
     bind_res (hooked h x) (\<lambda>y. bind_res (hooked_pairs h ps) (\<lambda>qs. Inr ((k, y) # qs)))"

definition loads :: "json_parser \<Rightarrow> pairs_hook \<Rightarrow> json_parser" where
  "loads parse hook text = bind_res (parse text) (hooked hook)"

text \<open>The loop both hooks of the program share: a repeated name is an error, otherwise the
  dictionary has the pairs in their order.\<close>

fun collect_unique :: "string \<Rightarrow> (string \<times> json) list \<Rightarrow> (string \<times> json) list
    \<Rightarrow> (string \<times> json) list res" where
  "collect_unique m result [] = Inr result"
| "collect_unique m result ((name, v) # pairs) =
     (if lookup result name \<noteq> None then Inl (ValueError m)
      else collect_unique m (result @ [(name, v)]) pairs)"

lemma collect_unique_Inr:
  "unique_keys result \<Longrightarrow> collect_unique m result pairs = Inr d \<longleftrightarrow>
     d = result @ pairs \<and> unique_keys (result @ pairs)"
proof (induction pairs arbitrary: result)
  case (Cons p pairs)
  obtain name v where p: "p = (name, v)" by (cases p)
  show ?case
  proof (cases "lookup result name")
    case None
    then have u: "unique_keys (result @ [(name, v)])" using Cons.prems by (simp add: unique_keys_append_new)
    show ?thesis using Cons.IH [OF u] None by (simp add: p)
  next
    case (Some w)
    then have "name \<in> set (map fst result)" by (auto dest!: lookup_mem intro: rev_image_eqI)
    then have "\<not> unique_keys (result @ p # pairs)" by (auto simp: unique_keys_def p)
    with Some show ?thesis by (simp add: p)
  qed
qed auto

lemma collect_unique_error: "collect_unique m result pairs = Inl e \<Longrightarrow> e = ValueError m"
  by (induction m result pairs rule: collect_unique.induct) (auto split: if_splits)

text \<open>A dictionary's field.\<close>

definition json_get :: "(string \<times> json) list \<Rightarrow> string \<Rightarrow> json" where
  "json_get d k = (case lookup d k of Some v \<Rightarrow> v | None \<Rightarrow> JNull)"

text \<open>The number of bytes of \<open>text.encode("utf-8")\<close> for the code points modelled.\<close>

definition utf8_width :: "char \<Rightarrow> nat" where
  "utf8_width c = (if (of_char c :: nat) < 128 then 1 else 2)"

definition utf8_length :: "string \<Rightarrow> nat" where
  "utf8_length s = sum_list (map utf8_width s)"

lemma utf8_length_append [simp]: "utf8_length (u @ v) = utf8_length u + utf8_length v"
  by (simp add: utf8_length_def)

lemma utf8_length_Nil [simp]: "utf8_length [] = 0"
  by (simp add: utf8_length_def)

lemma utf8_length_le: "utf8_length s \<le> 2 * length s"
  by (induction s) (auto simp: utf8_length_def utf8_width_def)

lemma utf8_length_ge: "length s \<le> utf8_length s"
  by (induction s) (auto simp: utf8_length_def utf8_width_def)

end
