(* ===== verification/OutputConstraint.thy ===== *)
theory OutputConstraint
  imports Json
begin

text \<open>
  Caller-selected output shapes (\<open>contracts/output_constraint.py\<close>).  The regular expressions
  the module builds are values of a small datatype with the meaning of Python's \<open>re\<close>, and
  \<open>re.fullmatch\<close> is a matcher that is proved to decide that meaning.  \<open>json.loads\<close> is a
  parameter.
\<close>

subsection \<open>Regular expressions\<close>

text \<open>A character class, a sequence, an alternative and \<open>r{lo,hi}\<close>; a literal is a sequence.\<close>

datatype re = Class "char list" | Eps | Cat re re | Or re re | Repeat nat nat re

fun lang :: "re \<Rightarrow> string set" where
  "lang (Class cs) = {[c] | c. c \<in> set cs}"
| "lang Eps = {[]}"
| "lang (Cat r s) = {u @ v | u v. u \<in> lang r \<and> v \<in> lang s}"
| "lang (Or r s) = lang r \<union> lang s"
| "lang (Repeat lo hi r) =
     {concat ws | ws. lo \<le> length ws \<and> length ws \<le> hi \<and> set ws \<subseteq> lang r}"

text \<open>The matcher used here: the remainders after a match of a prefix, \<open>re.fullmatch\<close> being a
  match without remainder.  Repetition of a class is all the patterns need.\<close>

fun spans :: "nat \<Rightarrow> nat \<Rightarrow> char list \<Rightarrow> string \<Rightarrow> string list" where
  "spans lo hi cs [] = (if lo = 0 then [[]] else [])"
| "spans lo hi cs (c # v) = (if lo = 0 then [c # v] else []) @
     (if 0 < hi \<and> c \<in> set cs then spans (lo - 1) (hi - 1) cs v else [])"

fun rests :: "re \<Rightarrow> string \<Rightarrow> string list" where
  "rests (Class cs) w = (case w of [] \<Rightarrow> [] | c # v \<Rightarrow> if c \<in> set cs then [v] else [])"
| "rests Eps w = [w]"
| "rests (Cat r s) w = concat (map (rests s) (rests r w))"
| "rests (Or r s) w = rests r w @ rests s w"
| "rests (Repeat lo hi (Class cs)) w = spans lo hi cs w"
| "rests (Repeat lo hi r) w = []"

fun simple :: "re \<Rightarrow> bool" where
  "simple (Class cs) = True" | "simple Eps = True"
| "simple (Cat r s) \<longleftrightarrow> simple r \<and> simple s" | "simple (Or r s) \<longleftrightarrow> simple r \<and> simple s"
| "simple (Repeat lo hi (Class cs)) = True" | "simple (Repeat lo hi r) = False"

definition fullmatch :: "re \<Rightarrow> string \<Rightarrow> bool" where
  "fullmatch r w \<longleftrightarrow> [] \<in> set (rests r w)"

definition run_of :: "nat \<Rightarrow> nat \<Rightarrow> char list \<Rightarrow> string \<Rightarrow> bool" where
  "run_of lo hi cs w \<longleftrightarrow> lo \<le> length w \<and> length w \<le> hi \<and> set w \<subseteq> set cs"

lemma run_of_Cons:
  "run_of lo hi cs (c # u) \<longleftrightarrow> 0 < hi \<and> c \<in> set cs \<and> run_of (lo - 1) (hi - 1) cs u"
  by (cases hi) (auto simp: run_of_def)

lemma set_spans: "v \<in> set (spans lo hi cs w) \<longleftrightarrow> (\<exists>u. w = u @ v \<and> run_of lo hi cs u)"
proof (induction w arbitrary: lo hi)
  case Nil
  then show ?case by (auto simp: run_of_def)
next
  case (Cons c w)
  have "(\<exists>u. c # w = u @ v \<and> run_of lo hi cs u) \<longleftrightarrow>
      (lo = 0 \<and> v = c # w) \<or> (\<exists>u. w = u @ v \<and> run_of lo hi cs (c # u))"
    by (auto simp: Cons_eq_append_conv run_of_def)
  then show ?case using Cons.IH [of "lo - 1" "hi - 1"] by (auto simp: run_of_Cons)
qed

text \<open>The matcher decides the language.\<close>

lemma class_words: "set ws \<subseteq> lang (Class cs) \<Longrightarrow> length (concat ws) = length ws \<and> set (concat ws) \<subseteq> set cs"
  by (induction ws) auto

lemma lang_class_repeat: "lang (Repeat lo hi (Class cs)) = {w. run_of lo hi cs w}"
proof (intro set_eqI iffI)
  fix w assume "w \<in> lang (Repeat lo hi (Class cs))"
  then obtain ws where ws: "w = concat ws" "lo \<le> length ws" "length ws \<le> hi"
    "set ws \<subseteq> lang (Class cs)" by (simp only: lang.simps) blast
  with class_words [OF ws(4)] show "w \<in> {w. run_of lo hi cs w}" by (simp add: run_of_def)
next
  fix w assume "w \<in> {w. run_of lo hi cs w}"
  then have "w = concat (map (\<lambda>c. [c]) w)" "lo \<le> length (map (\<lambda>c. [c]) w)"
    "length (map (\<lambda>c. [c]) w) \<le> hi" "set (map (\<lambda>c. [c]) w) \<subseteq> lang (Class cs)"
    by (auto simp: run_of_def)
  then show "w \<in> lang (Repeat lo hi (Class cs))" by (simp only: lang.simps) blast
qed

lemma set_rests: "simple r \<Longrightarrow> v \<in> set (rests r w) \<longleftrightarrow> (\<exists>u \<in> lang r. w = u @ v)"
proof (induction r arbitrary: v w)
  case (Class cs)
  then show ?case by (cases w) auto
next
  case (Cat r s)
  then have r: "\<And>v w. v \<in> set (rests r w) \<longleftrightarrow> (\<exists>u \<in> lang r. w = u @ v)"
    and s: "\<And>v w. v \<in> set (rests s w) \<longleftrightarrow> (\<exists>u \<in> lang s. w = u @ v)" by simp_all
  show ?case
  proof
    assume "v \<in> set (rests (Cat r s) w)"
    then obtain z where "z \<in> set (rests r w)" "v \<in> set (rests s z)" by auto
    with r s obtain u u' where "u \<in> lang r" "u' \<in> lang s" "w = (u @ u') @ v" by fastforce
    then show "\<exists>u \<in> lang (Cat r s). w = u @ v" by auto
  next
    assume "\<exists>u \<in> lang (Cat r s). w = u @ v"
    then obtain u u' where u: "u \<in> lang r" "u' \<in> lang s" "w = u @ (u' @ v)" by auto
    with s have "v \<in> set (rests s (u' @ v))" by blast
    moreover from u r have "u' @ v \<in> set (rests r w)" by blast
    ultimately show "v \<in> set (rests (Cat r s) w)" by auto
  qed
next
  case (Repeat lo hi r)
  then obtain cs where "r = Class cs" by (cases r) auto
  then show ?case by (auto simp: set_spans lang_class_repeat simp del: lang.simps)
qed auto

lemma fullmatch_lang: "simple r \<Longrightarrow> fullmatch r w \<longleftrightarrow> w \<in> lang r"
  by (auto simp: fullmatch_def set_rests)

subsection \<open>Fields and constraints\<close>

datatype value_type = TInteger | TNumber | TString | TBoolean | TNull | TArray

fun type_name :: "value_type \<Rightarrow> string" where
  "type_name TInteger = ''integer''" | "type_name TNumber = ''number''"
| "type_name TString = ''string''" | "type_name TBoolean = ''boolean''"
| "type_name TNull = ''null''" | "type_name TArray = ''array''"

text \<open>\<open>matches_type\<close>: \<open>type(value) is int\<close> is false for \<open>True\<close>, and a nonfinite float is no
  number.  The array type falls through to the last case of the code.\<close>

fun matches_type :: "json \<Rightarrow> value_type \<Rightarrow> bool" where
  "matches_type v TBoolean = (case v of JBool _ \<Rightarrow> True | _ \<Rightarrow> False)"
| "matches_type v TNull = (v = JNull)"
| "matches_type v TString = (case v of JStr s \<Rightarrow> length s \<le> 4096 | _ \<Rightarrow> False)"
| "matches_type v TInteger = (case v of JInt _ \<Rightarrow> True | _ \<Rightarrow> False)"
| "matches_type v _ = (case v of JInt _ \<Rightarrow> True | JFloat _ \<Rightarrow> True | _ \<Rightarrow> False)"

record object_field =
  of_name :: string
  of_type :: value_type
  of_item :: "value_type option"

definition letters :: "char list" where
  "letters = ''ABCDEFGHIJKLMNOPQRSTUVWXYZabcdefghijklmnopqrstuvwxyz''"

definition field_name :: "string \<Rightarrow> bool" where
  "field_name s \<longleftrightarrow> bounded_text 1 64 s \<and> hd s \<in> set (''_'' @ letters) \<and>
     list_all (\<lambda>c. c = CHR ''_'' \<or> alnum_char c) s"

definition bounded_array :: "object_field \<Rightarrow> object_field res" where
  "bounded_array f =
     bind_res (ensure (field_name (of_name f) \<and> of_item f \<noteq> Some TArray) (ValueError ''invalid field''))
       (\<lambda>_. if (of_type f = TArray) \<noteq> (of_item f \<noteq> None)
            then Inl (ValueError ''only array fields require item_type'') else Inr f)"

definition field_dump :: "object_field \<Rightarrow> json" where
  "field_dump f = JObj ([(''name'', JStr (of_name f)), (''type'', JStr (type_name (of_type f)))] @
     (case of_item f of None \<Rightarrow> [] | Some t \<Rightarrow> [(''item_type'', JStr (type_name t))]))"

definition value_schema :: "object_field \<Rightarrow> json" where
  "value_schema f = JObj ((''type'', JStr (type_name (of_type f))) #
     (if of_type f = TString then [(''maxLength'', JInt 4096)]
      else if of_type f = TArray then
        [(''maxItems'', JInt 64),
         (''items'', JObj ((''type'', (case of_item f of None \<Rightarrow> JNull | Some t \<Rightarrow> JStr (type_name t))) #
            (if of_item f = Some TString then [(''maxLength'', JInt 4096)] else [])))]
      else []))"

definition field_accepts :: "object_field \<Rightarrow> json \<Rightarrow> bool" where
  "field_accepts f v =
     (if of_type f \<noteq> TArray then matches_type v (of_type f)
      else case v of JArr items \<Rightarrow> length items \<le> 64 \<and>
             (case of_item f of Some t \<Rightarrow> list_all (\<lambda>i. matches_type i t) items | None \<Rightarrow> False)
           | _ \<Rightarrow> False)"

datatype constraint_kind =
  KInteger | KDecimal | KScientific | KYesNo | KLowercaseWord | KJsonObject

fun kind_name :: "constraint_kind \<Rightarrow> string" where
  "kind_name KInteger = ''integer''" | "kind_name KDecimal = ''decimal''"
| "kind_name KScientific = ''scientific''" | "kind_name KYesNo = ''yes_no''"
| "kind_name KLowercaseWord = ''lowercase_word''" | "kind_name KJsonObject = ''json_object''"

record output_constraint =
  oc_kind :: constraint_kind
  oc_fields :: "object_field list"
  oc_places :: "nat option"
  oc_exponent :: "nat option"

definition constraint_bounds :: "output_constraint \<Rightarrow> bool" where
  "constraint_bounds c \<longleftrightarrow> length (oc_fields c) \<le> 16 \<and> list_all (\<lambda>f. is_ok (bounded_array f)) (oc_fields c) \<and>
     opt_all (\<lambda>n. n \<le> 12) (oc_places c) \<and> opt_all (\<lambda>n. 1 \<le> n \<and> n \<le> 4) (oc_exponent c)"

definition coherent_shape :: "output_constraint \<Rightarrow> output_constraint res" where
  "coherent_shape c =
     bind_res (ensure (constraint_bounds c) (ValueError ''invalid constraint'')) (\<lambda>_.
     if (oc_fields c \<noteq> []) \<noteq> (oc_kind c = KJsonObject) then
       Inl (ValueError ''only json_object requires fields'')
     else if length (remdups (map of_name (oc_fields c))) \<noteq> length (oc_fields c) then
       Inl (ValueError ''JSON field names must be unique'')
     else if oc_places c \<noteq> None \<and> oc_kind c \<notin> {KDecimal, KScientific} then
       Inl (ValueError ''decimal_places requires decimal output'')
     else if oc_kind c = KScientific then
       (if oc_places c = None \<or> oc_exponent c = None then
          Inl (ValueError ''scientific output requires explicit precision and exponent width'')
        else Inr c)
     else if oc_exponent c \<noteq> None then Inl (ValueError ''exponent_digits requires scientific output'')
     else Inr c)"

definition json_nat :: "nat option \<Rightarrow> json" where
  "json_nat x = (case x of None \<Rightarrow> JNull | Some n \<Rightarrow> JInt (int n))"

text \<open>The wrapped serialiser drops an absent \<open>exponent_digits\<close>.\<close>

definition constraint_dump :: "output_constraint \<Rightarrow> json" where
  "constraint_dump c = JObj ([(''kind'', JStr (kind_name (oc_kind c))),
     (''fields'', JArr (map field_dump (oc_fields c))), (''decimal_places'', json_nat (oc_places c))] @
     (case oc_exponent c of None \<Rightarrow> [] | Some n \<Rightarrow> [(''exponent_digits'', JInt (int n))]))"

subsection \<open>Parameters of the engine\<close>

abbreviation digits :: "char list" where "digits \<equiv> ''0123456789''"
abbreviation nonzero :: "char list" where "nonzero \<equiv> ''123456789''"

abbreviation lit :: "char \<Rightarrow> re" where "lit c \<equiv> Class [c]"
abbreviation maybe_re :: "re \<Rightarrow> re" where "maybe_re r \<equiv> Or r Eps"

fun cats :: "re list \<Rightarrow> re" where
  "cats [] = Eps"
| "cats (r # rs) = Cat r (cats rs)"

text \<open>\<open>(0|-?[1-9][0-9]{0,127})\<close>\<close>

definition integer_re :: re where
  "integer_re = Or (lit CHR ''0'')
     (cats [maybe_re (lit CHR ''-''), Class nonzero, Repeat 0 127 (Class digits)])"

definition width_of :: "nat option \<Rightarrow> nat" where
  "width_of w = (case w of None \<Rightarrow> 0 | Some n \<Rightarrow> n)"

text \<open>\<open>-?[0-9]\.[0-9]{places}e[+-][0-9]{width}\<close>, without the fraction for zero places.\<close>

definition scientific_re :: "nat option \<Rightarrow> nat option \<Rightarrow> re" where
  "scientific_re places width =
     cats [maybe_re (lit CHR ''-''), Class digits,
       (case places of Some (Suc p) \<Rightarrow> cats [lit CHR ''.'', Repeat (Suc p) (Suc p) (Class digits)] | _ \<Rightarrow> Eps),
       lit CHR ''e'', Class ''+-'', Repeat (width_of width) (width_of width) (Class digits)]"

text \<open>\<open>-?(0|[1-9][0-9]{0,127})\.[0-9]{places}\<close>\<close>

definition fixed_re :: "nat \<Rightarrow> re" where
  "fixed_re p = cats [maybe_re (lit CHR ''-''),
     Or (lit CHR ''0'') (Cat (Class nonzero) (Repeat 0 127 (Class digits))),
     lit CHR ''.'', Repeat p p (Class digits)]"

text \<open>\<open>(0|-?([1-9][0-9]{0,127}(\.[0-9]{0,127}[1-9])?|0\.[0-9]{0,127}[1-9]))\<close>\<close>

definition canonical_re :: re where
  "canonical_re = (let fraction = cats [lit CHR ''.'', Repeat 0 127 (Class digits), Class nonzero] in
     Or (lit CHR ''0'') (Cat (maybe_re (lit CHR ''-''))
       (Or (cats [Class nonzero, Repeat 0 127 (Class digits), maybe_re fraction])
           (Cat (lit CHR ''0'') fraction))))"

definition constraint_re :: "output_constraint \<Rightarrow> re" where
  "constraint_re c =
     (if oc_kind c = KScientific then scientific_re (oc_places c) (oc_exponent c)
      else if oc_kind c = KInteger \<or> oc_places c = Some 0 then integer_re
      else if oc_kind c = KLowercaseWord then Repeat 1 64 (Class ''abcdefghijklmnopqrstuvwxyz'')
      else case oc_places c of Some p \<Rightarrow> fixed_re p | None \<Rightarrow> canonical_re)"

datatype engine_parameters = Choice "string list" | Schema json | Regex re

definition vllm_parameters :: "output_constraint \<Rightarrow> engine_parameters" where
  "vllm_parameters c =
     (if oc_kind c = KYesNo then Choice [''yes'', ''no'']
      else if oc_kind c = KJsonObject then
        Schema (JObj [(''type'', JStr ''object''),
          (''properties'', JObj (map (\<lambda>f. (of_name f, value_schema f)) (oc_fields c))),
          (''required'', JArr (map (JStr \<circ> of_name) (oc_fields c))),
          (''additionalProperties'', JBool False)])
      else Regex (constraint_re c))"

subsection \<open>Acceptance\<close>

definition unique_fields :: pairs_hook where
  "unique_fields = collect_unique ''duplicate JSON property'' []"

definition max_constrained_bytes :: nat where
  "max_constrained_bytes = 131072"

definition same_names :: "string list \<Rightarrow> string list \<Rightarrow> bool" where
  "same_names xs ys \<longleftrightarrow> set xs = set ys"

definition accepts :: "json_parser \<Rightarrow> output_constraint \<Rightarrow> string \<Rightarrow> bool" where
  "accepts parse c text =
     (if max_constrained_bytes < utf8_length text then False
      else if oc_kind c = KYesNo then text \<in> {''yes'', ''no''}
      else if oc_kind c \<noteq> KJsonObject then
        (case vllm_parameters c of Regex r \<Rightarrow> fullmatch r text | _ \<Rightarrow> False)
      else (case loads parse unique_fields text of
          Inr (JObj d) \<Rightarrow> same_names (map fst d) (map of_name (oc_fields c)) \<and>
            list_all (\<lambda>f. field_accepts f (json_get d (of_name f))) (oc_fields c)
        | _ \<Rightarrow> False))"

subsection \<open>Numerals\<close>

definition int_text :: "int \<Rightarrow> string" where
  "int_text n = (if n < 0 then CHR ''-'' # decimal (nat (- n)) else decimal (nat n))"

lemma digits_map: "digits = map digit [0..<10]"
  by code_simp

lemma nonzero_map: "nonzero = map digit [1..<10]"
  by code_simp

lemma in_digits: "c \<in> set digits \<longleftrightarrow> (\<exists>d < 10. c = digit d)"
  unfolding digits_map by auto

lemma in_nonzero: "c \<in> set nonzero \<longleftrightarrow> (\<exists>d. 0 < d \<and> d < 10 \<and> c = digit d)"
  unfolding nonzero_map by (auto simp: Suc_le_eq)

lemma decimal_step: "0 < m \<Longrightarrow> d < 10 \<Longrightarrow> decimal (10 * m + d) = decimal m @ [digit d]"
  by (subst decimal.simps) simp

lemma decimal_small: "d < 10 \<Longrightarrow> decimal d = [digit d]"
  by (subst decimal.simps) simp

text \<open>A nonzero digit and at most \<open>k\<close> further digits are the numerals below \<open>10 ^ (k + 1)\<close>.\<close>

lemma digits_are_numeral:
  assumes "c \<in> set nonzero" "set w \<subseteq> set digits"
  shows "\<exists>m. c # w = decimal m \<and> 0 < m \<and> m < 10 ^ Suc (length w)"
  using assms(2)
proof (induction w rule: rev_induct)
  case Nil
  from assms(1) obtain d where "0 < d" "d < 10" "c = digit d" by (auto simp only: in_nonzero)
  then show ?case by (intro exI [of _ d]) (simp add: decimal_small)
next
  case (snoc x w)
  then obtain m where m: "c # w = decimal m" "0 < m" "m < 10 ^ Suc (length w)" by auto
  from snoc.prems obtain d where d: "d < 10" "x = digit d" using in_digits by auto
  from m d have "c # (w @ [x]) = decimal (10 * m + d)" by (simp add: decimal_step flip: m(1))
  moreover from m(3) d(1) have "10 * m + d < 10 ^ Suc (length (w @ [x]))" by simp
  ultimately show ?case using m(2) by (intro exI [of _ "10 * m + d"]) simp
qed

lemma numeral_is_digits:
  assumes "0 < m" "m < 10 ^ Suc k"
  shows "\<exists>c w. decimal m = c # w \<and> c \<in> set nonzero \<and> set w \<subseteq> set digits \<and> length w \<le> k"
  using assms
proof (induction m arbitrary: k rule: decimal.induct)
  case (1 m)
  show ?case
  proof (cases "m < 10")
    case True
    with "1.prems" show ?thesis using in_nonzero [of "digit m"] by (auto simp: decimal_small)
  next
    case False
    then obtain j where k: "k = Suc j" using "1.prems" by (cases k) auto
    have "0 < m div 10" "m div 10 < 10 ^ Suc j" using False "1.prems" k by auto
    from "1.IH" [OF False this] obtain c w where cw: "decimal (m div 10) = c # w"
      "c \<in> set nonzero" "set w \<subseteq> set digits" "length w \<le> j" by blast
    have "decimal m = c # (w @ [digit (m mod 10)])"
      using False cw(1) by (subst decimal.simps) simp
    moreover have "digit (m mod 10) \<in> set digits"
      by (rule iffD2 [OF in_digits]) (intro exI [of _ "m mod 10"] conjI; simp)
    ultimately show ?thesis using cw k
      by (intro exI [of _ c] exI [of _ "w @ [digit (m mod 10)]"]) simp
  qed
qed

lemma digit_zero: "digit 0 = CHR ''0''"
  by code_simp

lemma decimal_zero: "decimal 0 = ''0''"
  by (simp add: decimal_small digit_zero)

lemma cats_simple: "list_all simple rs \<Longrightarrow> simple (cats rs)"
  by (induction rs) auto

lemma lang_cat_class:
  "w \<in> lang (Cat (Class cs) r) \<longleftrightarrow> (\<exists>c v. w = c # v \<and> c \<in> set cs \<and> v \<in> lang r)"
proof
  assume "\<exists>c v. w = c # v \<and> c \<in> set cs \<and> v \<in> lang r"
  then obtain c v where "w = [c] @ v" "[c] \<in> lang (Class cs)" "v \<in> lang r" by auto
  then show "w \<in> lang (Cat (Class cs) r)" unfolding lang.simps(3) by blast
qed auto

lemma lang_cat_maybe:
  "w \<in> lang (Cat (maybe_re (lit m)) r) \<longleftrightarrow> w \<in> lang r \<or> (\<exists>v. w = m # v \<and> v \<in> lang r)"
proof
  assume "w \<in> lang (Cat (maybe_re (lit m)) r)"
  then obtain u v where "w = u @ v" "u \<in> lang (maybe_re (lit m))" "v \<in> lang r"
    unfolding lang.simps(3) by blast
  moreover from this(2) have "u = [m] \<or> u = []" by auto
  ultimately show "w \<in> lang r \<or> (\<exists>v. w = m # v \<and> v \<in> lang r)" by auto
next
  assume "w \<in> lang r \<or> (\<exists>v. w = m # v \<and> v \<in> lang r)"
  moreover have "[] \<in> lang (maybe_re (lit m))" "[m] \<in> lang (maybe_re (lit m))" by simp_all
  ultimately have "\<exists>u v. w = u @ v \<and> u \<in> lang (maybe_re (lit m)) \<and> v \<in> lang r"
    by (metis append_Cons append_Nil)
  then show "w \<in> lang (Cat (maybe_re (lit m)) r)" unfolding lang.simps(3) by blast
qed

lemma lang_cat_eps: "lang (Cat r Eps) = lang r"
  by simp

lemma lang_numeral:
  "w \<in> lang (Or (lit z) (cats [maybe_re (lit m), Class cs, Repeat 0 k (Class ds)])) \<longleftrightarrow> w = [z] \<or>
     (\<exists>c v. (w = c # v \<or> w = m # c # v) \<and> c \<in> set cs \<and> set v \<subseteq> set ds \<and> length v \<le> k)"
proof -
  have alt: "w \<in> lang (Or (lit z) r) \<longleftrightarrow> w = [z] \<or> w \<in> lang r" for r by simp
  show ?thesis
    unfolding alt cats.simps lang_cat_maybe lang_cat_class lang_cat_eps lang_class_repeat run_of_def
    by (auto simp del: lang.simps)
qed

lemmas lang_integer =
  lang_numeral [of _ "CHR ''0''" "CHR ''-''" nonzero 127 digits, folded integer_re_def]

lemma int_text_accepted:
  "w \<in> lang integer_re \<longleftrightarrow> (\<exists>n. \<bar>n\<bar> < 10 ^ 128 \<and> w = int_text n)"
proof
  assume "w \<in> lang integer_re"
  then consider "w = ''0''" | c v where "w = c # v \<or> w = CHR ''-'' # c # v"
    "c \<in> set nonzero" "set v \<subseteq> set digits" "length v \<le> 127" unfolding lang_integer by blast
  then show "\<exists>n. \<bar>n\<bar> < 10 ^ 128 \<and> w = int_text n"
  proof cases
    case 1
    then show ?thesis by (intro exI [of _ 0]) (simp add: int_text_def decimal_zero)
  next
    case 2
    from digits_are_numeral [OF 2(2,3)] obtain m where m: "c # v = decimal m" "0 < m"
      "m < 10 ^ Suc (length v)" by blast
    have "(10::nat) ^ Suc (length v) \<le> 10 ^ 128" using 2(4) by (intro power_increasing) auto
    with m(3) have b: "int m < 10 ^ 128"
      by (metis less_le_trans of_nat_less_iff of_nat_numeral of_nat_power)
    from 2(1) show ?thesis
    proof
      assume "w = c # v"
      with m b show ?thesis by (intro exI [of _ "int m"]) (simp add: int_text_def)
    next
      assume "w = CHR ''-'' # c # v"
      with m b show ?thesis by (intro exI [of _ "- int m"]) (simp add: int_text_def)
    qed
  qed
next
  assume "\<exists>n. \<bar>n\<bar> < 10 ^ 128 \<and> w = int_text n"
  then obtain n where n: "\<bar>n\<bar> < 10 ^ 128" "w = int_text n" by blast
  show "w \<in> lang integer_re"
  proof (cases "n = 0")
    case True
    with n show ?thesis by (simp add: lang_integer int_text_def decimal_zero)
  next
    case False
    let ?m = "nat \<bar>n\<bar>"
    have "?m < 10 ^ Suc 127" using n(1) by (simp add: nat_less_iff)
    then obtain c v where d: "decimal ?m = c # v" and cv: "c \<in> set nonzero" "set v \<subseteq> set digits" "length v \<le> 127"
      using numeral_is_digits [of ?m 127] False by auto
    from d have "int_text n = c # v \<or> int_text n = CHR ''-'' # c # v"
      by (auto simp: int_text_def split: if_splits)
    with cv show ?thesis unfolding lang_integer n(2) by blast
  qed
qed

lemma int_text_length: "w \<in> lang integer_re \<Longrightarrow> length w \<le> 129"
  unfolding lang_integer by auto

lemma integer_re_simple: "simple integer_re"
  by (simp add: integer_re_def)

lemma coherent_shape_Inr:
  "coherent_shape c = Inr c' \<Longrightarrow> c' = c \<and> constraint_bounds c \<and>
     (oc_fields c \<noteq> [] \<longleftrightarrow> oc_kind c = KJsonObject) \<and> distinct (map of_name (oc_fields c))"
  using distinct_card [of "map of_name (oc_fields c)"]
  by (auto simp: coherent_shape_def res_iff length_remdups_card_conv card_distinct
      split: if_splits)

lemma unique_fields_Inr: "unique_fields ps = Inr d \<longleftrightarrow> d = ps \<and> unique_keys ps"
  by (simp add: unique_fields_def collect_unique_Inr)

subsection \<open>What acceptance means\<close>

text \<open>C17: An integer constraint accepts exactly the decimal texts of the integers of magnitude
  below ten to the power 128: no leading zeros, no plus sign, no negative zero, nothing else.\<close>

theorem integer_output_exact:
  assumes "coherent_shape c = Inr c" and "oc_kind c = KInteger"
  shows "accepts parse c out \<longleftrightarrow> (\<exists>n. \<bar>n\<bar> < 10 ^ 128 \<and> out = int_text n)"
proof -
  have "accepts parse c out \<longleftrightarrow> utf8_length out \<le> max_constrained_bytes \<and> out \<in> lang integer_re"
    using assms(2) fullmatch_lang [OF integer_re_simple]
    by (auto simp: accepts_def vllm_parameters_def constraint_re_def)
  moreover have "out \<in> lang integer_re \<Longrightarrow> utf8_length out \<le> max_constrained_bytes"
    using int_text_length [of out] utf8_length_le [of out] by (simp add: max_constrained_bytes_def)
  ultimately show ?thesis using int_text_accepted by blast
qed

definition int_shape :: output_constraint where
  "int_shape = \<lparr>oc_kind = KInteger, oc_fields = [], oc_places = None, oc_exponent = None\<rparr>"

theorem integer_output_exact_witness:
  "accepts (\<lambda>_. Inl (ValueError [])) int_shape ''-17'' \<longleftrightarrow>
     (\<exists>n. \<bar>n\<bar> < 10 ^ 128 \<and> ''-17'' = int_text n)"
  by (rule integer_output_exact)
    (simp_all add: int_shape_def coherent_shape_def constraint_bounds_def)


definition answer_shape :: output_constraint where
  "answer_shape = \<lparr>oc_kind = KJsonObject, oc_fields = [\<lparr>of_name = ''n'', of_type = TInteger, of_item = None\<rparr>],
     oc_places = None, oc_exponent = None\<rparr>"


end
