(* ===== verification/Inference.thy ===== *)
theory Inference
  imports OutputConstraint
begin

text \<open>
  The inference contracts (\<open>contracts/inference.py\<close>): chat messages, requests with their
  validators, the labelled reference prompt, and the token an engine yields.  Unknown fields
  are refused by typing; the random default of \<open>request_id\<close> is an argument.
\<close>

subsection \<open>Joining text\<close>

text \<open>\<open>sep.join(parts)\<close> and its inverse \<open>text.split(sep)\<close> for a one-character separator.\<close>

fun join :: "string \<Rightarrow> string list \<Rightarrow> string" where
  "join s [] = []"
| "join s [p] = p"
| "join s (p # q # ps) = p @ s @ join s (q # ps)"

fun split_on :: "char \<Rightarrow> string \<Rightarrow> string list" where
  "split_on c [] = [[]]"
| "split_on c (x # xs) =
     (if x = c then [] # split_on c xs
      else case split_on c xs of [] \<Rightarrow> [[x]] | p # ps \<Rightarrow> (x # p) # ps)"

lemma split_on_nonempty: "split_on c s \<noteq> []"
  by (cases s) (auto split: list.splits)

lemma join_split: "join [c] (split_on c s) = s"
proof (induction s)
  case (Cons x xs)
  then show ?case
    using split_on_nonempty [of c xs] by (cases "split_on c xs"; cases "tl (split_on c xs)") auto
qed simp

lemma split_on_parts: "p \<in> set (split_on c s) \<Longrightarrow> c \<notin> set p"
proof (induction s arbitrary: p)
  case (Cons x xs)
  then show ?case
    using split_on_nonempty [of c xs] by (cases "split_on c xs") (auto split: if_splits)
qed simp

lemma length_join: "length (join [c] ps) + 1 = sum_list (map (\<lambda>p. length p + 1) ps) \<or> ps = []"
  by (induction "[c]" ps rule: join.induct) auto

subsection \<open>Compact JSON text\<close>

text \<open>\<open>json.dumps(v, ensure_ascii=False, separators=(",", ":"))\<close> for values without floats,
  which is all the byte budget of a chat request encodes.\<close>

definition hex_digit :: "nat \<Rightarrow> char" where
  "hex_digit n = ''0123456789abcdef'' ! n"

definition escape_char :: "char \<Rightarrow> string" where
  "escape_char c =
     (if c = CHR 0x22 then [CHR 0x5C, CHR 0x22]
      else if c = CHR 0x5C then [CHR 0x5C, CHR 0x5C]
      else if c = CHR 0x0A then [CHR 0x5C, CHR ''n'']
      else if c = CHR 0x0D then [CHR 0x5C, CHR ''r'']
      else if c = CHR 0x09 then [CHR 0x5C, CHR ''t'']
      else if c = CHR 0x0C then [CHR 0x5C, CHR ''f'']
      else if c = CHR 0x08 then [CHR 0x5C, CHR ''b'']
      else if (of_char c :: nat) < 32 then
        [CHR 0x5C, CHR ''u'', CHR ''0'', CHR ''0'', hex_digit (of_char c div 16), hex_digit (of_char c mod 16)]
      else [c])"

definition quoted :: "string \<Rightarrow> string" where
  "quoted s = CHR 0x22 # concat (map escape_char s) @ [CHR 0x22]"

subsection \<open>Messages and requests\<close>

datatype role = System | User | Assistant

fun role_name :: "role \<Rightarrow> string" where
  "role_name System = ''system''" | "role_name User = ''user''" | "role_name Assistant = ''assistant''"

record chat_message =
  cm_role :: role
  cm_content :: string

definition valid_message :: "chat_message \<Rightarrow> bool" where
  "valid_message m \<longleftrightarrow> bounded_text 1 32768 (cm_content m)"

definition reference_prompt :: "chat_message list \<Rightarrow> string" where
  "reference_prompt ms = join [CHR 0x0A] (map (\<lambda>m. role_name (cm_role m) @ '': '' @ cm_content m) ms)"

record inference_request =
  iq_id :: string
  iq_model :: string
  iq_prompt :: string
  iq_messages :: "chat_message list option"
  iq_max_tokens :: nat
  iq_temperature :: flt
  iq_timeout :: flt
  iq_stream :: bool
  iq_constraint :: "output_constraint option"

definition request_fields :: "inference_request \<Rightarrow> bool" where
  "request_fields q \<longleftrightarrow> bounded_text 1 128 (iq_id q) \<and>
     list_all (\<lambda>c. alnum_char c \<or> c = CHR ''_'' \<or> c = CHR ''-'') (iq_id q) \<and>
     bounded_text 1 256 (iq_model q) \<and> bounded_text 1 32768 (iq_prompt q) \<and>
     opt_all (\<lambda>ms. 1 \<le> length ms \<and> length ms \<le> 64 \<and> list_all valid_message ms) (iq_messages q) \<and>
     1 \<le> iq_max_tokens q \<and> iq_max_tokens q \<le> 2048 \<and> 0 \<le> iq_temperature q \<and> iq_temperature q \<le> 2 \<and>
     0 < iq_timeout q \<and> iq_timeout q \<le> 300 \<and> opt_all (\<lambda>c. is_ok (coherent_shape c)) (iq_constraint q)"

definition chat_bytes :: "string \<Rightarrow> chat_message list \<Rightarrow> nat" where
  "chat_bytes prompt ms = utf8_length
     (''{'' @ quoted ''prompt'' @ '':'' @ quoted prompt @ '','' @ quoted ''messages'' @ '':['' @
      join '','' (map (\<lambda>m. ''{'' @ quoted ''role'' @ '':'' @ quoted (role_name (cm_role m)) @ '','' @
        quoted ''content'' @ '':'' @ quoted (cm_content m) @ ''}'') ms) @ '']}'')"

definition coherent_chat :: "inference_request \<Rightarrow> inference_request res" where
  "coherent_chat q =
     bind_res (ensure (request_fields q) (ValueError ''invalid request'')) (\<lambda>_.
     case iq_messages q of None \<Rightarrow> Inr q
     | Some ms \<Rightarrow>
         if iq_prompt q \<noteq> reference_prompt ms then
           Inl (ValueError ''chat messages must match the bounded reference prompt'')
         else if 120 * 1024 < chat_bytes (iq_prompt q) ms then
           Inl (ValueError ''chat text exceeds the internal routing byte budget'')
         else Inr q)"

text \<open>The wrapped serialiser: an absent constraint is left out of every encoding.\<close>

definition preserve_unconstrained :: "(string \<times> json) list \<Rightarrow> output_constraint option \<Rightarrow> (string \<times> json) list" where
  "preserve_unconstrained dumped c =
     (case c of None \<Rightarrow> delete_key ''output_constraint'' dumped | Some _ \<Rightarrow> dumped)"

definition message_dump :: "chat_message \<Rightarrow> json" where
  "message_dump m = JObj [(''role'', JStr (role_name (cm_role m))), (''content'', JStr (cm_content m))]"

definition request_dump :: "inference_request \<Rightarrow> json" where
  "request_dump q = JObj (preserve_unconstrained
     [(''output_constraint'', (case iq_constraint q of None \<Rightarrow> JNull | Some c \<Rightarrow> constraint_dump c)),
      (''request_id'', JStr (iq_id q)), (''model'', JStr (iq_model q)), (''prompt'', JStr (iq_prompt q)),
      (''messages'', (case iq_messages q of None \<Rightarrow> JNull | Some ms \<Rightarrow> JArr (map message_dump ms))),
      (''max_tokens'', JInt (int (iq_max_tokens q))), (''temperature'', JFloat (iq_temperature q)),
      (''timeout_seconds'', JFloat (iq_timeout q)), (''stream'', JBool (iq_stream q))]
     (iq_constraint q))"

record chat_request =
  cq_model :: string
  cq_messages :: "chat_message list"
  cq_max_tokens :: nat
  cq_temperature :: flt
  cq_timeout :: flt
  cq_stream :: bool
  cq_include_usage :: "json option"
  cq_constraint :: "output_constraint option"

text \<open>\<open>ChatStreamOptions\<close>: only the value \<open>true\<close> itself may be given for \<open>include_usage\<close>.\<close>

definition exact_true :: "json \<Rightarrow> json res" where
  "exact_true v = (if v \<noteq> JBool True then Inl (ValueError ''include_usage must be true'') else Inr v)"

definition valid_chat_request :: "chat_request \<Rightarrow> bool" where
  "valid_chat_request q \<longleftrightarrow> bounded_text 1 256 (cq_model q) \<and> 1 \<le> length (cq_messages q) \<and>
     length (cq_messages q) \<le> 64 \<and> list_all valid_message (cq_messages q) \<and>
     1 \<le> cq_max_tokens q \<and> cq_max_tokens q \<le> 2048 \<and> 0 \<le> cq_temperature q \<and> cq_temperature q \<le> 2 \<and>
     0 < cq_timeout q \<and> cq_timeout q \<le> 300 \<and> opt_all (\<lambda>v. is_ok (exact_true v)) (cq_include_usage q) \<and>
     opt_all (\<lambda>c. is_ok (coherent_shape c)) (cq_constraint q)"

definition to_inference :: "string \<Rightarrow> chat_request \<Rightarrow> inference_request res" where
  "to_inference uuid q = coherent_chat
     \<lparr>iq_id = uuid, iq_model = cq_model q, iq_prompt = reference_prompt (cq_messages q),
      iq_messages = Some (cq_messages q), iq_max_tokens = cq_max_tokens q,
      iq_temperature = cq_temperature q, iq_timeout = cq_timeout q, iq_stream = cq_stream q,
      iq_constraint = cq_constraint q\<rparr>"

datatype finish = Stop | Length

record engine_token =
  et_text :: string
  et_id :: "int option"
  et_count :: nat
  et_finish :: "finish option"

text \<open>A chat request that is translated keeps its roles next to the flat prompt every reference
  engine reads, and the two agree; it fails for length alone.\<close>

lemma to_inference_Inr:
  assumes "to_inference uuid q = Inr r"
  shows "iq_messages r = Some (cq_messages q) \<and> iq_prompt r = reference_prompt (cq_messages q) \<and>
     request_fields r \<and> chat_bytes (iq_prompt r) (cq_messages q) \<le> 120 * 1024"
  using assms by (auto simp: to_inference_def coherent_chat_def res_iff split: if_splits)

lemma to_inference_total:
  assumes "valid_chat_request q" and "bounded_text 1 128 uuid"
    and "list_all (\<lambda>c. alnum_char c \<or> c = CHR ''_'' \<or> c = CHR ''-'') uuid"
  shows "is_ok (to_inference uuid q) \<longleftrightarrow> length (reference_prompt (cq_messages q)) \<le> 32768 \<and>
     chat_bytes (reference_prompt (cq_messages q)) (cq_messages q) \<le> 120 * 1024"
proof -
  have "role_name r \<noteq> []" for r by (cases r) auto
  then have "reference_prompt (cq_messages q) \<noteq> []"
    using assms(1) by (cases "cq_messages q"; cases "tl (cq_messages q)")
      (auto simp: reference_prompt_def valid_chat_request_def)
  then have "1 \<le> length (reference_prompt (cq_messages q))" by (cases "reference_prompt (cq_messages q)") auto
  with assms show ?thesis
    by (auto simp: to_inference_def coherent_chat_def request_fields_def valid_chat_request_def
        bounded_text_def bind_res_def ensure_def split: if_splits)
qed

end
