(* ===== verification/Engine.thy ===== *)
theory Engine
  imports Inference
begin

text \<open>
  The streaming client of a completion engine (\<open>engines/openai_adapter.py\<close> and
  \<open>engines/chat_protocol.py\<close>): the byte budget, the SSE event decoder, the accounting of
  completion and chat frames, and the loop that turns events into tokens.

  The HTTPX line decoder and the JSON parsers are parameters; so are the outcomes of the
  network: the response, the byte chunks, how the body ends, and at which event the deadline
  has passed.  A generator is modelled by what it yields and how it ends (\<open>None\<close>: it returned).
\<close>

type_synonym 'a generated = "'a list \<times> py_error option"

definition yielding :: "'a \<Rightarrow> 'a generated \<Rightarrow> 'a generated" where
  "yielding a g = (a # fst g, snd g)"

lemma yielding_sel [simp]: "fst (yielding a g) = a # fst g" "snd (yielding a g) = snd g"
  by (simp_all add: yielding_def)

subsection \<open>The byte budget\<close>

definition protocol_error :: "string \<Rightarrow> 'a generated" where
  "protocol_error m = ([], Some (EngineProtocolError m))"

fun bounded_chunks :: "nat \<Rightarrow> nat \<Rightarrow> string list \<Rightarrow> py_error option \<Rightarrow> string generated" where
  "bounded_chunks maximum received [] end = ([], end)"
| "bounded_chunks maximum received (c # cs) end =
     (if maximum < received + length c
      then protocol_error ''Engine stream exceeded the response byte limit''
      else yielding c (bounded_chunks maximum (received + length c) cs end))"

lemma bounded_chunks_within:
  "received \<le> maximum \<Longrightarrow>
     received + length (concat (fst (bounded_chunks maximum received cs end))) \<le> maximum"
  by (induction maximum received cs "end" rule: bounded_chunks.induct)
    (auto simp: protocol_error_def)

lemma bounded_chunks_all:
  "received + length (concat cs) \<le> maximum \<Longrightarrow> bounded_chunks maximum received cs end = (cs, end)"
  by (induction maximum received cs "end" rule: bounded_chunks.induct) (auto simp: yielding_def)

subsection \<open>Server-sent events\<close>

definition max_event_characters :: nat where
  "max_event_characters = 65536"

fun remove_prefix :: "string \<Rightarrow> string \<Rightarrow> string" where
  "remove_prefix p s = (if take (length p) s = p then drop (length p) s else s)"

fun sse_events :: "string list \<Rightarrow> nat \<Rightarrow> string list \<Rightarrow> py_error option \<Rightarrow> string generated" where
  "sse_events dat n [] end =
     (case end of Some e \<Rightarrow> ([], Some e)
      | None \<Rightarrow> if dat \<noteq> [] then protocol_error ''Engine stream ended inside an SSE event'' else ([], None))"
| "sse_events dat n (line # ls) end =
     (if line = [] then
        (if dat \<noteq> [] then yielding (join [CHR 0x0A] dat) (sse_events [] 0 ls end) else sse_events [] 0 ls end)
      else if take 5 line = ''data:'' then
        (let v = remove_prefix '' '' (drop 5 line); n' = n + length v + 1 in
         if max_event_characters < n'
         then protocol_error ''Engine SSE event exceeded the event limit''
         else sse_events (dat @ [v]) n' ls end)
      else sse_events dat n ls end)"

text \<open>The stream of events of a response: lines from the bytes that pass the budget.  The decoder
  is told whether the body ended, in which case an unterminated line is delivered too.\<close>

type_synonym line_decoder = "string list \<Rightarrow> bool \<Rightarrow> string list"

definition response_events :: "line_decoder \<Rightarrow> nat \<Rightarrow> string list \<Rightarrow> py_error option \<Rightarrow> string generated" where
  "response_events lines maximum chunks end =
     (case bounded_chunks maximum 0 chunks end of (passed, out) \<Rightarrow>
        sse_events [] 0 (lines passed (out = None)) out)"

subsection \<open>Completion frames\<close>

text \<open>The strict validation of a decoded event.  Unknown members are ignored; the parser of
  \<open>model_validate_json\<close> keeps the last of repeated names.\<close>

definition field_of :: "(string \<times> json) list \<Rightarrow> string \<Rightarrow> json option" where
  "field_of d k = lookup (rev d) k"

fun parse_finish :: "json option \<Rightarrow> finish option res" where
  "parse_finish None = Inr None"
| "parse_finish (Some JNull) = Inr None"
| "parse_finish (Some (JStr s)) =
     (if s = ''stop'' then Inr (Some Stop) else if s = ''length'' then Inr (Some Length)
      else Inl (ValueError ''finish_reason''))"
| "parse_finish (Some _) = Inl (ValueError ''finish_reason'')"

record completion_choice =
  ch_text :: string
  ch_finish :: "finish option"

fun parse_choice :: "json \<Rightarrow> completion_choice res" where
  "parse_choice (JObj d) =
     bind_res (ensure (field_of d ''index'' = Some (JInt 0)) (ValueError ''index'')) (\<lambda>_.
     bind_res (case field_of d ''text'' of Some (JStr s) \<Rightarrow> Inr s | _ \<Rightarrow> Inl (ValueError ''text'')) (\<lambda>s.
     bind_res (parse_finish (field_of d ''finish_reason'')) (\<lambda>f.
     Inr \<lparr>ch_text = s, ch_finish = f\<rparr>)))"
| "parse_choice _ = Inl (ValueError ''choice'')"

fun parse_usage :: "json option \<Rightarrow> nat option res" where
  "parse_usage None = Inr None"
| "parse_usage (Some JNull) = Inr None"
| "parse_usage (Some (JObj d)) =
     (case field_of d ''completion_tokens'' of
        Some (JInt n) \<Rightarrow> if 0 \<le> n then Inr (Some (nat n)) else Inl (ValueError ''completion_tokens'')
      | _ \<Rightarrow> Inl (ValueError ''completion_tokens''))"
| "parse_usage (Some _) = Inl (ValueError ''usage'')"

record completion_frame =
  fr_choice :: "completion_choice option"
  fr_usage :: "nat option"

definition parse_choices :: "(json \<Rightarrow> completion_choice res) \<Rightarrow> json option \<Rightarrow> completion_choice option res" where
  "parse_choices choice v =
     (case v of
        Some (JArr []) \<Rightarrow> Inr None
      | Some (JArr [x]) \<Rightarrow> bind_res (choice x) (\<lambda>c. Inr (Some c))
      | _ \<Rightarrow> Inl (ValueError ''choices''))"

definition parse_frame :: "(json \<Rightarrow> completion_choice res) \<Rightarrow> json \<Rightarrow> completion_frame res" where
  "parse_frame choice v =
     (case v of
        JObj d \<Rightarrow>
          bind_res (parse_choices choice (field_of d ''choices'')) (\<lambda>c.
          bind_res (parse_usage (field_of d ''usage'')) (\<lambda>u. Inr \<lparr>fr_choice = c, fr_usage = u\<rparr>))
      | _ \<Rightarrow> Inl (ValueError ''frame''))"

subsection \<open>Completion accounting\<close>

record completion_state =
  cs_maximum :: nat
  cs_finish :: "finish option"
  cs_tokens :: "nat option"
  cs_visible :: bool

definition new_completion :: "nat \<Rightarrow> completion_state" where
  "new_completion n = \<lparr>cs_maximum = n, cs_finish = None, cs_tokens = None, cs_visible = False\<rparr>"

definition consume_choice :: "completion_choice option \<Rightarrow> completion_state \<Rightarrow> (string \<times> completion_state) res" where
  "consume_choice c s =
     (case c of None \<Rightarrow> Inr ([], s)
      | Some ch \<Rightarrow>
          if cs_finish s \<noteq> None then Inl (EngineProtocolError ''Engine sent a choice after completion finished'')
          else Inr (ch_text ch, s\<lparr>cs_visible := cs_visible s \<or> ch_text ch \<noteq> [], cs_finish := ch_finish ch\<rparr>))"

definition consume_usage :: "nat option \<Rightarrow> completion_state \<Rightarrow> completion_state res" where
  "consume_usage u s =
     (case u of None \<Rightarrow> Inr s
      | Some n \<Rightarrow>
          if cs_finish s = None then
            Inl (EngineProtocolError ''Engine sent final usage before completion finished'')
          else if cs_maximum s < n \<or> (cs_visible s \<and> n = 0) then
            Inl (EngineProtocolError ''Engine reported an inconsistent completion token count'')
          else Inr (s\<lparr>cs_tokens := Some n\<rparr>))"

definition consume_frame :: "completion_frame \<Rightarrow> completion_state \<Rightarrow> (string \<times> completion_state) res" where
  "consume_frame f s =
     (if cs_tokens s \<noteq> None then Inl (EngineProtocolError ''Engine sent data after final usage'')
      else bind_res (consume_choice (fr_choice f) s) (\<lambda>(t, s').
           bind_res (consume_usage (fr_usage f) s') (\<lambda>s''. Inr (t, s''))))"

type_synonym consumer = "string \<Rightarrow> completion_state \<Rightarrow> (string \<times> completion_state) res"

definition consume :: "json_parser \<Rightarrow> consumer" where
  "consume parse_json ev s =
     (case bind_res (parse_json ev) (parse_frame parse_choice) of
        Inl _ \<Rightarrow> Inl (EngineProtocolError ''Engine returned an invalid completion event'')
      | Inr f \<Rightarrow> consume_frame f s)"

definition final_token :: "completion_state \<Rightarrow> engine_token res" where
  "final_token s =
     (case (cs_finish s, cs_tokens s) of
        (Some f, Some n) \<Rightarrow> Inr \<lparr>et_text = [], et_id = None, et_count = n, et_finish = Some f\<rparr>
      | _ \<Rightarrow> Inl (EngineProtocolError ''Engine completion omitted final usage or finish reason''))"

subsection \<open>Chat frames\<close>

text \<open>A chat delta: an assistant role or none, optional content, and no tool call, function call
  or refusal.  The translated frame is the completion frame the shared accounting consumes.\<close>

definition unique_object :: pairs_hook where
  "unique_object = collect_unique ''Duplicate JSON key'' []"

definition absent :: "json option \<Rightarrow> bool" where
  "absent v \<longleftrightarrow> v = None \<or> v = Some JNull"

fun parse_delta :: "json option \<Rightarrow> string option res" where
  "parse_delta (Some (JObj d)) =
     bind_res (ensure (absent (field_of d ''role'') \<or> field_of d ''role'' = Some (JStr ''assistant''))
       (ValueError ''role'')) (\<lambda>_.
     bind_res (ensure (absent (field_of d ''tool_calls'') \<and> absent (field_of d ''function_call'') \<and>
       absent (field_of d ''refusal'')) (ValueError ''delta'')) (\<lambda>_.
     case field_of d ''content'' of
       None \<Rightarrow> Inr None | Some JNull \<Rightarrow> Inr None | Some (JStr s) \<Rightarrow> Inr (Some s)
     | Some _ \<Rightarrow> Inl (ValueError ''content'')))"
| "parse_delta _ = Inl (ValueError ''delta'')"

fun parse_chat_choice :: "json \<Rightarrow> completion_choice res" where
  "parse_chat_choice (JObj d) =
     bind_res (ensure (field_of d ''index'' = Some (JInt 0)) (ValueError ''index'')) (\<lambda>_.
     bind_res (parse_delta (field_of d ''delta'')) (\<lambda>content.
     bind_res (parse_finish (field_of d ''finish_reason'')) (\<lambda>f.
     Inr \<lparr>ch_text = (case content of None \<Rightarrow> [] | Some s \<Rightarrow> s), ch_finish = f\<rparr>)))"
| "parse_chat_choice _ = Inl (ValueError ''choice'')"

definition consume_chat :: "json_parser \<Rightarrow> consumer" where
  "consume_chat parse ev s =
     (case bind_res (loads parse unique_object ev) (parse_frame parse_chat_choice) of
        Inl _ \<Rightarrow> Inl (EngineProtocolError ''Engine returned an invalid chat event'')
      | Inr f \<Rightarrow> consume_frame f s)"

subsection \<open>The stream\<close>

text \<open>
  \<open>late k\<close> says that the deadline has passed before event \<open>k\<close> is awaited; an expiry while
  an event is awaited is the \<open>TimeoutError\<close> the event stream ends with.
\<close>

definition over_budget :: "output_constraint option \<Rightarrow> nat \<Rightarrow> string \<Rightarrow> bool" where
  "over_budget c n t \<longleftrightarrow> c \<noteq> None \<and> max_constrained_bytes < n + utf8_length t"

definition finish_stream :: "json_parser \<Rightarrow> output_constraint option \<Rightarrow> string \<Rightarrow> completion_state
    \<Rightarrow> engine_token generated" where
  "finish_stream parse c text s =
     (if \<not> opt_all (\<lambda>oc. accepts parse oc text) c
      then protocol_error ''Engine output did not satisfy requested shape''
      else case final_token s of Inl e \<Rightarrow> ([], Some e) | Inr t \<Rightarrow> ([t], None))"

definition delta_token :: "string \<Rightarrow> engine_token" where
  "delta_token t = \<lparr>et_text = t, et_id = None, et_count = 0, et_finish = None\<rparr>"

fun pump :: "json_parser \<Rightarrow> consumer \<Rightarrow> output_constraint option \<Rightarrow> (nat \<Rightarrow> bool) \<Rightarrow> nat
    \<Rightarrow> completion_state \<Rightarrow> string \<Rightarrow> string list \<Rightarrow> py_error option \<Rightarrow> engine_token generated" where
  "pump parse eat c late k s text [] end =
     (if late k then ([], Some (TimeoutError ''Engine request deadline expired''))
      else case end of Some e \<Rightarrow> ([], Some e) | None \<Rightarrow> protocol_error ''Engine stream ended without DONE'')"
| "pump parse eat c late k s text (ev # evs) end =
     (if late k then ([], Some (TimeoutError ''Engine request deadline expired''))
      else if ev = ''[DONE]'' then finish_stream parse c text s
      else case eat ev s of
        Inl e \<Rightarrow> ([], Some e)
      | Inr (t, s') \<Rightarrow>
          if t = [] then pump parse eat c late (Suc k) s' text evs end
          else if over_budget c (utf8_length text) t
               then protocol_error ''Constrained output exceeded byte limit''
          else yielding (delta_token t) (pump parse eat c late (Suc k) s' (text @ t) evs end))"

subsection \<open>The request\<close>

text \<open>\<open>supports_output_constraints\<close> is the class attribute of the adapter.\<close>

record completion_payload =
  pl_model :: string
  pl_max_tokens :: nat
  pl_temperature :: flt
  pl_structured :: "engine_parameters option"
  pl_prompt :: "string option"
  pl_messages :: "json list option"

definition completion_payload_of :: "bool \<Rightarrow> inference_request \<Rightarrow> completion_payload res" where
  "completion_payload_of supports q =
     (if iq_constraint q \<noteq> None \<and> \<not> supports then
        Inl (ValueError ''Engine does not support output constraints'')
      else Inr \<lparr>pl_model = iq_model q, pl_max_tokens = iq_max_tokens q, pl_temperature = iq_temperature q,
        pl_structured = map_option vllm_parameters (iq_constraint q),
        pl_prompt = (if iq_messages q = None then Some (iq_prompt q) else None),
        pl_messages = map_option (map message_dump) (iq_messages q)\<rparr>)"

record engine_response =
  er_status :: nat
  er_content_type :: "string option"
  er_encoding :: "string option"
  er_chunks :: "string list"
  er_end :: "py_error option"

definition blank :: "char \<Rightarrow> bool" where
  "blank c \<longleftrightarrow> (of_char c :: nat) \<in> {9, 10, 11, 12, 13, 28, 29, 30, 31, 32, 133, 160}"

definition strip :: "string \<Rightarrow> string" where
  "strip s = rev (dropWhile blank (rev (dropWhile blank s)))"

definition validate_response :: "engine_response \<Rightarrow> unit res" where
  "validate_response r =
     (let media = map lower_char (strip (hd (split_on CHR '';'' (case er_content_type r of None \<Rightarrow> [] | Some t \<Rightarrow> t))));
          enc = (case er_encoding r of None \<Rightarrow> ''identity'' | Some e \<Rightarrow> e) in
      if er_status r \<noteq> 200 then Inl (EngineUnavailableError (''Engine returned HTTP status '' @ decimal (er_status r)))
      else if media \<noteq> ''text/event-stream'' then Inl (EngineProtocolError ''Engine response is not an SSE stream'')
      else if map lower_char enc \<noteq> ''identity'' then Inl (EngineProtocolError ''Engine SSE compression is unsupported'')
      else Inr ())"

text \<open>The two handlers around the HTTP exchange replace HTTPX exceptions.\<close>

definition http_failure :: "py_error \<Rightarrow> py_error" where
  "http_failure e =
     (if e = Other ''httpx.TimeoutException'' then TimeoutError ''Engine HTTP operation timed out''
      else if e = Other ''httpx.HTTPError'' then EngineUnavailableError ''Engine HTTP transport failed''
      else e)"

definition consumer_of :: "json_parser \<Rightarrow> json_parser \<Rightarrow> inference_request \<Rightarrow> consumer" where
  "consumer_of parse strict q = (if iq_messages q = None then consume strict else consume_chat parse)"

definition engine_stream :: "json_parser \<Rightarrow> json_parser \<Rightarrow> line_decoder \<Rightarrow> bool \<Rightarrow> nat \<Rightarrow> inference_request
    \<Rightarrow> engine_response res \<Rightarrow> (nat \<Rightarrow> bool) \<Rightarrow> engine_token generated" where
  "engine_stream parse strict lines supports maximum q sent late =
     (case completion_payload_of supports q of Inl e \<Rightarrow> ([], Some e)
      | Inr _ \<Rightarrow> case sent of Inl e \<Rightarrow> ([], Some (http_failure e))
      | Inr r \<Rightarrow> case validate_response r of Inl e \<Rightarrow> ([], Some e)
      | Inr _ \<Rightarrow> case response_events lines maximum (er_chunks r) (er_end r) of (evs, end) \<Rightarrow>
          apsnd (map_option http_failure)
            (pump parse (consumer_of parse strict q) (iq_constraint q) late 0
               (new_completion (iq_max_tokens q)) [] evs end))"

subsection \<open>The fixture engine\<close>

text \<open>\<open>engines/fixture.py\<close>: the prompt is echoed character by character.\<close>

definition fixture_stream :: "inference_request \<Rightarrow> engine_token generated" where
  "fixture_stream q =
     (if iq_constraint q \<noteq> None then ([], Some (ValueError ''Fixture engine does not support output constraints''))
      else (map (\<lambda>c. \<lparr>et_text = [c], et_id = Some (of_char c), et_count = 1, et_finish = None\<rparr>)
              (take (iq_max_tokens q) (iq_prompt q @ '' '')), None))"

lemma fixture_stream_bounded: "length (fst (fixture_stream q)) \<le> iq_max_tokens q"
  by (simp add: fixture_stream_def del: take_append)

end
