(* ===== verification/EngineGuarantees.thy ===== *)
theory EngineGuarantees
  imports Engine
begin

text \<open>
  What the streaming client guarantees.  The contract of the two event consumers (completion
  and chat frames) is the locale \<open>accounting\<close>; the loop is analysed once over it and both
  consumers are instances.
\<close>

subsection \<open>Events\<close>

text \<open>The lines of an event as a server writes them, as \<open>sse\<close> of the gateway does.\<close>

definition event_lines :: "string \<Rightarrow> string list" where
  "event_lines ev = map (\<lambda>l. ''data: '' @ l) (split_on (CHR 0x0A) ev) @ [[]]"

lemma sse_events_data:
  "n + sum_list (map (\<lambda>l. length l + 1) ls) \<le> max_event_characters \<Longrightarrow>
     sse_events dat n (map (\<lambda>l. ''data: '' @ l) ls @ rest) end =
     sse_events (dat @ ls) (n + sum_list (map (\<lambda>l. length l + 1) ls)) rest end"
  by (induction ls arbitrary: dat n) (auto simp: Let_def add.assoc)

lemma sse_events_event:
  assumes "length ev < max_event_characters"
  shows "sse_events [] 0 (event_lines ev @ rest) end = yielding ev (sse_events [] 0 rest end)"
proof -
  let ?ls = "split_on (CHR 0x0A) ev"
  have "sum_list (map (\<lambda>l. length l + 1) ?ls) = length ev + 1"
    using length_join [of "CHR 0x0A" ?ls] by (simp add: join_split split_on_nonempty)
  with assms show ?thesis
    using sse_events_data [of 0 ?ls "[]" "[] # rest" "end"]
    by (simp add: event_lines_def split_on_nonempty join_split)
qed

lemma sse_events_encoded:
  "\<forall>ev \<in> set evs. length ev < max_event_characters \<Longrightarrow>
     sse_events [] 0 (concat (map event_lines evs)) None = (evs, None)"
  by (induction evs) (simp_all add: sse_events_event yielding_def)


text \<open>A decoder for the line feeds of a well-formed body.\<close>

definition lf_lines :: line_decoder where
  "lf_lines chunks flushed = butlast (split_on (CHR 0x0A) (concat chunks))"

definition two_chunks :: "string list" where
  "two_chunks = [''data: {'', ''}'' @ [CHR 0x0A] @ ''data: x'' @ [CHR 0x0A, CHR 0x0A]]"


subsection \<open>Accounting\<close>

text \<open>The contract of an event consumer: nothing is consumed after the final usage, visible text
  is remembered, a total is within the requested maximum and not zero after visible text, and
  every refusal is a protocol error.\<close>

locale accounting =
  fixes eat :: consumer
  assumes eat_open: "eat ev s = Inr (t, s') \<Longrightarrow> cs_tokens s = None"
    and eat_maximum: "eat ev s = Inr (t, s') \<Longrightarrow> cs_maximum s' = cs_maximum s"
    and eat_visible: "eat ev s = Inr (t, s') \<Longrightarrow> cs_visible s' \<longleftrightarrow> cs_visible s \<or> t \<noteq> []"
    and eat_total: "eat ev s = Inr (t, s') \<Longrightarrow> cs_tokens s' = Some n \<Longrightarrow>
      n \<le> cs_maximum s' \<and> (cs_visible s' \<longrightarrow> 0 < n)"
    and eat_error: "eat ev s = Inl e \<Longrightarrow> \<exists>m. e = EngineProtocolError m"
begin

definition accounted :: "completion_state \<Rightarrow> string \<Rightarrow> bool" where
  "accounted s text \<longleftrightarrow> (text \<noteq> [] \<longrightarrow> cs_visible s) \<and>
     (\<forall>n. cs_tokens s = Some n \<longrightarrow> n \<le> cs_maximum s \<and> (cs_visible s \<longrightarrow> 0 < n))"

lemma accounted_step:
  assumes "accounted s text" and "eat ev s = Inr (t, s')"
  shows "accounted s' (text @ t)"
  using assms eat_visible [OF assms(2)] eat_total [OF assms(2)] by (auto simp: accounted_def)

lemma finish_stream_cases:
  assumes "accounted s text"
  shows "(\<exists>t. finish_stream parse c text s = ([t], None) \<and> et_text t = [] \<and> et_finish t \<noteq> None \<and>
      et_count t \<le> cs_maximum s \<and> (text \<noteq> [] \<longrightarrow> 0 < et_count t) \<and>
      opt_all (\<lambda>oc. accepts parse oc text) c) \<or>
    (\<exists>m. finish_stream parse c text s = ([], Some (EngineProtocolError m)))"
  using assms by (auto simp: finish_stream_def accounted_def final_token_def protocol_error_def
      split: option.splits)

lemma pump_success:
  assumes "accounted s acc" and "pump parse eat c late k s acc evs stop = (ts, None)"
  shows "\<exists>ds t. ts = map delta_token ds @ [t] \<and> [] \<notin> set ds \<and> et_text t = [] \<and> et_finish t \<noteq> None \<and>
    et_count t \<le> cs_maximum s \<and> (acc @ concat ds \<noteq> [] \<longrightarrow> 0 < et_count t) \<and>
    opt_all (\<lambda>oc. accepts parse oc (acc @ concat ds)) c"
  using assms
proof (induction evs arbitrary: k s acc ts)
  case Nil
  then show ?case by (auto simp: protocol_error_def split: if_splits option.splits)
next
  case (Cons ev evs)
  have "\<not> late k" using Cons.prems(2) by auto
  show ?case
  proof (cases "ev = ''[DONE]''")
    case True
    with \<open>\<not> late k\<close> Cons.prems(2) have "finish_stream parse c acc s = (ts, None)" by simp
    with finish_stream_cases [OF Cons.prems(1), of parse c] show ?thesis
      by (intro exI [of _ "[]"]) auto
  next
    case False
    with \<open>\<not> late k\<close> Cons.prems(2) obtain t s' where eat: "eat ev s = Inr (t, s')"
      by (cases "eat ev s") auto
    note acc = accounted_step [OF Cons.prems(1) eat]
    show ?thesis
    proof (cases "t = []")
      case True
      with \<open>\<not> late k\<close> False eat Cons.prems(2) acc show ?thesis
        using Cons.IH [of s' acc "Suc k" ts] eat_maximum [OF eat] by simp
    next
      case ne: False
      with \<open>\<not> late k\<close> False eat Cons.prems(2) obtain us where ts: "ts = delta_token t # us"
        and us: "pump parse eat c late (Suc k) s' (acc @ t) evs stop = (us, None)"
        by (auto simp: protocol_error_def yielding_def prod_eq_iff split: if_splits)
      from Cons.IH [OF acc us] obtain ds u where "us = map delta_token ds @ [u]" "[] \<notin> set ds"
        "et_text u = []" "et_finish u \<noteq> None" "et_count u \<le> cs_maximum s'"
        "(acc @ t) @ concat ds \<noteq> [] \<longrightarrow> 0 < et_count u"
        "opt_all (\<lambda>oc. accepts parse oc ((acc @ t) @ concat ds)) c" by blast
      with ts ne show ?thesis
        using eat_maximum [OF eat] by (intro exI [of _ "t # ds"] exI [of _ u]) simp
    qed
  qed
qed

text \<open>A failed stream has yielded text only, and the failure is one of its own classes or the
  one the event stream ended with.\<close>

lemma pump_failure:
  assumes "pump parse eat c late k s acc evs stop = (ts, Some e)"
  shows "(\<exists>ds. ts = map delta_token ds \<and> [] \<notin> set ds) \<and>
    (e = TimeoutError ''Engine request deadline expired'' \<or> (\<exists>m. e = EngineProtocolError m) \<or> stop = Some e)"
  using assms
proof (induction evs arbitrary: k s acc ts)
  case Nil
  then show ?case by (auto simp: protocol_error_def split: if_splits option.splits)
next
  case (Cons ev evs)
  consider "late k" | "\<not> late k" "ev = ''[DONE]''" | e' where "\<not> late k" "ev \<noteq> ''[DONE]''" "eat ev s = Inl e'"
    | t s' where "\<not> late k" "ev \<noteq> ''[DONE]''" "eat ev s = Inr (t, s')" by (cases "eat ev s") auto
  then show ?case
  proof cases
    case 2
    with Cons.prems have f: "finish_stream parse c acc s = (ts, Some e)" by simp
    have "\<exists>m. ts = [] \<and> e = EngineProtocolError m"
      using f by (auto simp: finish_stream_def final_token_def protocol_error_def split: if_splits option.splits)
    then show ?thesis by auto
  next
    case 3
    with Cons.prems eat_error show ?thesis by auto
  next
    case 4
    show ?thesis
    proof (cases "t = []")
      case True
      with 4 Cons.prems show ?thesis using Cons.IH [of "Suc k" s' acc ts] by simp
    next
      case False
      consider "over_budget c (utf8_length acc) t" | us where "ts = delta_token t # us"
        "pump parse eat c late (Suc k) s' (acc @ t) evs stop = (us, Some e)"
        using 4 False Cons.prems by (auto simp: yielding_def prod_eq_iff split: if_splits)
      then show ?thesis
      proof cases
        case 1
        with 4 False Cons.prems show ?thesis by (auto simp: protocol_error_def)
      next
        case 2
        with Cons.IH [OF 2(2)] obtain ds where "us = map delta_token ds" "[] \<notin> set ds" by blast
        with 2 False Cons.IH [OF 2(2)] show ?thesis by (auto intro!: exI [of _ "t # ds"])
      qed
    qed
  qed (use Cons.prems in auto)
qed

end

subsection \<open>Both consumers keep the contract\<close>

lemma consume_frame_facts:
  assumes "consume_frame f s = Inr (t, s')"
  shows "cs_tokens s = None" "cs_maximum s' = cs_maximum s" "cs_visible s' \<longleftrightarrow> cs_visible s \<or> t \<noteq> []"
    "cs_tokens s' = Some n \<Longrightarrow> n \<le> cs_maximum s' \<and> (cs_visible s' \<longrightarrow> 0 < n)"
  using assms
  by (auto simp: consume_frame_def consume_choice_def consume_usage_def res_iff
      split: if_splits option.splits)

lemma consume_frame_error: "consume_frame f s = Inl e \<Longrightarrow> \<exists>m. e = EngineProtocolError m"
  by (auto simp: consume_frame_def consume_choice_def consume_usage_def res_iff
      split: if_splits option.splits)

interpretation completions: accounting "consume strict" for strict
proof unfold_locales
  fix ev s t s' n e
  assume "consume strict ev s = Inr (t, s')"
  then obtain f where f: "consume_frame f s = Inr (t, s')" by (auto simp: consume_def split: sum.splits)
  note facts = consume_frame_facts [OF f]
  show "cs_tokens s = None" "cs_maximum s' = cs_maximum s" "cs_visible s' \<longleftrightarrow> cs_visible s \<or> t \<noteq> []"
    by (fact facts)+
  show "cs_tokens s' = Some n \<Longrightarrow> n \<le> cs_maximum s' \<and> (cs_visible s' \<longrightarrow> 0 < n)" by (fact facts)
next
  show "consume strict ev s = Inl e \<Longrightarrow> \<exists>m. e = EngineProtocolError m" for ev s e
    using consume_frame_error by (auto simp: consume_def split: sum.splits)
qed

interpretation chats: accounting "consume_chat parse" for parse
proof unfold_locales
  fix ev s t s' n e
  assume "consume_chat parse ev s = Inr (t, s')"
  then obtain f where f: "consume_frame f s = Inr (t, s')" by (auto simp: consume_chat_def split: sum.splits)
  note facts = consume_frame_facts [OF f]
  show "cs_tokens s = None" "cs_maximum s' = cs_maximum s" "cs_visible s' \<longleftrightarrow> cs_visible s \<or> t \<noteq> []"
    by (fact facts)+
  show "cs_tokens s' = Some n \<Longrightarrow> n \<le> cs_maximum s' \<and> (cs_visible s' \<longrightarrow> 0 < n)" by (fact facts)
next
  show "consume_chat parse ev s = Inl e \<Longrightarrow> \<exists>m. e = EngineProtocolError m" for ev s e
    using consume_frame_error by (auto simp: consume_chat_def split: sum.splits)
qed

text \<open>The two results over whichever consumer the request selects.\<close>

lemma request_pump_success:
  assumes "pump parse (consumer_of parse strict q) c late 0 (new_completion n) [] evs stop = (ts, None)"
  shows "\<exists>ds t. ts = map delta_token ds @ [t] \<and> [] \<notin> set ds \<and> et_text t = [] \<and> et_finish t \<noteq> None \<and>
    et_count t \<le> n \<and> (concat ds \<noteq> [] \<longrightarrow> 0 < et_count t) \<and> opt_all (\<lambda>oc. accepts parse oc (concat ds)) c"
proof -
  have "completions.accounted (new_completion n) []" "chats.accounted (new_completion n) []"
    by (simp_all add: completions.accounted_def chats.accounted_def new_completion_def)
  then show ?thesis
    using assms completions.pump_success [of "new_completion n" "[]" parse strict c late 0 evs stop ts]
      chats.pump_success [of "new_completion n" "[]" parse parse c late 0 evs stop ts]
    by (cases "iq_messages q") (auto simp: consumer_of_def new_completion_def)
qed

lemma request_pump_failure:
  assumes "pump parse (consumer_of parse strict q) c late 0 s [] evs stop = (ts, Some e)"
  shows "(\<exists>ds. ts = map delta_token ds \<and> [] \<notin> set ds) \<and>
    (e = TimeoutError ''Engine request deadline expired'' \<or> (\<exists>m. e = EngineProtocolError m) \<or> stop = Some e)"
  using assms completions.pump_failure [of parse strict c late 0 s "[]" evs stop ts e]
    chats.pump_failure [of parse parse c late 0 s "[]" evs stop ts e]
  by (cases "iq_messages q") (auto simp: consumer_of_def)

subsection \<open>Streams\<close>

lemma engine_stream_success:
  assumes "engine_stream parse strict lines supports maximum q sent late = (ts, None)"
  shows "\<exists>ds t. ts = map delta_token ds @ [t] \<and> [] \<notin> set ds \<and> et_text t = [] \<and> et_finish t \<noteq> None \<and>
    et_count t \<le> iq_max_tokens q \<and> (ds \<noteq> [] \<longrightarrow> 0 < et_count t) \<and>
    opt_all (\<lambda>oc. accepts parse oc (concat ds)) (iq_constraint q)"
proof -
  from assms obtain r evs stop where
    "pump parse (consumer_of parse strict q) (iq_constraint q) late 0 (new_completion (iq_max_tokens q))
       [] evs stop = (ts, None)"
    by (auto simp: engine_stream_def apsnd_def map_prod_def split: sum.splits prod.splits)
  from request_pump_success [OF this] obtain ds t where dt: "ts = map delta_token ds @ [t]" "[] \<notin> set ds"
    "et_text t = []" "et_finish t \<noteq> None" "et_count t \<le> iq_max_tokens q"
    "concat ds \<noteq> [] \<longrightarrow> 0 < et_count t" "opt_all (\<lambda>oc. accepts parse oc (concat ds)) (iq_constraint q)" by blast
  from dt(2) have "ds \<noteq> [] \<Longrightarrow> concat ds \<noteq> []" by (cases ds) auto
  with dt show ?thesis by blast
qed

text \<open>C20: A stream that returns has yielded the visible deltas, each nonempty and without a count,
  and then exactly one terminal token: no text, a finish reason, the engine's total within the
  requested maximum and positive when text was visible; a constrained stream's text has the
  requested shape.\<close>

theorem stream_accounting:
  assumes "engine_stream parse strict lines supports maximum q sent late = (ts, None)"
  shows "\<exists>ds t. ts = map delta_token ds @ [t] \<and> [] \<notin> set ds \<and> et_text t = [] \<and> et_finish t \<noteq> None \<and>
    et_count t \<le> iq_max_tokens q \<and> (ds \<noteq> [] \<longrightarrow> 0 < et_count t) \<and>
    opt_all (\<lambda>oc. accepts parse oc (concat ds)) (iq_constraint q)"
  using assms by (rule engine_stream_success)

lemma bounded_chunks_end:
  "snd (bounded_chunks maximum n cs stop) = Some e \<Longrightarrow> (\<exists>m. e = EngineProtocolError m) \<or> stop = Some e"
  by (induction maximum n cs stop rule: bounded_chunks.induct)
    (auto simp: protocol_error_def split: if_splits)

lemma sse_events_end:
  "snd (sse_events dat n ls stop) = Some e \<Longrightarrow> (\<exists>m. e = EngineProtocolError m) \<or> stop = Some e"
proof (induction ls arbitrary: dat n)
  case Nil
  then show ?case by (auto simp: protocol_error_def split: option.splits if_splits)
next
  case (Cons l ls)
  show ?case
  proof (cases "l = [] \<or> take 5 l \<noteq> ''data:''")
    case True
    then have "snd (sse_events dat n (l # ls) stop) \<in>
      {snd (sse_events [] 0 ls stop), snd (sse_events dat n ls stop)}" by (cases "l = []"; cases "dat = []") simp_all
    then show ?thesis using Cons.IH [of "[]" 0] Cons.IH [of dat n] Cons.prems by fastforce
  next
    case False
    let ?v = "remove_prefix '' '' (drop 5 l)"
    have "sse_events dat n (l # ls) stop =
       (if max_event_characters < n + length ?v + 1
        then protocol_error ''Engine SSE event exceeded the event limit''
        else sse_events (dat @ [?v]) (n + length ?v + 1) ls stop)"
      using False by (simp add: Let_def del: remove_prefix.simps)
    then show ?thesis using Cons.IH [of "dat @ [?v]" "n + length ?v + 1"] Cons.prems
      by (auto simp: protocol_error_def simp del: sse_events.simps remove_prefix.simps split: if_splits)
  qed
qed

lemma response_events_end:
  assumes "snd (response_events lines maximum cs stop) = Some e"
  shows "(\<exists>m. e = EngineProtocolError m) \<or> stop = Some e"
proof -
  obtain passed stop' where b: "bounded_chunks maximum 0 cs stop = (passed, stop')" by (cases "bounded_chunks maximum 0 cs stop")
  with assms have "(\<exists>m. e = EngineProtocolError m) \<or> stop' = Some e"
    by (intro sse_events_end) (simp add: response_events_def)
  moreover have "stop' = Some e \<Longrightarrow> (\<exists>m. e = EngineProtocolError m) \<or> stop = Some e"
    using bounded_chunks_end [of maximum 0 cs stop e] b by simp
  ultimately show ?thesis by blast
qed

definition httpx_error :: "py_error \<Rightarrow> bool" where
  "httpx_error e \<longleftrightarrow> e = Other ''httpx.TimeoutException'' \<or> e = Other ''httpx.HTTPError''"

lemma http_failure_handled: "\<not> httpx_error (http_failure e)"
  by (simp add: http_failure_def httpx_error_def)

lemma http_failure_protocol [simp]:
  "http_failure (EngineProtocolError m) = EngineProtocolError m"
  "http_failure (TimeoutError m) = TimeoutError m"
  by (simp_all add: http_failure_def)

lemma request_errors:
  "completion_payload_of supports q = Inl e \<Longrightarrow> \<not> httpx_error e"
  "validate_response r = Inl e \<Longrightarrow> \<not> httpx_error e"
  by (auto simp: completion_payload_of_def validate_response_def Let_def httpx_error_def split: if_splits)

text \<open>C21: A stream that fails has yielded visible text only: no count and no finish reason.  No
  HTTPX exception escapes, and every failure after the response was accepted is a missed
  deadline, a protocol error, or the failure the connection ended with.\<close>

theorem stream_failure_is_clean:
  assumes "engine_stream parse strict lines supports maximum q sent late = (ts, Some e)"
  shows "(\<exists>ds. ts = map delta_token ds \<and> [] \<notin> set ds) \<and> \<not> httpx_error e \<and>
    (\<forall>r. sent = Inr r \<longrightarrow> is_ok (completion_payload_of supports q) \<longrightarrow> is_ok (validate_response r) \<longrightarrow>
       (\<exists>m. e = TimeoutError m) \<or> (\<exists>m. e = EngineProtocolError m) \<or>
       (\<exists>e'. er_end r = Some e' \<and> e = http_failure e'))"
proof -
  consider (payload) "completion_payload_of supports q = Inl e" "ts = []"
    | (send) e' where "sent = Inl e'" "e = http_failure e'" "ts = []"
    | (refused) r where "sent = Inr r" "validate_response r = Inl e" "ts = []"
    | (streamed) r evs stop e' where "sent = Inr r"
        "response_events lines maximum (er_chunks r) (er_end r) = (evs, stop)" "e = http_failure e'"
        "pump parse (consumer_of parse strict q) (iq_constraint q) late 0 (new_completion (iq_max_tokens q))
           [] evs stop = (ts, Some e')"
    using assms by (auto simp: engine_stream_def apsnd_def map_prod_def split: sum.splits prod.splits)
  then show ?thesis
  proof cases
    case payload
    then show ?thesis using request_errors(1) by auto
  next
    case send
    then show ?thesis using http_failure_handled by auto
  next
    case refused
    then show ?thesis using request_errors(2) by auto
  next
    case streamed
    have "stop = Some e' \<Longrightarrow> (\<exists>m. e' = EngineProtocolError m) \<or> er_end r = Some e'"
      using response_events_end [of lines maximum "er_chunks r" "er_end r" e'] streamed(2) by simp
    with request_pump_failure [OF streamed(4)] streamed(1,3) show ?thesis
      using http_failure_handled [of e'] by auto
  qed
qed

subsection \<open>A concrete stream\<close>

text \<open>A parser for two events, a request, and a response with one delta and the final frame.\<close>

definition demo_parse :: json_parser where
  "demo_parse ev =
     (if ev = ''d'' then Inr (JObj [(''choices'', JArr [JObj [(''index'', JInt 0), (''text'', JStr ''7'')]])])
      else if ev = ''f'' then Inr (JObj [(''choices'', JArr [JObj [(''index'', JInt 0), (''text'', JStr []),
        (''finish_reason'', JStr ''stop'')]]), (''usage'', JObj [(''completion_tokens'', JInt 1)])])
      else Inl (ValueError []))"

definition stream_request :: inference_request where
  "stream_request = \<lparr>iq_id = ''r'', iq_model = ''m'', iq_prompt = ''p'', iq_messages = None, iq_max_tokens = 4,
     iq_temperature = 0, iq_timeout = 30, iq_stream = True, iq_constraint = Some int_shape\<rparr>"

definition demo_response :: "string list \<Rightarrow> engine_response" where
  "demo_response evs = \<lparr>er_status = 200, er_content_type = Some ''Text/Event-Stream; x'', er_encoding = None,
     er_chunks = [concat (map (\<lambda>e. ''data: '' @ e @ [CHR 0x0A, CHR 0x0A]) evs)], er_end = None\<rparr>"

lemmas engine_eval = demo_parse_def stream_request_def demo_response_def engine_stream_def
  completion_payload_of_def validate_response_def strip_def blank_def lower_char_def response_events_def
  lf_lines_def protocol_error_def max_event_characters_def consumer_of_def consume_def parse_frame_def
  parse_choices_def field_of_def consume_frame_def consume_choice_def consume_usage_def
  new_completion_def yielding_def delta_token_def over_budget_def finish_stream_def final_token_def
  char_of_def bit_Suc_0_iff accepts_def vllm_parameters_def constraint_re_def integer_re_def fullmatch_def int_shape_def
  utf8_length_def utf8_width_def max_constrained_bytes_def

lemma demo_stream:
  "engine_stream demo_parse demo_parse lf_lines True 4096 stream_request
     (Inr (demo_response [''d'', ''f'', ''[DONE]''])) (\<lambda>_. False) =
   ([delta_token ''7'', \<lparr>et_text = [], et_id = None, et_count = 1, et_finish = Some Stop\<rparr>], None)"
  by (simp add: engine_eval)

lemma demo_broken:
  "engine_stream demo_parse demo_parse lf_lines True 4096 stream_request
     (Inr (demo_response [''d'', ''x''])) (\<lambda>_. False) =
   ([delta_token ''7''], Some (EngineProtocolError ''Engine returned an invalid completion event''))"
  by (simp add: engine_eval)

theorem stream_accounting_witness:
  "\<exists>ds t. [delta_token ''7'', \<lparr>et_text = [], et_id = None, et_count = 1, et_finish = Some Stop\<rparr>] =
       map delta_token ds @ [t] \<and> [] \<notin> set ds \<and> et_text t = [] \<and> et_finish t \<noteq> None \<and>
    et_count t \<le> iq_max_tokens stream_request \<and> (ds \<noteq> [] \<longrightarrow> 0 < et_count t) \<and>
    opt_all (\<lambda>oc. accepts demo_parse oc (concat ds)) (iq_constraint stream_request)"
  by (rule stream_accounting [OF demo_stream])

theorem stream_failure_is_clean_witness:
  "\<not> httpx_error (EngineProtocolError ''Engine returned an invalid completion event'')"
  using stream_failure_is_clean [OF demo_broken] by blast

end
