(* ===== verification/Ingress.thy ===== *)
theory Ingress
  imports EngineGuarantees
begin

text \<open>
  The serving path of the gateway (\<open>gateway/app.py\<close>): the lease of an admitted request, the
  relay of engine tokens into SSE frames, the collected reply for clients that do not stream,
  the quota answer, and the whole handler.  An SSE frame is its payload; the engine's stream
  is its tokens and how it ends.  A request that streams is consumed to the end, abandoned at
  some frame, or never started.  Spans and histograms are not modelled, and an expiry of the
  request's own timeout is one of the ways the engine's stream ends.
\<close>

subsection \<open>Replies\<close>

datatype frame = Data json | Done

definition sse :: "(json \<Rightarrow> string) \<Rightarrow> json \<Rightarrow> string" where
  "sse dumps payload = ''data: '' @ dumps payload @ [CHR 0x0A, CHR 0x0A]"

lemma split_on_line: "c \<notin> set l \<Longrightarrow> split_on c (l @ c # rest) = l # split_on c rest"
  by (induction l) auto

lemma split_on_single: "c \<notin> set l \<Longrightarrow> split_on c l = [l]"
  by (induction l) auto

text \<open>What the gateway writes for a payload is what the streaming client reads as one event.\<close>

lemma sse_lines:
  assumes "CHR 0x0A \<notin> set (dumps payload)"
  shows "lf_lines [sse dumps payload] True = event_lines (dumps payload)"
proof -
  have "split_on (CHR 0x0A) (dumps payload) = [dumps payload]"
    using assms by (rule split_on_single)
  then show ?thesis
    using split_on_line [of "CHR 0x0A" "''data: '' @ dumps payload" "[CHR 0x0A]"] assms
    by (simp add: lf_lines_def sse_def event_lines_def)
qed

definition spaced_code :: "string \<Rightarrow> string" where
  "spaced_code code = map (\<lambda>c. if c = CHR ''_'' then CHR '' '' else c) code"

definition error_body :: "string \<Rightarrow> nat \<Rightarrow> string \<Rightarrow> json" where
  "error_body code status rid = JObj [(''error'', JObj
     [(''code'', JStr code), (''message'', JStr (map lower_char (spaced_code code))),
      (''retryable'', JBool (status \<in> {429, 503})), (''request_id'', JStr rid)])]"

datatype reply =
    Reply nat json
  | Retry_reply nat json string
  | Streamed "frame list"

definition error_response :: "string \<Rightarrow> nat \<Rightarrow> string \<Rightarrow> reply" where
  "error_response code status rid = Reply status (error_body code status rid)"

subsection \<open>Leases\<close>

text \<open>The process state a request touches: the admission counter, the gauge of active requests,
  the labels of the request counter in the order they are incremented, and the token counter.\<close>

record gateway =
  gw_admission :: admission
  gw_active :: int
  gw_outcomes :: "string list"
  gw_tokens :: nat

record stream_lease =
  sl_released :: bool
  sl_started :: bool

type_synonym serving = "stream_lease \<times> gateway"

definition count_outcome :: "string \<Rightarrow> gateway \<Rightarrow> gateway" where
  "count_outcome label g = g\<lparr>gw_outcomes := gw_outcomes g @ [label]\<rparr>"

definition lease_release :: "(serving, unit) action" where
  "lease_release = (\<lambda>(l, g).
     if sl_released l then (Inr (), (l, g))
     else (let l' = l\<lparr>sl_released := True\<rparr> in
       case admission_release (gw_admission g) of
         (Inl e, a) \<Rightarrow> (Inl e, (l', g\<lparr>gw_admission := a\<rparr>))
       | (Inr _, a) \<Rightarrow>
           let g' = g\<lparr>gw_admission := a, gw_active := gw_active g - 1\<rparr> in
           (Inr (), (l', if sl_started l then g' else count_outcome ''cancelled_before_stream'' g'))))"

subsection \<open>Relaying tokens\<close>

record relay =
  ry_count :: nat
  ry_finish :: finish
  ry_first :: "flt option"

definition new_relay :: relay where
  "new_relay = \<lparr>ry_count = 0, ry_finish = Length, ry_first = None\<rparr>"

fun finish_name :: "finish \<Rightarrow> string" where
  "finish_name Stop = ''stop''" | "finish_name Length = ''length''"

definition relay_token :: "flt \<Rightarrow> engine_token \<Rightarrow> relay \<Rightarrow> relay" where
  "relay_token elapsed t r =
     \<lparr>ry_count = ry_count r + et_count t,
      ry_finish = (case et_finish t of None \<Rightarrow> ry_finish r | Some f \<Rightarrow> f),
      ry_first = (if et_text t \<noteq> [] \<and> ry_first r = None then Some elapsed else ry_first r)\<rparr>"

definition token_frame :: "bool \<Rightarrow> inference_request \<Rightarrow> engine_token \<Rightarrow> frame" where
  "token_frame chat q t = Data (JObj
     [(''id'', JStr (iq_id q)), (''model'', JStr (iq_model q)),
      (''object'', JStr (if chat then ''chat.completion.chunk'' else ''text_completion'')),
      (''choices'', JArr [JObj [(''index'', JInt 0), (''finish_reason'', JNull),
         (if chat then (''delta'', JObj [(''content'', JStr (et_text t))]) else (''text'', JStr (et_text t)))]])])"

definition final_frame :: "bool \<Rightarrow> inference_request \<Rightarrow> relay \<Rightarrow> frame" where
  "final_frame chat q r = Data (JObj
     [(''id'', JStr (iq_id q)),
      (''choices'', JArr [JObj [(''index'', JInt 0), (''finish_reason'', JStr (finish_name (ry_finish r))),
         (if chat then (''delta'', JObj []) else (''text'', JStr []))]]),
      (''usage'', JObj [(''completion_tokens'', JInt (int (ry_count r)))]),
      (''finserve'', JObj [(''server_ttft_seconds'', (case ry_first r of None \<Rightarrow> JNull | Some x \<Rightarrow> JFloat x))])])"

definition upper_char :: "char \<Rightarrow> char" where
  "upper_char c = (if 97 \<le> (of_char c :: nat) \<and> (of_char c :: nat) \<le> 122 then char_of ((of_char c :: nat) - 32) else c)"

definition failed_frame :: "inference_request \<Rightarrow> string \<Rightarrow> frame" where
  "failed_frame q label = Data (JObj [(''error'', JObj
     [(''code'', JStr (map upper_char label)), (''request_id'', JStr (iq_id q)), (''retryable'', JBool False)])])"

text \<open>Each frame with the relay state when it is yielded; \<open>elapsed k\<close> is the time since the
  request was received at token \<open>k\<close>.\<close>

fun relay_tokens :: "bool \<Rightarrow> inference_request \<Rightarrow> (nat \<Rightarrow> flt) \<Rightarrow> nat \<Rightarrow> relay \<Rightarrow> engine_token list
    \<Rightarrow> (frame \<times> nat) list \<times> relay" where
  "relay_tokens chat q elapsed k r [] = ([], r)"
| "relay_tokens chat q elapsed k r (t # ts) =
     (let r' = relay_token (elapsed k) t r; rest = relay_tokens chat q elapsed (Suc k) r' ts in
      ((token_frame chat q t, ry_count r') # fst rest, snd rest))"

fun failure_outcome :: "py_error \<Rightarrow> string" where
  "failure_outcome (TimeoutError m) = ''timeout''"
| "failure_outcome e = ''engine_failed''"

text \<open>
  The generator: the frames it yields, each with the tokens counted so far and the outcome that
  is recorded if the consumer closes it there, and the outcome when it is exhausted.
  Cancellation is no \<open>Exception\<close>: it ends the generator without an error frame.
\<close>

type_synonym trace = "(frame \<times> nat \<times> string) list \<times> string \<times> nat"

definition event_trace :: "bool \<Rightarrow> inference_request \<Rightarrow> bool \<Rightarrow> (nat \<Rightarrow> flt) \<Rightarrow> engine_token generated \<Rightarrow> trace" where
  "event_trace chat q late elapsed gen =
     (if late then ([(failed_frame q ''timeout'', 0, ''timeout'')], ''timeout'', 0)
      else case relay_tokens chat q elapsed 0 new_relay (fst gen) of (fs, r) \<Rightarrow>
        let body = map (\<lambda>(f, n). (f, n, ''cancelled'')) fs; n = ry_count r in
        case snd gen of
          None \<Rightarrow> (body @ [(final_frame chat q r, n, ''cancelled''), (Done, n, ''cancelled'')], ''success'', n)
        | Some e \<Rightarrow>
            if e = CancelledError then (body, ''cancelled'', n)
            else (body @ [(failed_frame q (failure_outcome e), n, failure_outcome e)], failure_outcome e, n))"

text \<open>\<open>Some k\<close>: the consumer closes the generator while it is suspended at frame \<open>k\<close>, counting
  from zero; \<open>None\<close>: it iterates to the end.\<close>

definition delivered_frames :: "nat option \<Rightarrow> trace \<Rightarrow> frame list" where
  "delivered_frames stop tr =
     (case stop of None \<Rightarrow> map fst (fst tr) | Some k \<Rightarrow> map fst (take (Suc k) (fst tr)))"

definition recorded_outcome :: "nat option \<Rightarrow> trace \<Rightarrow> string \<times> nat" where
  "recorded_outcome stop tr =
     (case stop of None \<Rightarrow> snd tr
      | Some k \<Rightarrow> if k < length (fst tr) then (snd (snd (fst tr ! k)), fst (snd (fst tr ! k))) else snd tr)"

text \<open>The \<open>finally\<close> of the generator: the engine iterator is closed, which may raise, then the
  lease is released and the outcome counted in any case.\<close>

definition settle_events :: "py_error option \<Rightarrow> string \<times> nat \<Rightarrow> (serving, unit) action" where
  "settle_events closing on s =
     (case lease_release s of
        (Inl e, s') \<Rightarrow> (Inl e, s')
      | (Inr _, (l, g)) \<Rightarrow>
          ((case closing of None \<Rightarrow> Inr () | Some e \<Rightarrow> Inl e),
           (l, (count_outcome (fst on) g)\<lparr>gw_tokens := gw_tokens g + snd on\<rparr>)))"

definition run_events :: "trace \<Rightarrow> nat option \<Rightarrow> py_error option \<Rightarrow> (serving, frame list) action" where
  "run_events tr stop closing = (\<lambda>(l, g).
     case settle_events closing (recorded_outcome stop tr) (l\<lparr>sl_started := True\<rparr>, g) of
       (Inl e, s') \<Rightarrow> (Inl e, s')
     | (Inr _, s') \<Rightarrow>
         (if stop = None \<and> fst (snd tr) = ''cancelled'' then Inl CancelledError
          else Inr (delivered_frames stop tr), s'))"

subsection \<open>The collected reply\<close>

fun members :: "json \<Rightarrow> (string \<times> json) list" where
  "members (JObj d) = d" | "members _ = []"

fun elements :: "json \<Rightarrow> json list" where
  "elements (JArr xs) = xs" | "elements _ = []"

fun text_of :: "json \<Rightarrow> string" where
  "text_of (JStr s) = s" | "text_of _ = []"

record collected =
  co_output :: "string list"
  co_usage :: json
  co_finish :: string

definition collect_choice :: "bool \<Rightarrow> json \<Rightarrow> collected \<Rightarrow> collected" where
  "collect_choice chat choice c =
     (let d = members choice; f = text_of (json_get d ''finish_reason'');
          piece = (if chat then text_of (json_get (members (json_get d ''delta'')) ''content'')
                   else text_of (json_get d ''text'')) in
      c\<lparr>co_finish := (if f \<noteq> [] then f else co_finish c), co_output := co_output c @ [piece]\<rparr>)"

definition collect_data :: "bool \<Rightarrow> json \<Rightarrow> collected \<Rightarrow> collected" where
  "collect_data chat v c =
     (let c' = fold (collect_choice chat) (elements (json_get (members v) ''choices'')) c in
      c'\<lparr>co_usage := (case lookup (members v) ''usage'' of None \<Rightarrow> co_usage c' | Some u \<Rightarrow> u)\<rparr>)"

text \<open>An error frame stops the collection and is the reply; the index is where it stops.\<close>

fun collect_frames :: "bool \<Rightarrow> nat \<Rightarrow> frame list \<Rightarrow> collected \<Rightarrow> (nat \<times> json) + collected" where
  "collect_frames chat k [] c = Inr c"
| "collect_frames chat k (Done # fs) c = collect_frames chat (Suc k) fs c"
| "collect_frames chat k (Data v # fs) c =
     (if lookup (members v) ''error'' \<noteq> None then Inl (k, v)
      else collect_frames chat (Suc k) fs (collect_data chat v c))"

definition collected_reply :: "bool \<Rightarrow> inference_request \<Rightarrow> collected \<Rightarrow> reply" where
  "collected_reply chat q c =
     (let content = concat (co_output c) in
      Reply 200 (JObj [(''id'', JStr (iq_id q)), (''model'', JStr (iq_model q)),
        (''choices'', JArr [JObj [(''index'', JInt 0), (''finish_reason'', JStr (co_finish c)),
          (if chat then (''message'', JObj [(''role'', JStr ''assistant''), (''content'', JStr content)])
           else (''text'', JStr content))]]),
        (''usage'', co_usage c)]))"

definition new_collected :: collected where
  "new_collected = \<lparr>co_output = [], co_usage = JObj [], co_finish = ''length''\<rparr>"

definition collect_response :: "bool \<Rightarrow> inference_request \<Rightarrow> trace \<Rightarrow> py_error option \<Rightarrow> (serving, reply) action" where
  "collect_response chat q tr closing =
     (case collect_frames chat 0 (map fst (fst tr)) new_collected of
        Inl (k, v) \<Rightarrow> seq (run_events tr (Some k) closing) (\<lambda>_. return (Reply 502 v))
      | Inr c \<Rightarrow> seq (run_events tr None closing) (\<lambda>_. return (collected_reply chat q c)))"

subsection \<open>Quota\<close>

text \<open>
  \<open>cache/redis_state.py\<close>: the configuration, the key of a subject, the script Redis runs
  atomically over its own commands, and the two sides of the cache, whose failures are misses.
  The commands and the keyed hash are parameters.
\<close>

record 's redis =
  rd_incr :: "string \<Rightarrow> 's \<Rightarrow> int \<times> 's"
  rd_pexpire :: "string \<Rightarrow> int \<Rightarrow> 's \<Rightarrow> 's"
  rd_pttl :: "string \<Rightarrow> 's \<Rightarrow> int"

definition quota_script :: "'s redis \<Rightarrow> string \<Rightarrow> int \<Rightarrow> int \<Rightarrow> 's \<Rightarrow> (int \<times> int) \<times> 's" where
  "quota_script rd key limit window s =
     (case rd_incr rd key s of (count, s1) \<Rightarrow>
      let s2 = (if count = 1 then rd_pexpire rd key window s1 else s1); ttl = rd_pttl rd key s2;
          expiry = (if ttl < 0 then (window, rd_pexpire rd key window s2) else (ttl, s2)) in
      ((if count \<le> limit then 1 else 0, fst expiry), snd expiry))"

record redis_state =
  rs_secret :: string
  rs_limit :: int
  rs_window :: int
  rs_timeout :: flt

definition make_redis_state :: "redis_state \<Rightarrow> redis_state res" where
  "make_redis_state r =
     (if length (rs_secret r) < 16 \<or> \<not> (1 \<le> rs_limit r \<and> rs_limit r \<le> 1000000) \<or>
         \<not> (100 \<le> rs_window r \<and> rs_window r \<le> 86400000)
      then Inl (ValueError ''invalid Redis quota configuration'')
      else if \<not> (0 < rs_timeout r \<and> rs_timeout r \<le> 5) then Inl (ValueError ''invalid Redis deadline'')
      else Inr r)"

definition redis_key :: "(string \<Rightarrow> string \<Rightarrow> string) \<Rightarrow> redis_state \<Rightarrow> string \<Rightarrow> string \<Rightarrow> string" where
  "redis_key hmac r scope ident =
     ''finserve:'' @ scope @ '':'' @ hmac (rs_secret r) (scope @ [CHR 0x00] @ ident)"

record quota_decision =
  qd_allowed :: bool
  qd_retry_ms :: nat

text \<open>The decision from what the script returned; \<open>None\<close> is a value that is no pair of integers.\<close>

definition redis_allow :: "(int \<times> int) option res \<Rightarrow> quota_decision res" where
  "redis_allow result = bind_res result (\<lambda>v. case v of
     None \<Rightarrow> Inl (ValueError ''validation'')
   | Some (flag, ttl) \<Rightarrow>
       if flag \<notin> {0, 1} \<or> ttl < 0 then Inl (ValueError ''invalid Redis quota response'')
       else Inr \<lparr>qd_allowed = (flag = 1), qd_retry_ms = nat ttl\<rparr>)"

definition redis_cached :: "string option res \<Rightarrow> string option res" where
  "redis_cached got =
     (case got of Inl e \<Rightarrow> if e = CancelledError then Inl e else Inr None
      | Inr (Some v) \<Rightarrow> Inr (if length v \<le> 1048576 then Some v else None)
      | Inr None \<Rightarrow> Inr None)"

definition redis_remember :: "string \<Rightarrow> int \<Rightarrow> bool res \<Rightarrow> bool res" where
  "redis_remember v ttl stored =
     (if 1048576 < length v \<or> \<not> (1 \<le> ttl \<and> ttl \<le> 3600) then Inl (ValueError ''invalid cache value or TTL'')
      else case stored of Inl e \<Rightarrow> if e = CancelledError then Inl e else Inr False | Inr b \<Rightarrow> Inr b)"

text \<open>
  The optional hop before admission: the limiter's answer, whether time remained before it, and
  whether the deadline had passed when it failed.
\<close>

definition quota_response :: "quota_decision res option \<Rightarrow> bool \<Rightarrow> bool \<Rightarrow> string
    \<Rightarrow> (gateway, reply option) action" where
  "quota_response limiter remaining passed rid g =
     (case limiter of None \<Rightarrow> (Inr None, g)
      | Some r \<Rightarrow>
          if \<not> remaining then (Inr (Some (error_response ''DEADLINE_EXCEEDED'' 504 rid)), g)
          else case r of
            Inl e \<Rightarrow>
              if e = CancelledError then (Inl e, g)
              else if passed then (Inr (Some (error_response ''DEADLINE_EXCEEDED'' 504 rid)), g)
              else (Inr (Some (error_response ''QUOTA_UNAVAILABLE'' 503 rid)), count_outcome ''quota_unavailable'' g)
          | Inr d \<Rightarrow>
              if qd_allowed d then (Inr None, g)
              else (Inr (Some (Retry_reply 429 (error_body ''RATE_LIMITED'' 429 rid)
                      (decimal (max 1 ((qd_retry_ms d + 999) div 1000))))), count_outcome ''rate_limited'' g))"

subsection \<open>The handler\<close>

text \<open>A streaming client never starts the generator, or reads to a frame or to the end.\<close>

datatype client = Unstarted | Reads "nat option"

definition owned_stream :: "trace \<Rightarrow> client \<Rightarrow> py_error option \<Rightarrow> (serving, frame list) action" where
  "owned_stream tr cl closing =
     (case cl of Unstarted \<Rightarrow> seq lease_release (\<lambda>_. return [])
      | Reads stop \<Rightarrow> finally_do (run_events tr stop closing) lease_release)"

definition serve_admitted :: "bool \<Rightarrow> inference_request \<Rightarrow> trace \<Rightarrow> client \<Rightarrow> py_error option
    \<Rightarrow> (serving, reply) action" where
  "serve_admitted chat q tr cl closing =
     (if iq_stream q then seq (owned_stream tr cl closing) (\<lambda>fs. return (Streamed fs))
      else recover (collect_response chat q tr closing) (\<lambda>e. seq lease_release (\<lambda>_. raise e)))"

record gateway_config =
  gc_model :: string
  gc_key :: "string option"
  gc_constraints :: bool

definition admit_request :: "bool \<Rightarrow> inference_request \<Rightarrow> trace \<Rightarrow> client \<Rightarrow> py_error option
    \<Rightarrow> (gateway, reply) action" where
  "admit_request chat q tr cl closing g =
     (case admission_acquire (gw_admission g) of
        (False, a) \<Rightarrow> (Inr (error_response ''OVERLOADED'' 429 (iq_id q)),
           count_outcome ''overloaded'' (g\<lparr>gw_admission := a\<rparr>))
      | (True, a) \<Rightarrow>
          apsnd snd (serve_admitted chat q tr cl closing
            (\<lparr>sl_released = False, sl_started = False\<rparr>, g\<lparr>gw_admission := a, gw_active := gw_active g + 1\<rparr>)))"

definition respond :: "gateway_config \<Rightarrow> string \<Rightarrow> bool \<Rightarrow> inference_request \<Rightarrow> quota_decision res option
    \<Rightarrow> bool \<Rightarrow> bool \<Rightarrow> trace \<Rightarrow> client \<Rightarrow> py_error option \<Rightarrow> (gateway, reply) action" where
  "respond cfg auth chat q limiter remaining passed tr cl closing g =
     (if \<not> opt_all (\<lambda>key. auth = ''Bearer '' @ key) (gc_key cfg) then
        (Inr (error_response ''UNAUTHORIZED'' 401 (iq_id q)), g)
      else if iq_model q \<noteq> gc_model cfg then (Inr (error_response ''MODEL_NOT_FOUND'' 404 (iq_id q)), g)
      else if iq_constraint q \<noteq> None \<and> \<not> gc_constraints cfg then
        (Inr (error_response ''UNSUPPORTED_OUTPUT_CONSTRAINT'' 422 (iq_id q)), g)
      else seq (quota_response limiter remaining passed (iq_id q)) (\<lambda>refused.
        case refused of Some r \<Rightarrow> return r | None \<Rightarrow> admit_request chat q tr cl closing) g)"

definition chat_completions :: "gateway_config \<Rightarrow> string \<Rightarrow> string \<Rightarrow> chat_request \<Rightarrow> quota_decision res option
    \<Rightarrow> bool \<Rightarrow> bool \<Rightarrow> (inference_request \<Rightarrow> trace) \<Rightarrow> client \<Rightarrow> py_error option \<Rightarrow> (gateway, reply) action" where
  "chat_completions cfg auth uuid cq limiter remaining passed run cl closing g =
     (case to_inference uuid cq of
        Inl _ \<Rightarrow> (Inr (error_response ''CONTEXT_TOO_LARGE'' 422 []), g)
      | Inr q \<Rightarrow> respond cfg auth True q limiter remaining passed (run q) cl closing g)"

end
