(* ===== verification/IngressGuarantees.thy ===== *)
theory IngressGuarantees
  imports Ingress
begin

text \<open>
  What the serving path guarantees: the capacity of a request is returned exactly once on every
  path, and the collected reply says what the stream would have said.
\<close>

subsection \<open>Capacity\<close>

text \<open>The state of an admitted request before and after its lease is released, relative to the
  gateway before admission; a settled request has counted one outcome.\<close>

definition admitted :: "gateway \<Rightarrow> serving \<Rightarrow> bool" where
  "admitted g s \<longleftrightarrow> \<not> sl_released (fst s) \<and>
     gw_admission (snd s) = (gw_admission g)\<lparr>adm_active := adm_active (gw_admission g) + 1\<rparr> \<and>
     gw_active (snd s) = gw_active g + 1 \<and> gw_outcomes (snd s) = gw_outcomes g"

definition settled :: "gateway \<Rightarrow> serving \<Rightarrow> bool" where
  "settled g s \<longleftrightarrow> sl_released (fst s) \<and> gw_admission (snd s) = gw_admission g \<and>
     gw_active (snd s) = gw_active g \<and> (\<exists>out. gw_outcomes (snd s) = gw_outcomes g @ [out])"

lemma lease_release_settled: "settled g s \<Longrightarrow> lease_release s = (Inr (), s)"
  by (cases s) (simp add: lease_release_def settled_def)

lemma lease_release_unstarted:
  "admitted g s \<Longrightarrow> \<not> sl_started (fst s) \<Longrightarrow> is_ok (fst (lease_release s)) \<and> settled g (snd (lease_release s))"
  by (cases s)
    (simp add: lease_release_def admitted_def settled_def admission_release_def count_outcome_def Let_def)

lemma run_events_settles: "admitted g s \<Longrightarrow> settled g (snd (run_events tr stop closing s))"
  by (cases s) (auto simp: run_events_def settle_events_def lease_release_def admitted_def settled_def
      admission_release_def count_outcome_def Let_def split: option.splits)

lemma owned_stream_settles:
  assumes "admitted g s" and "\<not> sl_started (fst s)"
  shows "settled g (snd (owned_stream tr cl closing s))"
proof (cases cl)
  case Unstarted
  have "is_ok (fst (lease_release s))" "settled g (snd (lease_release s))"
    using lease_release_unstarted [OF assms] by blast+
  with Unstarted show ?thesis
    by (cases "lease_release s") (auto simp: owned_stream_def seq_def return_def split: sum.splits)
next
  case (Reads stop)
  obtain r s' where run: "run_events tr stop closing s = (r, s')" by (cases "run_events tr stop closing s")
  with run_events_settles [OF assms(1), of tr stop closing] have "settled g s'" by simp
  with Reads run show ?thesis by (simp add: owned_stream_def finally_do_def lease_release_settled)
qed

lemma collect_response_settles:
  "admitted g s \<Longrightarrow> settled g (snd (collect_response chat q tr closing s))"
  using run_events_settles [of g s tr]
  by (auto simp: collect_response_def seq_def return_def split: sum.splits prod.splits)
    (metis snd_conv)+

lemma serve_admitted_settles:
  assumes "admitted g s" and "\<not> sl_started (fst s)"
  shows "settled g (snd (serve_admitted chat q tr cl closing s))"
proof (cases "iq_stream q")
  case True
  then show ?thesis using owned_stream_settles [OF assms, of tr cl closing]
    by (auto simp: serve_admitted_def seq_def return_def split: sum.splits prod.splits)
next
  case False
  obtain r s' where c: "collect_response chat q tr closing s = (r, s')"
    by (cases "collect_response chat q tr closing s")
  with collect_response_settles [OF assms(1), of chat q tr closing] have "settled g s'" by simp
  with False c show ?thesis
    by (cases r) (simp_all add: serve_admitted_def recover_def seq_def raise_def lease_release_settled)
qed

text \<open>C22: Whatever the engine does, whichever frame the client leaves at, and even when it never
  starts to read, a request leaves the admission counter and the gauge of active requests as it
  found them, and counts at most one outcome: exactly one once it was admitted.\<close>

theorem capacity_returned_once:
  "gw_admission (snd (respond cfg auth chat q limiter remaining passed tr cl closing g)) = gw_admission g \<and>
   gw_active (snd (respond cfg auth chat q limiter remaining passed tr cl closing g)) = gw_active g \<and>
   (\<exists>outs. gw_outcomes (snd (respond cfg auth chat q limiter remaining passed tr cl closing g)) =
      gw_outcomes g @ outs \<and> length outs \<le> 1)"
proof -
  let ?kept = "\<lambda>g'. gw_admission g' = gw_admission g \<and> gw_active g' = gw_active g \<and>
    (\<exists>outs. gw_outcomes g' = gw_outcomes g @ outs \<and> length outs \<le> 1)"
  have admit: "?kept (snd (admit_request chat q tr cl closing g))"
  proof (cases "fst (admission_acquire (gw_admission g))")
    case False
    then show ?thesis
      by (auto simp: admit_request_def admission_acquire_def count_outcome_def split: if_splits)
  next
    case True
    let ?s = "(\<lparr>sl_released = False, sl_started = False\<rparr>,
      g\<lparr>gw_admission := snd (admission_acquire (gw_admission g)), gw_active := gw_active g + 1\<rparr>)"
    have "admitted g ?s" using True by (auto simp: admitted_def admission_acquire_def split: if_splits)
    then have "settled g (snd (serve_admitted chat q tr cl closing ?s))"
      by (rule serve_admitted_settles) simp
    with True show ?thesis
      by (cases "admission_acquire (gw_admission g)")
        (auto simp: admit_request_def settled_def apsnd_def map_prod_def split: prod.splits)
  qed
  obtain r g' where quota: "quota_response limiter remaining passed (iq_id q) g = (r, g')"
    by (cases "quota_response limiter remaining passed (iq_id q) g")
  have "?kept g'" and "r = Inr None \<Longrightarrow> g' = g"
    using quota by (auto simp: quota_response_def count_outcome_def split: option.splits sum.splits if_splits)
  with admit quota show ?thesis
    by (auto simp: respond_def seq_def return_def split: sum.splits option.splits)
qed

subsection \<open>Collected replies\<close>

lemma relay_tokens_frames: "map fst (fst (relay_tokens chat q elapsed k r ts)) = map (token_frame chat q) ts"
  by (induction ts arbitrary: k r) (simp_all add: Let_def)

lemma relay_tokens_count:
  "ry_count (snd (relay_tokens chat q elapsed k r ts)) = ry_count r + sum_list (map et_count ts)"
  by (induction ts arbitrary: k r) (simp_all add: Let_def relay_token_def)

text \<open>The finish reason of a list of tokens: the last one given, or the default.\<close>

fun finish_of :: "finish \<Rightarrow> engine_token list \<Rightarrow> finish" where
  "finish_of f [] = f"
| "finish_of f (t # ts) = finish_of (case et_finish t of None \<Rightarrow> f | Some f' \<Rightarrow> f') ts"

lemma relay_tokens_finish: "ry_finish (snd (relay_tokens chat q elapsed k r ts)) = finish_of (ry_finish r) ts"
  by (induction ts arbitrary: k r) (simp_all add: Let_def relay_token_def)

lemma collect_token_frame:
  "collect_frames chat k (token_frame chat q t # fs) c =
     collect_frames chat (Suc k) fs (c\<lparr>co_output := co_output c @ [et_text t]\<rparr>)"
  by (cases chat) (simp_all add: token_frame_def collect_data_def collect_choice_def json_get_def Let_def)

lemma collect_token_frames:
  "collect_frames chat k (map (token_frame chat q) ts @ fs) c =
     collect_frames chat (k + length ts) fs (c\<lparr>co_output := co_output c @ map et_text ts\<rparr>)"
  by (induction ts arbitrary: k c) (simp_all add: collect_token_frame)

lemma collect_final_frame:
  "collect_frames chat k [final_frame chat q r, Done] c =
     Inr (c\<lparr>co_output := co_output c @ [[]], co_finish := finish_name (ry_finish r),
            co_usage := JObj [(''completion_tokens'', JInt (int (ry_count r)))]\<rparr>)"
  by (cases chat; cases "ry_finish r")
    (simp_all add: final_frame_def collect_data_def collect_choice_def json_get_def Let_def)

lemma collect_failed_frame:
  "collect_frames chat k [failed_frame q out] c = Inl (k, (case failed_frame q out of Data v \<Rightarrow> v | Done \<Rightarrow> JNull))"
  by (simp add: failed_frame_def)

definition answer :: "bool \<Rightarrow> inference_request \<Rightarrow> string \<Rightarrow> finish \<Rightarrow> nat \<Rightarrow> json" where
  "answer chat q content f n = JObj [(''id'', JStr (iq_id q)), (''model'', JStr (iq_model q)),
     (''choices'', JArr [JObj [(''index'', JInt 0), (''finish_reason'', JStr (finish_name f)),
       (if chat then (''message'', JObj [(''role'', JStr ''assistant''), (''content'', JStr content)])
        else (''text'', JStr content))]]),
     (''usage'', JObj [(''completion_tokens'', JInt (int n))])]"

definition failure_body :: "inference_request \<Rightarrow> py_error \<Rightarrow> json" where
  "failure_body q e = JObj [(''error'', JObj
     [(''code'', JStr (map upper_char (failure_outcome e))), (''request_id'', JStr (iq_id q)),
      (''retryable'', JBool False)])]"

lemma collect_trace:
  "collect_frames chat 0 (map fst (fst (event_trace chat q False elapsed (ts, None)))) new_collected =
     Inr \<lparr>co_output = map et_text ts @ [[]],
          co_usage = JObj [(''completion_tokens'', JInt (int (sum_list (map et_count ts))))],
          co_finish = finish_name (finish_of Length ts)\<rparr>"
proof -
  obtain fs r where r: "relay_tokens chat q elapsed 0 new_relay ts = (fs, r)"
    by (cases "relay_tokens chat q elapsed 0 new_relay ts")
  have "map fst (fst (event_trace chat q False elapsed (ts, None))) =
      map (token_frame chat q) ts @ [final_frame chat q r, Done]"
    using relay_tokens_frames [of chat q elapsed 0 new_relay ts] r
    by (simp add: event_trace_def Let_def comp_def case_prod_beta)
  then show ?thesis
    using relay_tokens_count [of chat q elapsed 0 new_relay ts]
      relay_tokens_finish [of chat q elapsed 0 new_relay ts] r
    by (simp add: collect_token_frames collect_final_frame new_collected_def new_relay_def)
qed

lemma collect_failed_trace:
  assumes "e \<noteq> CancelledError"
  shows "\<exists>k. collect_frames chat 0 (map fst (fst (event_trace chat q False elapsed (ts, Some e)))) new_collected =
     Inl (k, failure_body q e)"
proof -
  obtain fs r where r: "relay_tokens chat q elapsed 0 new_relay ts = (fs, r)"
    by (cases "relay_tokens chat q elapsed 0 new_relay ts")
  have "map fst (fst (event_trace chat q False elapsed (ts, Some e))) =
      map (token_frame chat q) ts @ [failed_frame q (failure_outcome e)]"
    using relay_tokens_frames [of chat q elapsed 0 new_relay ts] r assms
    by (simp add: event_trace_def Let_def comp_def case_prod_beta)
  then show ?thesis
    by (simp add: collect_token_frames collect_failed_frame failed_frame_def failure_body_def)
qed

text \<open>The lease of an admitted request can be settled whatever the outcome.\<close>

lemma run_events_result:
  "admitted g s \<Longrightarrow> fst (run_events tr stop None s) =
     (if stop = None \<and> fst (snd tr) = ''cancelled'' then Inl CancelledError else Inr (delivered_frames stop tr))"
  by (cases s) (auto simp: run_events_def settle_events_def lease_release_def admitted_def
      admission_release_def Let_def)

lemma collect_response_result:
  assumes "admitted g s" and "fst (snd tr) \<noteq> ''cancelled''"
  shows "fst (collect_response chat q tr None s) =
     (case collect_frames chat 0 (map fst (fst tr)) new_collected of
        Inl (k, v) \<Rightarrow> Inr (Reply 502 v) | Inr c \<Rightarrow> Inr (collected_reply chat q c))"
proof -
  have "fst (seq (run_events tr stop None) (\<lambda>_. return a) s) = Inr a" for stop a
    using run_events_result [OF assms(1), of tr stop] assms(2)
    by (cases "run_events tr stop None s") (auto simp: seq_def return_def split: sum.splits)
  then show ?thesis by (auto simp: collect_response_def split: sum.splits prod.splits)
qed

lemma admit_request_collects:
  assumes "\<not> iq_stream q" and "adm_active (gw_admission g) < adm_limit (gw_admission g)"
    and "fst (snd tr) \<noteq> ''cancelled''"
  shows "fst (admit_request chat q tr cl None g) =
     (case collect_frames chat 0 (map fst (fst tr)) new_collected of
        Inl (k, v) \<Rightarrow> Inr (Reply 502 v) | Inr c \<Rightarrow> Inr (collected_reply chat q c))"
proof -
  obtain a where a: "admission_acquire (gw_admission g) = (True, a)"
    using assms(2) by (simp add: admission_acquire_def)
  let ?s = "(\<lparr>sl_released = False, sl_started = False\<rparr>, g\<lparr>gw_admission := a, gw_active := gw_active g + 1\<rparr>)"
  have "admitted g ?s" using a by (auto simp: admitted_def admission_acquire_def split: if_splits)
  note c = collect_response_result [OF this assms(3), of chat q]
  have "is_ok (fst (collect_response chat q tr None ?s))" unfolding c by (auto split: sum.splits)
  then have "fst (serve_admitted chat q tr cl None ?s) = fst (collect_response chat q tr None ?s)"
    using assms(1) by (cases "collect_response chat q tr None ?s")
      (auto simp: serve_admitted_def recover_def split: sum.splits elim!: is_okE)
  with c a show ?thesis by (simp add: admit_request_def)
qed

lemma trace_outcome:
  "fst (snd (event_trace chat q False elapsed (ts, None))) = ''success''"
  "e \<noteq> CancelledError \<Longrightarrow> fst (snd (event_trace chat q False elapsed (ts, Some e))) = failure_outcome e"
  by (simp_all add: event_trace_def Let_def case_prod_beta)

lemma failure_outcome_cases: "failure_outcome e \<in> {''timeout'', ''engine_failed''}"
  by (cases e) auto

lemma served_answer:
  assumes "\<not> iq_stream q" and "adm_active (gw_admission g) < adm_limit (gw_admission g)"
  shows "fst (admit_request chat q (event_trace chat q False elapsed (ts, None)) cl None g) =
      Inr (Reply 200 (answer chat q (concat (map et_text ts)) (finish_of Length ts) (sum_list (map et_count ts))))"
  using admit_request_collects [OF assms, of "event_trace chat q False elapsed (ts, None)" chat cl]
  by (simp add: trace_outcome collect_trace collected_reply_def answer_def Let_def)

lemma served_failure:
  assumes "\<not> iq_stream q" and "adm_active (gw_admission g) < adm_limit (gw_admission g)"
    and "e \<noteq> CancelledError"
  shows "fst (admit_request chat q (event_trace chat q False elapsed (ts, Some e)) cl None g) =
      Inr (Reply 502 (failure_body q e))"
proof -
  obtain k where "collect_frames chat 0 (map fst (fst (event_trace chat q False elapsed (ts, Some e))))
      new_collected = Inl (k, failure_body q e)" using collect_failed_trace [OF assms(3)] by blast
  then show ?thesis
    using admit_request_collects [OF assms(1,2), of "event_trace chat q False elapsed (ts, Some e)" chat cl]
      failure_outcome_cases [of e] assms(3)
    by (auto simp: trace_outcome)
qed

text \<open>C23: A client that does not stream gets what the stream carries: the concatenation of the
  token texts, the sum of the engine's counts and the last finish reason; if the engine fails,
  it gets the error object of the stream and none of the partial text.\<close>

theorem collected_reply_agrees:
  assumes "\<not> iq_stream q" and "adm_active (gw_admission g) < adm_limit (gw_admission g)"
    and "snd gen \<noteq> Some CancelledError"
  shows "fst (admit_request chat q (event_trace chat q False elapsed gen) cl None g) = Inr
     (case snd gen of
        None \<Rightarrow> Reply 200 (answer chat q (concat (map et_text (fst gen))) (finish_of Length (fst gen))
                  (sum_list (map et_count (fst gen))))
      | Some e \<Rightarrow> Reply 502 (failure_body q e))"
  using assms served_answer [OF assms(1,2), of chat elapsed "fst gen" cl]
    served_failure [OF assms(1,2), of _ chat elapsed "fst gen" cl]
  by (cases gen) (auto split: option.splits)

definition idle_gateway :: gateway where
  "idle_gateway = \<lparr>gw_admission = \<lparr>adm_limit = 1, adm_active = 0\<rparr>, gw_active = 0, gw_outcomes = [], gw_tokens = 0\<rparr>"

definition plain_request :: inference_request where
  "plain_request = stream_request\<lparr>iq_stream := False\<rparr>"

theorem collected_reply_agrees_witness:
  "fst (admit_request False plain_request (event_trace False plain_request False (\<lambda>_. 1)
       ([delta_token ''7'', \<lparr>et_text = [], et_id = None, et_count = 1, et_finish = Some Stop\<rparr>], None))
       Unstarted None idle_gateway) =
     Inr (Reply 200 (answer False plain_request ''7'' Stop 1))"
  using collected_reply_agrees [of plain_request idle_gateway
      "([delta_token ''7'', \<lparr>et_text = [], et_id = None, et_count = 1, et_finish = Some Stop\<rparr>], None)"
      False "\<lambda>_. 1" Unstarted]
  by (simp add: plain_request_def stream_request_def idle_gateway_def delta_token_def)

subsection \<open>Gateway over engine\<close>

lemma finish_of_append: "finish_of f (ts @ us) = finish_of (finish_of f ts) us"
  by (induction ts arbitrary: f) simp_all

lemma delta_tokens:
  "concat (map et_text (map delta_token ds)) = concat ds" "sum_list (map et_count (map delta_token ds)) = 0"
  "finish_of f (map delta_token ds) = f"
  by (induction ds) (simp_all add: delta_token_def)



end
