(* ===== verification/Stages.thy ===== *)
theory Stages
  imports IngressGuarantees
begin

text \<open>
  The artifact store (\<open>registry/artifacts.py\<close>, the local one) and the journal of producer
  stages over it (\<open>registry/producer_stages.py\<close>, with \<open>declare_input\<close>, \<open>start_owned\<close> and
  \<open>failed_after_drain\<close> of \<open>registry/producer_tasks.py\<close>).  SHA-256 is a parameter; files are
  a table from digests to bytes.  A journal row holds the state its JSON payload encodes next
  to the version column; the events are the payloads in the order of their keys.
\<close>

subsection \<open>Artifacts\<close>

record artifact_ref =
  af_namespace :: string
  af_sha256 :: string
  af_size :: nat

definition valid_ref :: "artifact_ref \<Rightarrow> bool" where
  "valid_ref r \<longleftrightarrow> af_namespace r \<noteq> [] \<and> is_sha256 (af_sha256 r)"

record artifact_store =
  as_namespace :: string
  as_maximum :: nat
  as_files :: "string table"

definition verify_content :: "(string \<Rightarrow> string) \<Rightarrow> string \<Rightarrow> artifact_ref \<Rightarrow> string \<Rightarrow> nat \<Rightarrow> string res" where
  "verify_content h dat r ns maximum =
     (if af_namespace r \<noteq> ns \<or> maximum < length dat then
        Inl (ValueError ''artifact namespace mismatch or size limit exceeded'')
      else if length dat \<noteq> af_size r \<or> h dat \<noteq> af_sha256 r then
        Inl (ValueError ''artifact checksum or length mismatch'')
      else Inr dat)"

text \<open>At most one byte beyond the limit is read before verification.\<close>

definition artifact_get :: "(string \<Rightarrow> string) \<Rightarrow> artifact_ref \<Rightarrow> artifact_store \<Rightarrow> string res" where
  "artifact_get h r s =
     (case lookup (as_files s) (af_sha256 r) of None \<Rightarrow> Inl (OSError ''FileNotFoundError'')
      | Some dat \<Rightarrow> verify_content h (take (as_maximum s + 1) dat) r (as_namespace s) (as_maximum s))"

definition ref_of :: "(string \<Rightarrow> string) \<Rightarrow> string \<Rightarrow> artifact_store \<Rightarrow> artifact_ref" where
  "ref_of h dat s = \<lparr>af_namespace = as_namespace s, af_sha256 = h dat, af_size = length dat\<rparr>"

definition artifact_put :: "(string \<Rightarrow> string) \<Rightarrow> string \<Rightarrow> (artifact_store, artifact_ref) action" where
  "artifact_put h dat s =
     (if as_maximum s < length dat then (Inl (ValueError ''artifact size limit exceeded''), s)
      else let s' = s\<lparr>as_files := insert_or_ignore (h dat) dat (as_files s)\<rparr> in
        (bind_res (artifact_get h (ref_of h dat s) s') (\<lambda>_. Inr (ref_of h dat s)), s'))"

subsection \<open>Stage states\<close>

datatype stage_status = Planned | Running | Failed | Completed

record stage_state =
  ss_id :: string
  ss_input :: artifact_ref
  ss_status :: stage_status
  ss_version :: nat
  ss_attempts :: nat
  ss_attempt :: "string option"
  ss_started :: "flt option"
  ss_finished :: "flt option"
  ss_output :: "artifact_ref option"
  ss_reconciliation :: "artifact_ref option"
  ss_error :: "string option"

definition error_code :: "string \<Rightarrow> bool" where
  "error_code s \<longleftrightarrow> bounded_text 1 128 s \<and> hd s \<in> set letters \<and>
     list_all (\<lambda>c. alnum_char c \<or> c = CHR ''_'') s"

definition stage_name :: "string \<Rightarrow> bool" where
  "stage_name s \<longleftrightarrow> (case split_on CHR '':'' s of
       [a, b] \<Rightarrow> bounded_text 1 128 a \<and> bounded_text 1 64 b \<and> list_all identifier_char (a @ b)
     | _ \<Rightarrow> False)"

definition stage_fields :: "stage_state \<Rightarrow> bool" where
  "stage_fields s \<longleftrightarrow> stage_name (ss_id s) \<and> valid_ref (ss_input s) \<and> ss_attempts s \<le> 32 \<and>
     opt_all (\<lambda>a. length a = 32 \<and> list_all lower_hex a) (ss_attempt s) \<and>
     opt_all (\<lambda>t. 0 < t) (ss_started s) \<and> opt_all (\<lambda>t. 0 < t) (ss_finished s) \<and>
     opt_all valid_ref (ss_output s) \<and> opt_all valid_ref (ss_reconciliation s) \<and> opt_all error_code (ss_error s)"

definition finish_after_start :: "stage_state \<Rightarrow> bool" where
  "finish_after_start s \<longleftrightarrow>
     (case (ss_started s, ss_finished s) of (Some a, Some b) \<Rightarrow> a \<le> b | _ \<Rightarrow> False)"

text \<open>\<open>coherent_attempt\<close>, in the order of its checks.\<close>

definition make_stage :: "stage_state \<Rightarrow> stage_state res" where
  "make_stage s =
     bind_res (ensure (stage_fields s) (ValueError ''invalid stage field'')) (\<lambda>_.
     bind_res (if ss_status s = Planned
       then ensure (ss_attempts s = 0 \<and> ss_attempt s = None \<and> ss_started s = None \<and> ss_finished s = None)
              (ValueError ''planned stage cannot have attempt observations'')
       else ensure (1 \<le> ss_attempts s \<and> ss_attempt s \<noteq> None \<and> ss_started s \<noteq> None)
              (ValueError ''stage outcome requires an owned attempt'')) (\<lambda>_.
     bind_res (if ss_status s \<in> {Completed, Failed}
       then ensure (finish_after_start s) (ValueError ''stage finish must follow actual start'')
       else ensure (ss_finished s = None) (ValueError ''unfinished stage cannot have a finish timestamp'')) (\<lambda>_.
     bind_res (ensure ((ss_status s = Completed) = (ss_output s \<noteq> None))
       (ValueError ''only a completed stage can publish output'')) (\<lambda>_.
     bind_res (ensure ((ss_status s = Failed) = (ss_error s \<noteq> None))
       (ValueError ''failed stages require a bounded error code'')) (\<lambda>_.
     bind_res (ensure ((ss_status s = Failed) = (ss_reconciliation s \<noteq> None))
       (ValueError ''failed stages require retained reconciliation evidence'')) (\<lambda>_. Inr s))))))"

definition planned_stage :: "string \<Rightarrow> artifact_ref \<Rightarrow> stage_state" where
  "planned_stage sid r = \<lparr>ss_id = sid, ss_input = r, ss_status = Planned, ss_version = 0, ss_attempts = 0,
     ss_attempt = None, ss_started = None, ss_finished = None, ss_output = None,
     ss_reconciliation = None, ss_error = None\<rparr>"

subsection \<open>The journal\<close>

record stage_row =
  sr_version :: nat
  sr_payload :: stage_state

record journal =
  jn_store :: artifact_store
  jn_stages :: "stage_row table"
  jn_events :: "(string \<times> stage_state) list"

definition read_stage :: "string \<Rightarrow> journal \<Rightarrow> stage_state res" where
  "read_stage sid j =
     (case lookup (jn_stages j) sid of None \<Rightarrow> Inl (Other ''NoResultFound'') | Some r \<Rightarrow> Inr (sr_payload r))"

definition require_artifact :: "(string \<Rightarrow> string) \<Rightarrow> artifact_ref \<Rightarrow> (journal, unit) action" where
  "require_artifact h r j = (bind_res (artifact_get h r (jn_store j)) (\<lambda>_. Inr ()), j)"

definition declare_body :: "stage_state \<Rightarrow> (journal, stage_state) body" where
  "declare_body s j =
     bind_res (insert_new (ss_id s) \<lparr>sr_version = 0, sr_payload = s\<rparr> (jn_stages j)) (\<lambda>rows.
     Inr (s, j\<lparr>jn_stages := rows, jn_events := jn_events j @ [(ss_id s, s)]\<rparr>))"

definition known_stage :: "string \<Rightarrow> artifact_ref \<Rightarrow> (journal, stage_state) action" where
  "known_stage sid r j =
     (bind_res (read_stage sid j) (\<lambda>actual.
        if ss_input actual \<noteq> r then Inl (RegistryConflict ''producer stage input identity changed'')
        else Inr actual), j)"

definition declare_stage :: "(string \<Rightarrow> string) \<Rightarrow> string \<Rightarrow> artifact_ref \<Rightarrow> (journal, stage_state) action" where
  "declare_stage h sid r = seq (require_artifact h r) (\<lambda>_ j.
     case make_stage (planned_stage sid r) of Inl e \<Rightarrow> (Inl e, j)
     | Inr s \<Rightarrow> recover (atomically (declare_body s))
         (\<lambda>e. if e = IntegrityError then known_stage sid r else raise e) j)"

text \<open>\<open>_save\<close>: the compare-and-swap on the version column and the appended event.\<close>

definition save_stage :: "stage_state \<Rightarrow> stage_state \<Rightarrow> (journal, stage_state) body" where
  "save_stage before after j =
     (case lookup (jn_stages j) (ss_id before) of
        None \<Rightarrow> Inl (RegistryConflict ''producer stage changed concurrently'')
      | Some r \<Rightarrow>
          if sr_version r \<noteq> ss_version before then Inl (RegistryConflict ''producer stage changed concurrently'')
          else Inr (after, j\<lparr>jn_stages := upsert (ss_id before) \<lparr>sr_version = ss_version after, sr_payload = after\<rparr> (jn_stages j),
                 jn_events := jn_events j @ [(ss_id after, after)]\<rparr>))"

definition attempt_used :: "string \<Rightarrow> string \<Rightarrow> journal \<Rightarrow> bool" where
  "attempt_used sid a j \<longleftrightarrow> (\<exists>(i, s) \<in> set (jn_events j). i = sid \<and> ss_attempt s = Some a)"

text \<open>\<open>fresh_attempt\<close> is the random identity drawn when the caller brings none.\<close>

definition start_body :: "string \<Rightarrow> string option \<Rightarrow> string \<Rightarrow> flt \<Rightarrow> (journal, stage_state) body" where
  "start_body sid attempt fresh_attempt now j =
     bind_res (read_stage sid j) (\<lambda>before.
     bind_res (ensure (ss_status before \<in> {Planned, Failed})
       (RegistryConflict ''running or completed producer stage requires reconciliation'')) (\<lambda>_.
     bind_res (ensure (\<not> (case attempt of None \<Rightarrow> False | Some a \<Rightarrow> attempt_used sid a j))
       (RegistryConflict ''producer attempt identity cannot be reused'')) (\<lambda>_.
     bind_res (make_stage ((planned_stage sid (ss_input before))
       \<lparr>ss_status := Running, ss_version := ss_version before + 1, ss_attempts := ss_attempts before + 1,
        ss_attempt := Some (case attempt of None \<Rightarrow> fresh_attempt | Some a \<Rightarrow> a), ss_started := Some now\<rparr>)) (\<lambda>after.
     save_stage before after j))))"

definition start_stage :: "(string \<Rightarrow> string) \<Rightarrow> string \<Rightarrow> string option \<Rightarrow> string \<Rightarrow> flt \<Rightarrow> (journal, stage_state) action" where
  "start_stage h sid attempt fresh_attempt now =
     seq (\<lambda>j. (read_stage sid j, j)) (\<lambda>s. seq (require_artifact h (ss_input s))
       (\<lambda>_. atomically (start_body sid attempt fresh_attempt now)))"

definition require_attempt :: "stage_state \<Rightarrow> string \<Rightarrow> unit res" where
  "require_attempt s a = ensure (ss_status s = Running \<and> ss_attempt s = Some a)
     (RegistryConflict ''producer attempt is stale or not running'')"

definition finish_body :: "string \<Rightarrow> string \<Rightarrow> artifact_ref \<Rightarrow> flt \<Rightarrow> (journal, stage_state) body" where
  "finish_body sid a out now j =
     bind_res (read_stage sid j) (\<lambda>before.
     if ss_status before = Completed \<and> ss_attempt before = Some a \<and> ss_output before = Some out then Inr (before, j)
     else bind_res (require_attempt before a) (\<lambda>_.
       bind_res (make_stage (before\<lparr>ss_status := Completed, ss_version := ss_version before + 1,
         ss_output := Some out, ss_finished := Some now\<rparr>)) (\<lambda>after. save_stage before after j)))"

definition finish_stage :: "(string \<Rightarrow> string) \<Rightarrow> string \<Rightarrow> string \<Rightarrow> artifact_ref \<Rightarrow> flt \<Rightarrow> (journal, stage_state) action" where
  "finish_stage h sid a out now = seq (require_artifact h out) (\<lambda>_. atomically (finish_body sid a out now))"

definition fail_body :: "string \<Rightarrow> string \<Rightarrow> string \<Rightarrow> artifact_ref \<Rightarrow> flt \<Rightarrow> (journal, stage_state) body" where
  "fail_body sid a code evidence now j =
     bind_res (read_stage sid j) (\<lambda>before.
     bind_res (require_attempt before a) (\<lambda>_.
     bind_res (make_stage (before\<lparr>ss_status := Failed, ss_version := ss_version before + 1, ss_error := Some code,
       ss_reconciliation := Some evidence, ss_finished := Some now\<rparr>)) (\<lambda>after. save_stage before after j)))"

definition fail_stage :: "(string \<Rightarrow> string) \<Rightarrow> string \<Rightarrow> string \<Rightarrow> string \<Rightarrow> artifact_ref \<Rightarrow> flt \<Rightarrow> (journal, stage_state) action" where
  "fail_stage h sid a code evidence now = seq (require_artifact h evidence) (\<lambda>_. atomically (fail_body sid a code evidence now))"

definition stage_history :: "string \<Rightarrow> journal \<Rightarrow> stage_state list" where
  "stage_history sid j = map snd (filter (\<lambda>(i, s). i = sid) (jn_events j))"

subsection \<open>Owned attempts\<close>

definition store_artifact :: "(string \<Rightarrow> string) \<Rightarrow> string \<Rightarrow> (journal, artifact_ref) action" where
  "store_artifact h dat j = (case artifact_put h dat (jn_store j) of (r, s) \<Rightarrow> (r, j\<lparr>jn_store := s\<rparr>))"

definition declare_input :: "(string \<Rightarrow> string) \<Rightarrow> string \<Rightarrow> string \<Rightarrow> (journal, stage_state) action" where
  "declare_input h sid dat = seq (store_artifact h dat) (declare_stage h sid)"

text \<open>The proof of drained work is the text \<open>proof_json\<close> renders.\<close>

definition failed_after_drain :: "(string \<Rightarrow> string) \<Rightarrow> (string \<Rightarrow> string \<Rightarrow> string) \<Rightarrow> string \<Rightarrow> string \<Rightarrow> string \<Rightarrow> flt
    \<Rightarrow> (journal, unit) action" where
  "failed_after_drain h proof_json sid a code now =
     seq (\<lambda>j. (read_stage sid j, j)) (\<lambda>s.
       if ss_status s \<noteq> Running \<or> ss_attempt s \<noteq> Some a then return ()
       else seq (store_artifact h (proof_json a code)) (\<lambda>evidence.
         seq (fail_stage h sid a code evidence now) (\<lambda>_. return ())))"

text \<open>\<open>owned_disk\<close>: a cancellation waits for the worker, whose outcome is dropped, and then goes on.
  A start that is cancelled is reconciled first; \<open>cancelled\<close> says that the cancellation arrives
  while the start runs on its worker thread.\<close>

definition drained :: "(journal, 'a) action \<Rightarrow> (journal, unit) action" where
  "drained f = recover (seq f (\<lambda>_. return ())) (\<lambda>_. return ())"

definition start_owned :: "(string \<Rightarrow> string) \<Rightarrow> (string \<Rightarrow> string \<Rightarrow> string) \<Rightarrow> string \<Rightarrow> string \<Rightarrow> flt \<Rightarrow> bool
    \<Rightarrow> (journal, stage_state) action" where
  "start_owned h proof_json sid token now cancelled =
     (if cancelled
      then seq (drained (start_stage h sid (Some token) token now)) (\<lambda>_.
        seq (failed_after_drain h proof_json sid token ''CancelledBeforeAction'' now) (\<lambda>_. raise CancelledError))
      else start_stage h sid (Some token) token now)"

end
