(* ===== verification/StageGuarantees.thy ===== *)
theory StageGuarantees
  imports Stages
begin

text \<open>
  The journal's guarantees: every operation appends at most one event, which moves one stage along
  the attempt graph; histories are therefore paths, and a completed stage is final.
\<close>

subsection \<open>Operations as journal changes\<close>

definition unchanged :: "journal \<Rightarrow> journal \<Rightarrow> bool" where
  "unchanged j j' \<longleftrightarrow> jn_stages j' = jn_stages j \<and> jn_events j' = jn_events j"

text \<open>The edges of the attempt graph.\<close>

definition stage_step :: "stage_state \<Rightarrow> stage_state \<Rightarrow> bool" where
  "stage_step b a \<longleftrightarrow> ss_id a = ss_id b \<and> ss_input a = ss_input b \<and> ss_version a = ss_version b + 1 \<and>
     (ss_status b \<in> {Planned, Failed} \<and> ss_status a = Running \<and> ss_attempts a = ss_attempts b + 1 \<or>
      ss_status b = Running \<and> ss_status a \<in> {Completed, Failed} \<and> ss_attempts a = ss_attempts b \<and>
        ss_attempt a = ss_attempt b)"

definition attempt_path :: "stage_state list \<Rightarrow> bool" where
  "attempt_path hs \<longleftrightarrow> hs \<noteq> [] \<and> hd hs = planned_stage (ss_id (hd hs)) (ss_input (hd hs)) \<and>
     successively stage_step hs"

definition stage_ok :: "journal \<Rightarrow> string \<Rightarrow> bool" where
  "stage_ok j sid \<longleftrightarrow>
     (case lookup (jn_stages j) sid of None \<Rightarrow> stage_history sid j = []
      | Some r \<Rightarrow> sr_version r = ss_version (sr_payload r) \<and> ss_id (sr_payload r) = sid \<and>
          attempt_path (stage_history sid j) \<and> last (stage_history sid j) = sr_payload r)"

definition journal_ok :: "journal \<Rightarrow> bool" where
  "journal_ok j \<longleftrightarrow> (\<forall>sid. stage_ok j sid)"

definition declared :: "journal \<Rightarrow> journal \<Rightarrow> stage_state \<Rightarrow> bool" where
  "declared j j' s \<longleftrightarrow> lookup (jn_stages j) (ss_id s) = None \<and> s = planned_stage (ss_id s) (ss_input s) \<and>
     jn_stages j' = jn_stages j @ [(ss_id s, \<lparr>sr_version = 0, sr_payload = s\<rparr>)] \<and>
     jn_events j' = jn_events j @ [(ss_id s, s)]"

definition moved :: "journal \<Rightarrow> journal \<Rightarrow> stage_state \<Rightarrow> stage_state \<Rightarrow> bool" where
  "moved j j' b a \<longleftrightarrow> lookup (jn_stages j) (ss_id b) = Some \<lparr>sr_version = ss_version b, sr_payload = b\<rparr> \<and>
     stage_step b a \<and>
     jn_stages j' = upsert (ss_id b) \<lparr>sr_version = ss_version a, sr_payload = a\<rparr> (jn_stages j) \<and>
     jn_events j' = jn_events j @ [(ss_id a, a)]"

definition change :: "journal \<Rightarrow> journal \<Rightarrow> bool" where
  "change j j' \<longleftrightarrow> unchanged j j' \<or> (\<exists>s. declared j j' s) \<or> (\<exists>b a. moved j j' b a)"

lemma change_refl [intro]: "unchanged j j' \<Longrightarrow> change j j'"
  by (simp add: change_def)

lemma history_append:
  "jn_events j' = jn_events j @ [(i, s)] \<Longrightarrow>
     stage_history sid j' = stage_history sid j @ (if i = sid then [s] else [])"
  by (simp add: stage_history_def)

lemma declared_ok: "journal_ok j \<Longrightarrow> declared j j' s \<Longrightarrow> journal_ok j'"
proof -
  assume ok: "journal_ok j" and d: "declared j j' s"
  have "stage_ok j' sid" for sid
  proof -
    have o: "stage_ok j sid" using ok by (simp add: journal_ok_def)
    have look: "lookup (jn_stages j') sid =
        (if sid = ss_id s then Some \<lparr>sr_version = 0, sr_payload = s\<rparr> else lookup (jn_stages j) sid)"
      using d lookup_append_new [of "jn_stages j" "ss_id s"] by (simp add: declared_def del: map_of_append)
    have hist: "stage_history sid j' = stage_history sid j @ (if ss_id s = sid then [s] else [])"
      using d by (intro history_append) (simp add: declared_def)
    have v: "ss_version s = 0" using d by (metis declared_def planned_stage_def stage_state.select_convs(4))
    show ?thesis
    proof (cases "sid = ss_id s")
      case True
      with d o have "stage_history sid j = []" by (simp add: stage_ok_def declared_def)
      with True look hist v d show ?thesis by (simp add: stage_ok_def attempt_path_def declared_def)
    next
      case False
      with o look hist show ?thesis by (simp add: stage_ok_def split: option.splits)
    qed
  qed
  then show ?thesis by (simp add: journal_ok_def)
qed

lemma moved_ok: "journal_ok j \<Longrightarrow> moved j j' b a \<Longrightarrow> journal_ok j'"
proof -
  assume ok: "journal_ok j" and m: "moved j j' b a"
  then have id: "ss_id a = ss_id b" by (simp add: moved_def stage_step_def)
  have "stage_ok j' sid" for sid
  proof -
    have o: "stage_ok j sid" using ok by (simp add: journal_ok_def)
    have look: "lookup (jn_stages j') sid =
        (if sid = ss_id b then Some \<lparr>sr_version = ss_version a, sr_payload = a\<rparr> else lookup (jn_stages j) sid)"
      using m by (simp add: moved_def lookup_upsert)
    have hist: "stage_history sid j' = stage_history sid j @ (if ss_id a = sid then [a] else [])"
      using m by (intro history_append) (simp add: moved_def)
    show ?thesis
    proof (cases "sid = ss_id b")
      case True
      with m o have p: "attempt_path (stage_history sid j)" "last (stage_history sid j) = b"
        by (simp_all add: stage_ok_def moved_def)
      then have "attempt_path (stage_history sid j @ [a])"
        using m by (auto simp: attempt_path_def successively_append_iff moved_def hd_append)
      with True id look hist show ?thesis by (simp add: stage_ok_def)
    next
      case False
      with o id look hist show ?thesis by (simp add: stage_ok_def split: option.splits)
    qed
  qed
  then show ?thesis by (simp add: journal_ok_def)
qed

lemma unchanged_ok: "journal_ok j \<Longrightarrow> unchanged j j' \<Longrightarrow> journal_ok j'"
proof -
  assume ok: "journal_ok j" and u: "unchanged j j'"
  have "stage_ok j' = stage_ok j" using u by (intro ext) (simp add: unchanged_def stage_ok_def stage_history_def cong: option.case_cong)
  with ok show ?thesis by (simp add: journal_ok_def)
qed

lemma change_ok: "journal_ok j \<Longrightarrow> change j j' \<Longrightarrow> journal_ok j'"
  unfolding change_def using unchanged_ok declared_ok moved_ok by blast

text \<open>Completed stages do not move.\<close>

lemma change_keeps_completed:
  assumes "change j j'" and "lookup (jn_stages j) sid = Some r" and "ss_status (sr_payload r) = Completed"
  shows "lookup (jn_stages j') sid = Some r"
  using assms
  by (auto simp: change_def unchanged_def declared_def moved_def stage_step_def lookup_upsert
      simp del: map_of_append simp add: lookup_append_new)

subsection \<open>Every operation is a change\<close>

lemma make_stage_Inr: "make_stage s = Inr s' \<Longrightarrow> s' = s"
  by (auto simp: make_stage_def res_iff)

lemma read_stage_ok:
  assumes "journal_ok j" and "read_stage sid j = Inr b"
  shows "ss_id b = sid \<and> lookup (jn_stages j) sid = Some \<lparr>sr_version = ss_version b, sr_payload = b\<rparr>"
proof -
  from assms(2) obtain r where r: "lookup (jn_stages j) sid = Some r" "sr_payload r = b"
    by (auto simp: read_stage_def split: option.splits)
  moreover have "stage_ok j sid" using assms(1) by (simp add: journal_ok_def)
  ultimately show ?thesis by (cases r) (simp add: stage_ok_def)
qed

lemma save_stage_moves:
  assumes "journal_ok j" and "read_stage sid j = Inr b" and "save_stage b a j = Inr (s, j')"
    and "stage_step b a"
  shows "change j j' \<and> s = a"
proof -
  from read_stage_ok [OF assms(1,2)] have "ss_id b = sid"
    "lookup (jn_stages j) (ss_id b) = Some \<lparr>sr_version = ss_version b, sr_payload = b\<rparr>" by simp_all
  with assms(3,4) have "moved j j' b a" "s = a"
    by (auto simp: save_stage_def moved_def)
  then show ?thesis by (auto simp: change_def)
qed

lemma start_body_change:
  assumes "journal_ok j" and "start_body sid attempt f now j = Inr (s, j')"
  shows "change j j'"
proof -
  from assms(2) obtain b a where b: "read_stage sid j = Inr b" "ss_status b \<in> {Planned, Failed}"
    "save_stage b a j = Inr (s, j')" "a = (planned_stage sid (ss_input b))
       \<lparr>ss_status := Running, ss_version := ss_version b + 1, ss_attempts := ss_attempts b + 1,
        ss_attempt := Some (case attempt of None \<Rightarrow> f | Some a \<Rightarrow> a), ss_started := Some now\<rparr>"
    unfolding start_body_def res_iff by (blast dest: make_stage_Inr)
  moreover have "ss_id b = sid" using read_stage_ok [OF assms(1) b(1)] by simp
  ultimately show ?thesis
    using save_stage_moves [OF assms(1) b(1,3)] by (simp add: stage_step_def planned_stage_def)
qed

lemma finish_body_change:
  assumes "journal_ok j" and "finish_body sid tok out now j = Inr (s, j')"
  shows "change j j' \<and> ss_status s = Completed \<and> ss_id s = sid"
proof -
  from assms(2) obtain b where b: "read_stage sid j = Inr b" by (auto simp: finish_body_def res_iff)
  have id: "ss_id b = sid" using read_stage_ok [OF assms(1) b] by simp
  show ?thesis
  proof (cases "ss_status b = Completed \<and> ss_attempt b = Some tok \<and> ss_output b = Some out")
    case True
    with assms(2) b id show ?thesis by (auto simp: finish_body_def unchanged_def)
  next
    case False
    with assms(2) b obtain a where a: "ss_status b = Running" "save_stage b a j = Inr (s, j')"
      "a = b\<lparr>ss_status := Completed, ss_version := ss_version b + 1, ss_output := Some out, ss_finished := Some now\<rparr>"
      by (auto simp: finish_body_def res_iff require_attempt_def dest!: make_stage_Inr)
    then have "change j j' \<and> s = a"
      by (intro save_stage_moves [OF assms(1) b]) (simp_all add: stage_step_def)
    with a id show ?thesis by simp
  qed
qed

lemma fail_body_change:
  assumes "journal_ok j" and "fail_body sid tok code ev now j = Inr (s, j')"
  shows "change j j'"
proof -
  from assms(2) obtain b a where b: "read_stage sid j = Inr b" "ss_status b = Running"
    "save_stage b a j = Inr (s, j')" "a = b\<lparr>ss_status := Failed, ss_version := ss_version b + 1,
       ss_error := Some code, ss_reconciliation := Some ev, ss_finished := Some now\<rparr>"
    by (auto simp: fail_body_def res_iff require_attempt_def dest!: make_stage_Inr)
  then show ?thesis using save_stage_moves [OF assms(1) b(1,3)] by (simp add: stage_step_def)
qed

lemma declare_body_change:
  assumes "declare_body (planned_stage sid r) j = Inr (s, j')"
  shows "change j j' \<and> s = planned_stage sid r"
proof -
  have "declared j j' (planned_stage sid r)" "s = planned_stage sid r"
    using assms by (auto simp: declare_body_def res_iff insert_new_def declared_def planned_stage_def
        split: if_splits)
  then show ?thesis by (auto simp: change_def)
qed

subsection \<open>Actions\<close>

text \<open>What any sequence of journal operations keeps: the invariant and every completed stage.\<close>

definition extends :: "journal \<Rightarrow> journal \<Rightarrow> bool" where
  "extends j j' \<longleftrightarrow> (journal_ok j \<longrightarrow> journal_ok j') \<and>
     (\<forall>sid r. journal_ok j \<longrightarrow> lookup (jn_stages j) sid = Some r \<longrightarrow> ss_status (sr_payload r) = Completed \<longrightarrow>
        lookup (jn_stages j') sid = Some r)"

lemma extends_refl [simp, intro]: "extends j j"
  by (simp add: extends_def)

lemma extends_trans: "extends j j' \<Longrightarrow> extends j' j'' \<Longrightarrow> extends j j''"
  unfolding extends_def by blast

lemma extends_change: "(journal_ok j \<Longrightarrow> change j j') \<Longrightarrow> extends j j'"
  unfolding extends_def using change_ok change_keeps_completed by blast

lemma extends_unchanged: "unchanged j j' \<Longrightarrow> extends j j'"
  by (rule extends_change) auto

text \<open>An action extends the journal whatever its outcome.\<close>

definition safe_action :: "(journal, 'a) action \<Rightarrow> bool" where
  "safe_action f \<longleftrightarrow> (\<forall>j. extends j (snd (f j)))"

lemma safe_actionD: "safe_action f \<Longrightarrow> f j = (r, j') \<Longrightarrow> extends j j'"
  unfolding safe_action_def by (metis snd_conv)

lemma safe_seq [intro]: "safe_action f \<Longrightarrow> (\<And>a. safe_action (g a)) \<Longrightarrow> safe_action (seq f g)"
  unfolding safe_action_def
  by (intro allI seq_rel [where R = extends]) (auto intro: extends_trans)

lemma safe_recover [intro]: "safe_action f \<Longrightarrow> (\<And>e. safe_action (h e)) \<Longrightarrow> safe_action (recover f h)"
  unfolding safe_action_def
  by (intro allI recover_rel [where R = extends]) (auto intro: extends_trans)

lemma safe_return [intro, simp]: "safe_action (return a)"
  by (simp add: safe_action_def return_def)

lemma safe_raise [intro, simp]: "safe_action (raise e)"
  by (simp add: safe_action_def raise_def)

lemma safe_query [intro, simp]: "safe_action (\<lambda>j. (f j, j))"
  by (simp add: safe_action_def)

lemma safe_if [intro]: "safe_action f \<Longrightarrow> safe_action g \<Longrightarrow> safe_action (if b then f else g)"
  by simp

lemma safe_atomically:
  "(\<And>j a j'. journal_ok j \<Longrightarrow> f j = Inr (a, j') \<Longrightarrow> change j j') \<Longrightarrow> safe_action (atomically f)"
  unfolding safe_action_def atomically_def
  by (auto split: sum.splits intro!: extends_change)

lemma safe_require_artifact [intro, simp]: "safe_action (require_artifact h r)"
  unfolding require_artifact_def [abs_def] by simp

lemma safe_store_artifact [intro, simp]: "safe_action (store_artifact h dat)"
  unfolding safe_action_def
  by (auto simp: store_artifact_def unchanged_def intro!: extends_unchanged split: prod.splits)

lemma safe_declare_stage [intro, simp]: "safe_action (declare_stage h sid r)"
proof -
  have known: "safe_action (known_stage sid r)" unfolding known_stage_def [abs_def] by simp
  have body: "safe_action (atomically (declare_body (planned_stage sid r)))"
    by (rule safe_atomically) (simp add: declare_body_change)
  have "safe_action (recover (atomically (declare_body (planned_stage sid r)))
      (\<lambda>e. if e = IntegrityError then known_stage sid r else raise e))"
    using body known by (intro safe_recover safe_if) auto
  then have "safe_action (\<lambda>j. case make_stage (planned_stage sid r) of Inl e \<Rightarrow> (Inl e, j)
     | Inr s \<Rightarrow> recover (atomically (declare_body s))
         (\<lambda>e. if e = IntegrityError then known_stage sid r else raise e) j)"
    unfolding safe_action_def by (auto split: sum.splits dest!: make_stage_Inr)
  then show ?thesis unfolding declare_stage_def by (intro safe_seq) auto
qed

lemma safe_start_stage [intro, simp]: "safe_action (start_stage h sid attempt f now)"
  unfolding start_stage_def using start_body_change by (intro safe_seq safe_atomically) auto

lemma safe_finish_stage [intro, simp]: "safe_action (finish_stage h sid tok out now)"
  unfolding finish_stage_def using finish_body_change by (intro safe_seq safe_atomically) auto

lemma safe_fail_stage [intro, simp]: "safe_action (fail_stage h sid tok code ev now)"
  unfolding fail_stage_def using fail_body_change by (intro safe_seq safe_atomically) auto

lemma safe_declare_input [intro, simp]: "safe_action (declare_input h sid dat)"
  unfolding declare_input_def by (intro safe_seq) auto

lemma safe_failed_after_drain [intro, simp]: "safe_action (failed_after_drain h pj sid tok code now)"
  unfolding failed_after_drain_def by (intro safe_seq safe_if) auto

lemma safe_start_owned [intro, simp]: "safe_action (start_owned h pj sid tok now c)"
  unfolding start_owned_def drained_def by (intro safe_if safe_recover safe_seq) auto

subsection \<open>Histories\<close>

datatype stage_op =
    Declare string string
  | Start string string flt bool
  | Finish string string artifact_ref flt
  | Fail string string string artifact_ref flt
  | Drain string string string flt

fun do_stage_op :: "(string \<Rightarrow> string) \<Rightarrow> (string \<Rightarrow> string \<Rightarrow> string) \<Rightarrow> stage_op \<Rightarrow> journal \<Rightarrow> journal" where
  "do_stage_op h pj (Declare sid dat) j = snd (declare_input h sid dat j)"
| "do_stage_op h pj (Start sid tok now c) j = snd (start_owned h pj sid tok now c j)"
| "do_stage_op h pj (Finish sid tok out now) j = snd (finish_stage h sid tok out now j)"
| "do_stage_op h pj (Fail sid tok code ev now) j = snd (fail_stage h sid tok code ev now j)"
| "do_stage_op h pj (Drain sid tok code now) j = snd (failed_after_drain h pj sid tok code now j)"

definition stage_ops :: "(string \<Rightarrow> string) \<Rightarrow> (string \<Rightarrow> string \<Rightarrow> string) \<Rightarrow> stage_op list \<Rightarrow> journal \<Rightarrow> journal" where
  "stage_ops h pj ops j = fold (do_stage_op h pj) ops j"

definition empty_journal :: "artifact_store \<Rightarrow> journal" where
  "empty_journal s = \<lparr>jn_store = s, jn_stages = [], jn_events = []\<rparr>"

lemma stage_op_extends: "extends j (do_stage_op h pj op j)"
  using safe_declare_input safe_start_owned safe_finish_stage safe_fail_stage safe_failed_after_drain
  by (cases op) (simp_all add: safe_action_def)

lemma stage_ops_extends: "extends j (stage_ops h pj ops j)"
  unfolding stage_ops_def
proof (induction ops arbitrary: j)
  case (Cons op ops)
  show ?case using extends_trans [OF stage_op_extends Cons.IH] by simp
qed simp

lemma empty_journal_ok: "journal_ok (empty_journal s)"
  by (simp add: journal_ok_def stage_ok_def empty_journal_def stage_history_def)

text \<open>C25: In every reachable journal the history of a declared stage starts with its planned state
  and follows the attempt graph event by event: versions count up by one, the input never
  changes, only a planned or failed stage starts a new attempt, and only the running attempt is
  completed or failed; the row is the last event.\<close>

theorem stage_history_is_path:
  assumes "lookup (jn_stages (stage_ops h pj ops (empty_journal s))) sid = Some r"
  shows "attempt_path (stage_history sid (stage_ops h pj ops (empty_journal s))) \<and>
    last (stage_history sid (stage_ops h pj ops (empty_journal s))) = sr_payload r \<and>
    sr_version r = ss_version (sr_payload r)"
proof -
  have "journal_ok (stage_ops h pj ops (empty_journal s))"
    using stage_ops_extends [of "empty_journal s" h pj ops] empty_journal_ok by (simp add: extends_def)
  then have "stage_ok (stage_ops h pj ops (empty_journal s)) sid" by (simp add: journal_ok_def)
  with assms show ?thesis by (simp add: stage_ok_def)
qed

text \<open>C26: A completed stage is final: no operation, of whatever attempt and in whatever order,
  changes its row, so its receipt is published by exactly one attempt.\<close>

theorem completed_stage_is_final:
  assumes "j = stage_ops h pj ops (empty_journal s)"
    and "lookup (jn_stages j) sid = Some r" and "ss_status (sr_payload r) = Completed"
  shows "lookup (jn_stages (stage_ops h pj later j)) sid = Some r"
proof -
  have "journal_ok j"
    using stage_ops_extends [of "empty_journal s" h pj ops] empty_journal_ok assms(1)
    by (simp add: extends_def)
  then show ?thesis using stage_ops_extends [of j h pj later] assms(2,3) unfolding extends_def by blast
qed

subsection \<open>A concrete journal\<close>

text \<open>A stage that is declared, started and completed; later attempts do not change it.\<close>

definition demo_hash :: "string \<Rightarrow> string" where
  "demo_hash dat = replicate 64 (CHR ''a'')"

definition demo_store :: artifact_store where
  "demo_store = \<lparr>as_namespace = ''n'', as_maximum = 8, as_files = []\<rparr>"

definition demo_token :: string where
  "demo_token = replicate 32 (CHR ''b'')"

definition journal_ops :: "stage_op list" where
  "journal_ops = [Declare ''m:p'' ''x'', Start ''m:p'' demo_token 1 False,
     Finish ''m:p'' demo_token \<lparr>af_namespace = ''n'', af_sha256 = demo_hash ''x'', af_size = 1\<rparr> 2]"

definition demo_row :: stage_row where
  "demo_row = \<lparr>sr_version = 2, sr_payload = (planned_stage ''m:p''
      \<lparr>af_namespace = ''n'', af_sha256 = demo_hash ''x'', af_size = 1\<rparr>)
     \<lparr>ss_status := Completed, ss_version := 2, ss_attempts := 1, ss_attempt := Some demo_token,
      ss_started := Some 1, ss_finished := Some 2,
      ss_output := Some \<lparr>af_namespace = ''n'', af_sha256 = demo_hash ''x'', af_size = 1\<rparr>\<rparr>\<rparr>"

lemmas stage_eval = demo_hash_def demo_store_def demo_token_def stage_ops_def journal_ops_def
  empty_journal_def declare_input_def store_artifact_def artifact_put_def artifact_get_def ref_of_def
  verify_content_def insert_or_ignore_def declare_stage_def require_artifact_def make_stage_def
  stage_fields_def planned_stage_def stage_name_def bounded_text_def identifier_char_def alnum_char_def
  valid_ref_def is_sha256_def lower_hex_def declare_body_def insert_new_def recover_def seq_def
  atomically_def start_owned_def start_stage_def start_body_def read_stage_def attempt_used_def
  save_stage_def finish_stage_def finish_body_def require_attempt_def finish_after_start_def
  error_code_def

lemma demo_completed:
  "lookup (jn_stages (stage_ops demo_hash (\<lambda>_ _. []) journal_ops (empty_journal demo_store))) ''m:p'' = Some demo_row"
  by (simp add: stage_eval demo_row_def numeral_eq_Suc)

theorem stage_history_is_path_witness:
  "attempt_path (stage_history ''m:p'' (stage_ops demo_hash (\<lambda>_ _. []) journal_ops (empty_journal demo_store)))"
  using stage_history_is_path [OF demo_completed] by blast

theorem completed_stage_is_final_witness:
  "lookup (jn_stages (stage_ops demo_hash (\<lambda>_ _. []) [Start ''m:p'' (replicate 32 (CHR ''c'')) 3 False]
     (stage_ops demo_hash (\<lambda>_ _. []) journal_ops (empty_journal demo_store)))) ''m:p'' = Some demo_row"
  by (rule completed_stage_is_final [OF refl demo_completed]) (simp add: demo_row_def)

end
