(* ===== verification/Quality.thy ===== *)
theory Quality
  imports StageGuarantees
begin

text \<open>
  The quality evaluator (\<open>evaluation/quality.py\<close>) and the promotion gate over it
  (\<open>reliability/promotion.py\<close>).  Parsing and canonical encoding of JSON, SHA-256, and the
  validation of benchmark evidence (\<open>benchmark/runner.py\<close>) are parameters.
\<close>

subsection \<open>Golden cases\<close>

datatype answer_kind = Exact | Structured

record golden_case =
  gcs_id :: string
  gcs_family :: string
  gcs_prompt :: string
  gcs_expected :: string
  gcs_kind :: answer_kind

record golden_suite =
  gst_id :: string
  gst_version :: string
  gst_cases :: "golden_case list"

definition make_suite :: "golden_suite \<Rightarrow> golden_suite res" where
  "make_suite s =
     (if gst_cases s = [] then Inl (ValueError ''cases'')
      else if length (remdups (map gcs_id (gst_cases s))) \<noteq> length (gst_cases s)
      then Inl (ValueError ''duplicate golden case identifiers'') else Inr s)"

record quality_config =
  qc_parity :: flt
  qc_accuracy :: flt

definition valid_quality_config :: "quality_config \<Rightarrow> bool" where
  "valid_quality_config c \<longleftrightarrow> 0 \<le> qc_parity c \<and> qc_parity c \<le> 1 \<and> 0 \<le> qc_accuracy c \<and> qc_accuracy c \<le> 1"

text \<open>The library side: the parser with the hook for constants, the canonical encoder, the hash and
  the rendering of a suite.\<close>

record quality_codec =
  qk_parse :: json_parser
  qk_dump :: "json \<Rightarrow> string"
  qk_hash :: "string \<Rightarrow> string"
  qk_suite_json :: "golden_suite \<Rightarrow> string"

definition suite_digest :: "quality_codec \<Rightarrow> golden_suite \<Rightarrow> string" where
  "suite_digest k s = qk_hash k (qk_suite_json k s)"

subsection \<open>Canonical answers\<close>

text \<open>\<open>parse_constant\<close> refuses NaN and infinities wherever they occur.\<close>

definition reject_nonfinite :: "string \<Rightarrow> json res" where
  "reject_nonfinite v = Inl (ValueError (''nonfinite JSON constant: '' @ v))"

fun finite_json :: "json \<Rightarrow> json res"
  and finite_list :: "json list \<Rightarrow> json list res"
  and finite_pairs :: "(string \<times> json) list \<Rightarrow> (string \<times> json) list res" where
  "finite_json (JNonFinite v) = reject_nonfinite v"
| "finite_json (JArr xs) = bind_res (finite_list xs) (\<lambda>ys. Inr (JArr ys))"
| "finite_json (JObj ps) = bind_res (finite_pairs ps) (\<lambda>qs. Inr (JObj qs))"
| "finite_json v = Inr v"
| "finite_list [] = Inr []"
| "finite_list (x # xs) = bind_res (finite_json x) (\<lambda>y. bind_res (finite_list xs) (\<lambda>ys. Inr (y # ys)))"
| "finite_pairs [] = Inr []"
| "finite_pairs ((k, x) # ps) =
     bind_res (finite_json x) (\<lambda>y. bind_res (finite_pairs ps) (\<lambda>qs. Inr ((k, y) # qs)))"

definition unique_answer :: pairs_hook where
  "unique_answer = collect_unique ''duplicate JSON key'' []"

definition canonical_answer :: "quality_codec \<Rightarrow> string \<Rightarrow> answer_kind \<Rightarrow> string res" where
  "canonical_answer k v kind =
     (if kind = Exact then Inr (strip v)
      else bind_res (bind_res (qk_parse k v) finite_json) (\<lambda>raw. bind_res (hooked unique_answer raw) (\<lambda>parsed.
        case parsed of JObj d \<Rightarrow> Inr (qk_dump k (JObj d))
        | _ \<Rightarrow> Inl (ValueError ''structured answer must be a JSON object''))))"

subsection \<open>Evaluation\<close>

record quality_row =
  qr_case :: string
  qr_family :: string
  qr_parity :: bool
  qr_correct :: bool
  qr_reference :: bool

definition answer_of :: "quality_codec \<Rightarrow> (string \<times> string) list \<Rightarrow> golden_case \<Rightarrow> string res" where
  "answer_of k outs c =
     (case lookup outs (gcs_id c) of None \<Rightarrow> Inl (KeyError (gcs_id c))
      | Some v \<Rightarrow> canonical_answer k v (gcs_kind c))"

text \<open>The body of the \<open>try\<close>: parity, correctness, and correctness of the reference.\<close>

definition compare_answers :: "quality_codec \<Rightarrow> (string \<times> string) list \<Rightarrow> (string \<times> string) list \<Rightarrow> golden_case
    \<Rightarrow> (bool \<times> bool \<times> bool) res" where
  "compare_answers k reference candidate c =
     bind_res (canonical_answer k (gcs_expected c) (gcs_kind c)) (\<lambda>expected.
     bind_res (answer_of k reference c) (\<lambda>r.
     bind_res (answer_of k candidate c) (\<lambda>a. Inr (a = r, a = expected, r = expected))))"

text \<open>Only these exceptions are caught; the parser raises no other.\<close>

definition caught_answer :: "py_error \<Rightarrow> bool" where
  "caught_answer e \<longleftrightarrow> (case e of KeyError _ \<Rightarrow> True | ValueError _ \<Rightarrow> True | TypeError _ \<Rightarrow> True | _ \<Rightarrow> False)"

definition evaluate_case :: "quality_codec \<Rightarrow> (string \<times> string) list \<Rightarrow> (string \<times> string) list \<Rightarrow> golden_case
    \<Rightarrow> (quality_row \<times> string list) res" where
  "evaluate_case k reference candidate c =
     (case compare_answers k reference candidate c of
        Inl e \<Rightarrow>
          if caught_answer e then
            Inr (\<lparr>qr_case = gcs_id c, qr_family = gcs_family c, qr_parity = False, qr_correct = False, qr_reference = False\<rparr>,
              [gcs_id c @ '':missing_or_invalid_output'', gcs_id c @ '':incorrect_answer''])
          else Inl e
      | Inr (parity, correct, rcorrect) \<Rightarrow>
          Inr (\<lparr>qr_case = gcs_id c, qr_family = gcs_family c, qr_parity = parity, qr_correct = correct, qr_reference = rcorrect\<rparr>,
            if correct then [] else [gcs_id c @ '':incorrect_answer'']))"

definition set_mismatch :: "golden_suite \<Rightarrow> string \<Rightarrow> (string \<times> string) list \<Rightarrow> string list" where
  "set_mismatch suite label results =
     (if same_names (map fst results) (map gcs_id (gst_cases suite)) then [] else [label @ ''_case_set_mismatch''])"

definition share :: "(quality_row \<Rightarrow> bool) \<Rightarrow> quality_row list \<Rightarrow> flt" where
  "share P rows = int_div (length (filter P rows)) (length rows)"

record quality_result =
  qx_suite :: string
  qx_hash :: string
  qx_version :: string
  qx_config :: quality_config
  qx_count :: nat
  qx_parity :: flt
  qx_accuracy :: flt
  qx_reference_accuracy :: flt
  qx_failures :: "string list"
  qx_rows :: "quality_row list"
  qx_passed :: bool

definition evaluate_quality :: "quality_codec \<Rightarrow> golden_suite \<Rightarrow> (string \<times> string) list \<Rightarrow> (string \<times> string) list
    \<Rightarrow> quality_config \<Rightarrow> quality_result res" where
  "evaluate_quality k suite reference candidate cfg =
     bind_res (each_res (evaluate_case k reference candidate) (gst_cases suite)) (\<lambda>results.
     let rows = map fst results;
         failures = set_mismatch suite ''reference'' reference @ set_mismatch suite ''candidate'' candidate @
           concat (map snd results);
         parity = share qr_parity rows; accuracy = share qr_correct rows in
     if rows = [] then Inl ZeroDivisionError
     else Inr \<lparr>qx_suite = gst_id suite, qx_hash = suite_digest k suite, qx_version = gst_version suite, qx_config = cfg,
       qx_count = length rows, qx_parity = parity, qx_accuracy = accuracy,
       qx_reference_accuracy = share qr_reference rows, qx_failures = failures, qx_rows = rows,
       qx_passed = (failures = [] \<and> qc_parity cfg \<le> parity \<and> qc_accuracy cfg \<le> accuracy)\<rparr>)"

record parity_report =
  pr_cases :: nat
  pr_matches :: nat
  pr_parity :: flt

definition evaluate_output_parity :: "string list \<Rightarrow> string list \<Rightarrow> parity_report res" where
  "evaluate_output_parity reference candidate =
     (if reference = [] \<or> length reference \<noteq> length candidate
      then Inl (ValueError ''parity requires nonempty equally sized output sequences'')
      else let n = length (filter (\<lambda>(l, r). l = r) (zip reference candidate)) in
        Inr \<lparr>pr_cases = length reference, pr_matches = n, pr_parity = int_div n (length reference)\<rparr>)"

text \<open>What passing means: the case sets agree and every case is answered as expected.\<close>

lemma evaluate_case_Inr:
  "evaluate_case k reference candidate c = Inr (row, fails) \<Longrightarrow> qr_case row = gcs_id c \<and>
     (fails = [] \<longleftrightarrow> qr_correct row) \<and>
     (qr_correct row \<longrightarrow> (\<exists>a. answer_of k candidate c = Inr a \<and> canonical_answer k (gcs_expected c) (gcs_kind c) = Inr a))"
  by (auto simp: evaluate_case_def compare_answers_def res_iff split: sum.splits if_splits)

lemma passed_correct:
  assumes "evaluate_quality k suite reference candidate cfg = Inr r" and "qx_passed r"
  shows "set (map fst candidate) = set (map gcs_id (gst_cases suite))"
    and "c \<in> set (gst_cases suite) \<Longrightarrow>
      \<exists>a. answer_of k candidate c = Inr a \<and> canonical_answer k (gcs_expected c) (gcs_kind c) = Inr a"
    and "qc_parity cfg \<le> qx_parity r" and "qc_accuracy cfg \<le> qx_accuracy r"
proof -
  from assms obtain results where res: "each_res (evaluate_case k reference candidate) (gst_cases suite) = Inr results"
    and fails: "set_mismatch suite ''candidate'' candidate = []" "concat (map snd results) = []"
    and gates: "qc_parity cfg \<le> qx_parity r" "qc_accuracy cfg \<le> qx_accuracy r"
    by (auto simp: evaluate_quality_def res_iff Let_def split: if_splits)
  show "set (map fst candidate) = set (map gcs_id (gst_cases suite))"
    using fails(1) by (simp add: set_mismatch_def same_names_def split: if_splits)
  show "qc_parity cfg \<le> qx_parity r" "qc_accuracy cfg \<le> qx_accuracy r" by (fact gates)+
  assume c: "c \<in> set (gst_cases suite)"
  then obtain i where i: "i < length (gst_cases suite)" "c = gst_cases suite ! i" by (auto simp: in_set_conv_nth)
  then have e: "evaluate_case k reference candidate c = Inr (results ! i)"
    using each_res_Inr [OF res] by (simp add: list_all2_conv_all_nth)
  moreover have "results ! i \<in> set results" using i each_res_length [OF res] by simp
  ultimately obtain row where "row \<in> set results" "evaluate_case k reference candidate c = Inr row" by blast
  with fails(2) show "\<exists>a. answer_of k candidate c = Inr a \<and> canonical_answer k (gcs_expected c) (gcs_kind c) = Inr a"
    using evaluate_case_Inr [of k reference candidate c "fst row" "snd row"] by (cases row) auto
qed

end
