(* ===== verification/Evidence.thy ===== *)
theory Evidence
  imports Quality
begin

text \<open>
  Benchmark evidence: the frozen workload (\<open>benchmark/workload.py\<close>), the constraint map
  (\<open>benchmark/constraint_mapping.py\<close>), request records and their summary
  (\<open>benchmark/metrics.py\<close>), and from \<open>benchmark/runner.py\<close> the run configuration, the summary
  with its slices, and the validation that recomputes it from the raw records.  SHA-256 and the
  JSON renderings and parsers are the fields of a codec; files are a function from names to text.
\<close>

subsection \<open>Workloads\<close>

record work_item =
  wi_case :: string
  wi_prompt :: string
  wi_max_tokens :: nat
  wi_family :: string

record workload =
  wl_suite :: string
  wl_version :: nat
  wl_items :: "work_item list"

definition valid_item :: "work_item \<Rightarrow> bool" where
  "valid_item i \<longleftrightarrow> wi_case i \<noteq> [] \<and> wi_prompt i \<noteq> [] \<and> 1 \<le> wi_max_tokens i \<and> wi_max_tokens i \<le> 4096"

definition valid_workload :: "workload \<Rightarrow> bool" where
  "valid_workload w \<longleftrightarrow> 1 \<le> wl_version w \<and> wl_items w \<noteq> [] \<and> list_all valid_item (wl_items w)"

subsection \<open>Constraint maps\<close>

record binding =
  bn_prompt :: string
  bn_constraint :: "output_constraint option"

type_synonym constraint_map = "binding list"

text \<open>\<open>canonical_entries\<close> sorts by digest, which needs an order on text; \<open>sorted(..., key=...)\<close> is
  stable, and digests are compared by code point.\<close>

fun text_le :: "string \<Rightarrow> string \<Rightarrow> bool" where
  "text_le [] _ = True"
| "text_le (_ # _) [] = False"
| "text_le (a # as) (b # bs) =
     ((of_char a :: nat) < of_char b \<or> (a = b \<and> text_le as bs))"

fun insert_binding :: "binding \<Rightarrow> constraint_map \<Rightarrow> constraint_map" where
  "insert_binding b [] = [b]"
| "insert_binding b (c # cs) =
     (if text_le (bn_prompt b) (bn_prompt c) then b # c # cs else c # insert_binding b cs)"

definition canonical_entries :: "constraint_map \<Rightarrow> constraint_map res" where
  "canonical_entries es =
     (if length (remdups (map bn_prompt es)) \<noteq> length es then Inl (ValueError ''duplicate prompt constraint binding'')
      else Inr (foldr insert_binding es []))"

record evidence_codec =
  ek_hash :: "string \<Rightarrow> string"
  ek_json :: json_parser
  ek_map_json :: "constraint_map \<Rightarrow> string"
  ek_workload_json :: "workload \<Rightarrow> string"
  ek_mapping_json :: "json \<Rightarrow> string"

definition maximum_map_bytes :: nat where
  "maximum_map_bytes = 262144"

definition make_constraint_map :: "evidence_codec \<Rightarrow> constraint_map \<Rightarrow> constraint_map res" where
  "make_constraint_map k es =
     bind_res (ensure (1 \<le> length es \<and> length es \<le> 256 \<and> list_all (\<lambda>b. is_sha256 (bn_prompt b)) es)
       (ValueError ''entries'')) (\<lambda>_.
     bind_res (canonical_entries es) (\<lambda>m.
     if maximum_map_bytes < utf8_length (ek_map_json k m) then Inl (ValueError ''constraint map exceeds byte budget'')
     else Inr m))"

definition prompt_digest :: "evidence_codec \<Rightarrow> string \<Rightarrow> string res" where
  "prompt_digest k prompt =
     (if \<not> (1 \<le> utf8_length prompt \<and> utf8_length prompt \<le> 131072)
      then Inl (ValueError ''constrained prompt exceeds byte budget'') else Inr (ek_hash k prompt))"

fun find_binding :: "string \<Rightarrow> constraint_map \<Rightarrow> output_constraint option res" where
  "find_binding ident [] = Inl (ValueError ''missing prompt constraint binding'')"
| "find_binding ident (b # bs) = (if bn_prompt b = ident then Inr (bn_constraint b) else find_binding ident bs)"

definition resolve_prompt :: "evidence_codec \<Rightarrow> constraint_map \<Rightarrow> string \<Rightarrow> output_constraint option res" where
  "resolve_prompt k m prompt = bind_res (prompt_digest k prompt) (\<lambda>ident. find_binding ident m)"

definition require_prompts :: "evidence_codec \<Rightarrow> constraint_map \<Rightarrow> string list \<Rightarrow> unit res" where
  "require_prompts k m ps = bind_res (each_res (resolve_prompt k m) ps) (\<lambda>_. Inr ())"

subsection \<open>Run configuration\<close>

datatype arrival = Closed | Open
datatype request_api = Completions | Chat
datatype prompt_mapping = Literal | Chatml_roles
datatype transport = Finserve | Native_vllm

record run_config =
  rc_requests :: nat
  rc_concurrency :: nat
  rc_warmup :: nat
  rc_mode :: arrival
  rc_rate :: flt
  rc_timeout :: flt
  rc_model :: string
  rc_hardware :: string
  rc_revision :: string
  rc_model_revision :: string
  rc_tokenizer_revision :: string
  rc_engine :: string
  rc_engine_config :: string
  rc_image_digest :: string
  rc_config_digest :: string
  rc_cache_policy :: string
  rc_api :: request_api
  rc_system_prompt :: string
  rc_template :: "string option"
  rc_mapping :: prompt_mapping
  rc_constraints :: "constraint_map option"
  rc_transport :: "transport option"

definition config_fields :: "run_config \<Rightarrow> bool" where
  "config_fields c \<longleftrightarrow> 1 \<le> rc_requests c \<and> rc_requests c \<le> 1000000 \<and> 1 \<le> rc_concurrency c \<and> rc_concurrency c \<le> 1024 \<and>
     rc_warmup c \<le> 10000 \<and> 0 < rc_rate c \<and> rc_rate c \<le> 1000000 \<and> 0 < rc_timeout c \<and> rc_timeout c \<le> 3600 \<and>
     list_all (\<lambda>s. s \<noteq> []) [rc_model c, rc_hardware c, rc_revision c, rc_model_revision c, rc_tokenizer_revision c,
       rc_engine c, rc_engine_config c, rc_image_digest c, rc_config_digest c] \<and>
     length (rc_system_prompt c) \<le> 16384 \<and> opt_all is_sha256 (rc_template c)"

definition require_runtime :: "evidence_codec \<Rightarrow> run_config \<Rightarrow> unit res" where
  "require_runtime k c =
     (if (rc_constraints c = None) \<noteq> (rc_transport c = None)
      then Inl (ValueError ''constraint map and transport must be declared together'')
      else if rc_constraints c = None then Inr ()
      else case ek_json k (rc_engine_config c) of
        Inr (JObj d) \<Rightarrow>
          ensure (rc_engine c = ''vllm'' \<and> field_of d ''structured_output_backend'' = Some (JStr ''xgrammar''))
            (ValueError ''constraints require a pinned xgrammar vLLM configuration'')
      | _ \<Rightarrow> Inl (ValueError ''constraints require a pinned xgrammar vLLM configuration''))"

definition explicit_transport :: "evidence_codec \<Rightarrow> run_config \<Rightarrow> unit res" where
  "explicit_transport k c =
     (if (rc_constraints c = None) \<noteq> (rc_transport c = None)
      then Inl (ValueError ''constraint map and transport must be declared together'')
      else if rc_engine c \<noteq> ''undeclared'' \<or> rc_engine_config c \<noteq> ''undeclared'' then require_runtime k c
      else Inr ())"

definition explicit_chat :: "run_config \<Rightarrow> unit res" where
  "explicit_chat c =
     (if rc_api c = Chat \<and> rc_template c = None
      then Inl (ValueError ''chat runs require the actual tokenizer template digest'')
      else if rc_api c = Completions \<and> (rc_system_prompt c \<noteq> [] \<or> rc_template c \<noteq> None \<or> rc_mapping c \<noteq> Literal)
      then Inl (ValueError ''completion runs cannot declare chat-only mapping'')
      else Inr ())"

text \<open>A nested map is validated, and so put in canonical order, before the model's own validators.\<close>

definition canonical_config :: "evidence_codec \<Rightarrow> run_config \<Rightarrow> run_config res" where
  "canonical_config k c =
     (case rc_constraints c of None \<Rightarrow> Inr c
      | Some m \<Rightarrow> bind_res (make_constraint_map k m) (\<lambda>m'. Inr (c\<lparr>rc_constraints := Some m'\<rparr>)))"

definition make_config :: "evidence_codec \<Rightarrow> run_config \<Rightarrow> run_config res" where
  "make_config k raw =
     bind_res (ensure (config_fields raw) (ValueError ''invalid configuration'')) (\<lambda>_.
     bind_res (canonical_config k raw) (\<lambda>c.
     bind_res (explicit_transport k c) (\<lambda>_. bind_res (explicit_chat c) (\<lambda>_. Inr c))))"

definition json_text :: "string option \<Rightarrow> json" where
  "json_text x = (case x of None \<Rightarrow> JNull | Some s \<Rightarrow> JStr s)"

definition transport_json :: "transport option \<Rightarrow> json" where
  "transport_json t = (case t of None \<Rightarrow> JNull | Some Finserve \<Rightarrow> JStr ''finserve'' | Some Native_vllm \<Rightarrow> JStr ''native_vllm'')"

definition request_mapping :: "evidence_codec \<Rightarrow> run_config \<Rightarrow> json" where
  "request_mapping k c = JObj
     ([(''schema'', JStr ''inference-request-mapping-v1''),
       (''request_api'', JStr (if rc_api c = Chat then ''chat'' else ''completions'')),
       (''system_prompt'', JStr (rc_system_prompt c)), (''chat_template_sha256'', json_text (rc_template c)),
       (''temperature'', JInt 0)] @
      (if rc_mapping c \<noteq> Literal then [(''prompt_mapping'', JStr ''chatml_roles_v1'')] else []) @
      (case rc_constraints c of None \<Rightarrow> []
       | Some m \<Rightarrow> [(''output_constraints_sha256'', JStr (ek_hash k (ek_map_json k m))),
                    (''constraint_transport'', transport_json (rc_transport c))]))"

definition request_mapping_digest :: "evidence_codec \<Rightarrow> run_config \<Rightarrow> string" where
  "request_mapping_digest k c = ek_hash k (ek_mapping_json k (request_mapping k c))"

definition require_output_shape :: "evidence_codec \<Rightarrow> run_config \<Rightarrow> string \<Rightarrow> string \<Rightarrow> unit res" where
  "require_output_shape k c prompt out =
     (case rc_constraints c of None \<Rightarrow> Inr ()
      | Some m \<Rightarrow> bind_res (resolve_prompt k m prompt) (\<lambda>oc.
          ensure (opt_all (\<lambda>x. accepts (ek_json k) x out) oc) (ValueError ''output did not satisfy frozen constraint'')))"

subsection \<open>Request records\<close>

record request_record =
  rr_logical :: nat
  rr_case :: string
  rr_family :: string
  rr_phase :: string
  rr_offered :: bool
  rr_intended :: "flt option"
  rr_scheduled :: flt
  rr_send :: "flt option"
  rr_first :: "flt option"
  rr_complete :: flt
  rr_success :: bool
  rr_status :: "int option"
  rr_error :: "string option"
  rr_tokens :: "nat option"
  rr_output :: string
  rr_server_ttft :: "flt option"

definition record_fields :: "request_record \<Rightarrow> bool" where
  "record_fields r \<longleftrightarrow> opt_all (\<lambda>t. 0 \<le> t) (rr_intended r) \<and> 0 \<le> rr_scheduled r \<and> opt_all (\<lambda>t. 0 \<le> t) (rr_send r) \<and>
     opt_all (\<lambda>t. 0 \<le> t) (rr_first r) \<and> 0 \<le> rr_complete r \<and> opt_all (\<lambda>t. 0 \<le> t) (rr_server_ttft r)"

definition valid_timing :: "request_record \<Rightarrow> request_record res" where
  "valid_timing r =
     bind_res (ensure (record_fields r) (ValueError ''invalid record'')) (\<lambda>_.
     if rr_complete r < rr_scheduled r then Inl (ValueError ''completion precedes scheduled arrival'')
     else if \<not> opt_all (\<lambda>s. rr_scheduled r \<le> s \<and> s \<le> rr_complete r) (rr_send r)
     then Inl (ValueError ''send outside request lifetime'')
     else if \<not> opt_all (\<lambda>f. \<exists>s \<in> set_option (rr_send r). s \<le> f \<and> f \<le> rr_complete r) (rr_first r)
     then Inl (ValueError ''first content outside network lifetime'')
     else if rr_success r \<and> (rr_send r = None \<or> rr_error r \<noteq> None)
     then Inl (ValueError ''success must be sent and error-free'')
     else if rr_success r \<and> \<not> opt_all (\<lambda>s. 200 \<le> s \<and> s < 300) (rr_status r)
     then Inl (ValueError ''successful HTTP status must be 2xx'')
     else if rr_success r \<and> (case rr_tokens r of None \<Rightarrow> False | Some n \<Rightarrow> n \<noteq> 0) \<and> rr_first r = None
     then Inl (ValueError ''positive generated tokens require observed content'')
     else Inr r)"

subsection \<open>Summaries\<close>

text \<open>Linear interpolation at \<open>(n - 1) * q\<close>; finiteness of stored floats is typing.\<close>

definition percentile :: "flt list \<Rightarrow> flt \<Rightarrow> flt option res" where
  "percentile vs q =
     (if \<not> (0 \<le> q \<and> q \<le> 1) then Inl (ValueError ''quantile must be finite and within [0, 1]'')
      else if \<not> list_all (\<lambda>v. 0 \<le> v) vs then Inl (ValueError ''durations must be finite and nonnegative'')
      else if vs = [] then Inr None
      else let ordered = sort vs; position = fmul (of_nat (length vs - 1)) q;
               lower = nat \<lfloor>position\<rfloor>; upper = nat \<lceil>position\<rceil> in
        Inr (Some (fadd (ordered ! lower) (fmul (fsub (ordered ! upper) (ordered ! lower)) (fsub position (of_nat lower))))))"

record summary =
  sm_offered :: nat
  sm_sent :: nat
  sm_successful :: nat
  sm_failed :: nat
  sm_success_rate :: "flt option"
  sm_seconds :: flt
  sm_rps :: flt
  sm_tokens :: "nat option"
  sm_tps :: "flt option"
  sm_ttft :: "flt option"
  sm_ttft_samples :: nat
  sm_server_ttft :: "flt option"
  sm_server_samples :: nat
  sm_e2e50 :: "flt option"
  sm_e2e95 :: "flt option"
  sm_offered95 :: "flt option"
  sm_lag95 :: "flt option"

definition measured :: "request_record list \<Rightarrow> request_record list" where
  "measured rs = filter (\<lambda>r. rr_phase r = ''measured'' \<and> rr_offered r) rs"

definition token_total :: "request_record list \<Rightarrow> nat option" where
  "token_total rs =
     (if list_all (\<lambda>r. rr_tokens r \<noteq> None) rs
      then Some (sum_list (map (\<lambda>r. case rr_tokens r of None \<Rightarrow> 0 | Some n \<Rightarrow> n) rs)) else None)"

text \<open>\<open>[f(row) for row in rows if defined]\<close>.\<close>

definition gather :: "('a \<Rightarrow> 'b option) \<Rightarrow> 'a list \<Rightarrow> 'b list" where
  "gather f xs = concat (map (\<lambda>x. case f x of None \<Rightarrow> [] | Some y \<Rightarrow> [y]) xs)"

definition first_delay :: "request_record \<Rightarrow> flt option" where
  "first_delay r = (case (rr_first r, rr_send r) of (Some f, Some s) \<Rightarrow> Some (fsub f s) | _ \<Rightarrow> None)"

definition summarize :: "request_record list \<Rightarrow> flt \<Rightarrow> summary res" where
  "summarize rs seconds =
     (let ms = measured rs; ok = filter rr_success ms; tokens = token_total ok;
          e2e = gather (\<lambda>r. map_option (\<lambda>s. fsub (rr_complete r) s) (rr_send r)) ok;
          offered = map (\<lambda>r. fsub (rr_complete r) (rr_scheduled r)) ok;
          lag = gather (\<lambda>r. map_option (\<lambda>s. fsub s (rr_scheduled r)) (rr_send r)) ms;
          ttft = gather first_delay ok; server = gather rr_server_ttft ok in
      if seconds \<le> 0 then Inl (ValueError ''measurement window must be finite and positive'')
      else if length (remdups (map rr_logical ms)) \<noteq> length ms then Inl (ValueError ''duplicate logical request IDs'')
      else bind_res (percentile ttft (1 / 2)) (\<lambda>p1. bind_res (percentile server (1 / 2)) (\<lambda>p2.
        bind_res (percentile e2e (1 / 2)) (\<lambda>p3. bind_res (percentile e2e (fl (19 / 20))) (\<lambda>p4.
        bind_res (percentile offered (fl (19 / 20))) (\<lambda>p5. bind_res (percentile lag (fl (19 / 20))) (\<lambda>p6.
        Inr \<lparr>sm_offered = length ms, sm_sent = length (filter (\<lambda>r. rr_send r \<noteq> None) ms),
          sm_successful = length ok, sm_failed = length ms - length ok,
          sm_success_rate = (if ms = [] then None else Some (int_div (length ok) (length ms))),
          sm_seconds = seconds, sm_rps = fdiv (of_nat (length ok)) seconds, sm_tokens = tokens,
          sm_tps = map_option (\<lambda>n. fdiv (fl (of_nat n)) seconds) tokens, sm_ttft = p1, sm_ttft_samples = length ttft,
          sm_server_ttft = p2, sm_server_samples = length server, sm_e2e50 = p3, sm_e2e95 = p4,
          sm_offered95 = p5, sm_lag95 = p6\<rparr>)))))))"

record run_summary =
  su_total :: summary
  su_hash :: string
  su_slices :: "(string \<times> summary) list"
  su_finance :: summary
  su_other :: summary

definition workload_digest :: "evidence_codec \<Rightarrow> workload \<Rightarrow> string" where
  "workload_digest k w = ek_hash k (ek_workload_json k w)"

definition finance_families :: "string list" where
  "finance_families = [''SEC_QA'', ''EARNINGS_SUMMARY'', ''FINANCIAL_TABLE_EXTRACTION'', ''CHART_REASONING'']"

fun insert_text :: "string \<Rightarrow> string list \<Rightarrow> string list" where
  "insert_text s [] = [s]"
| "insert_text s (t # ts) = (if text_le s t then s # t # ts else t # insert_text s ts)"

definition families :: "workload \<Rightarrow> string list" where
  "families w = foldr insert_text (remdups (map wi_family (wl_items w))) []"

definition build_summary :: "evidence_codec \<Rightarrow> request_record list \<Rightarrow> flt \<Rightarrow> workload \<Rightarrow> run_summary res" where
  "build_summary k rs seconds w =
     bind_res (summarize rs seconds) (\<lambda>total.
     bind_res (each_res (\<lambda>f. bind_res (summarize (filter (\<lambda>r. rr_family r = f) rs) seconds) (\<lambda>s. Inr (f, s))) (families w)) (\<lambda>slices.
     bind_res (summarize (filter (\<lambda>r. rr_family r \<in> set finance_families) rs) seconds) (\<lambda>fin.
     bind_res (summarize (filter (\<lambda>r. rr_family r \<notin> set finance_families) rs) seconds) (\<lambda>other.
     Inr \<lparr>su_total = total, su_hash = workload_digest k w, su_slices = slices, su_finance = fin, su_other = other\<rparr>))))"

end
