(* ===== verification/Promotion.thy ===== *)
theory Promotion
  imports Evidence
begin

text \<open>
  The validation of retained runs (\<open>validate_evidence\<close> and \<open>validate_comparison\<close> of
  \<open>benchmark/runner.py\<close>) and the promotion gate that recomputes both of its halves from them
  (\<open>reliability/promotion.py\<close>).  Files may change while the gate runs: it reads a directory
  before, during and after.
\<close>

subsection \<open>Retained runs\<close>

record comparison_input =
  ci_hash :: string
  ci_workload :: workload
  ci_config :: run_config
  ci_status :: string
  ci_seconds :: flt
  ci_started :: flt
  ci_finished :: flt

type_synonym directory = "string \<Rightarrow> string res"

record promotion_policy =
  pp_version :: string
  pp_rps :: flt
  pp_tps :: flt
  pp_ttft :: flt
  pp_e2e :: flt
  pp_success :: flt
  pp_quality :: quality_config

definition valid_policy_bounds :: "promotion_policy \<Rightarrow> bool" where
  "valid_policy_bounds p \<longleftrightarrow> 0 < pp_rps p \<and> 0 < pp_tps p \<and> 0 < pp_ttft p \<and> 0 < pp_e2e p \<and>
     0 \<le> pp_success p \<and> pp_success p \<le> 1 \<and> valid_quality_config (pp_quality p)"

record quality_evidence =
  qe_suite :: string
  qe_version :: string
  qe_baseline_run :: string
  qe_candidate_run :: string
  qe_reference_revision :: string
  qe_candidate_revision :: string
  qe_reference :: "(string \<times> string) list"
  qe_candidate :: "(string \<times> string) list"
  qe_mapping :: "string option"

text \<open>\<open>rp_raw\<close> is the raw digest that is fed into a further hash.\<close>

record run_parsers = evidence_codec +
  rp_manifest :: "string \<Rightarrow> comparison_input res"
  rp_records :: "string \<Rightarrow> request_record list res"
  rp_summary :: "string \<Rightarrow> run_summary option"
  rp_raw :: "string \<Rightarrow> string"
  rp_quality_json :: "quality_evidence \<Rightarrow> string"
  rp_suite_json :: "golden_suite \<Rightarrow> string"
  rp_policy_json :: "promotion_policy \<Rightarrow> string"
  rp_revision_json :: "revision \<Rightarrow> string"

definition prompts_of :: "workload \<Rightarrow> string list" where
  "prompts_of w = map wi_prompt (wl_items w)"

definition codec_of :: "run_parsers \<Rightarrow> evidence_codec" where
  "codec_of k = \<lparr>ek_hash = ek_hash k, ek_json = ek_json k, ek_map_json = ek_map_json k,
     ek_workload_json = ek_workload_json k, ek_mapping_json = ek_mapping_json k\<rparr>"

definition map_allows :: "evidence_codec \<Rightarrow> run_config \<Rightarrow> string list \<Rightarrow> unit res" where
  "map_allows k c ps = (case rc_constraints c of None \<Rightarrow> Inr () | Some m \<Rightarrow> require_prompts k m ps)"

text \<open>\<open>ComparisonInput.declared\<close>.\<close>

definition declared_input :: "evidence_codec \<Rightarrow> comparison_input \<Rightarrow> comparison_input res" where
  "declared_input k ci =
     bind_res (ensure (ci_status ci = ''completed'' \<and> 0 < ci_seconds ci \<and> 0 \<le> ci_started ci \<and> 0 \<le> ci_finished ci \<and>
       valid_workload (ci_workload ci)) (ValueError ''invalid manifest'')) (\<lambda>_.
     bind_res (make_config k (ci_config ci)) (\<lambda>c.
     bind_res (ensure (''undeclared'' \<notin> set [rc_hardware c, rc_revision c, rc_model_revision c,
         rc_tokenizer_revision c, rc_engine c, rc_engine_config c]) (ValueError ''declare before comparison'')) (\<lambda>_.
     bind_res (ensure (workload_digest k (ci_workload ci) = ci_hash ci) (ValueError ''embedded workload hash mismatch'')) (\<lambda>_.
     bind_res (require_runtime k c) (\<lambda>_.
     bind_res (map_allows k c (prompts_of (ci_workload ci))) (\<lambda>_.
     bind_res (ensure (fsub (ci_finished ci) (ci_started ci) = ci_seconds ci)
       (ValueError ''measurement duration disagrees with clock boundaries'')) (\<lambda>_.
     Inr (ci\<lparr>ci_config := c\<rparr>))))))))"

definition phase_complete :: "request_record list \<Rightarrow> string \<Rightarrow> nat \<Rightarrow> bool" where
  "phase_complete rs phase n \<longleftrightarrow> (let rows = filter (\<lambda>r. rr_phase r = phase) rs in
     length rows = n \<and> set (map rr_logical rows) = {0..<n})"

definition validate_row :: "evidence_codec \<Rightarrow> comparison_input \<Rightarrow> request_record \<Rightarrow> unit res" where
  "validate_row k m r =
     (let items = wl_items (ci_workload m); item = items ! (rr_logical r mod length items) in
      bind_res (ensure (rr_offered r) (ValueError ''completed run contains requests never offered'')) (\<lambda>_.
      bind_res (ensure (items \<noteq> []) ZeroDivisionError) (\<lambda>_.
      bind_res (ensure (rr_case r = wi_case item \<and> rr_family r = wi_family item)
        (ValueError ''raw record disagrees with frozen workload'')) (\<lambda>_.
      bind_res (if rr_success r then require_output_shape k (ci_config m) (wi_prompt item) (rr_output r) else Inr ()) (\<lambda>_.
      bind_res (ensure (opt_all (\<lambda>n. n \<le> wi_max_tokens item) (rr_tokens r))
        (ValueError ''raw token count exceeds frozen request budget'')) (\<lambda>_.
      ensure (rr_phase r = ''measured'' \<longrightarrow> ci_started m \<le> rr_scheduled r \<and> rr_scheduled r \<le> rr_complete r \<and>
          rr_complete r \<le> ci_finished m) (ValueError ''raw timing outside measurement window'')))))))"

definition validate_evidence :: "run_parsers \<Rightarrow> directory \<Rightarrow> comparison_input res" where
  "validate_evidence p dir = (let k = codec_of p in
     bind_res (bind_res (dir ''manifest.json'') (rp_manifest p)) (\<lambda>raw. bind_res (declared_input k raw) (\<lambda>m.
     bind_res (bind_res (dir ''requests.jsonl'') (rp_records p)) (\<lambda>lines. bind_res (each_res valid_timing lines) (\<lambda>rs.
     bind_res (ensure (phase_complete rs ''measured'' (rc_requests (ci_config m)))
       (ValueError ''incomplete or duplicated measured records'')) (\<lambda>_.
     bind_res (ensure (phase_complete rs ''warmup'' (rc_warmup (ci_config m)))
       (ValueError ''incomplete or duplicated warmup records'')) (\<lambda>_.
     bind_res (ensure (length rs = rc_requests (ci_config m) + rc_warmup (ci_config m))
       (ValueError ''unexpected raw record population'')) (\<lambda>_.
     bind_res (each_res (validate_row k m) rs) (\<lambda>_.
     bind_res (build_summary k rs (ci_seconds m) (ci_workload m)) (\<lambda>expected.
     bind_res (dir ''summary.json'') (\<lambda>actual.
     bind_res (ensure (rp_summary p actual = Some expected) (ValueError ''summary disagrees with raw evidence''))
       (\<lambda>_. Inr m))))))))))))"

definition comparable :: "run_config \<Rightarrow> run_config \<Rightarrow> bool" where
  "comparable a b \<longleftrightarrow> rc_requests a = rc_requests b \<and> rc_warmup a = rc_warmup b \<and> rc_concurrency a = rc_concurrency b \<and>
     rc_mode a = rc_mode b \<and> rc_rate a = rc_rate b \<and> rc_timeout a = rc_timeout b \<and> rc_hardware a = rc_hardware b \<and>
     rc_model a = rc_model b \<and> rc_model_revision a = rc_model_revision b \<and>
     rc_tokenizer_revision a = rc_tokenizer_revision b \<and> rc_api a = rc_api b \<and>
     rc_system_prompt a = rc_system_prompt b \<and> rc_template a = rc_template b \<and> rc_mapping a = rc_mapping b \<and>
     rc_constraints a = rc_constraints b \<and> rc_transport a = rc_transport b"

definition validate_comparison :: "run_parsers \<Rightarrow> directory \<Rightarrow> directory \<Rightarrow> unit res" where
  "validate_comparison p baseline candidate =
     bind_res (validate_evidence p baseline) (\<lambda>l. bind_res (validate_evidence p candidate) (\<lambda>r.
     bind_res (ensure (ci_hash l = ci_hash r) (ValueError ''workload mismatch'')) (\<lambda>_.
     ensure (comparable (ci_config l) (ci_config r)) (ValueError ''comparison differs''))))"

subsection \<open>The policy and its evidence\<close>

record performance_sample =
  ps_rps :: flt
  ps_tps :: flt
  ps_ttft :: flt
  ps_e2e :: flt
  ps_success :: flt

text \<open>\<open>PerformanceSample\<close> reads five members of the summary: each is required and positive, the
  success rate a fraction.\<close>

definition make_sample :: "summary \<Rightarrow> performance_sample res" where
  "make_sample s =
     (case (sm_tps s, sm_ttft s, sm_e2e95 s, sm_success_rate s) of
        (Some t, Some f, Some e, Some r) \<Rightarrow>
          if 0 < sm_rps s \<and> 0 < t \<and> 0 < f \<and> 0 < e \<and> 0 \<le> r \<and> r \<le> 1
          then Inr \<lparr>ps_rps = sm_rps s, ps_tps = t, ps_ttft = f, ps_e2e = e, ps_success = r\<rparr>
          else Inl (ValueError ''performance sample'')
      | _ \<Rightarrow> Inl (ValueError ''performance sample''))"

definition performance_checks :: "performance_sample \<Rightarrow> performance_sample \<Rightarrow> promotion_policy \<Rightarrow> (bool \<times> string) list" where
  "performance_checks b c p =
     [(fmul (ps_rps b) (pp_rps p) \<le> ps_rps c, ''request_throughput_regression''),
      (fmul (ps_tps b) (pp_tps p) \<le> ps_tps c, ''token_throughput_regression''),
      (ps_ttft c \<le> fmul (ps_ttft b) (pp_ttft p), ''client_ttft_regression''),
      (ps_e2e c \<le> fmul (ps_e2e b) (pp_e2e p), ''e2e_latency_regression''),
      (pp_success p \<le> ps_success c, ''success_rate_below_floor'')]"

definition performance_failures :: "performance_sample \<Rightarrow> performance_sample \<Rightarrow> promotion_policy \<Rightarrow> string list res" where
  "performance_failures b c p =
     (if list_ex overflows [fmul (ps_rps b) (pp_rps p), fmul (ps_tps b) (pp_tps p),
           fmul (ps_ttft b) (pp_ttft p), fmul (ps_e2e b) (pp_e2e p)]
      then Inl (ValueError ''performance threshold overflow'')
      else Inr (map snd (filter (\<lambda>(passed, reason). \<not> passed) (performance_checks b c p))))"

definition run_id_of :: "run_parsers \<Rightarrow> directory \<Rightarrow> json res" where
  "run_id_of p dir = bind_res (bind_res (dir ''manifest.json'') (ek_json p)) (\<lambda>v. case v of
     JObj d \<Rightarrow> Inr (case field_of d ''run_id'' of None \<Rightarrow> JNull | Some x \<Rightarrow> x)
   | _ \<Rightarrow> Inl (Other ''AttributeError''))"

definition mapping_declared :: "run_config \<Rightarrow> run_config \<Rightarrow> quality_evidence \<Rightarrow> bool" where
  "mapping_declared l r e \<longleftrightarrow> rc_api l = Chat \<or> rc_api r = Chat \<or> rc_constraints l \<noteq> None \<or>
     rc_constraints r \<noteq> None \<or> qe_mapping e \<noteq> None"

definition check_quality_identity :: "run_parsers \<Rightarrow> quality_codec \<Rightarrow> quality_evidence \<Rightarrow> golden_suite \<Rightarrow> directory \<Rightarrow> directory
    \<Rightarrow> comparison_input \<Rightarrow> comparison_input \<Rightarrow> unit res" where
  "check_quality_identity p q e suite baseline candidate l r = (let k = codec_of p in
     bind_res (run_id_of p baseline) (\<lambda>bid. bind_res (run_id_of p candidate) (\<lambda>cid.
     bind_res (ensure (qe_suite e = suite_digest q suite \<and> qe_version e = gst_version suite \<and>
         JStr (qe_baseline_run e) = bid \<and> JStr (qe_candidate_run e) = cid \<and>
         qe_reference_revision e = rc_model_revision (ci_config l) \<and>
         qe_candidate_revision e = rc_model_revision (ci_config r)) (ValueError ''quality identity mismatch'')) (\<lambda>_.
     if \<not> mapping_declared (ci_config l) (ci_config r) e then Inr ()
     else bind_res (ensure (qe_mapping e = Some (request_mapping_digest k (ci_config l)) \<and>
            request_mapping_digest k (ci_config l) = request_mapping_digest k (ci_config r))
            (ValueError ''quality request mapping differs from measured cohort'')) (\<lambda>_.
          bind_res (map_allows k (ci_config l) (map gcs_prompt (gst_cases suite))) (\<lambda>_.
          map_allows k (ci_config r) (map gcs_prompt (gst_cases suite))))))))"

definition verify_candidate_identity :: "comparison_input \<Rightarrow> revision \<Rightarrow> unit res" where
  "verify_candidate_identity ci r = (let c = ci_config ci in
     ensure (rc_model_revision c = model_revision r \<and> rc_tokenizer_revision c = tokenizer_revision r \<and>
       rc_revision c = source_revision r \<and> rc_engine c = engine r \<and> rc_engine_config c = engine_config r \<and>
       rc_image_digest c = image_digest r \<and> rc_config_digest c = config_digest r)
       (ValueError ''candidate revision differs from benchmark evidence''))"

text \<open>The digest of digests: the raw bytes of three files of each run and four encoded values.\<close>

definition file_digest :: "run_parsers \<Rightarrow> directory \<Rightarrow> string \<Rightarrow> string res" where
  "file_digest p dir name = bind_res (dir name) (\<lambda>t. Inr (rp_raw p t))"

definition evidence_digest_of :: "run_parsers \<Rightarrow> directory \<Rightarrow> directory \<Rightarrow> quality_evidence \<Rightarrow> golden_suite
    \<Rightarrow> promotion_policy \<Rightarrow> revision \<Rightarrow> string res" where
  "evidence_digest_of p baseline candidate e suite policy r =
     bind_res (each_res (\<lambda>(d, n). file_digest p d n)
       [(d, n). d \<leftarrow> [baseline, candidate], n \<leftarrow> [''manifest.json'', ''requests.jsonl'', ''summary.json'']])
       (\<lambda>files. Inr (ek_hash p (concat (files @ map (rp_raw p)
          [rp_quality_json p e, rp_suite_json p suite, rp_policy_json p policy, rp_revision_json p r]))))"

definition sample_of :: "run_parsers \<Rightarrow> directory \<Rightarrow> performance_sample res" where
  "sample_of p dir = bind_res (dir ''summary.json'') (\<lambda>t. case rp_summary p t of
     None \<Rightarrow> Inl (ValueError ''performance sample'') | Some s \<Rightarrow> make_sample (su_total s))"

subsection \<open>The gate\<close>

text \<open>Three readings of each directory: \<open>before\<close>, while validating, and \<open>after\<close>.\<close>

record run_files =
  rf_before :: directory
  rf_during :: directory
  rf_after :: directory

definition decision_for :: "'z codec_scheme \<Rightarrow> revision \<Rightarrow> promotion_policy \<Rightarrow> string option \<Rightarrow> string list \<Rightarrow> flt option
    \<Rightarrow> flt option \<Rightarrow> decision" where
  "decision_for cd r policy digest reasons parity accuracy =
     \<lparr>candidate_revision = revision_id r, candidate_digest = revision_digest cd r, policy_version = pp_version policy,
      evidence_digest = digest, rejection_reasons = reasons, quality_parity = parity, candidate_accuracy = accuracy\<rparr>"

definition measured_decision :: "'z codec_scheme \<Rightarrow> run_parsers \<Rightarrow> quality_codec \<Rightarrow> run_files \<Rightarrow> run_files
    \<Rightarrow> quality_evidence \<Rightarrow> golden_suite \<Rightarrow> promotion_policy \<Rightarrow> revision \<Rightarrow> decision res" where
  "measured_decision cd p q baseline candidate e suite policy r =
     bind_res (evidence_digest_of p (rf_before baseline) (rf_before candidate) e suite policy r) (\<lambda>before_digest.
     bind_res (validate_comparison p (rf_during baseline) (rf_during candidate)) (\<lambda>_.
     bind_res (validate_evidence p (rf_during baseline)) (\<lambda>left.
     bind_res (validate_evidence p (rf_during candidate)) (\<lambda>right.
     bind_res (verify_candidate_identity right r) (\<lambda>_.
     bind_res (check_quality_identity p q e suite (rf_during baseline) (rf_during candidate) left right) (\<lambda>_.
     bind_res (sample_of p (rf_during baseline)) (\<lambda>b.
     bind_res (sample_of p (rf_during candidate)) (\<lambda>c.
     bind_res (performance_failures b c policy) (\<lambda>failures.
     bind_res (evaluate_quality q suite (qe_reference e) (qe_candidate e) (pp_quality policy)) (\<lambda>result.
     bind_res (evidence_digest_of p (rf_after baseline) (rf_after candidate) e suite policy r) (\<lambda>after_digest.
     if before_digest \<noteq> after_digest then Inl (ValueError ''evidence changed during evaluation'')
     else Inr (decision_for cd r policy (Some after_digest)
       (failures @ (if qx_passed result then [] else [''quality_gate_failed'']))
       (Some (qx_parity result)) (Some (qx_accuracy result))))))))))))))"

text \<open>The exceptions the gate turns into a rejection.\<close>

definition invalid_evidence :: "py_error \<Rightarrow> bool" where
  "invalid_evidence e \<longleftrightarrow> (case e of OSError _ \<Rightarrow> True | ValueError _ \<Rightarrow> True | TypeError _ \<Rightarrow> True | KeyError _ \<Rightarrow> True | _ \<Rightarrow> False)"

definition evaluate_promotion :: "'z codec_scheme \<Rightarrow> run_parsers \<Rightarrow> quality_codec \<Rightarrow> run_files \<Rightarrow> run_files
    \<Rightarrow> quality_evidence \<Rightarrow> golden_suite \<Rightarrow> promotion_policy \<Rightarrow> revision \<Rightarrow> decision res" where
  "evaluate_promotion cd p q baseline candidate e suite policy r =
     (case measured_decision cd p q baseline candidate e suite policy r of
        Inr d \<Rightarrow> Inr d
      | Inl err \<Rightarrow> if invalid_evidence err
          then Inr (decision_for cd r policy None [''missing_or_invalid_evidence''] None None)
          else Inl err)"

subsection \<open>What an approval means\<close>

lemma performance_failures_none:
  "performance_failures b c p = Inr [] \<longleftrightarrow>
     \<not> list_ex overflows [fmul (ps_rps b) (pp_rps p), fmul (ps_tps b) (pp_tps p),
           fmul (ps_ttft b) (pp_ttft p), fmul (ps_e2e b) (pp_e2e p)] \<and>
     fmul (ps_rps b) (pp_rps p) \<le> ps_rps c \<and> fmul (ps_tps b) (pp_tps p) \<le> ps_tps c \<and>
     ps_ttft c \<le> fmul (ps_ttft b) (pp_ttft p) \<and> ps_e2e c \<le> fmul (ps_e2e b) (pp_e2e p) \<and>
     pp_success p \<le> ps_success c"
  by (simp add: performance_failures_def performance_checks_def)

lemma approved_measured:
  assumes "evaluate_promotion cd p q baseline candidate e suite policy r = Inr d" and "approved d"
  shows "measured_decision cd p q baseline candidate e suite policy r = Inr d"
  using assms by (auto simp: evaluate_promotion_def decision_for_def approved_def split: sum.splits if_splits)


subsection \<open>A concrete promotion\<close>

definition demo_item :: work_item where
  "demo_item = \<lparr>wi_case = ''c'', wi_prompt = ''p'', wi_max_tokens = 4, wi_family = ''GENERAL''\<rparr>"

definition demo_workload :: workload where
  "demo_workload = \<lparr>wl_suite = ''s'', wl_version = 1, wl_items = [demo_item]\<rparr>"

definition demo_record :: request_record where
  "demo_record = \<lparr>rr_logical = 0, rr_case = ''c'', rr_family = ''GENERAL'', rr_phase = ''measured'', rr_offered = True,
     rr_intended = None, rr_scheduled = 0, rr_send = Some 0, rr_first = Some 1, rr_complete = 2, rr_success = True,
     rr_status = Some 200, rr_error = None, rr_tokens = Some 2, rr_output = ''5'', rr_server_ttft = None\<rparr>"

definition demo_config :: run_config where
  "demo_config = \<lparr>rc_requests = 1, rc_concurrency = 1, rc_warmup = 0, rc_mode = Closed, rc_rate = 1, rc_timeout = 30,
     rc_model = ''m'', rc_hardware = ''h'', rc_revision = ''g'', rc_model_revision = ''v'', rc_tokenizer_revision = ''t'',
     rc_engine = ''vllm'', rc_engine_config = ''{}'', rc_image_digest = ''i'', rc_config_digest = ''d'',
     rc_cache_policy = [], rc_api = Completions, rc_system_prompt = [], rc_template = None, rc_mapping = Literal,
     rc_constraints = None, rc_transport = None\<rparr>"

definition demo_summary :: summary where
  "demo_summary = \<lparr>sm_offered = 1, sm_sent = 1, sm_successful = 1, sm_failed = 0, sm_success_rate = Some 1,
     sm_seconds = 2, sm_rps = 1 / 2, sm_tokens = Some 2, sm_tps = Some 1, sm_ttft = Some 1, sm_ttft_samples = 1,
     sm_server_ttft = None, sm_server_samples = 0, sm_e2e50 = Some 2, sm_e2e95 = Some 2, sm_offered95 = Some 2,
     sm_lag95 = Some 0\<rparr>"

definition demo_empty :: summary where
  "demo_empty = \<lparr>sm_offered = 0, sm_sent = 0, sm_successful = 0, sm_failed = 0, sm_success_rate = None,
     sm_seconds = 2, sm_rps = 0, sm_tokens = Some 0, sm_tps = Some 0, sm_ttft = None, sm_ttft_samples = 0,
     sm_server_ttft = None, sm_server_samples = 0, sm_e2e50 = None, sm_e2e95 = None, sm_offered95 = None,
     sm_lag95 = None\<rparr>"

lemma demo_p95: "0 \<le> fl (19 / 20)" "fl (19 / 20) \<le> 1"
  using fl_nonneg [of "19 / 20"] fl_mono [of "19 / 20" 1] by simp_all

lemma demo_summarize: "summarize [demo_record] 2 = Inr demo_summary" "summarize [] 2 = Inr demo_empty"
  by (simp_all add: summarize_def Let_def measured_def demo_record_def demo_summary_def demo_empty_def token_total_def
      gather_def first_delay_def percentile_def demo_p95 float_ops)

definition demo_manifest :: comparison_input where
  "demo_manifest = \<lparr>ci_hash = ''h'', ci_workload = demo_workload, ci_config = demo_config, ci_status = ''completed'',
     ci_seconds = 2, ci_started = 0, ci_finished = 2\<rparr>"

definition demo_totals :: run_summary where
  "demo_totals = \<lparr>su_total = demo_summary, su_hash = ''h'', su_slices = [(''GENERAL'', demo_summary)],
     su_finance = demo_empty, su_other = demo_summary\<rparr>"

definition demo_parsers :: run_parsers where
  "demo_parsers = \<lparr>ek_hash = \<lambda>_. ''h'', ek_json = \<lambda>_. Inr (JObj [(''run_id'', JStr ''r'')]), ek_map_json = \<lambda>_. [],
     ek_workload_json = \<lambda>_. [], ek_mapping_json = \<lambda>_. [], rp_manifest = \<lambda>_. Inr demo_manifest,
     rp_records = \<lambda>_. Inr [demo_record], rp_summary = \<lambda>_. Some demo_totals,
     rp_raw = \<lambda>_. ''w'', rp_quality_json = \<lambda>_. [], rp_suite_json = \<lambda>_. [], rp_policy_json = \<lambda>_. [],
     rp_revision_json = \<lambda>_. []\<rparr>"

definition demo_quality :: quality_codec where
  "demo_quality = \<lparr>qk_parse = \<lambda>_. Inr JNull, qk_dump = \<lambda>_. [], qk_hash = \<lambda>_. ''q'', qk_suite_json = \<lambda>_. []\<rparr>"

definition demo_suite :: golden_suite where
  "demo_suite = \<lparr>gst_id = ''s'', gst_version = ''e'', gst_cases =
     [\<lparr>gcs_id = ''c'', gcs_family = ''GENERAL'', gcs_prompt = ''p'', gcs_expected = ''5'', gcs_kind = Exact\<rparr>]\<rparr>"

definition demo_evidence :: quality_evidence where
  "demo_evidence = \<lparr>qe_suite = ''q'', qe_version = ''e'', qe_baseline_run = ''r'', qe_candidate_run = ''r'',
     qe_reference_revision = ''v'', qe_candidate_revision = ''v'', qe_reference = [(''c'', ''5'')],
     qe_candidate = [(''c'', '' 5'')], qe_mapping = None\<rparr>"

definition gate_policy :: promotion_policy where
  "gate_policy = \<lparr>pp_version = ''p1'', pp_rps = 1, pp_tps = 1, pp_ttft = 1, pp_e2e = 1, pp_success = 1,
     pp_quality = \<lparr>qc_parity = 1, qc_accuracy = 1\<rparr>\<rparr>"

definition gate_revision :: revision where
  "gate_revision = \<lparr>revision_id = ''rev'', model_revision = ''v'', tokenizer_revision = ''t'', source_revision = ''g'',
     image_digest = ''i'', config_digest = ''d'', engine = ''vllm'', engine_config = ''{}''\<rparr>"

definition demo_files :: run_files where
  "demo_files = \<lparr>rf_before = \<lambda>_. Inr [], rf_during = \<lambda>_. Inr [], rf_after = \<lambda>_. Inr []\<rparr>"

definition gate_codec :: codec where
  "gate_codec = \<lparr>sha256 = \<lambda>_. ''x'', revision_json = \<lambda>_. []\<rparr>"

lemma demo_declared: "declared_input (codec_of demo_parsers) demo_manifest = Inr demo_manifest"
  by (simp add: declared_input_def demo_manifest_def demo_config_def demo_parsers_def codec_of_def make_config_def
      config_fields_def explicit_transport_def require_runtime_def explicit_chat_def workload_digest_def canonical_config_def
      valid_workload_def valid_item_def demo_workload_def demo_item_def
      map_allows_def fsub_def)

lemma demo_record_valid: "valid_timing demo_record = Inr demo_record"
  by (simp add: valid_timing_def demo_record_def record_fields_def)

lemma demo_row_valid: "validate_row (codec_of demo_parsers) demo_manifest demo_record = Inr ()"
  by (simp add: validate_row_def demo_manifest_def demo_workload_def demo_item_def demo_record_def demo_config_def
      require_output_shape_def)

lemma demo_build: "build_summary (codec_of demo_parsers) [demo_record] 2 demo_workload = Inr demo_totals"
proof -
  have f: "families demo_workload = [''GENERAL'']" "rr_family demo_record = ''GENERAL''"
    by (simp_all add: families_def demo_workload_def demo_item_def demo_record_def)
  show ?thesis
    by (simp add: build_summary_def f finance_families_def demo_summarize workload_digest_def codec_of_def
        demo_parsers_def demo_totals_def)
qed

lemma demo_evidence_valid: "validate_evidence demo_parsers (\<lambda>_. Inr []) = Inr demo_manifest"
proof -
  have rp: "rp_manifest demo_parsers [] = Inr demo_manifest" "rp_records demo_parsers [] = Inr [demo_record]"
    "rp_summary demo_parsers [] = Some demo_totals" by (simp_all add: demo_parsers_def)
  have run: "rc_requests (ci_config demo_manifest) = 1" "rc_warmup (ci_config demo_manifest) = 0"
    "ci_seconds demo_manifest = 2" "ci_workload demo_manifest = demo_workload"
    by (simp_all add: demo_manifest_def demo_config_def)
  have ph: "phase_complete [demo_record] ''measured'' 1" "phase_complete [demo_record] ''warmup'' 0"
    by (simp_all add: phase_complete_def demo_record_def)
  show ?thesis
    by (simp add: validate_evidence_def rp demo_declared demo_record_valid run ph demo_row_valid demo_build del: One_nat_def)
qed

lemma demo_sample:
  "sample_of demo_parsers (\<lambda>_. Inr []) = Inr \<lparr>ps_rps = 1 / 2, ps_tps = 1, ps_ttft = 1, ps_e2e = 2, ps_success = 1\<rparr>"
  by (simp add: sample_of_def demo_parsers_def demo_totals_def make_sample_def demo_summary_def)

lemma demo_no_failures:
  "performance_failures \<lparr>ps_rps = 1 / 2, ps_tps = 1, ps_ttft = 1, ps_e2e = 2, ps_success = 1\<rparr>
     \<lparr>ps_rps = 1 / 2, ps_tps = 1, ps_ttft = 1, ps_e2e = 2, ps_success = 1\<rparr> gate_policy = Inr []"
  by (simp add: performance_failures_none gate_policy_def fmul_def overflows_def)

lemma demo_quality_passes:
  "\<exists>r. evaluate_quality demo_quality demo_suite (qe_reference demo_evidence) (qe_candidate demo_evidence)
     (pp_quality gate_policy) = Inr r \<and> qx_passed r"
  by (simp add: evaluate_quality_def demo_suite_def demo_evidence_def gate_policy_def evaluate_case_def
      compare_answers_def answer_of_def canonical_answer_def strip_def blank_def set_mismatch_def same_names_def
      share_def int_div_def Let_def)

lemma gate_identity:
  "check_quality_identity demo_parsers demo_quality demo_evidence demo_suite (\<lambda>_. Inr []) (\<lambda>_. Inr []) demo_manifest demo_manifest = Inr ()"
  by (simp add: check_quality_identity_def run_id_of_def demo_parsers_def field_of_def demo_evidence_def
      suite_digest_def demo_quality_def demo_suite_def demo_manifest_def demo_config_def mapping_declared_def)

lemma demo_promotion:
  "\<exists>d. evaluate_promotion gate_codec demo_parsers demo_quality demo_files demo_files demo_evidence demo_suite
     gate_policy gate_revision = Inr d \<and> approved d"
proof -
  have files: "rf_before demo_files = (\<lambda>_. Inr [])" "rf_during demo_files = (\<lambda>_. Inr [])" "rf_after demo_files = (\<lambda>_. Inr [])"
    by (simp_all add: demo_files_def)
  have cmp: "validate_comparison demo_parsers (\<lambda>_. Inr []) (\<lambda>_. Inr []) = Inr ()"
    by (simp add: validate_comparison_def demo_evidence_valid comparable_def)
  have who: "verify_candidate_identity demo_manifest gate_revision = Inr ()"
    by (simp add: verify_candidate_identity_def demo_manifest_def demo_config_def gate_revision_def)
  have dig: "evidence_digest_of demo_parsers (\<lambda>_. Inr []) (\<lambda>_. Inr []) demo_evidence demo_suite gate_policy gate_revision = Inr ''h''"
    by (simp add: evidence_digest_of_def file_digest_def demo_parsers_def)
  from demo_quality_passes obtain r where r: "evaluate_quality demo_quality demo_suite (qe_reference demo_evidence)
    (qe_candidate demo_evidence) (pp_quality gate_policy) = Inr r" "qx_passed r" by blast
  show ?thesis
    by (simp add: evaluate_promotion_def measured_decision_def files cmp demo_evidence_valid who dig gate_identity
        demo_sample demo_no_failures r decision_for_def approved_def)
qed


end
