(* ===== verification/Jobs.thy ===== *)
theory Jobs
  imports Promotion
begin

text \<open>
  Durable visual jobs (\<open>multimodal/jobs.py\<close> over \<open>contracts/visual.py\<close>): the store, whose
  table is its rows in insertion order, with one transaction per operation, and the steps by
  which the coordinator executes a claimed job.  Random identities and the clock are arguments;
  SHA-256 and the JSON of a request are parameters; an image is its encoding.
\<close>

subsection \<open>Rows\<close>

datatype job_state = JQueued | JRunning | JSucceeded | JFailed | JCancel_requested | JCancelled

record visual_request =
  vr_image :: string
  vr_revision :: string
  vr_seed :: nat
  vr_timeout :: flt

definition visual_id :: "string \<Rightarrow> bool" where
  "visual_id s \<longleftrightarrow> bounded_text 1 128 s \<and> list_all (\<lambda>c. alnum_char c \<or> c \<in> set ''_.:-'') s"

definition valid_visual_request :: "visual_request \<Rightarrow> bool" where
  "valid_visual_request r \<longleftrightarrow> visual_id (vr_revision r) \<and> vr_seed r < 2 ^ 32 \<and>
     fl (1 / 20) \<le> vr_timeout r \<and> vr_timeout r \<le> 120"

record job_row =
  jb_id :: string
  jb_tenant :: string
  jb_key :: string
  jb_digest :: string
  jb_request :: visual_request
  jb_state :: job_state
  jb_generation :: nat
  jb_attempt :: "nat option"
  jb_worker :: "string option"
  jb_artifact :: "string option"
  jb_artifact_sha :: "string option"
  jb_failure :: "string option"
  jb_created :: flt
  jb_updated :: flt

record job_store =
  js_pending :: nat
  js_records :: nat
  js_rows :: "job_row list"

definition open_jobs :: "nat \<Rightarrow> nat \<Rightarrow> job_row list \<Rightarrow> job_store res" where
  "open_jobs pending records rows =
     (if \<not> (1 \<le> pending \<and> pending \<le> records \<and> records \<le> 65536) then Inl (ValueError ''invalid job capacity'')
      else Inr \<lparr>js_pending = pending, js_records = records, js_rows = rows\<rparr>)"

record visual_job =
  vj_id :: string
  vj_state :: job_state
  vj_generation :: nat
  vj_revision :: string
  vj_artifact_sha :: "string option"
  vj_failure :: "string option"
  vj_created :: flt
  vj_updated :: flt

definition public_job :: "job_row \<Rightarrow> visual_job" where
  "public_job r = \<lparr>vj_id = jb_id r, vj_state = jb_state r, vj_generation = jb_generation r,
     vj_revision = vr_revision (jb_request r), vj_artifact_sha = jb_artifact_sha r, vj_failure = jb_failure r,
     vj_created = jb_created r, vj_updated = jb_updated r\<rparr>"

record visual_attempt =
  va_job :: string
  va_generation :: nat
  va_request :: visual_request

record visual_artifact =
  vf_png :: string
  vf_sha :: string
  vf_model_sha :: string
  vf_initialization :: nat
  vf_generation :: nat
  vf_rendering :: nat

record execution =
  ex_attempt :: visual_attempt
  ex_worker :: "string option"

subsection \<open>Statements\<close>

text \<open>\<open>UPDATE ... SET f WHERE P\<close> and its row count, \<open>SELECT ... LIMIT 1\<close>, and the two
  conditions every lookup of a client carries.\<close>

definition update_rows :: "(job_row \<Rightarrow> bool) \<Rightarrow> (job_row \<Rightarrow> job_row) \<Rightarrow> job_store \<Rightarrow> job_store" where
  "update_rows P f s = s\<lparr>js_rows := map (\<lambda>r. if P r then f r else r) (js_rows s)\<rparr>"

definition row_count :: "(job_row \<Rightarrow> bool) \<Rightarrow> job_store \<Rightarrow> nat" where
  "row_count P s = length (filter P (js_rows s))"

definition find_job :: "string \<Rightarrow> string \<Rightarrow> job_store \<Rightarrow> job_row res" where
  "find_job tenant jid s =
     (case find (\<lambda>r. jb_tenant r = tenant \<and> jb_id r = jid) (js_rows s) of
        None \<Rightarrow> Inl (KeyError ''visual job not found'') | Some r \<Rightarrow> Inr r)"

definition is_pending :: "job_row \<Rightarrow> bool" where
  "is_pending r \<longleftrightarrow> jb_state r \<in> {JQueued, JRunning, JCancel_requested}"

definition insert_job :: "job_row \<Rightarrow> job_store \<Rightarrow> job_store res" where
  "insert_job r s =
     (if \<exists>x \<in> set (js_rows s). jb_id x = jb_id r \<or> (jb_tenant x = jb_tenant r \<and> jb_key x = jb_key r)
      then Inl IntegrityError else Inr (s\<lparr>js_rows := js_rows s @ [r]\<rparr>))"

subsection \<open>Submission\<close>

definition new_job :: "string \<Rightarrow> string \<Rightarrow> string \<Rightarrow> string \<Rightarrow> visual_request \<Rightarrow> flt \<Rightarrow> job_row" where
  "new_job jid tenant key digest req now =
     \<lparr>jb_id = jid, jb_tenant = tenant, jb_key = key, jb_digest = digest, jb_request = req, jb_state = JQueued,
      jb_generation = 0, jb_attempt = None, jb_worker = None, jb_artifact = None, jb_artifact_sha = None,
      jb_failure = None, jb_created = now, jb_updated = now\<rparr>"

definition submit_body :: "string \<Rightarrow> string \<Rightarrow> string \<Rightarrow> visual_request \<Rightarrow> string \<Rightarrow> flt \<Rightarrow> (job_store, visual_job) body" where
  "submit_body tenant key digest req uuid now s =
     (case find (\<lambda>r. jb_tenant r = tenant \<and> jb_key r = key) (js_rows s) of
        Some previous \<Rightarrow>
          if jb_digest previous \<noteq> digest
          then Inl (JobConflict ''idempotency key names a different visual request'')
          else Inr (public_job previous, s)
      | None \<Rightarrow>
          if js_records s \<le> length (js_rows s) \<or> js_pending s \<le> row_count is_pending s
          then Inl (JobCapacityError ''visual job capacity exhausted'')
          else bind_res (insert_job (new_job uuid tenant key digest req now) s) (\<lambda>s'.
               bind_res (find_job tenant uuid s') (\<lambda>r. Inr (public_job r, s'))))"

definition submit_job :: "(string \<Rightarrow> string) \<Rightarrow> (visual_request \<Rightarrow> string) \<Rightarrow> string \<Rightarrow> string \<Rightarrow> visual_request
    \<Rightarrow> string \<Rightarrow> flt \<Rightarrow> (job_store, visual_job) action" where
  "submit_job h json tenant key req uuid now s =
     (if \<not> (visual_id tenant \<and> visual_id key) then (Inl (ValueError ''identifier''), s)
      else atomically (submit_body tenant key (h (json req)) req uuid now) s)"

definition get_job :: "string \<Rightarrow> string \<Rightarrow> (job_store, visual_job) action" where
  "get_job tenant jid s = (bind_res (find_job tenant jid s) (\<lambda>r. Inr (public_job r)), s)"

subsection \<open>Claims and fences\<close>

definition claim_before :: "job_row \<Rightarrow> job_row \<Rightarrow> bool" where
  "claim_before a b \<longleftrightarrow> jb_created a < jb_created b \<or> (jb_created a = jb_created b \<and> text_le (jb_id a) (jb_id b))"

fun first_queued :: "job_row option \<Rightarrow> job_row list \<Rightarrow> job_row option" where
  "first_queued best [] = best"
| "first_queued best (r # rs) = first_queued
     (if jb_state r \<noteq> JQueued then best
      else case best of None \<Rightarrow> Some r | Some b \<Rightarrow> if claim_before b r then Some b else Some r) rs"

definition claim_next :: "flt \<Rightarrow> (job_store, (string \<times> visual_attempt) option) action" where
  "claim_next now s =
     (case first_queued None (js_rows s) of None \<Rightarrow> (Inr None, s)
      | Some r \<Rightarrow> let g = jb_generation r + 1 in
          (Inr (Some (jb_tenant r, \<lparr>va_job = jb_id r, va_generation = g, va_request = jb_request r\<rparr>)),
           update_rows (\<lambda>x. jb_id x = jb_id r)
             (\<lambda>x. x\<lparr>jb_state := JRunning, jb_generation := g, jb_attempt := Some g, jb_updated := now\<rparr>) s))"

definition record_worker :: "execution \<Rightarrow> (job_store, unit) action" where
  "record_worker ex s = (Inr (), update_rows
     (\<lambda>r. jb_id r = va_job (ex_attempt ex) \<and> jb_attempt r = Some (va_generation (ex_attempt ex)) \<and>
        jb_state r \<in> {JRunning, JCancel_requested})
     (\<lambda>r. r\<lparr>jb_worker := ex_worker ex\<rparr>) s)"

definition cancel_body :: "string \<Rightarrow> string \<Rightarrow> flt \<Rightarrow> (job_store, visual_job) body" where
  "cancel_body tenant jid now s =
     bind_res (find_job tenant jid s) (\<lambda>r.
     let s' = (if jb_state r \<in> {JQueued, JRunning}
               then update_rows (\<lambda>x. jb_id x = jid)
                 (\<lambda>x. x\<lparr>jb_state := (if jb_state r = JQueued then JCancelled else JCancel_requested),
                        jb_generation := jb_generation x + 1, jb_updated := now\<rparr>) s
               else s) in
     bind_res (find_job tenant jid s') (\<lambda>r'. Inr (public_job r', s')))"

definition request_cancel :: "string \<Rightarrow> string \<Rightarrow> flt \<Rightarrow> (job_store, visual_job) action" where
  "request_cancel tenant jid now = atomically (cancel_body tenant jid now)"

definition owns_job :: "visual_attempt \<Rightarrow> job_row \<Rightarrow> bool" where
  "owns_job a r \<longleftrightarrow> jb_id r = va_job a \<and> jb_generation r = va_generation a \<and> jb_state r = JRunning"

definition complete_job :: "(string \<Rightarrow> string) \<Rightarrow> visual_attempt \<Rightarrow> visual_artifact \<Rightarrow> flt \<Rightarrow> (job_store, bool) action" where
  "complete_job h a art now s =
     (if h (vf_png art) \<noteq> vf_sha art then (Inl (ValueError ''artifact integrity mismatch''), s)
      else (Inr (row_count (owns_job a) s = 1), update_rows (owns_job a)
        (\<lambda>r. r\<lparr>jb_state := JSucceeded, jb_artifact := Some (vf_png art), jb_artifact_sha := Some (vf_sha art), jb_updated := now\<rparr>) s))"

definition cancelled_job :: "visual_attempt \<Rightarrow> job_row \<Rightarrow> bool" where
  "cancelled_job a r \<longleftrightarrow> jb_id r = va_job a \<and> jb_attempt r = Some (va_generation a) \<and>
     jb_generation r = va_generation a + 1 \<and> jb_state r = JCancel_requested"

text \<open>\<open>failed\<close> selects the terminal state: failed, or else cancelled.\<close>

definition finish_cancel :: "visual_attempt \<Rightarrow> bool \<Rightarrow> bool \<Rightarrow> string option \<Rightarrow> flt \<Rightarrow> (job_store, bool) action" where
  "finish_cancel a drained_work failed failure now s =
     (if \<not> drained_work then (Inr False, s)
      else (Inr (row_count (cancelled_job a) s = 1), update_rows (cancelled_job a)
        (\<lambda>r. r\<lparr>jb_state := (if failed then JFailed else JCancelled), jb_failure := failure, jb_updated := now\<rparr>) s))"

definition job_artifact :: "(string \<Rightarrow> string) \<Rightarrow> string \<Rightarrow> string \<Rightarrow> (job_store, string) action" where
  "job_artifact h tenant jid s =
     (bind_res (find_job tenant jid s) (\<lambda>r.
      if jb_state r \<noteq> JSucceeded then Inl (JobConflict ''visual artifact is not available'')
      else case jb_artifact r of None \<Rightarrow> Inl (TypeError ''bytes'')
        | Some content \<Rightarrow>
            if Some (h content) \<noteq> jb_artifact_sha r then Inl (RuntimeError ''stored visual artifact failed integrity'')
            else Inr content), s)"

definition unresolved_jobs :: "(job_store, (string \<times> execution) list) action" where
  "unresolved_jobs s =
     (each_res (\<lambda>r. case jb_attempt r of None \<Rightarrow> Inl (ValueError ''generation'')
        | Some g \<Rightarrow> Inr (jb_tenant r, \<lparr>ex_attempt = \<lparr>va_job = jb_id r, va_generation = g, va_request = jb_request r\<rparr>,
            ex_worker = jb_worker r\<rparr>))
        (filter (\<lambda>r. jb_state r \<in> {JRunning, JCancel_requested}) (js_rows s)), s)"

subsection \<open>The coordinator's execution of a claimed job\<close>

text \<open>
  \<open>_execute\<close> and \<open>_cleanup\<close>: the outcome of the generation call, the worker instance observed
  by then, whether the coordinator is closing, and what the remote cancellation barrier answers
  are parameters.
\<close>

definition cleanup_job :: "string \<Rightarrow> execution \<Rightarrow> py_error \<Rightarrow> bool res \<Rightarrow> flt \<Rightarrow> (job_store, unit) action" where
  "cleanup_job tenant ex err barrier now =
     seq (record_worker ex) (\<lambda>_.
     seq (request_cancel tenant (va_job (ex_attempt ex)) now) (\<lambda>_.
     seq (case barrier of Inl e \<Rightarrow> if e = CancelledError then raise e else return False | Inr b \<Rightarrow> return b) (\<lambda>drained_work.
     seq (finish_cancel (ex_attempt ex) drained_work (err \<noteq> CancelledError)
       (if err = CancelledError then None else Some (class_name err)) now) (\<lambda>_. return ()))))"

definition attempt_job :: "(string \<Rightarrow> string) \<Rightarrow> string \<Rightarrow> execution \<Rightarrow> bool \<Rightarrow> visual_artifact res \<Rightarrow> flt \<Rightarrow> (job_store, unit) action" where
  "attempt_job h tenant ex closing generated now =
     seq (get_job tenant (va_job (ex_attempt ex))) (\<lambda>job.
     if vj_state job \<noteq> JRunning \<or> closing then
       seq (request_cancel tenant (va_job (ex_attempt ex)) now) (\<lambda>_.
       seq (finish_cancel (ex_attempt ex) True False None now) (\<lambda>_. return ()))
     else case generated of Inl e \<Rightarrow> raise e
       | Inr art \<Rightarrow> seq (complete_job h (ex_attempt ex) art now) (\<lambda>committed.
           if committed then return ()
           else seq (finish_cancel (ex_attempt ex) True False None now) (\<lambda>_. return ())))"

definition execute_job :: "(string \<Rightarrow> string) \<Rightarrow> string \<Rightarrow> execution \<Rightarrow> bool \<Rightarrow> visual_artifact res \<Rightarrow> bool res \<Rightarrow> flt
    \<Rightarrow> (job_store, unit) action" where
  "execute_job h tenant ex closing generated barrier now =
     recover (attempt_job h tenant ex closing generated now) (\<lambda>e. cleanup_job tenant ex e barrier now)"

subsection \<open>Progress of a row\<close>

definition terminal :: "job_row \<Rightarrow> bool" where
  "terminal r \<longleftrightarrow> jb_state r \<in> {JSucceeded, JFailed, JCancelled}"

definition fenced_job :: "job_row \<Rightarrow> bool" where
  "fenced_job r \<longleftrightarrow> jb_state r \<in> {JCancel_requested, JCancelled, JFailed}"

definition job_progress :: "job_row \<Rightarrow> job_row \<Rightarrow> bool" where
  "job_progress r r' \<longleftrightarrow> jb_id r' = jb_id r \<and> jb_tenant r' = jb_tenant r \<and> jb_key r' = jb_key r \<and>
     jb_digest r' = jb_digest r \<and> jb_request r' = jb_request r \<and> jb_generation r \<le> jb_generation r' \<and>
     (terminal r \<longrightarrow> r' = r) \<and> (fenced_job r \<longrightarrow> fenced_job r')"

lemma job_progress_refl [simp, intro]: "job_progress r r"
  by (simp add: job_progress_def)

lemma job_progress_trans: "job_progress r r' \<Longrightarrow> job_progress r' r'' \<Longrightarrow> job_progress r r''"
  by (auto simp: job_progress_def)

text \<open>A store moves on: rows keep their place, each makes progress, and ids stay unique.\<close>

definition moves_on :: "job_store \<Rightarrow> job_store \<Rightarrow> bool" where
  "moves_on s s' \<longleftrightarrow> (distinct (map jb_id (js_rows s)) \<longrightarrow> distinct (map jb_id (js_rows s')) \<and>
     length (js_rows s) \<le> length (js_rows s') \<and> (\<forall>i < length (js_rows s). job_progress (js_rows s ! i) (js_rows s' ! i)))"

lemma moves_on_refl [simp, intro]: "moves_on s s"
  by (simp add: moves_on_def)

lemma moves_on_trans: "moves_on s s' \<Longrightarrow> moves_on s' s'' \<Longrightarrow> moves_on s s''"
  unfolding moves_on_def by (meson job_progress_trans less_le_trans le_trans)

lemma update_rows_moves:
  assumes "\<And>r. distinct (map jb_id (js_rows s)) \<Longrightarrow> r \<in> set (js_rows s) \<Longrightarrow> P r \<Longrightarrow> job_progress r (f r)"
  shows "moves_on s (update_rows P f s)"
proof -
  have *: "job_progress r (if P r then f r else r)" if "distinct (map jb_id (js_rows s))" "r \<in> set (js_rows s)" for r
    using assms [OF that] by simp
  have "map jb_id (js_rows (update_rows P f s)) = map jb_id (js_rows s)" if "distinct (map jb_id (js_rows s))"
    using * [OF that] by (auto simp: update_rows_def job_progress_def)
  moreover have "length (js_rows (update_rows P f s)) = length (js_rows s)" by (simp add: update_rows_def)
  moreover have "job_progress (js_rows s ! i) (js_rows (update_rows P f s) ! i)"
    if "distinct (map jb_id (js_rows s))" "i < length (js_rows s)" for i
    using * [OF that(1)] that(2) by (simp add: update_rows_def)
  ultimately show ?thesis by (simp add: moves_on_def)
qed

subsection \<open>Every operation moves on\<close>

definition steady :: "(job_store, 'a) action \<Rightarrow> bool" where
  "steady f \<longleftrightarrow> (\<forall>s. moves_on s (snd (f s)))"

lemma steady_seq [intro]: "steady f \<Longrightarrow> (\<And>a. steady (g a)) \<Longrightarrow> steady (seq f g)"
  unfolding steady_def by (intro allI seq_rel [where R = moves_on]) (auto intro: moves_on_trans)

lemma steady_recover [intro]: "steady f \<Longrightarrow> (\<And>e. steady (h e)) \<Longrightarrow> steady (recover f h)"
  unfolding steady_def by (intro allI recover_rel [where R = moves_on]) (auto intro: moves_on_trans)

lemma steady_return [intro, simp]: "steady (return a)" "steady (raise e)"
  by (simp_all add: steady_def return_def raise_def)

lemma steady_if [intro]: "steady f \<Longrightarrow> steady g \<Longrightarrow> steady (if b then f else g)"
  by simp

lemma steady_atomically:
  "(\<And>s a s'. f s = Inr (a, s') \<Longrightarrow> moves_on s s') \<Longrightarrow> steady (atomically f)"
  by (auto simp: steady_def atomically_def split: sum.splits)

lemma distinct_job_row:
  assumes "distinct (map jb_id rows)" "r \<in> set rows" "x \<in> set rows" "jb_id x = jb_id r"
  shows "x = r"
  using assms by (auto simp: distinct_map dest: inj_onD)

lemma first_queued_mem:
  "first_queued best rows = Some r \<Longrightarrow> best = Some r \<or> (r \<in> set rows \<and> jb_state r = JQueued)"
  by (induction best rows rule: first_queued.induct) (auto split: if_splits option.splits)

lemma steady_submit: "steady (submit_job h json tenant key req uuid now)"
proof -
  have "moves_on s s'" if "submit_body tenant key d req uuid now s = Inr (j, s')" for s j s' d
  proof -
    have "s' = s \<or> insert_job (new_job uuid tenant key d req now) s = Inr s'"
      using that by (auto simp: submit_body_def res_iff split: option.splits if_splits)
    then show ?thesis
      by (auto simp: insert_job_def moves_on_def nth_append new_job_def split: if_splits)
  qed
  then have "steady (atomically (submit_body tenant key d req uuid now))" for d by (rule steady_atomically)
  then show ?thesis by (auto simp: steady_def submit_job_def)
qed

text \<open>The update of one job's row, which the primary key selects.\<close>

lemma update_job_moves:
  assumes "r \<in> set (js_rows s)" "jb_id r = jid" "job_progress r (f r)"
  shows "moves_on s (update_rows (\<lambda>x. jb_id x = jid) f s)"
proof (rule update_rows_moves)
  fix x assume "distinct (map jb_id (js_rows s))" "x \<in> set (js_rows s)" "jb_id x = jid"
  then have "x = r" using distinct_job_row [of "js_rows s" r x] assms(1,2) by simp
  then show "job_progress x (f x)" using assms(3) by simp
qed

lemma steady_claim: "steady (claim_next now)"
proof -
  have "moves_on s (snd (claim_next now s))" for s
  proof (cases "first_queued None (js_rows s)")
    case (Some r)
    then have r: "r \<in> set (js_rows s)" "jb_state r = JQueued" using first_queued_mem by fastforce+
    then show ?thesis
      using Some by (auto simp: claim_next_def Let_def job_progress_def terminal_def fenced_job_def
          intro!: update_job_moves)
  qed (simp add: claim_next_def)
  then show ?thesis by (simp add: steady_def)
qed

lemma steady_worker: "steady (record_worker ex)"
  by (auto simp: steady_def record_worker_def job_progress_def terminal_def fenced_job_def
      intro!: update_rows_moves)

lemma find_job_mem: "find_job tenant jid s = Inr r \<Longrightarrow> r \<in> set (js_rows s) \<and> jb_id r = jid"
  by (auto simp: find_job_def find_Some_iff split: option.splits)

lemma steady_cancel: "steady (request_cancel tenant jid now)"
  unfolding request_cancel_def
proof (rule steady_atomically)
  fix s j s' assume "cancel_body tenant jid now s = Inr (j, s')"
  then obtain r where r: "find_job tenant jid s = Inr r" and s': "s' = (if jb_state r \<in> {JQueued, JRunning}
      then update_rows (\<lambda>x. jb_id x = jid)
        (\<lambda>x. x\<lparr>jb_state := (if jb_state r = JQueued then JCancelled else JCancel_requested),
               jb_generation := jb_generation x + 1, jb_updated := now\<rparr>) s
      else s)"
    unfolding cancel_body_def res_iff Let_def by blast
  show "moves_on s s'"
    unfolding s' using find_job_mem [OF r]
    by (auto simp: job_progress_def terminal_def fenced_job_def intro!: update_job_moves)
qed

lemma steady_complete: "steady (complete_job h a art now)"
  by (auto simp: steady_def complete_job_def owns_job_def job_progress_def terminal_def fenced_job_def
      intro!: update_rows_moves)

lemma steady_finish_cancel: "steady (finish_cancel a d b failure now)"
  by (auto simp: steady_def finish_cancel_def cancelled_job_def job_progress_def terminal_def fenced_job_def
      intro!: update_rows_moves)

lemma steady_get: "steady (get_job tenant jid)"
  by (simp add: steady_def get_job_def)

lemmas steady_ops = steady_submit steady_claim steady_worker steady_cancel steady_complete
  steady_finish_cancel steady_get

lemma steady_execute: "steady (execute_job h tenant ex closing generated barrier now)"
proof -
  have "steady (attempt_job h tenant ex closing generated now)"
    unfolding attempt_job_def using steady_ops
    by (intro steady_seq steady_if) (auto split: sum.splits intro!: steady_seq steady_if)
  moreover have "steady (cleanup_job tenant ex e barrier now)" for e
    unfolding cleanup_job_def using steady_ops by (intro steady_seq) (auto split: sum.splits)
  ultimately show ?thesis unfolding execute_job_def by (intro steady_recover)
qed

subsection \<open>Interleavings\<close>

datatype job_op =
    Submit string string visual_request string flt
  | Claim flt
  | Worker execution
  | Cancel string string flt
  | Complete visual_attempt visual_artifact flt
  | Finish_cancel visual_attempt bool bool "string option" flt
  | Execute string execution bool "visual_artifact res" "bool res" flt

fun job_step :: "(string \<Rightarrow> string) \<Rightarrow> (visual_request \<Rightarrow> string) \<Rightarrow> job_op \<Rightarrow> job_store \<Rightarrow> job_store" where
  "job_step h json (Submit t k r u now) s = snd (submit_job h json t k r u now s)"
| "job_step h json (Claim now) s = snd (claim_next now s)"
| "job_step h json (Worker ex) s = snd (record_worker ex s)"
| "job_step h json (Cancel t j now) s = snd (request_cancel t j now s)"
| "job_step h json (Complete a art now) s = snd (complete_job h a art now s)"
| "job_step h json (Finish_cancel a d f e now) s = snd (finish_cancel a d f e now s)"
| "job_step h json (Execute t ex c g b now) s = snd (execute_job h t ex c g b now s)"

definition job_run :: "(string \<Rightarrow> string) \<Rightarrow> (visual_request \<Rightarrow> string) \<Rightarrow> job_op list \<Rightarrow> job_store \<Rightarrow> job_store" where
  "job_run h json ops s = fold (job_step h json) ops s"

lemma job_step_moves: "moves_on s (job_step h json op s)"
  using steady_ops steady_execute by (cases op) (simp_all add: steady_def)

lemma job_run_moves: "moves_on s (job_run h json ops s)"
  unfolding job_run_def
proof (induction ops arbitrary: s)
  case (Cons op ops)
  show ?case using moves_on_trans [OF job_step_moves Cons.IH] by simp
qed simp

definition empty_jobs :: "nat \<Rightarrow> nat \<Rightarrow> job_store" where
  "empty_jobs pending records = \<lparr>js_pending = pending, js_records = records, js_rows = []\<rparr>"

text \<open>C28: A job whose cancellation was accepted never succeeds, whatever workers, retries, late
  completions and restarts do in whatever order, and a job that reached a terminal state never
  changes again: its row keeps its place and its every column.\<close>

theorem cancelled_job_never_succeeds:
  assumes "s = job_run h json ops (empty_jobs pending records)" and "i < length (js_rows s)"
  shows "(fenced_job (js_rows s ! i) \<longrightarrow> jb_state (js_rows (job_run h json later s) ! i) \<noteq> JSucceeded) \<and>
    (terminal (js_rows s ! i) \<longrightarrow> js_rows (job_run h json later s) ! i = js_rows s ! i) \<and>
    jb_id (js_rows (job_run h json later s) ! i) = jb_id (js_rows s ! i)"
proof -
  have "distinct (map jb_id (js_rows s))"
    using job_run_moves [of "empty_jobs pending records" h json ops] assms(1)
    by (simp add: moves_on_def empty_jobs_def)
  then have "job_progress (js_rows s ! i) (js_rows (job_run h json later s) ! i)"
    using job_run_moves [of s h json later] assms(2) by (simp add: moves_on_def)
  then show ?thesis by (auto simp: job_progress_def fenced_job_def)
qed

definition demo_visual :: visual_request where
  "demo_visual = \<lparr>vr_image = ''x'', vr_revision = ''m'', vr_seed = 17, vr_timeout = 30\<rparr>"

definition demo_attempt :: visual_attempt where
  "demo_attempt = \<lparr>va_job = ''j'', va_generation = 1, va_request = demo_visual\<rparr>"

definition demo_png :: visual_artifact where
  "demo_png = \<lparr>vf_png = ''p'', vf_sha = ''p'', vf_model_sha = ''d'', vf_initialization = 1, vf_generation = 2, vf_rendering = 3\<rparr>"

lemmas job_eval = job_run_def empty_jobs_def submit_job_def visual_id_def bounded_text_def alnum_char_def
  atomically_def submit_body_def row_count_def insert_job_def new_job_def find_job_def claim_next_def Let_def
  update_rows_def request_cancel_def cancel_body_def demo_visual_def

theorem cancelled_job_never_succeeds_witness:
  "jb_state (js_rows (job_run (\<lambda>x. x) vr_image
      [Complete demo_attempt demo_png 4]
      (job_run (\<lambda>x. x) vr_image [Submit ''t'' ''k'' demo_visual ''j'' 1, Claim 2, Cancel ''t'' ''j'' 3]
        (empty_jobs 4 8))) ! 0) \<noteq> JSucceeded"
proof -
  let ?s = "job_run (\<lambda>x. x) vr_image [Submit ''t'' ''k'' demo_visual ''j'' 1, Claim 2, Cancel ''t'' ''j'' 3] (empty_jobs 4 8)"
  have "0 < length (js_rows ?s)" "fenced_job (js_rows ?s ! 0)" by (simp_all add: job_eval fenced_job_def)
  then show ?thesis
    using cancelled_job_never_succeeds [of ?s "\<lambda>x. x" vr_image _ 4 8 0
        "[Complete demo_attempt demo_png 4]"] by blast
qed

end
