(* ===== verification/RouteAdapter.thy ===== *)
theory RouteAdapter
  imports Jobs
begin

text \<open>
  \<open>WarmRouteAdapter\<close> of \<open>reliability/warm_routes.py\<close>: the adapter through which the
  rollback controller moves traffic and verifies health, over the traffic store and the streaming
  client's event decoder.  The HTTP client, the gateway that answers it, clocks and fresh
  identities are the fields of a \<open>net\<close>; an exchange may change the traffic store in any way,
  since the gateway that serves the smoke request and other processes run meanwhile.
\<close>

subsection \<open>Construction\<close>

text \<open>The parts of \<open>httpx.URL\<close>, whose parser is a parameter.\<close>

record url_parts =
  ur_scheme :: string
  ur_host :: string
  ur_username :: string
  ur_password :: string
  ur_query :: string
  ur_fragment :: string

record route_adapter =
  ra_store :: warm_handle
  ra_url :: string
  ra_timeout :: flt

definition trusted_url :: "url_parts \<Rightarrow> bool" where
  "trusted_url u \<longleftrightarrow> ur_scheme u \<in> {''http'', ''https''} \<and> ur_host u \<noteq> [] \<and> ur_username u = [] \<and>
     ur_password u = [] \<and> ur_query u = [] \<and> ur_fragment u = []"

definition open_adapter :: "(string \<Rightarrow> url_parts) \<Rightarrow> warm_handle \<Rightarrow> string \<Rightarrow> flt \<Rightarrow> route_adapter res" where
  "open_adapter parse_url h url timeout =
     (if \<not> (0 < timeout \<and> timeout \<le> 30) then Inl (ValueError ''finite health timeout in (0,30] required'')
      else if \<not> trusted_url (parse_url url) then Inl (ValueError ''invalid trusted traffic URL'')
      else Inr \<lparr>ra_store = h, ra_url = rev (dropWhile (\<lambda>c. c = CHR ''/'') (rev url)), ra_timeout = timeout\<rparr>)"

subsection \<open>Traffic\<close>

record 'x traffic =
  tf_routes :: warm_db
  tf_net :: 'x

text \<open>The answer to a smoke request: the response, the headers that name the route, and what
  closing it raises.\<close>

record probe_answer = engine_response +
  pa_revision :: "string option"
  pa_digest :: "string option"
  pa_generation :: "string option"
  pa_close :: "py_error option"

record 'x net =
  net_ask :: "string \<Rightarrow> inference_request \<Rightarrow> string option \<Rightarrow> 'x traffic \<Rightarrow> probe_answer res \<times> 'x traffic"
  net_uuid :: "'x traffic \<Rightarrow> string"
  net_token :: "'x traffic \<Rightarrow> string"
  net_now :: "'x traffic \<Rightarrow> flt"
  net_late :: "'x traffic \<Rightarrow> bool"

record probe_parsers =
  pp_json :: json_parser
  pp_lines :: line_decoder
  pp_request :: "inference_request \<Rightarrow> string"

definition on_routes :: "(warm_db, 'a) action \<Rightarrow> ('x traffic, 'a) action" where
  "on_routes f w = (case f (tf_routes w) of (r, db) \<Rightarrow> (r, w\<lparr>tf_routes := db\<rparr>))"

subsection \<open>The smoke request\<close>

definition smoke_request :: "string \<Rightarrow> flt \<Rightarrow> warm_backend \<Rightarrow> inference_request res" where
  "smoke_request uuid timeout b = coherent_chat
     \<lparr>iq_id = uuid, iq_model = cf_model (wb_configuration b), iq_prompt = ''health'', iq_messages = None,
      iq_max_tokens = 1, iq_temperature = 0, iq_timeout = timeout, iq_stream = True, iq_constraint = None\<rparr>"

definition event_stream :: "'z engine_response_scheme \<Rightarrow> bool" where
  "event_stream a \<longleftrightarrow> er_status a = 200 \<and>
     map lower_char (strip (hd (split_on CHR '';'' (case er_content_type a of None \<Rightarrow> [] | Some t \<Rightarrow> t))))
       = ''text/event-stream'' \<and>
     map lower_char (case er_encoding a of None \<Rightarrow> ''identity'' | Some e \<Rightarrow> e) = ''identity''"

fun read_smoke :: "json_parser \<Rightarrow> completion_state \<Rightarrow> string list \<Rightarrow> py_error option \<Rightarrow> (completion_state \<times> bool) res" where
  "read_smoke parse s [] out = (case out of Some e \<Rightarrow> Inl e | None \<Rightarrow> Inr (s, False))"
| "read_smoke parse s (ev # evs) out =
     (if ev = ''[DONE]'' then bind_res (final_token s) (\<lambda>_. Inr (s, True))
      else bind_res (consume parse ev s) (\<lambda>(t, s'). read_smoke parse s' evs out))"

definition smoke_passed :: "probe_parsers \<Rightarrow> route \<Rightarrow> probe_answer \<Rightarrow> bool res" where
  "smoke_passed pp before a =
     (if \<not> event_stream a then Inl (ValueError ''health response must be an uncompressed successful SSE'')
      else case response_events (pp_lines pp) 65536 (er_chunks a) (er_end a) of (evs, out) \<Rightarrow>
        bind_res (read_smoke (pp_json pp) (new_completion 1) evs out) (\<lambda>(s, complete).
        Inr (cs_visible s \<and> complete \<and> cs_tokens s = Some 1 \<and> pa_revision a = Some (ro_revision before) \<and>
          pa_digest a = Some (ro_digest before) \<and> pa_generation a = Some (decimal (ro_generation before)))))"

definition smoke :: "route_adapter \<Rightarrow> 'x net \<Rightarrow> probe_parsers \<Rightarrow> string \<Rightarrow> route \<Rightarrow> inference_request \<Rightarrow> string option
    \<Rightarrow> ('x traffic, bool) action" where
  "smoke ra net pp dep before q token =
     seq (net_ask net (ra_url ra @ ''/v1/completions'') q token) (\<lambda>a.
     case (pa_close a, smoke_passed pp before a) of
       (Some e, _) \<Rightarrow> raise e
     | (None, Inl e) \<Rightarrow> raise e
     | (None, Inr valid) \<Rightarrow>
         if \<not> valid then return False
         else seq (on_routes (route_snapshot (ra_store ra) dep)) (\<lambda>now. return (now = before)))"

definition probe_health :: "'z route_codec_scheme \<Rightarrow> route_adapter \<Rightarrow> 'x net \<Rightarrow> probe_parsers \<Rightarrow> string
    \<Rightarrow> ('x traffic, health) action" where
  "probe_health cd ra net pp dep =
     seq (on_routes (route_snapshot (ra_store ra) dep)) (\<lambda>before.
     seq (on_routes (backend (ra_store ra) (ro_revision before))) (\<lambda>b.
     seq (\<lambda>w. (smoke_request (net_uuid net w) (ra_timeout ra) b, w)) (\<lambda>q.
     seq (if wh_pooled (ra_store ra)
          then seq (\<lambda>w. on_routes (probe_token cd (ra_store ra) (net_token net w) before (pp_request pp q)) w)
                 (\<lambda>t. return (Some t))
          else return None) (\<lambda>token.
     seq (finally_do
            (recover (smoke ra net pp dep before q token)
               (\<lambda>e. if e = HTTPClosureError \<or> e = CancelledError then raise e else return False))
            (case token of None \<Rightarrow> return () | Some t \<Rightarrow> on_routes (revoke_probe cd (ra_store ra) t))) (\<lambda>valid.
     return \<lparr>h_revision_id = ro_revision before, h_revision_digest = ro_digest before,
             h_ready = valid, h_smoke_passed = valid\<rparr>)))))"

text \<open>The outer deadline turns the cancellation it causes into a timeout.\<close>

definition route_health :: "'z route_codec_scheme \<Rightarrow> route_adapter \<Rightarrow> 'x net \<Rightarrow> probe_parsers \<Rightarrow> string
    \<Rightarrow> ('x traffic, health) action" where
  "route_health cd ra net pp dep =
     recover (probe_health cd ra net pp dep)
       (\<lambda>e w. if e = CancelledError \<and> net_late net w then raise (TimeoutError ''health deadline'') w else raise e w)"

definition warm_adapter :: "'z route_codec_scheme \<Rightarrow> route_adapter \<Rightarrow> 'x net \<Rightarrow> probe_parsers \<Rightarrow> 'x traffic adapter" where
  "warm_adapter cd ra net pp =
     \<lparr>supports_idempotency = True,
      adapter_apply = (\<lambda>q w. seq (on_routes (apply_route cd (ra_store ra) q (net_now net w))) (\<lambda>_. return ()) w),
      adapter_health = route_health cd ra net pp\<rparr>"

end
