(* ===== verification/AdapterGuarantees.thy ===== *)
theory AdapterGuarantees
  imports RouteAdapter
begin

text \<open>
  What a restored rollback means for traffic.  The controller relies on one law of its adapter,
  that ready health attests something about the world; the law is a locale, proved of the
  warm-route adapter, for which the attested fact is the current route and a smoke answer it served.
\<close>

subsection \<open>The operation while it is open\<close>

definition open_op :: "string \<Rightarrow> regression_signal \<Rightarrow> control_db \<Rightarrow> bool" where
  "open_op oid sig db \<longleftrightarrow> control_inv db \<and>
     (\<exists>op. lookup (c_rollbacks db) oid = Some op \<and> o_signal op = sig \<and> o_status op \<noteq> Restored)"

definition restored_by :: "control_db \<Rightarrow> rollback_record \<Rightarrow> health \<Rightarrow> bool" where
  "restored_by db op h \<longleftrightarrow> h_ready h \<and> h_revision_id h = o_target_revision op \<and>
     h_revision_digest h = o_target_digest op \<and>
     (\<exists>d. lookup (c_deployments db) (s_deployment_id (o_signal op)) = Some d \<and>
        d_active_revision d = o_target_revision op \<and> d_rollback_id d = None)"

lemma changed_record_sel [simp]:
  "o_status (changed_record op st err sa now) = st"
  "o_signal (changed_record op st err sa now) = o_signal op"
  "o_operation_id (changed_record op st err sa now) = o_operation_id op"
  "o_target_revision (changed_record op st err sa now) = o_target_revision op"
  "o_target_digest (changed_record op st err sa now) = o_target_digest op"
  by (simp_all add: changed_record_def Let_def)

lemma do_update_world: "ctl_world (snd (do_update env oid owner st err sa h w)) = ctl_world w"
  by (simp add: do_update_def split: prod.splits)

lemma do_update_commit:
  assumes "do_update env oid owner st err sa h w = (Inr op', w')"
  obtains now ev where
    "update_body (e_codec env) oid owner st err sa h now ev (ctl_db w) = Inr (op', ctl_db w')"
  using assms by (auto simp: do_update_def update_rollback_def control_txn_Inr split: prod.splits)

lemma do_update_abort: "do_update env oid owner st err sa h w = (Inl e, w') \<Longrightarrow> ctl_db w' = ctl_db w"
  by (auto simp: do_update_def update_rollback_def control_txn_def dest: atomically_rollback split: prod.splits)

lemma open_op_id: "open_op oid sig db \<Longrightarrow> lookup (c_rollbacks db) oid = Some op \<Longrightarrow> o_operation_id op = oid"
  by (auto simp: open_op_def dest: control_invD(3) simp: rollback_ok_def)

lemma update_open:
  assumes "open_op oid sig (ctl_db w)" and "st \<noteq> Restored"
  shows "outcome (do_update env oid owner st err sa h) w
     (\<lambda>op' w'. open_op oid sig (ctl_db w') \<and> o_operation_id op' = oid \<and> o_signal op' = sig \<and>
        o_status op' \<noteq> Restored \<and> ctl_world w' = ctl_world w)
     (\<lambda>e w'. open_op oid sig (ctl_db w'))"
proof (rule outcomeI)
  fix op' w' assume u: "do_update env oid owner st err sa h w = (Inr op', w')"
  then have world: "ctl_world w' = ctl_world w" by (metis do_update_world snd_conv)
  from u obtain now ev where b:
    "update_body (e_codec env) oid owner st err sa h now ev (ctl_db w) = Inr (op', ctl_db w')"
    by (rule do_update_commit)
  have inv: "control_inv (ctl_db w')"
    using assms(1) quiet_update [of w env oid owner st err sa h] u by (simp add: open_op_def quiet_def)
  from b assms show "open_op oid sig (ctl_db w') \<and> o_operation_id op' = oid \<and> o_signal op' = sig \<and>
        o_status op' \<noteq> Restored \<and> ctl_world w' = ctl_world w"
    using world inv open_op_id [OF assms(1)]
    by (cases rule: update_body_cases) (auto simp: open_op_def lookup_upsert)
next
  fix e w' assume "do_update env oid owner st err sa h w = (Inl e, w')"
  from do_update_abort [OF this] assms(1) show "open_op oid sig (ctl_db w')" by simp
qed

lemma update_restored:
  assumes "open_op oid sig (ctl_db w)"
  shows "outcome (do_update env oid owner Restored err sa (Some h)) w
     (\<lambda>op' w'. restored_by (ctl_db w') op' h \<and> o_signal op' = sig \<and> ctl_world w' = ctl_world w)
     (\<lambda>e w'. open_op oid sig (ctl_db w'))"
proof (rule outcomeI)
  fix op' w' assume u: "do_update env oid owner Restored err sa (Some h) w = (Inr op', w')"
  then have world: "ctl_world w' = ctl_world w" by (metis do_update_world snd_conv)
  from u obtain now ev where b:
    "update_body (e_codec env) oid owner Restored err sa (Some h) now ev (ctl_db w) = Inr (op', ctl_db w')"
    by (rule do_update_commit)
  have inv: "control_inv (ctl_db w)" using assms by (simp add: open_op_def)
  from b show "restored_by (ctl_db w') op' h \<and> o_signal op' = sig \<and> ctl_world w' = ctl_world w"
  proof (cases rule: update_body_cases)
    case (1 op st deps expiry)
    from 1(9) obtain target where t: "lookup (c_revisions (ctl_db w)) (o_target_revision op) = Some target"
      "verifies (e_codec env) h target" "revision_digest (e_codec env) target = o_target_digest op"
      "deps = upsert (d_deployment_id st) (restored_state st target) (c_deployments (ctl_db w))"
      by (auto simp: restore_deployments_ok)
    have id: "revision_id target = o_target_revision op" using control_invD(1) [OF inv t(1)] .
    from 1(3) have st: "lookup (c_deployments (ctl_db w)) (s_deployment_id (o_signal op)) = Some st"
      by (auto simp: fence_ok)
    then have "d_deployment_id st = s_deployment_id (o_signal op)"
      using control_invD(2) [OF inv st] by (simp add: deployment_ok_def)
    with 1 t id have "restored_by (ctl_db w') op' h"
      by (simp add: restored_by_def verifies_def lookup_upsert restored_state_def)
    moreover have "o_signal op' = sig" using 1(1,6) assms by (simp add: open_op_def)
    ultimately show ?thesis using world by simp
  qed
next
  fix e w' assume "do_update env oid owner Restored err sa (Some h) w = (Inl e, w')"
  from do_update_abort [OF this] assms show "open_op oid sig (ctl_db w')" by simp
qed

subsection \<open>Attested health\<close>

lemma health_db: "ctl_db (snd (do_health ad dep w)) = ctl_db w"
  by simp

lemma apply_outcome:
  "outcome (do_apply ad q) w (\<lambda>_ w'. ctl_db w' = ctl_db w) (\<lambda>_ w'. ctl_db w' = ctl_db w)"
  by (auto simp: outcome_def do_apply_def split: prod.splits sum.splits)

lemma read_outcome:
  assumes "\<And>db. snd (f db) = db"
  shows "outcome (on_db f) w (\<lambda>a w'. w' = w \<and> f (ctl_db w) = (Inr a, ctl_db w)) (\<lambda>_ w'. w' = w)"
  using assms [of "ctl_db w"] by (auto simp: outcome_def on_db_def split: prod.splits sum.splits)

lemma verifies_ready: "verifies cd h target \<Longrightarrow> h_ready h"
  by (simp add: verifies_def)

lemma claim_outcome:
  assumes "open_op oid sig (ctl_db w)"
  shows "outcome (do_claim env oid owner) w
     (\<lambda>op w'. open_op oid sig (ctl_db w') \<and> o_operation_id op = oid \<and> o_signal op = sig) (\<lambda>_ _. True)"
proof (rule outcomeI)
  fix op w' assume c: "do_claim env oid owner w = (Inr op, w')"
  have "control_inv (ctl_db w')"
    using assms quiet_claim [of w env oid owner] c by (simp add: open_op_def quiet_def)
  with do_claim_Inr [OF c] assms show "open_op oid sig (ctl_db w') \<and> o_operation_id op = oid \<and> o_signal op = sig"
    using open_op_id [OF assms] by (simp add: open_op_def)
qed simp

lemma release_outcome:
  "outcome (on_db (release_lease me oid owner)) w
     (\<lambda>_ w'. c_deployments (ctl_db w') = c_deployments (ctl_db w) \<and> ctl_world w' = ctl_world w) (\<lambda>_ _. True)"
  by (auto simp: outcome_def on_db_def release_lease_def control_txn_Inr split: prod.splits sum.splits
      option.splits if_splits)

locale attested =
  fixes ad :: "'w adapter" and attests :: "string \<Rightarrow> health \<Rightarrow> 'w \<Rightarrow> bool"
  assumes attest: "adapter_health ad dep x = (Inr h, x') \<Longrightarrow> h_ready h \<Longrightarrow> attests dep h x'"
begin

definition restored_well :: "rollback_record \<Rightarrow> 'w ctl \<Rightarrow> bool" where
  "restored_well op w \<longleftrightarrow> (o_status op = Restored \<longrightarrow>
     (\<exists>h. restored_by (ctl_db w) op h \<and> attests (s_deployment_id (o_signal op)) h (ctl_world w)))"

lemma health_outcome:
  "outcome (do_health ad dep) w
     (\<lambda>h w'. ctl_db w' = ctl_db w \<and> (h_ready h \<longrightarrow> attests dep h (ctl_world w')))
     (\<lambda>_ w'. ctl_db w' = ctl_db w)"
  by (auto simp: outcome_def do_health_def attest split: prod.splits sum.splits)

lemma restoring_outcome:
  assumes "open_op oid sig (ctl_db w)" and "h_ready h \<Longrightarrow> attests (s_deployment_id sig) h (ctl_world w)"
    and "verifies cd h target"
  shows "outcome (do_update env oid owner Restored None False (Some h)) w
     restored_well (\<lambda>_ w'. open_op oid sig (ctl_db w'))"
proof -
  have "attests (s_deployment_id sig) h (ctl_world w)" using assms(2) verifies_ready [OF assms(3)] .
  then show ?thesis
    by (auto intro!: outcome_mono [OF update_restored [OF assms(1)]] simp: restored_well_def)
qed

lemma unverified_outcome:
  assumes "open_op oid sig (ctl_db w)" and "st \<noteq> Restored"
  shows "outcome (do_update env oid owner st err False None) w restored_well (\<lambda>_ w'. open_op oid sig (ctl_db w'))"
  using assms(2) by (auto intro!: outcome_mono [OF update_open [OF assms(1)]] simp: restored_well_def)

lemma apply_verify_outcome:
  assumes "open_op oid sig (ctl_db w)" and "o_operation_id op = oid"
  shows "outcome (apply_and_verify env ad op owner target) w restored_well (\<lambda>_ w'. open_op oid sig (ctl_db w'))"
  unfolding apply_and_verify_def outcome_seq assms(2)
proof (rule outcome_mono [OF update_open [OF assms(1)]])
  fix op' :: rollback_record and w1 :: "'w ctl"
  assume "open_op oid sig (ctl_db w1) \<and> o_operation_id op' = oid \<and> o_signal op' = sig \<and>
        o_status op' \<noteq> Restored \<and> ctl_world w1 = ctl_world w"
  then have 1: "open_op oid sig (ctl_db w1)" and id: "o_operation_id op' = oid" "o_signal op' = sig" by simp_all
  show "outcome (do_apply ad (rollback_request op' target)) w1
     (\<lambda>a s'. outcome (do_update env (o_operation_id op') owner Verifying None False None) s'
       (\<lambda>a s'. outcome (do_health ad (s_deployment_id (o_signal op'))) s'
          (\<lambda>a s'. outcome (if verifies (e_codec env) a target
                 then do_update env (o_operation_id op') owner Restored None False (Some a)
                 else do_update env (o_operation_id op') owner Verifying (Some ''health_not_verified'') False None)
               s' restored_well (\<lambda>_ w'. open_op oid sig (ctl_db w')))
          (\<lambda>_ w'. open_op oid sig (ctl_db w')))
       (\<lambda>_ w'. open_op oid sig (ctl_db w')))
     (\<lambda>_ w'. open_op oid sig (ctl_db w'))"
    unfolding id
    by (rule outcome_mono [OF apply_outcome], rule outcome_mono [OF update_open])
      (auto simp: 1 intro!: outcome_mono [OF health_outcome] restoring_outcome unverified_outcome)
qed simp

lemma run_cycle_outcome:
  assumes "open_op oid sig (ctl_db w)" and "o_operation_id op = oid" and "o_signal op = sig"
  shows "outcome (run_cycle env ad op owner) w restored_well (\<lambda>_ w'. open_op oid sig (ctl_db w'))"
proof -
  have "outcome (do_health ad (s_deployment_id sig)) w
      (\<lambda>h w'. outcome (if verifies (e_codec env) h target
         then do_update env oid owner Restored None False (Some h)
         else if o_status op = Verifying \<or> \<not> supports_idempotency ad
         then do_update env oid owner (if o_status op = Verifying then Verifying else Needs_reconciliation)
                (Some ''health_not_verified'') False None
         else apply_and_verify env ad op owner target) w' restored_well (\<lambda>_ w'. open_op oid sig (ctl_db w')))
      (\<lambda>_ w'. open_op oid sig (ctl_db w'))" for target
  proof (rule outcome_mono [OF health_outcome])
    fix h and w1 :: "'w ctl"
    assume "ctl_db w1 = ctl_db w \<and> (h_ready h \<longrightarrow> attests (s_deployment_id sig) h (ctl_world w1))"
    then have o1: "open_op oid sig (ctl_db w1)"
      and att: "h_ready h \<Longrightarrow> attests (s_deployment_id sig) h (ctl_world w1)" using assms(1) by simp_all
    show "outcome (if verifies (e_codec env) h target
         then do_update env oid owner Restored None False (Some h)
         else if o_status op = Verifying \<or> \<not> supports_idempotency ad
         then do_update env oid owner (if o_status op = Verifying then Verifying else Needs_reconciliation)
                (Some ''health_not_verified'') False None
         else apply_and_verify env ad op owner target) w1 restored_well (\<lambda>_ w'. open_op oid sig (ctl_db w'))"
      using restoring_outcome [OF o1 att, of "e_codec env" target env owner] unverified_outcome [OF o1] apply_verify_outcome [OF o1 assms(2)]
      by simp
  qed (use assms(1) in simp)
  then show ?thesis
    unfolding run_cycle_def outcome_seq assms(2,3)
    by (intro outcome_mono [OF read_outcome])
      (auto simp: outcome_seq assms(1) intro: apply_verify_outcome assms)
qed

lemma failed_outcome:
  assumes "open_op oid sig (ctl_db w)"
  shows "outcome (handle_failure env oid owner e) w restored_well (\<lambda>_ _. True)"
proof -
  have *: "outcome (do_update env oid owner st err False None) w restored_well (\<lambda>_ _. True)"
    if "st \<noteq> Restored" for st err
    using that by (auto intro!: outcome_mono [OF unverified_outcome [OF assms]])
  show ?thesis
    unfolding handle_failure_def outcome_seq
  proof (rule outcome_mono [OF read_outcome])
    fix cur and w1 :: "'w ctl" assume "w1 = w \<and> operation (e_me env) oid (ctl_db w) = (Inr cur, ctl_db w)"
    then have "w1 = w" and "o_status cur \<noteq> Restored" using assms by (auto simp: operation_Inr open_op_def)
    then show "outcome (if e = CancelledError then
         seq (do_update env oid owner (o_status cur) (Some ''CancelledError'') False None)
           (\<lambda>_. raise CancelledError)
       else do_update env oid owner (o_status cur) (Some (class_name e)) False None) w1 restored_well (\<lambda>_ _. True)"
      using * outcome_mono [OF *] by (auto simp: wp)
  qed simp_all
qed

theorem resume_outcome:
  assumes "open_op oid sig (ctl_db w)"
  shows "outcome (resume env ad owner oid) w restored_well (\<lambda>_ _. True)"
  unfolding resume_def outcome_seq
proof (rule outcome_mono [OF read_outcome])
  fix op0 and w0 :: "'w ctl" assume "w0 = w \<and> operation (e_me env) oid (ctl_db w) = (Inr op0, ctl_db w)"
  then have w0: "w0 = w" and "o_status op0 \<noteq> Restored" using assms by (auto simp: operation_Inr open_op_def)
  moreover have "outcome (seq (do_claim env oid owner) (\<lambda>op.
         finally_do (recover (run_cycle env ad op owner) (handle_failure env oid owner))
           (on_db (release_lease (e_me env) oid owner)))) w restored_well (\<lambda>_ _. True)"
    unfolding outcome_seq outcome_finally outcome_recover
  proof (rule outcome_mono [OF claim_outcome [OF assms]])
    fix op :: rollback_record and w1 :: "'w ctl"
    assume "open_op oid sig (ctl_db w1) \<and> o_operation_id op = oid \<and> o_signal op = sig"
    then have c: "outcome (run_cycle env ad op owner) w1 restored_well (\<lambda>_ w'. open_op oid sig (ctl_db w'))"
      by (intro run_cycle_outcome) auto
    have keep: "outcome (on_db (release_lease (e_me env) oid owner)) v (\<lambda>_. restored_well a) (\<lambda>_ _. True)"
      if "restored_well a v" for a :: rollback_record and v :: "'w ctl"
      using that by (auto intro!: outcome_mono [OF release_outcome] simp: restored_well_def restored_by_def)
    show "outcome (run_cycle env ad op owner) w1
        (\<lambda>a s'. outcome (on_db (release_lease (e_me env) oid owner)) s' (\<lambda>_. restored_well a) (\<lambda>_ _. True))
        (\<lambda>e s'. outcome (handle_failure env oid owner e) s'
          (\<lambda>a s'. outcome (on_db (release_lease (e_me env) oid owner)) s' (\<lambda>_. restored_well a) (\<lambda>_ _. True))
          (\<lambda>e s'. outcome (on_db (release_lease (e_me env) oid owner)) s' (\<lambda>_ _. True) (\<lambda>_ _. True)))"
    proof (rule outcome_mono [OF c])
      fix e and v :: "'w ctl" assume "open_op oid sig (ctl_db v)"
      from failed_outcome [OF this] show "outcome (handle_failure env oid owner e) v
          (\<lambda>a s'. outcome (on_db (release_lease (e_me env) oid owner)) s' (\<lambda>_. restored_well a) (\<lambda>_ _. True))
          (\<lambda>e s'. outcome (on_db (release_lease (e_me env) oid owner)) s' (\<lambda>_ _. True) (\<lambda>_ _. True))"
        by (rule outcome_mono) (auto intro: keep outcome_any)
    qed (rule keep)
  qed simp
  ultimately show "outcome (if o_status op0 = Restored then return op0
       else seq (do_claim env oid owner) (\<lambda>op.
         finally_do (recover (run_cycle env ad op owner) (handle_failure env oid owner))
           (on_db (release_lease (e_me env) oid owner)))) w0 restored_well (\<lambda>_ _. True)"
    by simp
qed simp_all

end

subsection \<open>What the warm-route adapter attests\<close>

definition smoke_seen :: "route_adapter \<Rightarrow> 'x net \<Rightarrow> probe_parsers \<Rightarrow> route \<Rightarrow> bool" where
  "smoke_seen ra net pp r \<longleftrightarrow>
     (\<exists>q token v a v'. net_ask net (ra_url ra @ ''/v1/completions'') q token v = (Inr a, v') \<and>
        smoke_passed pp r a = Inr True)"

lemma smoke_seenI:
  "net_ask net (ra_url ra @ ''/v1/completions'') q token v = (Inr a, v') \<Longrightarrow>
     smoke_passed pp r a = Inr True \<Longrightarrow> smoke_seen ra net pp r"
  unfolding smoke_seen_def by blast

definition carries_traffic :: "route_adapter \<Rightarrow> 'x net \<Rightarrow> probe_parsers \<Rightarrow> string \<Rightarrow> health \<Rightarrow> 'x traffic \<Rightarrow> bool" where
  "carries_traffic ra net pp dep h w \<longleftrightarrow>
     (\<exists>r. lookup (w_routes (tf_routes w)) dep = Some r \<and> ro_revision r = h_revision_id h \<and>
        ro_digest r = h_revision_digest h \<and> smoke_seen ra net pp r)"

lemma snapshot_outcome:
  "outcome (on_routes (route_snapshot h dep)) w
     (\<lambda>r w'. w' = w \<and> lookup (w_routes (tf_routes w)) dep = Some r) (\<lambda>_ _. True)"
  by (auto simp: outcome_def on_routes_def route_snapshot_def warm_txn_def atomically_def current_route_def
      split: prod.splits sum.splits option.splits)

lemma revoke_outcome:
  "outcome (on_routes (revoke_probe cd h token)) w
     (\<lambda>_ w'. w_routes (tf_routes w') = w_routes (tf_routes w)) (\<lambda>_ _. True)"
  by (auto simp: outcome_def on_routes_def revoke_probe_def warm_txn_def atomically_def
      split: prod.splits sum.splits)

lemma smoke_outcome:
  "outcome (smoke ra net pp dep before q token) w
     (\<lambda>valid w'. valid \<longrightarrow> carries_traffic ra net pp dep
        \<lparr>h_revision_id = ro_revision before, h_revision_digest = ro_digest before,
         h_ready = True, h_smoke_passed = True\<rparr> w') (\<lambda>_ _. True)"
  unfolding smoke_def outcome_seq
proof (rule outcomeI)
  fix a and w1 :: "'a traffic"
  assume ask: "net_ask net (ra_url ra @ ''/v1/completions'') q token w = (Inr a, w1)"
  show "outcome (case (pa_close a, smoke_passed pp before a) of
       (Some e, _) \<Rightarrow> raise e | (None, Inl e) \<Rightarrow> raise e
     | (None, Inr valid) \<Rightarrow> if \<not> valid then return False
         else seq (on_routes (route_snapshot (ra_store ra) dep)) (\<lambda>now. return (now = before))) w1
     (\<lambda>valid w'. valid \<longrightarrow> carries_traffic ra net pp dep
        \<lparr>h_revision_id = ro_revision before, h_revision_digest = ro_digest before,
         h_ready = True, h_smoke_passed = True\<rparr> w') (\<lambda>_ _. True)"
    using smoke_seenI [OF ask] by (auto simp: wp carries_traffic_def split: option.splits sum.splits
        intro!: outcome_mono [OF snapshot_outcome])
qed simp

lemma health_ready_outcome:
  "outcome (route_health cd ra net pp dep) w
     (\<lambda>h w'. h_ready h \<longrightarrow> carries_traffic ra net pp dep h w') (\<lambda>_ _. True)"
proof -
  have smoked: "outcome (finally_do
            (recover (smoke ra net pp dep before q token)
               (\<lambda>e. if e = HTTPClosureError \<or> e = CancelledError then raise e else return False))
            (case token of None \<Rightarrow> return () | Some t \<Rightarrow> on_routes (revoke_probe cd (ra_store ra) t))) v
      (\<lambda>valid v'. outcome (return \<lparr>h_revision_id = ro_revision before, h_revision_digest = ro_digest before,
             h_ready = valid, h_smoke_passed = valid\<rparr>) v'
        (\<lambda>h w'. h_ready h \<longrightarrow> carries_traffic ra net pp dep h w') (\<lambda>_ _. True)) (\<lambda>_ _. True)"
    for before q token v
  proof -
    have fin: "outcome (case token of None \<Rightarrow> return () | Some t \<Rightarrow> on_routes (revoke_probe cd (ra_store ra) t)) u
        (\<lambda>_ w'. w_routes (tf_routes w') = w_routes (tf_routes u)) (\<lambda>_ _. True)" for u
      by (cases token) (simp_all add: wp revoke_outcome)
    show ?thesis
      unfolding outcome_finally outcome_recover outcome_return
      by (rule outcome_mono [OF smoke_outcome])
        (auto simp: wp carries_traffic_def intro!: outcome_mono [OF fin])
  qed
  have "outcome (probe_health cd ra net pp dep) w
     (\<lambda>h w'. h_ready h \<longrightarrow> carries_traffic ra net pp dep h w') (\<lambda>_ _. True)"
    unfolding probe_health_def outcome_seq
    by (rule outcome_mono [OF outcome_any], rule outcome_mono [OF outcome_any],
        rule outcome_mono [OF outcome_any], rule outcome_mono [OF outcome_any], rule smoked) simp_all
  then show ?thesis
    unfolding route_health_def outcome_recover
    by (rule outcome_mono) (simp_all add: outcome_def raise_def)
qed

interpretation warm: attested "warm_adapter cd ra net pp" "carries_traffic ra net pp" for cd ra net pp
proof unfold_locales
  fix dep x h x'
  assume "adapter_health (warm_adapter cd ra net pp) dep x = (Inr h, x')" "h_ready h"
  then show "carries_traffic ra net pp dep h x'"
    using outcomeD [OF health_ready_outcome, of cd ra net pp dep x h x'] by (simp add: warm_adapter_def)
qed


subsection \<open>A concrete restoration\<close>

text \<open>Traffic is at the candidate \<open>b\<close>; the gateway answers the smoke request after the cutover
  back to \<open>a\<close>.\<close>

definition demo_answer :: probe_answer where
  "demo_answer = \<lparr>er_status = 200, er_content_type = Some ''text/event-stream'', er_encoding = None,
     er_chunks = [concat (map (\<lambda>e. ''data: '' @ e @ [CHR 0x0A, CHR 0x0A]) [''d'', ''f'', ''[DONE]''])], er_end = None,
     pa_revision = Some ''a'', pa_digest = Some ''a'', pa_generation = Some ''2'', pa_close = None\<rparr>"

definition demo_net :: "unit net" where
  "demo_net = \<lparr>net_ask = (\<lambda>u q t w. (Inr demo_answer, w)), net_uuid = (\<lambda>_. ''r''), net_token = (\<lambda>_. ''t''),
     net_now = (\<lambda>_. 3), net_late = (\<lambda>_. False)\<rparr>"

definition demo_probe :: probe_parsers where
  "demo_probe = \<lparr>pp_json = demo_parse, pp_lines = lf_lines, pp_request = iq_prompt\<rparr>"

definition demo_route_adapter :: route_adapter where
  "demo_route_adapter = \<lparr>ra_store = demo_warm, ra_url = ''u'', ra_timeout = 5\<rparr>"

definition demo_candidate :: warm_db where
  "demo_candidate = fst (warm_run demo_warm_codec demo_warm demo_control (demo_ops @ [W_apply demo_cutover 2]) demo_stores)"

definition demo_regressed :: "unit traffic ctl" where
  "demo_regressed = \<lparr>ctl_db = demo_db, ctl_world = \<lparr>tf_routes = demo_candidate, tf_net = ()\<rparr>, ctl_tick = 0,
     ctl_applied = []\<rparr>"

definition demo_route :: "string \<Rightarrow> nat \<Rightarrow> flt \<Rightarrow> route" where
  "demo_route i n now = \<lparr>ro_deployment = ''d'', ro_revision = i, ro_digest = i, ro_generation = n,
     ro_changed_at = now, ro_durable = True, ro_pooled = False\<rparr>"

lemma demo_smoke_passed: "smoke_passed demo_probe (demo_route ''a'' 2 3) demo_answer = Inr True"
  by (simp add: smoke_passed_def event_stream_def demo_answer_def demo_probe_def demo_route_def engine_eval
      decimal.simps digit_def)

lemma demo_candidate_eval:
  "w_identity demo_candidate = Some demo_identity" "w_durable demo_candidate" "\<not> w_pooled demo_candidate"
  "w_routes demo_candidate = [(''d'', demo_route ''b'' 1 2)]" "w_retirements demo_candidate = []"
  "w_backends demo_candidate = [(''a'', ''http://a'', demo_backend ''a''), (''b'', ''http://b'', demo_backend ''b'')]"
  "map fst (w_actions demo_candidate) = [''k'']" "map fst (w_events demo_candidate) = [''d'', ''d'']"
  by (simp_all add: demo_candidate_def demo_ops_def demo_warm_defs warm_eval demo_route_def)

definition demo_rollback :: apply_request where
  "demo_rollback = \<lparr>q_deployment_id = ''d'', q_expected_revision = ''b'', q_expected_generation = 1,
     q_target = demo_revision ''a'', q_idempotency_key = ''op''\<rparr>"

definition demo_back :: warm_db where
  "demo_back = snd (apply_route demo_warm_codec demo_warm demo_rollback 3 demo_candidate)"

lemma demo_back_eval:
  "apply_route demo_warm_codec demo_warm demo_rollback 3 demo_candidate = (Inr (demo_route ''a'' 2 3), demo_back)"
  "w_identity demo_back = Some demo_identity" "w_retirements demo_back = []"
  "w_routes demo_back = [(''d'', demo_route ''a'' 2 3)]"
  "lookup (w_backends demo_back) ''a'' = Some (''http://a'', demo_backend ''a'')"
  by (simp_all add: demo_back_def demo_candidate_def demo_rollback_def demo_ops_def demo_warm_defs warm_eval
      demo_route_def)

lemma demo_healthy:
  "route_health demo_warm_codec demo_route_adapter demo_net demo_probe ''d'' \<lparr>tf_routes = demo_back, tf_net = ()\<rparr>
     = (Inr (demo_health ''a''), \<lparr>tf_routes = demo_back, tf_net = ()\<rparr>)"
proof -
  have s: "on_routes (route_snapshot demo_warm ''d'') \<lparr>tf_routes = demo_back, tf_net = ()\<rparr>
      = (Inr (demo_route ''a'' 2 3), \<lparr>tf_routes = demo_back, tf_net = ()\<rparr>)"
    by (simp add: on_routes_def route_snapshot_def warm_eval demo_back_eval demo_warm_def demo_identity_def)
  have b: "on_routes (backend demo_warm ''a'') \<lparr>tf_routes = demo_back, tf_net = ()\<rparr>
      = (Inr (demo_backend ''a''), \<lparr>tf_routes = demo_back, tf_net = ()\<rparr>)"
    by (simp add: on_routes_def warm_eval demo_back_eval demo_warm_def demo_identity_def)
  have q: "\<exists>q. smoke_request ''r'' 5 (demo_backend ''a'') = Inr q"
    by (simp add: smoke_request_def coherent_chat_def request_fields_def bounded_text_def alnum_char_def
        demo_backend_def)
  have c: "pa_close demo_answer = None" "\<not> wh_pooled demo_warm" by (simp_all add: demo_answer_def demo_warm_def)
  have r: "ro_revision (demo_route ''a'' 2 3) = ''a''" "ro_digest (demo_route ''a'' 2 3) = ''a''"
    by (simp_all add: demo_route_def)
  from q show ?thesis
    by (auto simp: route_health_def probe_health_def seq_def recover_def finally_do_def smoke_def return_def
        demo_route_adapter_def s b c r demo_net_def demo_smoke_passed demo_health_def)
qed

lemma demo_restored:
  "\<exists>op' w'. resume demo_env (warm_adapter demo_warm_codec demo_route_adapter demo_net demo_probe) ''w'' ''op'' demo_regressed
      = (Inr op', w') \<and> o_status op' = Restored \<and> s_deployment_id (o_signal op') = ''d''"
proof -
  have q: "rollback_request op (demo_revision ''a'') = demo_rollback"
    if "o_signal op = demo_signal" "o_operation_id op = ''op''" for op :: rollback_record
    using that by (simp add: rollback_request_def demo_rollback_def demo_signal_def)
  have ad: "adapter_apply (warm_adapter demo_warm_codec demo_route_adapter demo_net demo_probe) demo_rollback
      \<lparr>tf_routes = demo_candidate, tf_net = ()\<rparr> = (Inr (), \<lparr>tf_routes = demo_back, tf_net = ()\<rparr>)"
    by (simp add: warm_adapter_def on_routes_def demo_back_eval demo_net_def demo_route_adapter_def seq_def return_def)
  have hl: "adapter_health (warm_adapter demo_warm_codec demo_route_adapter demo_net demo_probe) ''d''
      \<lparr>tf_routes = demo_back, tf_net = ()\<rparr> = (Inr (demo_health ''a''), \<lparr>tf_routes = demo_back, tf_net = ()\<rparr>)"
    by (simp add: warm_adapter_def demo_healthy)
  have i: "revision_id (demo_revision ''a'') = ''a''" by (simp add: demo_revision_def)
  show ?thesis
    by (simp add: demo_regressed_def demo_env_def demo_db_eval lookup_upsert i q ad hl resume_def on_db_def operation_def
      do_claim_def claim_def claim_body_def do_update_def update_rollback_def update_body_def
      run_cycle_def apply_and_verify_def do_apply_def do_health_def control_eval seq_def recover_def finally_do_def
      return_def revision_of_def fence_def release_lease_def validate_transition_def demo_operation_def demo_active_def
      changed_record_def restore_deployments_def restored_state_def fadd_def fmul_def
      demo_signal_def demo_codec_def demo_identity_def demo_health_def)
qed


end
