(* ===== verification/Monitor.thy ===== *)
theory Monitor
  imports AdapterGuarantees
begin

text \<open>
  The probe monitor (\<open>reliability/monitor.py\<close>): a bounded window of health probes whose
  observations are completed stages of the producer journal, chained by their artifacts, and whose
  regression signal starts the rollback controller.  JSON renderings are the fields of a codec;
  clocks, fresh tokens and what happens while the monitor sleeps are the fields of a schedule.
\<close>

subsection \<open>Policies and observations\<close>

record monitor_policy =
  mp_monitor :: string
  mp_deployment :: string
  mp_revision :: string
  mp_digest :: string
  mp_generation :: nat
  mp_regressions :: nat
  mp_maximum :: nat
  mp_recovery :: nat
  mp_interval :: flt
  mp_slow :: flt
  mp_timeout :: flt

definition monitor_fields :: "monitor_policy \<Rightarrow> bool" where
  "monitor_fields p \<longleftrightarrow> bounded_text 1 128 (mp_monitor p) \<and> list_all identifier_char (mp_monitor p) \<and>
     bounded_text 1 128 (mp_deployment p) \<and> bounded_text 1 128 (mp_revision p) \<and> is_sha256 (mp_digest p) \<and>
     1 \<le> mp_regressions p \<and> mp_regressions p \<le> 32 \<and> 1 \<le> mp_maximum p \<and> mp_maximum p \<le> 256 \<and>
     1 \<le> mp_recovery p \<and> mp_recovery p \<le> 10 \<and> fl (1 / 10) \<le> mp_interval p \<and> mp_interval p \<le> 60 \<and>
     0 < mp_slow p \<and> mp_slow p \<le> 30 \<and> 0 < mp_timeout p \<and> mp_timeout p \<le> 30"

definition make_policy :: "monitor_policy \<Rightarrow> monitor_policy res" where
  "make_policy p =
     bind_res (ensure (monitor_fields p) (ValueError ''invalid monitor policy'')) (\<lambda>_.
     bind_res (ensure (\<not> (mp_maximum p < mp_regressions p \<or> mp_timeout p < mp_slow p))
       (ValueError ''monitor thresholds exceed collection bounds'')) (\<lambda>_. Inr p))"

record probe_observation =
  po_policy :: string
  po_sequence :: nat
  po_previous :: "artifact_ref option"
  po_finished :: flt
  po_elapsed :: flt
  po_matches :: bool
  po_health :: "health option"
  po_error :: "string option"

definition make_observation :: "probe_observation \<Rightarrow> probe_observation res" where
  "make_observation item =
     bind_res (ensure (is_sha256 (po_policy item) \<and> po_sequence item \<le> 255 \<and> 0 < po_finished item \<and>
       0 \<le> po_elapsed item \<and> opt_all error_code (po_error item)) (ValueError ''invalid probe observation'')) (\<lambda>_. Inr item)"

record monitor_result =
  mr_observation :: probe_observation
  mr_reference :: artifact_ref
  mr_signal :: "regression_signal option"
  mr_rollback :: "rollback_record option"
  mr_finished :: bool

record monitor_codec =
  mc_sha256 :: "string \<Rightarrow> string"
  mc_policy :: "monitor_policy \<Rightarrow> string"
  mc_declared :: "monitor_policy \<Rightarrow> string"
  mc_input :: "string \<Rightarrow> nat \<Rightarrow> artifact_ref option \<Rightarrow> string"
  mc_observation :: "probe_observation \<Rightarrow> string"
  mc_parse :: "string \<Rightarrow> probe_observation res"
  mc_window :: "monitor_policy \<Rightarrow> artifact_ref list \<Rightarrow> string"
  mc_proof :: "string \<Rightarrow> string \<Rightarrow> string"

definition monitor_digest :: "monitor_codec \<Rightarrow> monitor_policy \<Rightarrow> string" where
  "monitor_digest mc p = mc_sha256 mc (mc_policy mc p)"

subsection \<open>Classification and the signal\<close>

datatype probe_class = Healthy | Failing | Slow | Stale

definition classification :: "monitor_policy \<Rightarrow> probe_observation \<Rightarrow> probe_class" where
  "classification p item =
     (if \<not> po_matches item then Stale
      else case po_health item of None \<Rightarrow> Failing
      | Some h \<Rightarrow>
          if \<not> h_ready h \<or> \<not> h_smoke_passed h \<or> h_revision_id h \<noteq> mp_revision p \<or> h_revision_digest h \<noteq> mp_digest p
          then Failing
          else if mp_slow p < po_elapsed item then Slow else Healthy)"

definition recent :: "nat \<Rightarrow> 'a list \<Rightarrow> 'a list" where
  "recent n xs = drop (length xs - n) xs"

definition regressed :: "monitor_policy \<Rightarrow> probe_observation list \<Rightarrow> bool" where
  "regressed p items \<longleftrightarrow>
     (let last_few = recent (mp_regressions p) (map (classification p) items) in
      length last_few = mp_regressions p \<and> list_all (\<lambda>c. c \<in> {Failing, Slow}) last_few)"

definition monitor_signal :: "monitor_codec \<Rightarrow> monitor_policy \<Rightarrow> probe_observation \<Rightarrow> artifact_ref \<Rightarrow> regression_signal" where
  "monitor_signal mc p item ref =
     \<lparr>s_signal_id = ''probe-'' @ mc_sha256 mc (monitor_digest mc p @ '':'' @ decimal (po_sequence item)),
      s_deployment_id = mp_deployment p, s_observed_revision = mp_revision p,
      s_observed_generation = mp_generation p, s_detected_at = po_finished item,
      s_detector = ''synthetic-stream-health-v1'',
      s_reason = decimal (mp_regressions p) @ '' consecutive failed/slow probes; final artifact '' @ af_sha256 ref\<rparr>"

definition probe_result :: "monitor_codec \<Rightarrow> monitor_policy \<Rightarrow> probe_observation list \<Rightarrow> artifact_ref list \<Rightarrow> monitor_result res" where
  "probe_result mc p items refs =
     (if items = [] \<or> refs = [] then Inl IndexError
      else
        let item = last items; ref = last refs; sig = monitor_signal mc p item ref; bad = regressed p items in
        if bad \<and> \<not> valid_signal sig then Inl (ValueError ''invalid regression signal'')
        else Inr \<lparr>mr_observation = item, mr_reference = ref, mr_signal = (if bad then Some sig else None),
          mr_rollback = None,
          mr_finished = (bad \<or> classification p item = Stale \<or> length items = mp_maximum p)\<rparr>)"

subsection \<open>The chain of completed probes\<close>

definition three_digits :: "nat \<Rightarrow> string" where
  "three_digits n = (let d = decimal n in replicate (3 - length d) (CHR ''0'') @ d)"

definition probe_stage_id :: "monitor_policy \<Rightarrow> nat \<Rightarrow> string" where
  "probe_stage_id p k = mp_monitor p @ '':probe-'' @ three_digits k"

definition last_ref :: "artifact_ref list \<Rightarrow> artifact_ref option" where
  "last_ref refs = (if refs = [] then None else Some (last refs))"

definition backward :: "probe_observation list \<Rightarrow> probe_observation \<Rightarrow> bool" where
  "backward items item \<longleftrightarrow> items \<noteq> [] \<and> po_finished item < po_finished (last items)"

type_synonym probe_window = "probe_observation list \<times> artifact_ref list \<times> stage_state option"

definition read_probe :: "monitor_codec \<Rightarrow> artifact_ref \<Rightarrow> journal \<Rightarrow> probe_observation res" where
  "read_probe mc out j = bind_res (artifact_get (mc_sha256 mc) out (jn_store j)) (mc_parse mc)"

fun probe_chain :: "monitor_codec \<Rightarrow> monitor_policy \<Rightarrow> nat list \<Rightarrow> probe_observation list \<Rightarrow> artifact_ref list
    \<Rightarrow> (journal, probe_window) action" where
  "probe_chain mc p [] items refs = return (items, refs, None)"
| "probe_chain mc p (k # ks) items refs =
     seq (declare_input (mc_sha256 mc) (probe_stage_id p k) (mc_input mc (monitor_digest mc p) k (last_ref refs))) (\<lambda>st.
     if ss_status st \<noteq> Completed then return (items, refs, Some st)
     else case ss_output st of None \<Rightarrow> raise AssertionError
     | Some out \<Rightarrow> seq (\<lambda>j. (read_probe mc out j, j)) (\<lambda>item.
         if (po_policy item, po_sequence item, po_previous item) \<noteq> (monitor_digest mc p, k, last_ref refs)
         then raise (ValueError ''monitor probe chain differs from frozen inputs'')
         else if backward items item then raise (ValueError ''monitor observation clock moved backward'')
         else case probe_result mc p (items @ [item]) (refs @ [out]) of
           Inl e \<Rightarrow> raise e
         | Inr r \<Rightarrow> if mr_finished r then return (items @ [item], refs @ [out], None)
             else probe_chain mc p ks (items @ [item]) (refs @ [out])))"

definition probe_history :: "monitor_codec \<Rightarrow> monitor_policy \<Rightarrow> (journal, probe_window) action" where
  "probe_history mc p =
     seq (declare_input (mc_sha256 mc) (mp_monitor p @ '':policy'') (mc_declared mc p)) (\<lambda>_.
     probe_chain mc p [0..<mp_maximum p] [] [])"

fun spaced_by :: "flt \<Rightarrow> probe_observation list \<Rightarrow> bool" where
  "spaced_by d (a # b # os) \<longleftrightarrow> \<not> fsub (po_finished b) (po_finished a) < d \<and> spaced_by d (b # os)"
| "spaced_by d _ = True"

definition healthy_window :: "monitor_codec \<Rightarrow> monitor_policy \<Rightarrow> (journal, artifact_ref) action" where
  "healthy_window mc p =
     seq (probe_history mc p) (\<lambda>(items, refs, pending).
     if pending \<noteq> None \<or> mp_maximum p < 2 \<or> length items \<noteq> mp_maximum p \<or>
        list_ex (\<lambda>i. classification p i \<noteq> Healthy) items \<or> \<not> spaced_by (mp_interval p) items
     then raise (ValueError ''probation requires a complete spaced healthy monitor window'')
     else store_artifact (mc_sha256 mc) (mc_window mc p refs))"

subsection \<open>One probe\<close>

record 'x monitor =
  mo_journal :: journal
  mo_ctl :: "'x traffic ctl"
  mo_tick :: nat

text \<open>Readings and fresh values by tick; \<open>sc_journal\<close> and \<open>sc_world\<close> are what other
  processes do to the journal and to everything else while the monitor sleeps.\<close>

record 'x schedule =
  sc_clock :: "nat \<Rightarrow> flt"
  sc_monotonic :: "nat \<Rightarrow> flt"
  sc_token :: "nat \<Rightarrow> string"
  sc_cancelled :: "nat \<Rightarrow> bool"
  sc_journal :: "nat \<Rightarrow> stage_op list"
  sc_world :: "nat \<Rightarrow> 'x traffic ctl \<Rightarrow> 'x traffic ctl"

record 'x probe_monitor =
  pm_policy :: monitor_policy
  pm_codec :: monitor_codec
  pm_env :: env
  pm_routes :: warm_handle
  pm_adapter :: "'x traffic adapter"
  pm_schedule :: "'x schedule"

definition on_journal :: "(journal, 'a) action \<Rightarrow> ('x monitor, 'a) action" where
  "on_journal f w = (case f (mo_journal w) of (r, j) \<Rightarrow> (r, w\<lparr>mo_journal := j\<rparr>))"

definition on_ctl :: "('x traffic ctl, 'a) action \<Rightarrow> ('x monitor, 'a) action" where
  "on_ctl f w = (case f (mo_ctl w) of (r, c) \<Rightarrow> (r, w\<lparr>mo_ctl := c\<rparr>))"

definition next_tick :: "('x monitor, nat) action" where
  "next_tick w = (Inr (mo_tick w), w\<lparr>mo_tick := mo_tick w + 1\<rparr>)"

text \<open>\<open>_matches\<close>: intent and traffic still name the candidate.\<close>

definition on_traffic :: "(warm_db, 'a) action \<Rightarrow> ('x traffic ctl, 'a) action" where
  "on_traffic f w = (case on_routes f (ctl_world w) of (r, x) \<Rightarrow> (r, w\<lparr>ctl_world := x\<rparr>))"

definition candidate_matches :: "'x probe_monitor \<Rightarrow> ('x monitor, bool) action" where
  "candidate_matches m = (let p = pm_policy m; me = e_me (pm_env m) in
     on_ctl (seq (on_db (deployment me (mp_deployment p))) (\<lambda>d.
       seq (on_traffic (route_snapshot (pm_routes m) (mp_deployment p))) (\<lambda>r.
       seq (on_db (revision_of me (mp_revision p))) (\<lambda>rv. return
         (d_active_revision d = ro_revision r \<and> ro_revision r = mp_revision p \<and>
          d_generation d = ro_generation r \<and> ro_generation r = mp_generation p \<and>
          revision_digest (e_codec (pm_env m)) rv = ro_digest r \<and> ro_digest r = mp_digest p \<and>
          d_rollback_id d = None \<and> d_active_revision d \<noteq> d_known_good_revision d))))))"

definition ask_health :: "'x probe_monitor \<Rightarrow> bool \<Rightarrow> ('x monitor, health option \<times> string option) action" where
  "ask_health m before =
     (if \<not> before then return (None, None)
      else recover (seq (on_ctl (do_health (pm_adapter m) (mp_deployment (pm_policy m)))) (\<lambda>h. return (Some h, None)))
        (\<lambda>e. if e = HTTPClosureError \<or> e = CancelledError then raise e else return (None, Some (class_name e))))"

definition publish_probe :: "'x probe_monitor \<Rightarrow> string \<Rightarrow> string \<Rightarrow> probe_observation \<Rightarrow> flt \<Rightarrow> (journal, artifact_ref) action" where
  "publish_probe m sid attempt item now = (let mc = pm_codec m in
     seq (store_artifact (mc_sha256 mc) (mc_observation mc item)) (\<lambda>ref.
     seq (finish_stage (mc_sha256 mc) sid attempt ref now) (\<lambda>_. return ref)))"

definition record_probe :: "'x probe_monitor \<Rightarrow> probe_observation list \<Rightarrow> artifact_ref list \<Rightarrow> stage_state \<Rightarrow> string
    \<Rightarrow> flt \<Rightarrow> bool \<Rightarrow> health option \<times> string option \<Rightarrow> ('x monitor, monitor_result) action" where
  "record_probe m items refs st attempt elapsed matches seen =
     (let p = pm_policy m; mc = pm_codec m; sc = pm_schedule m in
     seq next_tick (\<lambda>t.
     seq (\<lambda>w. (make_observation \<lparr>po_policy = monitor_digest mc p, po_sequence = length items,
         po_previous = last_ref refs, po_finished = sc_clock sc t, po_elapsed = elapsed, po_matches = matches,
         po_health = fst seen, po_error = snd seen\<rparr>, w)) (\<lambda>item.
     if backward items item then raise (ValueError ''monitor observation clock moved backward'')
     else seq next_tick (\<lambda>t'.
       seq (on_journal (publish_probe m (ss_id st) attempt item (sc_clock sc t'))) (\<lambda>ref.
       (\<lambda>w. (probe_result mc p (items @ [item]) (refs @ [ref]), w)))))))"

definition run_probe :: "'x probe_monitor \<Rightarrow> probe_observation list \<Rightarrow> artifact_ref list \<Rightarrow> stage_state
    \<Rightarrow> ('x monitor, monitor_result) action" where
  "run_probe m items refs st =
     (let mc = pm_codec m; sc = pm_schedule m in
     seq next_tick (\<lambda>t.
     seq (on_journal (start_owned (mc_sha256 mc) (mc_proof mc) (ss_id st) (sc_token sc t) (sc_clock sc t) (sc_cancelled sc t))) (\<lambda>running.
     case ss_attempt running of None \<Rightarrow> raise AssertionError
     | Some attempt \<Rightarrow>
         seq (candidate_matches m) (\<lambda>before.
         seq next_tick (\<lambda>t0.
         seq (ask_health m before) (\<lambda>seen.
         seq next_tick (\<lambda>t1.
         seq (if before then candidate_matches m else return False) (\<lambda>matches.
         record_probe m items refs st attempt (fsub (sc_monotonic sc t1) (sc_monotonic sc t0)) matches seen))))))))"

definition observe_probe :: "'x probe_monitor \<Rightarrow> string \<Rightarrow> ('x monitor, monitor_result) action" where
  "observe_probe m dep =
     (if dep \<noteq> mp_deployment (pm_policy m) then raise (ValueError ''monitor deployment differs from frozen policy'')
      else seq (on_journal (probe_history (pm_codec m) (pm_policy m))) (\<lambda>(items, refs, pending).
        case pending of
          None \<Rightarrow> (\<lambda>w. (probe_result (pm_codec m) (pm_policy m) items refs, w))
        | Some st \<Rightarrow> run_probe m items refs st))"

subsection \<open>The run\<close>

definition pause :: "'x probe_monitor \<Rightarrow> 'x monitor \<Rightarrow> 'x monitor" where
  "pause m w = (let sc = pm_schedule m; t = mo_tick w in
     w\<lparr>mo_journal := stage_ops (mc_sha256 (pm_codec m)) (mc_proof (pm_codec m)) (sc_journal sc t) (mo_journal w),
       mo_ctl := sc_world sc t (mo_ctl w), mo_tick := t + 1\<rparr>)"

text \<open>At most \<open>recovery_attempts\<close> resumptions, with a pause between two of them.\<close>

fun recovery :: "'x probe_monitor \<Rightarrow> string \<Rightarrow> nat \<Rightarrow> rollback_record option \<Rightarrow> ('x monitor, rollback_record option) action" where
  "recovery m oid 0 found = return found"
| "recovery m oid (Suc n) found =
     seq next_tick (\<lambda>t.
     seq (on_ctl (resume (pm_env m) (pm_adapter m) (sc_token (pm_schedule m) t) oid)) (\<lambda>r.
     if o_status r \<in> {Restored, Needs_reconciliation} then return (Some r)
     else (\<lambda>w. recovery m oid n (Some r) (if n = 0 then w else pause m w))))"

definition answer_signal :: "'x probe_monitor \<Rightarrow> monitor_result \<Rightarrow> regression_signal \<Rightarrow> ('x monitor, monitor_result) action" where
  "answer_signal m result sig =
     seq next_tick (\<lambda>t.
     seq next_tick (\<lambda>t'.
     seq (on_ctl (on_db (detect (e_codec (pm_env m)) (e_me (pm_env m)) sig (sc_clock (pm_schedule m) t) (sc_clock (pm_schedule m) t')))) (\<lambda>_.
     seq (\<lambda>w. (ensure (valid_timeout (mp_timeout (pm_policy m))) (ValueError ''invalid timeout''), w)) (\<lambda>_.
     seq (recovery m (s_signal_id sig) (mp_recovery (pm_policy m)) None) (\<lambda>found.
     case found of None \<Rightarrow> raise AssertionError
     | Some r \<Rightarrow> return (result\<lparr>mr_rollback := Some r\<rparr>))))))"

text \<open>\<open>run\<close> with a bound on the rounds of its loop; \<open>None\<close> when the bound does not suffice.\<close>

fun run_monitor :: "'x probe_monitor \<Rightarrow> nat \<Rightarrow> 'x monitor \<Rightarrow> (monitor_result res \<times> 'x monitor) option" where
  "run_monitor m 0 w = None"
| "run_monitor m (Suc n) w =
     (case observe_probe m (mp_deployment (pm_policy m)) w of
        (Inl e, w') \<Rightarrow> Some (Inl e, w')
      | (Inr r, w') \<Rightarrow>
          (case mr_signal r of
             Some sig \<Rightarrow> Some (answer_signal m r sig w')
           | None \<Rightarrow> if mr_finished r then Some (Inr r, w') else run_monitor m n (pause m w')))"

end
