(* ===== verification/MonitorGuarantees.thy ===== *)
theory MonitorGuarantees
  imports Monitor
begin

text \<open>
  The monitor returns: every round that neither fails nor finishes completes one more probe stage,
  a completed stage stays completed, and the window has at most \<open>maximum_probes\<close> stages.
\<close>

subsection \<open>Completed probe stages\<close>

definition stage_done :: "journal \<Rightarrow> string \<Rightarrow> bool" where
  "stage_done j sid \<longleftrightarrow> (\<exists>r. lookup (jn_stages j) sid = Some r \<and> ss_status (sr_payload r) = Completed)"

definition probes_done :: "monitor_policy \<Rightarrow> journal \<Rightarrow> nat \<Rightarrow> bool" where
  "probes_done p j n \<longleftrightarrow> journal_ok j \<and> (\<forall>k < n. stage_done j (probe_stage_id p k))"

lemma extends_done: "extends j j' \<Longrightarrow> journal_ok j \<Longrightarrow> stage_done j sid \<Longrightarrow> stage_done j' sid"
  unfolding extends_def stage_done_def by blast

lemma extends_probes: "extends j j' \<Longrightarrow> probes_done p j n \<Longrightarrow> probes_done p j' n"
  using extends_done unfolding probes_done_def by (auto simp: extends_def)

lemma safe_probes: "safe_action f \<Longrightarrow> probes_done p j n \<Longrightarrow> outcome f j (\<lambda>_ j'. probes_done p j' n) (\<lambda>_ _. True)"
  by (rule outcomeI) (auto dest!: safe_actionD intro: extends_probes)

text \<open>A declared stage is returned as its row has it.\<close>

lemma declare_input_row:
  assumes "declare_input h sid dat j = (Inr st, j')"
  shows "\<exists>r. lookup (jn_stages j') sid = Some r \<and> sr_payload r = st"
proof -
  from assms obtain r j1 where d: "declare_stage h sid r j1 = (Inr st, j')"
    unfolding declare_input_def seq_def by (auto split: prod.splits sum.splits)
  then obtain s where m: "make_stage (planned_stage sid r) = Inr s" and
    c: "recover (atomically (declare_body s)) (\<lambda>e. if e = IntegrityError then known_stage sid r else raise e) j1 = (Inr st, j')"
    by (auto simp: declare_stage_def seq_def require_artifact_def split: prod.splits sum.splits)
  have s: "s = planned_stage sid r" using make_stage_Inr [OF m] .
  show ?thesis
  proof (cases "declare_body s j1")
    case (Inl e)
    with c have "known_stage sid r j1 = (Inr st, j')"
      by (auto simp: recover_def atomically_def raise_def split: if_splits)
    then show ?thesis
      by (auto simp: known_stage_def res_iff read_stage_def split: option.splits if_splits)
  next
    case (Inr x)
    with c s have "declare_body (planned_stage sid r) j1 = Inr (st, j')"
      by (cases x) (auto simp: recover_def atomically_def)
    then show ?thesis
      by (auto simp: declare_body_def res_iff insert_new_def planned_stage_def lookup_append_new split: if_splits
          simp del: map_of_append)
  qed
qed

lemma finish_stage_done:
  assumes "journal_ok j" and "finish_stage h sid a out now j = (Inr s, j')"
  shows "stage_done j' sid"
proof -
  from assms(2) have f: "finish_body sid a out now j = Inr (s, j')"
    by (auto simp: finish_stage_def seq_def require_artifact_def atomically_commit split: prod.splits sum.splits)
  then obtain b where b: "read_stage sid j = Inr b" by (auto simp: finish_body_def res_iff)
  from read_stage_ok [OF assms(1) b] have id: "ss_id b = sid"
    and row: "lookup (jn_stages j) sid = Some \<lparr>sr_version = ss_version b, sr_payload = b\<rparr>" by simp_all
  show ?thesis
  proof (cases "ss_status b = Completed \<and> ss_attempt b = Some a \<and> ss_output b = Some out")
    case True
    with f b row show ?thesis by (auto simp: finish_body_def stage_done_def)
  next
    case False
    with f b obtain n where "save_stage b n j = Inr (s, j')" "ss_status n = Completed"
      by (auto simp: finish_body_def res_iff dest!: make_stage_Inr)
    with row id show ?thesis by (auto simp: save_stage_def stage_done_def lookup_upsert)
  qed
qed

subsection \<open>The chain\<close>

definition chain_end :: "monitor_codec \<Rightarrow> monitor_policy \<Rightarrow> nat \<Rightarrow> probe_window \<Rightarrow> journal \<Rightarrow> bool" where
  "chain_end mc p n win j \<longleftrightarrow> (case win of
       (items, refs, None) \<Rightarrow> \<forall>r. probe_result mc p items refs = Inr r \<longrightarrow> mr_finished r
     | (items, refs, Some st) \<Rightarrow> n \<le> length items \<and> length items < mp_maximum p \<and>
         ss_id st = probe_stage_id p (length items) \<and> probes_done p j (length items))"

lemma probe_result_full:
  "length items = mp_maximum p \<Longrightarrow> probe_result mc p items refs = Inr r \<Longrightarrow> mr_finished r"
  by (auto simp: probe_result_def Let_def split: if_splits)

lemma declare_outcome:
  assumes "probes_done p j n" and "probes_done p j k"
  shows "outcome (declare_input h (probe_stage_id p k) dat) j
     (\<lambda>st j'. probes_done p j' n \<and> probes_done p j' k \<and> ss_id st = probe_stage_id p k \<and>
        (ss_status st = Completed \<longrightarrow> probes_done p j' (Suc k)) \<and> (k < n \<longrightarrow> ss_status st = Completed)) (\<lambda>_ _. True)"
proof (rule outcomeI)
  fix st j' assume d: "declare_input h (probe_stage_id p k) dat j = (Inr st, j')"
  have e: "extends j j'" using safe_actionD [OF safe_declare_input d] .
  have n: "probes_done p j' n" and k: "probes_done p j' k" using extends_probes [OF e] assms by simp_all
  from declare_input_row [OF d] obtain r where
    r: "lookup (jn_stages j') (probe_stage_id p k) = Some r" "sr_payload r = st" by blast
  have "stage_ok j' (probe_stage_id p k)" using k by (simp add: probes_done_def journal_ok_def)
  with r have "ss_id st = probe_stage_id p k" by (simp add: stage_ok_def)
  moreover have "ss_status st = Completed \<longrightarrow> probes_done p j' (Suc k)"
    using k r by (auto simp: probes_done_def stage_done_def less_Suc_eq)
  moreover have "k < n \<longrightarrow> ss_status st = Completed"
    using n r by (auto simp: probes_done_def stage_done_def)
  ultimately show "probes_done p j' n \<and> probes_done p j' k \<and> ss_id st = probe_stage_id p k \<and>
        (ss_status st = Completed \<longrightarrow> probes_done p j' (Suc k)) \<and> (k < n \<longrightarrow> ss_status st = Completed)"
    using n k by blast
qed simp

lemma chain_outcome:
  assumes "ks = [k..<mp_maximum p]" and "k \<le> mp_maximum p" and "length items = k"
    and "probes_done p j n" and "probes_done p j k"
  shows "outcome (probe_chain mc p ks items refs) j (\<lambda>win j'. chain_end mc p n win j') (\<lambda>_ _. True)"
  using assms
proof (induction ks arbitrary: k items refs j)
  case Nil
  then have "length items = mp_maximum p" using Nil.prems(1) [symmetric] by auto
  then show ?case using probe_result_full by (simp add: outcome_return chain_end_def)
next
  case (Cons i ks)
  from Cons.prems(1) [symmetric] have k: "i = k" "ks = [Suc k..<mp_maximum p]" "k < mp_maximum p"
    by (auto simp: upt_eq_Cons_conv)
  show ?case
    unfolding probe_chain.simps outcome_seq k(1)
  proof (rule outcome_mono [OF declare_outcome [OF Cons.prems(4,5)]])
    fix st :: stage_state and j'
    assume d: "probes_done p j' n \<and> probes_done p j' k \<and> ss_id st = probe_stage_id p k \<and>
        (ss_status st = Completed \<longrightarrow> probes_done p j' (Suc k)) \<and> (k < n \<longrightarrow> ss_status st = Completed)"
    have next_one: "outcome (probe_chain mc p ks (items @ [item]) (refs @ [out])) j' (\<lambda>win j'. chain_end mc p n win j') (\<lambda>_ _. True)"
      if "ss_status st = Completed" for item out
      using Cons.IH [OF k(2), of "items @ [item]" j' "refs @ [out]"] k(3) Cons.prems(3) d that by simp
    have stop: "chain_end mc p n (items, refs, Some st) j'" if "ss_status st \<noteq> Completed"
      using that d k(3) Cons.prems(3) by (auto simp: chain_end_def)
    show "outcome (if ss_status st \<noteq> Completed then return (items, refs, Some st)
        else case ss_output st of None \<Rightarrow> raise AssertionError
        | Some out \<Rightarrow> seq (\<lambda>j. (read_probe mc out j, j)) (\<lambda>item.
            if (po_policy item, po_sequence item, po_previous item) \<noteq> (monitor_digest mc p, k, last_ref refs)
            then raise (ValueError ''monitor probe chain differs from frozen inputs'')
            else if backward items item then raise (ValueError ''monitor observation clock moved backward'')
            else case probe_result mc p (items @ [item]) (refs @ [out]) of
              Inl e \<Rightarrow> raise e
            | Inr r \<Rightarrow> if mr_finished r then return (items @ [item], refs @ [out], None)
                else probe_chain mc p ks (items @ [item]) (refs @ [out]))) j'
        (\<lambda>win j'. chain_end mc p n win j') (\<lambda>_ _. True)"
    proof (cases "ss_status st = Completed")
      case False
      with stop show ?thesis by (simp add: outcome_return)
    next
      case True
      have fin: "mr_finished r \<Longrightarrow> probe_result mc p (items @ [item]) (refs @ [out]) = Inr r \<Longrightarrow>
          chain_end mc p n (items @ [item], refs @ [out], None) j'" for r item out
        by (simp add: chain_end_def)
      have step: "outcome (case probe_result mc p (items @ [item]) (refs @ [out]) of
              Inl e \<Rightarrow> raise e
            | Inr r \<Rightarrow> if mr_finished r then return (items @ [item], refs @ [out], None)
                else probe_chain mc p ks (items @ [item]) (refs @ [out])) j'
          (\<lambda>win j'. chain_end mc p n win j') (\<lambda>_ _. True)" for item out
        using next_one [OF True, of item out] fin
        by (cases "probe_result mc p (items @ [item]) (refs @ [out])") (simp_all add: outcome_raise outcome_return)
      show ?thesis
        using True step by (cases "ss_output st") (simp_all add: wp outcome_query split: sum.split)
    qed
  qed simp
qed

lemma history_outcome:
  assumes "probes_done p j n"
  shows "outcome (probe_history mc p) j (\<lambda>win j'. chain_end mc p n win j') (\<lambda>_ _. True)"
  unfolding probe_history_def outcome_seq
proof (rule outcome_mono [OF safe_probes [OF safe_declare_input assms]])
  fix j' assume "probes_done p j' n"
  then show "outcome (probe_chain mc p [0..<mp_maximum p] [] []) j' (\<lambda>win j'. chain_end mc p n win j') (\<lambda>_ _. True)"
    by (intro chain_outcome) (auto simp: probes_done_def)
qed simp

subsection \<open>One round\<close>

lemma on_journal_outcome:
  "outcome f (mo_journal w) Q E \<Longrightarrow> outcome (on_journal f) w (\<lambda>a w'. Q a (mo_journal w')) (\<lambda>e w'. E e (mo_journal w'))"
  by (auto simp: outcome_def on_journal_def split: prod.splits sum.splits)

definition keeps_journal :: "('x monitor, 'a) action \<Rightarrow> bool" where
  "keeps_journal f \<longleftrightarrow> (\<forall>w. mo_journal (snd (f w)) = mo_journal w)"

lemma keeps_outcome: "keeps_journal f \<Longrightarrow> outcome f w (\<lambda>_ w'. mo_journal w' = mo_journal w) (\<lambda>_ _. True)"
  by (rule outcomeI) (auto simp: keeps_journal_def dest: spec [of _ w])

lemma keeps_seq [intro]: "keeps_journal f \<Longrightarrow> (\<And>a. keeps_journal (g a)) \<Longrightarrow> keeps_journal (seq f g)"
  unfolding keeps_journal_def
  by (intro allI seq_rel [where R = "\<lambda>w w'. mo_journal w' = mo_journal w"]) auto

lemma keeps_recover [intro]: "keeps_journal f \<Longrightarrow> (\<And>e. keeps_journal (h e)) \<Longrightarrow> keeps_journal (recover f h)"
  unfolding keeps_journal_def
  by (intro allI recover_rel [where R = "\<lambda>w w'. mo_journal w' = mo_journal w"]) auto

lemma keeps_if [intro]: "keeps_journal f \<Longrightarrow> keeps_journal g \<Longrightarrow> keeps_journal (if b then f else g)"
  by simp

lemma keeps_basic [intro, simp]:
  "keeps_journal (return a)" "keeps_journal (raise e)" "keeps_journal next_tick" "keeps_journal (on_ctl f)"
  by (auto simp: keeps_journal_def return_def raise_def next_tick_def on_ctl_def split: prod.splits)

lemma keeps_matches [intro, simp]: "keeps_journal (candidate_matches m)"
  unfolding candidate_matches_def Let_def by simp

lemma keeps_health [intro, simp]: "keeps_journal (ask_health m before)"
  unfolding ask_health_def by (intro keeps_if keeps_recover keeps_seq) auto

lemma publish_outcome:
  assumes "probes_done p j n" and "sid = probe_stage_id p n"
  shows "outcome (publish_probe m sid attempt item now) j (\<lambda>_ j'. probes_done p j' (Suc n)) (\<lambda>_ _. True)"
  unfolding publish_probe_def Let_def outcome_seq
proof (rule outcome_mono [OF safe_probes [OF safe_store_artifact assms(1)]])
  fix ref j1 assume d: "probes_done p j1 n"
  show "outcome (finish_stage (mc_sha256 (pm_codec m)) sid attempt ref now) j1
      (\<lambda>a s'. outcome (return ref) s' (\<lambda>_ j'. probes_done p j' (Suc n)) (\<lambda>_ _. True)) (\<lambda>_ _. True)"
    unfolding outcome_return
  proof (rule outcomeI)
    fix s j2 assume f: "finish_stage (mc_sha256 (pm_codec m)) sid attempt ref now j1 = (Inr s, j2)"
    have "stage_done j2 sid" using finish_stage_done [OF _ f] d by (simp add: probes_done_def)
    moreover have "probes_done p j2 n" using extends_probes [OF safe_actionD [OF safe_finish_stage f] d] .
    ultimately show "probes_done p j2 (Suc n)"
      using assms(2) by (auto simp: probes_done_def less_Suc_eq)
  qed simp
qed simp

definition round_end :: "monitor_policy \<Rightarrow> nat \<Rightarrow> monitor_result \<Rightarrow> journal \<Rightarrow> bool" where
  "round_end p n r j \<longleftrightarrow> mr_rollback r = None \<and> (mr_signal r \<noteq> None \<longrightarrow> mr_finished r) \<and>
     (\<not> mr_finished r \<longrightarrow> Suc n < mp_maximum p \<and> probes_done p j (Suc n))"

lemma probe_result_shape:
  "probe_result mc p items refs = Inr r \<Longrightarrow> mr_rollback r = None \<and> (mr_signal r \<noteq> None \<longrightarrow> mr_finished r)"
  by (auto simp: probe_result_def Let_def split: if_splits)

lemma record_outcome:
  assumes "probes_done (pm_policy m) (mo_journal w) (length items)" and "length items < mp_maximum (pm_policy m)"
    and "ss_id st = probe_stage_id (pm_policy m) (length items)"
  shows "outcome (record_probe m items refs st attempt elapsed matches seen) w
     (\<lambda>r w'. round_end (pm_policy m) (length items) r (mo_journal w')) (\<lambda>_ _. True)"
  unfolding record_probe_def Let_def outcome_seq
proof (rule outcome_mono [OF keeps_outcome])
  fix t and w1 :: "'a monitor" assume w1: "mo_journal w1 = mo_journal w"
  have rest: "outcome next_tick w1 (\<lambda>t' w2. outcome
        (on_journal (publish_probe m (ss_id st) attempt item (sc_clock (pm_schedule m) t'))) w2
        (\<lambda>ref w3. outcome (\<lambda>w. (probe_result (pm_codec m) (pm_policy m) (items @ [item]) (refs @ [ref]), w)) w3
          (\<lambda>r w'. round_end (pm_policy m) (length items) r (mo_journal w')) (\<lambda>_ _. True)) (\<lambda>_ _. True)) (\<lambda>_ _. True)" for item
  proof (rule outcome_mono [OF keeps_outcome])
    fix t' and w2 :: "'a monitor" assume "mo_journal w2 = mo_journal w1"
    with w1 assms(1) have "probes_done (pm_policy m) (mo_journal w2) (length items)" by simp
    from on_journal_outcome [OF publish_outcome [OF this assms(3)]]
    show "outcome (on_journal (publish_probe m (ss_id st) attempt item (sc_clock (pm_schedule m) t'))) w2
        (\<lambda>ref w3. outcome (\<lambda>w. (probe_result (pm_codec m) (pm_policy m) (items @ [item]) (refs @ [ref]), w)) w3
          (\<lambda>r w'. round_end (pm_policy m) (length items) r (mo_journal w')) (\<lambda>_ _. True)) (\<lambda>_ _. True)"
    proof (rule outcome_mono)
      fix ref and w3 :: "'a monitor" assume d: "probes_done (pm_policy m) (mo_journal w3) (Suc (length items))"
      have "round_end (pm_policy m) (length items) r (mo_journal w3)"
        if "probe_result (pm_codec m) (pm_policy m) (items @ [item]) (refs @ [ref]) = Inr r" for r
        using d assms(2) probe_result_shape [OF that] probe_result_full [OF _ that] by (auto simp: round_end_def)
      then show "outcome (\<lambda>w. (probe_result (pm_codec m) (pm_policy m) (items @ [item]) (refs @ [ref]), w)) w3
          (\<lambda>r w'. round_end (pm_policy m) (length items) r (mo_journal w')) (\<lambda>_ _. True)"
        by (simp add: outcome_query split: sum.split)
    qed simp
  qed simp_all
  show "outcome (\<lambda>w. (make_observation \<lparr>po_policy = monitor_digest (pm_codec m) (pm_policy m),
        po_sequence = length items, po_previous = last_ref refs, po_finished = sc_clock (pm_schedule m) t,
        po_elapsed = elapsed, po_matches = matches, po_health = fst seen, po_error = snd seen\<rparr>, w)) w1
     (\<lambda>item s'. outcome (if backward items item then raise (ValueError ''monitor observation clock moved backward'')
        else seq next_tick (\<lambda>t'. seq (on_journal (publish_probe m (ss_id st) attempt item (sc_clock (pm_schedule m) t')))
          (\<lambda>ref w. (probe_result (pm_codec m) (pm_policy m) (items @ [item]) (refs @ [ref]), w)))) s'
        (\<lambda>r w'. round_end (pm_policy m) (length items) r (mo_journal w')) (\<lambda>_ _. True)) (\<lambda>_ _. True)"
    using rest by (simp add: outcome_query outcome_seq outcome_raise split: sum.split)
qed simp_all

lemma run_probe_outcome:
  assumes "probes_done (pm_policy m) (mo_journal w) (length items)" and "length items < mp_maximum (pm_policy m)"
    and "ss_id st = probe_stage_id (pm_policy m) (length items)"
  shows "outcome (run_probe m items refs st) w
     (\<lambda>r w'. round_end (pm_policy m) (length items) r (mo_journal w')) (\<lambda>_ _. True)"
proof -
  let ?Q = "\<lambda>r w'. round_end (pm_policy m) (length items) r (mo_journal w')"
  let ?D = "\<lambda>w. probes_done (pm_policy m) (mo_journal w) (length items)"
  have keep: "outcome f v (\<lambda>_. ?D) (\<lambda>_ _. True)" if "keeps_journal f" "?D v" for f :: "('a monitor, 'b) action" and v
    using that(2) by (intro outcome_mono [OF keeps_outcome [OF that(1)]]) auto
  have late: "outcome (seq (candidate_matches m) (\<lambda>before. seq next_tick (\<lambda>t0. seq (ask_health m before) (\<lambda>seen.
       seq next_tick (\<lambda>t1. seq (if before then candidate_matches m else return False) (\<lambda>matches.
         record_probe m items refs st attempt (fsub (sc_monotonic (pm_schedule m) t1) (sc_monotonic (pm_schedule m) t0))
           matches seen))))))
      v ?Q (\<lambda>_ _. True)" if "?D v" for attempt v
    unfolding outcome_seq
    by (rule outcome_mono [OF keep [OF _ that]], simp, rule outcome_mono [OF keep], simp, assumption,
        rule outcome_mono [OF keep], simp, assumption, rule outcome_mono [OF keep], simp, assumption,
        rule outcome_mono [OF keep], intro keeps_if, simp, simp, assumption,
        rule record_outcome [OF _ assms(2,3)]) simp_all
  show ?thesis
    unfolding run_probe_def Let_def outcome_seq [of next_tick]
  proof (rule outcome_mono [OF keep [OF _ assms(1)]])
    fix t and v :: "'a monitor" assume d: "?D v"
    have s: "outcome (on_journal (start_owned (mc_sha256 (pm_codec m)) (mc_proof (pm_codec m)) (ss_id st)
        (sc_token (pm_schedule m) t) (sc_clock (pm_schedule m) t) (sc_cancelled (pm_schedule m) t))) v (\<lambda>_. ?D) (\<lambda>_ _. True)"
      using on_journal_outcome [OF safe_probes [OF safe_start_owned d]] .
    show "outcome (seq (on_journal (start_owned (mc_sha256 (pm_codec m)) (mc_proof (pm_codec m)) (ss_id st)
        (sc_token (pm_schedule m) t) (sc_clock (pm_schedule m) t) (sc_cancelled (pm_schedule m) t))) (\<lambda>running.
       case ss_attempt running of None \<Rightarrow> raise AssertionError
       | Some attempt \<Rightarrow> seq (candidate_matches m) (\<lambda>before. seq next_tick (\<lambda>t0. seq (ask_health m before) (\<lambda>seen.
       seq next_tick (\<lambda>t1. seq (if before then candidate_matches m else return False) (\<lambda>matches.
         record_probe m items refs st attempt (fsub (sc_monotonic (pm_schedule m) t1) (sc_monotonic (pm_schedule m) t0))
           matches seen))))))) v ?Q (\<lambda>_ _. True)"
      unfolding outcome_seq [of "on_journal _"]
      by (rule outcome_mono [OF s]) (use late in \<open>auto simp: outcome_raise split: option.split\<close>)
  qed simp_all
qed

lemma observe_outcome:
  assumes "probes_done (pm_policy m) (mo_journal w) n"
  shows "outcome (observe_probe m dep) w
     (\<lambda>r w'. \<exists>k \<ge> n. round_end (pm_policy m) k r (mo_journal w')) (\<lambda>_ _. True)"
proof (cases "dep = mp_deployment (pm_policy m)")
  case False
  then show ?thesis by (simp add: observe_probe_def outcome_raise)
next
  case True
  have "outcome (case win of (items, refs, pending) \<Rightarrow> case pending of
          None \<Rightarrow> (\<lambda>w. (probe_result (pm_codec m) (pm_policy m) items refs, w))
        | Some st \<Rightarrow> run_probe m items refs st) v
      (\<lambda>r w'. \<exists>k \<ge> n. round_end (pm_policy m) k r (mo_journal w')) (\<lambda>_ _. True)"
    if c: "chain_end (pm_codec m) (pm_policy m) n win (mo_journal v)" for win v
  proof -
    obtain items refs pending where win: "win = (items, refs, pending)" by (cases win)
    show ?thesis
    proof (cases pending)
      case None
      have "\<exists>k \<ge> n. round_end (pm_policy m) k r j" if "probe_result (pm_codec m) (pm_policy m) items refs = Inr r" for r j
        using c that probe_result_shape [OF that] by (auto simp: win None chain_end_def round_end_def)
      then show ?thesis by (auto simp: win None outcome_query split: sum.split)
    next
      case (Some st)
      with c win have b: "n \<le> length items" "length items < mp_maximum (pm_policy m)"
        "ss_id st = probe_stage_id (pm_policy m) (length items)"
        "probes_done (pm_policy m) (mo_journal v) (length items)" by (simp_all add: chain_end_def)
      then have "outcome (run_probe m items refs st) v
          (\<lambda>r w'. \<exists>k \<ge> n. round_end (pm_policy m) k r (mo_journal w')) (\<lambda>_ _. True)"
        by (intro outcome_mono [OF run_probe_outcome]) auto
      then show ?thesis by (simp add: win Some)
    qed
  qed
  note rest = this
  have "observe_probe m dep = seq (on_journal (probe_history (pm_codec m) (pm_policy m)))
      (\<lambda>win. case win of (items, refs, pending) \<Rightarrow> case pending of
          None \<Rightarrow> (\<lambda>w. (probe_result (pm_codec m) (pm_policy m) items refs, w))
        | Some st \<Rightarrow> run_probe m items refs st)"
    using True by (simp add: observe_probe_def)
  then show ?thesis
    by (simp only: outcome_seq) (rule outcome_mono [OF on_journal_outcome [OF history_outcome [OF assms]]], rule rest)
qed

subsection \<open>The run returns\<close>

lemma answered_shape:
  "answer_signal m result sig w = (Inr r, w') \<Longrightarrow> mr_rollback r \<noteq> None \<and> mr_signal r = mr_signal result \<and>
     mr_finished r = mr_finished result"
proof -
  have "outcome (answer_signal m result sig) w (\<lambda>r _. mr_rollback r \<noteq> None \<and> mr_signal r = mr_signal result \<and>
     mr_finished r = mr_finished result) (\<lambda>_ _. True)"
    unfolding answer_signal_def outcome_seq
    by (rule outcome_mono [OF outcome_any], rule outcome_mono [OF outcome_any], rule outcome_mono [OF outcome_any],
        rule outcome_mono [OF outcome_any], rule outcome_mono [OF outcome_any])
      (auto simp: outcome_raise outcome_return split: option.split)
  then show "answer_signal m result sig w = (Inr r, w') \<Longrightarrow> ?thesis" by (rule outcomeD)
qed

lemma run_monitor_returns:
  assumes "probes_done (pm_policy m) (mo_journal w) n" and "n < mp_maximum (pm_policy m)"
    and "mp_maximum (pm_policy m) \<le> n + rounds"
  shows "\<exists>r w'. run_monitor m rounds w = Some (r, w') \<and>
     (\<forall>x. r = Inr x \<longrightarrow> mr_finished x \<and> (mr_signal x \<noteq> None \<longleftrightarrow> mr_rollback x \<noteq> None))"
  using assms
proof (induction rounds arbitrary: w n)
  case (Suc rounds)
  obtain q w1 where o: "observe_probe m (mp_deployment (pm_policy m)) w = (q, w1)"
    by (cases "observe_probe m (mp_deployment (pm_policy m)) w")
  show ?case
  proof (cases q)
    case (Inl e)
    with o show ?thesis by simp
  next
    case (Inr r)
    from outcomeD [OF observe_outcome [OF Suc.prems(1)] o [unfolded Inr]] obtain k where
      k: "n \<le> k" "round_end (pm_policy m) k r (mo_journal w1)" by blast
    show ?thesis
    proof (cases "mr_signal r")
      case (Some sig)
      obtain a w2 where a: "answer_signal m r sig w1 = (a, w2)" by (cases "answer_signal m r sig w1")
      with answered_shape [of m r sig w1 _ w2] o Inr Some k show ?thesis by (auto simp: round_end_def)
    next
      case None
      show ?thesis
      proof (cases "mr_finished r")
        case True
        with o Inr None k show ?thesis by (simp add: round_end_def)
      next
        case False
        with k have d: "probes_done (pm_policy m) (mo_journal w1) (Suc k)" "Suc k < mp_maximum (pm_policy m)"
          by (simp_all add: round_end_def)
        have "probes_done (pm_policy m) (mo_journal (pause m w1)) (Suc k)"
          using extends_probes [OF stage_ops_extends d(1)] by (simp add: pause_def Let_def)
        from Suc.IH [OF this d(2)] k(1) Suc.prems(3) o Inr None False show ?thesis by simp
      qed
    qed
  qed
qed simp

text \<open>C30: The monitor's run returns: from every journal its operations can reach, whatever probes,
  clocks, cancellations and other processes do between the rounds, at most the configured number of
  probes are made; it ends with an error or with a finished result, and a result that carries a
  regression signal also carries the rollback that answered it, and only such a result does.\<close>

theorem monitor_run_returns:
  assumes "mo_journal w = stage_ops h pj ops (empty_journal s)"
    and "make_policy (pm_policy m) = Inr p" and "mp_maximum p \<le> rounds"
  shows "\<exists>r w'. run_monitor m rounds w = Some (r, w') \<and>
     (\<forall>x. r = Inr x \<longrightarrow> mr_finished x \<and> (mr_signal x \<noteq> None \<longleftrightarrow> mr_rollback x \<noteq> None))"
proof -
  have p: "p = pm_policy m" "0 < mp_maximum p" using assms(2) by (auto simp: make_policy_def res_iff monitor_fields_def)
  have "journal_ok (mo_journal w)"
    using stage_ops_extends [of "empty_journal s" h pj ops] empty_journal_ok assms(1) by (simp add: extends_def)
  then have "probes_done (pm_policy m) (mo_journal w) 0" by (simp add: probes_done_def)
  then show ?thesis using p assms(3) by (intro run_monitor_returns) auto
qed

definition demo_monitor_policy :: monitor_policy where
  "demo_monitor_policy = \<lparr>mp_monitor = ''m'', mp_deployment = ''d'', mp_revision = ''b'',
     mp_digest = replicate 64 (CHR ''b''), mp_generation = 1, mp_regressions = 1, mp_maximum = 2, mp_recovery = 1,
     mp_interval = 1, mp_slow = 1, mp_timeout = 5\<rparr>"

definition demo_monitor :: "unit probe_monitor" where
  "demo_monitor = \<lparr>pm_policy = demo_monitor_policy,
     pm_codec = \<lparr>mc_sha256 = demo_hash, mc_policy = mp_monitor, mc_declared = mp_monitor, mc_input = (\<lambda>d k r. d),
       mc_observation = po_policy, mc_parse = (\<lambda>t. Inl (ValueError t)), mc_window = (\<lambda>p rs. []), mc_proof = (\<lambda>a c. a)\<rparr>,
     pm_env = demo_env, pm_routes = demo_warm,
     pm_adapter = warm_adapter demo_warm_codec demo_route_adapter demo_net demo_probe,
     pm_schedule = \<lparr>sc_clock = (\<lambda>n. 1), sc_monotonic = (\<lambda>n. 1), sc_token = (\<lambda>n. demo_token),
       sc_cancelled = (\<lambda>n. False), sc_journal = (\<lambda>n. []), sc_world = (\<lambda>n c. c)\<rparr>\<rparr>"

definition demo_monitored :: "unit monitor" where
  "demo_monitored = \<lparr>mo_journal = empty_journal demo_store, mo_ctl = demo_regressed, mo_tick = 0\<rparr>"

theorem monitor_run_returns_witness:
  "\<exists>r w'. run_monitor demo_monitor 2 demo_monitored = Some (r, w')"
proof -
  have "mo_journal demo_monitored = stage_ops demo_hash (\<lambda>_ _. []) [] (empty_journal demo_store)"
    by (simp add: demo_monitored_def stage_ops_def)
  moreover have "fl (1 / 10) \<le> 1" using fl_mono [of "1 / 10" 1] by simp
  then have "make_policy (pm_policy demo_monitor) = Inr demo_monitor_policy"
    by (simp add: make_policy_def monitor_fields_def demo_monitor_def demo_monitor_policy_def bounded_text_def
        is_sha256_def lower_hex_def identifier_char_def alnum_char_def list_all_iff)
  ultimately show ?thesis
    using monitor_run_returns [of demo_monitored demo_hash "\<lambda>_ _. []" "[]" demo_store demo_monitor demo_monitor_policy 2]
    by (auto simp: demo_monitor_policy_def)
qed

end
