(* ===== verification/Registry.thy ===== *)
theory Registry
  imports MonitorGuarantees
begin

text \<open>
  The metadata registry (\<open>registry/metadata.py\<close>) with the documents it keeps for the release
  lifecycle (\<open>LifecycleSpec\<close> of \<open>registry/lifecycle.py\<close>, \<open>GateRequest\<close> and \<open>GateOutcome\<close> of
  \<open>registry/release_gate.py\<close>).  An immutable table keeps the digest of each payload with the
  document the payload encodes; each \<open>with self.engine.begin()\<close> block is an atomic body, a
  violated constraint an exception of the body.  Canonical JSON and SHA-256 are parameters.
\<close>

subsection \<open>Documents\<close>

record run_bundle =
  rb_run :: string
  rb_workload :: string
  rb_model :: string
  rb_revision :: "string option"
  rb_manifest :: artifact_ref
  rb_requests :: artifact_ref
  rb_summary :: artifact_ref

definition make_bundle :: "run_bundle \<Rightarrow> run_bundle res" where
  "make_bundle b = bind_res (ensure (bounded_text 1 128 (rb_run b)) (ValueError ''run_id'')) (\<lambda>_. Inr b)"

datatype lifecycle_status =
  LRegistered | LEvaluated | LRejected | LDeploying | LVerifying | LPromoted | LNeeds_reconciliation

record lifecycle_state =
  lc_job :: string
  lc_status :: lifecycle_status
  lc_version :: nat
  lc_decision :: "string option"
  lc_error :: "string option"
  lc_attempts :: nat

definition new_lifecycle :: "string \<Rightarrow> lifecycle_state" where
  "new_lifecycle j = \<lparr>lc_job = j, lc_status = LRegistered, lc_version = 0, lc_decision = None, lc_error = None,
     lc_attempts = 0\<rparr>"

datatype gate_mode = Legacy_drill | Canonical_profile

record lifecycle_spec =
  ls_job :: string
  ls_deployment :: string
  ls_expected_revision :: string
  ls_expected_generation :: nat
  ls_baseline :: string
  ls_candidate :: string
  ls_quality :: artifact_ref
  ls_suite :: artifact_ref
  ls_policy :: promotion_policy
  ls_target :: revision
  ls_mode :: gate_mode

record gate_request =
  gr_job :: string
  gr_baseline :: artifact_ref
  gr_candidate :: artifact_ref

datatype gate_status = Gate_approved | Gate_rejected | Gate_invalid

record gate_outcome =
  go_job :: string
  go_spec :: string
  go_input :: "string option"
  go_candidate :: string
  go_status :: gate_status
  go_decision :: "string option"
  go_reasons :: "string list"

text \<open>The field constraints and the validator \<open>consistent_decision\<close>.\<close>

definition make_outcome :: "gate_outcome \<Rightarrow> gate_outcome res" where
  "make_outcome o' =
     bind_res (ensure (bounded_text 1 128 (go_job o') \<and> is_sha256 (go_spec o') \<and> opt_all is_sha256 (go_input o') \<and>
         bounded_text 1 128 (go_candidate o') \<and> opt_all is_sha256 (go_decision o')) (ValueError ''gate outcome'')) (\<lambda>_.
     bind_res (ensure (\<not> (go_status o' \<noteq> Gate_invalid \<and> (go_decision o' = None \<or> go_input o' = None)))
       (ValueError ''measured outcome requires decision and gate input identities'')) (\<lambda>_.
     bind_res (ensure ((go_status o' = Gate_approved) \<noteq> (go_reasons o' \<noteq> []))
       (ValueError ''outcome reasons must agree with approval status'')) (\<lambda>_. Inr o')))"

fun exit_code :: "gate_status \<Rightarrow> nat" where
  "exit_code Gate_approved = 0"
| "exit_code Gate_rejected = 2"
| "exit_code Gate_invalid = 3"

subsection \<open>Stages\<close>

fun allowed_stages :: "lifecycle_status \<Rightarrow> lifecycle_status set" where
  "allowed_stages LRegistered = {LRegistered, LEvaluated, LRejected}"
| "allowed_stages LEvaluated = {LEvaluated, LDeploying, LRejected}"
| "allowed_stages LDeploying = {LDeploying, LVerifying, LPromoted, LNeeds_reconciliation}"
| "allowed_stages LVerifying = {LVerifying, LPromoted}"
| "allowed_stages LNeeds_reconciliation = {LNeeds_reconciliation, LDeploying, LPromoted}"
| "allowed_stages LPromoted = {}"
| "allowed_stages LRejected = {}"

definition validate_stage :: "lifecycle_state \<Rightarrow> lifecycle_state \<Rightarrow> unit res" where
  "validate_stage a b =
     bind_res (ensure (lc_job b = lc_job a) (RegistryConflict ''lifecycle job identity is immutable'')) (\<lambda>_.
     bind_res (ensure (lc_status b \<in> allowed_stages (lc_status a)) (RegistryConflict ''illegal lifecycle transition'')) (\<lambda>_.
     ensure (lc_status b \<in> {LRegistered, LRejected} \<or> lc_decision b \<noteq> None)
       (RegistryConflict ''evaluated and active states require a recorded decision'')))"

subsection \<open>Tables\<close>

text \<open>A row of an immutable table: the digest of the payload and what the payload encodes.\<close>

type_synonym 'v entries = "(string \<times> string \<times> 'v) list"

record lifecycle_row =
  lr_digest :: string
  lr_spec :: lifecycle_spec
  lr_state :: lifecycle_state
  lr_version :: nat
  lr_owner :: "string option"
  lr_until :: flt
  lr_locked :: "string option"

record registry =
  rg_models :: "(string \<times> string) entries"
  rg_revisions :: "revision entries"
  rg_workloads :: "workload entries"
  rg_runs :: "run_bundle entries"
  rg_decisions :: "(decision \<times> string) entries"
  rg_jobs :: "lifecycle_row table"
  rg_events :: "(string \<times> flt \<times> lifecycle_state) list"
  rg_inputs :: "gate_request entries"
  rg_outcomes :: "(gate_outcome \<times> string) entries"

record registry_codec = route_codec +
  rk_model_json :: "string \<Rightarrow> string \<Rightarrow> string"
  rk_revision_json :: "revision \<Rightarrow> string"
  rk_workload_json :: "workload \<Rightarrow> string"
  rk_bundle_json :: "run_bundle \<Rightarrow> string"
  rk_decision_json :: "decision \<Rightarrow> string"
  rk_bound_json :: "string \<Rightarrow> decision \<Rightarrow> string"
  rk_spec_json :: "bool \<Rightarrow> lifecycle_spec \<Rightarrow> string"
  rk_request_json :: "gate_request \<Rightarrow> string"
  rk_outcome_json :: "gate_outcome \<Rightarrow> string"

text \<open>\<open>_immutable\<close>: the last column says whether the rows the foreign keys name exist.  An insert
  that violates one finds no row afterwards, which is the second conflict.\<close>

definition immutable_put :: "string \<Rightarrow> string \<Rightarrow> 'v \<Rightarrow> bool \<Rightarrow> 'v entries \<Rightarrow> 'v entries res" where
  "immutable_put ident digest v related t =
     (case lookup t ident of
        None \<Rightarrow> if related then Inr (t @ [(ident, digest, v)])
          else Inl (RegistryConflict ''concurrent identity conflict or missing related record'')
      | Some (found, _) \<Rightarrow> if found = digest then Inr t
          else Inl (RegistryConflict ''immutable registry identity reused''))"

definition payload_of :: "'v entries \<Rightarrow> string \<Rightarrow> 'v res" where
  "payload_of t ident = (case lookup t ident of None \<Rightarrow> Inl (KeyError ''registry record not found'') | Some (_, v) \<Rightarrow> Inr v)"

abbreviation has :: "(string \<times> 'v) list \<Rightarrow> string \<Rightarrow> bool" where
  "has t k \<equiv> lookup t k \<noteq> None"

subsection \<open>Immutable records\<close>

definition register_model :: "'z registry_codec_scheme \<Rightarrow> string \<Rightarrow> string \<Rightarrow> (registry, string) action" where
  "register_model k model tokenizer g =
     (if model = [] \<or> tokenizer = [] then (Inl (ValueError ''model and tokenizer identity required''), g)
      else let ident = sha256 k (rk_model_json k model tokenizer) in
        case immutable_put ident ident (model, tokenizer) True (rg_models g) of
          Inl e \<Rightarrow> (Inl e, g) | Inr t \<Rightarrow> (Inr ident, g\<lparr>rg_models := t\<rparr>))"

definition put_revision :: "'z registry_codec_scheme \<Rightarrow> revision \<Rightarrow> string \<Rightarrow> (registry, unit) action" where
  "put_revision k r model g =
     (case immutable_put (revision_id r) (sha256 k (rk_revision_json k r)) r (has (rg_models g) model) (rg_revisions g) of
        Inl e \<Rightarrow> (Inl e, g) | Inr t \<Rightarrow> (Inr (), g\<lparr>rg_revisions := t\<rparr>))"

definition record_revision :: "'z registry_codec_scheme \<Rightarrow> revision \<Rightarrow> (registry, unit) action" where
  "record_revision k r = seq (register_model k (model_revision r) (tokenizer_revision r)) (put_revision k r)"

definition registered_revision :: "string \<Rightarrow> (registry, revision) action" where
  "registered_revision ident g = (payload_of (rg_revisions g) ident, g)"

definition put_workload :: "'z registry_codec_scheme \<Rightarrow> string \<Rightarrow> workload \<Rightarrow> (registry, unit) action" where
  "put_workload k ident w g =
     (case immutable_put ident (sha256 k (rk_workload_json k w)) w True (rg_workloads g) of
        Inl e \<Rightarrow> (Inl e, g) | Inr t \<Rightarrow> (Inr (), g\<lparr>rg_workloads := t\<rparr>))"

definition put_run :: "'z registry_codec_scheme \<Rightarrow> run_bundle \<Rightarrow> (registry, unit) action" where
  "put_run k b g =
     (case immutable_put (rb_run b) (sha256 k (rk_bundle_json k b)) b
             (has (rg_models g) (rb_model b) \<and> opt_all (has (rg_revisions g)) (rb_revision b) \<and>
              has (rg_workloads g) (rb_workload b)) (rg_runs g) of
        Inl e \<Rightarrow> (Inl e, g) | Inr t \<Rightarrow> (Inr (), g\<lparr>rg_runs := t\<rparr>))"

definition registered_run :: "string \<Rightarrow> (registry, run_bundle) action" where
  "registered_run ident g = (payload_of (rg_runs g) ident, g)"

definition bound_identity :: "'z registry_codec_scheme \<Rightarrow> string \<Rightarrow> decision \<Rightarrow> string" where
  "bound_identity k run d = sha256 k (rk_bound_json k run d)"

definition verify_decision_run :: "'z registry_codec_scheme \<Rightarrow> decision \<Rightarrow> string \<Rightarrow> (registry, unit) action" where
  "verify_decision_run k d run g =
     ((case lookup (rg_decisions g) (bound_identity k run d) of
         Some (_, _, recorded) \<Rightarrow> if recorded = run then Inr ()
           else Inl (ValueError ''decision is not registered for this candidate run'')
       | None \<Rightarrow> Inl (ValueError ''decision is not registered for this candidate run'')), g)"

definition put_decision :: "'z registry_codec_scheme \<Rightarrow> decision \<Rightarrow> string \<Rightarrow> (registry, unit) action" where
  "put_decision k d run g =
     (case immutable_put (bound_identity k run d) (sha256 k (rk_decision_json k d)) (d, run)
             (has (rg_revisions g) (candidate_revision d) \<and> has (rg_runs g) run) (rg_decisions g) of
        Inl e \<Rightarrow> (Inl e, g) | Inr t \<Rightarrow> (Inr (), g\<lparr>rg_decisions := t\<rparr>))"

definition decide_run :: "'z registry_codec_scheme \<Rightarrow> decision \<Rightarrow> string \<Rightarrow> (registry, string) action" where
  "decide_run k d run =
     seq (registered_run run) (\<lambda>b.
     if rb_revision b \<noteq> Some (candidate_revision d)
     then raise (ValueError ''decision candidate run must bind the exact deployment revision'')
     else seq (put_decision k d run) (\<lambda>_. seq (verify_decision_run k d run) (\<lambda>_.
       return (bound_identity k run d))))"

definition registered_decision :: "string \<Rightarrow> (registry, decision) action" where
  "registered_decision ident g = (bind_res (payload_of (rg_decisions g) ident) (\<lambda>(d, _). Inr d), g)"

definition freeze_gate_input :: "'z registry_codec_scheme \<Rightarrow> string \<Rightarrow> gate_request \<Rightarrow> (registry, unit) action" where
  "freeze_gate_input k job q g =
     (case immutable_put job (sha256 k (rk_request_json k q)) q (has (rg_jobs g) job) (rg_inputs g) of
        Inl e \<Rightarrow> (Inl e, g) | Inr t \<Rightarrow> (Inr (), g\<lparr>rg_inputs := t\<rparr>))"

definition gate_input :: "string \<Rightarrow> (registry, gate_request) action" where
  "gate_input job g = (payload_of (rg_inputs g) job, g)"

definition record_gate_outcome :: "'z registry_codec_scheme \<Rightarrow> string \<Rightarrow> gate_outcome \<Rightarrow> (registry, string) action" where
  "record_gate_outcome k job o' g =
     (let ident = sha256 k (rk_outcome_json k o') in
      case immutable_put ident ident (o', job) (has (rg_jobs g) job) (rg_outcomes g) of
        Inl e \<Rightarrow> (Inl e, g) | Inr t \<Rightarrow> (Inr ident, g\<lparr>rg_outcomes := t\<rparr>))"

definition registered_outcome :: "string \<Rightarrow> (registry, gate_outcome) action" where
  "registered_outcome ident g = (bind_res (payload_of (rg_outcomes g) ident) (\<lambda>(o', _). Inr o'), g)"

subsection \<open>Jobs\<close>

text \<open>A legacy specification is encoded without its gate mode.\<close>

definition spec_canonical :: "'z registry_codec_scheme \<Rightarrow> lifecycle_spec \<Rightarrow> string" where
  "spec_canonical k s = rk_spec_json k (ls_mode s = Canonical_profile) s"

definition lifecycle_job :: "string \<Rightarrow> registry \<Rightarrow> lifecycle_state res" where
  "lifecycle_job j g = (case lookup (rg_jobs g) j of
     None \<Rightarrow> Inl (KeyError ''registry record not found'') | Some row \<Rightarrow> Inr (lr_state row))"

definition read_lifecycle :: "string \<Rightarrow> (registry, lifecycle_state) action" where
  "read_lifecycle j g = (lifecycle_job j g, g)"

definition job_specification :: "string \<Rightarrow> (registry, lifecycle_spec) action" where
  "job_specification j g = ((case lookup (rg_jobs g) j of
     None \<Rightarrow> Inl (KeyError ''lifecycle specification not found'') | Some row \<Rightarrow> Inr (lr_spec row)), g)"

definition create_job :: "'z registry_codec_scheme \<Rightarrow> string \<Rightarrow> lifecycle_spec \<Rightarrow> (registry, lifecycle_state) action" where
  "create_job k j s g = (let digest = sha256 k (spec_canonical k s) in
     case lookup (rg_jobs g) j of
       None \<Rightarrow> read_lifecycle j (g\<lparr>rg_jobs := rg_jobs g @ [(j, \<lparr>lr_digest = digest, lr_spec = s,
         lr_state = new_lifecycle j, lr_version = 0, lr_owner = None, lr_until = 0, lr_locked = None\<rparr>)]\<rparr>)
     | Some row \<Rightarrow> if lr_digest row \<noteq> digest
         then (Inl (RegistryConflict ''lifecycle job identity reused with changed specification''), g)
         else read_lifecycle j g)"

definition lifecycle_history :: "string \<Rightarrow> registry \<Rightarrow> lifecycle_state list" where
  "lifecycle_history j g = map (\<lambda>(_, _, s). s) (filter (\<lambda>(i, _, _). i = j) (rg_events g))"

text \<open>The unique column \<open>locked_deployment\<close>.\<close>

definition lock_taken :: "string \<Rightarrow> string \<Rightarrow> registry \<Rightarrow> bool" where
  "lock_taken j dep g \<longleftrightarrow> list_ex (\<lambda>(i, row). i \<noteq> j \<and> lr_locked row = Some dep) (rg_jobs g)"

definition claim_job_body :: "string \<Rightarrow> string \<Rightarrow> string \<Rightarrow> flt \<Rightarrow> flt \<Rightarrow> (registry, unit) body" where
  "claim_job_body j dep owner seconds now g =
     (case lookup (rg_jobs g) j of
        None \<Rightarrow> Inl (RegistryConflict ''lifecycle worker lease is active or job missing'')
      | Some row \<Rightarrow>
          if lr_owner row \<noteq> None \<and> \<not> lr_until row < now
          then Inl (RegistryConflict ''lifecycle worker lease is active or job missing'')
          else if lock_taken j dep g then Inl (RegistryConflict ''another lifecycle owns this deployment'')
          else Inr ((), g\<lparr>rg_jobs := upsert j (row\<lparr>lr_owner := Some owner, lr_until := fadd now seconds,
                 lr_locked := Some dep\<rparr>) (rg_jobs g)\<rparr>))"

definition claim_lifecycle :: "string \<Rightarrow> string \<Rightarrow> string \<Rightarrow> flt \<Rightarrow> flt \<Rightarrow> (registry, lifecycle_state) action" where
  "claim_lifecycle j dep owner seconds now =
     (if seconds \<le> 0 \<or> owner = [] \<or> dep = []
      then raise (ValueError ''finite positive lease and nonempty identities required'')
      else seq (atomically (claim_job_body j dep owner seconds now)) (\<lambda>_. read_lifecycle j))"

text \<open>\<open>changes\<close> is the keyword update of the call; the version is set last.\<close>

definition advance_body :: "lifecycle_state \<Rightarrow> string \<Rightarrow> (lifecycle_state \<Rightarrow> lifecycle_state) \<Rightarrow> flt \<Rightarrow> flt
    \<Rightarrow> (registry, lifecycle_state) body" where
  "advance_body s owner changes now observed g =
     (let s' = (changes s)\<lparr>lc_version := lc_version s + 1\<rparr> in
      case lookup (rg_jobs g) (lc_job s) of
        None \<Rightarrow> Inl (RegistryConflict ''caller state differs from durable lifecycle truth'')
      | Some row \<Rightarrow>
          if lr_state row \<noteq> s then Inl (RegistryConflict ''caller state differs from durable lifecycle truth'')
          else case validate_stage s s' of Inl e \<Rightarrow> Inl e
          | Inr _ \<Rightarrow>
              if \<not> (lr_version row = lc_version s \<and> lr_owner row = Some owner \<and> now < lr_until row)
              then Inl (RegistryConflict ''stale lifecycle transition or expired worker'')
              else Inr (s', g\<lparr>rg_jobs := upsert (lc_job s) (row\<lparr>lr_state := s', lr_version := lc_version s'\<rparr>) (rg_jobs g),
                     rg_events := rg_events g @ [(lc_job s, observed, s')]\<rparr>))"

definition advance_lifecycle :: "lifecycle_state \<Rightarrow> string \<Rightarrow> (lifecycle_state \<Rightarrow> lifecycle_state) \<Rightarrow> flt \<Rightarrow> flt
    \<Rightarrow> (registry, lifecycle_state) action" where
  "advance_lifecycle s owner changes now observed = atomically (advance_body s owner changes now observed)"

definition unlockable :: "lifecycle_status \<Rightarrow> bool" where
  "unlockable st \<longleftrightarrow> st \<in> {LRegistered, LEvaluated, LRejected, LPromoted}"

definition release_row :: "string \<Rightarrow> bool \<Rightarrow> lifecycle_row \<Rightarrow> lifecycle_row" where
  "release_row owner unlock row =
     (if lr_owner row \<noteq> Some owner then row
      else row\<lparr>lr_owner := None, lr_until := 0, lr_locked := (if unlock then None else lr_locked row)\<rparr>)"

text \<open>The state is read before the transaction: \<open>seen\<close> is what it was then.\<close>

definition release_job :: "string \<Rightarrow> string \<Rightarrow> lifecycle_state \<Rightarrow> (registry, unit) action" where
  "release_job j owner seen g =
     (Inr (), case lookup (rg_jobs g) j of None \<Rightarrow> g
      | Some row \<Rightarrow> g\<lparr>rg_jobs := upsert j (release_row owner (unlockable (lc_status seen)) row) (rg_jobs g)\<rparr>)"

end
