(* ===== verification/RegistryGuarantees.thy ===== *)
theory RegistryGuarantees
  imports Registry
begin

text \<open>
  What the registry promises over every interleaving of the transactions of all processes: a
  bound identity keeps its record, the history of a job is a path of the stage graph that ends
  in its state, and a deployment is locked by at most one job for as long as an action on it may
  be unresolved.
\<close>

subsection \<open>The transactions of all processes\<close>

datatype registry_op =
  G_model string string
| G_revision revision
| G_workload string workload
| G_run run_bundle
| G_decision decision string
| G_input string gate_request
| G_outcome string gate_outcome
| G_create string lifecycle_spec
| G_claim string string string flt flt
| G_advance lifecycle_state string "lifecycle_state \<Rightarrow> lifecycle_state" flt flt
| G_release string string

fun registry_step :: "'z registry_codec_scheme \<Rightarrow> registry_op \<Rightarrow> registry \<Rightarrow> registry" where
  "registry_step k (G_model m t) g = snd (register_model k m t g)"
| "registry_step k (G_revision r) g = snd (record_revision k r g)"
| "registry_step k (G_workload i w) g = snd (put_workload k i w g)"
| "registry_step k (G_run b) g = snd (put_run k b g)"
| "registry_step k (G_decision d run) g = snd (decide_run k d run g)"
| "registry_step k (G_input j q) g = snd (freeze_gate_input k j q g)"
| "registry_step k (G_outcome j x) g = snd (record_gate_outcome k j x g)"
| "registry_step k (G_create j s) g = snd (create_job k j s g)"
| "registry_step k (G_claim j dep owner seconds now) g = snd (claim_lifecycle j dep owner seconds now g)"
| "registry_step k (G_advance s owner changes now at') g = snd (advance_lifecycle s owner changes now at' g)"
| "registry_step k (G_release j owner) g =
     snd (seq (read_lifecycle j) (\<lambda>seen. release_job j owner seen) g)"

definition registry_run :: "'z registry_codec_scheme \<Rightarrow> registry_op list \<Rightarrow> registry \<Rightarrow> registry" where
  "registry_run k ops g = fold (registry_step k) ops g"

definition empty_registry :: registry where
  "empty_registry = \<lparr>rg_models = [], rg_revisions = [], rg_workloads = [], rg_runs = [], rg_decisions = [],
     rg_jobs = [], rg_events = [], rg_inputs = [], rg_outcomes = []\<rparr>"

lemma registry_run_invariant:
  assumes "\<And>op g. I g \<Longrightarrow> I (registry_step k op g)" and "I g"
  shows "I (registry_run k ops g)"
  using assms(2) by (induction ops arbitrary: g) (auto simp: registry_run_def assms(1))

subsection \<open>Immutable records\<close>

lemma immutable_put_lookup:
  assumes "immutable_put i d v rel t = Inr t'"
  shows "lookup t' k = (if k = i \<and> lookup t i = None then Some (d, v) else lookup t k)"
    and "\<exists>w. lookup t' i = Some (d, w)"
  using assms by (auto simp: immutable_put_def lookup_append_new simp del: map_of_append
      split: option.splits if_splits)

text \<open>The digests of a table are an immutable registration in the sense of the prelude.\<close>

interpretation entry: immutable_registry fst "\<lambda>t k. map_option (\<lambda>(d, _). (k, d)) (lookup t k)"
  "\<lambda>(i, d) t. case immutable_put i d v rel t of Inl e \<Rightarrow> (Inl e, t) | Inr t' \<Rightarrow> (Inr (), t')" for v rel
proof
  fix w :: "string \<times> string" and s s' :: "'a entries" and u
  assume "(case w of (i, d) \<Rightarrow> \<lambda>t. case immutable_put i d v rel t of Inl e \<Rightarrow> (Inl e, t)
    | Inr t' \<Rightarrow> (Inr (), t')) s = (Inr u, s')"
  then show "map_option (\<lambda>(d, _). (fst w, d)) (lookup s' (fst w)) = Some w"
    using immutable_put_lookup(2) [of "fst w" "snd w" v rel s s'] by (auto split: prod.splits sum.splits)
next
  fix s :: "'a entries" and k and w x :: "string \<times> string"
  assume "map_option (\<lambda>(d, _). (k, d)) (lookup s k) = Some w"
  then show "map_option (\<lambda>(d, _). (k, d)) (lookup (snd ((case x of (i, d) \<Rightarrow> \<lambda>t. case immutable_put i d v rel t of
    Inl e \<Rightarrow> (Inl e, t) | Inr t' \<Rightarrow> (Inr (), t')) s)) k) = Some w"
    using immutable_put_lookup(1) [of "fst x" "snd x" v rel s _ k] by (auto split: prod.splits sum.splits)
next
  fix s :: "'a entries" and w x :: "string \<times> string"
  assume "map_option (\<lambda>(d, _). (fst x, d)) (lookup s (fst x)) = Some w" "w \<noteq> x"
  then show "\<not> is_ok (fst ((case x of (i, d) \<Rightarrow> \<lambda>t. case immutable_put i d v rel t of
    Inl e \<Rightarrow> (Inl e, t) | Inr t' \<Rightarrow> (Inr (), t')) s))"
    by (cases x) (auto simp: immutable_put_def split: option.splits)
qed

text \<open>\<open>grows t t'\<close>: every row of \<open>t\<close> is in \<open>t'\<close>.\<close>

definition grows :: "(string \<times> 'v) list \<Rightarrow> (string \<times> 'v) list \<Rightarrow> bool" where
  "grows t t' \<longleftrightarrow> (\<forall>k v. lookup t k = Some v \<longrightarrow> lookup t' k = Some v)"

lemma grows_refl [simp, intro]: "grows t t"
  by (simp add: grows_def)

lemma grows_trans: "grows t u \<Longrightarrow> grows u v \<Longrightarrow> grows t v"
  by (simp add: grows_def)

lemma grows_put: "immutable_put i d v rel t = Inr t' \<Longrightarrow> grows t t'"
  using immutable_put_lookup(1) [of i d v rel t t'] by (auto simp: grows_def)

definition keeps_records :: "registry \<Rightarrow> registry \<Rightarrow> bool" where
  "keeps_records g g' \<longleftrightarrow> grows (rg_models g) (rg_models g') \<and> grows (rg_revisions g) (rg_revisions g') \<and>
     grows (rg_workloads g) (rg_workloads g') \<and> grows (rg_runs g) (rg_runs g') \<and>
     grows (rg_decisions g) (rg_decisions g') \<and> grows (rg_inputs g) (rg_inputs g') \<and>
     grows (rg_outcomes g) (rg_outcomes g')"

lemma keeps_records_refl [simp, intro]: "keeps_records g g"
  by (simp add: keeps_records_def)

lemma keeps_records_trans: "keeps_records a b \<Longrightarrow> keeps_records b c \<Longrightarrow> keeps_records a c"
  unfolding keeps_records_def by (meson grows_trans)

text \<open>\<open>files\<close>: an action that only adds records; the jobs and events stay.\<close>

definition files_only :: "registry \<Rightarrow> registry \<Rightarrow> bool" where
  "files_only g g' \<longleftrightarrow> keeps_records g g' \<and> rg_jobs g' = rg_jobs g \<and> rg_events g' = rg_events g"

lemma files_only_refl [simp, intro]: "files_only g g"
  by (simp add: files_only_def)

lemma files_only_trans: "files_only a b \<Longrightarrow> files_only b c \<Longrightarrow> files_only a c"
  unfolding files_only_def using keeps_records_trans by metis

lemma files_only_seq:
  assumes "files_only g (snd (f g))" and "\<And>a g'. files_only g' (snd (h a g'))"
  shows "files_only g (snd (seq f h g))"
  by (rule seq_rel [where R = files_only]) (use assms files_only_trans in blast)+

lemma register_model_files [simp]: "files_only g (snd (register_model k m t g))"
  by (auto simp: register_model_def Let_def files_only_def keeps_records_def split: sum.splits dest: grows_put)

lemma put_files [simp]:
  "files_only g (snd (put_revision k r m g))" "files_only g (snd (put_workload k i w g))"
  "files_only g (snd (put_run k b g))" "files_only g (snd (put_decision k d run g))"
  "files_only g (snd (freeze_gate_input k j q g))" "files_only g (snd (record_gate_outcome k j x g))"
  by (auto simp: put_revision_def put_workload_def put_run_def put_decision_def freeze_gate_input_def
      record_gate_outcome_def Let_def files_only_def keeps_records_def split: sum.splits dest: grows_put)

lemma reads_files [simp]:
  "snd (registered_run i g) = g" "snd (registered_revision i g) = g" "snd (registered_decision i g) = g"
  "snd (gate_input i g) = g" "snd (registered_outcome i g) = g" "snd (verify_decision_run k d i g) = g"
  "snd (read_lifecycle i g) = g" "snd (job_specification i g) = g" "snd (return a g) = g" "snd (raise e g) = g"
  by (simp_all add: registered_run_def registered_revision_def registered_decision_def gate_input_def
      registered_outcome_def verify_decision_run_def read_lifecycle_def job_specification_def return_def raise_def)

lemma record_files [simp]:
  "files_only g (snd (record_revision k r g))" "files_only g (snd (decide_run k d run g))"
  unfolding record_revision_def decide_run_def
  by (auto intro!: files_only_seq)

subsection \<open>The journal of a job\<close>

definition lifecycle_step :: "lifecycle_state \<Rightarrow> lifecycle_state \<Rightarrow> bool" where
  "lifecycle_step a b \<longleftrightarrow> validate_stage a b = Inr () \<and> lc_version b = Suc (lc_version a)"

lemma lifecycle_stepD:
  assumes "lifecycle_step a b"
  shows "lc_job b = lc_job a" "lc_status b \<in> allowed_stages (lc_status a)" "lc_version b = Suc (lc_version a)"
    "lc_status b \<in> {LRegistered, LRejected} \<or> lc_decision b \<noteq> None"
  using assms by (auto simp: lifecycle_step_def validate_stage_def res_iff)

definition row_ok :: "registry \<Rightarrow> string \<Rightarrow> lifecycle_row \<Rightarrow> bool" where
  "row_ok g j row \<longleftrightarrow> lr_version row = lc_version (lr_state row) \<and>
     successively lifecycle_step (new_lifecycle j # lifecycle_history j g) \<and>
     lr_state row = last (new_lifecycle j # lifecycle_history j g) \<and>
     (lr_owner row \<noteq> None \<longrightarrow> lr_locked row \<noteq> None) \<and>
     (\<not> unlockable (lc_status (lr_state row)) \<longrightarrow> lr_locked row \<noteq> None)"

definition locks_exclusive :: "registry \<Rightarrow> bool" where
  "locks_exclusive g \<longleftrightarrow> (\<forall>i j r s d. lookup (rg_jobs g) i = Some r \<longrightarrow> lookup (rg_jobs g) j = Some s \<longrightarrow>
     lr_locked r = Some d \<longrightarrow> lr_locked s = Some d \<longrightarrow> i = j)"

definition registry_ok :: "registry \<Rightarrow> bool" where
  "registry_ok g \<longleftrightarrow> (\<forall>j row. lookup (rg_jobs g) j = Some row \<longrightarrow> row_ok g j row) \<and>
     (\<forall>j. lookup (rg_jobs g) j = None \<longrightarrow> lifecycle_history j g = []) \<and> locks_exclusive g"

lemma registry_ok_empty: "registry_ok empty_registry"
  by (simp add: registry_ok_def empty_registry_def locks_exclusive_def lifecycle_history_def)

lemma registry_ok_files:
  assumes "registry_ok g" and "files_only g g'"
  shows "registry_ok g'"
  using assms by (simp add: registry_ok_def row_ok_def locks_exclusive_def lifecycle_history_def files_only_def)

lemma path_job: "successively lifecycle_step (s # h) \<Longrightarrow> lc_job (last (s # h)) = lc_job s"
  by (induction h arbitrary: s) (auto dest: lifecycle_stepD(1))

lemma row_job:
  assumes "registry_ok g" and "lookup (rg_jobs g) j = Some row"
  shows "lc_job (lr_state row) = j"
proof -
  from assms have "row_ok g j row" by (simp add: registry_ok_def)
  then show ?thesis unfolding row_ok_def using path_job [of "new_lifecycle j"] by (auto simp: new_lifecycle_def)
qed

text \<open>One row changes: its own conditions and the exclusiveness of its lock are to be shown.\<close>

lemma registry_ok_row:
  assumes ok: "registry_ok g" and jobs: "rg_jobs g' = upsert j row (rg_jobs g)"
    and others: "\<And>i. i \<noteq> j \<Longrightarrow> lifecycle_history i g' = lifecycle_history i g"
    and row: "row_ok g' j row"
    and lock: "\<And>i r d. lookup (rg_jobs g) i = Some r \<Longrightarrow> i \<noteq> j \<Longrightarrow> lr_locked r = Some d \<Longrightarrow> lr_locked row \<noteq> Some d"
  shows "registry_ok g'"
proof -
  have "row_ok g' i r" if r: "lookup (rg_jobs g') i = Some r" for i r
  proof (cases "i = j")
    case True
    with r row jobs show ?thesis by (simp add: lookup_upsert)
  next
    case False
    with r jobs ok have "row_ok g i r" by (simp add: lookup_upsert registry_ok_def)
    with others [OF False] show ?thesis by (simp add: row_ok_def)
  qed
  moreover have "lifecycle_history i g' = []" if n: "lookup (rg_jobs g') i = None" for i
  proof -
    from n jobs have "i \<noteq> j" "lookup (rg_jobs g) i = None" by (auto simp: lookup_upsert split: if_splits)
    with ok others show ?thesis by (simp add: registry_ok_def)
  qed
  moreover have "locks_exclusive g'"
    unfolding locks_exclusive_def
  proof (intro allI impI)
    fix i l r s d
    assume a: "lookup (rg_jobs g') i = Some r" "lookup (rg_jobs g') l = Some s"
      and d: "lr_locked r = Some d" "lr_locked s = Some d"
    show "i = l"
    proof (cases "i = j")
      case True
      with a d jobs lock [of l s d] show ?thesis by (auto simp: lookup_upsert split: if_splits)
    next
      case i: False
      show ?thesis
      proof (cases "l = j")
        case True
        with a d jobs lock [of i r d] i show ?thesis by (auto simp: lookup_upsert)
      next
        case False
        with a d jobs i ok show ?thesis by (auto simp: lookup_upsert registry_ok_def locks_exclusive_def)
      qed
    qed
  qed
  ultimately show ?thesis by (simp add: registry_ok_def)
qed

subsection \<open>Every transaction keeps the invariant\<close>

lemma upsert_new: "lookup t k = None \<Longrightarrow> upsert k v t = t @ [(k, v)]"
  by (induction t) (auto split: if_splits)

lemma create_job_cases:
  obtains (old) "snd (create_job k j s g) = g"
  | (new) "lookup (rg_jobs g) j = None" "snd (create_job k j s g) = g\<lparr>rg_jobs := rg_jobs g @ [(j,
       \<lparr>lr_digest = sha256 k (spec_canonical k s), lr_spec = s, lr_state = new_lifecycle j, lr_version = 0,
        lr_owner = None, lr_until = 0, lr_locked = None\<rparr>)]\<rparr>"
  by (cases "lookup (rg_jobs g) j") (auto simp: create_job_def Let_def)

lemma registry_ok_create: "registry_ok g \<Longrightarrow> registry_ok (snd (create_job k j s g))"
proof (cases rule: create_job_cases [where k = k and j = j and s = s and g = g])
  case new
  assume ok: "registry_ok g"
  let ?row = "\<lparr>lr_digest = sha256 k (spec_canonical k s), lr_spec = s, lr_state = new_lifecycle j, lr_version = 0,
     lr_owner = None, lr_until = 0, lr_locked = None\<rparr>"
  have "lifecycle_history j g = []" using ok new(1) by (simp add: registry_ok_def)
  moreover have "rg_jobs g @ [(j, ?row)] = upsert j ?row (rg_jobs g)"
    using upsert_new [OF new(1)] by simp
  ultimately show ?thesis
    by (intro registry_ok_row [OF ok, of _ j ?row])
      (auto simp: new row_ok_def lifecycle_history_def new_lifecycle_def unlockable_def)
qed simp

lemma claim_cases:
  assumes "claim_lifecycle j dep owner seconds now g = (r, g')"
  obtains (refused) e where "r = Inl e" "g' = g"
  | (claimed) row where "lookup (rg_jobs g) j = Some row" "lr_owner row = None \<or> lr_until row < now"
      "\<not> lock_taken j dep g" "r = Inr (lr_state row)"
      "g' = g\<lparr>rg_jobs := upsert j (row\<lparr>lr_owner := Some owner, lr_until := fadd now seconds,
        lr_locked := Some dep\<rparr>) (rg_jobs g)\<rparr>"
proof (cases "seconds \<le> 0 \<or> owner = [] \<or> dep = []")
  case True
  with assms refused show ?thesis by (auto simp: claim_lifecycle_def raise_def)
next
  case False
  show ?thesis
  proof (cases "claim_job_body j dep owner seconds now g")
    case (Inl e)
    with False assms have "r = Inl e" "g' = g" by (auto simp: claim_lifecycle_def txn)
    then show ?thesis by (rule refused)
  next
    case (Inr x)
    then obtain g1 where b: "claim_job_body j dep owner seconds now g = Inr ((), g1)" by (cases x) simp
    then obtain row where row: "lookup (rg_jobs g) j = Some row" "lr_owner row = None \<or> lr_until row < now"
      "\<not> lock_taken j dep g" "g1 = g\<lparr>rg_jobs := upsert j (row\<lparr>lr_owner := Some owner,
         lr_until := fadd now seconds, lr_locked := Some dep\<rparr>) (rg_jobs g)\<rparr>"
      by (auto simp: claim_job_body_def split: option.splits if_splits)
    have "claim_lifecycle j dep owner seconds now g = (lifecycle_job j g1, g1)"
      using False b by (simp add: claim_lifecycle_def txn read_lifecycle_def)
    then have "r = Inr (lr_state row)" "g' = g1"
      using assms row(4) by (auto simp: lifecycle_job_def lookup_upsert)
    with row claimed show ?thesis by simp
  qed
qed

lemma advance_cases:
  assumes "advance_lifecycle s owner changes now observed g = (r, g')"
  obtains (refused) e where "r = Inl e" "g' = g"
  | (advanced) row s' where "lookup (rg_jobs g) (lc_job s) = Some row" "lr_state row = s"
      "s' = (changes s)\<lparr>lc_version := lc_version s + 1\<rparr>" "validate_stage s s' = Inr ()"
      "lr_version row = lc_version s" "lr_owner row = Some owner" "now < lr_until row" "r = Inr s'"
      "g' = g\<lparr>rg_jobs := upsert (lc_job s) (row\<lparr>lr_state := s', lr_version := lc_version s'\<rparr>) (rg_jobs g),
        rg_events := rg_events g @ [(lc_job s, observed, s')]\<rparr>"
  using assms
  by (auto simp: advance_lifecycle_def atomically_def advance_body_def Let_def
      split: if_splits option.splits sum.splits prod.splits)

lemma lock_free:
  assumes "\<not> lock_taken j dep g" and "lookup (rg_jobs g) i = Some r" and "i \<noteq> j"
  shows "lr_locked r \<noteq> Some dep"
  using assms lookup_mem [OF assms(2)] unfolding lock_taken_def list_ex_iff by fastforce

lemma locks_exclusiveD:
  "registry_ok g \<Longrightarrow> lookup (rg_jobs g) i = Some r \<Longrightarrow> lookup (rg_jobs g) j = Some s \<Longrightarrow> i \<noteq> j \<Longrightarrow>
     lr_locked r = Some d \<Longrightarrow> lr_locked s \<noteq> Some d"
  unfolding registry_ok_def locks_exclusive_def by blast

lemma registry_ok_claim:
  assumes ok: "registry_ok g"
  shows "registry_ok (snd (claim_lifecycle j dep owner seconds now g))"
proof -
  obtain r g' where c: "claim_lifecycle j dep owner seconds now g = (r, g')" by (cases "claim_lifecycle j dep owner seconds now g")
  from c show ?thesis
  proof (cases rule: claim_cases)
    case (claimed row)
    have "row_ok g j row" using ok claimed(1) by (simp add: registry_ok_def)
    then show ?thesis unfolding c snd_conv
      by (intro registry_ok_row [OF ok, of _ j])
        (use claimed lock_free in \<open>auto simp: row_ok_def lifecycle_history_def\<close>)
  qed (use c ok in simp)
qed

lemma successively_snoc: "successively P (s # h) \<Longrightarrow> P (last (s # h)) x \<Longrightarrow> successively P (s # h @ [x])"
  using successively_append_iff [of P "s # h" "[x]"] by simp

lemma registry_ok_advance:
  assumes ok: "registry_ok g"
  shows "registry_ok (snd (advance_lifecycle s owner changes now observed g))"
proof -
  obtain r g' where a: "advance_lifecycle s owner changes now observed g = (r, g')"
    by (cases "advance_lifecycle s owner changes now observed g")
  from a show ?thesis
  proof (cases rule: advance_cases)
    case (advanced row s')
    let ?j = "lc_job s"
    have row: "row_ok g ?j row" using ok advanced(1) by (simp add: registry_ok_def)
    have hist: "lifecycle_history ?j g' = lifecycle_history ?j g @ [s']"
      "i \<noteq> ?j \<Longrightarrow> lifecycle_history i g' = lifecycle_history i g" for i
      using advanced(9) by (auto simp: lifecycle_history_def)
    have step: "lifecycle_step (last (new_lifecycle ?j # lifecycle_history ?j g)) s'"
      using row advanced(2,3,4) by (simp add: row_ok_def lifecycle_step_def)
    have new: "row_ok g' ?j (row\<lparr>lr_state := s', lr_version := lc_version s'\<rparr>)"
      using row successively_snoc [where P = lifecycle_step, OF _ step]
        hist(1) advanced(6) by (simp add: row_ok_def)
    show ?thesis unfolding a snd_conv
      by (rule registry_ok_row [OF ok _ hist(2) new])
        (use advanced locks_exclusiveD [OF ok] in auto)
  qed (use a ok in simp)
qed

lemma release_seen:
  assumes "lookup (rg_jobs g) j = Some row" and "lr_owner row = Some owner \<longrightarrow> lr_state row = seen"
    and ok: "registry_ok g"
  shows "registry_ok (snd (release_job j owner seen g))"
proof -
  have "row_ok g j row" using assms by (simp add: registry_ok_def)
  then have "row_ok g' j (release_row owner (unlockable (lc_status seen)) row)"
    if "lifecycle_history j g' = lifecycle_history j g" for g'
    using that assms(2) by (auto simp: row_ok_def release_row_def)
  then show ?thesis
    by (intro registry_ok_row [OF ok, of _ j "release_row owner (unlockable (lc_status seen)) row"])
      (use assms(1) locks_exclusiveD [OF ok] in \<open>auto simp: release_job_def lifecycle_history_def release_row_def\<close>)
qed

lemma registry_ok_release:
  assumes "registry_ok g"
  shows "registry_ok (snd (seq (read_lifecycle j) (\<lambda>seen. release_job j owner seen) g))"
  using assms release_seen [of g j]
  by (cases "lookup (rg_jobs g) j") (auto simp: seq_def read_lifecycle_def lifecycle_job_def)

lemma registry_ok_step: "registry_ok g \<Longrightarrow> registry_ok (registry_step k op g)"
  by (cases op) (auto intro: registry_ok_files registry_ok_create registry_ok_claim registry_ok_advance
      registry_ok_release)

lemma registry_ok_run: "registry_ok g \<Longrightarrow> registry_ok (registry_run k ops g)"
  by (rule registry_run_invariant [where I = registry_ok]) (rule registry_ok_step)

lemma reachable_ok: "registry_ok (registry_run k ops empty_registry)"
  by (rule registry_ok_run [OF registry_ok_empty])

subsection \<open>Only the owner of a lease moves a job\<close>

definition foreign :: "string \<Rightarrow> registry_op \<Rightarrow> bool" where
  "foreign o' op \<longleftrightarrow> (case op of G_claim j dep owner s n \<Rightarrow> owner \<noteq> o' | G_advance st owner c n a \<Rightarrow> owner \<noteq> o'
     | G_release j owner \<Rightarrow> owner \<noteq> o' | _ \<Rightarrow> True)"

definition owned_rows :: "string \<Rightarrow> registry \<Rightarrow> registry \<Rightarrow> bool" where
  "owned_rows o' g g' \<longleftrightarrow> (\<forall>j row. lookup (rg_jobs g') j = Some row \<longrightarrow> lr_owner row = Some o' \<longrightarrow>
     lookup (rg_jobs g) j = Some row)"

lemma owned_rows_refl [simp, intro]: "owned_rows o' g g"
  by (simp add: owned_rows_def)

lemma owned_rows_trans: "owned_rows o' a b \<Longrightarrow> owned_rows o' b c \<Longrightarrow> owned_rows o' a c"
  by (simp add: owned_rows_def)

lemma owned_rows_files: "files_only g g' \<Longrightarrow> owned_rows o' g g'"
  by (simp add: files_only_def owned_rows_def)

lemma owned_rows_claim:
  assumes "owner \<noteq> o'"
  shows "owned_rows o' g (snd (claim_lifecycle j dep owner seconds now g))"
proof -
  obtain r g' where c: "claim_lifecycle j dep owner seconds now g = (r, g')" by (cases "claim_lifecycle j dep owner seconds now g")
  from c show ?thesis
    by (cases rule: claim_cases) (use c assms in \<open>auto simp: owned_rows_def lookup_upsert\<close>)
qed

lemma owned_rows_advance:
  assumes "owner \<noteq> o'"
  shows "owned_rows o' g (snd (advance_lifecycle s owner changes now observed g))"
proof -
  obtain r g' where a: "advance_lifecycle s owner changes now observed g = (r, g')"
    by (cases "advance_lifecycle s owner changes now observed g")
  from a show ?thesis
    by (cases rule: advance_cases) (use a assms in \<open>auto simp: owned_rows_def lookup_upsert\<close>)
qed

lemma owned_rows_release:
  "owner \<noteq> o' \<Longrightarrow> owned_rows o' g (snd (release_job j owner seen g))"
  by (auto simp: release_job_def owned_rows_def lookup_upsert release_row_def split: option.splits)

lemma owned_rows_create: "owned_rows o' g (snd (create_job k j s g))"
  by (cases rule: create_job_cases [where k = k and j = j and s = s and g = g])
    (auto simp: owned_rows_def lookup_append_new simp del: map_of_append)

lemma owned_rows_step: "foreign o' op \<Longrightarrow> owned_rows o' g (registry_step k op g)"
proof (cases op)
  case (G_release j owner)
  assume "foreign o' op"
  with G_release have "owner \<noteq> o'" by (simp add: foreign_def)
  with G_release show ?thesis
    by (cases "lookup (rg_jobs g) j") (auto simp: seq_def read_lifecycle_def lifecycle_job_def owned_rows_release)
qed (auto simp: foreign_def intro: owned_rows_files owned_rows_claim owned_rows_advance owned_rows_create)

text \<open>What a worker read of a job it owns is still true when it acts on it, whatever the others did
  in between: this is why \<open>release\<close> may read the state before its transaction.\<close>

lemma owned_rows_run: "list_all (foreign o') ops \<Longrightarrow> owned_rows o' g (registry_run k ops g)"
proof (induction ops arbitrary: g)
  case (Cons op ops)
  then have "owned_rows o' g (registry_step k op g)"
    "owned_rows o' (registry_step k op g) (registry_run k ops (registry_step k op g))"
    by (auto simp: owned_rows_step)
  then show ?case by (simp add: registry_run_def owned_rows_trans)
qed (simp add: registry_run_def)

subsection \<open>Records are never changed\<close>

lemma jobs_keep_records:
  "keeps_records g (snd (claim_lifecycle j dep owner seconds now g))"
  "keeps_records g (snd (advance_lifecycle s owner changes now observed g))"
  "keeps_records g (snd (release_job j owner seen g))" "keeps_records g (snd (create_job k j sp g))"
proof -
  obtain r g' where c: "claim_lifecycle j dep owner seconds now g = (r, g')" by (cases "claim_lifecycle j dep owner seconds now g")
  from c show "keeps_records g (snd (claim_lifecycle j dep owner seconds now g))"
    by (cases rule: claim_cases) (use c in \<open>auto simp: keeps_records_def\<close>)
  obtain r g' where a: "advance_lifecycle s owner changes now observed g = (r, g')"
    by (cases "advance_lifecycle s owner changes now observed g")
  from a show "keeps_records g (snd (advance_lifecycle s owner changes now observed g))"
    by (cases rule: advance_cases) (use a in \<open>auto simp: keeps_records_def\<close>)
  show "keeps_records g (snd (release_job j owner seen g))"
    by (auto simp: release_job_def keeps_records_def split: option.splits)
  show "keeps_records g (snd (create_job k j sp g))"
    by (cases rule: create_job_cases [where k = k and j = j and s = sp and g = g]) (auto simp: keeps_records_def)
qed

lemma keeps_records_step: "keeps_records g (registry_step k op g)"
proof (cases op)
  case (G_release j owner)
  then show ?thesis
    by (cases "lookup (rg_jobs g) j") (auto simp: seq_def read_lifecycle_def lifecycle_job_def jobs_keep_records)
qed (auto simp: jobs_keep_records intro: record_files [unfolded files_only_def, THEN conjunct1]
    put_files [unfolded files_only_def, THEN conjunct1] register_model_files [unfolded files_only_def, THEN conjunct1])

lemma keeps_records_run: "keeps_records g (registry_run k ops g)"
proof (induction ops arbitrary: g)
  case (Cons op ops)
  from keeps_records_trans [OF keeps_records_step Cons.IH] show ?case by (simp add: registry_run_def)
qed (simp add: registry_run_def)

subsection \<open>Guarantees\<close>

text \<open>\<open>launches s h\<close>: how often the history \<open>h\<close> from \<open>s\<close> begins a deployment.\<close>

fun launches :: "lifecycle_state \<Rightarrow> lifecycle_state list \<Rightarrow> nat" where
  "launches s [] = 0"
| "launches s (x # h) = (if lc_status s = LEvaluated \<and> lc_status x = LDeploying then 1 else 0) + launches x h"

definition undeployed :: "lifecycle_status \<Rightarrow> bool" where
  "undeployed st \<longleftrightarrow> st \<in> {LRegistered, LEvaluated}"

lemma lifecycle_step_undeployed: "lifecycle_step a b \<Longrightarrow> \<not> undeployed (lc_status a) \<Longrightarrow> \<not> undeployed (lc_status b)"
  using lifecycle_stepD(2) [of a b] by (cases "lc_status a") (auto simp: undeployed_def)

lemma launches_none: "successively lifecycle_step (s # h) \<Longrightarrow> \<not> undeployed (lc_status s) \<Longrightarrow> launches s h = 0"
proof (induction h arbitrary: s)
  case (Cons x h)
  then have "\<not> undeployed (lc_status x)" by (auto dest: lifecycle_step_undeployed)
  with Cons show ?case by (auto simp: undeployed_def)
qed simp

lemma launches_once: "successively lifecycle_step (s # h) \<Longrightarrow> launches s h \<le> 1"
proof (induction h arbitrary: s)
  case (Cons x h)
  show ?case
  proof (cases "lc_status s = LEvaluated \<and> lc_status x = LDeploying")
    case True
    with Cons.prems launches_none [of x h] show ?thesis by (simp add: undeployed_def)
  next
    case False
    with Cons show ?thesis by auto
  qed
qed simp

lemma path_versions: "successively lifecycle_step (s # h) \<Longrightarrow> map lc_version h = [Suc (lc_version s)..<Suc (lc_version s + length h)]"
proof (induction h arbitrary: s)
  case (Cons x h)
  then have v: "lc_version x = Suc (lc_version s)" by (auto dest: lifecycle_stepD(3))
  have "map lc_version h = [Suc (lc_version x)..<Suc (lc_version x + length h)]" using Cons by simp
  then have "map lc_version (x # h) = lc_version x # [Suc (lc_version x)..<Suc (lc_version x + length h)]" by simp
  also have "\<dots> = [lc_version x..<Suc (lc_version x + length h)]" by (rule upt_conv_Cons [symmetric]) simp
  finally show ?case using v by (simp del: upt_Suc)
qed simp

lemma path_terminal: "successively lifecycle_step (s # h) \<Longrightarrow> x \<in> set (butlast (s # h)) \<Longrightarrow> lc_status x \<notin> {LPromoted, LRejected}"
proof (induction h arbitrary: s)
  case (Cons y h)
  then have "lifecycle_step s y" by simp
  with Cons show ?case using lifecycle_stepD(2) [of s y] by (cases "x = s") (auto split: if_splits)
qed simp

text \<open>C31: Whatever transactions all processes interleave, the persisted history of a lifecycle job
  is a path of the stage graph from the registered state: consecutive versions from one, a
  recorded decision in every evaluated or active state, nothing after a promotion or a
  rejection, at most one move from evaluated to deploying, and its last entry is the job's state.\<close>

theorem lifecycle_follows_graph:
  assumes "lookup (rg_jobs (registry_run k ops empty_registry)) j = Some row"
  defines "h \<equiv> lifecycle_history j (registry_run k ops empty_registry)"
  shows "lr_state row = last (new_lifecycle j # h) \<and> map lc_version h = [1..<Suc (length h)] \<and>
     launches (new_lifecycle j) h \<le> 1 \<and>
     (\<forall>s \<in> set (butlast h). lc_status s \<notin> {LPromoted, LRejected}) \<and>
     (\<forall>i < length h. lc_status (h ! i) \<in> allowed_stages (lc_status ((new_lifecycle j # h) ! i)) \<and> lc_job (h ! i) = j \<and>
        (lc_status (h ! i) \<in> {LRegistered, LRejected} \<or> lc_decision (h ! i) \<noteq> None))"
proof -
  have "row_ok (registry_run k ops empty_registry) j row"
    using reachable_ok [of k ops] assms(1) by (simp add: registry_ok_def)
  then have path: "successively lifecycle_step (new_lifecycle j # h)" and last: "lr_state row = last (new_lifecycle j # h)"
    by (simp_all add: row_ok_def h_def)
  have step: "lifecycle_step ((new_lifecycle j # h) ! i) (h ! i)" if "i < length h" for i
    using path that by (auto simp: successively_conv_nth)
  have job: "lc_job (h ! i) = j" if "i < length h" for i
    using that
  proof (induction i)
    case 0
    with step [of 0] lifecycle_stepD(1) show ?case by (fastforce simp: new_lifecycle_def)
  next
    case (Suc i)
    with step [of "Suc i"] lifecycle_stepD(1) show ?case by fastforce
  qed
  have "map lc_version h = [1..<Suc (length h)]" using path_versions [OF path] by (simp add: new_lifecycle_def)
  moreover have "\<forall>s \<in> set (butlast h). lc_status s \<notin> {LPromoted, LRejected}"
    using path_terminal [OF path] by (cases "h = []") auto
  ultimately show ?thesis
    using last launches_once [OF path] step job lifecycle_stepD(2,4) by metis
qed

text \<open>C32: While an action of a job on a deployment may be unresolved (deploying, verifying or
  waiting for reconciliation), the job holds the lock of a deployment, no other job holds it,
  and every attempt of another job to claim that deployment fails, even after the worker's
  lease expired.\<close>

theorem unresolved_deployment_is_locked:
  assumes "lookup (rg_jobs (registry_run k ops empty_registry)) i = Some row"
    and "lc_status (lr_state row) \<in> {LDeploying, LVerifying, LNeeds_reconciliation}" and "j \<noteq> i"
  shows "\<exists>dep. lr_locked row = Some dep \<and>
     (\<forall>other. lookup (rg_jobs (registry_run k ops empty_registry)) j = Some other \<longrightarrow> lr_locked other \<noteq> Some dep) \<and>
     (\<forall>owner seconds now. \<not> is_ok (fst (claim_lifecycle j dep owner seconds now (registry_run k ops empty_registry))))"
proof -
  let ?g = "registry_run k ops empty_registry"
  have ok: "registry_ok ?g" by (rule reachable_ok)
  have "row_ok ?g i row" using ok assms(1) by (simp add: registry_ok_def)
  then obtain dep where dep: "lr_locked row = Some dep" using assms(2) by (auto simp: row_ok_def unlockable_def)
  have taken: "lock_taken j dep ?g"
    using lookup_mem [OF assms(1)] dep assms(3) by (auto simp: lock_taken_def list_ex_iff)
  have "\<not> is_ok (fst (claim_lifecycle j dep owner seconds now ?g))" for owner seconds now
  proof -
    obtain r g' where c: "claim_lifecycle j dep owner seconds now ?g = (r, g')"
      by (cases "claim_lifecycle j dep owner seconds now ?g")
    then show ?thesis by (cases rule: claim_cases) (use c taken in auto)
  qed
  with dep locks_exclusiveD [OF ok assms(1) _ _ dep] assms(3) show ?thesis by blast
qed

end
