(* ===== verification/Lifecycle.thy ===== *)
theory Lifecycle
  imports RegistryGuarantees
begin

text \<open>
  Registration of measured runs (\<open>register_run\<close> of \<open>registry/metadata.py\<close>), the profile-aware
  evidence gate (\<open>registry/release_gate.py\<close>) and the deployment lifecycle over both
  (\<open>registry/lifecycle.py\<close>).  Between any two registry transactions of a worker the other processes
  run an arbitrary list of transactions of their own (\<open>le_others\<close>); the deployment adapter is
  the arbitrary one of the rollback controller, seen through the deadline of the call.
\<close>

subsection \<open>The world of a worker\<close>

record release_codec = registry_codec +
  lk_parsers :: run_parsers
  lk_quality :: quality_codec
  lk_read_quality :: "string \<Rightarrow> quality_evidence res"
  lk_read_suite :: "string \<Rightarrow> golden_suite res"
  lk_read_profile :: "string \<Rightarrow> serving_profile res"

record lifecycle_env =
  le_codec :: release_codec
  le_clock :: "nat \<Rightarrow> flt"
  le_timeout :: flt
  le_others :: "nat \<Rightarrow> registry_op list"

text \<open>\<open>cy_applied\<close> logs each apply call with the job's persisted state at that moment.\<close>

record 'w cycle =
  cy_registry :: registry
  cy_store :: artifact_store
  cy_world :: 'w
  cy_tick :: nat
  cy_applied :: "(apply_request \<times> lifecycle_state option) list"

definition meanwhile :: "lifecycle_env \<Rightarrow> 'w cycle \<Rightarrow> registry" where
  "meanwhile env w = registry_run (le_codec env) (le_others env (cy_tick w)) (cy_registry w)"

definition reg :: "lifecycle_env \<Rightarrow> (registry, 'a) action \<Rightarrow> ('w cycle, 'a) action" where
  "reg env f w = (case f (meanwhile env w) of (r, g) \<Rightarrow> (r, w\<lparr>cy_registry := g, cy_tick := Suc (cy_tick w)\<rparr>))"

definition clock_at :: "lifecycle_env \<Rightarrow> 'w cycle \<Rightarrow> nat \<Rightarrow> flt" where
  "clock_at env w i = le_clock env (2 * cy_tick w + i)"

definition artifacts :: "(artifact_store, 'a) action \<Rightarrow> ('w cycle, 'a) action" where
  "artifacts f w = (case f (cy_store w) of (r, s) \<Rightarrow> (r, w\<lparr>cy_store := s\<rparr>))"

definition fallible :: "'a res \<Rightarrow> ('s, 'a) action" where
  "fallible r s = (r, s)"

subsection \<open>Registration of a measured run\<close>

definition run_files_read :: "directory \<Rightarrow> (string \<times> string \<times> string) res" where
  "run_files_read d = bind_res (d ''manifest.json'') (\<lambda>m. bind_res (d ''requests.jsonl'') (\<lambda>r.
     bind_res (d ''summary.json'') (\<lambda>s. Inr (m, r, s))))"

fun files_changed :: "directory \<Rightarrow> (string \<times> string) list \<Rightarrow> bool res" where
  "files_changed d [] = Inr False"
| "files_changed d ((name, dat) # rest) = bind_res (d name) (\<lambda>now. if now \<noteq> dat then Inr True else files_changed d rest)"

definition declared_run_id :: "release_codec \<Rightarrow> string \<Rightarrow> string res" where
  "declared_run_id k manifest = bind_res (ek_json (lk_parsers k) manifest) (\<lambda>v. case v of
     JObj d \<Rightarrow> (case field_of d ''run_id'' of Some (JStr i) \<Rightarrow> Inr i
       | _ \<Rightarrow> Inl (ValueError ''run ID must be a nonempty string''))
   | _ \<Rightarrow> Inl (Other ''AttributeError''))"

definition register_run :: "lifecycle_env \<Rightarrow> run_files \<Rightarrow> revision option \<Rightarrow> ('w cycle, run_bundle) action" where
  "register_run env d r = (let k = le_codec env in
     seq (fallible (run_files_read (rf_before d))) (\<lambda>(m, q, s).
     seq (fallible (validate_evidence (lk_parsers k) (rf_during d))) (\<lambda>ci.
     seq (case r of None \<Rightarrow> return () | Some rv \<Rightarrow>
            seq (fallible (verify_candidate_identity ci rv)) (\<lambda>_. reg env (record_revision k rv))) (\<lambda>_.
     seq (fallible (files_changed (rf_after d) [(''manifest.json'', m), (''requests.jsonl'', q), (''summary.json'', s)])) (\<lambda>changed.
     if changed then raise (ValueError ''run artifacts changed during registration'') else
     seq (reg env (register_model k (rc_model_revision (ci_config ci)) (rc_tokenizer_revision (ci_config ci)))) (\<lambda>model.
     seq (reg env (put_workload k (ci_hash ci) (ci_workload ci))) (\<lambda>_.
     seq (fallible (declared_run_id k m)) (\<lambda>run.
     seq (artifacts (artifact_put (sha256 k) m)) (\<lambda>rm.
     seq (artifacts (artifact_put (sha256 k) q)) (\<lambda>rq.
     seq (artifacts (artifact_put (sha256 k) s)) (\<lambda>rs.
     seq (fallible (make_bundle \<lparr>rb_run = run, rb_workload = ci_hash ci, rb_model = model,
            rb_revision = map_option revision_id r, rb_manifest = rm, rb_requests = rq, rb_summary = rs\<rparr>)) (\<lambda>b.
     seq (reg env (put_run k b)) (\<lambda>_. return b)))))))))))))"

subsection \<open>Materialized evidence\<close>

text \<open>\<open>materialize\<close> writes the three verified artifacts of a run into a fresh private directory,
  which nothing changes while the gate reads it.\<close>

definition directory_of :: "string \<Rightarrow> string \<Rightarrow> string \<Rightarrow> directory" where
  "directory_of m q s name =
     (if name = ''manifest.json'' then Inr m else if name = ''requests.jsonl'' then Inr q
      else if name = ''summary.json'' then Inr s else Inl (OSError ''FileNotFoundError''))"

definition still_files :: "directory \<Rightarrow> run_files" where
  "still_files d = \<lparr>rf_before = d, rf_during = d, rf_after = d\<rparr>"

definition materialize :: "release_codec \<Rightarrow> artifact_store \<Rightarrow> run_bundle \<Rightarrow> directory res" where
  "materialize k st b =
     bind_res (artifact_get (sha256 k) (rb_manifest b) st) (\<lambda>m.
     bind_res (artifact_get (sha256 k) (rb_requests b) st) (\<lambda>q.
     bind_res (artifact_get (sha256 k) (rb_summary b) st) (\<lambda>s. Inr (directory_of m q s))))"

text \<open>What both gates compute from the artifacts: the promotion decision for the target.\<close>

definition judged :: "release_codec \<Rightarrow> artifact_store \<Rightarrow> lifecycle_spec \<Rightarrow> run_bundle \<Rightarrow> run_bundle \<Rightarrow> decision res" where
  "judged k st s baseline candidate =
     bind_res (bind_res (artifact_get (sha256 k) (ls_quality s) st) (lk_read_quality k)) (\<lambda>e.
     bind_res (bind_res (bind_res (artifact_get (sha256 k) (ls_suite s) st) (lk_read_suite k)) make_suite) (\<lambda>suite.
     bind_res (materialize k st baseline) (\<lambda>b.
     bind_res (materialize k st candidate) (\<lambda>c.
     evaluate_promotion k (lk_parsers k) (lk_quality k) (still_files b) (still_files c) e suite
       (ls_policy s) (ls_target s)))))"

subsection \<open>The canonical gate\<close>

text \<open>The measured endpoint and served model of a run's manifest.\<close>

definition measured_endpoint :: "serving_profile \<Rightarrow> json \<Rightarrow> unit res" where
  "measured_endpoint p v =
     (case v of JObj d \<Rightarrow>
        (case field_of d ''configuration'' of
           None \<Rightarrow> Inl (KeyError ''configuration'')
         | Some (JObj c) \<Rightarrow>
             let suffix = (if field_of c ''request_api'' = Some (JStr ''chat'') then ''/chat/completions'' else ''/completions'') in
             if field_of d ''url'' \<noteq> Some (JStr (pr_base_url p @ suffix))
             then Inl (ValueError ''measured endpoint or served model differs from profile'')
             else (case field_of c ''model'' of None \<Rightarrow> Inl (KeyError ''model'')
               | Some m \<Rightarrow> ensure (m = JStr (pr_served_model p))
                   (ValueError ''measured endpoint or served model differs from profile''))
         | Some _ \<Rightarrow> Inl (Other ''AttributeError''))
      | _ \<Rightarrow> Inl (TypeError ''manifest''))"

definition read_profile :: "release_codec \<Rightarrow> artifact_ref \<Rightarrow> artifact_store \<Rightarrow> serving_profile res" where
  "read_profile k r st = bind_res (artifact_get (sha256 k) r st) (lk_read_profile k)"

definition check_measured :: "release_codec \<Rightarrow> run_bundle \<Rightarrow> serving_profile \<Rightarrow> artifact_store \<Rightarrow> unit res" where
  "check_measured k b p st =
     bind_res (bind_res (artifact_get (sha256 k) (rb_manifest b) st) (ek_json (lk_parsers k))) (measured_endpoint p)"

definition on_store :: "(artifact_store \<Rightarrow> 'a res) \<Rightarrow> ('w cycle, 'a) action" where
  "on_store f w = (f (cy_store w), w)"

definition gate_common :: "release_codec \<Rightarrow> string \<Rightarrow> lifecycle_spec \<Rightarrow> string option \<Rightarrow> gate_status \<Rightarrow> string option
    \<Rightarrow> string list \<Rightarrow> gate_outcome" where
  "gate_common k j s input status decision reasons =
     \<lparr>go_job = j, go_spec = sha256 k (spec_canonical k s), go_input = input, go_candidate = ls_candidate s,
      go_status = status, go_decision = decision, go_reasons = reasons\<rparr>"

definition frozen_request :: "lifecycle_env \<Rightarrow> string \<Rightarrow> lifecycle_spec \<Rightarrow> ('w cycle, gate_request) action" where
  "frozen_request env j s =
     (if ls_mode s \<noteq> Canonical_profile then raise (ValueError ''historical drill is not a canonical release'')
      else reg env (gate_input j))"

definition gate_measured :: "lifecycle_env \<Rightarrow> string \<Rightarrow> lifecycle_spec \<Rightarrow> gate_request \<Rightarrow> string \<Rightarrow> ('w cycle, gate_outcome) action" where
  "gate_measured env j s q digest = (let k = le_codec env in
     if gr_job q \<noteq> j then raise (ValueError ''gate job identity mismatch'') else
     seq (on_store (read_profile k (gr_baseline q))) (\<lambda>p0.
     seq (on_store (read_profile k (gr_candidate q))) (\<lambda>p1.
     seq (reg env (registered_run (ls_baseline s))) (\<lambda>b.
     seq (reg env (registered_run (ls_candidate s))) (\<lambda>c.
     if rb_revision b \<noteq> Some (ls_expected_revision s) \<or> rb_revision c \<noteq> Some (revision_id (ls_target s))
     then raise (ValueError ''run revision does not match lifecycle input'') else
     seq (reg env (registered_revision (ls_expected_revision s))) (\<lambda>rv.
     seq (fallible (verify_revision k p0 rv)) (\<lambda>_.
     seq (fallible (verify_revision k p1 (ls_target s))) (\<lambda>_.
     seq (on_store (check_measured k b p0)) (\<lambda>_.
     seq (on_store (check_measured k c p1)) (\<lambda>_.
     seq (reg env (registered_revision (revision_id (ls_target s)))) (\<lambda>known.
     if known \<noteq> ls_target s then raise (ValueError ''target differs from registered revision'') else
     seq (on_store (\<lambda>st. judged k st s b c)) (\<lambda>d.
     seq (reg env (decide_run k d (rb_run c))) (\<lambda>did.
     fallible (make_outcome (gate_common k j s (Some digest)
       (if approved d then Gate_approved else if evidence_digest d \<noteq> None then Gate_rejected else Gate_invalid)
       (Some did) (rejection_reasons d))))))))))))))))"

text \<open>\<open>attempt\<close> is the body of a \<open>try\<close>: the exception becomes a value.  The caught exceptions give
  an invalid outcome, with the digest of the gate input when it was already known.\<close>

definition attempt :: "('s, 'a) action \<Rightarrow> ('s, 'a res) action" where
  "attempt f s = (case f s of (r, s') \<Rightarrow> (Inr r, s'))"

definition gate_failure :: "release_codec \<Rightarrow> string \<Rightarrow> lifecycle_spec \<Rightarrow> string option \<Rightarrow> py_error \<Rightarrow> ('s, gate_outcome) action" where
  "gate_failure k j s input e =
     (if invalid_evidence e
      then fallible (make_outcome (gate_common k j s input Gate_invalid None [''missing_or_invalid_profile_evidence'']))
      else raise e)"

definition evaluate_gate :: "lifecycle_env \<Rightarrow> string \<Rightarrow> ('w cycle, gate_outcome) action" where
  "evaluate_gate env j = (let k = le_codec env in
     seq (reg env (job_specification j)) (\<lambda>s.
     seq (seq (attempt (frozen_request env j s)) (\<lambda>r. case r of
            Inl e \<Rightarrow> gate_failure k j s None e
          | Inr q \<Rightarrow> let digest = sha256 k (rk_request_json k q) in
              seq (attempt (gate_measured env j s q digest)) (\<lambda>r. case r of
                Inl e \<Rightarrow> gate_failure k j s (Some digest) e
              | Inr x \<Rightarrow> return x))) (\<lambda>x.
     seq (reg env (record_gate_outcome k j x)) (\<lambda>_. return x))))"

subsection \<open>The decision of a lifecycle\<close>

definition legacy_decision :: "lifecycle_env \<Rightarrow> lifecycle_spec \<Rightarrow> ('w cycle, string) action" where
  "legacy_decision env s = (let k = le_codec env in
     seq (reg env (registered_run (ls_baseline s))) (\<lambda>b.
     seq (reg env (registered_run (ls_candidate s))) (\<lambda>c.
     if rb_revision b \<noteq> Some (ls_expected_revision s)
     then raise (ValueError ''baseline bundle does not describe the expected active revision'') else
     if rb_revision c \<noteq> Some (revision_id (ls_target s))
     then raise (ValueError ''candidate bundle is not bound to target deployment revision'') else
     seq (reg env (registered_revision (revision_id (ls_target s)))) (\<lambda>known.
     if known \<noteq> ls_target s then raise (ValueError ''target revision differs from registered identity'') else
     seq (on_store (\<lambda>st. judged k st s b c)) (\<lambda>d.
     reg env (decide_run k d (ls_candidate s)))))))"

definition lifecycle_decision :: "lifecycle_env \<Rightarrow> lifecycle_spec \<Rightarrow> ('w cycle, string) action" where
  "lifecycle_decision env s =
     (if ls_mode s = Canonical_profile then
        seq (evaluate_gate env (ls_job s)) (\<lambda>x.
        case go_decision x of
          None \<Rightarrow> raise (ValueError ''canonical profile evidence is unavailable'')
        | Some did \<Rightarrow> if go_status x = Gate_invalid
            then raise (ValueError ''canonical profile evidence is unavailable'') else return did)
      else legacy_decision env s)"

subsection \<open>Deployment\<close>

definition do_advance :: "lifecycle_env \<Rightarrow> lifecycle_state \<Rightarrow> string \<Rightarrow> (lifecycle_state \<Rightarrow> lifecycle_state)
    \<Rightarrow> ('w cycle, lifecycle_state) action" where
  "do_advance env st owner changes w =
     reg env (advance_lifecycle st owner changes (clock_at env w 0) (clock_at env w 1)) w"

definition ask_apply :: "'w adapter \<Rightarrow> string \<Rightarrow> apply_request \<Rightarrow> ('w cycle, unit) action" where
  "ask_apply ad j q w =
     (case adapter_apply ad q (cy_world w) of
        (r, x) \<Rightarrow> (r, w\<lparr>cy_world := x, cy_applied := cy_applied w @
                   [(q, map_option lr_state (lookup (rg_jobs (cy_registry w)) j))]\<rparr>))"

definition probe :: "lifecycle_env \<Rightarrow> 'w adapter \<Rightarrow> lifecycle_spec \<Rightarrow> ('w cycle, bool) action" where
  "probe env ad s w =
     (case adapter_health ad (ls_deployment s) (cy_world w) of (r, x) \<Rightarrow>
        (bind_res r (\<lambda>h. Inr (verifies (le_codec env) h (ls_target s))), w\<lparr>cy_world := x\<rparr>))"

definition lifecycle_request :: "lifecycle_spec \<Rightarrow> apply_request" where
  "lifecycle_request s =
     \<lparr>q_deployment_id = ls_deployment s, q_expected_revision = ls_expected_revision s,
      q_expected_generation = ls_expected_generation s, q_target = ls_target s,
      q_idempotency_key = ''lifecycle-'' @ ls_job s\<rparr>"

definition to_stage :: "lifecycle_status \<Rightarrow> string option \<Rightarrow> lifecycle_state \<Rightarrow> lifecycle_state" where
  "to_stage status err st = st\<lparr>lc_status := status, lc_error := err\<rparr>"

definition apply_and_probe :: "lifecycle_env \<Rightarrow> 'w adapter \<Rightarrow> lifecycle_spec \<Rightarrow> lifecycle_state \<Rightarrow> string
    \<Rightarrow> ('w cycle, lifecycle_state) action" where
  "apply_and_probe env ad s st owner =
     seq (do_advance env st owner (\<lambda>x. x\<lparr>lc_status := LDeploying, lc_attempts := lc_attempts st + 1\<rparr>)) (\<lambda>st1.
     seq (ask_apply ad (ls_job s) (lifecycle_request s)) (\<lambda>_.
     seq (do_advance env st1 owner (\<lambda>x. x\<lparr>lc_status := LVerifying\<rparr>)) (\<lambda>st2.
     seq (probe env ad s) (\<lambda>healthy.
       if healthy then do_advance env st2 owner (to_stage LPromoted None)
       else do_advance env st2 owner (\<lambda>x. x\<lparr>lc_error := Some ''health_not_verified''\<rparr>)))))"

definition deploy :: "lifecycle_env \<Rightarrow> 'w adapter \<Rightarrow> lifecycle_spec \<Rightarrow> lifecycle_state \<Rightarrow> string
    \<Rightarrow> ('w cycle, lifecycle_state) action" where
  "deploy env ad s st owner =
     (if lc_status st \<in> {LDeploying, LVerifying, LNeeds_reconciliation} then
        seq (probe env ad s) (\<lambda>healthy.
          if healthy then do_advance env st owner (to_stage LPromoted None)
          else if lc_status st = LVerifying \<or> \<not> supports_idempotency ad
          then do_advance env st owner
                 (to_stage (if lc_status st = LVerifying then LVerifying else LNeeds_reconciliation)
                    (Some ''health_not_verified''))
          else apply_and_probe env ad s st owner)
      else apply_and_probe env ad s st owner)"

subsection \<open>One call of the service\<close>

definition lifecycle_body :: "lifecycle_env \<Rightarrow> 'w adapter option \<Rightarrow> lifecycle_spec \<Rightarrow> bool \<Rightarrow> string \<Rightarrow> lifecycle_state
    \<Rightarrow> ('w cycle, lifecycle_state) action" where
  "lifecycle_body env ad s evaluate_only owner st =
     seq (lifecycle_decision env s) (\<lambda>did.
     seq (reg env (registered_decision did)) (\<lambda>d.
     if \<not> approved d then
       (if lc_status st \<notin> {LRegistered, LEvaluated}
        then raise (RegistryConflict ''previously approved deployment evidence changed'')
        else do_advance env st owner (\<lambda>x. x\<lparr>lc_status := LRejected, lc_decision := Some did, lc_error := None\<rparr>))
     else if lc_decision st \<noteq> None \<and> lc_decision st \<noteq> Some did
     then raise (RegistryConflict ''recorded decision changed'')
     else
       seq (if lc_status st = LRegistered
            then do_advance env st owner (\<lambda>x. x\<lparr>lc_status := LEvaluated, lc_decision := Some did, lc_error := None\<rparr>)
            else if lc_error st \<noteq> None then do_advance env st owner (\<lambda>x. x\<lparr>lc_error := None\<rparr>)
            else return st) (\<lambda>st1.
       if evaluate_only then return st1
       else case ad of
         None \<Rightarrow> raise (ValueError ''deployment adapter is required for activation'')
       | Some a \<Rightarrow> deploy env a s st1 owner)))"

definition lifecycle_failure :: "lifecycle_env \<Rightarrow> lifecycle_spec \<Rightarrow> string \<Rightarrow> py_error \<Rightarrow> ('w cycle, lifecycle_state) action" where
  "lifecycle_failure env s owner e =
     seq (reg env (read_lifecycle (ls_job s))) (\<lambda>current.
       if e = CancelledError then
         seq (do_advance env current owner (\<lambda>x. x\<lparr>lc_error := Some ''CancelledError''\<rparr>)) (\<lambda>_. raise CancelledError)
       else do_advance env current owner (\<lambda>x. x\<lparr>lc_error := Some (class_name e)\<rparr>))"

definition release_owned :: "lifecycle_env \<Rightarrow> string \<Rightarrow> string \<Rightarrow> ('w cycle, unit) action" where
  "release_owned env j owner =
     seq (reg env (read_lifecycle j)) (\<lambda>seen. reg env (release_job j owner seen))"

definition lifecycle_seconds :: "lifecycle_env \<Rightarrow> flt" where
  "lifecycle_seconds env = fadd (fmul 3 (le_timeout env)) 30"

definition lifecycle_run :: "lifecycle_env \<Rightarrow> 'w adapter option \<Rightarrow> lifecycle_spec \<Rightarrow> bool \<Rightarrow> string
    \<Rightarrow> ('w cycle, lifecycle_state) action" where
  "lifecycle_run env ad s evaluate_only owner =
     seq (reg env (create_job (le_codec env) (ls_job s) s)) (\<lambda>st.
     if lc_status st \<in> {LPromoted, LRejected} then return st
     else seq (\<lambda>w. reg env (claim_lifecycle (lc_job st) (ls_deployment s) owner (lifecycle_seconds env) (clock_at env w 0)) w) (\<lambda>st.
       finally_do (recover (lifecycle_body env ad s evaluate_only owner st) (lifecycle_failure env s owner))
         (release_owned env (lc_job st) owner)))"

definition valid_lifecycle_timeout :: "flt \<Rightarrow> bool" where
  "valid_lifecycle_timeout t \<longleftrightarrow> 0 < t \<and> t \<le> 3600"

text \<open>Any number of calls, by workers with identities of their own.\<close>

fun lifecycle_runs :: "lifecycle_env \<Rightarrow> 'w adapter option \<Rightarrow> lifecycle_spec \<Rightarrow> (bool \<times> string) list \<Rightarrow> 'w cycle \<Rightarrow> 'w cycle" where
  "lifecycle_runs env ad s [] w = w"
| "lifecycle_runs env ad s ((evaluate_only, owner) # calls) w =
     lifecycle_runs env ad s calls (snd (lifecycle_run env ad s evaluate_only owner w))"

end
