(* ===== verification/LifecycleGuarantees.thy ===== *)
theory LifecycleGuarantees
  imports Lifecycle
begin

text \<open>
  What the deployment lifecycle promises whatever the other processes do to the registry in
  between: the adapter is asked to act only under a durable intent and, without idempotent
  replay, at most once per job over all calls; a promotion rests on a measured approval and on
  verified health; and a job whose evidence passes reaches promotion with a working adapter.
\<close>

subsection \<open>Registries only grow\<close>

definition registry_grows :: "registry \<Rightarrow> registry \<Rightarrow> bool" where
  "registry_grows g g' \<longleftrightarrow> keeps_records g g' \<and> (\<forall>i. \<exists>ext. lifecycle_history i g' = lifecycle_history i g @ ext)"

lemma registry_grows_refl [simp, intro]: "registry_grows g g"
  by (simp add: registry_grows_def)

lemma registry_grows_trans: "registry_grows a b \<Longrightarrow> registry_grows b c \<Longrightarrow> registry_grows a c"
  unfolding registry_grows_def using keeps_records_trans by (metis append_assoc)

lemma registry_grows_events:
  "keeps_records g g' \<Longrightarrow> rg_events g' = rg_events g @ ext \<Longrightarrow> registry_grows g g'"
  by (simp add: registry_grows_def lifecycle_history_def)

lemma registry_grows_files: "files_only g g' \<Longrightarrow> registry_grows g g'"
  by (rule registry_grows_events [where ext = "[]"]) (simp_all add: files_only_def)

lemma registry_grows_jobs:
  "registry_grows g (snd (create_job k j sp g))" "registry_grows g (snd (claim_lifecycle j dep owner seconds now g))"
  "registry_grows g (snd (advance_lifecycle s owner changes now observed g))" "registry_grows g (snd (release_job j owner seen g))"
proof -
  show "registry_grows g (snd (create_job k j sp g))"
    by (rule registry_grows_events [OF jobs_keep_records(4), where ext = "[]"])
      (cases rule: create_job_cases [where k = k and j = j and s = sp and g = g]; simp)
  obtain r g' where c: "claim_lifecycle j dep owner seconds now g = (r, g')" by (cases "claim_lifecycle j dep owner seconds now g")
  from c have "rg_events g' = rg_events g" by (cases rule: claim_cases) auto
  with c show "registry_grows g (snd (claim_lifecycle j dep owner seconds now g))"
    using registry_grows_events [OF jobs_keep_records(1), where ext = "[]"] by (metis append_Nil2 snd_conv)
  obtain r g' where a: "advance_lifecycle s owner changes now observed g = (r, g')"
    by (cases "advance_lifecycle s owner changes now observed g")
  from a have "\<exists>ext. rg_events g' = rg_events g @ ext" by (cases rule: advance_cases) auto
  with a show "registry_grows g (snd (advance_lifecycle s owner changes now observed g))"
    using registry_grows_events [OF jobs_keep_records(2)] by (metis snd_conv)
  show "registry_grows g (snd (release_job j owner seen g))"
    by (rule registry_grows_events [OF jobs_keep_records(3), where ext = "[]"]) (simp add: release_job_def split: option.splits)
qed

lemma registry_grows_step: "registry_grows g (registry_step k op g)"
proof (cases op)
  case (G_release j owner)
  then show ?thesis
    by (cases "lookup (rg_jobs g) j") (auto simp: seq_def read_lifecycle_def lifecycle_job_def registry_grows_jobs)
qed (auto simp: registry_grows_jobs intro: registry_grows_files)

lemma registry_grows_run: "registry_grows g (registry_run k ops g)"
proof (induction ops arbitrary: g)
  case (Cons op ops)
  from registry_grows_trans [OF registry_grows_step Cons.IH] show ?case by (simp add: registry_run_def)
qed (simp add: registry_run_def)

text \<open>\<open>kept f\<close>: the transaction keeps the invariant and only adds.\<close>

definition kept :: "(registry, 'a) action \<Rightarrow> bool" where
  "kept f \<longleftrightarrow> (\<forall>g. registry_ok g \<longrightarrow> registry_ok (snd (f g)) \<and> registry_grows g (snd (f g)))"

lemma kept_files: "(\<And>g. files_only g (snd (f g))) \<Longrightarrow> kept f"
  by (auto simp: kept_def intro: registry_ok_files registry_grows_files)

lemma kept_jobs [intro]:
  "kept (create_job k j s)" "kept (claim_lifecycle j dep owner seconds now)"
  "kept (advance_lifecycle st owner changes now observed)"
  by (auto simp: kept_def registry_ok_create registry_ok_claim registry_ok_advance registry_grows_jobs)

lemma kept_records [intro]:
  "kept (registered_run i)" "kept (registered_revision i)" "kept (registered_decision i)" "kept (gate_input i)"
  "kept (read_lifecycle i)" "kept (job_specification i)" "kept (decide_run k d i)"
  "kept (record_gate_outcome k j x)" "kept (put_run k b)" "kept (record_revision k r)"
  "kept (register_model k m t)" "kept (put_workload k i wl)"
  by (rule kept_files; simp)+

subsection \<open>Effects of composed actions\<close>

text \<open>A reflexive and transitive relation between the states before and after that the parts of an
  action keep is kept by the action.\<close>

locale effect =
  fixes R :: "'s \<Rightarrow> 's \<Rightarrow> bool"
  assumes refl: "R w w" and trans: "R u v \<Longrightarrow> R v w \<Longrightarrow> R u w"
begin

lemma seq_steps: "(\<And>w. R w (snd (f w))) \<Longrightarrow> (\<And>a w. R w (snd (h a w))) \<Longrightarrow> R w (snd (seq f h w))"
  by (rule seq_rel [where R = R]) (blast intro: trans)+

lemma recover_steps: "(\<And>w. R w (snd (f w))) \<Longrightarrow> (\<And>e w. R w (snd (h e w))) \<Longrightarrow> R w (snd (recover f h w))"
  by (rule recover_rel [where R = R]) (blast intro: trans)+

lemma cleanup: "(\<And>w. R w (snd (f w))) \<Longrightarrow> (\<And>w. R w (snd (c w))) \<Longrightarrow> R w (snd (finally_do f c w))"
  by (rule finally_do_rel [where R = R]) (blast intro: trans)+

lemma attempt_steps: "(\<And>w. R w (snd (f w))) \<Longrightarrow> R w (snd (attempt f w))"
  by (simp add: attempt_def split: prod.splits) (metis snd_conv)

lemma pure: "R w (snd (return a w))" "R w (snd (raise e w))" "R w (snd (fallible r w))"
  by (simp_all add: refl return_def raise_def fallible_def)

lemma on_sum: "(\<And>e. R w (snd (f e w))) \<Longrightarrow> (\<And>a. R w (snd (h a w))) \<Longrightarrow>
    R w (snd ((case r of Inl e \<Rightarrow> f e | Inr a \<Rightarrow> h a) w))"
  by (cases r) auto

lemma on_option: "R w (snd (f w)) \<Longrightarrow> (\<And>a. R w (snd (h a w))) \<Longrightarrow>
    R w (snd ((case x of None \<Rightarrow> f | Some a \<Rightarrow> h a) w))"
  by (cases x) auto

lemma on_if: "R w (snd (f w)) \<Longrightarrow> R w (snd (h w)) \<Longrightarrow> R w (snd ((if b then f else h) w))"
  by simp

end

subsection \<open>What a worker's action may change\<close>

text \<open>\<open>intended s g e\<close>: the logged apply call carries the request of the specification and was made
  while the job's persisted state was a deploying one, which is in its history.\<close>

definition intended :: "lifecycle_spec \<Rightarrow> registry \<Rightarrow> apply_request \<times> lifecycle_state option \<Rightarrow> bool" where
  "intended s g e \<longleftrightarrow> fst e = lifecycle_request s \<and> (\<exists>st. snd e = Some st \<and> lc_status st = LDeploying \<and>
     0 < lc_attempts st \<and> st \<in> set (lifecycle_history (ls_job s) g))"

lemma intended_grows: "intended s g e \<Longrightarrow> registry_grows g g' \<Longrightarrow> intended s g' e"
  unfolding intended_def registry_grows_def by (metis UnCI set_append)

definition launched :: "string \<Rightarrow> registry \<Rightarrow> nat" where
  "launched j g = launches (new_lifecycle j) (lifecycle_history j g)"

lemma launches_append: "launches s (h @ ext) = launches s h + launches (last (s # h)) ext"
  by (induction h arbitrary: s) auto

lemma launched_grows: "registry_grows g g' \<Longrightarrow> launched j g \<le> launched j g'"
  unfolding registry_grows_def launched_def by (metis launches_append le_add1)

definition progress :: "bool \<Rightarrow> lifecycle_spec \<Rightarrow> 'w cycle \<Rightarrow> 'w cycle \<Rightarrow> bool" where
  "progress idem s w w' \<longleftrightarrow> (registry_ok (cy_registry w) \<longrightarrow>
     registry_ok (cy_registry w') \<and> registry_grows (cy_registry w) (cy_registry w') \<and>
     (\<exists>new. cy_applied w' = cy_applied w @ new \<and> (\<forall>e \<in> set new. intended s (cy_registry w') e) \<and>
       (\<not> idem \<longrightarrow> length new + launched (ls_job s) (cy_registry w) \<le> launched (ls_job s) (cy_registry w'))))"

lemma progress_refl [simp, intro]: "progress idem s w w"
  by (simp add: progress_def)

lemma progress_trans:
  assumes "progress idem s a b" and "progress idem s b c"
  shows "progress idem s a c"
  unfolding progress_def
proof
  let ?j = "ls_job s"
  assume ok: "registry_ok (cy_registry a)"
  from assms(1) ok obtain n1 where b: "registry_ok (cy_registry b)" "registry_grows (cy_registry a) (cy_registry b)"
    "cy_applied b = cy_applied a @ n1" "\<forall>e \<in> set n1. intended s (cy_registry b) e"
    "\<not> idem \<longrightarrow> length n1 + launched ?j (cy_registry a) \<le> launched ?j (cy_registry b)"
    unfolding progress_def by blast
  from assms(2) b(1) obtain n2 where c: "registry_ok (cy_registry c)" "registry_grows (cy_registry b) (cy_registry c)"
    "cy_applied c = cy_applied b @ n2" "\<forall>e \<in> set n2. intended s (cy_registry c) e"
    "\<not> idem \<longrightarrow> length n2 + launched ?j (cy_registry b) \<le> launched ?j (cy_registry c)"
    unfolding progress_def by blast
  have "\<forall>e \<in> set (n1 @ n2). intended s (cy_registry c) e"
    using b(4) c(4) intended_grows [OF _ c(2)] by auto
  moreover have "\<not> idem \<longrightarrow> length (n1 @ n2) + launched ?j (cy_registry a) \<le> launched ?j (cy_registry c)"
    using b(5) c(5) by auto
  ultimately show "registry_ok (cy_registry c) \<and> registry_grows (cy_registry a) (cy_registry c) \<and>
     (\<exists>new. cy_applied c = cy_applied a @ new \<and> (\<forall>e \<in> set new. intended s (cy_registry c) e) \<and>
       (\<not> idem \<longrightarrow> length new + launched ?j (cy_registry a) \<le> launched ?j (cy_registry c)))"
    using c(1,3) b(3) registry_grows_trans [OF b(2) c(2)] by (metis append_assoc)
qed

interpretation pacing: effect "progress idem s" for idem s
  by unfold_locales (simp, rule progress_trans)

lemma progress_registry:
  assumes "cy_applied w' = cy_applied w"
    and "registry_ok (cy_registry w) \<Longrightarrow> registry_ok (cy_registry w') \<and> registry_grows (cy_registry w) (cy_registry w')"
  shows "progress idem s w w'"
  using assms launched_grows by (auto simp: progress_def)

definition in_step :: "bool \<Rightarrow> lifecycle_spec \<Rightarrow> ('w cycle, 'a) action \<Rightarrow> bool" where
  "in_step idem s f \<longleftrightarrow> (\<forall>w. progress idem s w (snd (f w)))"

lemma in_stepI: "(\<And>w. progress idem s w (snd (f w))) \<Longrightarrow> in_step idem s f"
  by (simp add: in_step_def)

lemma in_stepD: "in_step idem s f \<Longrightarrow> progress idem s w (snd (f w))"
  by (simp add: in_step_def)

named_theorems pace

lemma in_step_seq [pace]: "in_step idem s f \<Longrightarrow> (\<And>a. in_step idem s (h a)) \<Longrightarrow> in_step idem s (seq f h)"
  by (simp add: in_step_def pacing.seq_steps)

lemma in_step_recover [pace]: "in_step idem s f \<Longrightarrow> (\<And>e. in_step idem s (h e)) \<Longrightarrow> in_step idem s (recover f h)"
  by (simp add: in_step_def pacing.recover_steps)

lemma in_step_finally [pace]: "in_step idem s f \<Longrightarrow> in_step idem s c \<Longrightarrow> in_step idem s (finally_do f c)"
  by (simp add: in_step_def pacing.cleanup)

lemma in_step_after: "progress idem s w w' \<Longrightarrow> in_step idem s f \<Longrightarrow> progress idem s w (snd (f w'))"
  by (rule progress_trans [OF _ in_stepD])

lemma in_step_sum [pace]:
  "(\<And>e. in_step idem s (f e)) \<Longrightarrow> (\<And>a. in_step idem s (h a)) \<Longrightarrow> in_step idem s (case r of Inl e \<Rightarrow> f e | Inr a \<Rightarrow> h a)"
  by (cases r) auto

lemma in_step_option [pace]:
  "in_step idem s f \<Longrightarrow> (\<And>a. in_step idem s (h a)) \<Longrightarrow> in_step idem s (case x of None \<Rightarrow> f | Some a \<Rightarrow> h a)"
  by (cases x) auto

lemma in_step_attempt [pace]: "in_step idem s f \<Longrightarrow> in_step idem s (attempt f)"
  unfolding in_step_def attempt_def by (metis (no_types, lifting) prod.case_eq_if snd_conv)

lemma in_step_pure [pace]:
  "in_step idem s (return a)" "in_step idem s (raise e)" "in_step idem s (fallible r)" "in_step idem s (on_store h)"
  by (simp_all add: in_step_def return_def raise_def fallible_def on_store_def)

lemma in_step_if [pace]:
  "(b \<Longrightarrow> in_step idem s f) \<Longrightarrow> (\<not> b \<Longrightarrow> in_step idem s h) \<Longrightarrow> in_step idem s (if b then f else h)"
  by simp

lemma meanwhile_keeps:
  "registry_ok (cy_registry w) \<Longrightarrow> registry_ok (meanwhile env w) \<and> registry_grows (cy_registry w) (meanwhile env w)"
  by (simp add: meanwhile_def registry_ok_run registry_grows_run)

lemma in_step_reg [pace]: "kept f \<Longrightarrow> in_step idem s (reg env f)"
proof (rule in_stepI, rule progress_registry)
  fix w :: "'w cycle"
  assume f: "kept f" and ok: "registry_ok (cy_registry w)"
  have "cy_registry (snd (reg env f w)) = snd (f (meanwhile env w))"
    by (simp add: reg_def split: prod.splits)
  with f meanwhile_keeps [OF ok, of env] show "registry_ok (cy_registry (snd (reg env f w))) \<and>
      registry_grows (cy_registry w) (cy_registry (snd (reg env f w)))"
    unfolding kept_def using registry_grows_trans by metis
qed (simp add: reg_def split: prod.splits)

lemma in_step_advance [pace]: "in_step idem s (do_advance env st owner changes)"
  by (rule in_stepI) (simp add: do_advance_def in_stepD [OF in_step_reg] kept_jobs)

lemma in_step_claim [pace]: "in_step idem s (\<lambda>w. reg env (claim_lifecycle j dep owner seconds (clock_at env w i)) w)"
  by (rule in_stepI) (simp add: in_stepD [OF in_step_reg] kept_jobs)

lemma in_step_probe [pace]: "in_step idem s (probe env ad sp)"
  by (rule in_stepI, rule progress_registry) (auto simp: probe_def split: prod.splits)

lemma in_step_request [pace]: "in_step idem s (frozen_request env j sp)"
  unfolding frozen_request_def by (intro pace kept_records)

lemma in_step_failure [pace]: "in_step idem s (gate_failure k j sp i e)"
  unfolding gate_failure_def by (intro pace)

lemma in_step_measured [pace]: "in_step idem s (gate_measured env j sp q digest)"
  unfolding gate_measured_def Let_def by (intro pace kept_records)

lemma in_step_gate [pace]: "in_step idem s (evaluate_gate env j)"
  unfolding evaluate_gate_def Let_def by (intro pace kept_records)

lemma in_step_decision [pace]: "in_step idem s (lifecycle_decision env sp)"
  unfolding lifecycle_decision_def legacy_decision_def Let_def
  by (intro pace in_step_gate kept_records)

subsection \<open>Acting on the deployment\<close>

lemma in_step_seq_post:
  fixes f :: "('w cycle, 'a) action"
  assumes "in_step idem s f"
    and "\<And>w a w'. registry_ok (cy_registry w) \<Longrightarrow> f w = (Inr a, w') \<Longrightarrow> in_step idem s (h a)"
  shows "in_step idem s (seq f h)"
proof (rule in_stepI)
  fix w :: "'w cycle"
  show "progress idem s w (snd (seq f h w))"
  proof (cases "registry_ok (cy_registry w)")
    case True
    show ?thesis
      by (rule seq_rel [where R = "progress idem s"], rule in_stepD [OF assms(1)])
        (use assms(2) [OF True] in_step_after in blast)
  qed (simp add: progress_def)
qed

lemma reg_Inr: "reg env f w = (Inr a, w') \<longleftrightarrow> (\<exists>g. f (meanwhile env w) = (Inr a, g) \<and>
     w' = w\<lparr>cy_registry := g, cy_tick := Suc (cy_tick w)\<rparr>)"
  by (auto simp: reg_def split: prod.splits)

lemma do_advance_Inr:
  assumes "do_advance env st owner changes w = (Inr st', w')"
  obtains row where "lookup (rg_jobs (meanwhile env w)) (lc_job st) = Some row" "lr_state row = st"
    "st' = (changes st)\<lparr>lc_version := lc_version st + 1\<rparr>" "validate_stage st st' = Inr ()"
    "cy_registry w' = (meanwhile env w)\<lparr>rg_jobs := upsert (lc_job st) (row\<lparr>lr_state := st', lr_version := lc_version st'\<rparr>)
        (rg_jobs (meanwhile env w)), rg_events := rg_events (meanwhile env w) @ [(lc_job st, clock_at env w 1, st')]\<rparr>"
    "cy_applied w' = cy_applied w" "lr_owner row = Some owner"
proof -
  from assms obtain g where a: "advance_lifecycle st owner changes (clock_at env w 0) (clock_at env w 1) (meanwhile env w) = (Inr st', g)"
    and w': "w' = w\<lparr>cy_registry := g, cy_tick := Suc (cy_tick w)\<rparr>"
    unfolding do_advance_def reg_Inr by blast
  from a show ?thesis by (cases rule: advance_cases) (use that w' in auto)
qed

lemma do_advance_job: "do_advance env st owner changes w = (Inr st', w') \<Longrightarrow> lc_job st' = lc_job st"
  by (erule do_advance_Inr) (auto simp: validate_stage_def res_iff)

abbreviation deploying :: "nat \<Rightarrow> lifecycle_state \<Rightarrow> lifecycle_state" where
  "deploying n x \<equiv> x\<lparr>lc_status := LDeploying, lc_attempts := n + 1\<rparr>"

text \<open>Recording the intent: the deploying state is durable and, from an evaluated job, it is the one
  launch of the job.\<close>

lemma intent_recorded_first:
  assumes ok: "registry_ok (cy_registry w)"
    and a: "do_advance env st owner (deploying n) w = (Inr st1, w1)"
  shows "map_option lr_state (lookup (rg_jobs (cy_registry w1)) (lc_job st)) = Some st1"
    and "lc_status st1 = LDeploying" "0 < lc_attempts st1"
    and "st1 \<in> set (lifecycle_history (lc_job st) (cy_registry w1))"
    and "lc_status st \<notin> {LDeploying, LNeeds_reconciliation} \<Longrightarrow>
      launched (lc_job st) (cy_registry w) + 1 \<le> launched (lc_job st) (cy_registry w1)"
proof -
  let ?j = "lc_job st"
  from a obtain row where row: "lookup (rg_jobs (meanwhile env w)) ?j = Some row" "lr_state row = st"
    "st1 = (deploying n st)\<lparr>lc_version := lc_version st + 1\<rparr>" "validate_stage st st1 = Inr ()"
    and w1: "rg_jobs (cy_registry w1) = upsert ?j (row\<lparr>lr_state := st1, lr_version := lc_version st1\<rparr>) (rg_jobs (meanwhile env w))"
      "rg_events (cy_registry w1) = rg_events (meanwhile env w) @ [(?j, clock_at env w 1, st1)]"
    by (auto elim: do_advance_Inr)
  show "map_option lr_state (lookup (rg_jobs (cy_registry w1)) ?j) = Some st1"
    by (simp add: w1(1) lookup_upsert)
  show "lc_status st1 = LDeploying" "0 < lc_attempts st1" using row(3) by simp_all
  have hist: "lifecycle_history ?j (cy_registry w1) = lifecycle_history ?j (meanwhile env w) @ [st1]"
    by (simp add: lifecycle_history_def w1(2))
  then show "st1 \<in> set (lifecycle_history ?j (cy_registry w1))" by simp
  have "registry_ok (meanwhile env w)" "registry_grows (cy_registry w) (meanwhile env w)"
    using meanwhile_keeps [OF ok] by auto
  then have "row_ok (meanwhile env w) ?j row" "launched ?j (cy_registry w) \<le> launched ?j (meanwhile env w)"
    using row(1) launched_grows by (auto simp: registry_ok_def)
  moreover assume "lc_status st \<notin> {LDeploying, LNeeds_reconciliation}"
  then have "lc_status st = LEvaluated" using row(3,4)
    by (cases "lc_status st") (auto simp: validate_stage_def res_iff)
  ultimately show "launched ?j (cy_registry w) + 1 \<le> launched ?j (cy_registry w1)"
    using row(2,3) by (simp add: launched_def hist launches_append row_ok_def)
qed

lemma ask_apply_simps:
  "cy_registry (snd (ask_apply ad j q w)) = cy_registry w"
  "cy_applied (snd (ask_apply ad j q w)) = cy_applied w @ [(q, map_option lr_state (lookup (rg_jobs (cy_registry w)) j))]"
  by (simp_all add: ask_apply_def split: prod.splits)

lemma in_step_apply:
  assumes job: "lc_job st = ls_job s"
    and once: "supports_idempotency ad \<or> lc_status st \<notin> {LDeploying, LNeeds_reconciliation}"
    and rest: "\<And>st1 u. in_step (supports_idempotency ad) s (h st1 u)"
  shows "in_step (supports_idempotency ad) s (seq (do_advance env st owner (deploying n))
    (\<lambda>st1. seq (ask_apply ad (ls_job s) (lifecycle_request s)) (h st1)))" (is "in_step ?b s ?f")
proof (rule in_stepI)
  fix w
  show "progress ?b s w (snd (?f w))"
  proof (cases "registry_ok (cy_registry w)")
    case ok: True
    obtain r w1 where a: "do_advance env st owner (deploying n) w = (r, w1)" by fastforce
    then have p1: "progress ?b s w w1" using in_stepD [OF in_step_advance] by (metis snd_conv)
    show ?thesis
    proof (cases r)
      case (Inl e)
      with a p1 show ?thesis by (simp add: seq_Inl)
    next
      case (Inr st1)
      obtain r2 w2 where c: "ask_apply ad (ls_job s) (lifecycle_request s) w1 = (r2, w2)" by fastforce
      note i = intent_recorded_first [OF ok a [unfolded Inr], unfolded job]
      from a have same: "cy_applied w1 = cy_applied w"
        by (auto simp: do_advance_def reg_def split: prod.splits)
      have w2: "cy_registry w2 = cy_registry w1" "cy_applied w2 = cy_applied w @ [(lifecycle_request s, Some st1)]"
        using ask_apply_simps [of ad "ls_job s" "lifecycle_request s" w1] c i(1) same by simp_all
      have ent: "intended s (cy_registry w1) (lifecycle_request s, Some st1)" using i by (simp add: intended_def)
      have p2: "progress ?b s w w2"
        unfolding progress_def
      proof (intro impI conjI)
        show "registry_ok (cy_registry w2)" "registry_grows (cy_registry w) (cy_registry w2)"
          using p1 ok w2(1) by (simp_all add: progress_def)
        show "\<exists>new. cy_applied w2 = cy_applied w @ new \<and> (\<forall>e \<in> set new. intended s (cy_registry w2) e) \<and>
          (\<not> ?b \<longrightarrow> length new + launched (ls_job s) (cy_registry w) \<le> launched (ls_job s) (cy_registry w2))"
          by (rule exI [of _ "[(lifecycle_request s, Some st1)]"]) (use w2 ent i(5) once in auto)
      qed
      show ?thesis
      proof (cases r2)
        case (Inl e)
        with a c Inr p2 show ?thesis by (simp add: txn)
      next
        case Inr2: (Inr u)
        with a c Inr show ?thesis using in_step_after [OF p2 rest] by (simp add: txn)
      qed
    qed
  qed (simp add: progress_def)
qed

lemma in_step_apply_and_probe:
  assumes "lc_job st = ls_job s" and "supports_idempotency ad \<or> lc_status st \<notin> {LDeploying, LNeeds_reconciliation}"
  shows "in_step (supports_idempotency ad) s (apply_and_probe env ad s st owner)"
  unfolding apply_and_probe_def by (intro in_step_apply assms pace)

lemma in_step_deploy:
  assumes "lc_job st = ls_job s"
  shows "in_step (supports_idempotency ad) s (deploy env ad s st owner)"
proof (cases "lc_status st \<in> {LDeploying, LVerifying, LNeeds_reconciliation}")
  case True
  show ?thesis
  proof (cases "lc_status st = LVerifying \<or> \<not> supports_idempotency ad")
    case t: True
    then show ?thesis using True by (auto simp: deploy_def intro!: pace)
  next
    case False
    with True in_step_apply_and_probe [of st s ad env owner] assms show ?thesis
      by (simp add: deploy_def) (intro pace; simp)
  qed
next
  case False
  with in_step_apply_and_probe [of st s ad env owner] assms show ?thesis by (simp add: deploy_def)
qed

subsection \<open>A whole call\<close>

lemma in_step_body:
  assumes "lc_job st = ls_job s" and "\<And>a. ad = Some a \<Longrightarrow> supports_idempotency a = b"
  shows "in_step b s (lifecycle_body env ad s evaluate_only owner st)"
proof -
  have "in_step b s (if evaluate_only then return st1 else case ad of
         None \<Rightarrow> raise (ValueError ''deployment adapter is required for activation'')
       | Some a \<Rightarrow> deploy env a s st1 owner)" if "lc_job st1 = ls_job s" for st1
    using in_step_deploy [OF that] assms(2) by (cases ad) (auto intro!: pace)
  then have tail: "in_step b s (seq (if lc_status st = LRegistered
            then do_advance env st owner (\<lambda>x. x\<lparr>lc_status := LEvaluated, lc_decision := Some did, lc_error := None\<rparr>)
            else if lc_error st \<noteq> None then do_advance env st owner (\<lambda>x. x\<lparr>lc_error := None\<rparr>)
            else return st) (\<lambda>st1.
       if evaluate_only then return st1
       else case ad of
         None \<Rightarrow> raise (ValueError ''deployment adapter is required for activation'')
       | Some a \<Rightarrow> deploy env a s st1 owner))" for did
    by (intro in_step_seq_post in_step_if in_step_advance in_step_pure)
      (use assms(1) do_advance_job in \<open>fastforce simp: return_def split: if_splits\<close>)
  show ?thesis unfolding lifecycle_body_def
    by (rule in_step_seq [OF in_step_decision], rule in_step_seq [OF in_step_reg], rule kept_records(3),
        intro in_step_if in_step_pure in_step_advance tail)
qed

lemma in_step_handler: "in_step b s (lifecycle_failure env sp owner e)"
  unfolding lifecycle_failure_def by (intro pace kept_records)

definition alone :: "lifecycle_env \<Rightarrow> string \<Rightarrow> bool" where
  "alone env owner \<longleftrightarrow> (\<forall>n. list_all (foreign owner) (le_others env n))"

lemma release_owned_ok:
  assumes "registry_ok (cy_registry w)" and "alone env owner"
  shows "registry_ok (cy_registry (snd (release_owned env j owner w)))"
proof -
  let ?g = "meanwhile env w"
  let ?w1 = "w\<lparr>cy_registry := ?g, cy_tick := Suc (cy_tick w)\<rparr>"
  have ok: "registry_ok ?g" "registry_ok (meanwhile env ?w1)"
    using meanwhile_keeps assms(1) by (simp_all add: meanwhile_def registry_ok_run)
  have read: "reg env (read_lifecycle j) w = (lifecycle_job j ?g, ?w1)"
    by (simp add: reg_def read_lifecycle_def)
  show ?thesis
  proof (cases "lifecycle_job j ?g")
    case (Inl e)
    with ok read show ?thesis by (simp add: release_owned_def seq_Inl)
  next
    case (Inr seen)
    then have eq: "cy_registry (snd (release_owned env j owner w)) = snd (release_job j owner seen (meanwhile env ?w1))"
      using read by (simp add: release_owned_def seq_Inr reg_def split: prod.splits)
    show ?thesis
    proof (cases "lookup (rg_jobs (meanwhile env ?w1)) j")
      case None
      with eq ok show ?thesis by (simp add: release_job_def)
    next
      case (Some row)
      have "meanwhile env ?w1 = registry_run (le_codec env) (le_others env (Suc (cy_tick w))) ?g"
        by (simp add: meanwhile_def)
      then have "owned_rows owner ?g (meanwhile env ?w1)"
        using assms(2) by (simp add: alone_def owned_rows_run)
      with Some have "lr_owner row = Some owner \<longrightarrow> lr_state row = seen"
        using Inr by (auto simp: owned_rows_def lifecycle_job_def)
      from release_seen [OF Some this ok(2)] show ?thesis by (simp add: eq)
    qed
  qed
qed

lemma release_owned_grows:
  "registry_grows (cy_registry w) (cy_registry (snd (release_owned env j owner w)))"
  "cy_applied (snd (release_owned env j owner w)) = cy_applied w"
proof -
  have step: "registry_grows (cy_registry v) (cy_registry (snd (reg env f v)))" if "\<And>g. registry_grows g (snd (f g))"
    for v :: "'a cycle" and f :: "(registry, 'b) action"
    using registry_grows_trans [OF registry_grows_run that, of "cy_registry v" "le_codec env" "le_others env (cy_tick v)"]
    by (cases "f (meanwhile env v)") (simp add: reg_def meanwhile_def)
  have read: "registry_grows (cy_registry v) (cy_registry (snd (reg env (read_lifecycle j) v)))" for v :: "'a cycle"
    by (rule step) simp
  have unlock: "registry_grows (cy_registry v) (cy_registry (snd (reg env (release_job j owner seen) v)))" for v :: "'a cycle" and seen
    by (rule step) (rule registry_grows_jobs)
  show "registry_grows (cy_registry w) (cy_registry (snd (release_owned env j owner w)))"
    unfolding release_owned_def
    by (rule seq_rel [where R = "\<lambda>u v. registry_grows (cy_registry u) (cy_registry v)"])
      (use read unlock registry_grows_trans in blast)+
  show "cy_applied (snd (release_owned env j owner w)) = cy_applied w"
    unfolding release_owned_def
    by (rule seq_rel [where R = "\<lambda>u v. cy_applied v = cy_applied u"]) (auto simp: reg_def split: prod.splits)
qed

lemma in_step_release: "alone env owner \<Longrightarrow> in_step b s (release_owned env j owner)"
  by (rule in_stepI, rule progress_registry) (simp_all add: release_owned_grows release_owned_ok)

lemma create_job_state:
  "registry_ok g \<Longrightarrow> create_job k j s g = (Inr st, g') \<Longrightarrow> lc_job st = j"
  using row_job by (auto simp: create_job_def Let_def read_lifecycle_def lifecycle_job_def new_lifecycle_def
      split: option.splits if_splits)

lemma in_step_run:
  assumes "alone env owner" and "\<And>a. ad = Some a \<Longrightarrow> supports_idempotency a = b"
  shows "in_step b s (lifecycle_run env ad s evaluate_only owner)"
  unfolding lifecycle_run_def
proof (rule in_step_seq_post)
  fix w :: "'a cycle" and st w'
  assume ok: "registry_ok (cy_registry w)" and "reg env (create_job (le_codec env) (ls_job s) s) w = (Inr st, w')"
  then have job: "lc_job st = ls_job s"
    unfolding reg_Inr using create_job_state [of "meanwhile env w"] meanwhile_keeps [OF ok] by blast
  have "in_step b s (seq (\<lambda>w. reg env (claim_lifecycle (lc_job st) (ls_deployment s) owner (lifecycle_seconds env)
      (clock_at env w 0)) w) (\<lambda>st.
       finally_do (recover (lifecycle_body env ad s evaluate_only owner st) (lifecycle_failure env s owner))
         (release_owned env (lc_job st) owner)))"
  proof (rule in_step_seq_post [OF in_step_claim])
    fix w :: "'a cycle" and st1 w'
    assume ok: "registry_ok (cy_registry w)"
      and c: "reg env (claim_lifecycle (lc_job st) (ls_deployment s) owner (lifecycle_seconds env) (clock_at env w 0)) w = (Inr st1, w')"
    then obtain g where "claim_lifecycle (lc_job st) (ls_deployment s) owner (lifecycle_seconds env) (clock_at env w 0)
      (meanwhile env w) = (Inr st1, g)" by (auto simp: reg_Inr)
    then have "lc_job st1 = ls_job s"
      using row_job meanwhile_keeps [OF ok] job by (cases rule: claim_cases) auto
    then show "in_step b s (finally_do (recover (lifecycle_body env ad s evaluate_only owner st1)
        (lifecycle_failure env s owner)) (release_owned env (lc_job st1) owner))"
      by (intro in_step_finally in_step_recover in_step_body in_step_handler in_step_release assms)
  qed
  then show "in_step b s (if lc_status st \<in> {LPromoted, LRejected} then return st
     else seq (\<lambda>w. reg env (claim_lifecycle (lc_job st) (ls_deployment s) owner (lifecycle_seconds env) (clock_at env w 0)) w) (\<lambda>st.
       finally_do (recover (lifecycle_body env ad s evaluate_only owner st) (lifecycle_failure env s owner))
         (release_owned env (lc_job st) owner)))"
    by (intro in_step_if in_step_pure)
qed (intro in_step_reg kept_jobs)

lemma runs_progress:
  assumes "\<And>a. ad = Some a \<Longrightarrow> supports_idempotency a = b" and "\<forall>(e, owner) \<in> set calls. alone env owner"
  shows "progress b s w (lifecycle_runs env ad s calls w)"
  using assms(2)
proof (induction calls arbitrary: w)
  case (Cons c calls)
  obtain e owner where c: "c = (e, owner)" by (cases c)
  with Cons.prems have "progress b s w (snd (lifecycle_run env ad s e owner w))"
    by (intro in_stepD in_step_run assms(1)) auto
  with Cons c show ?case using progress_trans by fastforce
qed simp

subsection \<open>Guarantees\<close>

text \<open>C33: Over any number of calls of the lifecycle service for one job, by any workers and with any
  transactions of other processes between any two of theirs, every apply call carries the
  specification's request and was made under a durable deploying state with a counted attempt
  that is in the job's history; an adapter without idempotent replay is called at most once, and
  never again once the history has a move from evaluated to deploying.\<close>

theorem lifecycle_applies_once:
  assumes "cy_registry w = registry_run k ops empty_registry"
    and "\<forall>(e, owner) \<in> set calls. alone env owner"
  shows "\<exists>new. cy_applied (lifecycle_runs env (Some ad) s calls w) = cy_applied w @ new \<and>
     (\<forall>e \<in> set new. intended s (cy_registry (lifecycle_runs env (Some ad) s calls w)) e) \<and>
     (\<not> supports_idempotency ad \<longrightarrow> length new + launched (ls_job s) (cy_registry w) \<le> 1)"
proof -
  let ?w = "lifecycle_runs env (Some ad) s calls w" and ?j = "ls_job s"
  have ok: "registry_ok (cy_registry w)" by (simp add: assms(1) reachable_ok)
  have "progress (supports_idempotency ad) s w ?w"
    by (rule runs_progress) (use assms(2) in auto)
  with ok obtain new where new: "registry_ok (cy_registry ?w)" "cy_applied ?w = cy_applied w @ new"
    "\<forall>e \<in> set new. intended s (cy_registry ?w) e"
    "\<not> supports_idempotency ad \<longrightarrow> length new + launched ?j (cy_registry w) \<le> launched ?j (cy_registry ?w)"
    unfolding progress_def by blast
  have "launched ?j (cy_registry ?w) \<le> 1"
  proof (cases "lookup (rg_jobs (cy_registry ?w)) ?j")
    case None
    with new(1) show ?thesis by (simp add: launched_def registry_ok_def)
  next
    case (Some row)
    with new(1) show ?thesis unfolding launched_def by (intro launches_once) (simp add: registry_ok_def row_ok_def)
  qed
  with new show ?thesis by (meson le_trans)
qed

end
