(* ===== verification/LifecyclePromotion.thy ===== *)
theory LifecyclePromotion
  imports LifecycleGuarantees
begin

text \<open>
  A promotion is earned: it rests on an approval measured from the registered artifacts for the
  job's own specification and on health the adapter observed on the target.
\<close>

subsection \<open>Stored documents are what their digests name\<close>

definition sound :: "'z registry_codec_scheme \<Rightarrow> registry \<Rightarrow> bool" where
  "sound k g \<longleftrightarrow>
     (\<forall>j row. lookup (rg_jobs g) j = Some row \<longrightarrow> lr_digest row = sha256 k (spec_canonical k (lr_spec row))) \<and>
     (\<forall>i dg d r. lookup (rg_decisions g) i = Some (dg, d, r) \<longrightarrow> dg = sha256 k (rk_decision_json k d))"

definition specs_kept :: "registry \<Rightarrow> registry \<Rightarrow> bool" where
  "specs_kept g g' \<longleftrightarrow> (\<forall>j row. lookup (rg_jobs g) j = Some row \<longrightarrow>
     (\<exists>row'. lookup (rg_jobs g') j = Some row' \<and> lr_digest row' = lr_digest row \<and> lr_spec row' = lr_spec row))"

definition faithful :: "'z registry_codec_scheme \<Rightarrow> registry \<Rightarrow> registry \<Rightarrow> bool" where
  "faithful k g g' \<longleftrightarrow> registry_grows g g' \<and> specs_kept g g' \<and> (sound k g \<longrightarrow> sound k g')"

lemma faithful_refl [simp, intro]: "faithful k g g"
  by (auto simp: faithful_def specs_kept_def)

lemma specs_kept_trans: "specs_kept a b \<Longrightarrow> specs_kept b c \<Longrightarrow> specs_kept a c"
  unfolding specs_kept_def by metis

lemma faithful_trans: "faithful k a b \<Longrightarrow> faithful k b c \<Longrightarrow> faithful k a c"
  unfolding faithful_def using registry_grows_trans specs_kept_trans by blast

interpretation stored: effect "faithful k" for k
  by unfold_locales (simp, rule faithful_trans)

lemma faithful_files:
  "files_only g g' \<Longrightarrow> rg_decisions g' = rg_decisions g \<Longrightarrow> faithful k g g'"
  by (auto simp: faithful_def registry_grows_files specs_kept_def sound_def files_only_def)

lemma decisions_untouched:
  "rg_decisions (snd (register_model k m t g)) = rg_decisions g" "rg_decisions (snd (put_revision k r i g)) = rg_decisions g"
  "rg_decisions (snd (put_workload k i w g)) = rg_decisions g" "rg_decisions (snd (put_run k b g)) = rg_decisions g"
  "rg_decisions (snd (freeze_gate_input k i q g)) = rg_decisions g"
  "rg_decisions (snd (record_gate_outcome k i x g)) = rg_decisions g"
  by (simp_all add: register_model_def put_revision_def put_workload_def put_run_def freeze_gate_input_def
      record_gate_outcome_def Let_def split: sum.splits)

lemma faithful_simple:
  "faithful k g (snd (register_model k' m t g))" "faithful k g (snd (put_revision k' r m g))"
  "faithful k g (snd (put_workload k' i w g))" "faithful k g (snd (put_run k' b g))"
  "faithful k g (snd (freeze_gate_input k' j q g))" "faithful k g (snd (record_gate_outcome k' j x g))"
  "faithful k g (snd (registered_run i g))" "faithful k g (snd (registered_revision i g))"
  "faithful k g (snd (registered_decision i g))" "faithful k g (snd (gate_input i g))"
  "faithful k g (snd (read_lifecycle i g))" "faithful k g (snd (job_specification i g))"
  "faithful k g (snd (verify_decision_run k' d i g))"
  by (rule faithful_files; simp add: decisions_untouched)+

lemma put_decision_lookup:
  assumes "put_decision k d run g = (Inr u, g')"
  obtains v where "lookup (rg_decisions g') (bound_identity k run d) = Some (sha256 k (rk_decision_json k d), v)"
  using assms immutable_put_lookup(2) by (fastforce simp: put_decision_def split: sum.splits)

lemma faithful_put_decision: "faithful k g (snd (put_decision k d run g))"
proof -
  have "sound k g \<longrightarrow> sound k (snd (put_decision k d run g))"
  proof (cases "put_decision k d run g")
    case (Pair r g')
    show ?thesis
    proof (cases r)
      case (Inl e)
      with Pair have "g' = g" by (simp add: put_decision_def split: sum.splits)
      with Pair show ?thesis by simp
    next
      case (Inr u)
      with Pair obtain t where t: "g' = g\<lparr>rg_decisions := t\<rparr>"
        "immutable_put (bound_identity k run d) (sha256 k (rk_decision_json k d)) (d, run)
           (has (rg_revisions g) (candidate_revision d) \<and> has (rg_runs g) run) (rg_decisions g) = Inr t"
        unfolding put_decision_def by (auto split: sum.splits)
      from immutable_put_lookup(1) [OF t(2)] Pair t(1) show ?thesis
        by (auto simp: sound_def split: if_splits)
    qed
  qed
  moreover have "files_only g (snd (put_decision k d run g))" by simp
  ultimately show ?thesis by (auto simp: faithful_def registry_grows_files specs_kept_def files_only_def)
qed

lemma faithful_decision: "faithful k g (snd (decide_run k d run g))"
  unfolding decide_run_def
  by (intro stored.seq_steps stored.on_if stored.pure faithful_simple faithful_put_decision)

lemma faithful_revision: "faithful k g (snd (record_revision k' r g))"
  unfolding record_revision_def by (intro stored.seq_steps faithful_simple)

lemma faithful_row:
  assumes "lookup (rg_jobs g) j = Some row" and "rg_jobs g' = upsert j row' (rg_jobs g)"
    and "lr_digest row' = lr_digest row" "lr_spec row' = lr_spec row"
    and "rg_decisions g' = rg_decisions g" "registry_grows g g'"
  shows "faithful k g g'"
  using assms by (auto simp: faithful_def specs_kept_def sound_def lookup_upsert)

lemma faithful_claim: "faithful k g (snd (claim_lifecycle j dep owner seconds now g))"
proof -
  obtain r g' where c: "claim_lifecycle j dep owner seconds now g = (r, g')" by fastforce
  note e = registry_grows_jobs(2) [of g j dep owner seconds now]
  from c show ?thesis
  proof (cases rule: claim_cases)
    case (claimed row)
    from faithful_row [OF claimed(1), of g' _ k] claimed(5) e c show ?thesis by simp
  qed (simp add: c)
qed

lemma faithful_advance: "faithful k g (snd (advance_lifecycle s owner changes now observed g))"
proof -
  obtain r g' where a: "advance_lifecycle s owner changes now observed g = (r, g')" by fastforce
  note e = registry_grows_jobs(3) [of g s owner changes now observed]
  from a show ?thesis
  proof (cases rule: advance_cases)
    case (advanced row s')
    from faithful_row [OF advanced(1), of g' _ k] advanced(9) e a show ?thesis by simp
  qed (simp add: a)
qed

lemma faithful_release: "faithful k g (snd (release_job j owner seen g))"
proof (cases "lookup (rg_jobs g) j")
  case (Some row)
  from faithful_row [OF Some, of "snd (release_job j owner seen g)" "release_row owner (unlockable (lc_status seen)) row" k]
    registry_grows_jobs(4) [of g j owner seen] Some show ?thesis
    by (simp add: release_job_def release_row_def)
qed (simp add: release_job_def)

lemma faithful_create: "faithful k g (snd (create_job k j s g))"
proof (cases rule: create_job_cases [where k = k and j = j and s = s and g = g])
  case new
  then show ?thesis using registry_grows_jobs(1) [of g k j s]
    by (auto simp: faithful_def specs_kept_def sound_def lookup_append_new simp del: map_of_append split: if_splits)
qed simp

lemma faithful_step: "faithful k g (registry_step k op g)"
  by (cases op) (auto intro: faithful_simple faithful_decision faithful_revision faithful_create faithful_claim
      faithful_advance intro!: stored.seq_steps faithful_release)

lemma faithful_run: "faithful k g (registry_run k ops g)"
proof (induction ops arbitrary: g)
  case (Cons op ops)
  from faithful_trans [OF faithful_step Cons.IH] show ?case by (simp add: registry_run_def)
qed (simp add: registry_run_def)

lemma reachable_sound: "sound k (registry_run k ops empty_registry)"
  using faithful_run [of k empty_registry ops]
  by (simp add: faithful_def sound_def empty_registry_def)

subsection \<open>The worker's own steps\<close>

definition calm :: "lifecycle_env \<Rightarrow> 'w cycle \<Rightarrow> 'w cycle \<Rightarrow> bool" where
  "calm env w w' \<longleftrightarrow> cy_store w' = cy_store w \<and> faithful (le_codec env) (cy_registry w) (cy_registry w')"

lemma calm_trans: "calm env u v \<Longrightarrow> calm env v w \<Longrightarrow> calm env u w"
  unfolding calm_def using faithful_trans by metis

interpretation calm: effect "calm env" for env
  by unfold_locales (simp add: calm_def, rule calm_trans)

lemma calm_reg:
  assumes "\<And>g. faithful (le_codec env) g (snd (f g))"
  shows "calm env w (snd (reg env f w))"
  using faithful_trans [OF faithful_run assms, of "cy_registry w" "le_others env (cy_tick w)"]
  by (simp add: calm_def reg_def meanwhile_def split: prod.splits) (metis snd_conv)

lemma calm_advance: "calm env w (snd (do_advance env st owner changes w))"
  unfolding do_advance_def by (rule calm_reg [OF faithful_advance])

lemma calm_claim: "calm env w (snd (reg env (claim_lifecycle j dep owner seconds (clock_at env w i)) w))"
  by (rule calm_reg [OF faithful_claim])

lemma calm_outside: "calm env w (snd (probe env ad s w))" "calm env w (snd (ask_apply ad j q w))"
  "calm env w (snd (on_store h w))"
  by (simp_all add: calm_def probe_def ask_apply_def on_store_def split: prod.splits)

lemmas calm_steps = calm.seq_steps calm.on_if calm.on_sum calm.on_option calm.pure calm.attempt_steps calm_outside
  calm_advance calm_reg faithful_simple faithful_decision faithful_create faithful_release

lemma calm_measured: "calm env w (snd (gate_measured env j s q digest w))"
  unfolding gate_measured_def Let_def by (intro calm_steps)

lemma calm_failure: "calm env w (snd (gate_failure k j s i e w))"
  unfolding gate_failure_def by (intro calm_steps)

lemma calm_request: "calm env w (snd (frozen_request env j s w))"
  unfolding frozen_request_def by (intro calm_steps)

lemma calm_gate: "calm env w (snd (evaluate_gate env j w))"
  unfolding evaluate_gate_def Let_def by (intro calm_steps calm_measured calm_failure calm_request)

lemma calm_decision: "calm env w (snd (lifecycle_decision env s w))"
  unfolding lifecycle_decision_def legacy_decision_def Let_def by (intro calm_steps calm_gate)

lemma calm_apply_and_probe: "calm env w (snd (apply_and_probe env ad s st owner w))"
  unfolding apply_and_probe_def by (intro calm_steps)

lemma calm_body: "calm env w (snd (lifecycle_body env ad s evaluate_only owner st w))"
  unfolding lifecycle_body_def deploy_def by (intro calm_steps calm_decision calm_apply_and_probe)

lemma calm_handler: "calm env w (snd (lifecycle_failure env s owner e w))"
  unfolding lifecycle_failure_def by (intro calm_steps)

lemma calm_release: "calm env w (snd (release_owned env j owner w))"
  unfolding release_owned_def by (intro calm_steps)

subsection \<open>What a decision rests on\<close>

lemma seq_Inr_iff: "seq f h w = (Inr a, w'') \<longleftrightarrow> (\<exists>b w'. f w = (Inr b, w') \<and> h b w' = (Inr a, w''))"
  by (auto simp: seq_def split: prod.splits sum.splits)

lemma pure_Inr [simp]:
  "return b w = (Inr a, w') \<longleftrightarrow> a = b \<and> w' = w" "raise e w = (Inr a, w') \<longleftrightarrow> False"
  "fallible r w = (Inr a, w') \<longleftrightarrow> r = Inr a \<and> w' = w"
  by (auto simp: return_def raise_def fallible_def)

lemma attempt_Inr [simp]: "attempt f w = (Inr q, w') \<longleftrightarrow> f w = (q, w')"
  by (simp add: attempt_def split: prod.splits)

lemma on_store_Inr [simp]: "on_store h w = (Inr a, w') \<longleftrightarrow> h (cy_store w) = Inr a \<and> w' = w"
  by (auto simp: on_store_def)

definition recorded_judgement :: "release_codec \<Rightarrow> artifact_store \<Rightarrow> lifecycle_spec \<Rightarrow> string \<Rightarrow> registry \<Rightarrow> bool" where
  "recorded_judgement k st s did g \<longleftrightarrow> (\<exists>b c d v. judged k st s b c = Inr d \<and>
     lookup (rg_decisions g) did = Some (sha256 k (rk_decision_json k d), v))"

lemma decide_run_lookup:
  assumes "decide_run k d run g = (Inr did, g')"
  obtains v where "lookup (rg_decisions g') did = Some (sha256 k (rk_decision_json k d), v)"
  using assms unfolding decide_run_def
  by (auto simp: seq_Inr_iff registered_run_def verify_decision_run_def split: if_splits option.splits elim!: put_decision_lookup)

lemma recorded_judgementI:
  assumes "reg env (decide_run (le_codec env) d run) w = (Inr did, w')" and "judged (le_codec env) (cy_store w) s b c = Inr d"
  shows "recorded_judgement (le_codec env) (cy_store w) s did (cy_registry w')"
proof -
  from assms(1) obtain g where "decide_run (le_codec env) d run (meanwhile env w) = (Inr did, g)" "cy_registry w' = g"
    by (auto simp: reg_Inr)
  then show ?thesis using assms(2) unfolding recorded_judgement_def by (metis decide_run_lookup)
qed

lemma recorded_judgement_grows:
  "recorded_judgement k st s did g \<Longrightarrow> registry_grows g g' \<Longrightarrow> recorded_judgement k st s did g'"
  unfolding recorded_judgement_def registry_grows_def keeps_records_def grows_def by meson

lemma calm_reg_Inr: "reg env f w = (Inr a, w') \<Longrightarrow> cy_store w' = cy_store w"
  by (auto simp: reg_Inr)

lemma measured_Inr:
  assumes "gate_measured env j s q digest w = (Inr x, w')"
  shows "\<exists>did. go_decision x = Some did \<and> recorded_judgement (le_codec env) (cy_store w) s did (cy_registry w')"
proof -
  let ?k = "le_codec env"
  from assms obtain b w1 c w2 rv w3 known w4 d did where steps:
    "reg env (registered_run (ls_baseline s)) w = (Inr b, w1)" "reg env (registered_run (ls_candidate s)) w1 = (Inr c, w2)"
    "reg env (registered_revision (ls_expected_revision s)) w2 = (Inr rv, w3)"
    "reg env (registered_revision (revision_id (ls_target s))) w3 = (Inr known, w4)"
    "judged ?k (cy_store w4) s b c = Inr d" "reg env (decide_run ?k d (rb_run c)) w4 = (Inr did, w')"
    "go_decision x = Some did"
    unfolding gate_measured_def Let_def
    by (auto simp: seq_Inr_iff make_outcome_def res_iff gate_common_def split: if_splits)
  have "cy_store w4 = cy_store w" using steps(1-4) calm_reg_Inr by metis
  with recorded_judgementI [OF steps(6,5)] steps(7) show ?thesis by auto
qed

text \<open>The gate reads the specification the job was created with.\<close>

definition specified :: "string \<Rightarrow> lifecycle_spec \<Rightarrow> registry \<Rightarrow> bool" where
  "specified j s g \<longleftrightarrow> (\<exists>row. lookup (rg_jobs g) j = Some row \<and> lr_spec row = s)"

lemma specified_kept: "specified j s g \<Longrightarrow> faithful k g g' \<Longrightarrow> specified j s g'"
  unfolding specified_def faithful_def specs_kept_def by metis

lemma gate_failure_decision: "gate_failure k j s inp e v = (Inr x, v') \<Longrightarrow> go_decision x = None"
  by (auto simp: gate_failure_def make_outcome_def gate_common_def res_iff split: if_splits)

lemma gate_Inr:
  assumes "evaluate_gate env j w = (Inr x, w')" and "specified j s (cy_registry w)" and "go_decision x = Some did"
  shows "recorded_judgement (le_codec env) (cy_store w) s did (cy_registry w')"
proof -
  let ?k = "le_codec env" and ?j = j
  from assms(1) obtain s' w1 r w2 i w4 where
    1: "reg env (job_specification ?j) w = (Inr s', w1)" and 2: "frozen_request env ?j s' w1 = (r, w2)"
    and 3: "(case r of Inl e \<Rightarrow> gate_failure ?k ?j s' None e
        | Inr q \<Rightarrow> seq (attempt (gate_measured env ?j s' q (sha256 ?k (rk_request_json ?k q)))) (\<lambda>r. case r of
                Inl e \<Rightarrow> gate_failure ?k ?j s' (Some (sha256 ?k (rk_request_json ?k q))) e
              | Inr x \<Rightarrow> return x)) w2 = (Inr x, w4)"
    and 4: "reg env (record_gate_outcome ?k ?j x) w4 = (Inr i, w')"
    unfolding evaluate_gate_def Let_def seq_Inr_iff by (auto simp: seq_Inr_iff)
  have "specified j s (meanwhile env w)"
    using specified_kept [OF assms(2) faithful_run] by (simp add: meanwhile_def)
  then have s': "s' = s" using 1 by (auto simp: reg_Inr job_specification_def specified_def)
  note no = gate_failure_decision
  from 3 assms(3) obtain q where q: "r = Inr q" by (cases r) (auto dest: no)
  let ?d = "sha256 ?k (rk_request_json ?k q)"
  from 3 q obtain r' w3 where m: "gate_measured env ?j s' q ?d w2 = (r', w3)"
    and c: "(case r' of Inl e \<Rightarrow> gate_failure ?k ?j s' (Some ?d) e | Inr x \<Rightarrow> return x) w3 = (Inr x, w4)"
    by (auto simp: seq_Inr_iff simp del: split_paired_Ex)
  from c assms(3) have "r' = Inr x" "w3 = w4" by (cases r'; auto dest: no)+
  with m s' have m: "gate_measured env ?j s q ?d w2 = (Inr x, w4)" by simp
  have st: "cy_store w2 = cy_store w"
    using calm_request [of env w1 ?j s'] 1 2 calm_reg_Inr by (metis calm_def snd_conv)
  from measured_Inr [OF m] assms(3) st have "recorded_judgement ?k (cy_store w) s did (cy_registry w4)" by auto
  moreover have "registry_grows (cy_registry w4) (cy_registry w')"
    using calm_reg [where f = "record_gate_outcome ?k ?j x" and env = env and w = w4, OF faithful_simple(6)] 4
    by (simp add: calm_def faithful_def)
  ultimately show ?thesis by (rule recorded_judgement_grows)
qed

lemma decision_Inr:
  assumes "lifecycle_decision env s w = (Inr did, w')" and "specified (ls_job s) s (cy_registry w)"
  shows "recorded_judgement (le_codec env) (cy_store w) s did (cy_registry w')"
proof (cases "ls_mode s")
  case Canonical_profile
  with assms(1) obtain x where "evaluate_gate env (ls_job s) w = (Inr x, w')" "go_decision x = Some did"
    by (auto simp: lifecycle_decision_def seq_Inr_iff split: option.splits if_splits)
  with gate_Inr assms(2) show ?thesis by blast
next
  case Legacy_drill
  let ?k = "le_codec env"
  from assms(1) Legacy_drill obtain b w1 c w2 known w3 d where steps:
    "reg env (registered_run (ls_baseline s)) w = (Inr b, w1)" "reg env (registered_run (ls_candidate s)) w1 = (Inr c, w2)"
    "reg env (registered_revision (revision_id (ls_target s))) w2 = (Inr known, w3)"
    "judged ?k (cy_store w3) s b c = Inr d" "reg env (decide_run ?k d (ls_candidate s)) w3 = (Inr did, w')"
    by (auto simp: lifecycle_decision_def legacy_decision_def Let_def seq_Inr_iff split: if_splits)
  have "cy_store w3 = cy_store w" using steps(1-3) calm_reg_Inr by metis
  with recorded_judgementI [OF steps(5,4)] show ?thesis by simp
qed

subsection \<open>What a promotion rests on\<close>

definition health_seen :: "lifecycle_env \<Rightarrow> 'w adapter \<Rightarrow> lifecycle_spec \<Rightarrow> bool" where
  "health_seen env ad s \<longleftrightarrow> (\<exists>x h x'. adapter_health ad (ls_deployment s) x = (Inr h, x') \<and>
     verifies (le_codec env) h (ls_target s))"

lemma probe_Inr: "probe env ad s w = (Inr True, w') \<Longrightarrow> health_seen env ad s"
  unfolding probe_def health_seen_def by (auto simp: res_iff split: prod.splits)

lemma advanced_state:
  assumes "do_advance env st owner changes w = (Inr st', w')"
  shows "st' = (changes st)\<lparr>lc_version := lc_version st + 1\<rparr>" and "validate_stage st st' = Inr ()"
  using assms by (auto elim: do_advance_Inr)

lemma not_promoted_again:
  assumes "do_advance env st owner changes w = (Inr st', w')" and "lc_status (changes st) = lc_status st"
  shows "lc_status st' \<noteq> LPromoted"
  using advanced_state [OF assms(1)] assms(2) by (cases "lc_status st") (auto simp: validate_stage_def res_iff)

lemma promoted_decision:
  assumes "do_advance env st owner (to_stage LPromoted e) w = (Inr st', w')"
  shows "lc_decision st \<noteq> None" and "lc_decision st' = lc_decision st"
  using advanced_state [OF assms] by (auto simp: validate_stage_def res_iff to_stage_def)

lemma apply_and_probe_promoted:
  assumes "apply_and_probe env ad s st owner w = (Inr st', w')" and "lc_status st' = LPromoted"
  shows "health_seen env ad s \<and> lc_decision st \<noteq> None \<and> lc_decision st' = lc_decision st"
proof -
  from assms(1) obtain st1 w1 u w2 st2 w3 b w4 where
    1: "do_advance env st owner (deploying (lc_attempts st)) w = (Inr st1, w1)"
    and 2: "do_advance env st1 owner (\<lambda>x. x\<lparr>lc_status := LVerifying\<rparr>) w2 = (Inr st2, w3)"
    and 3: "probe env ad s w3 = (Inr b, w4)"
    and 4: "(if b then do_advance env st2 owner (to_stage LPromoted None)
       else do_advance env st2 owner (\<lambda>x. x\<lparr>lc_error := Some ''health_not_verified''\<rparr>)) w4 = (Inr st', w')"
    unfolding apply_and_probe_def seq_Inr_iff by auto
  have b: b
  proof (rule ccontr)
    assume "\<not> b"
    with 4 have "do_advance env st2 owner (\<lambda>x. x\<lparr>lc_error := Some ''health_not_verified''\<rparr>) w4 = (Inr st', w')" by simp
    from not_promoted_again [OF this] assms(2) show False by simp
  qed
  then have "do_advance env st2 owner (to_stage LPromoted None) w4 = (Inr st', w')" using 4 by simp
  from promoted_decision [OF this] have "lc_decision st2 \<noteq> None" "lc_decision st' = lc_decision st2" by auto
  moreover have "lc_decision st2 = lc_decision st1" "lc_decision st1 = lc_decision st"
    using advanced_state(1) [OF 1] advanced_state(1) [OF 2] by simp_all
  ultimately show ?thesis using probe_Inr 3 b by auto
qed

lemma deploy_promoted:
  assumes "deploy env ad s st owner w = (Inr st', w')" and "lc_status st' = LPromoted"
  shows "health_seen env ad s \<and> lc_decision st \<noteq> None \<and> lc_decision st' = lc_decision st"
proof (cases "lc_status st \<in> {LDeploying, LVerifying, LNeeds_reconciliation}")
  case False
  with assms apply_and_probe_promoted show ?thesis by (simp add: deploy_def)
next
  case True
  with assms(1) obtain b w1 where 1: "probe env ad s w = (Inr b, w1)"
    and 2: "(if b then do_advance env st owner (to_stage LPromoted None)
          else if lc_status st = LVerifying \<or> \<not> supports_idempotency ad
          then do_advance env st owner
                 (to_stage (if lc_status st = LVerifying then LVerifying else LNeeds_reconciliation)
                    (Some ''health_not_verified''))
          else apply_and_probe env ad s st owner) w1 = (Inr st', w')"
    by (auto simp: deploy_def seq_Inr_iff)
  show ?thesis
  proof (cases b)
    case True
    with 2 promoted_decision probe_Inr 1 show ?thesis by auto
  next
    case False
    show ?thesis
    proof (cases "lc_status st = LVerifying \<or> \<not> supports_idempotency ad")
      case stuck: True
      with 2 False have "do_advance env st owner (to_stage (if lc_status st = LVerifying then LVerifying
        else LNeeds_reconciliation) (Some ''health_not_verified'')) w1 = (Inr st', w')" by simp
      from advanced_state(1) [OF this] assms(2) show ?thesis by (auto simp: to_stage_def split: if_splits)
    next
      case again: False
      with 2 False have "apply_and_probe env ad s st owner w1 = (Inr st', w')" by auto
      from apply_and_probe_promoted [OF this assms(2)] show ?thesis .
    qed
  qed
qed

definition earned :: "lifecycle_env \<Rightarrow> artifact_store \<Rightarrow> lifecycle_spec \<Rightarrow> string \<Rightarrow> registry \<Rightarrow> bool" where
  "earned env st s did g \<longleftrightarrow> recorded_judgement (le_codec env) st s did g \<and>
     (\<exists>dg d r. lookup (rg_decisions g) did = Some (dg, d, r) \<and> approved d)"

lemma registry_growsD: "registry_grows g g' \<Longrightarrow> lookup (rg_decisions g) i = Some v \<Longrightarrow> lookup (rg_decisions g') i = Some v"
  unfolding registry_grows_def keeps_records_def grows_def by blast

lemma earned_grows: "earned env st s did g \<Longrightarrow> registry_grows g g' \<Longrightarrow> earned env st s did g'"
  unfolding earned_def by (blast intro: recorded_judgement_grows dest: registry_growsD)

lemma calm_grows: "calm env w w' \<Longrightarrow> registry_grows (cy_registry w) (cy_registry w')"
  by (simp add: calm_def faithful_def)

lemma body_promoted:
  assumes "lifecycle_body env ad s False owner st w = (Inr st', w')" and "lc_status st' = LPromoted"
    and "specified (ls_job s) s (cy_registry w)"
  shows "\<exists>a did. ad = Some a \<and> health_seen env a s \<and> lc_decision st' = Some did \<and>
     earned env (cy_store w) s did (cy_registry w')"
proof -
  let ?tail = "\<lambda>did. seq (if lc_status st = LRegistered
            then do_advance env st owner (\<lambda>x. x\<lparr>lc_status := LEvaluated, lc_decision := Some did, lc_error := None\<rparr>)
            else if lc_error st \<noteq> None then do_advance env st owner (\<lambda>x. x\<lparr>lc_error := None\<rparr>)
            else return st) (\<lambda>st1.
       if False then return st1
       else case ad of
         None \<Rightarrow> raise (ValueError ''deployment adapter is required for activation'')
       | Some a \<Rightarrow> deploy env a s st1 owner)"
  from assms(1) obtain did w1 d w2 where 1: "lifecycle_decision env s w = (Inr did, w1)"
    and 2: "reg env (registered_decision did) w1 = (Inr d, w2)"
    and 3: "(if \<not> approved d then
       (if lc_status st \<notin> {LRegistered, LEvaluated}
        then raise (RegistryConflict ''previously approved deployment evidence changed'')
        else do_advance env st owner (\<lambda>x. x\<lparr>lc_status := LRejected, lc_decision := Some did, lc_error := None\<rparr>))
     else if lc_decision st \<noteq> None \<and> lc_decision st \<noteq> Some did
     then raise (RegistryConflict ''recorded decision changed'') else ?tail did) w2 = (Inr st', w')"
    unfolding lifecycle_body_def seq_Inr_iff by blast
  have d: "approved d"
  proof (rule ccontr)
    assume "\<not> approved d"
    with 3 have "do_advance env st owner (\<lambda>x. x\<lparr>lc_status := LRejected, lc_decision := Some did, lc_error := None\<rparr>) w2 = (Inr st', w')"
      by (simp split: if_splits)
    from advanced_state(1) [OF this] assms(2) show False by simp
  qed
  with 3 have match: "lc_decision st = None \<or> lc_decision st = Some did" and tail: "?tail did w2 = (Inr st', w')"
    by (simp_all split: if_splits)
  from tail obtain st1 w3 where 4: "(if lc_status st = LRegistered
            then do_advance env st owner (\<lambda>x. x\<lparr>lc_status := LEvaluated, lc_decision := Some did, lc_error := None\<rparr>)
            else if lc_error st \<noteq> None then do_advance env st owner (\<lambda>x. x\<lparr>lc_error := None\<rparr>)
            else return st) w2 = (Inr st1, w3)"
    and 5: "(if False then return st1
       else case ad of
         None \<Rightarrow> raise (ValueError ''deployment adapter is required for activation'')
       | Some a \<Rightarrow> deploy env a s st1 owner) w3 = (Inr st', w')"
    unfolding seq_Inr_iff by blast
  have st1: "lc_decision st1 = None \<or> lc_decision st1 = Some did"
    using 4 match by (auto dest!: advanced_state(1) split: if_splits)
  from 5 obtain a where a: "ad = Some a" "deploy env a s st1 owner w3 = (Inr st', w')"
    by (auto split: if_splits option.splits)
  from deploy_promoted [OF a(2) assms(2)] st1
  have h: "health_seen env a s" "lc_decision st' = Some did" by auto
  have "recorded_judgement (le_codec env) (cy_store w) s did (cy_registry w1)" by (rule decision_Inr [OF 1 assms(3)])
  moreover have "registry_grows (cy_registry w1) (cy_registry w2)"
    using calm_grows [OF calm_reg [where f = "registered_decision did" and env = env and w = w1, OF faithful_simple(9)]] 2 by simp
  ultimately have "recorded_judgement (le_codec env) (cy_store w) s did (cy_registry w2)" by (rule recorded_judgement_grows)
  moreover have "\<exists>dg r. lookup (rg_decisions (cy_registry w2)) did = Some (dg, d, r)"
    using 2 by (auto simp: reg_Inr registered_decision_def payload_of_def res_iff split: option.splits)
  ultimately have "earned env (cy_store w) s did (cy_registry w2)" using d by (auto simp: earned_def)
  moreover have "registry_grows (cy_registry w2) (cy_registry w')"
  proof -
    have "calm env w2 (snd (?tail did w2))"
      unfolding deploy_def by (intro calm_steps calm_apply_and_probe)
    from calm_grows [OF this] tail show ?thesis by simp
  qed
  ultimately show ?thesis using earned_grows a(1) h by blast
qed

lemma failure_not_promoted:
  assumes "lifecycle_failure env s owner e w = (Inr st', w')"
  shows "lc_status st' \<noteq> LPromoted"
  using assms by (auto simp: lifecycle_failure_def seq_Inr_iff split: if_splits dest!: not_promoted_again)

lemma recover_Inr_iff:
  "recover f h w = (Inr a, w') \<longleftrightarrow> f w = (Inr a, w') \<or> (\<exists>e w1. f w = (Inl e, w1) \<and> h e w1 = (Inr a, w'))"
  by (auto simp: recover_def split: prod.splits sum.splits)

lemma finally_Inr_iff:
  "finally_do f c w = (Inr a, w') \<longleftrightarrow> (\<exists>w1 u. f w = (Inr a, w1) \<and> c w1 = (Inr u, w'))"
  by (auto simp: finally_do_def split: prod.splits sum.splits)

text \<open>Collision resistance, as far as it is used: no other document has the digest of a stored one.\<close>

definition no_collision :: "'z registry_codec_scheme \<Rightarrow> registry \<Rightarrow> bool" where
  "no_collision k g \<longleftrightarrow>
     (\<forall>i dg d r d'. lookup (rg_decisions g) i = Some (dg, d, r) \<longrightarrow>
        sha256 k (rk_decision_json k d') = sha256 k (rk_decision_json k d) \<longrightarrow> d' = d) \<and>
     (\<forall>j row s. lookup (rg_jobs g) j = Some row \<longrightarrow>
        sha256 k (spec_canonical k s) = sha256 k (spec_canonical k (lr_spec row)) \<longrightarrow> s = lr_spec row)"

lemma created_specified:
  assumes "create_job k j s g = (Inr st, g1)" and "sound k g" and "faithful k g1 g'" and "no_collision k g'"
  shows "specified j s g1"
proof -
  from assms(1) obtain row where row: "lookup (rg_jobs g1) j = Some row" "lr_digest row = sha256 k (spec_canonical k s)"
    by (auto simp: create_job_def Let_def read_lifecycle_def lifecycle_job_def lookup_append_new simp del: map_of_append
        split: option.splits if_splits)
  have "sound k g1" using faithful_create [of k g j s] assms(1,2) by (simp add: faithful_def)
  with row have same: "sha256 k (spec_canonical k s) = sha256 k (spec_canonical k (lr_spec row))" by (simp add: sound_def)
  from assms(3) row(1) obtain row' where "lookup (rg_jobs g') j = Some row'" "lr_spec row' = lr_spec row"
    unfolding faithful_def specs_kept_def by blast
  with assms(4) same have "s = lr_spec row" unfolding no_collision_def by metis
  with row(1) show ?thesis by (auto simp: specified_def)
qed

lemma judged_approved:
  assumes "judged k st s b c = Inr d" and "approved d"
  shows "\<exists>left right e suite. materialize k st b = Inr left \<and> materialize k st c = Inr right \<and>
     measured_decision k (lk_parsers k) (lk_quality k) (still_files left) (still_files right) e suite (ls_policy s)
       (ls_target s) = Inr d"
proof -
  from assms(1) obtain left right e suite where "materialize k st b = Inr left" "materialize k st c = Inr right"
    "evaluate_promotion k (lk_parsers k) (lk_quality k) (still_files left) (still_files right) e suite (ls_policy s)
       (ls_target s) = Inr d"
    unfolding judged_def res_iff by blast
  with approved_measured assms(2) show ?thesis by blast
qed

lemma lifecycle_run_promoted:
  assumes reach: "cy_registry w = registry_run (le_codec env) ops empty_registry"
    and fresh: "\<forall>st0. lifecycle_job (ls_job s) (meanwhile env w) = Inr st0 \<longrightarrow> lc_status st0 \<noteq> LPromoted"
    and run: "lifecycle_run env ad s False owner w = (Inr st, w')" and st: "lc_status st = LPromoted"
    and coll: "no_collision (le_codec env) (cy_registry w')"
  shows "\<exists>a did. ad = Some a \<and> health_seen env a s \<and> lc_decision st = Some did \<and>
     earned env (cy_store w) s did (cy_registry w')" and "sound (le_codec env) (cy_registry w')"
proof -
  let ?k = "le_codec env" and ?j = "ls_job s"
  from run obtain st0 w1 where 1: "reg env (create_job ?k ?j s) w = (Inr st0, w1)"
    and 2: "(if lc_status st0 \<in> {LPromoted, LRejected} then return st0
     else seq (\<lambda>w. reg env (claim_lifecycle (lc_job st0) (ls_deployment s) owner (lifecycle_seconds env) (clock_at env w 0)) w) (\<lambda>st.
       finally_do (recover (lifecycle_body env ad s False owner st) (lifecycle_failure env s owner))
         (release_owned env (lc_job st) owner))) w1 = (Inr st, w')"
    unfolding lifecycle_run_def seq_Inr_iff by blast
  have sound: "sound ?k (meanwhile env w)"
    using faithful_run [of ?k "cy_registry w" "le_others env (cy_tick w)"] reachable_sound [of ?k ops]
    by (simp add: reach meanwhile_def faithful_def)
  from 1 have c: "create_job ?k ?j s (meanwhile env w) = (Inr st0, cy_registry w1)" by (auto simp: reg_Inr)
  have "lc_status st0 \<noteq> LPromoted"
    using c fresh by (auto simp: create_job_def Let_def read_lifecycle_def lifecycle_job_def new_lifecycle_def
        lookup_append_new simp del: map_of_append split: option.splits if_splits)
  with 2 st obtain st1 w2 w3 u where
    3: "reg env (claim_lifecycle (lc_job st0) (ls_deployment s) owner (lifecycle_seconds env) (clock_at env w1 0)) w1 = (Inr st1, w2)"
    and 4: "recover (lifecycle_body env ad s False owner st1) (lifecycle_failure env s owner) w2 = (Inr st, w3)"
    and 5: "release_owned env (lc_job st1) owner w3 = (Inr u, w')"
    by (auto simp: seq_Inr_iff finally_Inr_iff split: if_splits)
  have calm: "calm env w1 w2" "calm env w2 w3" "calm env w3 w'"
  proof -
    show "calm env w1 w2" using calm_claim 3 by (metis snd_conv)
    have "calm env w2 (snd (recover (lifecycle_body env ad s False owner st1) (lifecycle_failure env s owner) w2))"
      by (intro calm.recover_steps calm_body calm_handler)
    with 4 show "calm env w2 w3" by simp
    show "calm env w3 w'" using calm_release 5 by (metis snd_conv)
  qed
  then have all: "calm env w1 w'" using calm_trans by blast
  have spec: "specified (ls_job s) s (cy_registry w1)"
    by (rule created_specified [OF c sound _ coll]) (use all in \<open>simp add: calm_def\<close>)
  with calm(1) have spec2: "specified (ls_job s) s (cy_registry w2)" using specified_kept by (auto simp: calm_def)
  have store: "cy_store w2 = cy_store w" using calm_reg_Inr [OF 1] calm(1) by (simp add: calm_def)
  from 4 have "lifecycle_body env ad s False owner st1 w2 = (Inr st, w3)"
    using st by (auto simp: recover_Inr_iff dest: failure_not_promoted)
  from body_promoted [OF this st spec2] show "\<exists>a did. ad = Some a \<and> health_seen env a s \<and> lc_decision st = Some did \<and>
     earned env (cy_store w) s did (cy_registry w')"
    using earned_grows calm_grows [OF calm(3)] store by metis
  have "sound ?k (cy_registry w1)" using faithful_create [of ?k "meanwhile env w" ?j s] c sound by (simp add: faithful_def)
  with all show "sound ?k (cy_registry w')" by (simp add: calm_def faithful_def)
qed


end
