(* ===== verification/LifecycleLiveness.thy ===== *)
theory LifecycleLiveness
  imports LifecyclePromotion
begin

text \<open>
  A job whose evidence passes reaches promotion: with a working adapter and no other worker in
  the way, one call of the service brings an unfinished job to promoted and frees its lock.
  The proofs are total-correctness arguments over \<open>outcome\<close>: \<open>returns f w Q\<close> says that the action
  returns, raises nothing, and ends as \<open>Q\<close> says.
\<close>

definition returns :: "('s, 'a) action \<Rightarrow> 's \<Rightarrow> ('a \<Rightarrow> 's \<Rightarrow> bool) \<Rightarrow> bool" where
  "returns f w Q \<longleftrightarrow> outcome f w Q (\<lambda>_ _. False)"

lemma returns_seq: "returns f w P \<Longrightarrow> (\<And>a w'. P a w' \<Longrightarrow> returns (h a) w' Q) \<Longrightarrow> returns (seq f h) w Q"
  unfolding returns_def outcome_seq by (erule outcome_mono) auto

lemma returns_return: "Q a w \<Longrightarrow> returns (return a) w Q"
  by (simp add: returns_def outcome_return)

lemma returns_mono: "returns f w P \<Longrightarrow> (\<And>a w'. P a w' \<Longrightarrow> Q a w') \<Longrightarrow> returns f w Q"
  unfolding returns_def by (erule outcome_mono) auto

lemma returns_recover: "returns f w Q \<Longrightarrow> returns (recover f h) w Q"
  unfolding returns_def outcome_recover by (erule outcome_mono) auto

lemma returns_finally: "returns f w P \<Longrightarrow> (\<And>a w'. P a w' \<Longrightarrow> returns c w' (\<lambda>_. Q a)) \<Longrightarrow> returns (finally_do f c) w Q"
  unfolding returns_def outcome_finally by (erule outcome_mono) auto

lemma returns_iff: "returns f w Q \<longleftrightarrow> (\<exists>a w'. f w = (Inr a, w') \<and> Q a w')"
  by (auto simp: returns_def outcome_def split: prod.splits sum.splits)

lemma returns_fallible: "r = Inr a \<Longrightarrow> Q a w \<Longrightarrow> returns (fallible r) w Q"
  by (simp add: returns_iff)

lemma returns_store: "h (cy_store w) = Inr a \<Longrightarrow> Q a w \<Longrightarrow> returns (on_store h) w Q"
  by (simp add: returns_iff)

definition quiet_env :: "lifecycle_env \<Rightarrow> bool" where
  "quiet_env env \<longleftrightarrow> (\<forall>n. le_others env n = [])"

lemma returns_reg:
  assumes "quiet_env env" and "f (cy_registry w) = (Inr a, g)"
    and "Q a (w\<lparr>cy_registry := g, cy_tick := Suc (cy_tick w)\<rparr>)"
  shows "returns (reg env f) w Q"
  using assms by (simp add: returns_iff reg_def meanwhile_def quiet_env_def registry_run_def)

subsection \<open>A worker that holds its job\<close>

definition holds :: "lifecycle_env \<Rightarrow> lifecycle_spec \<Rightarrow> string \<Rightarrow> lifecycle_state \<Rightarrow> registry \<Rightarrow> bool" where
  "holds env s owner st g \<longleftrightarrow> lc_job st = ls_job s \<and> (\<exists>row. lookup (rg_jobs g) (ls_job s) = Some row \<and> lr_state row = st \<and>
     lr_version row = lc_version st \<and> lr_owner row = Some owner \<and> (\<forall>n. le_clock env n < lr_until row))"

lemma returns_advance:
  assumes "quiet_env env" and h: "holds env s owner st (cy_registry w)"
    and st': "st' = (changes st)\<lparr>lc_version := lc_version st + 1\<rparr>" and v: "validate_stage st st' = Inr ()"
    and Q: "\<And>w'. holds env s owner st' (cy_registry w') \<Longrightarrow> cy_world w' = cy_world w \<Longrightarrow> Q st' w'"
  shows "returns (do_advance env st owner changes) w Q"
proof -
  from h obtain row where row: "lookup (rg_jobs (cy_registry w)) (ls_job s) = Some row" "lr_state row = st"
    "lr_version row = lc_version st" "lr_owner row = Some owner" "\<forall>n. le_clock env n < lr_until row"
    and j: "lc_job st = ls_job s" by (auto simp: holds_def)
  let ?g = "(cy_registry w)\<lparr>rg_jobs := upsert (lc_job st) (row\<lparr>lr_state := st', lr_version := lc_version st'\<rparr>)
      (rg_jobs (cy_registry w)), rg_events := rg_events (cy_registry w) @ [(lc_job st, clock_at env w 1, st')]\<rparr>"
  have eq: "(changes st)\<lparr>lc_version := Suc (lc_version st)\<rparr> = st'" using st' by simp
  have "advance_lifecycle st owner changes (clock_at env w 0) (clock_at env w 1) (cy_registry w) = (Inr st', ?g)"
    using row j v by (simp add: advance_lifecycle_def atomically_def advance_body_def Let_def eq clock_at_def)
  moreover have "lc_job st' = ls_job s" using v j by (simp add: validate_stage_def res_iff)
  then have "holds env s owner st' ?g" using row j by (simp add: holds_def lookup_upsert)
  ultimately show ?thesis
    using Q [of "w\<lparr>cy_registry := ?g, cy_tick := Suc (cy_tick w)\<rparr>"] assms(1)
    by (simp add: do_advance_def returns_iff reg_def meanwhile_def quiet_env_def registry_run_def)
qed

lemma stage_ok:
  "lc_job b = lc_job a \<Longrightarrow> lc_status b \<in> allowed_stages (lc_status a) \<Longrightarrow> lc_decision b \<noteq> None \<Longrightarrow>
     validate_stage a b = Inr ()"
  by (simp add: validate_stage_def)

subsection \<open>A working adapter\<close>

text \<open>An apply call succeeds and makes the deployment live; a live deployment shows the target's
  health and stays live; a health call always answers.\<close>

definition working :: "lifecycle_env \<Rightarrow> 'w adapter \<Rightarrow> lifecycle_spec \<Rightarrow> ('w \<Rightarrow> bool) \<Rightarrow> bool" where
  "working env ad s live \<longleftrightarrow>
     (\<forall>x. \<exists>x'. adapter_apply ad (lifecycle_request s) x = (Inr (), x') \<and> live x') \<and>
     (\<forall>x. \<exists>h x'. adapter_health ad (ls_deployment s) x = (Inr h, x') \<and>
        (live x \<longrightarrow> live x' \<and> verifies (le_codec env) h (ls_target s)))"

lemma returns_probe:
  assumes "working env ad s live"
    and "\<And>b w'. cy_registry w' = cy_registry w \<Longrightarrow> (live (cy_world w) \<Longrightarrow> b) \<Longrightarrow> Q b w'"
  shows "returns (probe env ad s) w Q"
proof -
  from assms(1) obtain h x' where "adapter_health ad (ls_deployment s) (cy_world w) = (Inr h, x')"
    "live (cy_world w) \<longrightarrow> live x' \<and> verifies (le_codec env) h (ls_target s)" unfolding working_def by blast
  then show ?thesis using assms(2) [of "w\<lparr>cy_world := x'\<rparr>"] by (simp add: returns_iff probe_def)
qed

lemma returns_apply:
  assumes "working env ad s live" and "\<And>w'. cy_registry w' = cy_registry w \<Longrightarrow> live (cy_world w') \<Longrightarrow> Q () w'"
  shows "returns (ask_apply ad (ls_job s) (lifecycle_request s)) w Q"
proof -
  from assms(1) obtain x' where "adapter_apply ad (lifecycle_request s) (cy_world w) = (Inr (), x')" "live x'"
    unfolding working_def by blast
  then show ?thesis using assms(2) by (simp add: returns_iff ask_apply_def)
qed

definition promotes :: "lifecycle_env \<Rightarrow> lifecycle_spec \<Rightarrow> string \<Rightarrow> lifecycle_state \<Rightarrow> 'w cycle \<Rightarrow> bool" where
  "promotes env s owner st w \<longleftrightarrow> lc_status st = LPromoted \<and> holds env s owner st (cy_registry w)"

lemma holds_job: "holds env s owner st g \<Longrightarrow> lc_job st = ls_job s"
  by (simp add: holds_def)

lemma returns_promote:
  assumes "quiet_env env" and "holds env s owner st (cy_registry w)" and "lc_decision st \<noteq> None"
    and "lc_status st \<in> {LDeploying, LVerifying, LNeeds_reconciliation}"
  shows "returns (do_advance env st owner (to_stage LPromoted None)) w (promotes env s owner)"
  by (rule returns_advance [OF assms(1,2) refl]) (use assms in \<open>auto simp: to_stage_def promotes_def intro!: stage_ok\<close>)

lemma returns_apply_and_probe:
  assumes q: "quiet_env env" and ad: "working env ad s live" and h: "holds env s owner st (cy_registry w)"
    and d: "lc_decision st \<noteq> None" and st: "lc_status st \<in> {LEvaluated, LDeploying, LNeeds_reconciliation}"
  shows "returns (apply_and_probe env ad s st owner) w (promotes env s owner)"
  unfolding apply_and_probe_def
proof (rule returns_seq)
  let ?st1 = "(deploying (lc_attempts st) st)\<lparr>lc_version := lc_version st + 1\<rparr>"
  let ?st2 = "?st1\<lparr>lc_status := LVerifying, lc_version := lc_version ?st1 + 1\<rparr>"
  show "returns (do_advance env st owner (deploying (lc_attempts st))) w
      (\<lambda>st1 w1. st1 = ?st1 \<and> holds env s owner ?st1 (cy_registry w1))"
    by (rule returns_advance [OF q h refl]) (use d st in \<open>auto intro!: stage_ok\<close>)
  fix st1 and w1 :: "'a cycle" assume 1: "st1 = ?st1 \<and> holds env s owner ?st1 (cy_registry w1)"
  show "returns (seq (ask_apply ad (ls_job s) (lifecycle_request s)) (\<lambda>_. seq (do_advance env st1 owner (\<lambda>x. x\<lparr>lc_status := LVerifying\<rparr>))
      (\<lambda>st2. seq (probe env ad s) (\<lambda>healthy. if healthy then do_advance env st2 owner (to_stage LPromoted None)
       else do_advance env st2 owner (\<lambda>x. x\<lparr>lc_error := Some ''health_not_verified''\<rparr>))))) w1 (promotes env s owner)"
  proof (rule returns_seq)
    show "returns (ask_apply ad (ls_job s) (lifecycle_request s)) w1
        (\<lambda>_ w2. holds env s owner ?st1 (cy_registry w2) \<and> live (cy_world w2))"
      by (rule returns_apply [OF ad]) (use 1 in simp)
    fix u and w2 :: "'a cycle" assume 2: "holds env s owner ?st1 (cy_registry w2) \<and> live (cy_world w2)"
    show "returns (seq (do_advance env st1 owner (\<lambda>x. x\<lparr>lc_status := LVerifying\<rparr>))
      (\<lambda>st2. seq (probe env ad s) (\<lambda>healthy. if healthy then do_advance env st2 owner (to_stage LPromoted None)
       else do_advance env st2 owner (\<lambda>x. x\<lparr>lc_error := Some ''health_not_verified''\<rparr>)))) w2 (promotes env s owner)"
    proof (rule returns_seq)
      show "returns (do_advance env st1 owner (\<lambda>x. x\<lparr>lc_status := LVerifying\<rparr>)) w2
          (\<lambda>st2 w3. st2 = ?st2 \<and> holds env s owner ?st2 (cy_registry w3) \<and> live (cy_world w3))"
        by (rule returns_advance [OF q _ refl]) (use 1 2 d in \<open>auto intro!: stage_ok\<close>)
      fix st2 and w3 :: "'a cycle"
      assume 3: "st2 = ?st2 \<and> holds env s owner ?st2 (cy_registry w3) \<and> live (cy_world w3)"
      show "returns (seq (probe env ad s) (\<lambda>healthy. if healthy then do_advance env st2 owner (to_stage LPromoted None)
         else do_advance env st2 owner (\<lambda>x. x\<lparr>lc_error := Some ''health_not_verified''\<rparr>))) w3 (promotes env s owner)"
      proof (rule returns_seq)
        show "returns (probe env ad s) w3 (\<lambda>b w4. b \<and> cy_registry w4 = cy_registry w3)"
          by (rule returns_probe [OF ad]) (use 3 in simp)
        fix b and w4 :: "'a cycle" assume 4: "b \<and> cy_registry w4 = cy_registry w3"
        have "returns (do_advance env ?st2 owner (to_stage LPromoted None)) w4 (promotes env s owner)"
          by (rule returns_promote [OF q]) (use 3 4 d in simp_all)
        with 3 4 show "returns (if b then do_advance env st2 owner (to_stage LPromoted None)
           else do_advance env st2 owner (\<lambda>x. x\<lparr>lc_error := Some ''health_not_verified''\<rparr>)) w4 (promotes env s owner)"
          by simp
      qed
    qed
  qed
qed

lemma returns_deploy:
  assumes q: "quiet_env env" and ad: "working env ad s live" and h: "holds env s owner st (cy_registry w)"
    and d: "lc_decision st \<noteq> None" and st: "lc_status st \<notin> {LRegistered, LRejected, LPromoted}"
    and l: "lc_status st = LVerifying \<or> \<not> supports_idempotency ad \<and> lc_status st \<noteq> LEvaluated \<Longrightarrow> live (cy_world w)"
  shows "returns (deploy env ad s st owner) w (promotes env s owner)"
proof (cases "lc_status st = LEvaluated")
  case True
  with returns_apply_and_probe [OF q ad h d] show ?thesis by (simp add: deploy_def)
next
  case False
  with st have st': "lc_status st \<in> {LDeploying, LVerifying, LNeeds_reconciliation}" by (cases "lc_status st") auto
  have "returns (seq (probe env ad s) (\<lambda>healthy.
          if healthy then do_advance env st owner (to_stage LPromoted None)
          else if lc_status st = LVerifying \<or> \<not> supports_idempotency ad
          then do_advance env st owner
                 (to_stage (if lc_status st = LVerifying then LVerifying else LNeeds_reconciliation)
                    (Some ''health_not_verified''))
          else apply_and_probe env ad s st owner)) w (promotes env s owner)"
  proof (rule returns_seq)
    show "returns (probe env ad s) w (\<lambda>b w1. cy_registry w1 = cy_registry w \<and> (live (cy_world w) \<longrightarrow> b))"
      by (rule returns_probe [OF ad]) simp
    fix b and w1 :: "'a cycle" assume 1: "cy_registry w1 = cy_registry w \<and> (live (cy_world w) \<longrightarrow> b)"
    show "returns (if b then do_advance env st owner (to_stage LPromoted None)
          else if lc_status st = LVerifying \<or> \<not> supports_idempotency ad
          then do_advance env st owner
                 (to_stage (if lc_status st = LVerifying then LVerifying else LNeeds_reconciliation)
                    (Some ''health_not_verified''))
          else apply_and_probe env ad s st owner) w1 (promotes env s owner)"
    proof (cases b)
      case True
      with returns_promote [OF q, of s owner st w1] h d st' 1 show ?thesis by simp
    next
      case dead: False
      with 1 l False st' have "supports_idempotency ad" "lc_status st \<noteq> LVerifying" by auto
      with dead returns_apply_and_probe [OF q ad, of owner st w1] h d st' 1 show ?thesis by auto
    qed
  qed
  with st' show ?thesis by (simp add: deploy_def)
qed

subsection \<open>Passing evidence\<close>

definition evidence_ready :: "release_codec \<Rightarrow> artifact_store \<Rightarrow> lifecycle_spec \<Rightarrow> decision \<Rightarrow> registry \<Rightarrow> bool" where
  "evidence_ready k st s d g \<longleftrightarrow> ls_mode s = Legacy_drill \<and> approved d \<and>
     payload_of (rg_revisions g) (revision_id (ls_target s)) = Inr (ls_target s) \<and>
     lookup (rg_decisions g) (bound_identity k (ls_candidate s) d) \<in>
       {None, Some (sha256 k (rk_decision_json k d), d, ls_candidate s)} \<and>
     (\<exists>b c. payload_of (rg_runs g) (ls_baseline s) = Inr b \<and> payload_of (rg_runs g) (ls_candidate s) = Inr c \<and>
        rb_revision b = Some (ls_expected_revision s) \<and> rb_revision c = Some (revision_id (ls_target s)) \<and>
        judged k st s b c = Inr d)"

lemma measured_candidate: "measured_decision cd p q b c e suite policy r = Inr d \<Longrightarrow> candidate_revision d = revision_id r"
  unfolding measured_decision_def res_iff by (auto simp: decision_for_def split: if_splits)

lemma promotion_candidate: "evaluate_promotion cd p q b c e suite policy r = Inr d \<Longrightarrow> candidate_revision d = revision_id r"
  unfolding evaluate_promotion_def
  by (cases "measured_decision cd p q b c e suite policy r")
    (auto simp: decision_for_def measured_candidate split: if_splits)

lemma judged_candidate: "judged k st s b c = Inr d \<Longrightarrow> candidate_revision d = revision_id (ls_target s)"
  unfolding judged_def res_iff using promotion_candidate by blast

lemma payload_of_Inr: "payload_of t i = Inr v \<longleftrightarrow> (\<exists>dg. lookup t i = Some (dg, v))"
  by (auto simp: payload_of_def split: option.splits)

lemma decide_run_returns:
  assumes run: "payload_of (rg_runs g) run = Inr c" "rb_revision c = Some (candidate_revision d)"
    and rv: "payload_of (rg_revisions g) (candidate_revision d) = Inr rv"
    and free: "lookup (rg_decisions g) (bound_identity k run d) \<in> {None, Some (sha256 k (rk_decision_json k d), d, run)}"
  obtains g' where "decide_run k d run g = (Inr (bound_identity k run d), g')" "rg_jobs g' = rg_jobs g"
    "lookup (rg_decisions g') (bound_identity k run d) = Some (sha256 k (rk_decision_json k d), d, run)"
proof (cases "lookup (rg_decisions g) (bound_identity k run d)")
  case None
  let ?g = "g\<lparr>rg_decisions := rg_decisions g @ [(bound_identity k run d, sha256 k (rk_decision_json k d), d, run)]\<rparr>"
  have "put_decision k d run g = (Inr (), ?g)"
    using None run(1) rv by (auto simp: put_decision_def immutable_put_def payload_of_Inr)
  moreover have new: "lookup (rg_decisions ?g) (bound_identity k run d) = Some (sha256 k (rk_decision_json k d), d, run)"
    using None by (simp add: lookup_append_new del: map_of_append)
  ultimately have "decide_run k d run g = (Inr (bound_identity k run d), ?g)"
    using run by (simp add: decide_run_def seq_def registered_run_def verify_decision_run_def return_def)
  with that new show ?thesis by simp
next
  case (Some v)
  with free have v: "lookup (rg_decisions g) (bound_identity k run d) = Some (sha256 k (rk_decision_json k d), d, run)" by simp
  then have "put_decision k d run g = (Inr (), g)"
    by (simp add: put_decision_def immutable_put_def)
  with v run have "decide_run k d run g = (Inr (bound_identity k run d), g)"
    by (simp add: decide_run_def seq_def registered_run_def verify_decision_run_def return_def)
  with that v show ?thesis by simp
qed

lemma returns_decision:
  assumes q: "quiet_env env" and e: "evidence_ready (le_codec env) (cy_store w) s d (cy_registry w)"
    and Q: "\<And>w'. rg_jobs (cy_registry w') = rg_jobs (cy_registry w) \<Longrightarrow> cy_world w' = cy_world w \<Longrightarrow>
      (\<exists>dg r. lookup (rg_decisions (cy_registry w')) (bound_identity (le_codec env) (ls_candidate s) d) = Some (dg, d, r)) \<Longrightarrow>
      Q (bound_identity (le_codec env) (ls_candidate s) d) w'"
  shows "returns (lifecycle_decision env s) w Q"
proof -
  let ?k = "le_codec env" and ?g = "cy_registry w"
  from e obtain b c where
    runs: "payload_of (rg_runs ?g) (ls_baseline s) = Inr b" "payload_of (rg_runs ?g) (ls_candidate s) = Inr c"
      "rb_revision b = Some (ls_expected_revision s)" "rb_revision c = Some (revision_id (ls_target s))"
    and target: "payload_of (rg_revisions ?g) (revision_id (ls_target s)) = Inr (ls_target s)"
    and j: "judged ?k (cy_store w) s b c = Inr d"
    and free: "lookup (rg_decisions ?g) (bound_identity ?k (ls_candidate s) d) \<in>
       {None, Some (sha256 ?k (rk_decision_json ?k d), d, ls_candidate s)}"
    and mode: "ls_mode s \<noteq> Canonical_profile"
    unfolding evidence_ready_def by auto
  note cand = judged_candidate [OF j]
  obtain g' where g': "decide_run ?k d (ls_candidate s) ?g = (Inr (bound_identity ?k (ls_candidate s) d), g')"
    "rg_jobs g' = rg_jobs ?g" "lookup (rg_decisions g') (bound_identity ?k (ls_candidate s) d) =
      Some (sha256 ?k (rk_decision_json ?k d), d, ls_candidate s)"
    by (rule decide_run_returns [OF runs(2) _ _ free, of "ls_target s"]) (use cand runs(4) target in simp_all)
  have same: "meanwhile env v = cy_registry v" for v :: "'a cycle"
    using q by (simp add: meanwhile_def quiet_env_def registry_run_def)
  have "returns (legacy_decision env s) w Q"
    unfolding returns_iff legacy_decision_def Let_def seq_Inr_iff
    using runs target j g' Q [of "w\<lparr>cy_registry := g', cy_tick := Suc (Suc (Suc (Suc (cy_tick w))))\<rparr>"]
    by (auto simp: reg_def same registered_run_def registered_revision_def seq_Inr_iff)
  with mode show ?thesis by (simp add: lifecycle_decision_def)
qed

subsection \<open>A whole call\<close>

lemma holds_same: "holds env s owner st g \<Longrightarrow> rg_jobs g' = rg_jobs g \<Longrightarrow> holds env s owner st g'"
  by (simp add: holds_def)

text \<open>\<open>resumable\<close>: the job is unfinished, its recorded decision (if any) is the one the evidence gives,
  and where the service may not apply again the deployment is live already.\<close>

definition resumable :: "'w adapter \<Rightarrow> ('w \<Rightarrow> bool) \<Rightarrow> string \<Rightarrow> lifecycle_state \<Rightarrow> 'w \<Rightarrow> bool" where
  "resumable ad live did st x \<longleftrightarrow> lc_status st \<notin> {LRejected, LPromoted} \<and>
     (lc_decision st = Some did \<or> lc_decision st = None \<and> lc_status st = LRegistered) \<and>
     (lc_status st = LVerifying \<or> \<not> supports_idempotency ad \<and> lc_status st \<in> {LDeploying, LNeeds_reconciliation} \<longrightarrow> live x)"

lemma returns_body:
  assumes q: "quiet_env env" and ad: "working env ad s live" and h: "holds env s owner st (cy_registry w)"
    and e: "evidence_ready (le_codec env) (cy_store w) s d (cy_registry w)"
    and r: "resumable ad live (bound_identity (le_codec env) (ls_candidate s) d) st (cy_world w)"
  shows "returns (lifecycle_body env (Some ad) s False owner st) w (promotes env s owner)"
  unfolding lifecycle_body_def
proof (rule returns_seq)
  let ?did = "bound_identity (le_codec env) (ls_candidate s) d"
  show "returns (lifecycle_decision env s) w (\<lambda>did w1. did = ?did \<and> rg_jobs (cy_registry w1) = rg_jobs (cy_registry w) \<and>
      cy_world w1 = cy_world w \<and> (\<exists>dg r. lookup (rg_decisions (cy_registry w1)) ?did = Some (dg, d, r)))"
    by (rule returns_decision [OF q e]) simp
  fix did and w1 :: "'a cycle"
  assume 1: "did = ?did \<and> rg_jobs (cy_registry w1) = rg_jobs (cy_registry w) \<and> cy_world w1 = cy_world w \<and>
    (\<exists>dg r. lookup (rg_decisions (cy_registry w1)) ?did = Some (dg, d, r))"
  have ok: "approved d" using e by (simp add: evidence_ready_def)
  let ?first = "if lc_status st = LRegistered
            then do_advance env st owner (\<lambda>x. x\<lparr>lc_status := LEvaluated, lc_decision := Some did, lc_error := None\<rparr>)
            else if lc_error st \<noteq> None then do_advance env st owner (\<lambda>x. x\<lparr>lc_error := None\<rparr>) else return st"
  let ?deployable = "\<lambda>st1 (w2 :: 'a cycle). holds env s owner st1 (cy_registry w2) \<and> lc_decision st1 = Some did \<and>
      lc_status st1 \<notin> {LRegistered, LRejected, LPromoted} \<and>
      (lc_status st1 = LVerifying \<or> \<not> supports_idempotency ad \<and> lc_status st1 \<noteq> LEvaluated \<longrightarrow> live (cy_world w2))"
  have first: "returns ?first w2 ?deployable"
    if w2: "rg_jobs (cy_registry w2) = rg_jobs (cy_registry w)" "cy_world w2 = cy_world w" for w2 :: "'a cycle"
  proof -
    note hold = holds_same [OF h w2(1)]
    have st: "lc_status st \<noteq> LRegistered \<Longrightarrow> lc_decision st = Some did \<and> lc_status st \<notin> {LRegistered, LRejected, LPromoted} \<and>
      (lc_status st = LVerifying \<or> \<not> supports_idempotency ad \<and> lc_status st \<noteq> LEvaluated \<longrightarrow> live (cy_world w2))"
      using r 1 w2(2) by (cases "lc_status st") (auto simp: resumable_def)
    consider (fresh) "lc_status st = LRegistered" | (failed) "lc_status st \<noteq> LRegistered" "lc_error st \<noteq> None"
      | (clean) "lc_status st \<noteq> LRegistered" "lc_error st = None" by blast
    then show ?thesis
    proof cases
      case fresh
      have "returns (do_advance env st owner (\<lambda>x. x\<lparr>lc_status := LEvaluated, lc_decision := Some did, lc_error := None\<rparr>)) w2 ?deployable"
        by (rule returns_advance [OF q hold refl]) (use fresh in \<open>auto intro!: stage_ok\<close>)
      with fresh show ?thesis by simp
    next
      case failed
      have "returns (do_advance env st owner (\<lambda>x. x\<lparr>lc_error := None\<rparr>)) w2 ?deployable"
        by (rule returns_advance [OF q hold refl])
          (use st [OF failed(1)] in \<open>cases "lc_status st"; auto intro!: stage_ok\<close>)+
      with failed show ?thesis by simp
    next
      case clean
      with st [OF clean(1)] hold show ?thesis by (simp add: returns_return)
    qed
  qed
  show "returns (seq (reg env (registered_decision did)) (\<lambda>d.
     if \<not> approved d then
       (if lc_status st \<notin> {LRegistered, LEvaluated}
        then raise (RegistryConflict ''previously approved deployment evidence changed'')
        else do_advance env st owner (\<lambda>x. x\<lparr>lc_status := LRejected, lc_decision := Some did, lc_error := None\<rparr>))
     else if lc_decision st \<noteq> None \<and> lc_decision st \<noteq> Some did
     then raise (RegistryConflict ''recorded decision changed'')
     else seq ?first (\<lambda>st1. if False then return st1
       else case Some ad of None \<Rightarrow> raise (ValueError ''deployment adapter is required for activation'')
       | Some a \<Rightarrow> deploy env a s st1 owner))) w1 (promotes env s owner)"
  proof (rule returns_seq)
    show "returns (reg env (registered_decision did)) w1 (\<lambda>d' w2. d' = d \<and>
        rg_jobs (cy_registry w2) = rg_jobs (cy_registry w) \<and> cy_world w2 = cy_world w)"
      by (rule returns_reg [OF q, where g = "cy_registry w1" and a = d])
        (use 1 in \<open>auto simp: registered_decision_def payload_of_def\<close>)
    fix d' and w2 :: "'a cycle"
    assume 2: "d' = d \<and> rg_jobs (cy_registry w2) = rg_jobs (cy_registry w) \<and> cy_world w2 = cy_world w"
    have "returns (seq ?first (\<lambda>st1. deploy env ad s st1 owner)) w2 (promotes env s owner)"
      by (rule returns_seq [OF first]) (use 2 returns_deploy [OF q ad] in auto)
    moreover have "lc_decision st = None \<or> lc_decision st = Some did" using r 1 by (auto simp: resumable_def)
    ultimately show "returns (if \<not> approved d' then
       (if lc_status st \<notin> {LRegistered, LEvaluated}
        then raise (RegistryConflict ''previously approved deployment evidence changed'')
        else do_advance env st owner (\<lambda>x. x\<lparr>lc_status := LRejected, lc_decision := Some did, lc_error := None\<rparr>))
     else if lc_decision st \<noteq> None \<and> lc_decision st \<noteq> Some did
     then raise (RegistryConflict ''recorded decision changed'')
     else seq ?first (\<lambda>st1. if False then return st1
       else case Some ad of None \<Rightarrow> raise (ValueError ''deployment adapter is required for activation'')
       | Some a \<Rightarrow> deploy env a s st1 owner)) w2 (promotes env s owner)"
      using ok 2 by auto
  qed
qed

text \<open>\<open>claimable\<close>: the job is new, or is the one of this specification with no live lease; no other job
  holds the deployment.\<close>

definition claimable :: "lifecycle_env \<Rightarrow> lifecycle_spec \<Rightarrow> registry \<Rightarrow> bool" where
  "claimable env s g \<longleftrightarrow> \<not> lock_taken (ls_job s) (ls_deployment s) g \<and>
     (\<forall>row. lookup (rg_jobs g) (ls_job s) = Some row \<longrightarrow>
        lr_digest row = sha256 (le_codec env) (spec_canonical (le_codec env) s) \<and>
        (lr_owner row = None \<or> (\<forall>n. lr_until row < le_clock env n)))"

definition current_state :: "lifecycle_spec \<Rightarrow> registry \<Rightarrow> lifecycle_state" where
  "current_state s g = (case lookup (rg_jobs g) (ls_job s) of None \<Rightarrow> new_lifecycle (ls_job s) | Some row \<Rightarrow> lr_state row)"

lemma create_returns:
  assumes ok: "registry_ok g" and c: "claimable env s g"
  obtains g' row where "create_job (le_codec env) (ls_job s) s g = (Inr (current_state s g), g')"
    "lookup (rg_jobs g') (ls_job s) = Some row" "lr_state row = current_state s g" "lr_version row = lc_version (lr_state row)"
    "lr_owner row = None \<or> (\<forall>n. lr_until row < le_clock env n)" "\<not> lock_taken (ls_job s) (ls_deployment s) g'"
    "rg_decisions g' = rg_decisions g" "rg_runs g' = rg_runs g" "rg_revisions g' = rg_revisions g"
proof (cases "lookup (rg_jobs g) (ls_job s)")
  case None
  let ?row = "\<lparr>lr_digest = sha256 (le_codec env) (spec_canonical (le_codec env) s), lr_spec = s,
    lr_state = new_lifecycle (ls_job s), lr_version = 0, lr_owner = None, lr_until = 0, lr_locked = None\<rparr>"
  let ?g = "g\<lparr>rg_jobs := rg_jobs g @ [(ls_job s, ?row)]\<rparr>"
  have l: "lookup (rg_jobs ?g) (ls_job s) = Some ?row" using None by (simp add: lookup_append_new del: map_of_append)
  have st: "current_state s g = new_lifecycle (ls_job s)" using None by (simp add: current_state_def)
  show ?thesis
    by (rule that [of ?g ?row])
      (use None l c st in \<open>simp_all add: create_job_def Let_def read_lifecycle_def lifecycle_job_def new_lifecycle_def
        claimable_def lock_taken_def del: map_of_append\<close>)
next
  case (Some row)
  then have v: "lr_version row = lc_version (lr_state row)" using ok by (simp add: registry_ok_def row_ok_def)
  show ?thesis
    by (rule that [of g row])
      (use Some c v in \<open>auto simp: create_job_def Let_def read_lifecycle_def lifecycle_job_def claimable_def current_state_def\<close>)
qed

lemma returns_claim:
  assumes q: "quiet_env env" and ok: "owner \<noteq> []" "ls_deployment s \<noteq> []" "0 < lifecycle_seconds env"
    and clock: "\<forall>m n. le_clock env n < fadd (le_clock env m) (lifecycle_seconds env)"
    and row: "lookup (rg_jobs (cy_registry w)) (ls_job s) = Some row" "lc_job (lr_state row) = ls_job s"
      "lr_version row = lc_version (lr_state row)" "lr_owner row = None \<or> (\<forall>n. lr_until row < le_clock env n)"
      "\<not> lock_taken (ls_job s) (ls_deployment s) (cy_registry w)"
    and Q: "\<And>w'. holds env s owner (lr_state row) (cy_registry w') \<Longrightarrow> cy_world w' = cy_world w \<Longrightarrow> cy_store w' = cy_store w \<Longrightarrow>
      rg_decisions (cy_registry w') = rg_decisions (cy_registry w) \<Longrightarrow> rg_runs (cy_registry w') = rg_runs (cy_registry w) \<Longrightarrow>
      rg_revisions (cy_registry w') = rg_revisions (cy_registry w) \<Longrightarrow> Q (lr_state row) w'"
  shows "returns (\<lambda>w. reg env (claim_lifecycle (ls_job s) (ls_deployment s) owner (lifecycle_seconds env) (clock_at env w 0)) w) w Q"
proof -
  let ?now = "clock_at env w 0"
  let ?row = "row\<lparr>lr_owner := Some owner, lr_until := fadd ?now (lifecycle_seconds env), lr_locked := Some (ls_deployment s)\<rparr>"
  let ?g = "(cy_registry w)\<lparr>rg_jobs := upsert (ls_job s) ?row (rg_jobs (cy_registry w))\<rparr>"
  have now: "\<not> (lr_owner row \<noteq> None \<and> \<not> lr_until row < ?now)"
    using row(4) by (auto simp: clock_at_def)
  have "claim_lifecycle (ls_job s) (ls_deployment s) owner (lifecycle_seconds env) ?now (cy_registry w) = (Inr (lr_state row), ?g)"
    using ok row(1,5) now
    by (simp add: claim_lifecycle_def seq_def atomically_def claim_job_body_def read_lifecycle_def lifecycle_job_def lookup_upsert)
  moreover have "holds env s owner (lr_state row) ?g"
    using row(2,3) clock by (simp add: holds_def lookup_upsert clock_at_def)
  ultimately show ?thesis
    using Q [of "w\<lparr>cy_registry := ?g, cy_tick := Suc (cy_tick w)\<rparr>"] q
    by (simp add: returns_iff reg_def meanwhile_def quiet_env_def registry_run_def)
qed

definition freed :: "lifecycle_spec \<Rightarrow> lifecycle_state \<Rightarrow> registry \<Rightarrow> bool" where
  "freed s st g \<longleftrightarrow> lc_status st = LPromoted \<and> (\<exists>row. lookup (rg_jobs g) (ls_job s) = Some row \<and> lr_state row = st \<and>
     lr_owner row = None \<and> lr_locked row = None)"

lemma returns_release:
  assumes q: "quiet_env env" and p: "promotes env s owner st w"
  shows "returns (release_owned env (ls_job s) owner) w (\<lambda>_ w'. freed s st (cy_registry w'))"
proof -
  from p obtain row where row: "lookup (rg_jobs (cy_registry w)) (ls_job s) = Some row" "lr_state row = st"
    "lr_owner row = Some owner" "lc_status st = LPromoted" by (auto simp: promotes_def holds_def)
  then show ?thesis using q
    by (simp add: release_owned_def returns_iff seq_Inr_iff reg_def meanwhile_def quiet_env_def registry_run_def
        read_lifecycle_def lifecycle_job_def release_job_def release_row_def unlockable_def freed_def lookup_upsert)
qed


end
