(* ===== verification/LifecycleDemo.thy ===== *)
theory LifecycleDemo
  imports LifecycleLiveness
begin

text \<open>A concrete release: two registered runs, their artifacts and a job that is promoted.\<close>

subsection \<open>Evidence depends on three files of a directory\<close>

definition same_run :: "directory \<Rightarrow> directory \<Rightarrow> bool" where
  "same_run d d' \<longleftrightarrow> (\<forall>n \<in> {''manifest.json'', ''requests.jsonl'', ''summary.json''}. d n = d' n)"

lemma same_runD:
  assumes "same_run d d'"
  shows "validate_evidence p d = validate_evidence p d'" "run_id_of p d = run_id_of p d'" "sample_of p d = sample_of p d'"
  using assms by (simp_all add: same_run_def validate_evidence_def run_id_of_def sample_of_def)

lemma same_run_digest:
  "same_run b b' \<Longrightarrow> same_run c c' \<Longrightarrow> evidence_digest_of p b c e suite policy r = evidence_digest_of p b' c' e suite policy r"
  by (simp add: same_run_def evidence_digest_of_def file_digest_def)

lemma same_run_promotion:
  assumes "same_run b b'" and "same_run c c'"
  shows "evaluate_promotion cd p q (still_files b) (still_files c) e suite policy r =
     evaluate_promotion cd p q (still_files b') (still_files c') e suite policy r"
  by (simp add: evaluate_promotion_def measured_decision_def still_files_def validate_comparison_def
      check_quality_identity_def same_runD [OF assms(1)] same_runD [OF assms(2)] same_run_digest [OF assms])

subsection \<open>The release\<close>

definition release_decision :: decision where
  "release_decision = \<lparr>candidate_revision = ''rev'', candidate_digest = [], policy_version = ''p1'',
     evidence_digest = Some ''h'', rejection_reasons = [], quality_parity = Some 1, candidate_accuracy = Some 1\<rparr>"

definition release_ref :: artifact_ref where
  "release_ref = \<lparr>af_namespace = ''n'', af_sha256 = [], af_size = 0\<rparr>"

definition release_spec :: lifecycle_spec where
  "release_spec = \<lparr>ls_job = ''j'', ls_deployment = ''d'', ls_expected_revision = ''base'', ls_expected_generation = 0,
     ls_baseline = ''r0'', ls_candidate = ''r1'', ls_quality = release_ref, ls_suite = release_ref,
     ls_policy = gate_policy, ls_target = gate_revision, ls_mode = Legacy_drill\<rparr>"

definition demo_release_codec :: release_codec where
  "demo_release_codec = \<lparr>sha256 = \<lambda>x. x, revision_json = \<lambda>_. [], decision_json = \<lambda>_. [], apply_json = \<lambda>_. [],
     profile_json = \<lambda>_. [], configuration_json = \<lambda>_. [], canonical_url = \<lambda>_. True, route_json = \<lambda>_. [],
     rk_model_json = \<lambda>_ _. ''m'', rk_revision_json = revision_id, rk_workload_json = \<lambda>_. ''w'', rk_bundle_json = rb_run,
     rk_decision_json = \<lambda>d. if d = release_decision then ''d'' else ''x'', rk_bound_json = \<lambda>r d. r,
     rk_spec_json = \<lambda>_ s. if s = release_spec then ''s'' else ''x'', rk_request_json = \<lambda>_. [], rk_outcome_json = \<lambda>_. [],
     lk_parsers = demo_parsers, lk_quality = demo_quality, lk_read_quality = \<lambda>_. Inr demo_evidence,
     lk_read_suite = \<lambda>_. Inr demo_suite, lk_read_profile = \<lambda>_. Inl (ValueError [])\<rparr>"

definition release_bundle :: "string \<Rightarrow> string \<Rightarrow> run_bundle" where
  "release_bundle run rv = \<lparr>rb_run = run, rb_workload = ''h'', rb_model = ''m'', rb_revision = Some rv,
     rb_manifest = release_ref, rb_requests = release_ref, rb_summary = release_ref\<rparr>"

definition release_ops :: "registry_op list" where
  "release_ops = [G_revision (gate_revision\<lparr>revision_id := ''base''\<rparr>), G_revision gate_revision,
     G_workload ''h'' demo_workload, G_run (release_bundle ''r0'' ''base''), G_run (release_bundle ''r1'' ''rev'')]"

definition release_env :: lifecycle_env where
  "release_env = \<lparr>le_codec = demo_release_codec, le_clock = \<lambda>_. 5, le_timeout = 30, le_others = \<lambda>_. []\<rparr>"

definition release_world :: "bool cycle" where
  "release_world = \<lparr>cy_registry = registry_run demo_release_codec release_ops empty_registry,
     cy_store = \<lparr>as_namespace = ''n'', as_maximum = 10, as_files = [([], [])]\<rparr>, cy_world = False, cy_tick = 0, cy_applied = []\<rparr>"

text \<open>The deployment is live once applied; before, its health names another revision.\<close>

definition release_adapter :: "bool adapter" where
  "release_adapter = \<lparr>supports_idempotency = False, adapter_apply = \<lambda>q x. (Inr (), True),
     adapter_health = \<lambda>dep x. (Inr \<lparr>h_revision_id = (if x then ''rev'' else ''base''), h_revision_digest = [],
       h_ready = True, h_smoke_passed = True\<rparr>, x)\<rparr>"

lemma release_registry:
  "cy_registry release_world = empty_registry\<lparr>rg_models := [(''m'', ''m'', ''v'', ''t'')],
     rg_revisions := [(''base'', ''base'', gate_revision\<lparr>revision_id := ''base''\<rparr>), (''rev'', ''rev'', gate_revision)],
     rg_workloads := [(''h'', ''w'', demo_workload)],
     rg_runs := [(''r0'', ''r0'', release_bundle ''r0'' ''base''), (''r1'', ''r1'', release_bundle ''r1'' ''rev'')]\<rparr>"
  by (simp add: release_world_def registry_run_def release_ops_def record_revision_def seq_def register_model_def
      gate_revision_def demo_release_codec_def Let_def immutable_put_def put_revision_def put_workload_def put_run_def
      release_bundle_def empty_registry_def)

lemma release_quality:
  "\<exists>r. evaluate_quality demo_quality demo_suite (qe_reference demo_evidence) (qe_candidate demo_evidence)
     (pp_quality gate_policy) = Inr r \<and> qx_passed r \<and> qx_parity r = 1 \<and> qx_accuracy r = 1"
  by (simp add: evaluate_quality_def demo_suite_def demo_evidence_def gate_policy_def evaluate_case_def
      compare_answers_def answer_of_def canonical_answer_def strip_def blank_def set_mismatch_def same_names_def
      share_def int_div_def Let_def)

lemma release_promotion:
  "evaluate_promotion demo_release_codec demo_parsers demo_quality (still_files (\<lambda>_. Inr [])) (still_files (\<lambda>_. Inr []))
     demo_evidence demo_suite gate_policy gate_revision = Inr release_decision"
proof -
  have cmp: "validate_comparison demo_parsers (\<lambda>_. Inr []) (\<lambda>_. Inr []) = Inr ()"
    by (simp add: validate_comparison_def demo_evidence_valid comparable_def)
  have who: "verify_candidate_identity demo_manifest gate_revision = Inr ()"
    by (simp add: verify_candidate_identity_def demo_manifest_def demo_config_def gate_revision_def)
  have dig: "evidence_digest_of demo_parsers (\<lambda>_. Inr []) (\<lambda>_. Inr []) demo_evidence demo_suite gate_policy gate_revision = Inr ''h''"
    by (simp add: evidence_digest_of_def file_digest_def demo_parsers_def)
  have rev: "revision_digest demo_release_codec gate_revision = []" "revision_id gate_revision = ''rev''" "pp_version gate_policy = ''p1''"
    by (simp_all add: revision_digest_def demo_release_codec_def gate_revision_def gate_policy_def)
  from release_quality obtain r where r: "evaluate_quality demo_quality demo_suite (qe_reference demo_evidence)
    (qe_candidate demo_evidence) (pp_quality gate_policy) = Inr r" "qx_passed r" "qx_parity r = 1" "qx_accuracy r = 1" by blast
  show ?thesis
    by (simp add: evaluate_promotion_def measured_decision_def still_files_def cmp demo_evidence_valid who dig gate_identity
        demo_sample demo_no_failures r decision_for_def release_decision_def rev)
qed

lemma release_get: "artifact_get (sha256 demo_release_codec) release_ref (cy_store release_world) = Inr []"
  by (simp add: artifact_get_def verify_content_def demo_release_codec_def release_ref_def release_world_def)

lemma release_judged:
  "judged demo_release_codec (cy_store release_world) release_spec (release_bundle ''r0'' ''base'') (release_bundle ''r1'' ''rev'')
     = Inr release_decision"
proof -
  have m: "materialize demo_release_codec (cy_store release_world) (release_bundle i v) = Inr (directory_of [] [] [])" for i v
    by (simp add: materialize_def release_bundle_def release_get)
  have same: "same_run (directory_of [] [] []) (\<lambda>_. Inr [])" by (simp add: same_run_def directory_of_def)
  have parts: "ls_quality release_spec = release_ref" "ls_suite release_spec = release_ref"
    "ls_policy release_spec = gate_policy" "ls_target release_spec = gate_revision"
    "lk_read_quality demo_release_codec [] = Inr demo_evidence" "lk_read_suite demo_release_codec [] = Inr demo_suite"
    "lk_parsers demo_release_codec = demo_parsers" "lk_quality demo_release_codec = demo_quality"
    by (simp_all add: release_spec_def demo_release_codec_def)
  have suite: "make_suite demo_suite = Inr demo_suite" by (simp add: make_suite_def demo_suite_def)
  show ?thesis
    by (simp add: judged_def parts release_get m suite same_run_promotion [OF same same] release_promotion)
qed

lemma release_seconds: "lifecycle_seconds release_env = 120"
  by (simp add: lifecycle_seconds_def release_env_def float_ops)

subsection \<open>Witnesses\<close>

lemma release_decided:
  assumes "cy_registry w = cy_registry release_world\<lparr>rg_jobs := jobs\<rparr>" and "cy_store w = cy_store release_world"
  shows "lifecycle_decision release_env release_spec w = (Inr ''r1'', w\<lparr>cy_registry := cy_registry release_world\<lparr>rg_jobs := jobs,
     rg_decisions := [(''r1'', ''d'', release_decision, ''r1'')]\<rparr>, cy_tick := cy_tick w + 4\<rparr>)"
proof -
  have s: "ls_mode release_spec = Legacy_drill" "ls_baseline release_spec = ''r0''" "ls_candidate release_spec = ''r1''"
    "ls_expected_revision release_spec = ''base''" "ls_target release_spec = gate_revision" "revision_id gate_revision = ''rev''"
    by (simp_all add: release_spec_def gate_revision_def)
  have k: "le_codec release_env = demo_release_codec" "le_others release_env = (\<lambda>_. [])" by (simp_all add: release_env_def)
  have d: "bound_identity demo_release_codec r release_decision = r" "rk_decision_json demo_release_codec release_decision = ''d''"
    "sha256 demo_release_codec x = x" "candidate_revision release_decision = ''rev''" for r x
    by (simp_all add: bound_identity_def demo_release_codec_def release_decision_def)
  show ?thesis
    by (simp add: lifecycle_decision_def legacy_decision_def Let_def s k d seq_def reg_def meanwhile_def registry_run_def
        assms registered_run_def registered_revision_def payload_of_def release_registry on_store_def decide_run_def
        put_decision_def immutable_put_def verify_decision_run_def return_def release_judged empty_registry_def)
      (simp add: release_bundle_def)
qed

definition release_done :: lifecycle_state where
  "release_done = \<lparr>lc_job = ''j'', lc_status = LPromoted, lc_version = 4, lc_decision = Some ''r1'', lc_error = None, lc_attempts = 1\<rparr>"

lemma release_body:
  fixes w :: "bool cycle"
  assumes jobs: "rg_jobs (cy_registry w) = [(''j'', \<lparr>lr_digest = ''s'', lr_spec = release_spec, lr_state = new_lifecycle ''j'',
      lr_version = 0, lr_owner = Some ''o'', lr_until = 125, lr_locked = Some ''d''\<rparr>)]"
    and base: "cy_registry w = cy_registry release_world\<lparr>rg_jobs := jobs\<rparr>" and store: "cy_store w = cy_store release_world"
  shows "\<exists>w'. lifecycle_body release_env (Some release_adapter) release_spec False ''o'' (new_lifecycle ''j'') w = (Inr release_done, w') \<and>
     rg_jobs (cy_registry w') = [(''j'', \<lparr>lr_digest = ''s'', lr_spec = release_spec, lr_state = release_done,
       lr_version = 4, lr_owner = Some ''o'', lr_until = 125, lr_locked = Some ''d''\<rparr>)] \<and>
     rg_decisions (cy_registry w') = [(''r1'', ''d'', release_decision, ''r1'')]"
proof -
  note dec = release_decided [OF base store]
  have j: "jobs = [(''j'', \<lparr>lr_digest = ''s'', lr_spec = release_spec, lr_state = new_lifecycle ''j'',
      lr_version = 0, lr_owner = Some ''o'', lr_until = 125, lr_locked = Some ''d''\<rparr>)]"
    using jobs by (simp add: base)
  have env: "le_others release_env = (\<lambda>_. [])" "le_clock release_env = (\<lambda>_. 5)" "le_codec release_env = demo_release_codec"
    by (simp_all add: release_env_def)
  have ok: "approved release_decision" by (simp add: approved_def release_decision_def)
  have spec: "ls_job release_spec = ''j''" "ls_deployment release_spec = ''d''" by (simp_all add: release_spec_def)
  have health: "adapter_health release_adapter dep True = (Inr \<lparr>h_revision_id = ''rev'', h_revision_digest = [], h_ready = True,
      h_smoke_passed = True\<rparr>, True)" "adapter_apply release_adapter q x = (Inr (), True)" for dep q x
    by (simp_all add: release_adapter_def)
  have good: "verifies demo_release_codec \<lparr>h_revision_id = ''rev'', h_revision_digest = [], h_ready = True,
      h_smoke_passed = True\<rparr> (ls_target release_spec)"
    by (simp add: verifies_def demo_release_codec_def release_spec_def gate_revision_def revision_digest_def)
  show ?thesis
    unfolding lifecycle_body_def
    by (simp add: seq_def dec reg_def meanwhile_def env registry_run_def registered_decision_def payload_of_def ok
        new_lifecycle_def deploy_def apply_and_probe_def do_advance_def advance_lifecycle_def atomically_def
        advance_body_def Let_def j validate_stage_def ask_apply_def probe_def to_stage_def spec health good
        clock_at_def release_done_def)
qed

lemma release_run:
  "\<exists>w'. lifecycle_run release_env (Some release_adapter) release_spec False ''o'' release_world = (Inr release_done, w') \<and>
     rg_decisions (cy_registry w') = [(''r1'', ''d'', release_decision, ''r1'')] \<and>
     rg_jobs (cy_registry w') = [(''j'', \<lparr>lr_digest = ''s'', lr_spec = release_spec, lr_state = release_done,
       lr_version = 4, lr_owner = None, lr_until = 0, lr_locked = None\<rparr>)]"
proof -
  let ?row = "\<lparr>lr_digest = ''s'', lr_spec = release_spec, lr_state = new_lifecycle ''j'',
      lr_version = 0, lr_owner = Some ''o'', lr_until = 125, lr_locked = Some ''d''\<rparr>"
  let ?w = "release_world\<lparr>cy_registry := cy_registry release_world\<lparr>rg_jobs := [(''j'', ?row)]\<rparr>, cy_tick := Suc (Suc (cy_tick release_world))\<rparr>"
  obtain w1 where w1: "lifecycle_body release_env (Some release_adapter) release_spec False ''o'' (new_lifecycle ''j'') ?w = (Inr release_done, w1)"
    "rg_jobs (cy_registry w1) = [(''j'', \<lparr>lr_digest = ''s'', lr_spec = release_spec, lr_state = release_done,
       lr_version = 4, lr_owner = Some ''o'', lr_until = 125, lr_locked = Some ''d''\<rparr>)]"
    "rg_decisions (cy_registry w1) = [(''r1'', ''d'', release_decision, ''r1'')]"
    using release_body [of ?w "[(''j'', ?row)]"] by auto
  have env: "le_others release_env = (\<lambda>_. [])" "le_clock release_env = (\<lambda>_. 5)" "le_codec release_env = demo_release_codec"
    by (simp_all add: release_env_def)
  have spec: "ls_job release_spec = ''j''" "ls_deployment release_spec = ''d''" by (simp_all add: release_spec_def)
  have canon: "sha256 demo_release_codec (spec_canonical demo_release_codec release_spec) = ''s''"
    by (simp add: spec_canonical_def demo_release_codec_def)
  have create: "reg release_env (create_job demo_release_codec ''j'' release_spec) release_world = (Inr (new_lifecycle ''j''),
      release_world\<lparr>cy_registry := cy_registry release_world\<lparr>rg_jobs := [(''j'', ?row\<lparr>lr_owner := None, lr_until := 0,
        lr_locked := None\<rparr>)]\<rparr>, cy_tick := Suc (cy_tick release_world)\<rparr>)"
    by (simp add: reg_def meanwhile_def env registry_run_def create_job_def Let_def canon read_lifecycle_def
        lifecycle_job_def release_registry empty_registry_def)
  have claim: "reg release_env (claim_lifecycle ''j'' ''d'' ''o'' 120 5) (release_world\<lparr>cy_registry := cy_registry release_world
      \<lparr>rg_jobs := [(''j'', ?row\<lparr>lr_owner := None, lr_until := 0, lr_locked := None\<rparr>)]\<rparr>, cy_tick := Suc (cy_tick release_world)\<rparr>)
      = (Inr (new_lifecycle ''j''), ?w)"
    by (simp add: reg_def meanwhile_def env registry_run_def claim_lifecycle_def seq_def atomically_def claim_job_body_def
        read_lifecycle_def lifecycle_job_def lock_taken_def float_ops)
  have "lc_status (new_lifecycle ''j'') = LRegistered" "lc_job (new_lifecycle ''j'') = ''j''" "lc_status release_done = LPromoted"
    by (simp_all add: new_lifecycle_def release_done_def)
  moreover have "\<exists>w2. release_owned release_env ''j'' ''o'' w1 = (Inr (), w2) \<and>
     rg_decisions (cy_registry w2) = [(''r1'', ''d'', release_decision, ''r1'')] \<and>
     rg_jobs (cy_registry w2) = [(''j'', \<lparr>lr_digest = ''s'', lr_spec = release_spec, lr_state = release_done,
       lr_version = 4, lr_owner = None, lr_until = 0, lr_locked = None\<rparr>)]"
    using w1(2,3) by (simp add: release_owned_def seq_def reg_def meanwhile_def env registry_run_def read_lifecycle_def
        lifecycle_job_def release_job_def release_row_def unlockable_def release_done_def)
  ultimately show ?thesis
    using w1(1)
    by (auto simp: lifecycle_run_def env spec create seq_def clock_at_def release_seconds claim [simplified]
        finally_do_def recover_def)
qed

lemma release_health: "adapter_health release_adapter ''d'' True = (Inr \<lparr>h_revision_id = ''rev'', h_revision_digest = [],
    h_ready = True, h_smoke_passed = True\<rparr>, True)"
  by (simp add: release_adapter_def)



theorem lifecycle_applies_once_witness:
  "\<exists>new. cy_applied (lifecycle_runs release_env (Some release_adapter) release_spec [(True, ''o''), (False, ''p'')] release_world)
       = cy_applied release_world @ new \<and>
     (\<forall>e \<in> set new. intended release_spec (cy_registry (lifecycle_runs release_env (Some release_adapter) release_spec
       [(True, ''o''), (False, ''p'')] release_world)) e) \<and>
     (\<not> supports_idempotency release_adapter \<longrightarrow> length new + launched (ls_job release_spec) (cy_registry release_world) \<le> 1)"
  by (rule lifecycle_applies_once [where k = demo_release_codec and ops = release_ops])
    (simp_all add: release_world_def alone_def release_env_def)

definition deploying_ops :: "registry_op list" where
  "deploying_ops = release_ops @ [G_create ''j'' release_spec, G_claim ''j'' ''d'' ''o'' 10 5,
     G_advance (new_lifecycle ''j'') ''o'' (\<lambda>x. x\<lparr>lc_status := LEvaluated, lc_decision := Some ''r1''\<rparr>) 6 6,
     G_advance ((new_lifecycle ''j'')\<lparr>lc_status := LEvaluated, lc_decision := Some ''r1'', lc_version := 1\<rparr>) ''o''
       (\<lambda>x. x\<lparr>lc_status := LDeploying, lc_attempts := 1\<rparr>) 7 7, G_release ''j'' ''o'', G_create ''k'' release_spec]"

definition deploying_row :: lifecycle_row where
  "deploying_row = \<lparr>lr_digest = ''s'', lr_spec = release_spec, lr_state = (new_lifecycle ''j'')\<lparr>lc_status := LDeploying,
     lc_decision := Some ''r1'', lc_version := 2, lc_attempts := 1\<rparr>, lr_version = 2, lr_owner = None, lr_until = 0,
     lr_locked = Some ''d''\<rparr>"

definition stage_row :: "lifecycle_state \<Rightarrow> string option \<Rightarrow> flt \<Rightarrow> string option \<Rightarrow> lifecycle_row" where
  "stage_row st owner until locked = \<lparr>lr_digest = ''s'', lr_spec = release_spec, lr_state = st, lr_version = lc_version st,
     lr_owner = owner, lr_until = until, lr_locked = locked\<rparr>"

lemma stage_row_simps [simp]:
  "lr_state (stage_row st a u l) = st" "lr_version (stage_row st a u l) = lc_version st" "lr_owner (stage_row st a u l) = a"
  "lr_until (stage_row st a u l) = u" "lr_locked (stage_row st a u l) = l"
  "(stage_row st a u l)\<lparr>lr_owner := a', lr_until := u', lr_locked := l'\<rparr> = stage_row st a' u' l'"
  by (simp_all add: stage_row_def)

lemma advance_alone:
  assumes "rg_jobs g = [(''j'', stage_row st (Some ''o'') u l)]" and "lc_job st = ''j''" and "now < u"
    and "st' = (ch st)\<lparr>lc_version := lc_version st + 1\<rparr>" and "validate_stage st st' = Inr ()"
  shows "rg_jobs (registry_step k (G_advance st ''o'' ch now obs) g) = [(''j'', stage_row st' (Some ''o'') u l)]"
  using assms by (simp add: advance_lifecycle_def atomically_def advance_body_def Let_def stage_row_def)

lemma deploying_job: "lookup (rg_jobs (registry_run demo_release_codec deploying_ops empty_registry)) ''j'' = Some deploying_row"
proof -
  let ?k = demo_release_codec and ?g0 = "cy_registry release_world"
  let ?e = "(new_lifecycle ''j'')\<lparr>lc_status := LEvaluated, lc_decision := Some ''r1'', lc_version := 1\<rparr>"
  let ?d = "(new_lifecycle ''j'')\<lparr>lc_status := LDeploying, lc_decision := Some ''r1'', lc_version := 2, lc_attempts := 1\<rparr>"
  have canon: "sha256 ?k (spec_canonical ?k release_spec) = ''s''" by (simp add: spec_canonical_def demo_release_codec_def)
  let ?g1 = "registry_step ?k (G_create ''j'' release_spec) ?g0"
  have 1: "rg_jobs ?g1 = [(''j'', stage_row (new_lifecycle ''j'') None 0 None)]"
    by (simp add: create_job_def Let_def canon release_registry empty_registry_def read_lifecycle_def stage_row_def new_lifecycle_def)
  let ?g2 = "registry_step ?k (G_claim ''j'' ''d'' ''o'' 10 5) ?g1"
  have 2: "rg_jobs ?g2 = [(''j'', stage_row (new_lifecycle ''j'') (Some ''o'') 15 (Some ''d''))]"
    using 1 by (simp del: registry_step.simps(8) add: claim_lifecycle_def seq_def atomically_def claim_job_body_def
        read_lifecycle_def lock_taken_def lifecycle_job_def float_ops)
  let ?g3 = "registry_step ?k (G_advance (new_lifecycle ''j'') ''o'' (\<lambda>x. x\<lparr>lc_status := LEvaluated, lc_decision := Some ''r1''\<rparr>) 6 6) ?g2"
  have 3: "rg_jobs ?g3 = [(''j'', stage_row ?e (Some ''o'') 15 (Some ''d''))]"
    by (rule advance_alone [OF 2]) (simp_all add: new_lifecycle_def validate_stage_def)
  let ?g4 = "registry_step ?k (G_advance ?e ''o'' (\<lambda>x. x\<lparr>lc_status := LDeploying, lc_attempts := 1\<rparr>) 7 7) ?g3"
  have 4: "rg_jobs ?g4 = [(''j'', stage_row ?d (Some ''o'') 15 (Some ''d''))]"
    by (rule advance_alone [OF 3]) (simp_all add: new_lifecycle_def validate_stage_def)
  let ?g5 = "registry_step ?k (G_release ''j'' ''o'') ?g4"
  have 5: "rg_jobs ?g5 = [(''j'', stage_row ?d None 0 (Some ''d''))]"
    using 4 by (simp del: registry_step.simps(8,9,10) add: seq_def read_lifecycle_def lifecycle_job_def release_job_def
        release_row_def unlockable_def stage_row_def)
  let ?g6 = "registry_step ?k (G_create ''k'' release_spec) ?g5"
  have "lookup (rg_jobs ?g6) ''j'' = lookup (rg_jobs ?g5) ''j''"
    using 5 by (simp del: registry_step.simps(9,10,11) add: create_job_def Let_def read_lifecycle_def)
  moreover have "registry_run ?k deploying_ops empty_registry = ?g6"
    by (simp del: registry_step.simps add: registry_run_def deploying_ops_def release_world_def)
  ultimately show ?thesis using 5 by (simp add: stage_row_def deploying_row_def)
qed

theorem lifecycle_follows_graph_witness:
  "launches (new_lifecycle ''j'') (lifecycle_history ''j'' (registry_run demo_release_codec deploying_ops empty_registry)) \<le> 1 \<and>
     lr_state deploying_row = last (new_lifecycle ''j'' # lifecycle_history ''j'' (registry_run demo_release_codec deploying_ops empty_registry))"
  using lifecycle_follows_graph [OF deploying_job] by simp

theorem unresolved_deployment_is_locked_witness:
  "\<exists>dep. lr_locked deploying_row = Some dep \<and> (\<forall>owner seconds now. \<not> is_ok (fst (claim_lifecycle ''k'' dep owner seconds now
     (registry_run demo_release_codec deploying_ops empty_registry))))"
  using unresolved_deployment_is_locked [OF deploying_job, of "''k''"] by (auto simp: deploying_row_def)

end
