(* ===== verification/ReleaseActivation.thy ===== *)
theory ReleaseActivation
  imports LifecycleDemo
begin

text \<open>
  The release stages that tie the lifecycle to traffic and to the controller
  (\<open>registry/release_activation.py\<close>): preparing the baseline, acknowledging a promoted cutover and
  completing its probation.  The world of the worker is the traffic seen by the route adapter,
  the control store and the producer journal; the journal's artifact store is the worker's own.
\<close>

subsection \<open>The site of a release\<close>

record 'x site =
  st_traffic :: "'x traffic"
  st_control :: control_db
  st_journal :: journal

record 'x release_service =
  rl_env :: lifecycle_env
  rl_adapter :: route_adapter
  rl_net :: "'x net"
  rl_probe :: probe_parsers
  rl_control :: control_handle
  rl_cancel :: "nat \<Rightarrow> bool"

definition on_adapter :: "('x traffic, 'a) action \<Rightarrow> ('x site cycle, 'a) action" where
  "on_adapter f w = (case f (st_traffic (cy_world w)) of (r, t) \<Rightarrow> (r, w\<lparr>cy_world := (cy_world w)\<lparr>st_traffic := t\<rparr>\<rparr>))"

definition on_both :: "(stores, 'a) action \<Rightarrow> ('x site cycle, 'a) action" where
  "on_both f w = (let x = cy_world w in case f (tf_routes (st_traffic x), st_control x) of (r, db, c) \<Rightarrow>
     (r, w\<lparr>cy_world := x\<lparr>st_traffic := (st_traffic x)\<lparr>tf_routes := db\<rparr>, st_control := c\<rparr>\<rparr>))"

definition on_control :: "(control_db, 'a) action \<Rightarrow> (stores, 'a) action" where
  "on_control f s = (case f (snd s) of (r, c) \<Rightarrow> (r, fst s, c))"

definition on_journal :: "(journal, 'a) action \<Rightarrow> ('x site cycle, 'a) action" where
  "on_journal f w = (case f ((st_journal (cy_world w))\<lparr>jn_store := cy_store w\<rparr>) of (r, j) \<Rightarrow>
     (r, w\<lparr>cy_store := jn_store j, cy_world := (cy_world w)\<lparr>st_journal := j\<rparr>\<rparr>))"

text \<open>\<open>owned_disk\<close>: a cancellation waits for the worker thread and is then raised, whatever the thread
  did.\<close>

definition owned_disk :: "'x release_service \<Rightarrow> ('w cycle, 'a) action \<Rightarrow> ('w cycle, 'a) action" where
  "owned_disk rl f w = (case f w of (r, w') \<Rightarrow>
     (if rl_cancel rl (cy_tick w) then Inl CancelledError else r, w'\<lparr>cy_tick := Suc (cy_tick w')\<rparr>))"

definition site_health :: "'x release_service \<Rightarrow> string \<Rightarrow> ('x site cycle, health) action" where
  "site_health rl dep =
     on_adapter (route_health (le_codec (rl_env rl)) (rl_adapter rl) (rl_net rl) (rl_probe rl) dep)"

definition site_routes :: "(warm_db, 'a) action \<Rightarrow> ('x site cycle, 'a) action" where
  "site_routes f = on_adapter (on_routes f)"

subsection \<open>Preparing the baseline\<close>

definition backend_of :: "'z warm_codec_scheme \<Rightarrow> revision \<Rightarrow> serving_profile \<Rightarrow> warm_backend res" where
  "backend_of cd rv p =
     (let f = \<lparr>cf_base_url = pr_base_url p, cf_model = pr_served_model p, cf_credential_env = None\<rparr>;
          b = \<lparr>wb_revision = rv, wb_configuration = f, wb_profile = Some p\<rparr> in
      bind_res (ensure (valid_configuration cd f) (ValueError ''backend configuration'')) (\<lambda>_.
      bind_res (configuration_matches cd b) (\<lambda>_. Inr b)))"

definition register_profile :: "'x release_service \<Rightarrow> revision \<Rightarrow> artifact_ref \<Rightarrow> ('x site cycle, unit) action" where
  "register_profile rl rv ref = (let k = le_codec (rl_env rl) in
     seq (on_store (read_profile k ref)) (\<lambda>p.
     seq (fallible (backend_of k rv p)) (\<lambda>b. site_routes (register (ra_store (rl_adapter rl)) b))))"

definition baseline_snapshot :: "'x release_service \<Rightarrow> lifecycle_spec \<Rightarrow> ('x site cycle, route) action" where
  "baseline_snapshot rl s = (let h = ra_store (rl_adapter rl); env = rl_env rl in
     recover (site_routes (route_snapshot h (ls_deployment s))) (\<lambda>e.
       if \<not> is_key_error e then raise e
       else if ls_expected_generation s \<noteq> 0
       then raise (ControlConflict ''missing baseline route for noninitial release'')
       else (\<lambda>w. site_routes (bootstrap_route (le_codec env) h (ls_deployment s) (ls_expected_revision s) (clock_at env w 0)) w)))"

definition prepare_body :: "'x release_service \<Rightarrow> string \<Rightarrow> ('x site cycle, lifecycle_spec) action" where
  "prepare_body rl j = (let env = rl_env rl in
     seq (evaluate_gate env j) (\<lambda>x.
     if go_status x \<noteq> Gate_approved then raise (ValueError ''route preparation requires approved canonical evidence'') else
     seq (reg env (job_specification j)) (\<lambda>s.
     seq (reg env (gate_input j)) (\<lambda>q.
     seq (reg env (registered_revision (ls_expected_revision s))) (\<lambda>rv.
     seq (register_profile rl rv (gr_baseline q)) (\<lambda>_.
     seq (register_profile rl (ls_target s) (gr_candidate q)) (\<lambda>_.
     seq (baseline_snapshot rl s) (\<lambda>r.
     if (ro_revision r, ro_generation r) \<noteq> (ls_expected_revision s, ls_expected_generation s)
     then raise (ControlConflict ''release baseline differs from current traffic'') else return s))))))))"

definition prepare_release :: "'x release_service \<Rightarrow> string \<Rightarrow> ('x site cycle, deployment_state) action" where
  "prepare_release rl j = (let env = rl_env rl in
     seq (owned_disk rl (prepare_body rl j)) (\<lambda>s.
     seq (site_health rl (ls_deployment s)) (\<lambda>hl.
     seq (owned_disk rl (reg env (registered_revision (ls_expected_revision s)))) (\<lambda>rv.
     owned_disk rl (on_both (acknowledge_baseline (le_codec env) (ra_store (rl_adapter rl)) (rl_control rl)
       (ls_deployment s) rv (ls_expected_generation s) hl))))))"

subsection \<open>Acknowledging a promoted cutover\<close>

definition approved_activation :: "lifecycle_env \<Rightarrow> string \<Rightarrow> ('w cycle, apply_request \<times> decision) action" where
  "approved_activation env j =
     seq (reg env (job_specification j)) (\<lambda>s.
     seq (evaluate_gate env j) (\<lambda>x.
     seq (reg env (read_lifecycle j)) (\<lambda>st.
     case go_decision x of
       None \<Rightarrow> raise (ValueError ''activation acknowledgment requires a verified canonical deployment'')
     | Some did \<Rightarrow>
         if go_status x \<noteq> Gate_approved \<or> lc_status st \<noteq> LPromoted \<or> lc_error st \<noteq> None \<or> lc_decision st \<noteq> Some did
         then raise (ValueError ''activation acknowledgment requires a verified canonical deployment'')
         else seq (reg env (registered_decision did)) (\<lambda>d. return (lifecycle_request s, d)))))"

definition acknowledge_release :: "'x release_service \<Rightarrow> string \<Rightarrow> ('x site cycle, deployment_state) action" where
  "acknowledge_release rl j = (let env = rl_env rl; ch = rl_control rl in
     seq (owned_disk rl (approved_activation env j)) (\<lambda>(q, d).
     seq (site_health rl (q_deployment_id q)) (\<lambda>hl.
     owned_disk rl (on_both (seq (on_control (register_revision (ch_identity ch) (q_target q))) (\<lambda>_.
       acknowledge_candidate (le_codec env) (ra_store (rl_adapter rl)) ch q d hl))))))"

subsection \<open>Completing probation\<close>

definition complete_probation :: "'x release_service \<Rightarrow> monitor_codec \<Rightarrow> monitor_policy \<Rightarrow> string
    \<Rightarrow> ('x site cycle, deployment_state) action" where
  "complete_probation rl mc p j = (let env = rl_env rl; k = le_codec env in
     seq (owned_disk rl (approved_activation env j)) (\<lambda>(q, d).
     if mp_deployment p \<noteq> q_deployment_id q \<or> mp_revision p \<noteq> revision_id (q_target q) \<or>
        mp_digest p \<noteq> revision_digest k (q_target q) \<or> mp_generation p \<noteq> q_expected_generation q + 1
     then raise (ValueError ''probation monitor differs from canonical lifecycle activation'') else
     seq (owned_disk rl (on_journal (healthy_window mc p))) (\<lambda>evidence.
     seq (site_health rl (q_deployment_id q)) (\<lambda>hl.
     owned_disk rl (\<lambda>w. on_both (stabilize_candidate k (ra_store (rl_adapter rl)) (rl_control rl) q d hl
       (af_sha256 evidence) (clock_at env w 0)) w)))))"

subsection \<open>A promotion is final\<close>

definition promotions_stay :: "registry \<Rightarrow> registry \<Rightarrow> bool" where
  "promotions_stay g g' \<longleftrightarrow> (\<forall>j row. lookup (rg_jobs g) j = Some row \<longrightarrow> lc_status (lr_state row) = LPromoted \<longrightarrow>
     (\<exists>row'. lookup (rg_jobs g') j = Some row' \<and> lr_state row' = lr_state row))"

interpretation final: effect promotions_stay
  by unfold_locales (auto simp: promotions_stay_def, metis)

lemma promotions_stay_files: "files_only g g' \<Longrightarrow> promotions_stay g g'"
  by (simp add: promotions_stay_def files_only_def)

lemma promotions_stay_claim: "promotions_stay g (snd (claim_lifecycle j dep owner seconds now g))"
proof -
  obtain r g' where c: "claim_lifecycle j dep owner seconds now g = (r, g')" by fastforce
  then show ?thesis by (cases rule: claim_cases) (auto simp: c promotions_stay_def lookup_upsert)
qed

lemma promotions_stay_advance: "promotions_stay g (snd (advance_lifecycle s owner changes now observed g))"
proof -
  obtain r g' where a: "advance_lifecycle s owner changes now observed g = (r, g')" by fastforce
  then show ?thesis
    by (cases rule: advance_cases) (auto simp: a promotions_stay_def lookup_upsert validate_stage_def res_iff)
qed

lemma promotions_stay_release: "promotions_stay g (snd (release_job j owner seen g))"
  by (auto simp: release_job_def promotions_stay_def lookup_upsert release_row_def split: option.splits)

lemma promotions_stay_create: "promotions_stay g (snd (create_job k j s g))"
  by (cases rule: create_job_cases [where k = k and j = j and s = s and g = g])
    (auto simp: promotions_stay_def lookup_append_new simp del: map_of_append)

lemma promotions_stay_step: "promotions_stay g (registry_step k op g)"
  by (cases op) (auto intro: promotions_stay_files promotions_stay_claim promotions_stay_advance promotions_stay_create
      intro!: final.seq_steps promotions_stay_release)

lemma promotions_stay_run: "promotions_stay g (registry_run k ops g)"
proof (induction ops arbitrary: g)
  case (Cons op ops)
  from final.trans [OF promotions_stay_step Cons.IH] show ?case by (simp add: registry_run_def)
qed (simp add: registry_run_def final.refl)

subsection \<open>What an approved activation is\<close>

lemma on_both_Inr:
  "on_both f w = (Inr a, w') \<longleftrightarrow> (\<exists>db c. f (tf_routes (st_traffic (cy_world w)), st_control (cy_world w)) = (Inr a, db, c) \<and>
     w' = w\<lparr>cy_world := (cy_world w)\<lparr>st_traffic := (st_traffic (cy_world w))\<lparr>tf_routes := db\<rparr>, st_control := c\<rparr>\<rparr>)"
  by (auto simp: on_both_def Let_def split: prod.splits)

lemma owned_disk_Inr:
  "owned_disk rl f w = (Inr a, w') \<longleftrightarrow> \<not> rl_cancel rl (cy_tick w) \<and> (\<exists>w1. f w = (Inr a, w1) \<and> w' = w1\<lparr>cy_tick := Suc (cy_tick w1)\<rparr>)"
  by (auto simp: owned_disk_def split: prod.splits if_splits)

lemma site_health_keeps:
  "site_health rl dep w = (r, w') \<Longrightarrow> cy_registry w' = cy_registry w \<and> cy_store w' = cy_store w"
  by (auto simp: site_health_def on_adapter_def split: prod.splits)

lemma approved_activation_Inr:
  assumes "approved_activation env j w = (Inr (q, d), w')"
  shows "calm env w w'" and "\<exists>row did. lookup (rg_jobs (cy_registry w')) j = Some row \<and> q = lifecycle_request (lr_spec row) \<and>
     lc_status (lr_state row) = LPromoted \<and> lc_error (lr_state row) = None \<and> lc_decision (lr_state row) = Some did \<and>
     recorded_judgement (le_codec env) (cy_store w) (lr_spec row) did (cy_registry w') \<and>
     (\<exists>dg r. lookup (rg_decisions (cy_registry w')) did = Some (dg, d, r))"
proof -
  let ?k = "le_codec env"
  from assms obtain s w1 x w2 st w3 did where
    1: "reg env (job_specification j) w = (Inr s, w1)" and 2: "evaluate_gate env j w1 = (Inr x, w2)"
    and 3: "reg env (read_lifecycle j) w2 = (Inr st, w3)" and 4: "go_decision x = Some did"
    and st: "lc_status st = LPromoted" "lc_error st = None" "lc_decision st = Some did"
    and 5: "reg env (registered_decision did) w3 = (Inr d, w')" and q: "q = lifecycle_request s"
    unfolding approved_activation_def by (auto simp: seq_Inr_iff split: option.splits if_splits)
  have c1: "calm env w w1" using calm_reg [where f = "job_specification j" and env = env and w = w, OF faithful_simple(12)] 1 by simp
  have c2: "calm env w1 w2" using calm_gate [of env w1 j] 2 by simp
  have c3: "calm env w2 w3" using calm_reg [where f = "read_lifecycle j" and env = env and w = w2, OF faithful_simple(11)] 3 by simp
  have c4: "calm env w3 w'" using calm_reg [where f = "registered_decision did" and env = env and w = w3, OF faithful_simple(9)] 5 by simp
  show "calm env w w'" using c1 c2 c3 c4 calm_trans by blast
  have s1: "specified j s (cy_registry w1)"
    using 1 by (auto simp: reg_Inr job_specification_def specified_def split: option.splits)
  have judged: "recorded_judgement ?k (cy_store w) s did (cy_registry w2)"
    using gate_Inr [OF 2 s1 4] c1 by (simp add: calm_def)
  have rest: "calm env w2 w'" using c3 c4 calm_trans by blast
  have "specified j s (cy_registry w2)" using s1 c2 by (auto simp: calm_def intro: specified_kept)
  then have "specified j s (cy_registry w')" using rest by (auto simp: calm_def intro: specified_kept)
  then obtain row where row: "lookup (rg_jobs (cy_registry w')) j = Some row" "lr_spec row = s"
    by (auto simp: specified_def)
  have reg: "cy_registry w' = meanwhile env w3" "\<exists>dg r. lookup (rg_decisions (cy_registry w')) did = Some (dg, d, r)"
    using 5 by (auto simp: reg_Inr registered_decision_def payload_of_def res_iff split: option.splits)
  from 3 obtain row3 where "lookup (rg_jobs (cy_registry w3)) j = Some row3" "lr_state row3 = st"
    by (auto simp: reg_Inr read_lifecycle_def lifecycle_job_def split: option.splits)
  then obtain row4 where "lookup (rg_jobs (meanwhile env w3)) j = Some row4" "lr_state row4 = st"
    using promotions_stay_run [of "cy_registry w3" ?k "le_others env (cy_tick w3)"] st(1)
    unfolding promotions_stay_def meanwhile_def by metis
  with row(1) reg(1) have "lr_state row = st" by simp
  moreover have "recorded_judgement ?k (cy_store w) s did (cy_registry w')"
    using recorded_judgement_grows [OF judged calm_grows [OF rest]] .
  ultimately show "\<exists>row did. lookup (rg_jobs (cy_registry w')) j = Some row \<and> q = lifecycle_request (lr_spec row) \<and>
     lc_status (lr_state row) = LPromoted \<and> lc_error (lr_state row) = None \<and> lc_decision (lr_state row) = Some did \<and>
     recorded_judgement ?k (cy_store w) (lr_spec row) did (cy_registry w') \<and>
     (\<exists>dg r. lookup (rg_decisions (cy_registry w')) did = Some (dg, d, r))"
    using row st q reg(2) by blast
qed

lemma judgement_agrees:
  assumes "recorded_judgement k st s did g" and "lookup (rg_decisions g) did = Some (dg, d, r)"
    and "sound k g" and "no_collision k g"
  shows "\<exists>b c. judged k st s b c = Inr d"
proof -
  from assms(1,2) obtain b c d' where j: "judged k st s b c = Inr d'" and "dg = sha256 k (rk_decision_json k d')"
    unfolding recorded_judgement_def by auto
  moreover have "dg = sha256 k (rk_decision_json k d)" using assms(2,3) unfolding sound_def by blast
  ultimately have "d' = d" using assms(2,4) unfolding no_collision_def by metis
  with j show ?thesis by blast
qed

text \<open>An acknowledged release ties four records together: the lifecycle job is promoted without
  an error, its recorded decision approves the target and is the one the promotion gate measures
  from the registered artifacts, the route's persisted action under the lifecycle key is the
  current route, one generation past the expected one and on the target, and the controller
  names exactly that generation and revision after health of the target was observed.\<close>

theorem acknowledged_release_is_earned:
  assumes "acknowledge_release rl j w = (Inr d, w')"
    and "cy_registry w = registry_run (le_codec (rl_env rl)) ops empty_registry"
    and "no_collision (le_codec (rl_env rl)) (cy_registry w')"
  shows "\<exists>row did dg dec run left right e suite r fp hl.
     lookup (rg_jobs (cy_registry w')) j = Some row \<and> lc_status (lr_state row) = LPromoted \<and>
     lc_decision (lr_state row) = Some did \<and> lookup (rg_decisions (cy_registry w')) did = Some (dg, dec, run) \<and>
     approved dec \<and> measured_decision (le_codec (rl_env rl)) (lk_parsers (le_codec (rl_env rl))) (lk_quality (le_codec (rl_env rl)))
       (still_files left) (still_files right) e suite (ls_policy (lr_spec row)) (ls_target (lr_spec row)) = Inr dec \<and>
     lookup (w_routes (tf_routes (st_traffic (cy_world w')))) (ls_deployment (lr_spec row)) = Some r \<and>
     lookup (w_actions (tf_routes (st_traffic (cy_world w')))) (''lifecycle-'' @ ls_job (lr_spec row)) = Some (fp, r) \<and>
     lookup (c_deployments (st_control (cy_world w'))) (ls_deployment (lr_spec row)) = Some d \<and>
     d_generation d = ro_generation r \<and> ro_generation r = ls_expected_generation (lr_spec row) + 1 \<and>
     d_active_revision d = ro_revision r \<and> ro_revision r = revision_id (ls_target (lr_spec row)) \<and>
     verifies (le_codec (rl_env rl)) hl (ls_target (lr_spec row))"
proof -
  let ?env = "rl_env rl" and ?k = "le_codec (rl_env rl)" and ?ch = "rl_control rl"
  from assms(1) obtain q dec w1 hl w2 w3 where 1: "approved_activation ?env j w = (Inr (q, dec), w1)"
    and 2: "site_health rl (q_deployment_id q) (w1\<lparr>cy_tick := Suc (cy_tick w1)\<rparr>) = (Inr hl, w2)"
    and 3: "on_both (seq (on_control (register_revision (ch_identity ?ch) (q_target q))) (\<lambda>_.
       acknowledge_candidate ?k (ra_store (rl_adapter rl)) ?ch q dec hl)) w2 = (Inr d, w3)"
    and w': "w' = w3\<lparr>cy_tick := Suc (cy_tick w3)\<rparr>"
    unfolding acknowledge_release_def Let_def by (auto simp: seq_Inr_iff owned_disk_Inr split: prod.splits)
  note act = approved_activation_Inr [OF 1]
  from 3 obtain s0 u s1 where both: "on_control (register_revision (ch_identity ?ch) (q_target q))
      (tf_routes (st_traffic (cy_world w2)), st_control (cy_world w2)) = (Inr u, s0)"
    "acknowledge_candidate ?k (ra_store (rl_adapter rl)) ?ch q dec hl s0 = (Inr d, s1)"
    "tf_routes (st_traffic (cy_world w3)) = fst s1" "st_control (cy_world w3) = snd s1"
    and reg3: "cy_registry w3 = cy_registry w2"
    by (auto simp: on_both_Inr seq_Inr_iff)
  have reg: "cy_registry w' = cy_registry w1" using site_health_keeps [OF 2] reg3 w' by simp
  from act(2) obtain row did dg run where row: "lookup (rg_jobs (cy_registry w')) j = Some row"
    "q = lifecycle_request (lr_spec row)" "lc_status (lr_state row) = LPromoted" "lc_decision (lr_state row) = Some did"
    and rec: "recorded_judgement ?k (cy_store w) (lr_spec row) did (cy_registry w')"
    "lookup (rg_decisions (cy_registry w')) did = Some (dg, dec, run)" unfolding reg by blast
  note agreed = acknowledged_route [OF both(2)]
  then have ok: "approved dec" by blast
  have "sound ?k (cy_registry w')"
    using act(1) assms(2) reachable_sound [of ?k ops] by (simp add: reg calm_def faithful_def)
  from judgement_agrees [OF rec this assms(3)] judged_approved ok obtain left right e suite where
    "measured_decision ?k (lk_parsers ?k) (lk_quality ?k) (still_files left) (still_files right) e suite
       (ls_policy (lr_spec row)) (ls_target (lr_spec row)) = Inr dec" by metis
  moreover have "fst s1 = tf_routes (st_traffic (cy_world w'))" "snd s1 = st_control (cy_world w')"
    using both(3,4) w' by simp_all
  moreover have q: "q_deployment_id q = ls_deployment (lr_spec row)" "q_idempotency_key q = ''lifecycle-'' @ ls_job (lr_spec row)"
    "q_target q = ls_target (lr_spec row)" "q_expected_generation q = ls_expected_generation (lr_spec row)"
    by (simp_all add: row(2) lifecycle_request_def)
  ultimately show ?thesis using agreed row(1,3,4) rec(2) ok by metis
qed

end
