(* ===== verification/RuntimeSpec.thy ===== *)
theory RuntimeSpec
  imports ReleaseActivation
begin

text \<open>
  The frozen launch of a local engine (\<open>contracts/managed_runtime.py\<close>, \<open>RuntimeBuildSpec\<close> and
  \<open>RuntimeImage\<close> of \<open>registry/runtime_build.py\<close>) and the validation of what Docker says of a
  container and of its image (\<open>inspect_runtime\<close> of \<open>registry/managed_runtime.py\<close>,
  \<open>verify_image_inspection\<close>).  Docker's documents are arbitrary JSON values: a missing key is a
  \<open>KeyError\<close>, a subscript of a value that has none a \<open>TypeError\<close>.  JSON texts, SHA-256, the URL
  grammar and the validation of engine parameters are parameters.
\<close>

subsection \<open>Launch specifications\<close>

record build_spec =
  bs_source :: string
  bs_manifest :: string
  bs_maximum :: nat
  bs_timeout :: flt

record runtime_image =
  im_spec :: build_spec
  im_archive :: string
  im_config :: string
  im_manifest :: string
  im_local :: string

record launch_spec =
  lp_image :: runtime_image
  lp_profile :: serving_profile
  lp_revision :: revision
  lp_model_revision :: string
  lp_model_digest :: string
  lp_directory :: string
  lp_memory :: nat
  lp_pids :: nat
  lp_readiness :: flt
  lp_shutdown :: nat

record url_address = url_parts +
  ur_port :: "nat option"

record runtime_codec = route_codec +
  uk_spec_json :: "launch_spec \<Rightarrow> string"
  uk_dumps :: "json \<Rightarrow> string"
  uk_loads :: "string \<Rightarrow> json res"
  uk_url :: "string \<Rightarrow> url_address"
  uk_sequences :: "string \<Rightarrow> nat res"

definition mount_delimiter :: "string \<Rightarrow> bool" where
  "mount_delimiter s \<longleftrightarrow> list_ex (\<lambda>c. c \<in> {CHR '','', CHR 0x22, CHR 0x0A, CHR 0x0D}) s"

definition absolute_path :: "string \<Rightarrow> bool" where
  "absolute_path s \<longleftrightarrow> s \<noteq> [] \<and> hd s = CHR ''/''"

text \<open>The field constraints and \<open>exact_runtime\<close>; the last check parses the engine parameters.\<close>

definition launch_fields :: "launch_spec \<Rightarrow> bool" where
  "launch_fields s \<longleftrightarrow> 4096 \<le> lp_memory s \<and> lp_memory s \<le> 32768 \<and> 128 \<le> lp_pids s \<and> lp_pids s \<le> 2048 \<and>
     0 < lp_readiness s \<and> lp_readiness s \<le> 900 \<and> 1 \<le> lp_shutdown s \<and> lp_shutdown s \<le> 60"

definition local_endpoint :: "'z runtime_codec_scheme \<Rightarrow> serving_profile \<Rightarrow> bool" where
  "local_endpoint k p \<longleftrightarrow> (let u = uk_url k (pr_base_url p) in
     ur_scheme u = ''http'' \<and> ur_host u = ''127.0.0.1'' \<and>
     (case ur_port u of None \<Rightarrow> False | Some n \<Rightarrow> 1024 \<le> n \<and> n \<le> 65535) \<and> pr_credential_env p = None)"

definition exact_identity :: "launch_spec \<Rightarrow> bool" where
  "exact_identity s \<longleftrightarrow> (let p = lp_profile s; r = lp_revision s; b = im_spec (lp_image s) in
     pr_engine p = ''vllm'' \<and> pr_engine_version p = ''0.29.0'' \<and> image_digest r = im_manifest (lp_image s) \<and>
     source_revision r = bs_source b \<and> pr_model_manifest p = bs_manifest b \<and>
     lp_model_revision s = pr_model_revision p \<and> pr_tokenizer_revision p = lp_model_revision s \<and>
     pr_tokenizer_manifest p = pr_model_manifest p \<and> absolute_path (lp_directory s) \<and>
     \<not> mount_delimiter (lp_directory s))"

definition make_launch :: "'z runtime_codec_scheme \<Rightarrow> launch_spec \<Rightarrow> launch_spec res" where
  "make_launch k s =
     bind_res (ensure (launch_fields s) (ValueError ''launch specification'')) (\<lambda>_.
     bind_res (verify_revision k (lp_profile s) (lp_revision s)) (\<lambda>_.
     bind_res (ensure (local_endpoint k (lp_profile s))
       (ValueError ''local managed runtime requires an unauthenticated loopback endpoint'')) (\<lambda>_.
     bind_res (ensure (exact_identity s)
       (ValueError ''managed runtime identity differs from verified producer inputs'')) (\<lambda>_.
     bind_res (uk_sequences k (pr_parameters_json (lp_profile s))) (\<lambda>_. Inr s)))))"

definition launch_digest :: "'z runtime_codec_scheme \<Rightarrow> launch_spec \<Rightarrow> string" where
  "launch_digest k s = sha256 k (uk_spec_json k s)"

record runtime_receipt =
  rr_specification :: string
  rr_attempt :: string
  rr_container :: string
  rr_started :: string
  rr_observed :: flt
  rr_elapsed :: flt
  rr_output :: string

definition attempt_token :: "string \<Rightarrow> bool" where
  "attempt_token a \<longleftrightarrow> length a = 32 \<and> list_all lower_hex a"

definition make_receipt :: "runtime_receipt \<Rightarrow> runtime_receipt res" where
  "make_receipt r = bind_res (ensure (is_sha256 (rr_specification r) \<and> attempt_token (rr_attempt r) \<and>
       is_sha256 (rr_container r) \<and> rr_started r \<noteq> [] \<and> 0 < rr_observed r \<and> 0 \<le> rr_elapsed r)
     (ValueError ''runtime receipt'')) (\<lambda>_. Inr r)"

subsection \<open>Reading documents\<close>

fun item_of :: "json \<Rightarrow> string \<Rightarrow> json res" where
  "item_of (JObj d) k = (case field_of d k of None \<Rightarrow> Inl (KeyError k) | Some v \<Rightarrow> Inr v)"
| "item_of _ k = Inl (TypeError ''not subscriptable by a name'')"

fun get_of :: "json \<Rightarrow> string \<Rightarrow> json \<Rightarrow> json res" where
  "get_of (JObj d) k v = Inr (case field_of d k of None \<Rightarrow> v | Some w \<Rightarrow> w)"
| "get_of _ k v = Inl (Other ''AttributeError'')"

fun elements :: "json \<Rightarrow> json list res" where
  "elements (JArr xs) = Inr xs"
| "elements (JObj d) = Inr (map (\<lambda>k. JStr k) (remdups (map fst d)))"
| "elements (JStr s) = Inr (map (\<lambda>c. JStr [c]) s)"
| "elements _ = Inl (TypeError ''not iterable'')"

fun number_of :: "json \<Rightarrow> flt option" where
  "number_of (JInt i) = Some (of_int i)"
| "number_of (JFloat q) = Some q"
| "number_of (JBool b) = Some (if b then 1 else 0)"
| "number_of _ = None"

text \<open>Python's \<open>==\<close> of a decoded value with a literal: numbers by value, mappings by their items.\<close>

fun equals :: "json \<Rightarrow> json \<Rightarrow> bool" and equals_items :: "(string \<times> json) list \<Rightarrow> (string \<times> json) list \<Rightarrow> bool"
  and equals_list :: "json list \<Rightarrow> json list \<Rightarrow> bool" where
  "equals v (JObj es) = (case v of JObj d \<Rightarrow> fst ` set d \<subseteq> fst ` set es \<and> equals_items d es | _ \<Rightarrow> False)"
| "equals v (JArr es) = (case v of JArr xs \<Rightarrow> equals_list xs es | _ \<Rightarrow> False)"
| "equals v e = (if number_of v \<noteq> None \<and> number_of e \<noteq> None then number_of v = number_of e else v = e)"
| "equals_items d [] = True"
| "equals_items d ((k, e) # es) =
     ((case field_of d k of None \<Rightarrow> False | Some v \<Rightarrow> equals v e) \<and> equals_items d es)"
| "equals_list [] [] = True"
| "equals_list (v # vs) (e # es) = (equals v e \<and> equals_list vs es)"
| "equals_list _ _ = False"

text \<open>Conditions joined by \<open>or\<close>, each of which may raise.\<close>

fun any_holds :: "bool res list \<Rightarrow> bool res" where
  "any_holds [] = Inr False"
| "any_holds (c # cs) = bind_res c (\<lambda>b. if b then Inr True else any_holds cs)"

definition differs :: "json res \<Rightarrow> json \<Rightarrow> bool res" where
  "differs r e = bind_res r (\<lambda>v. Inr (\<not> equals v e))"

lemma any_holds_False [res_iff]: "any_holds cs = Inr False \<longleftrightarrow> (\<forall>c \<in> set cs. c = Inr False)"
  by (induction cs) (auto simp: res_iff)

lemma differs_False [res_iff]: "differs r e = Inr False \<longleftrightarrow> (\<exists>v. r = Inr v \<and> equals v e)"
  by (auto simp: differs_def res_iff)

text \<open>\<open>sorted\<close> of a list of texts; Docker's environment has no other entries, which would be
  compared with texts and raise.\<close>

fun texts_of :: "json list \<Rightarrow> string list res" where
  "texts_of [] = Inr []"
| "texts_of (JStr s # vs) = bind_res (texts_of vs) (\<lambda>ts. Inr (s # ts))"
| "texts_of (_ # vs) = Inl (TypeError ''unorderable environment'')"

definition sorted_texts :: "json \<Rightarrow> string list res" where
  "sorted_texts v = bind_res (elements v) (\<lambda>vs. bind_res (texts_of vs) (\<lambda>ts. Inr (sort ts)))"

definition text_matches :: "(string \<Rightarrow> bool) \<Rightarrow> json \<Rightarrow> bool res" where
  "text_matches P v = (case v of JStr s \<Rightarrow> Inr (P s) | _ \<Rightarrow> Inl (TypeError ''expected string''))"

definition bounded_json :: "'z runtime_codec_scheme \<Rightarrow> string \<Rightarrow> json res" where
  "bounded_json k content =
     (if 4 * 1024 ^ 2 < length content then Inl (ValueError ''producer metadata exceeds byte limit'')
      else uk_loads k content)"

subsection \<open>Images\<close>

definition expected_labels :: "build_spec \<Rightarrow> (string \<times> string) list" where
  "expected_labels s =
     [(''org.opencontainers.image.revision'', bs_source s), (''finserve.model_manifest_sha256'', bs_manifest s),
      (''finserve.engine'', ''vllm''), (''finserve.engine_version'', ''0.29.0'')]"

definition single_item :: "json \<Rightarrow> string \<Rightarrow> json res" where
  "single_item doc message = (case doc of JArr [v] \<Rightarrow> Inr v | _ \<Rightarrow> Inl (ValueError message))"

definition verify_image_inspection :: "json \<Rightarrow> runtime_image \<Rightarrow> unit res" where
  "verify_image_inspection doc img =
     bind_res (single_item doc ''exactly one inspected image required'') (\<lambda>v.
     bind_res (bind_res (item_of v ''Config'') (\<lambda>c. item_of c ''Labels'')) (\<lambda>labels.
     bind_res (any_holds (
       [differs (item_of v ''Id'') (JStr (im_local img)),
        Inr (im_local img \<notin> {im_config img, im_manifest img}),
        bind_res (get_of v ''Descriptor'' JNull) (\<lambda>x. if x = JNull then Inr False
          else differs (item_of x ''digest'') (JStr (im_manifest img))),
        differs (item_of v ''Os'') (JStr ''linux''),
        differs (item_of v ''Architecture'') (JStr ''amd64'')] @
       map (\<lambda>(key, e). differs (get_of labels key JNull) (JStr e)) (expected_labels (im_spec img)))) (\<lambda>bad.
     ensure (\<not> bad) (ValueError ''inspected image differs from build evidence''))))"

subsection \<open>Containers\<close>

definition runtime_name :: "string \<Rightarrow> string res" where
  "runtime_name a = (if attempt_token a then Inr (''finserve-runtime-'' @ a)
     else Inl (ValueError ''exact producer attempt token required''))"

text \<open>The read-only binds, from destination to source, as a dictionary is built.\<close>

fun hashable :: "json \<Rightarrow> bool" where
  "hashable (JArr _) = False" | "hashable (JObj _) = False" | "hashable _ = True"

fun read_only_binds :: "json list \<Rightarrow> (json \<times> json) list res" where
  "read_only_binds [] = Inr []"
| "read_only_binds (v # vs) =
     bind_res (item_of v ''Type'') (\<lambda>kind.
     bind_res (if equals kind (JStr ''bind'') then bind_res (item_of v ''RW'') (\<lambda>rw. Inr (rw = JBool False)) else Inr False) (\<lambda>kept.
     bind_res (if \<not> kept then Inr []
       else bind_res (item_of v ''Destination'') (\<lambda>d. bind_res (item_of v ''Source'') (\<lambda>s.
         if hashable d then Inr [(d, s)] else Inl (TypeError ''unhashable destination'')))) (\<lambda>xs.
     bind_res (read_only_binds vs) (\<lambda>rest. Inr (xs @ rest)))))"

definition same_mounts :: "(json \<times> json) list \<Rightarrow> (string \<times> string) list \<Rightarrow> bool" where
  "same_mounts actual expected \<longleftrightarrow> fst ` set actual \<subseteq> (\<lambda>(d, _). JStr d) ` set expected \<and>
     list_all (\<lambda>(d, s). lookup (rev actual) (JStr d) = Some (JStr s)) expected"

definition engine_arguments :: "'z runtime_codec_scheme \<Rightarrow> launch_spec \<Rightarrow> string list" where
  "engine_arguments k s =
     [''--profile-sha256'', profile_digest k (lp_profile s), ''--expected-model'', pr_served_model (lp_profile s),
      ''--expected-base-url'', pr_base_url (lp_profile s)]"

definition port_text :: "'z runtime_codec_scheme \<Rightarrow> launch_spec \<Rightarrow> string" where
  "port_text k s = (case ur_port (uk_url k (pr_base_url (lp_profile s))) of None \<Rightarrow> ''None'' | Some n \<Rightarrow> decimal n)"

abbreviation mebibytes :: "nat \<Rightarrow> json" where
  "mebibytes n \<equiv> JInt (int (n * 1024 ^ 2))"

definition profile_path :: "string \<Rightarrow> string" where
  "profile_path dir = dir @ ''/profile.json''"

definition config_checks :: "'z runtime_codec_scheme \<Rightarrow> launch_spec \<Rightarrow> string \<Rightarrow> json \<Rightarrow> json \<Rightarrow> json \<Rightarrow> json \<Rightarrow> bool res list" where
  "config_checks k s aid item config labels environment =
     [bind_res (item_of item ''Id'') (text_matches (\<lambda>t. \<not> is_sha256 t)),
      bind_res (runtime_name aid) (\<lambda>name. differs (item_of item ''Name'') (JStr (CHR ''/'' # name))),
      differs (item_of item ''Image'') (JStr (im_local (lp_image s))),
      differs (item_of config ''Image'') (JStr (im_local (lp_image s))),
      differs (item_of config ''Entrypoint'') (JArr [JStr ''python3'', JStr ''-m'', JStr ''finserve.registry.engine_entrypoint'']),
      differs (get_of config ''Cmd'' JNull) (JArr (map JStr (engine_arguments k s))),
      differs (item_of config ''User'') (JStr ''10001:10001''),
      bind_res (bind_res (get_of config ''Env'' (JArr [])) sorted_texts) (\<lambda>xs.
        bind_res (sorted_texts environment) (\<lambda>ys. Inr (xs \<noteq> ys))),
      differs (get_of labels ''finserve.runtime-attempt'' JNull) (JStr aid),
      differs (get_of labels ''finserve.runtime-specification'' JNull) (JStr (launch_digest k s))]"

definition host_checks :: "'z runtime_codec_scheme \<Rightarrow> launch_spec \<Rightarrow> json \<Rightarrow> bool res list" where
  "host_checks k s host =
     [bind_res (item_of host ''ReadonlyRootfs'') (\<lambda>v. Inr (v \<noteq> JBool True)),
      bind_res (item_of host ''Privileged'') (\<lambda>v. Inr (v \<noteq> JBool False)),
      differs (item_of host ''Memory'') (mebibytes (lp_memory s)),
      differs (item_of host ''MemorySwap'') (mebibytes (lp_memory s)),
      differs (item_of host ''PidsLimit'') (JInt (int (lp_pids s)))] @
     map (\<lambda>f. bind_res (get_of host f JNull) (\<lambda>v. Inr (v \<notin> {JNull, JArr []})))
       [''CapAdd'', ''CapDrop'', ''Devices'', ''Binds'', ''SecurityOpt'', ''GroupAdd'', ''VolumesFrom'', ''ExtraHosts'',
        ''DeviceCgroupRules''] @
     [differs (get_of host ''RestartPolicy'' JNull) (JObj [(''Name'', JStr ''no''), (''MaximumRetryCount'', JInt 0)]),
      differs (get_of host ''PidMode'' JNull) (JStr []),
      differs (get_of host ''IpcMode'' JNull) (JStr ''private''),
      differs (get_of host ''UTSMode'' JNull) (JStr []),
      differs (get_of host ''UsernsMode'' JNull) (JStr []),
      bind_res (get_of host ''PublishAllPorts'' JNull) (\<lambda>v. Inr (v \<noteq> JBool False)),
      bind_res (get_of host ''AutoRemove'' JNull) (\<lambda>v. Inr (v \<noteq> JBool False)),
      differs (item_of host ''NetworkMode'') (JStr ''bridge''),
      differs (item_of host ''Tmpfs'') (JObj [(''/tmp'', JStr ''rw,exec,nosuid,size=2147483648'')]),
      differs (item_of host ''ShmSize'') (JInt (1024 ^ 3)),
      differs (item_of host ''DeviceRequests'')
        (JArr [JObj [(''Driver'', JStr []), (''Count'', JInt (-1)), (''DeviceIDs'', JNull),
          (''Capabilities'', JArr [JArr [JStr ''gpu'']]), (''Options'', JObj [])]]),
      differs (item_of host ''PortBindings'')
        (JObj [(''8000/tcp'', JArr [JObj [(''HostIp'', JStr ''127.0.0.1''), (''HostPort'', JStr (port_text k s))]])])]"

text \<open>\<open>frozen\<close> is the content of \<open>image-identity.json\<close> in the attempt's directory, or the error of
  reading it.\<close>

definition inspect_runtime :: "'z runtime_codec_scheme \<Rightarrow> json \<Rightarrow> launch_spec \<Rightarrow> string \<Rightarrow> string \<Rightarrow> string res \<Rightarrow> json res" where
  "inspect_runtime k doc s aid dir frozen =
     bind_res (single_item doc ''one exact managed container required'') (\<lambda>item.
     bind_res (item_of item ''Config'') (\<lambda>config.
     bind_res (item_of item ''HostConfig'') (\<lambda>host.
     bind_res (bind_res frozen (bounded_json k)) (\<lambda>img.
     bind_res (verify_image_inspection img (lp_image s)) (\<lambda>_.
     bind_res (bind_res (single_item img '''') (\<lambda>v. bind_res (item_of v ''Config'') (\<lambda>c. get_of c ''Env'' (JArr [])))) (\<lambda>environment.
     bind_res (item_of config ''Labels'') (\<lambda>labels.
     bind_res (bind_res (item_of item ''Mounts'') elements) (\<lambda>mounts.
     bind_res (read_only_binds mounts) (\<lambda>binds.
     bind_res (any_holds (config_checks k s aid item config labels environment @
       [Inr (length mounts \<noteq> 2),
        Inr (\<not> same_mounts binds [(''/models'', lp_directory s), (''/run/finserve/profile.json'', profile_path dir)])] @
       host_checks k s host)) (\<lambda>bad.
     if bad then Inl (ValueError ''managed container differs from frozen launch'') else Inr item))))))))))"

end
