(* ===== verification/ManagedRuntime.thy ===== *)
theory ManagedRuntime
  imports RuntimeSpec
begin

text \<open>
  \<open>DockerRuntime\<close> of \<open>registry/managed_runtime.py\<close>.  The Docker command line is an arbitrary
  function of the daemon's state (\<open>re_command\<close>), so a command may fail, hang until its deadline or
  succeed without its answer arriving; the log keeps every command with the
  directory it is issued for and its outcome.  The files of
  the attempt directories are a table from paths to contents, written with their final name in one
  step.  Every \<open>owned_disk\<close> call may be cancelled: its effect is kept and the caller is abandoned
  there, which is also what the death of the process at that point leaves.
\<close>

subsection \<open>The host\<close>

record abort_receipt =
  ab_input :: artifact_ref
  ab_stage :: string
  ab_attempt :: string
  ab_specification :: string
  ab_container :: "string option"
  ab_started :: "string option"
  ab_removed :: bool
  ab_inspections :: "artifact_ref list"
  ab_log_error :: "string option"
  ab_observed :: flt

record stop_receipt =
  sp_launch :: artifact_ref
  sp_container :: string
  sp_observed :: flt

record model_receipt =
  mr_directory :: string
  mr_specification :: string
  mr_manifest :: artifact_ref

record stage_codec = runtime_codec +
  uk_compact :: "json \<Rightarrow> string"
  uk_read_model :: "string \<Rightarrow> model_receipt res"
  uk_read_manifest :: "string \<Rightarrow> (string \<times> string) res"
  uk_fetch_digest :: "json \<Rightarrow> string res"
  uk_receipt_json :: "runtime_receipt \<Rightarrow> string"
  uk_read_receipt :: "string \<Rightarrow> runtime_receipt res"
  uk_stop_json :: "stop_receipt \<Rightarrow> string"
  uk_read_stop :: "string \<Rightarrow> stop_receipt res"
  uk_abort_json :: "abort_receipt \<Rightarrow> string"
  uk_read_abort :: "string \<Rightarrow> abort_receipt res"
  uk_read_image :: "string \<Rightarrow> runtime_image res"
  uk_read_spec :: "json \<Rightarrow> launch_spec res"
  uk_build_json :: "build_spec \<Rightarrow> json"
  uk_drained :: "string \<Rightarrow> string \<Rightarrow> string"

record 'w runtime_env =
  re_codec :: stage_codec
  re_command :: "string \<Rightarrow> string list \<Rightarrow> 'w \<Rightarrow> string res \<times> 'w"
  re_probe :: "launch_spec \<Rightarrow> 'w \<Rightarrow> bool res \<times> 'w"
  re_snapshot :: "string \<Rightarrow> string \<Rightarrow> 'w \<Rightarrow> string res"
  re_clock :: "nat \<Rightarrow> flt"
  re_wall :: "nat \<Rightarrow> flt"
  re_token :: "nat \<Rightarrow> string"
  re_cancel :: "nat \<Rightarrow> bool"
  re_directory :: "string \<Rightarrow> unit res"
  re_rounds :: nat
  re_others :: "nat \<Rightarrow> stage_op list"

record 'w host =
  ho_journal :: journal
  ho_files :: "string table"
  ho_docker :: 'w
  ho_tick :: nat
  ho_log :: "(string \<times> string list \<times> string res) list"

definition tick :: "('w host, 'a) action \<Rightarrow> ('w host, 'a) action" where
  "tick f h = (case f h of (r, h') \<Rightarrow> (r, h'\<lparr>ho_tick := Suc (ho_tick h')\<rparr>))"

definition owned :: "'w runtime_env \<Rightarrow> ('w host, 'a) action \<Rightarrow> ('w host, 'a) action" where
  "owned env f h = (case f h of (r, h') \<Rightarrow>
     (if re_cancel env (ho_tick h) then Inl CancelledError else r, h'\<lparr>ho_tick := Suc (ho_tick h')\<rparr>))"

definition monotonic :: "'w runtime_env \<Rightarrow> ('w host, flt) action" where
  "monotonic env = tick (\<lambda>h. (Inr (re_clock env (ho_tick h)), h))"

definition wall_time :: "'w runtime_env \<Rightarrow> ('w host, flt) action" where
  "wall_time env = tick (\<lambda>h. (Inr (re_wall env (ho_tick h)), h))"

definition owned_directory :: "'w runtime_env \<Rightarrow> string \<Rightarrow> ('w host, unit) action" where
  "owned_directory env path = fallible (re_directory env path)"

definition inside :: "string \<Rightarrow> string \<Rightarrow> string" where
  "inside dir name = dir @ CHR ''/'' # name"

definition path_name :: "string \<Rightarrow> string" where
  "path_name path = last (split_on CHR ''/'' path)"

definition file_exists :: "string \<Rightarrow> ('w host, bool) action" where
  "file_exists path h = (Inr (lookup (ho_files h) path \<noteq> None), h)"

definition read_file :: "string \<Rightarrow> ('w host, string) action" where
  "read_file path h = ((case lookup (ho_files h) path of None \<Rightarrow> Inl (OSError ''FileNotFoundError'') | Some c \<Rightarrow> Inr c), h)"

definition freeze_file :: "string \<Rightarrow> string \<Rightarrow> ('w host, unit) action" where
  "freeze_file path content h =
     (case lookup (ho_files h) path of
        None \<Rightarrow> (Inr (), h\<lparr>ho_files := ho_files h @ [(path, content)]\<rparr>)
      | Some found \<Rightarrow> (if found = content then Inr () else Inl (ValueError ''managed runtime input changed''), h))"

subsection \<open>Commands\<close>

definition remaining :: "'w runtime_env \<Rightarrow> flt option \<Rightarrow> flt \<Rightarrow> ('w host, flt) action" where
  "remaining env deadline cap =
     seq (case deadline of None \<Rightarrow> return cap
       | Some d \<Rightarrow> seq (monotonic env) (\<lambda>now. return (min cap (fsub d now)))) (\<lambda>available.
     if available \<le> 0 then raise (TimeoutError ''managed runtime operation deadline expired'') else return available)"

definition issue :: "'w runtime_env \<Rightarrow> string \<Rightarrow> string list \<Rightarrow> ('w host, string) action" where
  "issue env dir args h = (case re_command env dir args (ho_docker h) of (r, w) \<Rightarrow>
     (r, h\<lparr>ho_docker := w, ho_log := ho_log h @ [(dir, args, r)]\<rparr>))"

definition docker :: "'w runtime_env \<Rightarrow> string \<Rightarrow> string list \<Rightarrow> flt \<Rightarrow> flt option \<Rightarrow> ('w host, string) action" where
  "docker env dir args budget deadline = owned env (seq (remaining env deadline budget) (\<lambda>_. issue env dir args))"

abbreviation container_command :: "string list \<Rightarrow> string list" where
  "container_command args \<equiv> [''docker'', ''container''] @ args"

definition list_arguments :: "string \<Rightarrow> string list" where
  "list_arguments selector = container_command [''ls'', ''--all'', ''--no-trunc'', ''--filter'', selector, ''--format'', ''{{.ID}}'']"

definition inspect_arguments :: "string \<Rightarrow> string list" where
  "inspect_arguments cid = container_command [''inspect'', cid]"

definition start_arguments :: "string \<Rightarrow> string list" where
  "start_arguments cid = container_command [''start'', cid]"

definition stop_arguments :: "launch_spec \<Rightarrow> string \<Rightarrow> string list" where
  "stop_arguments s cid = container_command [''stop'', ''--time'', decimal (lp_shutdown s), cid]"

definition logs_arguments :: "string \<Rightarrow> string list" where
  "logs_arguments cid = container_command [''logs'', cid]"

definition remove_arguments :: "string \<Rightarrow> string list" where
  "remove_arguments cid = container_command [''rm'', cid]"

definition read_identifier :: "string \<Rightarrow> string res" where
  "read_identifier output = (if 4096 < length output then Inl (ValueError ''managed runtime lookup exceeds byte budget'')
     else Inr (strip output))"

definition lookup_container :: "'w runtime_env \<Rightarrow> string \<Rightarrow> string \<Rightarrow> flt option \<Rightarrow> ('w host, string option) action" where
  "lookup_container env selector dir deadline =
     seq (docker env dir (list_arguments selector) 30 deadline) (\<lambda>output.
     seq (owned env (fallible (read_identifier output))) (\<lambda>found.
     if found = [] then return None
     else if \<not> is_sha256 found then raise (ValueError ''ambiguous managed container lookup'')
     else return (Some found)))"

definition find_container :: "'w runtime_env \<Rightarrow> string \<Rightarrow> string \<Rightarrow> flt option \<Rightarrow> ('w host, string option) action" where
  "find_container env name = lookup_container env (''name=^/'' @ name @ ''$'')"

definition read_inspection :: "'w runtime_env \<Rightarrow> launch_spec \<Rightarrow> string \<Rightarrow> string \<Rightarrow> string \<Rightarrow> ('w host, json) action" where
  "read_inspection env s aid dir output h = (let k = re_codec env in
     (bind_res (bounded_json k output) (\<lambda>doc.
        inspect_runtime k doc s aid dir (fst (read_file (inside dir ''image-identity.json'') h))), h))"

definition inspect_container :: "'w runtime_env \<Rightarrow> string \<Rightarrow> launch_spec \<Rightarrow> string \<Rightarrow> string \<Rightarrow> flt option
    \<Rightarrow> ('w host, json) action" where
  "inspect_container env cid s aid dir deadline =
     seq (docker env dir (inspect_arguments cid) 30 deadline) (\<lambda>output.
     seq (owned env (read_inspection env s aid dir output)) (\<lambda>actual.
     seq (fallible (differs (item_of actual ''Id'') (JStr cid))) (\<lambda>other.
     if other then raise (ValueError ''managed runtime ID changed'') else return actual)))"

definition state_item :: "json \<Rightarrow> string \<Rightarrow> ('w host, json) action" where
  "state_item actual key = fallible (bind_res (item_of actual ''State'') (\<lambda>st. item_of st key))"

definition create_arguments :: "'z runtime_codec_scheme \<Rightarrow> launch_spec \<Rightarrow> string \<Rightarrow> string \<Rightarrow> string list res" where
  "create_arguments k s aid dir =
     bind_res (ensure (\<not> mount_delimiter dir) (ValueError ''Docker mount path contains unsupported delimiters'')) (\<lambda>_.
     bind_res (runtime_name aid) (\<lambda>name. Inr (container_command
       ([''create'', ''--name'', name, ''--label'', ''finserve.runtime-attempt='' @ aid,
         ''--label'', ''finserve.runtime-specification='' @ launch_digest k s, ''--pull'', ''never'', ''--gpus'', ''all'',
         ''--read-only'', ''--memory'', decimal (lp_memory s) @ ''m'', ''--memory-swap'', decimal (lp_memory s) @ ''m'',
         ''--pids-limit'', decimal (lp_pids s), ''--shm-size'', ''1g'', ''--tmpfs'', ''/tmp:rw,exec,nosuid,size=2147483648'',
         ''--publish'', ''127.0.0.1:'' @ port_text k s @ '':8000'',
         ''--mount'', ''type=bind,src='' @ lp_directory s @ '',dst=/models,readonly'',
         ''--mount'', ''type=bind,src='' @ profile_path dir @ '',dst=/run/finserve/profile.json,readonly'',
         im_local (lp_image s)] @ engine_arguments k s))))"

subsection \<open>Launching\<close>

definition freeze_inputs :: "'w runtime_env \<Rightarrow> launch_spec \<Rightarrow> string \<Rightarrow> ('w host, unit) action" where
  "freeze_inputs env s dir =
     seq (owned env (freeze_file (inside dir ''specification.json'') (uk_spec_json (re_codec env) s))) (\<lambda>_.
     owned env (freeze_file (inside dir ''profile.json'') (profile_json (re_codec env) (lp_profile s))))"

definition prepare_inputs :: "'w runtime_env \<Rightarrow> launch_spec \<Rightarrow> string \<Rightarrow> ('w host, unit) action" where
  "prepare_inputs env s dir =
     seq (owned_directory env dir) (\<lambda>_.
     seq (owned_directory env (lp_directory s)) (\<lambda>_.
     seq (freeze_file (inside dir ''specification.json'') (uk_spec_json (re_codec env) s)) (\<lambda>_.
     seq (freeze_file (inside dir ''profile.json'') (profile_json (re_codec env) (lp_profile s))) (\<lambda>_.
     seq (\<lambda>h. (re_snapshot env (lp_directory s) (lp_model_digest s) (ho_docker h), h)) (\<lambda>digest.
     if digest \<noteq> pr_model_manifest (lp_profile s) then raise (ValueError ''actual model snapshot differs from launch'')
     else return ())))))"

definition image_identity :: "json \<Rightarrow> json res" where
  "image_identity item =
     bind_res (item_of item ''Id'') (\<lambda>i. bind_res (item_of item ''Os'') (\<lambda>os.
     bind_res (item_of item ''Architecture'') (\<lambda>arch. bind_res (get_of item ''Descriptor'' JNull) (\<lambda>d.
     bind_res (item_of item ''Config'') (\<lambda>c. bind_res (item_of c ''Labels'') (\<lambda>labels.
     bind_res (get_of c ''Env'' (JArr [])) (\<lambda>envs.
     Inr (JArr [JObj [(''Id'', i), (''Os'', os), (''Architecture'', arch), (''Descriptor'', d),
       (''Config'', JObj [(''Labels'', labels), (''Env'', envs)])]]))))))))"

definition freeze_image :: "'w runtime_env \<Rightarrow> launch_spec \<Rightarrow> string \<Rightarrow> string \<Rightarrow> ('w host, unit) action" where
  "freeze_image env s dir output = (let k = re_codec env in
     seq (fallible (bounded_json k output)) (\<lambda>doc.
     seq (fallible (verify_image_inspection doc (lp_image s))) (\<lambda>_.
     seq (fallible (bind_res (single_item doc '''') image_identity)) (\<lambda>ident.
     freeze_file (inside dir ''image-identity.json'') (uk_dumps k ident)))))"

definition any_exists :: "string \<Rightarrow> string list \<Rightarrow> ('w host, bool) action" where
  "any_exists dir names h = (Inr (list_ex (\<lambda>n. lookup (ho_files h) (inside dir n) \<noteq> None) names), h)"

definition create_container :: "'w runtime_env \<Rightarrow> launch_spec \<Rightarrow> string \<Rightarrow> string \<Rightarrow> string \<Rightarrow> flt option
    \<Rightarrow> ('w host, string) action" where
  "create_container env s aid dir name deadline = (let k = re_codec env in
     seq (owned env (any_exists dir [''allocation.json'', ''create-request.json''])) (\<lambda>requested.
     if requested then raise (RuntimeError ''allocated or requested runtime absent; reconciliation required'') else
     seq (owned env (freeze_file (inside dir ''create-request.json'') (launch_digest k s))) (\<lambda>_.
     seq (fallible (create_arguments k s aid dir)) (\<lambda>args.
     seq (docker env dir args 60 deadline) (\<lambda>_.
     seq (owned env (freeze_file (inside dir ''create-complete.json'') (launch_digest k s))) (\<lambda>_.
     seq (find_container env name dir deadline) (\<lambda>found.
     case found of None \<Rightarrow> raise (RuntimeError ''created runtime not observed; reconciliation required'')
     | Some cid \<Rightarrow> return cid)))))))"

definition start_container :: "'w runtime_env \<Rightarrow> string \<Rightarrow> string \<Rightarrow> json \<Rightarrow> flt option \<Rightarrow> ('w host, unit) action" where
  "start_container env dir cid actual deadline =
     seq (state_item actual ''Status'') (\<lambda>status.
     if equals status (JStr ''created'') then
       seq (owned env (any_exists dir [''first-start.json'', ''start-request.json''])) (\<lambda>requested.
       if requested then raise (RuntimeError ''recorded or requested start returned to created state'') else
       seq (owned env (freeze_file (inside dir ''start-request.json'') cid)) (\<lambda>_.
       seq (docker env dir (start_arguments cid) 60 deadline) (\<lambda>_. return ())))
     else seq (state_item actual ''Running'') (\<lambda>running.
       if running \<noteq> JBool True
       then raise (RuntimeError ''owned runtime exited; inspect retained evidence before a new attempt'')
       else return ()))"

definition started_text :: "json \<Rightarrow> string res" where
  "started_text v = (case v of JStr s \<Rightarrow> Inr s | _ \<Rightarrow> Inl (ValueError ''container_started_at''))"

definition observed_receipt :: "'w runtime_env \<Rightarrow> launch_spec \<Rightarrow> string \<Rightarrow> string \<Rightarrow> json \<Rightarrow> flt \<Rightarrow> string
    \<Rightarrow> ('w host, runtime_receipt) action" where
  "observed_receipt env s aid cid started elapsed dir =
     seq (wall_time env) (\<lambda>now. fallible (bind_res (started_text started) (\<lambda>at0. make_receipt
       \<lparr>rr_specification = launch_digest (re_codec env) s, rr_attempt = aid, rr_container = cid,
        rr_started = at0, rr_observed = now, rr_elapsed = elapsed, rr_output = dir\<rparr>)))"

definition probe_endpoint :: "'w runtime_env \<Rightarrow> launch_spec \<Rightarrow> ('w host, bool) action" where
  "probe_endpoint env s = tick (\<lambda>h. case re_probe env s (ho_docker h) of (r, w) \<Rightarrow> (r, h\<lparr>ho_docker := w\<rparr>))"

definition start_document :: "'w runtime_env \<Rightarrow> string \<Rightarrow> json \<Rightarrow> string" where
  "start_document env cid started = uk_dumps (re_codec env) (JObj [(''container_id'', JStr cid), (''started_at'', started)])"

definition allocation_document :: "'w runtime_env \<Rightarrow> string \<Rightarrow> string" where
  "allocation_document env cid = uk_dumps (re_codec env) (JObj [(''container_id'', JStr cid)])"

text \<open>The clock is read for the deadline of each command too; one round of the readiness loop
  ends in a receipt, in an exception or with a pause.\<close>

definition readiness_round :: "'w runtime_env \<Rightarrow> launch_spec \<Rightarrow> string \<Rightarrow> string \<Rightarrow> string \<Rightarrow> flt
    \<Rightarrow> ('w host, runtime_receipt option) action" where
  "readiness_round env s aid dir cid start = (let deadline = Some (fadd start (lp_readiness s)) in
     seq (inspect_container env cid s aid dir deadline) (\<lambda>actual.
     seq (state_item actual ''StartedAt'') (\<lambda>started.
     seq (owned env (freeze_file (inside dir ''first-start.json'') (start_document env cid started))) (\<lambda>_.
     seq (state_item actual ''Running'') (\<lambda>running.
     if running \<noteq> JBool True then raise (RuntimeError ''owned runtime exited during readiness'') else
     seq (probe_endpoint env s) (\<lambda>ready.
     if ready then
       seq (inspect_container env cid s aid dir deadline) (\<lambda>after.
       seq (state_item after ''Running'') (\<lambda>still.
       seq (state_item after ''StartedAt'') (\<lambda>same.
       if still \<noteq> JBool True \<or> \<not> equals same started
       then raise (RuntimeError ''runtime changed during readiness observation'') else
       seq (monotonic env) (\<lambda>now.
       if lp_readiness s \<le> fsub now start then raise (TimeoutError ''runtime smoke exceeded cold-start budget'')
       else seq (observed_receipt env s aid cid same (fsub now start) dir) (\<lambda>r. return (Some r))))))
     else seq (remaining env deadline 1) (\<lambda>_. owned env (return None))))))))"

text \<open>\<open>re_rounds\<close> bounds the rounds the model runs; the exception of an exhausted bound is none of
  the program's.\<close>

fun readiness :: "nat \<Rightarrow> 'w runtime_env \<Rightarrow> launch_spec \<Rightarrow> string \<Rightarrow> string \<Rightarrow> string \<Rightarrow> flt
    \<Rightarrow> ('w host, runtime_receipt) action" where
  "readiness 0 env s aid dir cid start = raise (Other ''rounds exhausted'')"
| "readiness (Suc n) env s aid dir cid start =
     seq (monotonic env) (\<lambda>now.
     if \<not> fsub now start < lp_readiness s then raise (TimeoutError ''managed runtime readiness budget expired'')
     else seq (readiness_round env s aid dir cid start) (\<lambda>found. case found of
       Some r \<Rightarrow> return r
     | None \<Rightarrow> readiness n env s aid dir cid start))"

definition launch_body :: "'w runtime_env \<Rightarrow> launch_spec \<Rightarrow> string \<Rightarrow> string \<Rightarrow> ('w host, runtime_receipt) action" where
  "launch_body env s aid workspace =
     seq (fallible (runtime_name aid)) (\<lambda>name.
     seq (monotonic env) (\<lambda>start. let deadline = Some (fadd start (lp_readiness s)); dir = inside workspace aid in
     seq (owned env (owned_directory env workspace)) (\<lambda>_.
     seq (owned env (prepare_inputs env s dir)) (\<lambda>_.
     seq (docker env dir [''docker'', ''image'', ''inspect'', im_local (lp_image s)] 30 deadline) (\<lambda>output.
     seq (owned env (freeze_image env s dir output)) (\<lambda>_.
     seq (monotonic env) (\<lambda>now.
     if lp_readiness s \<le> fsub now start then raise (TimeoutError ''model verification exceeded cold-start budget'') else
     seq (find_container env name dir deadline) (\<lambda>found.
     seq (case found of None \<Rightarrow> create_container env s aid dir name deadline | Some cid \<Rightarrow> return cid) (\<lambda>cid.
     seq (inspect_container env cid s aid dir deadline) (\<lambda>actual.
     seq (owned env (freeze_file (inside dir ''allocation.json'') (allocation_document env cid))) (\<lambda>_.
     seq (start_container env dir cid actual deadline) (\<lambda>_.
     readiness (re_rounds env) env s aid dir cid start))))))))))))"

definition launch_runtime :: "'w runtime_env \<Rightarrow> launch_spec \<Rightarrow> string \<Rightarrow> string \<Rightarrow> ('w host, runtime_receipt) action" where
  "launch_runtime env s aid workspace =
     seq (fallible (runtime_name aid)) (\<lambda>_. let dir = inside workspace aid in
     seq (owned env (seq (owned_directory env workspace) (\<lambda>_. owned_directory env dir))) (\<lambda>_.
     seq (owned env (file_exists (inside dir ''abort-intent.json''))) (\<lambda>aborting.
     if aborting then raise (RuntimeError ''runtime attempt has durable abort intent'')
     else launch_body env s aid workspace)))"

subsection \<open>Stopping and observing\<close>

definition stop_found :: "'w runtime_env \<Rightarrow> launch_spec \<Rightarrow> runtime_receipt \<Rightarrow> ('w host, unit) action" where
  "stop_found env s r = (let dir = rr_output r; cid = rr_container r in
     seq (inspect_container env cid s (rr_attempt r) dir None) (\<lambda>actual.
     seq (state_item actual ''StartedAt'') (\<lambda>started.
     if \<not> equals started (JStr (rr_started r))
     then raise (ValueError ''runtime was restarted after its recorded health observation'') else
     seq (state_item actual ''Running'') (\<lambda>running.
     seq (if running = JBool True
          then docker env dir (stop_arguments s cid) (of_nat (lp_shutdown s + 15)) None else return []) (\<lambda>_.
     seq (docker env dir (logs_arguments cid) 30 None) (\<lambda>_.
     seq (inspect_container env cid s (rr_attempt r) dir None) (\<lambda>after.
     seq (state_item after ''Running'') (\<lambda>still.
     if still \<noteq> JBool False then raise (RuntimeError ''owned runtime stop is not verified'')
     else seq (docker env dir (remove_arguments cid) 30 None) (\<lambda>_. return ())))))))))"

definition stop_runtime :: "'w runtime_env \<Rightarrow> launch_spec \<Rightarrow> runtime_receipt \<Rightarrow> ('w host, unit) action" where
  "stop_runtime env s r =
     (if rr_specification r \<noteq> launch_digest (re_codec env) s then raise (ValueError ''runtime stop receipt differs from launch'')
      else if path_name (rr_output r) \<noteq> rr_attempt r
      then raise (ValueError ''runtime receipt directory differs from owned attempt'')
      else seq (owned env (owned_directory env (rr_output r))) (\<lambda>_.
        seq (freeze_inputs env s (rr_output r)) (\<lambda>_.
        seq (lookup_container env (''id='' @ rr_container r) (rr_output r) None) (\<lambda>found. case found of
          None \<Rightarrow> return ()
        | Some cid \<Rightarrow> if cid \<noteq> rr_container r then raise (ValueError ''cleanup lookup differs from exact owned ID'')
            else stop_found env s r))))"

definition observe_runtime :: "'w runtime_env \<Rightarrow> launch_spec \<Rightarrow> runtime_receipt \<Rightarrow> ('w host, runtime_receipt) action" where
  "observe_runtime env s r =
     (if rr_specification r \<noteq> launch_digest (re_codec env) s \<or> path_name (rr_output r) \<noteq> rr_attempt r
      then raise (ValueError ''runtime observation receipt differs from frozen launch'')
      else let dir = rr_output r; cid = rr_container r in
        seq (owned env (owned_directory env dir)) (\<lambda>_.
        seq (freeze_inputs env s dir) (\<lambda>_.
        seq (monotonic env) (\<lambda>start. let deadline = Some (fadd start (min 30 (lp_readiness s))) in
        seq (inspect_container env cid s (rr_attempt r) dir deadline) (\<lambda>before.
        seq (state_item before ''Running'') (\<lambda>running.
        seq (state_item before ''StartedAt'') (\<lambda>started.
        if running \<noteq> JBool True \<or> \<not> equals started (JStr (rr_started r))
        then raise (RuntimeError ''recorded runtime start is no longer live'') else
        seq (probe_endpoint env s) (\<lambda>ready.
        if \<not> ready then raise (RuntimeError ''recorded runtime failed its actual HTTP probe'') else
        seq (inspect_container env cid s (rr_attempt r) dir deadline) (\<lambda>after.
        seq (state_item after ''Running'') (\<lambda>still.
        seq (state_item after ''StartedAt'') (\<lambda>same.
        if still \<noteq> JBool True \<or> \<not> equals same (JStr (rr_started r))
        then raise (RuntimeError ''recorded runtime changed during its HTTP probe'') else
        seq (remaining env deadline 30) (\<lambda>_.
        seq (monotonic env) (\<lambda>now.
        observed_receipt env s (rr_attempt r) cid (JStr (rr_started r)) (fsub now start) dir)))))))))))))"

end
