(* ===== verification/RuntimeStages.thy ===== *)
theory RuntimeStages
  imports ManagedRuntime
begin

text \<open>
  The stages that bind Docker actions to the producer journal: \<open>registry/runtime_stages.py\<close>,
  \<open>registry/runtime_abort.py\<close> and \<open>verified_model_receipt\<close> of \<open>registry/producer_tasks.py\<close>.  Before each
  journal operation of a stage the other processes perform an arbitrary list of their own
  (\<open>re_others\<close>).  \<open>attempt_fence\<close> serialises what is done under the directory of one attempt,
  so a fenced section is a sequence of steps here; waiting for the lock is not modelled.
\<close>

subsection \<open>Journal steps\<close>

definition journaled :: "'w runtime_env \<Rightarrow> (journal, 'a) action \<Rightarrow> ('w host, 'a) action" where
  "journaled env f h = (let k = re_codec env in
     case f (stage_ops (sha256 k) (uk_drained k) (re_others env (ho_tick h)) (ho_journal h)) of
       (r, j) \<Rightarrow> (r, h\<lparr>ho_journal := j, ho_tick := Suc (ho_tick h)\<rparr>))"

definition stage_of :: "'w runtime_env \<Rightarrow> string \<Rightarrow> ('w host, stage_state) action" where
  "stage_of env sid = journaled env (\<lambda>j. (read_stage sid j, j))"

definition get_artifact :: "'w runtime_env \<Rightarrow> artifact_ref \<Rightarrow> ('w host, string) action" where
  "get_artifact env r = journaled env (\<lambda>j. (artifact_get (sha256 (re_codec env)) r (jn_store j), j))"

definition put_artifact :: "'w runtime_env \<Rightarrow> string \<Rightarrow> ('w host, artifact_ref) action" where
  "put_artifact env dat = journaled env (store_artifact (sha256 (re_codec env)) dat)"

definition declare_json :: "'w runtime_env \<Rightarrow> string \<Rightarrow> json \<Rightarrow> ('w host, stage_state) action" where
  "declare_json env sid v = (let k = re_codec env in journaled env (declare_input (sha256 k) sid (uk_compact k v)))"

definition start_attempt :: "'w runtime_env \<Rightarrow> string \<Rightarrow> ('w host, stage_state) action" where
  "start_attempt env sid h = (let k = re_codec env; i = ho_tick h in
     journaled env (start_owned (sha256 k) (uk_drained k) sid (re_token env i) (re_wall env i) (re_cancel env i)) h)"

definition finish_attempt :: "'w runtime_env \<Rightarrow> string \<Rightarrow> string \<Rightarrow> artifact_ref \<Rightarrow> ('w host, stage_state) action" where
  "finish_attempt env sid aid r h =
     journaled env (finish_stage (sha256 (re_codec env)) sid aid r (re_wall env (ho_tick h))) h"

definition fail_attempt :: "'w runtime_env \<Rightarrow> string \<Rightarrow> string \<Rightarrow> string \<Rightarrow> artifact_ref \<Rightarrow> ('w host, stage_state) action" where
  "fail_attempt env sid aid code r h =
     journaled env (fail_stage (sha256 (re_codec env)) sid aid code r (re_wall env (ho_tick h))) h"

definition input_of :: "'w runtime_env \<Rightarrow> stage_state \<Rightarrow> ('w host, json) action" where
  "input_of env st = seq (get_artifact env (ss_input st)) (\<lambda>c. fallible (uk_loads (re_codec env) c))"

definition output_of :: "stage_state \<Rightarrow> string \<Rightarrow> ('w host, artifact_ref) action" where
  "output_of st message = (case ss_output st of None \<Rightarrow> raise (ValueError message)
     | Some r \<Rightarrow> if ss_status st \<noteq> Completed then raise (ValueError message) else return r)"

definition owner_of :: "stage_state \<Rightarrow> ('w host, string) action" where
  "owner_of st = (case ss_attempt st of None \<Rightarrow> raise AssertionError | Some a \<Rightarrow> return a)"

fun is_registry_conflict :: "py_error \<Rightarrow> bool" where
  "is_registry_conflict (RegistryConflict _) = True"
| "is_registry_conflict _ = False"

text \<open>A field of a frozen input compared with \<open>frozen.get(key) != value\<close>.\<close>

definition field_differs :: "json \<Rightarrow> string \<Rightarrow> json \<Rightarrow> bool res" where
  "field_differs frozen key v = differs (get_of frozen key JNull) v"

definition ref_json :: "artifact_ref \<Rightarrow> json" where
  "ref_json r = JObj [(''namespace'', JStr (af_namespace r)), (''sha256'', JStr (af_sha256 r)),
     (''size_bytes'', JInt (int (af_size r)))]"

fun text_of :: "json \<Rightarrow> string res" where
  "text_of (JStr s) = Inr s"
| "text_of _ = Inl (TypeError ''path'')"

subsection \<open>Upstream receipts\<close>

definition verified_model_receipt :: "'w runtime_env \<Rightarrow> stage_state \<Rightarrow> ('w host, model_receipt) action" where
  "verified_model_receipt env st = (let k = re_codec env in
     seq (output_of st ''model stage is not completed'') (\<lambda>out.
     seq (seq (get_artifact env out) (\<lambda>c. fallible (uk_read_model k c))) (\<lambda>r.
     seq (seq (get_artifact env (mr_manifest r)) (\<lambda>c. fallible (uk_read_manifest k c))) (\<lambda>(fetched, manifest).
     seq (input_of env st) (\<lambda>frozen.
     seq (fallible (bind_res (item_of frozen ''specification'') (uk_fetch_digest k))) (\<lambda>spec.
     seq (fallible (any_holds
       [Inr (fetched \<noteq> spec), Inr (mr_specification r \<noteq> spec),
        bind_res (bind_res (item_of frozen ''model_root'') text_of) (\<lambda>root. Inr (mr_directory r \<noteq> inside root spec))])) (\<lambda>bad.
     seq (if bad then return [] else (\<lambda>h. (re_snapshot env (mr_directory r) spec (ho_docker h), h))) (\<lambda>digest.
     if bad \<or> digest \<noteq> manifest then raise (ValueError ''model stage receipt or local snapshot changed'')
     else return r))))))))"

definition verify_upstream :: "'w runtime_env \<Rightarrow> string \<Rightarrow> string \<Rightarrow> launch_spec \<Rightarrow> ('w host, artifact_ref \<times> artifact_ref) action" where
  "verify_upstream env model_stage build_stage s = (let k = re_codec env; message = ''runtime requires completed upstream stages'' in
     seq (stage_of env model_stage) (\<lambda>ms.
     seq (verified_model_receipt env ms) (\<lambda>model.
     seq (stage_of env build_stage) (\<lambda>bs.
     seq (output_of bs message) (\<lambda>built.
     seq (case ss_output ms of None \<Rightarrow> raise (ValueError message) | Some m \<Rightarrow> return m) (\<lambda>modelled.
     seq (seq (get_artifact env built) (\<lambda>c. fallible (uk_read_image k c))) (\<lambda>img.
     seq (input_of env bs) (\<lambda>frozen.
     seq (fallible (any_holds
       [Inr (mr_directory model \<noteq> lp_directory s), Inr (mr_specification model \<noteq> lp_model_digest s), Inr (img \<noteq> lp_image s),
        field_differs frozen ''kind'' (JStr ''runtime-image-v1''), field_differs frozen ''model_stage_id'' (JStr model_stage),
        field_differs frozen ''model_manifest'' (ref_json (mr_manifest model)),
        field_differs frozen ''specification'' (uk_build_json k (im_spec img))])) (\<lambda>bad.
     if bad then raise (ValueError ''runtime upstream identities differ from frozen launch'')
     else return (modelled, built))))))))))"

subsection \<open>Launch\<close>

definition load_launch :: "'w runtime_env \<Rightarrow> stage_state \<Rightarrow> launch_spec \<Rightarrow> ('w host, runtime_receipt) action" where
  "load_launch env st s = (let k = re_codec env in
     seq (output_of st ''runtime launch stage is not completed'') (\<lambda>out.
     seq (input_of env st) (\<lambda>frozen.
     seq (seq (get_artifact env out) (\<lambda>c. fallible (uk_read_receipt k c))) (\<lambda>r.
     seq (fallible (any_holds
       [field_differs frozen ''kind'' (JStr ''managed-runtime-launch-v1''),
        bind_res (uk_loads k (uk_spec_json k s)) (\<lambda>v. field_differs frozen ''specification'' v),
        Inr (rr_specification r \<noteq> launch_digest k s), Inr (Some (rr_attempt r) \<noteq> ss_attempt st),
        bind_res (bind_res (item_of frozen ''workspace'') text_of) (\<lambda>ws. Inr (rr_output r \<noteq> inside ws (rr_attempt r)))])) (\<lambda>bad.
     if bad then raise (ValueError ''runtime launch receipt differs from its stage'') else return r)))))"

definition operation_protocol :: string where
  "operation_protocol = ''posix-flock-abort-v1''"

definition declare_launch_input :: "'w runtime_env \<Rightarrow> string \<Rightarrow> (string \<times> json) list \<Rightarrow> ('w host, stage_state) action" where
  "declare_launch_input env sid v = (let tagged = v @ [(''operation_protocol'', JStr operation_protocol)] in
     seq (journaled env (\<lambda>j. (Inr (stage_history sid j), j))) (\<lambda>past.
     case past of [] \<Rightarrow> declare_json env sid (JObj tagged)
     | first # _ \<Rightarrow> seq (input_of env first) (\<lambda>frozen. case frozen of
         JObj d \<Rightarrow> (case field_of d ''operation_protocol'' of
             None \<Rightarrow> declare_json env sid (JObj v)
           | Some p \<Rightarrow> if \<not> equals p (JStr operation_protocol)
               then raise (RegistryConflict ''unsupported runtime operation protocol'')
               else declare_json env sid (JObj tagged))
       | _ \<Rightarrow> raise (TypeError ''frozen launch input''))))"

text \<open>The receipt of a completed launch is loaded again after its publication; a stage that moved
  meanwhile must hold the same observed start.\<close>

definition publish_launch :: "'w runtime_env \<Rightarrow> string \<Rightarrow> string \<Rightarrow> launch_spec \<Rightarrow> runtime_receipt
    \<Rightarrow> ('w host, runtime_receipt) action" where
  "publish_launch env sid aid s r =
     seq (put_artifact env (uk_receipt_json (re_codec env) r)) (\<lambda>ref.
     seq (attempt (finish_attempt env sid aid ref)) (\<lambda>finished. case finished of
       Inr _ \<Rightarrow> seq (stage_of env sid) (\<lambda>st. load_launch env st s)
     | Inl e \<Rightarrow> if \<not> is_registry_conflict e then raise e
         else seq (seq (stage_of env sid) (\<lambda>st. load_launch env st s)) (\<lambda>actual.
           if (rr_container actual, rr_started actual) \<noteq> (rr_container r, rr_started r) \<or> rr_attempt actual \<noteq> aid
           then raise (RegistryConflict ''runtime completion identity changed'') else return actual)))"

text \<open>The section under the attempt's fence.\<close>

definition fenced_launch :: "'w runtime_env \<Rightarrow> string \<Rightarrow> launch_spec \<Rightarrow> string \<Rightarrow> string \<Rightarrow> ('w host, runtime_receipt) action" where
  "fenced_launch env sid s aid workspace =
     seq (owned env (stage_of env sid)) (\<lambda>current.
     if ss_attempt current \<noteq> Some aid \<or> ss_status current \<noteq> Running then
       (if ss_status current = Completed \<and> ss_attempt current = Some aid
        then seq (owned env (load_launch env current s)) (\<lambda>r. seq (observe_runtime env s r) (\<lambda>_. return r))
        else raise (RegistryConflict ''runtime attempt changed before launch fence''))
     else seq (launch_runtime env s aid workspace) (\<lambda>r. owned env (publish_launch env sid aid s r)))"

definition launch_input :: "'w runtime_env \<Rightarrow> launch_spec \<Rightarrow> string \<Rightarrow> string \<Rightarrow> string \<Rightarrow> artifact_ref \<Rightarrow> artifact_ref
    \<Rightarrow> (string \<times> json) list res" where
  "launch_input env s workspace model_stage build_stage model img = (let k = re_codec env in
     bind_res (uk_loads k (uk_spec_json k s)) (\<lambda>v. Inr
       [(''kind'', JStr ''managed-runtime-launch-v1''), (''specification'', v), (''workspace'', JStr workspace),
        (''model_stage_id'', JStr model_stage), (''build_stage_id'', JStr build_stage),
        (''model'', ref_json model), (''image'', ref_json img)]))"

definition launch_runtime_stage :: "'w runtime_env \<Rightarrow> string \<Rightarrow> string \<Rightarrow> string \<Rightarrow> launch_spec \<Rightarrow> string
    \<Rightarrow> ('w host, runtime_receipt) action" where
  "launch_runtime_stage env sid model_stage build_stage s workspace =
     seq (owned env (owned_directory env workspace)) (\<lambda>_.
     seq (owned env (verify_upstream env model_stage build_stage s)) (\<lambda>(model, img).
     seq (owned env (seq (fallible (launch_input env s workspace model_stage build_stage model img))
       (declare_launch_input env sid))) (\<lambda>st.
     if ss_status st = Completed then
       seq (owned env (load_launch env st s)) (\<lambda>r. seq (observe_runtime env s r) (\<lambda>_. return r))
     else if ss_status st = Failed \<and> ss_error st = Some ''RuntimeAborted''
     then raise (RegistryConflict ''aborted runtime stage requires a new producer identity'')
     else seq (if ss_status st = Running then return st else start_attempt env sid) (\<lambda>running.
       seq (owner_of running) (\<lambda>aid.
       seq (owned env (owned_directory env (inside workspace aid))) (\<lambda>_.
       fenced_launch env sid s aid workspace))))))"

subsection \<open>Stop\<close>

definition completed_stop :: "'w runtime_env \<Rightarrow> stage_state \<Rightarrow> string option \<Rightarrow> artifact_ref \<Rightarrow> string \<Rightarrow> ('w host, stop_receipt) action" where
  "completed_stop env st aid ref cid =
     (case ss_output st of None \<Rightarrow> raise (RegistryConflict ''runtime cleanup attempt changed'')
      | Some out \<Rightarrow> if ss_status st \<noteq> Completed \<or> ss_attempt st \<noteq> aid
          then raise (RegistryConflict ''runtime cleanup attempt changed'')
          else seq (seq (get_artifact env out) (\<lambda>c. fallible (uk_read_stop (re_codec env) c))) (\<lambda>r.
            if sp_launch r \<noteq> ref \<or> sp_container r \<noteq> cid
            then raise (ValueError ''runtime cleanup receipt identity changed'') else return r))"

definition make_stop :: "stop_receipt \<Rightarrow> stop_receipt res" where
  "make_stop r = bind_res (ensure (is_sha256 (sp_container r) \<and> 0 < sp_observed r) (ValueError ''stop receipt'')) (\<lambda>_. Inr r)"

definition publish_stop :: "'w runtime_env \<Rightarrow> string \<Rightarrow> stage_state \<Rightarrow> artifact_ref \<Rightarrow> string \<Rightarrow> ('w host, stop_receipt) action" where
  "publish_stop env sid running ref cid =
     seq (stage_of env sid) (\<lambda>actual.
     if ss_status actual = Completed \<and> ss_attempt actual = ss_attempt running
     then completed_stop env actual (ss_attempt running) ref cid
     else seq (wall_time env) (\<lambda>now.
       seq (fallible (make_stop \<lparr>sp_launch = ref, sp_container = cid, sp_observed = now\<rparr>)) (\<lambda>result.
       seq (owner_of running) (\<lambda>aid.
       seq (attempt (seq (put_artifact env (uk_stop_json (re_codec env) result)) (\<lambda>out. finish_attempt env sid aid out))) (\<lambda>finished.
       case finished of Inr _ \<Rightarrow> return result
       | Inl e \<Rightarrow> if \<not> is_registry_conflict e then raise e
           else seq (stage_of env sid) (\<lambda>st. completed_stop env st (ss_attempt running) ref cid))))))"

definition stop_runtime_stage :: "'w runtime_env \<Rightarrow> string \<Rightarrow> string \<Rightarrow> launch_spec \<Rightarrow> ('w host, stop_receipt) action" where
  "stop_runtime_stage env sid launch_stage s =
     seq (owned env (stage_of env launch_stage)) (\<lambda>launched.
     seq (owned env (load_launch env launched s)) (\<lambda>receipt.
     seq (case ss_output launched of None \<Rightarrow> raise AssertionError | Some r \<Rightarrow> return r) (\<lambda>ref.
     seq (owned env (declare_json env sid (JObj [(''kind'', JStr ''managed-runtime-stop-v1''),
       (''launch_stage_id'', JStr launch_stage), (''launch'', ref_json ref),
       (''specification_sha256'', JStr (launch_digest (re_codec env) s))]))) (\<lambda>st.
     seq (if ss_status st \<in> {Running, Completed} then return st else start_attempt env sid) (\<lambda>running.
     seq (if ss_status st = Completed
          then seq (owned env (completed_stop env st (ss_attempt running) ref (rr_container receipt))) (\<lambda>_. return ())
          else return ()) (\<lambda>_.
     seq (stop_runtime env s receipt) (\<lambda>_.
     owned env (publish_stop env sid running ref (rr_container receipt)))))))))"

subsection \<open>Abort\<close>

definition verify_absent :: "'w runtime_env \<Rightarrow> string \<Rightarrow> string \<Rightarrow> string option \<Rightarrow> ('w host, unit) action" where
  "verify_absent env aid dir cid =
     seq (case cid of None \<Rightarrow> return ()
       | Some c \<Rightarrow> seq (lookup_container env (''id='' @ c) dir None) (\<lambda>found.
           if found \<noteq> None then raise (RegistryConflict ''aborted container is still present'') else return ())) (\<lambda>_.
     seq (fallible (runtime_name aid)) (\<lambda>name.
     seq (find_container env name dir None) (\<lambda>found.
     if found \<noteq> None then raise (RegistryConflict ''aborted attempt name is still present'') else return ())))"

definition read_document :: "'w runtime_env \<Rightarrow> string \<Rightarrow> ('w host, json option) action" where
  "read_document env path =
     seq (file_exists path) (\<lambda>there. if \<not> there then return None
       else seq (read_file path) (\<lambda>c. seq (fallible (bounded_json (re_codec env) c)) (\<lambda>v.
         return (if v = JNull then None else Some v))))"

text \<open>The container a document names; the program writes it as text.  An empty document names none.\<close>

definition falsy :: "json \<Rightarrow> bool" where
  "falsy v \<longleftrightarrow> v \<in> {JNull, JBool False, JInt 0, JFloat 0, JStr [], JArr [], JObj []}"

definition bound_container :: "json option \<Rightarrow> string option res" where
  "bound_container d = (case d of None \<Rightarrow> Inr None
     | Some v \<Rightarrow> if falsy v then Inr None
         else bind_res (bind_res (item_of v ''container_id'') text_of) (\<lambda>c. Inr (Some c)))"

definition start_unbound :: "'w runtime_env \<Rightarrow> string \<Rightarrow> json \<Rightarrow> ('w host, unit) action" where
  "start_unbound env dir actual =
     seq (owned env (file_exists (inside dir ''start-request.json''))) (\<lambda>requested.
     if requested then raise (RegistryConflict ''unbound requested start requires operator reconciliation'') else
     seq (state_item actual ''Status'') (\<lambda>status.
     seq (state_item actual ''Running'') (\<lambda>running.
     if \<not> equals status (JStr ''created'') \<or> running \<noteq> JBool False
     then raise (RegistryConflict ''runtime first start is unbound; operator reconciliation required'')
     else return ())))"

definition start_bound :: "json \<Rightarrow> string \<Rightarrow> json \<Rightarrow> ('w host, unit) action" where
  "start_bound start cid actual =
     seq (state_item actual ''StartedAt'') (\<lambda>started.
     if \<not> equals start (JObj [(''container_id'', JStr cid), (''started_at'', started)])
     then raise (RegistryConflict ''runtime was restarted before abort'') else return ())"

definition is_cancelled :: "py_error \<Rightarrow> bool" where
  "is_cancelled e \<longleftrightarrow> e = CancelledError"

text \<open>Log capture is auxiliary: an exception of it is kept in the receipt.\<close>

definition capture_logs :: "'w runtime_env \<Rightarrow> string \<Rightarrow> string \<Rightarrow> ('w host, string option) action" where
  "capture_logs env dir cid =
     seq (attempt (docker env dir (logs_arguments cid) 30 None)) (\<lambda>r. case r of
       Inr _ \<Rightarrow> return None
     | Inl e \<Rightarrow> if is_cancelled e then raise e else return (Some (class_name e)))"

definition remove_found :: "'w runtime_env \<Rightarrow> launch_spec \<Rightarrow> string \<Rightarrow> string \<Rightarrow> string option \<Rightarrow> json option \<Rightarrow> string
    \<Rightarrow> ('w host, artifact_ref list \<times> string option) action" where
  "remove_found env s aid dir bound start cid =
     seq (inspect_container env cid s aid dir None) (\<lambda>actual.
     seq (owned env (put_artifact env (uk_dumps (re_codec env) actual))) (\<lambda>first.
     if bound \<noteq> None \<and> bound \<noteq> Some cid then raise (RegistryConflict ''runtime allocation changed before abort'') else
     seq (case start of None \<Rightarrow> start_unbound env dir actual | Some v \<Rightarrow> start_bound v cid actual) (\<lambda>_.
     seq (state_item actual ''StartedAt'') (\<lambda>started.
     seq (owned env (freeze_file (inside dir ''allocation.json'') (allocation_document env cid))) (\<lambda>_.
     seq (state_item actual ''Running'') (\<lambda>running.
     seq (if running = JBool True then docker env dir (stop_arguments s cid) (of_nat (lp_shutdown s + 15)) None else return []) (\<lambda>_.
     seq (capture_logs env dir cid) (\<lambda>logged.
     seq (inspect_container env cid s aid dir None) (\<lambda>after.
     seq (owned env (put_artifact env (uk_dumps (re_codec env) after))) (\<lambda>second.
     seq (state_item after ''Running'') (\<lambda>still.
     seq (state_item after ''StartedAt'') (\<lambda>same.
     if still \<noteq> JBool False \<or> \<not> equals same started
     then raise (RegistryConflict ''runtime stop identity is not verified'')
     else seq (docker env dir (remove_arguments cid) 30 None) (\<lambda>_. return ([first, second], logged))))))))))))))"

definition absence_document :: "'w runtime_env \<Rightarrow> string \<Rightarrow> string \<Rightarrow> string option \<Rightarrow> flt \<Rightarrow> string" where
  "absence_document env name aid cid now = uk_dumps (re_codec env) (JObj
     [(''kind'', JStr ''managed-runtime-terminal-absence-v1''),
      (''container_id'', case cid of None \<Rightarrow> JNull | Some c \<Rightarrow> JStr c), (''attempt_name'', JStr name),
      (''id_absent'', JBool True), (''name_absent'', JBool True), (''observed_at'', JFloat now)])"

definition make_abort :: "abort_receipt \<Rightarrow> abort_receipt res" where
  "make_abort r = bind_res (ensure (attempt_token (ab_attempt r) \<and> is_sha256 (ab_specification r) \<and>
       opt_all is_sha256 (ab_container r) \<and> 0 < ab_observed r) (ValueError ''abort receipt'')) (\<lambda>_. Inr r)"

definition started_of :: "json option \<Rightarrow> string option res" where
  "started_of d = (case d of None \<Rightarrow> Inr None
     | Some v \<Rightarrow> if falsy v then Inr None
         else bind_res (bind_res (item_of v ''started_at'') started_text) (\<lambda>t. Inr (Some t)))"

definition reconcile_container :: "'w runtime_env \<Rightarrow> launch_spec \<Rightarrow> string \<Rightarrow> string \<Rightarrow> artifact_ref \<Rightarrow> string
    \<Rightarrow> ('w host, abort_receipt) action" where
  "reconcile_container env s aid dir inp launch_stage =
     seq (owned env (read_document env (inside dir ''allocation.json''))) (\<lambda>allocation.
     seq (owned env (read_document env (inside dir ''first-start.json''))) (\<lambda>start.
     seq (fallible (bound_container allocation)) (\<lambda>bound.
     seq (fallible (runtime_name aid)) (\<lambda>name.
     seq (find_container env name dir None) (\<lambda>found.
     seq (if found = None \<and> bound = None
          then owned env (\<lambda>h. (Inr (lookup (ho_files h) (inside dir ''create-request.json'') \<noteq> None \<and>
                 lookup (ho_files h) (inside dir ''create-complete.json'') = None), h))
          else return False) (\<lambda>unresolved.
     if unresolved then raise (RegistryConflict ''unacknowledged create requires operator reconciliation'') else
     seq (case found of None \<Rightarrow> return ([], None) | Some cid \<Rightarrow> remove_found env s aid dir bound start cid) (\<lambda>(seen, logged).
     let cid = (case found of None \<Rightarrow> bound | Some c \<Rightarrow> Some c) in
     seq (verify_absent env aid dir cid) (\<lambda>_.
     seq (wall_time env) (\<lambda>observed.
     seq (owned env (put_artifact env (absence_document env name aid cid observed))) (\<lambda>absent.
     seq (wall_time env) (\<lambda>now.
     seq (fallible (started_of start)) (\<lambda>started.
     fallible (make_abort \<lparr>ab_input = inp, ab_stage = launch_stage, ab_attempt = aid,
       ab_specification = launch_digest (re_codec env) s, ab_container = cid, ab_started = started,
       ab_removed = (found \<noteq> None), ab_inspections = seen @ [absent], ab_log_error = logged,
       ab_observed = now\<rparr>)))))))))))))"

definition abort_intent :: "'w runtime_env \<Rightarrow> string \<Rightarrow> string \<Rightarrow> string \<Rightarrow> artifact_ref \<Rightarrow> launch_spec \<Rightarrow> json" where
  "abort_intent env sid launch_stage aid inp s = JObj
     [(''kind'', JStr ''managed-runtime-abort-v1''), (''launch_stage_id'', JStr launch_stage),
      (''launch_input'', ref_json inp), (''attempt_id'', JStr aid), (''abort_stage_id'', JStr sid),
      (''specification_sha256'', JStr (launch_digest (re_codec env) s))]"

definition incomplete :: "stage_state \<Rightarrow> string \<Rightarrow> bool" where
  "incomplete st aid \<longleftrightarrow> ss_attempt st = Some aid \<and> ss_status st \<in> {Running, Failed}"

text \<open>What an abort of an already failed launch verifies again.\<close>

definition recorded_abort :: "'w runtime_env \<Rightarrow> stage_state \<Rightarrow> string \<Rightarrow> artifact_ref \<Rightarrow> string \<Rightarrow> launch_spec
    \<Rightarrow> string \<Rightarrow> ('w host, abort_receipt) action" where
  "recorded_abort env current launch_stage inp aid s dir =
     (case ss_reconciliation current of None \<Rightarrow> raise (RegistryConflict ''launch failed with different reconciliation'')
      | Some ref \<Rightarrow> if ss_error current \<noteq> Some ''RuntimeAborted''
          then raise (RegistryConflict ''launch failed with different reconciliation'')
          else seq (seq (owned env (get_artifact env ref)) (\<lambda>c. fallible (uk_read_abort (re_codec env) c))) (\<lambda>result.
            if (ab_input result, ab_attempt result, ab_stage result, ab_specification result) \<noteq>
               (inp, aid, launch_stage, launch_digest (re_codec env) s)
            then raise (RegistryConflict ''abort reconciliation identity changed'')
            else seq (verify_absent env aid dir (ab_container result)) (\<lambda>_. return result)))"

definition fenced_abort :: "'w runtime_env \<Rightarrow> string \<Rightarrow> string \<Rightarrow> string \<Rightarrow> artifact_ref \<Rightarrow> launch_spec \<Rightarrow> string
    \<Rightarrow> ('w host, abort_receipt) action" where
  "fenced_abort env sid launch_stage aid inp s dir = (let intent = abort_intent env sid launch_stage aid inp s in
     seq (owned env (stage_of env launch_stage)) (\<lambda>current.
     if \<not> incomplete current aid then raise (RegistryConflict ''launch completed or changed before abort fence'') else
     seq (owned env (declare_json env sid intent)) (\<lambda>st.
     seq (if ss_status st \<in> {Running, Completed} then return st else start_attempt env sid) (\<lambda>running.
     seq (owned env (freeze_file (inside dir ''abort-intent.json'') (uk_dumps (re_codec env) intent))) (\<lambda>_.
     seq (if ss_status current = Failed then recorded_abort env current launch_stage inp aid s dir
          else reconcile_container env s aid dir inp launch_stage) (\<lambda>result.
     seq (owned env (put_artifact env (uk_abort_json (re_codec env) result))) (\<lambda>ref.
     seq (if ss_status current = Running
          then seq (owned env (fail_attempt env launch_stage aid ''RuntimeAborted'' ref)) (\<lambda>_. return ()) else return ()) (\<lambda>_.
     seq (owner_of running) (\<lambda>mine.
     seq (owned env (finish_attempt env sid mine ref)) (\<lambda>_. return result))))))))))"

definition abort_runtime_stage :: "'w runtime_env \<Rightarrow> string \<Rightarrow> string \<Rightarrow> string \<Rightarrow> ('w host, abort_receipt) action" where
  "abort_runtime_stage env sid launch_stage aid = (let k = re_codec env in
     seq (fallible (runtime_name aid)) (\<lambda>_.
     seq (owned env (stage_of env launch_stage)) (\<lambda>launched.
     if \<not> incomplete launched aid then raise (RegistryConflict ''abort requires the exact incomplete launch attempt'') else
     seq (owned env (input_of env launched)) (\<lambda>frozen.
     seq (fallible (field_differs frozen ''kind'' (JStr ''managed-runtime-launch-v1''))) (\<lambda>other.
     if other then raise (ValueError ''abort requires a managed launch input'') else
     seq (fallible (field_differs frozen ''operation_protocol'' (JStr operation_protocol))) (\<lambda>legacy.
     if legacy then raise (RegistryConflict ''legacy runtime protocol requires operator reconciliation'') else
     seq (fallible (bind_res (item_of frozen ''specification'') (uk_read_spec k))) (\<lambda>s.
     seq (fallible (bind_res (item_of frozen ''workspace'') text_of)) (\<lambda>workspace. let dir = inside workspace aid in
     seq (owned env (seq (owned_directory env workspace) (\<lambda>_. owned_directory env dir))) (\<lambda>_.
     fenced_abort env sid launch_stage aid (ss_input launched) s dir)))))))))"

end
