(* ===== verification/RuntimeGuarantees.thy ===== *)
theory RuntimeGuarantees
  imports RuntimeStages
begin

text \<open>
  What a managed attempt may do to the Docker daemon, whatever the daemon answers, wherever a call
  is cancelled and however often calls are repeated: evidence files are never changed, at most one
  container is created and at most one start requested under an attempt's directory, nothing is
  created or started once an abort is intended, and only an inspected, stopped container is removed.
\<close>

subsection \<open>Evolution of the host\<close>

abbreviation entries_for :: "string \<Rightarrow> string \<Rightarrow> (string \<times> string list \<times> string res) list \<Rightarrow> nat" where
  "entries_for verb dir cs \<equiv> length (filter (\<lambda>(d, args, _). d = dir \<and> take 3 args = [''docker'', ''container'', verb]) cs)"

definition created :: "string \<Rightarrow> (string \<times> string list \<times> string res) list \<Rightarrow> nat" where
  "created dir cs = entries_for ''create'' dir cs"

definition started :: "string \<Rightarrow> (string \<times> string list \<times> string res) list \<Rightarrow> nat" where
  "started dir cs = entries_for ''start'' dir cs"

lemma created_append [simp]: "created dir (l @ l') = created dir l + created dir l'"
  and started_append [simp]: "started dir (l @ l') = started dir l + started dir l'"
  and created_Nil [simp]: "created dir [] = 0" and started_Nil [simp]: "started dir [] = 0"
  by (simp_all add: created_def started_def)

abbreviation present :: "'w host \<Rightarrow> string \<Rightarrow> string \<Rightarrow> bool" where
  "present h dir name \<equiv> lookup (ho_files h) (inside dir name) \<noteq> None"

lemma entry_single: "created d [(dir, args, q)] = (if d = dir \<and> take 3 args = [''docker'', ''container'', ''create''] then 1 else 0)"
  "started d [(dir, args, q)] = (if d = dir \<and> take 3 args = [''docker'', ''container'', ''start''] then 1 else 0)"
  by (auto simp: created_def started_def)

text \<open>A removal is confirmed by an earlier inspection of the same container under the same directory,
  whose document passed the validation of a frozen launch and says that it does not run.\<close>

type_synonym docker_log = "(string \<times> string list \<times> string res) list"

definition is_removal :: "string \<times> string list \<times> string res \<Rightarrow> bool" where
  "is_removal e \<longleftrightarrow> take 3 (fst (snd e)) = [''docker'', ''container'', ''rm'']"

definition running_of :: "json \<Rightarrow> json res" where
  "running_of actual = bind_res (item_of actual ''State'') (\<lambda>st. item_of st ''Running'')"

definition stopped :: "stage_codec \<Rightarrow> string \<Rightarrow> string \<Rightarrow> json \<Rightarrow> string \<Rightarrow> bool" where
  "stopped k dir cid actual out \<longleftrightarrow> running_of actual = Inr (JBool False) \<and>
     (\<exists>v. item_of actual ''Id'' = Inr v \<and> equals v (JStr cid)) \<and>
     (\<exists>doc s aid frozen. bounded_json k out = Inr doc \<and> inspect_runtime k doc s aid dir frozen = Inr actual)"

definition confirms :: "stage_codec \<Rightarrow> string \<Rightarrow> string \<Rightarrow> docker_log \<Rightarrow> bool" where
  "confirms k dir cid cs \<longleftrightarrow> (\<exists>out actual. (dir, inspect_arguments cid, Inr out) \<in> set cs \<and> stopped k dir cid actual out)"

text \<open>What a call is about: the codec, the directories it may request for, and the containers whose
  stopped state was confirmed before it.\<close>

record scope =
  sc_codec :: stage_codec
  sc_dirs :: "string set"
  sc_confirmed :: "(string \<times> string) set"

definition checked :: "scope \<Rightarrow> docker_log \<Rightarrow> bool" where
  "checked S cs \<longleftrightarrow> (\<forall>pre e post. cs = pre @ e # post \<longrightarrow> is_removal e \<longrightarrow> (\<exists>cid. fst (snd e) = remove_arguments cid \<and>
     ((fst e, cid) \<in> sc_confirmed S \<or> confirms (sc_codec S) (fst e) cid pre)))"

lemma confirms_append: "confirms k dir cid pre \<Longrightarrow> confirms k dir cid (m @ pre)"
  by (auto simp: confirms_def)

lemma checked_Nil [simp]: "checked S []"
  by (simp add: checked_def)

text \<open>\<open>T\<close> counts more containers as confirmed, all of which \<open>m\<close> confirms.\<close>

definition widens :: "scope \<Rightarrow> scope \<Rightarrow> docker_log \<Rightarrow> bool" where
  "widens S T m \<longleftrightarrow> sc_codec T = sc_codec S \<and> sc_dirs T = sc_dirs S \<and>
     (\<forall>(d, cid) \<in> sc_confirmed T. (d, cid) \<in> sc_confirmed S \<or> confirms (sc_codec S) d cid m)"

lemma widens_refl: "widens S S m"
  by (auto simp: widens_def)

lemma confirms_before: "confirms k dir cid m \<Longrightarrow> confirms k dir cid (m @ pre)"
  by (auto simp: confirms_def)

lemma checked_append:
  assumes "checked S m" and "checked T n" and "widens S T m"
  shows "checked S (m @ n)"
  unfolding checked_def
proof (intro allI impI)
  fix pre e post
  assume mn: "m @ n = pre @ e # post" and rem: "is_removal e"
  consider us where "m = pre @ e # us" | us where "pre = m @ us" "n = us @ e # post"
    using mn by (auto simp: append_eq_append_conv2 append_eq_Cons_conv)
  then show "\<exists>cid. fst (snd e) = remove_arguments cid \<and>
     ((fst e, cid) \<in> sc_confirmed S \<or> confirms (sc_codec S) (fst e) cid pre)"
  proof cases
    case 1
    with assms(1) rem show ?thesis unfolding checked_def by blast
  next
    case 2
    with assms(2) rem obtain cid where "fst (snd e) = remove_arguments cid"
      "(fst e, cid) \<in> sc_confirmed T \<or> confirms (sc_codec T) (fst e) cid us" unfolding checked_def by blast
    with 2(1) assms(3) show ?thesis unfolding widens_def
      by (auto intro: confirms_append confirms_before dest!: bspec)
  qed
qed

lemma checked_single: "\<not> is_removal e \<Longrightarrow> checked S [e]"
  by (auto simp: checked_def append_eq_Cons_conv Cons_eq_append_conv)

text \<open>A request is spent once its file exists.\<close>

definition spends :: "nat \<Rightarrow> bool \<Rightarrow> bool \<Rightarrow> bool" where
  "spends n before after \<longleftrightarrow> n \<le> (if before then 0 else 1) \<and> (0 < n \<longrightarrow> after)"

definition evolves :: "scope \<Rightarrow> 'w host \<Rightarrow> 'w host \<Rightarrow> bool" where
  "evolves S h h' \<longleftrightarrow> (\<forall>p c. lookup (ho_files h) p = Some c \<longrightarrow> lookup (ho_files h') p = Some c) \<and>
     (\<exists>new. ho_log h' = ho_log h @ new \<and> checked S new \<and> (\<forall>dir.
        spends (created dir new) (present h dir ''create-request.json'') (present h' dir ''create-request.json'') \<and>
        spends (started dir new) (present h dir ''start-request.json'') (present h' dir ''start-request.json'') \<and>
        (dir \<notin> sc_dirs S \<longrightarrow> created dir new = 0 \<and> started dir new = 0)))"

lemma spends_refl [simp]: "spends 0 b c"
  by (simp add: spends_def)

lemma spends_trans: "spends m a b \<Longrightarrow> spends n b c \<Longrightarrow> (b \<Longrightarrow> c) \<Longrightarrow> (a \<Longrightarrow> b) \<Longrightarrow> spends (m + n) a c"
  by (auto simp: spends_def split: if_splits)

lemma evolves_refl: "evolves S h h"
  unfolding evolves_def by (auto intro!: exI [of _ "[]"])

lemma evolves_link:
  assumes "evolves S a b" and "evolves T b c" and "\<And>m. ho_log b = ho_log a @ m \<Longrightarrow> widens S T m"
  shows "evolves S a c"
proof -
  from assms obtain m n where ab: "ho_log b = ho_log a @ m" "checked S m" "\<forall>p c. lookup (ho_files a) p = Some c \<longrightarrow> lookup (ho_files b) p = Some c"
    "\<forall>dir. spends (created dir m) (present a dir ''create-request.json'') (present b dir ''create-request.json'') \<and>
      spends (started dir m) (present a dir ''start-request.json'') (present b dir ''start-request.json'') \<and>
      (dir \<notin> sc_dirs S \<longrightarrow> created dir m = 0 \<and> started dir m = 0)"
    and bc: "ho_log c = ho_log b @ n" "checked T n" "\<forall>p v. lookup (ho_files b) p = Some v \<longrightarrow> lookup (ho_files c) p = Some v"
    "\<forall>dir. spends (created dir n) (present b dir ''create-request.json'') (present c dir ''create-request.json'') \<and>
      spends (started dir n) (present b dir ''start-request.json'') (present c dir ''start-request.json'') \<and>
      (dir \<notin> sc_dirs T \<longrightarrow> created dir n = 0 \<and> started dir n = 0)"
    unfolding evolves_def by blast
  have w: "widens S T m" using assms(3) ab(1) by simp
  have keeps: "present a dir name \<Longrightarrow> present b dir name" "present b dir name \<Longrightarrow> present c dir name" for dir name
    using ab(3) bc(3) by auto
  have "ho_log c = ho_log a @ (m @ n)" using ab(1) bc(1) by simp
  moreover have "spends (created dir (m @ n)) (present a dir ''create-request.json'') (present c dir ''create-request.json'')"
    "spends (started dir (m @ n)) (present a dir ''start-request.json'') (present c dir ''start-request.json'')" for dir
    unfolding created_append started_append using ab(4) bc(4) keeps by (blast intro: spends_trans)+
  moreover have "dir \<notin> sc_dirs S \<Longrightarrow> created dir (m @ n) = 0 \<and> started dir (m @ n) = 0" for dir
    using ab(4) bc(4) w by (simp add: widens_def)
  moreover have "checked S (m @ n)" using ab(2) bc(2) w by (rule checked_append)
  ultimately show ?thesis unfolding evolves_def using ab(3) bc(3) by blast
qed

lemma evolves_trans: "evolves S a b \<Longrightarrow> evolves S b c \<Longrightarrow> evolves S a c"
  by (rule evolves_link [where T = S]) (simp_all add: widens_refl)

interpretation host: effect "evolves S" for S
  by unfold_locales (rule evolves_refl, erule evolves_trans)

lemmas host_steps = host.seq_steps host.recover_steps host.attempt_steps host.pure host.on_sum host.on_option host.on_if

subsection \<open>Steps that request nothing\<close>

lemma same_evolves: "ho_files h' = ho_files h \<Longrightarrow> ho_log h' = ho_log h \<Longrightarrow> evolves S h h'"
  unfolding evolves_def by (auto intro!: exI [of _ "[]"])

lemma evolves_tick [simp]: "evolves S h (h'\<lparr>ho_tick := n\<rparr>) = evolves S h h'"
  by (simp add: evolves_def)

lemma tick_steps: "evolves S h (snd (f h)) \<Longrightarrow> evolves S h (snd (tick f h))"
  by (auto simp: tick_def split: prod.splits)

lemma owned_steps: "evolves S h (snd (f h)) \<Longrightarrow> evolves S h (snd (owned env f h))"
  by (auto simp: owned_def split: prod.splits)

lemma clock_steps: "evolves S h (snd (monotonic env h))" "evolves S h (snd (wall_time env h))"
  by (auto simp: monotonic_def wall_time_def intro!: tick_steps intro: evolves_refl)

lemma read_steps: "evolves S h (snd (file_exists p h))" "evolves S h (snd (read_file p h))"
  "evolves S h (snd (any_exists dir names h))" "evolves S h (snd (read_inspection env s aid dir out h))"
  "evolves S h (snd (owned_directory env p h))" "evolves S h (snd ((\<lambda>h. (f h, h)) h))"
  by (simp_all add: file_exists_def read_file_def any_exists_def read_inspection_def owned_directory_def
      fallible_def Let_def evolves_refl)

lemma freeze_steps: "evolves S h (snd (freeze_file p c h))"
proof (cases "lookup (ho_files h) p")
  case None
  then show ?thesis
    by (auto simp: freeze_file_def evolves_def lookup_append_new simp del: map_of_append intro!: exI [of _ "[]"])
qed (simp add: freeze_file_def evolves_refl)

lemma probe_steps: "evolves S h (snd (probe_endpoint env s h))"
  unfolding probe_endpoint_def by (rule tick_steps) (auto split: prod.splits intro: same_evolves)

lemma remaining_steps: "evolves S h (snd (remaining env deadline budget h))"
  unfolding remaining_def by (intro host_steps clock_steps)

lemma state_steps: "evolves S h (snd (state_item v key h))"
  unfolding state_item_def by (rule host.pure)

lemma journal_steps: "evolves S h (snd (journaled env f h))"
  by (auto simp: journaled_def Let_def split: prod.splits intro: same_evolves)

definition requests :: "string list \<Rightarrow> bool" where
  "requests args \<longleftrightarrow> take 3 args \<in> {[''docker'', ''container'', ''create''], [''docker'', ''container'', ''start''],
     [''docker'', ''container'', ''rm'']}"

lemma quiet_issue: "\<not> requests args \<Longrightarrow> evolves S h (snd (issue env dir args h))"
  by (auto simp: issue_def evolves_def requests_def created_def started_def is_removal_def intro!: checked_single
      split: prod.splits)

lemma quiet_docker: "\<not> requests args \<Longrightarrow> evolves S h (snd (docker env dir args budget deadline h))"
  unfolding docker_def by (intro owned_steps host_steps remaining_steps quiet_issue)

lemma quiet_arguments [simp]: "\<not> requests (list_arguments sel)" "\<not> requests (inspect_arguments cid)"
  "\<not> requests (stop_arguments s cid)" "\<not> requests (logs_arguments cid)"
  "\<not> requests [''docker'', ''image'', ''inspect'', i]"
  by (simp_all add: requests_def list_arguments_def inspect_arguments_def stop_arguments_def logs_arguments_def)

lemmas simple_steps = owned_steps clock_steps read_steps freeze_steps probe_steps remaining_steps state_steps
  journal_steps quiet_docker quiet_arguments

lemma lookup_steps: "evolves S h (snd (lookup_container env sel dir deadline h))"
  unfolding lookup_container_def by (intro host_steps simple_steps)

lemma find_steps: "evolves S h (snd (find_container env name dir deadline h))"
  unfolding find_container_def by (rule lookup_steps)

lemma inspect_steps: "evolves S h (snd (inspect_container env cid s aid dir deadline h))"
  unfolding inspect_container_def by (intro host_steps simple_steps)

lemma input_steps: "evolves S h (snd (freeze_inputs env s dir h))"
  unfolding freeze_inputs_def by (intro host_steps simple_steps)

lemma prepare_steps: "evolves S h (snd (prepare_inputs env s dir h))"
  unfolding prepare_inputs_def by (intro host_steps simple_steps)

lemma image_steps: "evolves S h (snd (freeze_image env s dir out h))"
  unfolding freeze_image_def Let_def by (intro host_steps simple_steps)

lemma receipt_steps: "evolves S h (snd (observed_receipt env s aid cid v e dir h))"
  unfolding observed_receipt_def by (intro host_steps simple_steps)

lemmas read_only_steps = simple_steps lookup_steps find_steps inspect_steps input_steps prepare_steps image_steps receipt_steps

lemma round_steps: "evolves S h (snd (readiness_round env s aid dir cid start h))"
  unfolding readiness_round_def Let_def by (intro host_steps read_only_steps)

lemma readiness_steps: "evolves S h (snd (readiness n env s aid dir cid start h))"
proof (induction n arbitrary: h)
  case (Suc n)
  show ?case unfolding readiness.simps by (intro host_steps read_only_steps round_steps Suc.IH)
qed (simp add: host.pure)

subsection \<open>Requests\<close>

lemma owned_Inr: "owned env f h = (Inr a, h') \<Longrightarrow> \<exists>h1. f h = (Inr a, h1) \<and> h' = h1\<lparr>ho_tick := Suc (ho_tick h1)\<rparr>"
  by (auto simp: owned_def split: prod.splits if_splits)

lemma owned_state: "snd (owned env f h) = (snd (f h))\<lparr>ho_tick := Suc (ho_tick (snd (f h)))\<rparr>"
  by (simp add: owned_def split: prod.splits)

lemma inside_inj [simp]: "inside dir a = inside dir b \<longleftrightarrow> a = b"
  by (simp add: inside_def)

text \<open>A request of either kind: its file is absent, is written, and then one command is issued.\<close>

definition verb_of :: "string \<Rightarrow> string" where
  "verb_of name = (if name = ''create-request.json'' then ''create'' else ''start'')"

lemma spend_request:
  assumes "\<not> present h dir name" and "present h1 dir name" and "evolves S h h1" and "ho_log h1 = ho_log h"
    and "name \<in> {''create-request.json'', ''start-request.json''}" and "dir \<in> sc_dirs S"
    and "take 3 args = [''docker'', ''container'', verb_of name]"
    and "ho_files h2 = ho_files h1" and "ho_log h2 = ho_log h1 @ new" and "new \<in> {[], [(dir, args, r)]}"
  shows "evolves S h h2"
proof -
  from assms(4,9) have "ho_log h2 = ho_log h @ new" by simp
  moreover have "spends (created d new) (present h d ''create-request.json'') (present h2 d ''create-request.json'')"
    "spends (started d new) (present h d ''start-request.json'') (present h2 d ''start-request.json'')"
    "d \<notin> sc_dirs S \<longrightarrow> created d new = 0 \<and> started d new = 0" for d
    using assms(1,2,5-8,10) by (auto simp: spends_def entry_single verb_of_def split: if_splits)
  moreover have "checked S new"
    using assms(7,10) by (auto intro!: checked_single simp: is_removal_def verb_of_def split: if_splits)
  ultimately show ?thesis using assms(3,8) unfolding evolves_def by auto
qed

lemma remaining_state: "\<exists>n. snd (remaining env deadline budget h) = h\<lparr>ho_tick := n\<rparr>"
proof (cases deadline)
  case None
  then show ?thesis
    by (auto simp: remaining_def seq_def return_def raise_def intro!: exI [of _ "ho_tick h"])
qed (auto simp: remaining_def seq_def return_def raise_def monotonic_def tick_def)

lemma docker_state: "\<exists>new r. ho_files (snd (docker env dir args budget deadline h)) = ho_files h \<and>
    ho_log (snd (docker env dir args budget deadline h)) = ho_log h @ new \<and> new \<in> {[], [(dir, args, r)]}"
proof -
  obtain n where n: "snd (remaining env deadline budget h) = h\<lparr>ho_tick := n\<rparr>" using remaining_state by blast
  show ?thesis
  proof (cases "fst (remaining env deadline budget h)")
    case (Inl e)
    then have "remaining env deadline budget h = (Inl e, h\<lparr>ho_tick := n\<rparr>)" using n by (metis prod.collapse)
    then show ?thesis by (simp add: docker_def owned_state seq_def)
  next
    case (Inr a)
    then have "remaining env deadline budget h = (Inr a, h\<lparr>ho_tick := n\<rparr>)" using n by (metis prod.collapse)
    then show ?thesis by (auto simp: docker_def owned_state seq_def issue_def split: prod.splits)
  qed
qed

lemma seq_assoc: "seq (seq f g) k = seq f (\<lambda>a. seq (g a) k)"
  by (rule ext) (simp add: seq_def split: prod.splits sum.splits)

lemma requested_steps:
  assumes "\<not> present h dir name" and "name \<in> {''create-request.json'', ''start-request.json''}" and "dir \<in> sc_dirs S"
    and "\<And>args. q = Inr args \<Longrightarrow> take 3 args = [''docker'', ''container'', verb_of name]"
  shows "evolves S h (snd (seq (owned env (freeze_file (inside dir name) c))
    (\<lambda>_. seq (fallible q) (\<lambda>args. docker env dir args budget deadline)) h))"
proof -
  let ?f = "freeze_file (inside dir name) c"
  have step: "evolves S h (snd (owned env ?f h))" by (intro simple_steps)
  obtain a h1 where o: "owned env ?f h = (a, h1)" by fastforce
  have h1: "present h1 dir name" "ho_log h1 = ho_log h" "evolves S h h1"
    using owned_state [of env ?f h] o assms(1) step
    by (simp_all add: freeze_file_def lookup_append_new split: option.splits del: map_of_append)
  show ?thesis
  proof (cases a)
    case (Inl e)
    with o h1 show ?thesis by (simp add: seq_def)
  next
    case (Inr u)
    show ?thesis
    proof (cases q)
      case (Inl e)
      with o Inr h1 show ?thesis by (simp add: seq_def fallible_def)
    next
      case (Inr args)
      obtain new r where d: "ho_files (snd (docker env dir args budget deadline h1)) = ho_files h1"
        "ho_log (snd (docker env dir args budget deadline h1)) = ho_log h1 @ new" "new \<in> {[], [(dir, args, r)]}"
        using docker_state by blast
      have "evolves S h (snd (docker env dir args budget deadline h1))"
        by (rule spend_request [OF assms(1) h1(1) h1(3) h1(2) assms(2,3) assms(4) [OF Inr] d])
      with o \<open>a = Inr u\<close> Inr show ?thesis by (simp add: seq_def fallible_def)
    qed
  qed
qed

lemma create_arguments_verb: "create_arguments k s aid dir = Inr args \<Longrightarrow> take 3 args = [''docker'', ''container'', ''create'']"
  by (auto simp: create_arguments_def res_iff)

lemma any_exists_False:
  "owned env (any_exists dir names) h = (Inr False, h') \<Longrightarrow> n \<in> set names \<Longrightarrow> \<not> present h' dir n"
  by (auto simp: owned_def any_exists_def list_ex_iff split: if_splits)

lemma unless_requested:
  assumes "name \<in> set names" and "\<And>h. evolves S h (snd (raise e h))"
    and "\<And>h. \<not> present h dir name \<Longrightarrow> evolves S h (snd (k h))"
  shows "evolves S h (snd (seq (owned env (any_exists dir names)) (\<lambda>requested. if requested then raise e else k) h))"
proof (rule seq_rel [where R = "evolves S"])
  show "evolves S h (snd (owned env (any_exists dir names) h))" by (intro simple_steps)
  fix requested h'
  assume o: "owned env (any_exists dir names) h = (Inr requested, h')" and "evolves S h h'"
  moreover have "evolves S h' (snd ((if requested then raise e else k) h'))"
  proof (cases requested)
    case False
    with any_exists_False [of env dir names h h' name] o assms(1,3) show ?thesis by simp
  qed (simp add: host.pure)
  ultimately show "evolves S h (snd ((if requested then raise e else k) h'))" by (blast intro: evolves_trans)
qed

lemma create_steps:
  assumes "dir \<in> sc_dirs S"
  shows "evolves S h (snd (create_container env s aid dir name deadline h))"
proof -
  let ?k = "re_codec env"
  let ?request = "seq (owned env (freeze_file (inside dir ''create-request.json'') (launch_digest ?k s)))
    (\<lambda>_. seq (fallible (create_arguments ?k s aid dir)) (\<lambda>args. docker env dir args 60 deadline))"
  let ?rest = "seq (owned env (freeze_file (inside dir ''create-complete.json'') (launch_digest ?k s))) (\<lambda>_.
     seq (find_container env name dir deadline) (\<lambda>found.
     case found of None \<Rightarrow> raise (RuntimeError ''created runtime not observed; reconciliation required'')
     | Some cid \<Rightarrow> return cid))"
  have rest: "evolves S h (snd (?rest h))" for h by (intro host_steps read_only_steps)
  have "evolves S h (snd (seq ?request (\<lambda>_. ?rest) h))" if "\<not> present h dir ''create-request.json''" for h
  proof (rule seq_rel [where R = "evolves S"])
    show "evolves S h (snd (?request h))"
      using that assms create_arguments_verb by (intro requested_steps) (auto simp: verb_of_def)
  qed (use rest in \<open>blast intro: evolves_trans\<close>)
  then show ?thesis unfolding create_container_def Let_def seq_assoc
    by (intro unless_requested [where name = "''create-request.json''"]) (auto simp: host.pure)
qed

lemma seq_known [simp]: "seq (fallible (Inr a)) f = f a"
  by (rule ext) (simp add: seq_def fallible_def)

lemma start_steps:
  assumes "dir \<in> sc_dirs S"
  shows "evolves S h (snd (start_container env dir cid actual deadline h))"
proof -
  let ?request = "seq (owned env (freeze_file (inside dir ''start-request.json'') cid))
    (\<lambda>_. seq (fallible (Inr (start_arguments cid))) (\<lambda>args. docker env dir args 60 deadline))"
  have "evolves S h (snd (seq ?request (\<lambda>_. return ()) h))" if "\<not> present h dir ''start-request.json''" for h
  proof (rule seq_rel [where R = "evolves S"])
    show "evolves S h (snd (?request h))"
      using that assms by (intro requested_steps) (auto simp: verb_of_def start_arguments_def)
  qed (simp add: return_def)
  then have "evolves S h (snd (seq (owned env (any_exists dir [''first-start.json'', ''start-request.json'']))
      (\<lambda>requested. if requested then raise e else seq ?request (\<lambda>_. return ())) h))" for h e
    by (intro unless_requested [where name = "''start-request.json''"]) (auto simp: host.pure)
  note asked = this [unfolded seq_assoc seq_known]
  show ?thesis unfolding start_container_def
  proof (rule host.seq_steps, rule state_steps, rule host.on_if, rule asked)
    show "evolves S w (snd (seq (state_item actual ''Running'') (\<lambda>running. if running \<noteq> JBool True
       then raise (RuntimeError ''owned runtime exited; inspect retained evidence before a new attempt'')
       else return ()) w))" for w by (intro host_steps state_steps)
  qed
qed

lemma launch_body_steps: "inside ws aid \<in> sc_dirs S \<Longrightarrow> evolves S h (snd (launch_body env s aid ws h))"
  unfolding launch_body_def Let_def
  by (intro host_steps read_only_steps readiness_steps create_steps start_steps) simp_all

subsection \<open>Stages that request nothing\<close>

lemma inspect_Inr:
  assumes "inspect_container env cid s aid dir deadline h = (Inr actual, h')"
  shows "\<exists>out. ho_log h' = ho_log h @ [(dir, inspect_arguments cid, Inr out)] \<and>
    (running_of actual = Inr (JBool False) \<longrightarrow> stopped (re_codec env) dir cid actual out)"
proof -
  from assms obtain out h1 h2 other where 1: "docker env dir (inspect_arguments cid) 30 deadline h = (Inr out, h1)"
    and 2: "owned env (read_inspection env s aid dir out) h1 = (Inr actual, h2)"
    and 3: "differs (item_of actual ''Id'') (JStr cid) = Inr False" "h' = h2"
    unfolding inspect_container_def
    by (auto simp: seq_Inr_iff fallible_def raise_def return_def split: if_splits)
  from 1 obtain a where "seq (remaining env deadline 30) (\<lambda>_. issue env dir (inspect_arguments cid)) h = (Inr out, a)"
    "h1 = a\<lparr>ho_tick := Suc (ho_tick a)\<rparr>" unfolding docker_def by (blast dest: owned_Inr)
  moreover then obtain u b where "remaining env deadline 30 h = (Inr u, b)" "issue env dir (inspect_arguments cid) b = (Inr out, a)"
    by (auto simp: seq_Inr_iff)
  moreover obtain n where "snd (remaining env deadline 30 h) = h\<lparr>ho_tick := n\<rparr>" using remaining_state by blast
  ultimately have "ho_log h1 = ho_log h @ [(dir, inspect_arguments cid, Inr out)]"
    by (auto simp: issue_def split: prod.splits)
  moreover from 2 obtain h3 where "read_inspection env s aid dir out h1 = (Inr actual, h3)" "h2 = h3\<lparr>ho_tick := Suc (ho_tick h3)\<rparr>"
    by (blast dest: owned_Inr)
  ultimately show ?thesis using 3
    by (auto simp: read_inspection_def Let_def res_iff stopped_def)
qed

definition confirmed_by :: "scope \<Rightarrow> string \<Rightarrow> string \<Rightarrow> json \<Rightarrow> scope" where
  "confirmed_by S dir cid actual = S\<lparr>sc_confirmed := sc_confirmed S \<union>
     (if running_of actual = Inr (JBool False) then {(dir, cid)} else {})\<rparr>"

lemma inspect_then:
  assumes "sc_codec S = re_codec env" and "\<And>actual w. evolves (confirmed_by S dir cid actual) w (snd (k actual w))"
  shows "evolves S h (snd (seq (inspect_container env cid s aid dir deadline) k h))"
proof -
  obtain r h1 where i: "inspect_container env cid s aid dir deadline h = (r, h1)" by fastforce
  have step: "evolves S h h1" using inspect_steps [of S h env cid s aid dir deadline] i by simp
  show ?thesis
  proof (cases r)
    case (Inl e)
    with i step show ?thesis by (simp add: seq_def)
  next
    case (Inr actual)
    from inspect_Inr i Inr obtain out where out: "ho_log h1 = ho_log h @ [(dir, inspect_arguments cid, Inr out)]"
      "running_of actual = Inr (JBool False) \<longrightarrow> stopped (re_codec env) dir cid actual out" by blast
    have "evolves S h (snd (k actual h1))"
    proof (rule evolves_link [OF step assms(2)])
      fix m
      assume "ho_log h1 = ho_log h @ m"
      with out show "widens S (confirmed_by S dir cid actual) m"
        by (auto simp: widens_def confirmed_by_def confirms_def assms(1))
    qed
    with i Inr show ?thesis by (simp add: seq_def)
  qed
qed

lemma known_steps: "(\<And>a w. r = Inr a \<Longrightarrow> evolves S w (snd (f a w))) \<Longrightarrow> evolves S h (snd (seq (fallible r) f h))"
  by (cases r) (auto simp: seq_def fallible_def evolves_refl)

lemma running_item: "state_item v ''Running'' = fallible (running_of v)"
  by (simp add: state_item_def running_of_def)

lemma removal_steps:
  assumes "(dir, cid) \<in> sc_confirmed S"
  shows "evolves S h (snd (docker env dir (remove_arguments cid) budget deadline h))"
proof -
  have "evolves S w (snd (issue env dir (remove_arguments cid) w))" for w
    using assms by (auto simp: issue_def evolves_def entry_single remove_arguments_def checked_def
        append_eq_Cons_conv Cons_eq_append_conv split: prod.splits)
  then show ?thesis unfolding docker_def by (intro owned_steps host_steps remaining_steps)
qed

lemma stop_found_steps:
  assumes "sc_codec S = re_codec env"
  shows "evolves S h (snd (stop_found env s r h))"
proof -
  have last: "evolves S w (snd (seq (inspect_container env (rr_container r) s (rr_attempt r) (rr_output r) None) (\<lambda>after.
     seq (state_item after ''Running'') (\<lambda>still.
     if still \<noteq> JBool False then raise (RuntimeError ''owned runtime stop is not verified'')
     else seq (docker env (rr_output r) (remove_arguments (rr_container r)) 30 None) (\<lambda>_. return ()))) w))" for w
    unfolding running_item
    by (rule inspect_then [OF assms], rule known_steps)
      (auto simp: confirmed_by_def intro!: host_steps removal_steps)
  show ?thesis unfolding stop_found_def Let_def by (intro host_steps last read_only_steps)
qed

lemma stop_steps: "sc_codec S = re_codec env \<Longrightarrow> evolves S h (snd (stop_runtime env s r h))"
  unfolding stop_runtime_def Let_def by (intro host_steps read_only_steps stop_found_steps)

lemma observe_steps: "evolves S h (snd (observe_runtime env s r h))"
  unfolding observe_runtime_def Let_def by (intro host_steps read_only_steps)

lemma stage_steps: "evolves S h (snd (stage_of env sid h))" "evolves S h (snd (get_artifact env r h))"
  "evolves S h (snd (put_artifact env dat h))" "evolves S h (snd (declare_json env sid v h))"
  "evolves S h (snd (start_attempt env sid h))" "evolves S h (snd (finish_attempt env sid aid r h))"
  "evolves S h (snd (fail_attempt env sid aid code r h))"
  by (simp_all add: stage_of_def get_artifact_def put_artifact_def declare_json_def start_attempt_def
      finish_attempt_def fail_attempt_def Let_def journal_steps)

lemma document_steps: "evolves S h (snd (input_of env st h))" "evolves S h (snd (output_of st m h))"
  "evolves S h (snd (owner_of st h))" "evolves S h (snd (read_document env p h))"
  unfolding input_of_def output_of_def owner_of_def read_document_def by (intro host_steps read_only_steps stage_steps)+

lemmas stage_read_steps = read_only_steps stage_steps document_steps

lemma upstream_steps: "evolves S h (snd (verified_model_receipt env st h))" "evolves S h (snd (verify_upstream env m b s h))"
  by (auto simp: verified_model_receipt_def verify_upstream_def Let_def split: prod.splits
      intro!: host_steps stage_read_steps)

lemma load_steps: "evolves S h (snd (load_launch env st s h))"
  unfolding load_launch_def Let_def by (intro host_steps stage_read_steps)

lemma on_json: "(\<And>d. evolves S h (snd (f d h))) \<Longrightarrow> evolves S h (snd (g h)) \<Longrightarrow>
    evolves S h (snd ((case v of JObj d \<Rightarrow> f d | _ \<Rightarrow> g) h))"
  by (cases v) auto

lemma on_list: "evolves S h (snd (f h)) \<Longrightarrow> (\<And>a as. evolves S h (snd (g a as h))) \<Longrightarrow>
    evolves S h (snd ((case xs of [] \<Rightarrow> f | a # as \<Rightarrow> g a as) h))"
  by (cases xs) auto

lemma on_pair: "(\<And>a b. evolves S h (snd (f a b h))) \<Longrightarrow> evolves S h (snd ((case p of (a, b) \<Rightarrow> f a b) h))"
  by (cases p) auto

lemma declare_steps: "evolves S h (snd (declare_launch_input env sid v h))"
  unfolding declare_launch_input_def Let_def by (intro host_steps stage_read_steps on_json on_list)

lemma publish_steps: "evolves S h (snd (publish_launch env sid aid s r h))"
  unfolding publish_launch_def by (intro host_steps stage_read_steps load_steps)

lemma completed_stop_steps: "evolves S h (snd (completed_stop env st aid ref cid h))"
  unfolding completed_stop_def by (intro host_steps stage_read_steps)

lemma publish_stop_steps: "evolves S h (snd (publish_stop env sid running ref cid h))"
  unfolding publish_stop_def by (intro host_steps stage_read_steps completed_stop_steps)

lemma stop_stage_steps: "sc_codec S = re_codec env \<Longrightarrow> evolves S h (snd (stop_runtime_stage env sid launch s h))"
  unfolding stop_runtime_stage_def
  by (intro host_steps stage_read_steps load_steps completed_stop_steps publish_stop_steps stop_steps)

lemma absent_steps: "evolves S h (snd (verify_absent env aid dir cid h))"
  unfolding verify_absent_def by (intro host_steps read_only_steps)

lemma remove_steps:
  assumes "sc_codec S = re_codec env"
  shows "evolves S h (snd (remove_found env s aid dir bound start cid h))"
proof -
  have last: "evolves S w (snd (seq (inspect_container env cid s aid dir None) (\<lambda>after.
     seq (owned env (put_artifact env (uk_dumps (re_codec env) after))) (\<lambda>second.
     seq (state_item after ''Running'') (\<lambda>still.
     seq (state_item after ''StartedAt'') (\<lambda>same.
     if still \<noteq> JBool False \<or> \<not> equals same started0 then raise (RegistryConflict ''runtime stop identity is not verified'')
     else seq (docker env dir (remove_arguments cid) 30 None) (\<lambda>_. return ([first, second], logged)))))) w))"
    for w first logged started0
    unfolding running_item
    by (rule inspect_then [OF assms], rule host.seq_steps, intro stage_read_steps, rule known_steps, rule host.seq_steps, rule state_steps)
      (auto simp: confirmed_by_def intro!: host_steps removal_steps)
  show ?thesis unfolding remove_found_def start_unbound_def start_bound_def capture_logs_def
    by (intro host_steps last stage_read_steps)
qed

lemma reconcile_steps: "sc_codec S = re_codec env \<Longrightarrow> evolves S h (snd (reconcile_container env s aid dir inp launch h))"
  unfolding reconcile_container_def Let_def
  by (intro host_steps stage_read_steps absent_steps remove_steps on_pair)

lemma recorded_steps: "evolves S h (snd (recorded_abort env current launch inp aid s dir h))"
  unfolding recorded_abort_def by (intro host_steps stage_read_steps absent_steps)

lemma abort_steps: "sc_codec S = re_codec env \<Longrightarrow> evolves S h (snd (abort_runtime_stage env sid launch aid h))"
  unfolding abort_runtime_stage_def fenced_abort_def Let_def
  by (intro host_steps stage_read_steps reconcile_steps recorded_steps)

subsection \<open>An intended abort\<close>

definition requests_in :: "'w runtime_env \<Rightarrow> string set \<Rightarrow> scope" where
  "requests_in env D = \<lparr>sc_codec = re_codec env, sc_dirs = D, sc_confirmed = {}\<rparr>"

lemma requests_in_simps [simp]: "sc_codec (requests_in env D) = re_codec env" "sc_dirs (requests_in env D) = D"
  by (simp_all add: requests_in_def)

definition obeys :: "'w runtime_env \<Rightarrow> 'w host \<Rightarrow> 'w host \<Rightarrow> bool" where
  "obeys env h h' \<longleftrightarrow> evolves (requests_in env UNIV) h h' \<and> (\<forall>new dir. ho_log h' = ho_log h @ new \<longrightarrow>
     present h dir ''abort-intent.json'' \<longrightarrow> created dir new = 0 \<and> started dir new = 0)"

lemma evolves_kept: "evolves S h h' \<Longrightarrow> present h dir name \<Longrightarrow> present h' dir name"
  by (auto simp: evolves_def)

lemma evolves_mono: "D \<subseteq> E \<Longrightarrow> evolves (requests_in env D) h h' \<Longrightarrow> evolves (requests_in env E) h h'"
  unfolding evolves_def requests_in_def checked_def by fastforce

lemma obeys_quiet: "evolves (requests_in env {}) h h' \<Longrightarrow> obeys env h h'"
  unfolding obeys_def by (auto intro: evolves_mono [of "{}"]) (auto simp: evolves_def)

lemma obeys_trans:
  assumes "obeys env a b" and "obeys env b c"
  shows "obeys env a c"
  unfolding obeys_def
proof (intro conjI allI impI)
  from assms show e: "evolves (requests_in env UNIV) a c" by (auto simp: obeys_def intro: evolves_trans)
  fix new dir
  assume new: "ho_log c = ho_log a @ new" and intent: "present a dir ''abort-intent.json''"
  from assms obtain m n where mn: "ho_log b = ho_log a @ m" "ho_log c = ho_log b @ n"
    unfolding obeys_def evolves_def by blast
  have "present b dir ''abort-intent.json''" using assms(1) intent by (auto simp: obeys_def dest: evolves_kept)
  with assms mn intent have "created dir m = 0 \<and> started dir m = 0" "created dir n = 0 \<and> started dir n = 0"
    unfolding obeys_def by blast+
  moreover have "new = m @ n" using new mn by simp
  ultimately show "created dir new = 0" "started dir new = 0" by simp_all
qed

interpretation managed: effect "obeys env" for env
  by unfold_locales (blast intro: obeys_quiet evolves_refl obeys_trans)+

lemma launch_obeys: "obeys env h (snd (launch_runtime env s aid ws h))"
proof -
  let ?dir = "inside ws aid"
  have pre: "evolves (requests_in env {}) h (snd (owned env (seq (owned_directory env ws) (\<lambda>_. owned_directory env ?dir)) h))" for h
    by (intro host_steps read_only_steps)
  have exists: "evolves (requests_in env {}) h (snd (owned env (file_exists (inside ?dir ''abort-intent.json'')) h))" for h
    by (intro read_only_steps)
  have body: "obeys env h' (snd ((if there then raise e else launch_body env s aid ws) h'))"
    if "owned env (file_exists (inside ?dir ''abort-intent.json'')) h = (Inr there, h')" for there h h' e
  proof (cases there)
    case False
    with that have absent: "\<not> present h' ?dir ''abort-intent.json''"
      by (auto simp: owned_def file_exists_def split: if_splits)
    obtain new where "ho_log (snd (launch_body env s aid ws h')) = ho_log h' @ new"
      "\<forall>dir. dir \<noteq> ?dir \<longrightarrow> created dir new = 0 \<and> started dir new = 0"
      using launch_body_steps [of ws aid "requests_in env {?dir}" h' env s] unfolding evolves_def by auto
    moreover have "created dir new = 0 \<and> started dir new = 0" if "present h' dir ''abort-intent.json''" for dir
      using that absent calculation(2) by (cases "dir = ?dir") simp_all
    ultimately show ?thesis
      using False launch_body_steps [of ws aid "requests_in env {?dir}" h' env s] evolves_mono [of "{?dir}" UNIV env] by (simp add: obeys_def)
  qed (simp add: managed.pure)
  show ?thesis unfolding launch_runtime_def Let_def
  proof (rule managed.seq_steps [OF managed.pure(3)], rule managed.seq_steps [OF obeys_quiet [OF pre]])
    fix w
    show "obeys env w (snd (seq (owned env (file_exists (inside ?dir ''abort-intent.json''))) (\<lambda>aborting.
        if aborting then raise (RuntimeError ''runtime attempt has durable abort intent'') else launch_body env s aid ws) w))"
      by (rule seq_rel [where R = "obeys env"]) (blast intro: obeys_quiet exists obeys_trans body)+
  qed
qed

lemma owned_quiet: "evolves (requests_in env {}) h (snd (f h)) \<Longrightarrow> obeys env h (snd (owned env f h))"
  by (intro obeys_quiet owned_steps)

lemma fenced_launch_obeys: "obeys env h (snd (fenced_launch env sid s aid ws h))"
  unfolding fenced_launch_def
  by (intro managed.seq_steps managed.on_if managed.pure launch_obeys observe_steps [THEN obeys_quiet]
      owned_quiet load_steps stage_steps publish_steps)

lemma launch_stage_obeys: "obeys env h (snd (launch_runtime_stage env sid m b s ws h))"
proof -
  have fixes_input: "evolves (requests_in env {}) w (snd (seq (fallible (launch_input env s ws m b model img)) (declare_launch_input env sid) w))"
    for model img w by (intro host_steps declare_steps)
  have known: "obeys env w (snd (seq (owned env (load_launch env st s)) (\<lambda>r. seq (observe_runtime env s r) (\<lambda>_. return r)) w))" for st w
    by (intro managed.seq_steps managed.pure observe_steps [THEN obeys_quiet] owned_quiet load_steps)
  show ?thesis unfolding launch_runtime_stage_def
    by (auto split: prod.splits intro!: managed.seq_steps managed.pure fenced_launch_obeys owned_quiet
        upstream_steps stage_steps [THEN obeys_quiet] document_steps [THEN obeys_quiet] fixes_input known read_steps)
qed

subsection \<open>Histories of attempts\<close>

text \<open>The calls of all processes that share the host, in any order and with any arguments.\<close>

datatype runtime_op =
    Launch_stage string string string launch_spec string
  | Stop_stage string string launch_spec
  | Abort_stage string string string
  | Launch launch_spec string string
  | Stop launch_spec runtime_receipt
  | Observe launch_spec runtime_receipt

fun runtime_step :: "'w runtime_env \<Rightarrow> runtime_op \<Rightarrow> 'w host \<Rightarrow> 'w host" where
  "runtime_step env (Launch_stage sid m b s ws) h = snd (launch_runtime_stage env sid m b s ws h)"
| "runtime_step env (Stop_stage sid launch s) h = snd (stop_runtime_stage env sid launch s h)"
| "runtime_step env (Abort_stage sid launch aid) h = snd (abort_runtime_stage env sid launch aid h)"
| "runtime_step env (Launch s aid ws) h = snd (launch_runtime env s aid ws h)"
| "runtime_step env (Stop s r) h = snd (stop_runtime env s r h)"
| "runtime_step env (Observe s r) h = snd (observe_runtime env s r h)"

definition runtime_steps :: "'w runtime_env \<Rightarrow> runtime_op list \<Rightarrow> 'w host \<Rightarrow> 'w host" where
  "runtime_steps env ops h = fold (runtime_step env) ops h"

definition new_host :: "journal \<Rightarrow> 'w \<Rightarrow> 'w host" where
  "new_host j w = \<lparr>ho_journal = j, ho_files = [], ho_docker = w, ho_tick = 0, ho_log = []\<rparr>"

lemma runtime_step_obeys: "obeys env h (runtime_step env op h)"
  by (cases op) (simp_all add: launch_stage_obeys launch_obeys stop_stage_steps [THEN obeys_quiet]
      abort_steps [THEN obeys_quiet] stop_steps [THEN obeys_quiet] observe_steps [THEN obeys_quiet])

lemma runtime_steps_obeys: "obeys env h (runtime_steps env ops h)"
  unfolding runtime_steps_def
proof (induction ops arbitrary: h)
  case (Cons op ops)
  show ?case using obeys_trans [OF runtime_step_obeys Cons.IH] by simp
qed (simp add: managed.refl)

text \<open>C36: Whatever the Docker daemon answers, wherever a call is cancelled and however launches,
  stops, aborts and observations of any attempts are repeated and interleaved, at most one
  container is ever created and at most one start requested under an attempt's directory.\<close>

theorem attempt_requested_once:
  "created dir (ho_log (runtime_steps env ops (new_host j w))) \<le> 1 \<and>
   started dir (ho_log (runtime_steps env ops (new_host j w))) \<le> 1"
proof -
  let ?h = "runtime_steps env ops (new_host j w)"
  obtain new where "ho_log ?h = ho_log (new_host j w) @ new"
    "spends (created dir new) (present (new_host j w) dir ''create-request.json'') (present ?h dir ''create-request.json'')"
    "spends (started dir new) (present (new_host j w) dir ''start-request.json'') (present ?h dir ''start-request.json'')"
    using runtime_steps_obeys [of env "new_host j w" ops] unfolding obeys_def evolves_def by blast
  then show ?thesis by (simp add: new_host_def spends_def)
qed

text \<open>C37: Once the intent to abort an attempt is on disk, no later call creates or starts a container
  for it, whoever makes the call and whatever the journal then says.\<close>

theorem aborted_attempt_stays_down:
  assumes "present h dir ''abort-intent.json''"
  shows "created dir (ho_log (runtime_steps env ops h)) = created dir (ho_log h) \<and>
    started dir (ho_log (runtime_steps env ops h)) = started dir (ho_log h)"
proof -
  obtain new where "ho_log (runtime_steps env ops h) = ho_log h @ new"
    using runtime_steps_obeys [of env h ops] unfolding obeys_def evolves_def by blast
  with runtime_steps_obeys [of env h ops] assms show ?thesis unfolding obeys_def by auto
qed

text \<open>C38: A container is removed only after it was seen stopped: every removal that any calls add to the
  log names one container and follows, among what they added, an inspection of exactly that container under the same directory, whose
  document passed the validation against a frozen launch, carries its identity and says that it does not
  run.\<close>

theorem removal_is_confirmed:
  assumes "ho_log (runtime_steps env ops h) = ho_log h @ pre @ (dir, args, r) # post"
    and "take 3 args = [''docker'', ''container'', ''rm'']"
  shows "\<exists>cid out doc s aid frozen actual v. args = remove_arguments cid \<and>
    (dir, inspect_arguments cid, Inr out) \<in> set pre \<and> bounded_json (re_codec env) out = Inr doc \<and>
    inspect_runtime (re_codec env) doc s aid dir frozen = Inr actual \<and>
    item_of actual ''Id'' = Inr v \<and> equals v (JStr cid) \<and> running_of actual = Inr (JBool False)"
proof -
  have "checked (requests_in env UNIV) (pre @ (dir, args, r) # post)"
    using runtime_steps_obeys [of env h ops] assms(1) unfolding obeys_def evolves_def by auto
  moreover have "is_removal (dir, args, r)" using assms(2) by (simp add: is_removal_def)
  ultimately have "\<exists>cid. fst (snd (dir, args, r)) = remove_arguments cid \<and>
      ((fst (dir, args, r), cid) \<in> sc_confirmed (requests_in env UNIV) \<or>
       confirms (sc_codec (requests_in env UNIV)) (fst (dir, args, r)) cid pre)"
    unfolding checked_def by blast
  then obtain cid where "args = remove_arguments cid" "confirms (re_codec env) dir cid pre"
    by (auto simp: requests_in_def)
  then show ?thesis unfolding confirms_def stopped_def by blast
qed

text \<open>What that validation has established of a container.\<close>

lemma equals_text [simp]: "equals v (JStr t) \<longleftrightarrow> v = JStr t"
  by (cases v) simp_all

theorem inspected_container_is_confined:
  assumes "inspect_runtime k doc s aid dir frozen = Inr item"
  shows "attempt_token aid \<and> item_of item ''Name'' = Inr (JStr (''/finserve-runtime-'' @ aid)) \<and>
    item_of item ''Image'' = Inr (JStr (im_local (lp_image s))) \<and>
    (\<exists>host config labels ports mounts. item_of item ''HostConfig'' = Inr host \<and> item_of item ''Config'' = Inr config \<and>
       item_of host ''ReadonlyRootfs'' = Inr (JBool True) \<and> item_of host ''Privileged'' = Inr (JBool False) \<and>
       item_of config ''User'' = Inr (JStr ''10001:10001'') \<and> item_of config ''Labels'' = Inr labels \<and>
       get_of labels ''finserve.runtime-specification'' JNull = Inr (JStr (launch_digest k s)) \<and>
       item_of host ''PortBindings'' = Inr ports \<and>
       equals ports (JObj [(''8000/tcp'', JArr [JObj [(''HostIp'', JStr ''127.0.0.1''), (''HostPort'', JStr (port_text k s))]])]) \<and>
       bind_res (item_of item ''Mounts'') elements = Inr mounts \<and> length mounts = 2)"
proof -
  from assms obtain config host labels mounts environment binds where
    "item_of item ''Config'' = Inr config" "item_of item ''HostConfig'' = Inr host" "item_of config ''Labels'' = Inr labels"
    "bind_res (item_of item ''Mounts'') elements = Inr mounts"
    and ok: "any_holds (config_checks k s aid item config labels environment @
       [Inr (length mounts \<noteq> 2),
        Inr (\<not> same_mounts binds [(''/models'', lp_directory s), (''/run/finserve/profile.json'', profile_path dir)])] @
       host_checks k s host) = Inr False"
    unfolding inspect_runtime_def by (auto simp: bind_res_Inr split: if_splits)
  moreover have c: "c = Inr False" if "c \<in> set (config_checks k s aid item config labels environment)" for c
    using ok that by (simp add: any_holds_False)
  moreover have h: "c = Inr False" if "c \<in> set (host_checks k s host)" for c
    using ok that by (simp add: any_holds_False)
  moreover have "length mounts = 2" using ok by (simp add: any_holds_False)
  moreover have "bind_res (runtime_name aid) (\<lambda>name. differs (item_of item ''Name'') (JStr (CHR ''/'' # name))) = Inr False"
    "differs (item_of item ''Image'') (JStr (im_local (lp_image s))) = Inr False"
    "differs (item_of config ''User'') (JStr ''10001:10001'') = Inr False"
    "differs (get_of labels ''finserve.runtime-specification'' JNull) (JStr (launch_digest k s)) = Inr False"
    by (rule c, simp add: config_checks_def)+
  moreover have "bind_res (item_of host ''ReadonlyRootfs'') (\<lambda>v. Inr (v \<noteq> JBool True)) = Inr False"
    "bind_res (item_of host ''Privileged'') (\<lambda>v. Inr (v \<noteq> JBool False)) = Inr False"
    "differs (item_of host ''PortBindings'')
        (JObj [(''8000/tcp'', JArr [JObj [(''HostIp'', JStr ''127.0.0.1''), (''HostPort'', JStr (port_text k s))]])]) = Inr False"
    by (rule h, simp add: host_checks_def)+
  ultimately show ?thesis
    by (auto simp: differs_False bind_res_Inr runtime_name_def simp del: equals.simps(1) split: if_splits)
qed

end
