(* ===== verification/RuntimeDemo.thy ===== *)
theory RuntimeDemo
  imports RuntimeGuarantees
begin

text \<open>A concrete daemon with one container, which runs until it is stopped, and the calls that stop
  and remove it.\<close>

definition demo_aid :: string where
  "demo_aid = replicate 32 CHR ''a''"

definition demo_cid :: string where
  "demo_cid = replicate 64 CHR ''c''"

definition demo_launch :: launch_spec where
  "demo_launch = \<lparr>lp_image = \<lparr>im_spec = \<lparr>bs_source = ''src'', bs_manifest = ''mm'', bs_maximum = 1, bs_timeout = 1\<rparr>,
       im_archive = [], im_config = ''img'', im_manifest = ''man'', im_local = ''img''\<rparr>,
     lp_profile = \<lparr>pr_engine = ''vllm'', pr_engine_version = ''0.29.0'', pr_parameters_json = ''{}'', pr_model_revision = ''m1'',
       pr_tokenizer_revision = ''t1'', pr_model_manifest = ''mm'', pr_tokenizer_manifest = ''mm'', pr_base_url = ''u'',
       pr_served_model = ''q'', pr_credential_env = None\<rparr>,
     lp_revision = demo_revision ''a'', lp_model_revision = ''m1'', lp_model_digest = ''md'', lp_directory = ''/m'',
     lp_memory = 4096, lp_pids = 128, lp_readiness = 30, lp_shutdown = 30\<rparr>"

definition demo_image_document :: json where
  "demo_image_document = JArr [JObj [(''Id'', JStr ''img''), (''Os'', JStr ''linux''), (''Architecture'', JStr ''amd64''),
     (''Descriptor'', JNull), (''Config'', JObj [(''Labels'', JObj (map (\<lambda>(k, v). (k, JStr v))
       (expected_labels (im_spec (lp_image demo_launch))))), (''Env'', JArr [])])]]"

definition demo_container :: "bool \<Rightarrow> json" where
  "demo_container running = JObj
     [(''Id'', JStr demo_cid), (''Name'', JStr (''/finserve-runtime-'' @ demo_aid)), (''Image'', JStr ''img''),
      (''Config'', JObj [(''Image'', JStr ''img''),
         (''Entrypoint'', JArr [JStr ''python3'', JStr ''-m'', JStr ''finserve.registry.engine_entrypoint'']),
         (''Cmd'', JArr [JStr ''--profile-sha256'', JStr ''p'', JStr ''--expected-model'', JStr ''q'', JStr ''--expected-base-url'', JStr ''u'']),
         (''User'', JStr ''10001:10001''), (''Env'', JArr []),
         (''Labels'', JObj [(''finserve.runtime-attempt'', JStr demo_aid), (''finserve.runtime-specification'', JStr ''s'')])]),
      (''Mounts'', JArr
        [JObj [(''Type'', JStr ''bind''), (''RW'', JBool False), (''Destination'', JStr ''/models''), (''Source'', JStr ''/m'')],
         JObj [(''Type'', JStr ''bind''), (''RW'', JBool False), (''Destination'', JStr ''/run/finserve/profile.json''),
           (''Source'', JStr (profile_path (inside ''/w'' demo_aid)))]]),
      (''State'', JObj [(''Running'', JBool running), (''StartedAt'', JStr ''t'')]),
      (''HostConfig'', JObj [(''ReadonlyRootfs'', JBool True), (''Privileged'', JBool False), (''Memory'', JInt 4294967296),
         (''MemorySwap'', JInt 4294967296), (''PidsLimit'', JInt 128),
         (''RestartPolicy'', JObj [(''Name'', JStr ''no''), (''MaximumRetryCount'', JInt 0)]),
         (''PidMode'', JStr []), (''IpcMode'', JStr ''private''), (''UTSMode'', JStr []), (''UsernsMode'', JStr []),
         (''PublishAllPorts'', JBool False), (''AutoRemove'', JBool False), (''NetworkMode'', JStr ''bridge''),
         (''Tmpfs'', JObj [(''/tmp'', JStr ''rw,exec,nosuid,size=2147483648'')]), (''ShmSize'', JInt 1073741824),
         (''DeviceRequests'', JArr [JObj [(''Driver'', JStr []), (''Count'', JInt (-1)), (''DeviceIDs'', JNull),
           (''Capabilities'', JArr [JArr [JStr ''gpu'']]), (''Options'', JObj [])]]),
         (''PortBindings'', JObj [(''8000/tcp'', JArr [JObj [(''HostIp'', JStr ''127.0.0.1''), (''HostPort'', JStr ''8000'')]])])])]"

definition demo_stage_codec :: stage_codec where
  "demo_stage_codec = \<lparr>sha256 = \<lambda>x. x, revision_json = \<lambda>_. [], decision_json = \<lambda>_. [], apply_json = \<lambda>_. [],
     profile_json = \<lambda>_. ''p'', configuration_json = \<lambda>_. [], canonical_url = \<lambda>_. True, route_json = \<lambda>_. [],
     uk_spec_json = \<lambda>_. ''s'', uk_dumps = \<lambda>_. ''d'',
     uk_loads = \<lambda>t. if t = ''image'' then Inr demo_image_document else if t = ''up'' then Inr (JArr [demo_container True])
       else if t = ''down'' then Inr (JArr [demo_container False]) else Inl (ValueError t),
     uk_url = \<lambda>_. \<lparr>ur_scheme = ''http'', ur_host = ''127.0.0.1'', ur_username = [], ur_password = [], ur_query = [],
       ur_fragment = [], ur_port = Some 8000\<rparr>,
     uk_sequences = \<lambda>_. Inr 8, uk_compact = \<lambda>_. [], uk_read_model = \<lambda>t. Inl (ValueError t), uk_read_manifest = \<lambda>t. Inl (ValueError t),
     uk_fetch_digest = \<lambda>_. Inl (ValueError []), uk_receipt_json = \<lambda>_. [], uk_read_receipt = \<lambda>t. Inl (ValueError t),
     uk_stop_json = \<lambda>_. [], uk_read_stop = \<lambda>t. Inl (ValueError t), uk_abort_json = \<lambda>_. [], uk_read_abort = \<lambda>t. Inl (ValueError t),
     uk_read_image = \<lambda>t. Inl (ValueError t), uk_read_spec = \<lambda>_. Inl (ValueError []), uk_build_json = \<lambda>_. JNull, uk_drained = \<lambda>_ _. []\<rparr>"

lemma demo_port: "port_text demo_stage_codec demo_launch = ''8000''"
proof -
  have "digit 8 = CHR ''8''" "digit 0 = CHR ''0''" by (simp_all add: digit_def char_of_def bit_Suc bit_0)
  then show ?thesis by (simp add: port_text_def demo_stage_codec_def decimal.simps)
qed

lemma demo_image_valid: "verify_image_inspection demo_image_document (lp_image demo_launch) = Inr ()"
  by (simp add: verify_image_inspection_def demo_image_document_def single_item_def field_of_def demo_launch_def
      expected_labels_def differs_def)

lemma demo_tokens: "attempt_token demo_aid" "is_sha256 demo_cid"
  by (simp_all add: attempt_token_def is_sha256_def demo_aid_def demo_cid_def lower_hex_def list_all_iff)

lemma demo_config_checks:
  assumes "item_of (demo_container b) ''Config'' = Inr config" and "item_of config ''Labels'' = Inr labels"
  shows "any_holds (config_checks demo_stage_codec demo_launch demo_aid (demo_container b) config labels (JArr [])) = Inr False"
  using assms demo_tokens
  by (auto simp: any_holds_False config_checks_def demo_container_def field_of_def differs_def runtime_name_def text_matches_def
      engine_arguments_def profile_digest_def launch_digest_def demo_stage_codec_def demo_launch_def sorted_texts_def)

lemma demo_host_checks:
  assumes "item_of (demo_container b) ''HostConfig'' = Inr host"
  shows "any_holds (host_checks demo_stage_codec demo_launch host) = Inr False"
  using assms demo_port
  by (auto simp: any_holds_False host_checks_def demo_container_def field_of_def differs_def demo_launch_def)

lemma demo_inspection:
  "inspect_runtime demo_stage_codec (JArr [demo_container b]) demo_launch demo_aid (inside ''/w'' demo_aid) (Inr ''image'') =
     Inr (demo_container b)"
proof -
  obtain config host labels where c: "item_of (demo_container b) ''Config'' = Inr config" "item_of config ''Labels'' = Inr labels"
    "item_of (demo_container b) ''HostConfig'' = Inr host"
    by (auto simp: demo_container_def field_of_def)
  have img: "bounded_json demo_stage_codec ''image'' = Inr demo_image_document"
    by (simp add: bounded_json_def demo_stage_codec_def)
  have env: "bind_res (single_item demo_image_document []) (\<lambda>v. bind_res (item_of v ''Config'') (\<lambda>c. get_of c ''Env'' (JArr []))) = Inr (JArr [])"
    by (simp add: single_item_def demo_image_document_def field_of_def)
  obtain mounts binds where m: "bind_res (item_of (demo_container b) ''Mounts'') elements = Inr mounts" "length mounts = 2"
    "read_only_binds mounts = Inr binds"
    "same_mounts binds [(''/models'', lp_directory demo_launch), (''/run/finserve/profile.json'', profile_path (inside ''/w'' demo_aid))]"
    by (simp add: demo_container_def field_of_def same_mounts_def demo_launch_def)
  have "any_holds (config_checks demo_stage_codec demo_launch demo_aid (demo_container b) config labels (JArr []) @
      [Inr (length mounts \<noteq> 2), Inr (\<not> same_mounts binds [(''/models'', lp_directory demo_launch),
        (''/run/finserve/profile.json'', profile_path (inside ''/w'' demo_aid))])] @ host_checks demo_stage_codec demo_launch host) = Inr False"
    using demo_config_checks [OF c(1,2)] demo_host_checks [OF c(3)] m(2,4) by (auto simp: any_holds_False)
  then show ?thesis
    using c m(1,3) img env demo_image_valid by (simp add: inspect_runtime_def single_item_def)
qed

subsection \<open>Stopping it\<close>

definition demo_runtime :: "bool runtime_env" where
  "demo_runtime = \<lparr>re_codec = demo_stage_codec,
     re_command = \<lambda>dir args running. (if args ! 2 = ''ls'' then (Inr demo_cid, running)
       else if args ! 2 = ''inspect'' then (Inr (if running then ''up'' else ''down''), running)
       else if args ! 2 = ''stop'' then (Inr [], False) else (Inr [], running)),
     re_probe = \<lambda>_ w. (Inr True, w), re_snapshot = \<lambda>_ _ _. Inr [], re_clock = \<lambda>_. 0, re_wall = \<lambda>_. 1, re_token = \<lambda>_. demo_aid,
     re_cancel = \<lambda>_. False, re_directory = \<lambda>_. Inr (), re_rounds = 1, re_others = \<lambda>_. []\<rparr>"

definition demo_receipt :: runtime_receipt where
  "demo_receipt = \<lparr>rr_specification = ''s'', rr_attempt = demo_aid, rr_container = demo_cid, rr_started = ''t'',
     rr_observed = 1, rr_elapsed = 1, rr_output = inside ''/w'' demo_aid\<rparr>"

definition demo_host :: "bool host" where
  "demo_host = \<lparr>ho_journal = empty_journal demo_store,
     ho_files = [(inside (inside ''/w'' demo_aid) ''image-identity.json'', ''image'')], ho_docker = True, ho_tick = 0, ho_log = []\<rparr>"

abbreviation demo_dir :: string where
  "demo_dir \<equiv> inside ''/w'' demo_aid"

lemma demo_owned: "owned demo_runtime f h = (case f h of (r, h') \<Rightarrow> (r, h'\<lparr>ho_tick := Suc (ho_tick h')\<rparr>))"
  by (simp add: owned_def demo_runtime_def split: prod.splits)

lemma demo_docker:
  "0 < b \<Longrightarrow> docker demo_runtime dir args b None h = (case re_command demo_runtime dir args (ho_docker h) of
     (r, w) \<Rightarrow> (r, h\<lparr>ho_docker := w, ho_log := ho_log h @ [(dir, args, r)], ho_tick := Suc (ho_tick h)\<rparr>))"
  by (simp add: docker_def demo_owned remaining_def seq_def return_def issue_def split: prod.splits)

lemma demo_commands:
  "re_command demo_runtime d (list_arguments sel) w = (Inr demo_cid, w)"
  "re_command demo_runtime d (inspect_arguments cid) w = (Inr (if w then ''up'' else ''down''), w)"
  "re_command demo_runtime d (stop_arguments s cid) w = (Inr [], False)"
  "re_command demo_runtime d (logs_arguments cid) w = (Inr [], w)"
  "re_command demo_runtime d (remove_arguments cid) w = (Inr [], w)"
  by (simp_all add: demo_runtime_def list_arguments_def inspect_arguments_def stop_arguments_def logs_arguments_def remove_arguments_def)

lemma demo_inspect:
  assumes "lookup (ho_files h) (inside demo_dir ''image-identity.json'') = Some ''image''"
  shows "inspect_container demo_runtime demo_cid demo_launch demo_aid demo_dir None h =
     (Inr (demo_container (ho_docker h)), h\<lparr>ho_log := ho_log h @ [(demo_dir, inspect_arguments demo_cid,
        Inr (if ho_docker h then ''up'' else ''down''))], ho_tick := Suc (Suc (ho_tick h))\<rparr>)"
proof -
  have "re_codec demo_runtime = demo_stage_codec" by (simp add: demo_runtime_def)
  moreover have "bounded_json demo_stage_codec (if b then ''up'' else ''down'') = Inr (JArr [demo_container b])" for b
    by (simp add: bounded_json_def demo_stage_codec_def)
  moreover have "differs (item_of (demo_container b) ''Id'') (JStr demo_cid) = Inr False" for b
    by (simp add: demo_container_def field_of_def differs_def)
  ultimately show ?thesis using assms demo_inspection
    by (simp add: inspect_container_def demo_docker demo_commands seq_def demo_owned read_inspection_def read_file_def
        fallible_def return_def)
qed

lemma demo_state: "state_item (demo_container b) ''Running'' h = (Inr (JBool b), h)"
  "state_item (demo_container b) ''StartedAt'' h = (Inr (JStr ''t''), h)"
  by (simp_all add: state_item_def demo_container_def field_of_def fallible_def)

lemma inside_same: "inside dir a = inside dir b \<longleftrightarrow> a = b"
  by (simp add: inside_def)

lemma demo_stop_log:
  "ho_log (runtime_steps demo_runtime [Stop demo_launch demo_receipt] demo_host) = ho_log demo_host @
     [(demo_dir, list_arguments (''id='' @ demo_cid), Inr demo_cid), (demo_dir, inspect_arguments demo_cid, Inr ''up''),
      (demo_dir, stop_arguments demo_launch demo_cid, Inr []), (demo_dir, logs_arguments demo_cid, Inr []),
      (demo_dir, inspect_arguments demo_cid, Inr ''down'')] @ (demo_dir, remove_arguments demo_cid, Inr []) # []"
proof -
  have known: "launch_digest (re_codec demo_runtime) demo_launch = ''s''" "strip demo_cid = demo_cid" "length demo_cid \<le> 4096"
    "demo_cid \<noteq> []" "re_directory demo_runtime p = Inr ()" "lp_shutdown demo_launch = 30" for p
    by (simp_all add: launch_digest_def demo_runtime_def demo_stage_codec_def demo_cid_def strip_def blank_def demo_launch_def)
  have "split_on CHR ''/'' demo_dir = [[], ''w'', demo_aid]"
    using split_on_single [of "CHR ''/''" demo_aid] split_on_line [of "CHR ''/''" "''w''" demo_aid]
    by (simp add: inside_def demo_aid_def)
  then have "path_name demo_dir = demo_aid" by (simp add: path_name_def)
  then show ?thesis
    using demo_tokens known
    by (simp add: runtime_steps_def stop_runtime_def demo_receipt_def demo_host_def stop_found_def seq_def demo_owned
        owned_directory_def fallible_def freeze_inputs_def freeze_file_def lookup_container_def demo_docker demo_commands
        read_identifier_def return_def demo_inspect demo_state Let_def inside_same)
qed

text \<open>The removal at the end of the stop rests on the second inspection.\<close>

lemma removal_is_confirmed_witness:
  "\<exists>cid out doc s aid frozen actual v. remove_arguments demo_cid = remove_arguments cid \<and>
    (demo_dir, inspect_arguments cid, Inr out) \<in>
      set [(demo_dir, list_arguments (''id='' @ demo_cid), Inr demo_cid), (demo_dir, inspect_arguments demo_cid, Inr ''up''),
        (demo_dir, stop_arguments demo_launch demo_cid, Inr []), (demo_dir, logs_arguments demo_cid, Inr []),
        (demo_dir, inspect_arguments demo_cid, Inr ''down'')] \<and>
    bounded_json (re_codec demo_runtime) out = Inr doc \<and>
    inspect_runtime (re_codec demo_runtime) doc s aid demo_dir frozen = Inr actual \<and>
    item_of actual ''Id'' = Inr v \<and> equals v (JStr cid) \<and> running_of actual = Inr (JBool False)"
  using removal_is_confirmed [OF demo_stop_log] by (simp add: remove_arguments_def)

definition demo_aborting :: "bool host" where
  "demo_aborting = new_host (empty_journal demo_store) True\<lparr>ho_files := [(inside demo_dir ''abort-intent.json'', ''d'')]\<rparr>"

lemma aborted_attempt_stays_down_witness:
  "created demo_dir (ho_log (runtime_steps demo_runtime [Launch demo_launch demo_aid ''/w''] demo_aborting)) = 0 \<and>
   started demo_dir (ho_log (runtime_steps demo_runtime [Launch demo_launch demo_aid ''/w''] demo_aborting)) = 0"
proof -
  have "present demo_aborting demo_dir ''abort-intent.json''" by (simp add: demo_aborting_def)
  from aborted_attempt_stays_down [OF this, of demo_runtime "[Launch demo_launch demo_aid ''/w'']"]
  show ?thesis by (simp add: demo_aborting_def new_host_def created_def started_def)
qed

end
