(* ===== verification/LocalCapacity.thy ===== *)
theory LocalCapacity
  imports RuntimeDemo
begin

text \<open>
  The local capacity controller: \<open>contracts/capacity.py\<close> and \<open>registry/local_capacity.py\<close>.  A
  \<open>depot\<close> is everything a controller touches: the host with the producer journal, the traffic store,
  the control store and the capacity tables of the traffic database.  Each
  \<open>with self.routes.transaction()\<close> block is an atomic body; \<open>approved_activation\<close>, the launch stages and
  the hysteresis are those of the other theories.
\<close>

subsection \<open>Plans and their state\<close>

record capacity_plan =
  pl_id :: string
  pl_deployment :: string
  pl_generation :: nat
  pl_approval :: string
  pl_primary_stage :: string
  pl_model_stage :: string
  pl_build_stage :: string
  pl_primary :: launch_spec
  pl_replicas :: "launch_spec list"
  pl_workspace :: string
  pl_policy :: capacity_policy
  pl_requests :: nat
  pl_samples :: nat

definition plan_name :: "string \<Rightarrow> bool" where
  "plan_name s \<longleftrightarrow> bounded_text 1 80 s \<and>
     list_all (\<lambda>c. c \<in> set ''ABCDEFGHIJKLMNOPQRSTUVWXYZabcdefghijklmnopqrstuvwxyz0123456789_-'') s"

definition plan_fields :: "capacity_plan \<Rightarrow> bool" where
  "plan_fields p \<longleftrightarrow> plan_name (pl_id p) \<and> bounded_text 1 128 (pl_deployment p) \<and> bounded_text 1 128 (pl_approval p) \<and>
     1 \<le> length (pl_replicas p) \<and> length (pl_replicas p) \<le> 8 \<and> valid_capacity_policy (pl_policy p) \<and>
     1 \<le> pl_requests p \<and> pl_requests p \<le> 128 \<and> 1 \<le> pl_samples p \<and> pl_samples p \<le> 4096"

text \<open>The launch without the three fields in which a replica may differ from its primary.\<close>

definition shared_launch :: "launch_spec \<Rightarrow> launch_spec" where
  "shared_launch s = s\<lparr>lp_profile := (lp_profile s)\<lparr>pr_base_url := []\<rparr>,
     lp_revision := (lp_revision s)\<lparr>revision_id := [], config_digest := []\<rparr>\<rparr>"

abbreviation launch_id_of :: "launch_spec \<Rightarrow> string" where
  "launch_id_of s \<equiv> revision_id (lp_revision s)"

abbreviation launch_url :: "launch_spec \<Rightarrow> string" where
  "launch_url s \<equiv> pr_base_url (lp_profile s)"

fun equivalent_replicas :: "launch_spec \<Rightarrow> string \<Rightarrow> string list \<Rightarrow> launch_spec list \<Rightarrow> unit res" where
  "equivalent_replicas primary endpoint seen [] = Inr ()"
| "equivalent_replicas primary endpoint seen (r # rs) =
     (if launch_id_of r \<in> set seen \<or> launch_url r = launch_url primary \<or> launch_url r \<noteq> endpoint
      then Inl (ValueError ''replica identities and fixed extra endpoint must be distinct'')
      else if shared_launch primary \<noteq> shared_launch r
      then Inl (ValueError ''capacity replica changes approved serving semantics'')
      else equivalent_replicas primary endpoint (launch_id_of r # seen) rs)"

definition make_plan :: "'z runtime_codec_scheme \<Rightarrow> capacity_plan \<Rightarrow> capacity_plan res" where
  "make_plan k p =
     bind_res (each_res (make_launch k) (pl_primary p # pl_replicas p)) (\<lambda>_.
     bind_res (ensure (plan_fields p) (ValueError ''capacity plan'')) (\<lambda>_.
     bind_res (ensure (absolute_path (pl_workspace p)) (ValueError ''capacity workspace must be absolute'')) (\<lambda>_.
     bind_res (uk_sequences k (pr_parameters_json (lp_profile (pl_primary p)))) (\<lambda>most.
     bind_res (ensure (pl_requests p \<le> most)
       (ValueError ''serving admission exceeds frozen engine sequence capacity'')) (\<lambda>_.
     bind_res (equivalent_replicas (pl_primary p) (launch_url (hd (pl_replicas p))) [launch_id_of (pl_primary p)]
       (pl_replicas p)) (\<lambda>_. Inr p))))))"

datatype capacity_phase = CapOne | CapWarming | CapTwo | CapDraining | CapBlocked | CapClosed

text \<open>The memory is kept as the value its JSON text encodes; the default text is the empty memory.\<close>

record capacity_state =
  ct_plan :: string
  ct_phase :: capacity_phase
  ct_cycle :: nat
  ct_samples :: nat
  ct_memory :: memory
  ct_error :: "string option"

definition new_capacity :: "string \<Rightarrow> capacity_state" where
  "new_capacity i = \<lparr>ct_plan = i, ct_phase = CapOne, ct_cycle = 0, ct_samples = 0, ct_memory = empty_memory, ct_error = None\<rparr>"

definition valid_capacity_state :: "capacity_state \<Rightarrow> capacity_state res" where
  "valid_capacity_state st = bind_res (ensure (ct_cycle st \<le> 8) (ValueError ''capacity state'')) (\<lambda>_. Inr st)"

subsection \<open>The depot\<close>

datatype capacity_note = Note string | Sampled observation capacity_action

text \<open>\<open>dp_plans\<close> holds payload and state of a row of \<open>warm_capacity_plans\<close>, \<open>dp_slots\<close> the plan and the
  cycle that own a deployment's slot, \<open>dp_receipts\<close> the receipt column of the member rows.\<close>

record 'w depot =
  dp_host :: "'w host"
  dp_routes :: warm_db
  dp_control :: control_db
  dp_plans :: "(string \<times> capacity_state) table"
  dp_slots :: "(string \<times> nat) table"
  dp_receipts :: "string table"
  dp_events :: "(string \<times> capacity_state \<times> capacity_note) list"

record 'w capacity_controller =
  cc_plan :: capacity_plan
  cc_routes :: warm_handle
  cc_control :: control_handle
  cc_env :: "'w runtime_env"
  cc_plan_json :: "capacity_plan \<Rightarrow> string"
  cc_epoch :: string

abbreviation cc_id :: "'w capacity_controller \<Rightarrow> string" where
  "cc_id cc \<equiv> pl_id (cc_plan cc)"

abbreviation cc_deployment :: "'w capacity_controller \<Rightarrow> string" where
  "cc_deployment cc \<equiv> pl_deployment (cc_plan cc)"

abbreviation cc_codec :: "'w capacity_controller \<Rightarrow> stage_codec" where
  "cc_codec cc \<equiv> re_codec (cc_env cc)"

text \<open>A route transaction, alone or around a control transaction, verifies the store identities.\<close>

definition pool_txn :: "'w capacity_controller \<Rightarrow> ('w depot, 'a) body \<Rightarrow> ('w depot, 'a) action" where
  "pool_txn cc f = atomically (\<lambda>x. bind_res (verify_identity (w_identity (dp_routes x)) (wh_identity (cc_routes cc))) (\<lambda>_. f x))"

definition pair_txn :: "'w capacity_controller \<Rightarrow> ('w depot, 'a) body \<Rightarrow> ('w depot, 'a) action" where
  "pair_txn cc f = pool_txn cc (\<lambda>x.
     bind_res (verify_identity (c_identity (dp_control x)) (ch_identity (cc_control cc))) (\<lambda>_. f x))"

definition on_host :: "('w host, 'a) action \<Rightarrow> ('w depot, 'a) action" where
  "on_host f x = (case f (dp_host x) of (r, h) \<Rightarrow> (r, x\<lparr>dp_host := h\<rparr>))"

definition on_stores :: "(stores, 'a) action \<Rightarrow> ('w depot, 'a) action" where
  "on_stores f x = (case f (dp_routes x, dp_control x) of (r, db, c) \<Rightarrow> (r, x\<lparr>dp_routes := db, dp_control := c\<rparr>))"

definition on_warm :: "(warm_db, 'a) action \<Rightarrow> ('w depot, 'a) action" where
  "on_warm f x = (case f (dp_routes x) of (r, db) \<Rightarrow> (r, x\<lparr>dp_routes := db\<rparr>))"

subsection \<open>Reading\<close>

definition stable_anchor :: "'w capacity_controller \<Rightarrow> 'w depot \<Rightarrow> bool res" where
  "stable_anchor cc x = (let p = cc_plan cc; rv = lp_revision (pl_primary p) in
     bind_res (current_route (dp_routes x) (pl_deployment p)) (\<lambda>r.
     bind_res (load_record ''deployments'' (c_deployments (dp_control x)) (pl_deployment p)) (\<lambda>d.
     Inr (ro_pooled r \<and> ro_revision r = revision_id rv \<and> ro_digest r = revision_digest (cc_codec cc) rv \<and>
       ro_generation r = pl_generation p \<and> d_active_revision d = d_known_good_revision d \<and>
       d_known_good_revision d = ro_revision r \<and> d_generation d = ro_generation r \<and> d_rollback_id d = None))))"

definition input_stage :: "capacity_plan \<Rightarrow> string" where
  "input_stage p = pl_id p @ '':capacity-input''"

text \<open>Every operation checks the enrolled input against the journal, the plan and both stores.\<close>

definition plan_state :: "'w capacity_controller \<Rightarrow> 'w depot \<Rightarrow> capacity_state res" where
  "plan_state cc x = (let p = cc_plan cc; k = cc_codec cc; j = ho_journal (dp_host x) in
     case lookup (dp_plans x) (pl_id p) of
       None \<Rightarrow> Inl (ControlConflict ''capacity plan does not own deployment authority'')
     | Some (payload, st) \<Rightarrow>
         if lookup (w_authority (dp_routes x)) (pl_deployment p) \<noteq> Some (pl_id p)
         then Inl (ControlConflict ''capacity plan does not own deployment authority'') else
         bind_res (uk_loads k payload) (\<lambda>frozen.
         bind_res (read_stage (input_stage p) j) (\<lambda>declared.
         bind_res (bind_res (artifact_get (sha256 k) (ss_input declared) (jn_store j)) (uk_loads k)) (\<lambda>actual.
         if \<not> equals actual frozen then Inl (ControlConflict ''capacity journal differs from enrolled input'') else
         bind_res (any_holds
           [differs (item_of frozen ''plan'') (JStr (cc_plan_json cc p)),
            differs (item_of frozen ''routes'') (JStr (wh_identity (cc_routes cc))),
            differs (item_of frozen ''control'') (JStr (ch_identity (cc_control cc)))]) (\<lambda>bad.
         if bad then Inl (ControlConflict ''capacity executor input or store identity changed'')
         else valid_capacity_state st)))))"

definition set_capacity :: "string \<Rightarrow> capacity_state \<Rightarrow> (string \<times> capacity_state) table \<Rightarrow> (string \<times> capacity_state) table" where
  "set_capacity i st rows = map (\<lambda>(k, payload, old). (k, payload, if k = i then st else old)) rows"

definition save_capacity :: "'w capacity_controller \<Rightarrow> capacity_state \<Rightarrow> capacity_note \<Rightarrow> 'w depot \<Rightarrow> 'w depot res" where
  "save_capacity cc st note x = bind_res (plan_state cc x) (\<lambda>_.
     Inr (x\<lparr>dp_plans := set_capacity (cc_id cc) st (dp_plans x), dp_events := dp_events x @ [(cc_id cc, st, note)]\<rparr>))"

definition drop_members :: "'w capacity_controller \<Rightarrow> 'w depot \<Rightarrow> 'w depot" where
  "drop_members cc x = x\<lparr>dp_routes := remove_members (cc_id cc) (cc_deployment cc) (dp_routes x)\<rparr>"

definition serving_now :: "admission_row \<Rightarrow> bool" where
  "serving_now a \<longleftrightarrow> ap_kind a = Some Serving \<and> ap_phase a = Some Dispatched"

definition unresolved_now :: "admission_row \<Rightarrow> bool" where
  "unresolved_now a \<longleftrightarrow> \<not> serving_now a \<and> (ap_kind a = Some Collector \<or> ap_phase a \<noteq> Some Dispatched)"

definition observe_pool :: "'w capacity_controller \<Rightarrow> capacity_state \<Rightarrow> flt \<Rightarrow> 'w depot \<Rightarrow> observation res" where
  "observe_pool cc st now x = (let p = cc_plan cc; db = dp_routes x;
       revisions = launch_id_of (pl_primary p) #
         map fst (filter (\<lambda>(_, m). pm_plan m = pl_id p \<and> pm_ready m) (w_members db));
       rows = concat (map (\<lambda>rid. map (snd \<circ> snd) (filter (\<lambda>(_, r, _). r = rid) (w_admissions db))) revisions);
       ob = \<lparr>ob_sequence = ct_samples st, ob_epoch = cc_epoch cc, ob_seconds = now,
         ob_active = length (filter serving_now rows), ob_capacity = length revisions * pl_requests p,
         ob_members = (if length revisions = 2 then 2 else 1), ob_unresolved = list_ex unresolved_now rows,
         ob_rejected = (case lookup (w_demand db) (pl_deployment p) of None \<Rightarrow> 0 | Some n \<Rightarrow> n)\<rparr> in
     bind_res (ensure (valid_observation ob) (ValueError ''capacity observation'')) (\<lambda>_. Inr ob))"

subsection \<open>Enrollment\<close>

definition pool_plan_of :: "capacity_plan \<Rightarrow> pool_plan" where
  "pool_plan_of p = \<lparr>pp_primary_revision = launch_id_of (pl_primary p), pp_expected_generation = pl_generation p,
     pp_per_member_requests = pl_requests p\<rparr>"

text \<open>An earlier plan gives up the deployment only when it is closed and its slot is free.\<close>

definition prior_owner :: "'w capacity_controller \<Rightarrow> 'w depot \<Rightarrow> unit res" where
  "prior_owner cc x =
     (case lookup (w_authority (dp_routes x)) (cc_deployment cc) of
        None \<Rightarrow> Inr ()
      | Some owner \<Rightarrow> if owner = cc_id cc then Inr () else
          (case lookup (dp_plans x) owner of
             None \<Rightarrow> Inl (TypeError ''NoneType object is not subscriptable'')
           | Some (_, prior) \<Rightarrow> bind_res (valid_capacity_state prior) (\<lambda>_.
               ensure (ct_phase prior = CapClosed \<and> lookup (dp_slots x) (cc_deployment cc) = None)
                 (ControlConflict ''another capacity plan owns the deployment slot''))))"

definition enroll_body :: "'w capacity_controller \<Rightarrow> string \<Rightarrow> ('w depot, capacity_state) body" where
  "enroll_body cc payload x = (let p = cc_plan cc; dep = pl_deployment p in
     bind_res (stable_anchor cc x) (\<lambda>stable.
     bind_res (ensure stable (ControlConflict ''capacity enrollment requires the exact stable primary'')) (\<lambda>_.
     bind_res (case lookup (dp_plans x) (pl_id p) of None \<Rightarrow> Inr (new_capacity (pl_id p))
       | Some (old, st) \<Rightarrow> if old \<noteq> payload then Inl (ControlConflict ''capacity input is immutable'')
           else valid_capacity_state st) (\<lambda>st.
     bind_res (prior_owner cc x) (\<lambda>_.
     let db = (dp_routes x)\<lparr>w_plans := insert_or_ignore (pl_id p) (pool_plan_of p) (w_plans (dp_routes x))\<rparr>;
         db1 = (if lookup (w_authority db) dep \<noteq> Some (pl_id p) then advance_pool dep (''enroll:'' @ pl_id p) db else db);
         db2 = db1\<lparr>w_authority := upsert dep (pl_id p) (w_authority db1)\<rparr> in
     Inr (st, x\<lparr>dp_routes := db2, dp_plans := insert_or_ignore (pl_id p) (payload, st) (dp_plans x)\<rparr>))))))"

subsection \<open>Transactions of the controller\<close>

definition advance_capacity :: "'w capacity_controller \<Rightarrow> flt \<Rightarrow> ('w depot, capacity_state) body" where
  "advance_capacity cc now x = (let p = cc_plan cc in
     bind_res (plan_state cc x) (\<lambda>st.
     if ct_phase st = CapClosed then Inr (st, x) else
     bind_res (stable_anchor cc x) (\<lambda>stable.
     if \<not> stable \<or> pl_samples p \<le> ct_samples st then
       (let st1 = st\<lparr>ct_phase := (if ct_phase st = CapOne then CapClosed else CapDraining)\<rparr>;
            x1 = (if ct_phase st = CapOne then x else drop_members cc x) in
        bind_res (save_capacity cc st1 (Note ''anchor_changed_or_sample_budget_exhausted'') x1) (\<lambda>x2. Inr (st1, x2)))
     else if ct_phase st \<in> {CapWarming, CapDraining, CapBlocked} then Inr (st, x)
     else
     bind_res (observe_pool cc st now x) (\<lambda>ob.
     bind_res (decide_capacity (pl_policy p) ob (ct_memory st)) (\<lambda>(me, act).
     let st1 = st\<lparr>ct_memory := me, ct_samples := ct_samples st + 1\<rparr> in
     bind_res (if act = Up \<and> ct_phase st = CapOne then
         (if length (pl_replicas p) \<le> ct_cycle st then Inr (st1\<lparr>ct_phase := CapClosed\<rparr>, x)
          else bind_res (insert_new (pl_deployment p) (pl_id p, ct_cycle st) (dp_slots x)) (\<lambda>slots.
            Inr (st1\<lparr>ct_phase := CapWarming\<rparr>, x\<lparr>dp_slots := slots\<rparr>)))
       else if act = Down \<and> ct_phase st = CapTwo then Inr (st1\<lparr>ct_phase := CapDraining\<rparr>, drop_members cc x)
       else Inr (st1, x)) (\<lambda>(st2, x1).
     bind_res (save_capacity cc st2 (Sampled ob act) x1) (\<lambda>x2. Inr (st2, x2))))))))"

text \<open>\<open>INSERT OR REPLACE\<close> of a member row.\<close>

definition publish_member :: "'w capacity_controller \<Rightarrow> launch_spec \<Rightarrow> string \<Rightarrow> 'w depot \<Rightarrow> 'w depot" where
  "publish_member cc s receipt x = (let p = cc_plan cc; rid = launch_id_of s;
       member = \<lparr>pm_deployment = pl_deployment p, pm_plan = pl_id p, pm_anchor_revision = launch_id_of (pl_primary p),
         pm_anchor_generation = pl_generation p, pm_ready = True\<rparr>;
       db = dp_routes x in
     x\<lparr>dp_routes := advance_pool (pl_deployment p) (''ready:'' @ receipt)
         (db\<lparr>w_members := delete_key rid (w_members db) @ [(rid, member)]\<rparr>),
       dp_receipts := upsert rid receipt (dp_receipts x)\<rparr>)"

definition publish_ready :: "'w capacity_controller \<Rightarrow> capacity_state \<Rightarrow> launch_spec \<Rightarrow> string \<Rightarrow> ('w depot, bool) body" where
  "publish_ready cc st s receipt x =
     bind_res (plan_state cc x) (\<lambda>current.
     if current \<noteq> st \<or> lookup (dp_slots x) (cc_deployment cc) \<noteq> Some (cc_id cc, ct_cycle st)
     then Inl (ControlConflict ''capacity warming slot changed'') else
     bind_res (stable_anchor cc x) (\<lambda>stable.
     if \<not> stable then
       bind_res (save_capacity cc (st\<lparr>ct_phase := CapDraining\<rparr>) (Note ''anchor_changed_while_warming'') x) (\<lambda>x1. Inr (False, x1))
     else bind_res (require_available (dp_routes x) (launch_id_of s)) (\<lambda>_.
       bind_res (save_capacity cc (st\<lparr>ct_phase := CapTwo, ct_error := None\<rparr>) (Note ''exact_runtime_ready'')
         (publish_member cc s receipt x)) (\<lambda>x1. Inr (True, x1)))))"

definition block_capacity :: "'w capacity_controller \<Rightarrow> string \<Rightarrow> ('w depot, unit) body" where
  "block_capacity cc err x =
     bind_res (plan_state cc x) (\<lambda>st.
     bind_res (save_capacity cc (st\<lparr>ct_phase := CapBlocked, ct_error := Some err\<rparr>) (Note ''owned_operation_unresolved'')
       (drop_members cc x)) (\<lambda>x1. Inr ((), x1)))"

definition free_slot :: "string \<Rightarrow> string \<Rightarrow> nat \<Rightarrow> (string \<times> nat) table \<Rightarrow> (string \<times> nat) table" where
  "free_slot dep i n rows = filter (\<lambda>row. row \<noteq> (dep, i, n)) rows"

definition settle_capacity :: "'w capacity_controller \<Rightarrow> capacity_state \<Rightarrow> ('w depot, unit) body" where
  "settle_capacity cc st x = (let p = cc_plan cc in
     bind_res (plan_state cc x) (\<lambda>current.
     if ct_cycle current \<noteq> ct_cycle st then Inl (ControlConflict ''capacity cleanup cycle changed'') else
     let n = ct_cycle st + 1; x1 = x\<lparr>dp_slots := free_slot (pl_deployment p) (pl_id p) (ct_cycle st) (dp_slots x)\<rparr> in
     bind_res (if length (pl_replicas p) \<le> n \<or> pl_samples p \<le> ct_samples current then Inr True
       else bind_res (stable_anchor cc x1) (\<lambda>stable. Inr (\<not> stable))) (\<lambda>closed.
     bind_res (save_capacity cc (current\<lparr>ct_phase := (if closed then CapClosed else CapOne), ct_cycle := n, ct_memory := empty_memory\<rparr>)
       (Note ''exact_owned_cleanup_complete'') x1) (\<lambda>x2. Inr ((), x2)))))"

definition shutdown_capacity :: "'w capacity_controller \<Rightarrow> ('w depot, unit) body" where
  "shutdown_capacity cc x =
     bind_res (plan_state cc x) (\<lambda>st.
     if ct_phase st = CapClosed then Inr ((), x) else
     bind_res (save_capacity cc (st\<lparr>ct_phase := (if ct_phase st = CapOne then CapClosed else CapDraining),
         ct_samples := pl_samples (cc_plan cc)\<rparr>) (Note ''capacity_runner_shutdown'') (drop_members cc x)) (\<lambda>x1. Inr ((), x1)))"

end
