(* ===== verification/CapacityRunner.thy ===== *)
theory CapacityRunner
  imports LocalCapacity
begin

text \<open>
  The controller's calls: \<open>freeze_capacity\<close>, \<open>tick\<close> and \<open>close\<close> of \<open>registry/local_capacity.py\<close> and
  \<open>run_plan\<close> of \<open>registry/capacity_cli.py\<close>.  Before each disk operation of a call the other processes
  perform an arbitrary list of their own: calls of the traffic and control stores, journal
  operations, effects on the daemon, enrollments of any plan and transactions of the controllers
  of other plans.  \<open>attempt_fence\<close> serialises the calls for one plan, so a transaction of the same
  plan by another process has to wait and is not among those steps.
\<close>

subsection \<open>Other processes\<close>

datatype 'w depot_op =
    D_warm warm_op
  | D_stage stage_op
  | D_daemon "'w \<Rightarrow> 'w"
  | D_enroll "'w capacity_controller" string
  | D_advance "'w capacity_controller" flt
  | D_publish "'w capacity_controller" capacity_state launch_spec string
  | D_block "'w capacity_controller" string
  | D_settle "'w capacity_controller" capacity_state
  | D_shutdown "'w capacity_controller"

record 'w capacity_runner =
  cr_controller :: "'w capacity_controller"
  cr_others :: "nat \<Rightarrow> 'w depot_op list"

abbreviation cr_env :: "'w capacity_runner \<Rightarrow> 'w runtime_env" where
  "cr_env r \<equiv> cc_env (cr_controller r)"

abbreviation cr_plan :: "'w capacity_runner \<Rightarrow> capacity_plan" where
  "cr_plan r \<equiv> cc_plan (cr_controller r)"

text \<open>The two operations by which the traffic model stands for a capacity controller are replaced by
  the controllers' own transactions.\<close>

fun member_op :: "warm_op \<Rightarrow> bool" where
  "member_op (W_remove i dep) = True"
| "member_op (W_members ms ps auth) = True"
| "member_op _ = False"

definition fenced :: "'w capacity_runner \<Rightarrow> 'w capacity_controller \<Rightarrow> ('w depot \<Rightarrow> 'w depot) \<Rightarrow> 'w depot \<Rightarrow> 'w depot" where
  "fenced r cc f x = (if cc_id cc = pl_id (cr_plan r) then x else f x)"

fun depot_step :: "'w capacity_runner \<Rightarrow> 'w depot_op \<Rightarrow> 'w depot \<Rightarrow> 'w depot" where
  "depot_step r (D_warm op) x = (if member_op op then x else
     snd (on_stores (\<lambda>s. (Inr (), warm_step (cc_codec (cr_controller r)) (cc_routes (cr_controller r)) (cc_control (cr_controller r)) op s)) x))"
| "depot_step r (D_stage op) x = (let k = cc_codec (cr_controller r) in
     snd (on_host (\<lambda>h. (Inr (), h\<lparr>ho_journal := do_stage_op (sha256 k) (uk_drained k) op (ho_journal h)\<rparr>)) x))"
| "depot_step r (D_daemon g) x = snd (on_host (\<lambda>h. (Inr (), h\<lparr>ho_docker := g (ho_docker h)\<rparr>)) x)"
| "depot_step r (D_enroll cc payload) x = snd (pair_txn cc (enroll_body cc payload) x)"
| "depot_step r (D_advance cc now) x = fenced r cc (\<lambda>x. snd (pair_txn cc (advance_capacity cc now) x)) x"
| "depot_step r (D_publish cc st s receipt) x = fenced r cc (\<lambda>x. snd (pair_txn cc (publish_ready cc st s receipt) x)) x"
| "depot_step r (D_block cc err) x = fenced r cc (\<lambda>x. snd (pool_txn cc (block_capacity cc err) x)) x"
| "depot_step r (D_settle cc st) x = fenced r cc (\<lambda>x. snd (pair_txn cc (settle_capacity cc st) x)) x"
| "depot_step r (D_shutdown cc) x = fenced r cc (\<lambda>x. snd (pool_txn cc (shutdown_capacity cc) x)) x"

definition depot_steps :: "'w capacity_runner \<Rightarrow> 'w depot_op list \<Rightarrow> 'w depot \<Rightarrow> 'w depot" where
  "depot_steps r ops x = fold (depot_step r) ops x"

definition depot_tick :: "'w depot \<Rightarrow> nat" where
  "depot_tick x = ho_tick (dp_host x)"

definition bump :: "'w depot \<Rightarrow> 'w depot" where
  "bump x = x\<lparr>dp_host := (dp_host x)\<lparr>ho_tick := Suc (ho_tick (dp_host x))\<rparr>\<rparr>"

text \<open>\<open>owned_disk\<close>: a cancelled call waits for the worker thread, whose effect is kept.\<close>

definition disk :: "'w capacity_runner \<Rightarrow> ('w depot, 'a) action \<Rightarrow> ('w depot, 'a) action" where
  "disk r f x = (let i = depot_tick x in case f (depot_steps r (cr_others r i) x) of (res, x') \<Rightarrow>
     (if re_cancel (cr_env r) i then Inl CancelledError else res, bump x'))"

subsection \<open>The calls\<close>

definition read_capacity :: "'w capacity_runner \<Rightarrow> ('w depot, capacity_state) action" where
  "read_capacity r = (let cc = cr_controller r in
     pool_txn cc (\<lambda>x. bind_res (plan_state cc x) (\<lambda>st. Inr (st, x))))"

definition replica_of :: "capacity_plan \<Rightarrow> capacity_state \<Rightarrow> launch_spec res" where
  "replica_of p st = (if ct_cycle st < length (pl_replicas p) then Inr (pl_replicas p ! ct_cycle st) else Inl IndexError)"

definition cycle_stage :: "capacity_plan \<Rightarrow> nat \<Rightarrow> string \<Rightarrow> string" where
  "cycle_stage p n what = pl_id p @ '':replica-'' @ decimal n @ what"

definition launch_replica :: "'w capacity_runner \<Rightarrow> capacity_state \<Rightarrow> ('w depot, unit) action" where
  "launch_replica r st = (let cc = cr_controller r; p = cr_plan r; env = cr_env r; k = re_codec env in
     seq (fallible (replica_of p st)) (\<lambda>s.
     seq (disk r (on_host (seq (stage_of env (pl_primary_stage p)) (\<lambda>ps. load_launch env ps (pl_primary p))))) (\<lambda>primary.
     seq (on_host (observe_runtime env (pl_primary p) primary)) (\<lambda>_.
     seq (disk r (seq (fallible (backend_of k (lp_revision s) (lp_profile s))) (\<lambda>b. on_warm (register (cc_routes cc) b)))) (\<lambda>_.
     seq (on_host (launch_runtime_stage env (cycle_stage p (ct_cycle st) ''-launch'') (pl_model_stage p) (pl_build_stage p)
       s (pl_workspace p))) (\<lambda>receipt.
     seq (disk r (seq (fallible (replica_of p st)) (\<lambda>s. pair_txn cc (publish_ready cc st s (uk_receipt_json k receipt))))) (\<lambda>_.
     return ())))))))"

text \<open>A completed launch is stopped after its admissions drained, an incomplete one is aborted, and
  a launch without an attempt has issued no command.  The result says whether the slot may settle.\<close>

definition launched_stage :: "'w capacity_runner \<Rightarrow> string \<Rightarrow> ('w depot, stage_state option) action" where
  "launched_stage r sid = recover
     (seq (disk r (on_host (stage_of (cr_env r) sid))) (\<lambda>l. return (Some l)))
     (\<lambda>e. if is_key_error e then return None else raise e)"

definition stop_replica :: "'w capacity_runner \<Rightarrow> capacity_state \<Rightarrow> launch_spec \<Rightarrow> warm_backend \<Rightarrow> stage_state option
    \<Rightarrow> ('w depot, bool) action" where
  "stop_replica r st s b found = (let cc = cr_controller r; p = cr_plan r; env = cr_env r; k = re_codec env;
       lid = cycle_stage p (ct_cycle st) ''-launch'';
       unserved = on_stores (retire_unserved k (cc_routes cc) (cc_control cc) b) in
     case found of
       None \<Rightarrow> seq (disk r unserved) (\<lambda>_. return True)
     | Some l \<Rightarrow>
         if ss_status l = Completed then
           seq (disk r (\<lambda>x. on_stores (retire_drained k (cc_routes cc) (cc_control cc) b (re_wall env (depot_tick x))) x)) (\<lambda>done.
           if \<not> done then return False
           else seq (on_host (stop_runtime_stage env (cycle_stage p (ct_cycle st) ''-stop'') lid s)) (\<lambda>_. return True))
         else (case ss_attempt l of
             None \<Rightarrow> seq (disk r unserved) (\<lambda>_. return True)
           | Some aid \<Rightarrow> seq (disk r unserved) (\<lambda>done.
               if \<not> done then raise (ControlConflict ''incomplete capacity runtime gained traffic ownership'')
               else seq (on_host (abort_runtime_stage env (cycle_stage p (ct_cycle st) ''-abort'') lid aid)) (\<lambda>_. return True))))"

definition cleanup_replica :: "'w capacity_runner \<Rightarrow> capacity_state \<Rightarrow> ('w depot, unit) action" where
  "cleanup_replica r st = (let cc = cr_controller r; p = cr_plan r; k = cc_codec cc in
     seq (fallible (replica_of p st)) (\<lambda>s.
     seq (fallible (backend_of k (lp_revision s) (lp_profile s))) (\<lambda>b.
     seq (launched_stage r (cycle_stage p (ct_cycle st) ''-launch'')) (\<lambda>found.
     seq (stop_replica r st s b found) (\<lambda>stopped.
     if \<not> stopped then return ()
     else seq (disk r (on_warm (release_retired_endpoint k (cc_routes cc) b))) (\<lambda>_.
       disk r (pair_txn cc (settle_capacity cc st))))))))"

definition fence_directory :: "'w capacity_controller \<Rightarrow> string" where
  "fence_directory cc = inside (pl_workspace (cc_plan cc))
     (''capacity-'' @ wh_identity (cc_routes cc) @ ''-'' @ take 16 (sha256 (cc_codec cc) (cc_deployment cc)))"

text \<open>What a tick does after its sample, and how it answers an exception of it.\<close>

definition reconcile_capacity :: "'w capacity_runner \<Rightarrow> capacity_state \<Rightarrow> ('w depot, unit) action" where
  "reconcile_capacity r st =
     seq (if ct_phase st = CapWarming then seq (launch_replica r st) (\<lambda>_. disk r (read_capacity r)) else return st) (\<lambda>now.
     if ct_phase now \<in> {CapDraining, CapBlocked} then cleanup_replica r now else return ())"

definition block_after :: "'w capacity_runner \<Rightarrow> py_error \<Rightarrow> ('w depot, unit) action" where
  "block_after r e = (let cc = cr_controller r in
     seq (disk r (pool_txn cc (block_capacity cc (class_name e)))) (\<lambda>_.
     if e = CancelledError then raise CancelledError else return ()))"

definition tick_capacity :: "'w capacity_runner \<Rightarrow> ('w depot, capacity_state) action" where
  "tick_capacity r = (let cc = cr_controller r; env = cr_env r in
     seq (disk r (on_host (owned_directory env (fence_directory cc)))) (\<lambda>_.
     seq (disk r (\<lambda>x. pair_txn cc (advance_capacity cc (re_clock env (depot_tick x))) x)) (\<lambda>st.
     seq (recover (reconcile_capacity r st) (block_after r)) (\<lambda>_.
     disk r (read_capacity r)))))"

definition close_capacity :: "'w capacity_runner \<Rightarrow> ('w depot, capacity_state) action" where
  "close_capacity r = (let cc = cr_controller r in
     seq (disk r (on_host (owned_directory (cr_env r) (fence_directory cc)))) (\<lambda>_.
     seq (disk r (pool_txn cc (shutdown_capacity cc))) (\<lambda>_. tick_capacity r)))"

subsection \<open>Running a plan\<close>

fun sample_capacity :: "nat \<Rightarrow> 'w capacity_runner \<Rightarrow> ('w depot, capacity_state option) action" where
  "sample_capacity 0 r = return None"
| "sample_capacity (Suc n) r =
     seq (tick_capacity r) (\<lambda>st. if ct_phase st = CapClosed then return (Some st)
       else seq (disk r (return ())) (\<lambda>_. sample_capacity n r))"

text \<open>Samples, and in any case the explicit drain; its state is the answer when no sample saw the plan
  closed.\<close>

definition drive_capacity :: "'w capacity_runner \<Rightarrow> ('w depot, capacity_state) action" where
  "drive_capacity r = seq (read_capacity r) (\<lambda>_.
     seq (attempt (sample_capacity (pl_samples (cr_plan r)) r)) (\<lambda>sampled.
     seq (close_capacity r) (\<lambda>last. case sampled of
       Inl e \<Rightarrow> raise e
     | Inr None \<Rightarrow> return last
     | Inr (Some st) \<Rightarrow> return st)))"

definition on_depot :: "('w depot, 'a) action \<Rightarrow> ('w depot cycle, 'a) action" where
  "on_depot f w = (let x = cy_world w; h = dp_host x in
     case f (x\<lparr>dp_host := h\<lparr>ho_journal := (ho_journal h)\<lparr>jn_store := cy_store w\<rparr>\<rparr>\<rparr>) of (res, x') \<Rightarrow>
       (res, w\<lparr>cy_store := jn_store (ho_journal (dp_host x')), cy_world := x'\<rparr>))"

definition capacity_envelope :: "'w capacity_controller \<Rightarrow> release_codec \<Rightarrow> artifact_ref option \<Rightarrow> artifact_ref \<Rightarrow> artifact_ref
    \<Rightarrow> decision \<Rightarrow> string" where
  "capacity_envelope cc rk primary model img d = uk_dumps (cc_codec cc) (JObj
     [(''plan'', JStr (cc_plan_json cc (cc_plan cc))), (''routes'', JStr (wh_identity (cc_routes cc))),
      (''control'', JStr (ch_identity (cc_control cc))), (''primary'', case primary of None \<Rightarrow> JNull | Some a \<Rightarrow> ref_json a),
      (''model'', ref_json model), (''image'', ref_json img), (''decision'', JStr (sha256 rk (rk_decision_json rk d)))])"

definition freeze_capacity :: "lifecycle_env \<Rightarrow> 'w capacity_runner \<Rightarrow> ('w depot cycle, capacity_state) action" where
  "freeze_capacity le r = (let cc = cr_controller r; p = cr_plan r; env = cr_env r; k = re_codec env; rk = le_codec le in
     seq (fallible (make_plan k p)) (\<lambda>_.
     if \<not> wh_pooled (cc_routes cc) \<or> wh_path (cc_routes cc) = ch_path (cc_control cc)
     then raise (ControlConflict ''capacity requires a new protocol store and separate control truth'') else
     seq (approved_activation le (pl_approval p)) (\<lambda>(q, d).
     seq (reg le (gate_input (pl_approval p))) (\<lambda>g.
     seq (on_store (read_profile rk (gr_candidate g))) (\<lambda>profile.
     if q_target q \<noteq> lp_revision (pl_primary p) \<or> profile \<noteq> lp_profile (pl_primary p) \<or>
        q_deployment_id q \<noteq> pl_deployment p \<or> q_expected_generation q + 1 \<noteq> pl_generation p
     then raise (ControlConflict ''capacity primary differs from approved canonical activation'') else
     seq (on_depot (on_host (stage_of env (pl_primary_stage p)))) (\<lambda>ps.
     seq (on_depot (on_host (load_launch env ps (pl_primary p)))) (\<lambda>_.
     seq (on_depot (on_host (verify_upstream env (pl_model_stage p) (pl_build_stage p) (pl_primary p)))) (\<lambda>(model, img).
     seq (on_depot (on_host (owned_directory env (pl_workspace p)))) (\<lambda>_.
     let payload = capacity_envelope cc rk (ss_output ps) model img d in
     seq (on_depot (on_host (seq (fallible (uk_loads k payload)) (declare_json env (input_stage p))))) (\<lambda>_.
     on_depot (pair_txn cc (enroll_body cc payload))))))))))))"

definition run_plan :: "lifecycle_env \<Rightarrow> 'w capacity_runner \<Rightarrow> ('w depot cycle, capacity_state) action" where
  "run_plan le r = (let cc = cr_controller r in
     seq (on_depot (pool_txn cc (\<lambda>x. Inr (lookup (dp_plans x) (pl_id (cr_plan r)) \<noteq> None, x)))) (\<lambda>there.
     seq (if there then return () else seq (freeze_capacity le r) (\<lambda>_. on_depot (disk r (return ())))) (\<lambda>_.
     on_depot (drive_capacity r))))"

end
