(* ===== verification/CapacityGuarantees.thy ===== *)
theory CapacityGuarantees
  imports CapacityRunner
begin

text \<open>
  What a capacity plan owns, whatever the other processes do and wherever a call is cancelled: the
  relation \<open>plan_owned\<close> between the plan's phase, the deployment's slot and the published members is kept
  by the plan's own transactions, in the order in which the fenced calls make them, and by every
  transaction of anybody else.
\<close>

subsection \<open>Ownership\<close>

definition extra_ready :: "string \<Rightarrow> warm_db \<Rightarrow> string set" where
  "extra_ready i db = {rid. \<exists>m. (rid, m) \<in> set (w_members db) \<and> pm_plan m = i \<and> pm_ready m}"

definition held :: "string \<Rightarrow> (string \<times> nat) option \<Rightarrow> bool" where
  "held i slot \<longleftrightarrow> (case slot of None \<Rightarrow> False | Some (j, _) \<Rightarrow> j = i)"

lemma held_simps [simp]: "held i None \<longleftrightarrow> False" "held i (Some (j, c)) \<longleftrightarrow> j = i"
  by (simp_all add: held_def)

definition tied :: "capacity_plan \<Rightarrow> capacity_state \<Rightarrow> (string \<times> nat) option \<Rightarrow> string set \<Rightarrow> bool" where
  "tied p st slot ready \<longleftrightarrow>
     (held (pl_id p) slot \<longrightarrow> slot = Some (pl_id p, ct_cycle st) \<and> ct_phase st \<in> {CapWarming, CapTwo, CapDraining, CapBlocked}) \<and>
     (ct_phase st \<in> {CapWarming, CapTwo} \<longrightarrow> slot = Some (pl_id p, ct_cycle st) \<and> ct_cycle st < length (pl_replicas p)) \<and>
     (ready \<noteq> {} \<longrightarrow> ct_phase st = CapTwo) \<and> ready \<subseteq> {launch_id_of (pl_replicas p ! ct_cycle st)} \<and>
     ct_samples st \<le> pl_samples p \<and> ct_cycle st \<le> length (pl_replicas p)"

definition slots_owned :: "capacity_plan \<Rightarrow> (string \<times> nat) table \<Rightarrow> string table \<Rightarrow> bool" where
  "slots_owned p slots authority \<longleftrightarrow> unique_keys slots \<and>
     (\<forall>dep c. lookup slots dep = Some (pl_id p, c) \<longrightarrow> dep = pl_deployment p \<and> lookup authority dep = Some (pl_id p))"

definition plan_owned :: "'w capacity_runner \<Rightarrow> 'w depot \<Rightarrow> bool" where
  "plan_owned r x \<longleftrightarrow> (let p = cr_plan r; i = pl_id p in slots_owned p (dp_slots x) (w_authority (dp_routes x)) \<and>
     (case lookup (dp_plans x) i of
        None \<Rightarrow> (\<forall>dep c. lookup (dp_slots x) dep \<noteq> Some (i, c)) \<and> extra_ready i (dp_routes x) = {}
      | Some (_, st) \<Rightarrow> tied p st (lookup (dp_slots x) (pl_deployment p)) (extra_ready i (dp_routes x))))"

text \<open>The steps that keep ownership and the plan's row.\<close>

definition keeps :: "'w capacity_runner \<Rightarrow> 'w depot \<Rightarrow> 'w depot \<Rightarrow> bool" where
  "keeps r x x' \<longleftrightarrow> (plan_owned r x \<longrightarrow> plan_owned r x' \<and>
     (\<forall>row. lookup (dp_plans x) (pl_id (cr_plan r)) = Some row \<longrightarrow> lookup (dp_plans x') (pl_id (cr_plan r)) = Some row))"

interpretation depot: effect "keeps r" for r
  by unfold_locales (simp_all add: keeps_def)

definition preserves :: "'w capacity_runner \<Rightarrow> 'w depot \<Rightarrow> 'w depot \<Rightarrow> bool" where
  "preserves r x x' \<longleftrightarrow> (plan_owned r x \<longrightarrow> plan_owned r x')"

interpretation owned_depot: effect "preserves r" for r
  by unfold_locales (simp_all add: preserves_def)

lemma keeps_preserves: "keeps r x x' \<Longrightarrow> preserves r x x'"
  by (simp add: keeps_def preserves_def)

lemma keeps_frame:
  assumes "lookup (dp_plans x') i = lookup (dp_plans x) i" and "i = pl_id (cr_plan r)"
    and "extra_ready i (dp_routes x') \<subseteq> extra_ready i (dp_routes x)"
    and "unique_keys (dp_slots x) \<Longrightarrow> unique_keys (dp_slots x')"
    and "\<And>dep c. unique_keys (dp_slots x) \<Longrightarrow> lookup (dp_slots x') dep = Some (i, c) \<longleftrightarrow> lookup (dp_slots x) dep = Some (i, c)"
    and "\<And>dep c. lookup (dp_slots x) dep = Some (i, c) \<Longrightarrow> lookup (w_authority (dp_routes x)) dep = Some i \<Longrightarrow>
      lookup (w_authority (dp_routes x')) dep = Some i"
  shows "keeps r x x'"
proof -
  have "tied p st slot' ready'" if "tied p st slot ready" "ready' \<subseteq> ready"
    "\<And>c. slot' = Some (pl_id p, c) \<longleftrightarrow> slot = Some (pl_id p, c)" for p st slot slot' ready ready'
  proof -
    have "held (pl_id p) slot' \<longleftrightarrow> held (pl_id p) slot" using that(3) by (force simp: held_def split: option.splits)
    with that show ?thesis unfolding tied_def by blast
  qed
  with assms show ?thesis
    by (auto simp: keeps_def plan_owned_def slots_owned_def Let_def split: option.splits)
qed

lemma keeps_same:
  assumes "dp_plans x' = dp_plans x" and "dp_slots x' = dp_slots x"
    and "w_members (dp_routes x') = w_members (dp_routes x)" and "w_authority (dp_routes x') = w_authority (dp_routes x)"
  shows "keeps r x x'"
  using assms by (intro keeps_frame [OF _ refl]) (simp_all add: extra_ready_def)

subsection \<open>The traffic store leaves the pool tables alone\<close>

definition pool_same :: "warm_db \<Rightarrow> warm_db \<Rightarrow> bool" where
  "pool_same db db' \<longleftrightarrow> w_members db' = w_members db \<and> w_authority db' = w_authority db"

interpretation pool: effect pool_same
  by unfold_locales (simp_all add: pool_same_def)

lemma pool_txn_same:
  assumes "\<And>a db'. f db = Inr (a, db') \<Longrightarrow> pool_same db db'"
  shows "pool_same db (snd (warm_txn me f db))"
  using assms by (auto simp: warm_txn_def atomically_def pool.refl split: sum.splits)

lemma advance_pool_same [simp]: "pool_same db (advance_pool dep reason db') \<longleftrightarrow> pool_same db db'"
  by (simp add: pool_same_def advance_pool_def Let_def)

lemma insert_admission_same: "insert_admission h fid rt b kind anchor gen db = Inr (l, db') \<Longrightarrow> pool_same db db'"
  by (auto simp: insert_admission_def pool_same_def Let_def split: if_splits sum.splits)

lemma save_route_same: "save_route cd h rt db = Inr db' \<Longrightarrow> pool_same db db'"
  by (auto simp: save_route_def pool_same_def advance_pool_def Let_def split: if_splits)

lemma register_same: "pool_same db (snd (register h b db))"
  unfolding register_def
  by (rule pool_txn_same) (auto simp: register_body_def insert_backend_def pool_same_def split: sum.splits option.splits if_splits)

lemma select_same: "pool_same db (snd (select_admission cd h fid rt request token db))"
  unfolding select_admission_def
proof (intro pool.seq_steps pool.on_option pool.pure pool_txn_same)
  fix w a db'
  assume "select_body cd h fid rt request token w = Inr (a, db')"
  then show "pool_same w db'"
    by (auto simp: select_body_def Let_def pool_same_def split: sum.splits if_splits option.splits
        dest!: insert_admission_same)
qed

lemma both_same:
  assumes "\<And>a s'. f s = Inr (a, s') \<Longrightarrow> pool_same (fst s) (fst s')"
  shows "pool_same (fst s) (fst (snd (both_txn h ch f s)))"
  using assms by (auto simp: both_txn_def atomically_def pool.refl split: sum.splits)

lemma baseline_same: "pool_same (fst s) (fst (snd (require_stable_baseline cd h ch fid dep b gen reserved s)))"
  unfolding require_stable_baseline_def
  by (rule both_same) (auto simp: baseline_body_def pool.refl split: prod.splits sum.splits if_splits dest!: insert_admission_same)

lemma drained_same: "pool_same (fst s) (fst (snd (retire_drained cd h ch b now s)))"
  unfolding retire_drained_def
  by (rule both_same)
    (auto simp: retire_drained_body_def Let_def pool_same_def retire_def split: prod.splits sum.splits if_splits)

lemma unserved_same: "pool_same (fst s) (fst (snd (retire_unserved cd h ch b s)))"
  unfolding retire_unserved_def
  by (rule both_same)
    (auto simp: retire_unserved_body_def Let_def pool_same_def retire_def insert_backend_def
      split: prod.splits sum.splits if_splits option.splits)

lemma release_same: "pool_same db (snd (release_retired_endpoint cd h b db))"
  unfolding release_retired_endpoint_def
  by (rule pool_txn_same) (auto simp: release_body_def pool_same_def Let_def split: if_splits)

lemma apply_body_same: "apply_body cd h b q now db = Inr (rt, db') \<Longrightarrow> pool_same db db'"
  by (auto simp: apply_body_def pool_same_def split: sum.splits option.splits if_splits dest!: save_route_same)

lemma bootstrap_body_same: "bootstrap_route_body cd h b dep rid now db = Inr (rt, db') \<Longrightarrow> pool_same db db'"
  by (auto simp: bootstrap_route_body_def pool_same_def split: sum.splits option.splits if_splits dest!: save_route_same)

lemma backend_same: "pool_same db (snd (backend h rid db))"
  unfolding backend_def by (rule pool_txn_same) (auto simp: backend_body_def pool_same_def split: sum.splits option.splits)

lemma routing_same: "pool_same db (snd (bootstrap_route cd h dep rid now db))" "pool_same db (snd (apply_route cd h q now db))"
  unfolding bootstrap_route_def apply_route_def
  by (intro pool.seq_steps pool.on_if pool.pure backend_same pool_txn_same bootstrap_body_same apply_body_same; assumption)+

lemma admission_same: "pool_same db (snd (admit cd h fid dep db))" "pool_same db (snd (mark_dispatched h l db))"
  "pool_same db (snd (finish_admission h l db))" "pool_same db (snd (probe_token cd h token rt request db))"
  "pool_same db (snd (revoke_probe cd h token db))"
  by (auto simp: admit_def mark_dispatched_def finish_admission_def probe_token_def revoke_probe_def admit_body_def pool.refl
      intro!: pool_txn_same dest!: insert_admission_same split: sum.splits option.splits if_splits prod.splits)
    (auto simp: pool_same_def)

lemma warm_step_same: "\<not> member_op op \<Longrightarrow> pool_same (fst s) (fst (warm_step cd h ch op s))"
  by (cases op) (simp_all add: on_fst_def pool.refl register_same routing_same select_same baseline_same admission_same
      drained_same unserved_same release_same)

subsection \<open>Transactions of controllers\<close>

lemma lookup_set_capacity:
  "lookup (set_capacity i st rows) k = map_option (\<lambda>(payload, old). (payload, if k = i then st else old)) (lookup rows k)"
  by (induction rows) (auto simp: set_capacity_def)

lemma unique_keys_free_slot: "unique_keys rows \<Longrightarrow> unique_keys (free_slot dep i n rows)"
  by (auto simp: unique_keys_def free_slot_def intro: distinct_map_filter)

lemma lookup_free_slot:
  "unique_keys rows \<Longrightarrow> lookup (free_slot dep i n rows) k = (if k = dep \<and> lookup rows k = Some (i, n) then None else lookup rows k)"
proof (induction rows)
  case (Cons row rows)
  then have "unique_keys rows" "lookup rows (fst row) = None"
    by (auto simp: unique_keys_def map_of_eq_None_iff)
  with Cons.IH show ?case by (cases row) (auto simp: free_slot_def)
qed (simp add: free_slot_def)

lemma plan_state_Inr:
  "plan_state cc x = Inr st \<Longrightarrow> \<exists>payload. lookup (dp_plans x) (cc_id cc) = Some (payload, st) \<and>
     lookup (w_authority (dp_routes x)) (cc_deployment cc) = Some (cc_id cc)"
  by (auto simp: plan_state_def valid_capacity_state_def Let_def res_iff split: option.splits if_splits)

lemma save_Inr:
  "save_capacity cc st note x = Inr x' \<Longrightarrow>
     x' = x\<lparr>dp_plans := set_capacity (cc_id cc) st (dp_plans x), dp_events := dp_events x @ [(cc_id cc, st, note)]\<rparr>"
  by (auto simp: save_capacity_def res_iff)

lemma save_reads: "save_capacity cc st note x = Inr x' \<Longrightarrow> \<exists>payload old. lookup (dp_plans x) (cc_id cc) = Some (payload, old)"
  unfolding save_capacity_def bind_res_Inr by (blast dest: plan_state_Inr)

lemma save_row:
  assumes "save_capacity cc st note x = Inr x'"
  shows "\<exists>payload. lookup (dp_plans x') (cc_id cc) = Some (payload, st)"
proof -
  obtain payload old where "lookup (dp_plans x) (cc_id cc) = Some (payload, old)" using save_reads [OF assms] by blast
  with save_Inr [OF assms] show ?thesis by (simp add: lookup_set_capacity)
qed

lemma members_after_removal:
  "w_members (remove_members i dep db) = map (\<lambda>(k, m). (k, if pm_plan m = i then m\<lparr>pm_ready := False\<rparr> else m)) (w_members db)"
  by (simp add: remove_members_def advance_pool_def Let_def)

lemma dropped [simp]:
  "extra_ready i (remove_members i dep db) = {}"
  "i \<noteq> j \<Longrightarrow> extra_ready j (remove_members i dep db) = extra_ready j db"
  "w_authority (remove_members i dep db) = w_authority db"
proof -
  have "\<not> pm_ready m" if m: "(rid, m) \<in> set (w_members (remove_members i dep db))" "pm_plan m = i" for rid m
  proof -
    from m(1) obtain b where "m = (if pm_plan b = i then b\<lparr>pm_ready := False\<rparr> else b)"
      by (auto simp: members_after_removal)
    with m(2) show ?thesis by (cases "pm_plan b = i") simp_all
  qed
  then show "extra_ready i (remove_members i dep db) = {}" by (auto simp: extra_ready_def)
  show "w_authority (remove_members i dep db) = w_authority db" by (simp add: remove_members_def advance_pool_def Let_def)
  assume "i \<noteq> j"
  then have "(\<exists>m. (rid, m) \<in> set (w_members (remove_members i dep db)) \<and> pm_plan m = j \<and> pm_ready m) \<longleftrightarrow>
      (\<exists>m. (rid, m) \<in> set (w_members db) \<and> pm_plan m = j \<and> pm_ready m)" for rid
    by (force simp: members_after_removal split: if_splits)
  then show "extra_ready j (remove_members i dep db) = extra_ready j db" by (simp add: extra_ready_def)
qed

lemma pool_txn_rel:
  assumes "R x x" and "\<And>a x'. f x = Inr (a, x') \<Longrightarrow> R x x'"
  shows "R x (snd (pool_txn cc f x))"
  unfolding pool_txn_def using assms by (auto simp: atomically_def res_iff split: sum.splits)

lemma pair_txn_rel:
  assumes "R x x" and "\<And>a x'. f x = Inr (a, x') \<Longrightarrow> R x x'"
  shows "R x (snd (pair_txn cc f x))"
  unfolding pair_txn_def using assms by (intro pool_txn_rel [where R = R]) (auto simp: res_iff)

text \<open>The outcomes of a sample.\<close>

lemma sample_cases:
  assumes "advance_capacity cc now x = Inr (st', x')"
  obtains (idle) "x' = x" "plan_state cc x = Inr st'"
  | (expire) st nt where "plan_state cc x = Inr st" "st' = st\<lparr>ct_phase := (if ct_phase st = CapOne then CapClosed else CapDraining)\<rparr>"
      "save_capacity cc st' nt (if ct_phase st = CapOne then x else drop_members cc x) = Inr x'"
  | (up) st me slots nt where "plan_state cc x = Inr st" "ct_phase st = CapOne" "ct_cycle st < length (pl_replicas (cc_plan cc))"
      "ct_samples st < pl_samples (cc_plan cc)"
      "st' = st\<lparr>ct_memory := me, ct_samples := ct_samples st + 1, ct_phase := CapWarming\<rparr>"
      "insert_new (cc_deployment cc) (cc_id cc, ct_cycle st) (dp_slots x) = Inr slots"
      "save_capacity cc st' nt (x\<lparr>dp_slots := slots\<rparr>) = Inr x'"
  | (finish) st me nt where "plan_state cc x = Inr st" "ct_phase st = CapOne" "ct_samples st < pl_samples (cc_plan cc)"
      "st' = st\<lparr>ct_memory := me, ct_samples := ct_samples st + 1, ct_phase := CapClosed\<rparr>" "save_capacity cc st' nt x = Inr x'"
  | (down) st me nt where "plan_state cc x = Inr st" "ct_phase st = CapTwo" "ct_samples st < pl_samples (cc_plan cc)"
      "st' = st\<lparr>ct_memory := me, ct_samples := ct_samples st + 1, ct_phase := CapDraining\<rparr>"
      "save_capacity cc st' nt (drop_members cc x) = Inr x'"
  | (hold) st me nt where "plan_state cc x = Inr st" "ct_samples st < pl_samples (cc_plan cc)"
      "st' = st\<lparr>ct_memory := me, ct_samples := ct_samples st + 1\<rparr>" "save_capacity cc st' nt x = Inr x'"
proof -
  from assms obtain st where st: "plan_state cc x = Inr st" by (auto simp: advance_capacity_def Let_def res_iff)
  show thesis
  proof (cases "ct_phase st = CapClosed")
    case True
    with assms st idle show thesis by (simp add: advance_capacity_def Let_def)
  next
    case False
    with assms st obtain stable where s: "stable_anchor cc x = Inr stable" by (auto simp: advance_capacity_def Let_def res_iff)
    show thesis
    proof (cases "\<not> stable \<or> pl_samples (cc_plan cc) \<le> ct_samples st")
      case True
      with assms st s False show thesis
        by (auto simp: advance_capacity_def Let_def res_iff intro: expire split: if_splits)
    next
      case fresh: False
      show thesis
      proof (cases "ct_phase st \<in> {CapWarming, CapDraining, CapBlocked}")
        case True
        with assms st s False fresh idle show thesis by (auto simp: advance_capacity_def Let_def)
      next
        case sampled: False
        from assms st s False fresh sampled obtain ob me act where
          o: "observe_pool cc st now x = Inr ob" "decide_capacity (pl_policy (cc_plan cc)) ob (ct_memory st) = Inr (me, act)"
          by (auto simp: advance_capacity_def Let_def res_iff)
        have less: "ct_samples st < pl_samples (cc_plan cc)" using fresh by simp
        consider "act = Up" "ct_phase st = CapOne" | "act = Down" "ct_phase st = CapTwo"
          | "\<not> (act = Up \<and> ct_phase st = CapOne)" "\<not> (act = Down \<and> ct_phase st = CapTwo)" by blast
        then show thesis
        proof cases
          case 1
          with assms st s False fresh sampled o show thesis
            by (auto simp: advance_capacity_def Let_def res_iff split: if_splits intro: up finish less)
        next
          case 2
          with assms st s False fresh sampled o show thesis
            by (auto simp: advance_capacity_def Let_def res_iff intro: down less)
        next
          case 3
          with assms st s False fresh sampled o show thesis
            by (auto simp: advance_capacity_def Let_def res_iff split: if_splits intro: hold less)
        qed
      qed
    qed
  qed
qed

text \<open>Transactions of another plan.\<close>

lemma save_other:
  assumes "save_capacity cc st note x1 = Inr x'" and "cc_id cc \<noteq> pl_id (cr_plan r)" and "keeps r x x1"
  shows "keeps r x x'"
proof (rule depot.trans [OF assms(3)], rule keeps_frame [OF _ refl])
  from assms(1) have x': "x' = x1\<lparr>dp_plans := set_capacity (cc_id cc) st (dp_plans x1), dp_events := dp_events x1 @ [(cc_id cc, st, note)]\<rparr>"
    by (rule save_Inr)
  show "lookup (dp_plans x') (pl_id (cr_plan r)) = lookup (dp_plans x1) (pl_id (cr_plan r))"
    using assms(2) by (simp add: x' lookup_set_capacity option.map_ident_strong split: prod.splits)
qed (simp_all add: save_Inr(1) [OF assms(1)])

lemma drop_other: "cc_id cc \<noteq> pl_id (cr_plan r) \<Longrightarrow> keeps r x (drop_members cc x)"
  by (rule keeps_frame [OF _ refl]) (simp_all add: drop_members_def)

lemma publish_other: "cc_id cc \<noteq> pl_id (cr_plan r) \<Longrightarrow> keeps r x (publish_member cc s receipt x)"
  by (rule keeps_frame [OF _ refl])
    (auto simp: publish_member_def Let_def extra_ready_def advance_pool_def in_delete_key)

lemma insert_slot_other:
  assumes "insert_new dep (i, n) (dp_slots x) = Inr slots" and "i \<noteq> pl_id (cr_plan r)"
  shows "keeps r x (x\<lparr>dp_slots := slots\<rparr>)"
  using assms by (intro keeps_frame [OF _ refl])
    (auto simp: insert_new_def unique_keys_append_new lookup_append_new simp del: map_of_append split: if_splits)

lemma free_slot_other: "i \<noteq> pl_id (cr_plan r) \<Longrightarrow> keeps r x (x\<lparr>dp_slots := free_slot dep i n (dp_slots x)\<rparr>)"
  by (intro keeps_frame [OF _ refl]) (auto simp: unique_keys_free_slot lookup_free_slot)

lemma other_transactions:
  assumes "cc_id cc \<noteq> pl_id (cr_plan r)"
  shows "keeps r x (snd (pair_txn cc (advance_capacity cc now) x))"
    and "keeps r x (snd (pair_txn cc (publish_ready cc st s receipt) x))"
    and "keeps r x (snd (pool_txn cc (block_capacity cc err) x))"
    and "keeps r x (snd (pair_txn cc (settle_capacity cc st) x))"
    and "keeps r x (snd (pool_txn cc (shutdown_capacity cc) x))"
proof -
  note saved = save_other [OF _ assms]
  note parts = drop_other [OF assms] publish_other [OF assms] insert_slot_other [OF _ assms] free_slot_other [OF assms]
  show "keeps r x (snd (pair_txn cc (advance_capacity cc now) x))"
  proof (rule pair_txn_rel [where R = "keeps r", OF depot.refl])
    fix a x'
    assume "advance_capacity cc now x = Inr (a, x')"
    then show "keeps r x x'"
    proof (cases rule: sample_cases)
      case (expire st nt)
      show ?thesis by (rule saved [OF expire(3)]) (simp add: parts depot.refl)
    qed (auto intro: saved parts depot.refl)
  qed
  show "keeps r x (snd (pair_txn cc (publish_ready cc st s receipt) x))"
    by (rule pair_txn_rel [where R = "keeps r", OF depot.refl])
      (auto simp: publish_ready_def res_iff split: if_splits intro: saved parts depot.refl)
  show "keeps r x (snd (pool_txn cc (block_capacity cc err) x))"
    by (rule pool_txn_rel [where R = "keeps r", OF depot.refl])
      (auto simp: block_capacity_def res_iff intro: saved parts)
  show "keeps r x (snd (pair_txn cc (settle_capacity cc st) x))"
    by (rule pair_txn_rel [where R = "keeps r", OF depot.refl])
      (auto simp: settle_capacity_def Let_def res_iff split: if_splits intro: saved parts)
  show "keeps r x (snd (pool_txn cc (shutdown_capacity cc) x))"
    by (rule pool_txn_rel [where R = "keeps r", OF depot.refl])
      (auto simp: shutdown_capacity_def res_iff split: if_splits intro: saved parts depot.refl)
qed

subsection \<open>Transactions of the plan itself\<close>

lemma ownsD:
  assumes "plan_owned r x"
  shows "slots_owned (cr_plan r) (dp_slots x) (w_authority (dp_routes x))"
    and "lookup (dp_plans x) (pl_id (cr_plan r)) = Some (payload, st) \<Longrightarrow>
      tied (cr_plan r) st (lookup (dp_slots x) (pl_deployment (cr_plan r))) (extra_ready (pl_id (cr_plan r)) (dp_routes x))"
  using assms by (auto simp: plan_owned_def Let_def)

lemma ownsI:
  assumes "slots_owned (cr_plan r) (dp_slots x) (w_authority (dp_routes x))"
    and "lookup (dp_plans x) (pl_id (cr_plan r)) = Some (payload, st)"
    and "tied (cr_plan r) st (lookup (dp_slots x) (pl_deployment (cr_plan r))) (extra_ready (pl_id (cr_plan r)) (dp_routes x))"
  shows "plan_owned r x"
  using assms by (simp add: plan_owned_def Let_def)

lemma plan_tied:
  "plan_owned r x \<Longrightarrow> plan_state (cr_controller r) x = Inr st \<Longrightarrow>
     tied (cr_plan r) st (lookup (dp_slots x) (pl_deployment (cr_plan r))) (extra_ready (pl_id (cr_plan r)) (dp_routes x))"
  using plan_state_Inr ownsD(2) by blast

text \<open>A save ends a transaction: what it leaves is owned when the saved state is tied to the slot and
  the members of that moment.\<close>

lemma save_owns:
  assumes "save_capacity (cr_controller r) st nt x1 = Inr x'"
    and "slots_owned (cr_plan r) (dp_slots x1) (w_authority (dp_routes x1))"
    and "tied (cr_plan r) st (lookup (dp_slots x1) (pl_deployment (cr_plan r))) (extra_ready (pl_id (cr_plan r)) (dp_routes x1))"
  shows "plan_owned r x'"
proof -
  obtain payload where "lookup (dp_plans x') (pl_id (cr_plan r)) = Some (payload, st)" using save_row [OF assms(1)] by blast
  then show ?thesis using save_Inr [OF assms(1)] assms(2,3) by (intro ownsI [where payload = payload and st = st]) auto
qed

lemma slots_owned_shrink:
  "slots_owned p slots authority \<Longrightarrow> unique_keys slots' \<Longrightarrow>
     (\<And>dep c. lookup slots' dep = Some (pl_id p, c) \<Longrightarrow> lookup slots dep = Some (pl_id p, c)) \<Longrightarrow> slots_owned p slots' authority"
  unfolding slots_owned_def by blast

lemma tied_ready: "tied p st slot ready \<Longrightarrow> ct_phase st \<noteq> CapTwo \<Longrightarrow> ready = {}"
  by (auto simp: tied_def)

lemma tied_quiet:
  "tied p st slot ready \<Longrightarrow> ct_phase st' \<in> {CapDraining, CapBlocked} \<Longrightarrow> ct_cycle st' = ct_cycle st \<Longrightarrow>
     ct_samples st' \<le> pl_samples p \<Longrightarrow> tied p st' slot {}"
  by (auto simp: tied_def)

lemma tied_closed:
  "tied p st slot ready \<Longrightarrow> ct_phase st = CapOne \<Longrightarrow> ct_phase st' = CapClosed \<Longrightarrow> ct_cycle st' = ct_cycle st \<Longrightarrow>
     ct_samples st' \<le> pl_samples p \<Longrightarrow> tied p st' slot ready"
  by (auto simp: tied_def)

lemma tied_same:
  "tied p st slot ready \<Longrightarrow> ct_phase st' = ct_phase st \<Longrightarrow> ct_cycle st' = ct_cycle st \<Longrightarrow>
     ct_samples st' \<le> pl_samples p \<Longrightarrow> tied p st' slot ready"
  unfolding tied_def by metis

lemma tied_samples: "tied p st slot ready \<Longrightarrow> ct_samples st \<le> pl_samples p"
  by (simp add: tied_def)

lemma dropped_depot [simp]:
  "dp_slots (drop_members cc x) = dp_slots x" "dp_plans (drop_members cc x) = dp_plans x"
  "w_authority (dp_routes (drop_members cc x)) = w_authority (dp_routes x)"
  "extra_ready (cc_id cc) (dp_routes (drop_members cc x)) = {}"
  by (simp_all add: drop_members_def)

lemma advance_owns:
  assumes o: "plan_owned r x" and "advance_capacity (cr_controller r) now x = Inr (st', x')"
  shows "plan_owned r x' \<and> (\<exists>payload. lookup (dp_plans x') (pl_id (cr_plan r)) = Some (payload, st'))"
  using assms(2)
proof (cases rule: sample_cases)
  case idle
  with o show ?thesis using plan_state_Inr by blast
next
  case (expire st nt)
  note t = plan_tied [OF o expire(1)]
  have "plan_owned r x'"
  proof (cases "ct_phase st = CapOne")
    case True
    then have "save_capacity (cr_controller r) st' nt x = Inr x'" using expire(3) by simp
    then show ?thesis
      by (rule save_owns) (use True expire(2) tied_closed [OF t, of st'] tied_samples [OF t] ownsD(1) [OF o] in simp_all)
  next
    case False
    then have "save_capacity (cr_controller r) st' nt (drop_members (cr_controller r) x) = Inr x'" using expire(3) by simp
    then show ?thesis
      by (rule save_owns) (use False expire(2) tied_quiet [OF t, of st'] tied_samples [OF t] ownsD(1) [OF o] in simp_all)
  qed
  with save_row [OF expire(3)] show ?thesis by blast
next
  case (up st me slots nt)
  note t = plan_tied [OF o up(1)]
  from up(6) have slots: "slots = dp_slots x @ [(pl_deployment (cr_plan r), pl_id (cr_plan r), ct_cycle st)]"
    "lookup (dp_slots x) (pl_deployment (cr_plan r)) = None"
    by (auto simp: insert_new_def split: if_splits)
  obtain payload where a: "lookup (w_authority (dp_routes x)) (pl_deployment (cr_plan r)) = Some (pl_id (cr_plan r))"
    using plan_state_Inr [OF up(1)] by blast
  have "plan_owned r x'"
  proof (rule save_owns [OF up(7)])
    show "slots_owned (cr_plan r) (dp_slots (x\<lparr>dp_slots := slots\<rparr>)) (w_authority (dp_routes (x\<lparr>dp_slots := slots\<rparr>)))"
      using slots ownsD(1) [OF o] a by (simp add: slots_owned_def unique_keys_append_new lookup_append_new del: map_of_append)
    show "tied (cr_plan r) st' (lookup (dp_slots (x\<lparr>dp_slots := slots\<rparr>)) (pl_deployment (cr_plan r)))
        (extra_ready (pl_id (cr_plan r)) (dp_routes (x\<lparr>dp_slots := slots\<rparr>)))"
      using t up(2-5) slots tied_ready [OF t] by (simp add: tied_def lookup_append_new del: map_of_append)
  qed
  with save_row [OF up(7)] show ?thesis by blast
next
  case (finish st me nt)
  note t = plan_tied [OF o finish(1)]
  have "plan_owned r x'"
    by (rule save_owns [OF finish(5)]) (use finish(2-4) tied_closed [OF t, of st'] ownsD(1) [OF o] in simp_all)
  with save_row [OF finish(5)] show ?thesis by blast
next
  case (down st me nt)
  note t = plan_tied [OF o down(1)]
  have "plan_owned r x'"
    by (rule save_owns [OF down(5)]) (use down(2-4) tied_quiet [OF t, of st'] ownsD(1) [OF o] in simp_all)
  with save_row [OF down(5)] show ?thesis by blast
next
  case (hold st me nt)
  note t = plan_tied [OF o hold(1)]
  have "plan_owned r x'"
    by (rule save_owns [OF hold(4)]) (use hold(2-3) tied_same [OF t, of st'] ownsD(1) [OF o] in simp_all)
  with save_row [OF hold(4)] show ?thesis by blast
qed

lemma published_members:
  "extra_ready (cc_id cc) (dp_routes (publish_member cc s receipt x)) = insert (launch_id_of s) (extra_ready (cc_id cc) (dp_routes x))"
  "dp_slots (publish_member cc s receipt x) = dp_slots x"
  "w_authority (dp_routes (publish_member cc s receipt x)) = w_authority (dp_routes x)"
proof -
  have "(\<exists>m. (rid, m) \<in> set (w_members (dp_routes (publish_member cc s receipt x))) \<and> pm_plan m = cc_id cc \<and> pm_ready m) \<longleftrightarrow>
      rid = launch_id_of s \<or> (\<exists>m. (rid, m) \<in> set (w_members (dp_routes x)) \<and> pm_plan m = cc_id cc \<and> pm_ready m)" for rid
    by (cases "rid = launch_id_of s") (simp_all add: publish_member_def Let_def advance_pool_def in_delete_key)
  then show "extra_ready (cc_id cc) (dp_routes (publish_member cc s receipt x)) =
      insert (launch_id_of s) (extra_ready (cc_id cc) (dp_routes x))" by (auto simp: extra_ready_def)
qed (simp_all add: publish_member_def Let_def advance_pool_def)

lemma publish_owns:
  assumes o: "plan_owned r x" and "publish_ready (cr_controller r) st s receipt x = Inr (b, x')"
    and s: "replica_of (cr_plan r) st = Inr s" and w: "ct_phase st = CapWarming"
  shows "plan_owned r x'"
proof -
  from s have rid: "launch_id_of s = launch_id_of (pl_replicas (cr_plan r) ! ct_cycle st)" "ct_cycle st < length (pl_replicas (cr_plan r))"
    by (auto simp: replica_of_def split: if_splits)
  from assms(2) have st: "plan_state (cr_controller r) x = Inr st"
    and slot: "lookup (dp_slots x) (pl_deployment (cr_plan r)) = Some (pl_id (cr_plan r), ct_cycle st)"
    by (auto simp: publish_ready_def res_iff split: if_splits)
  note t = plan_tied [OF o st]
  from assms(2) st slot consider
    nt where "save_capacity (cr_controller r) (st\<lparr>ct_phase := CapDraining\<rparr>) nt x = Inr x'"
  | nt where "save_capacity (cr_controller r) (st\<lparr>ct_phase := CapTwo, ct_error := None\<rparr>) nt
      (publish_member (cr_controller r) s receipt x) = Inr x'"
    by (auto simp: publish_ready_def res_iff split: if_splits)
  then show ?thesis
  proof cases
    case 1
    show ?thesis
      by (rule save_owns [OF 1]) (use tied_quiet [OF t, of "st\<lparr>ct_phase := CapDraining\<rparr>"] tied_ready [OF t] tied_samples [OF t]
          ownsD(1) [OF o] w in simp_all)
  next
    case 2
    show ?thesis
      by (rule save_owns [OF 2]) (use t tied_ready [OF t] ownsD(1) [OF o] slot rid w in \<open>simp_all add: tied_def published_members\<close>)
  qed
qed

lemma block_owns:
  assumes o: "plan_owned r x" and "block_capacity (cr_controller r) err x = Inr (u, x')"
  shows "plan_owned r x'"
proof -
  from assms(2) obtain st nt where st: "plan_state (cr_controller r) x = Inr st"
    and s: "save_capacity (cr_controller r) (st\<lparr>ct_phase := CapBlocked, ct_error := Some err\<rparr>) nt (drop_members (cr_controller r) x) = Inr x'"
    by (auto simp: block_capacity_def res_iff)
  show ?thesis
    by (rule save_owns [OF s]) (use tied_quiet [OF plan_tied [OF o st]] tied_samples [OF plan_tied [OF o st]] ownsD(1) [OF o] in simp_all)
qed

lemma shutdown_owns:
  assumes o: "plan_owned r x" and "shutdown_capacity (cr_controller r) x = Inr (u, x')"
  shows "plan_owned r x'"
proof -
  from assms(2) obtain st where st: "plan_state (cr_controller r) x = Inr st" by (auto simp: shutdown_capacity_def res_iff)
  show ?thesis
  proof (cases "ct_phase st = CapClosed")
    case True
    with assms(2) st o show ?thesis by (simp add: shutdown_capacity_def)
  next
    case False
    with assms(2) st obtain nt where s: "save_capacity (cr_controller r)
        (st\<lparr>ct_phase := (if ct_phase st = CapOne then CapClosed else CapDraining), ct_samples := pl_samples (cr_plan r)\<rparr>) nt
        (drop_members (cr_controller r) x) = Inr x'"
      by (auto simp: shutdown_capacity_def res_iff)
    have "tied (cr_plan r) (st\<lparr>ct_phase := (if ct_phase st = CapOne then CapClosed else CapDraining), ct_samples := pl_samples (cr_plan r)\<rparr>)
        (lookup (dp_slots x) (pl_deployment (cr_plan r))) {}"
      using plan_tied [OF o st] tied_ready [OF plan_tied [OF o st]] tied_closed [OF plan_tied [OF o st]] tied_quiet [OF plan_tied [OF o st]]
      by (cases "ct_phase st = CapOne") simp_all
    then show ?thesis by (intro save_owns [OF s]) (use ownsD(1) [OF o] in simp_all)
  qed
qed

text \<open>Settlement is owned when the plan was draining or blocked on a cycle it had a replica for.\<close>

lemma settle_owns:
  assumes o: "plan_owned r x" and "settle_capacity (cr_controller r) st x = Inr (u, x')"
    and row: "lookup (dp_plans x) (pl_id (cr_plan r)) = Some (payload, st)"
    and st: "ct_phase st \<in> {CapDraining, CapBlocked}" "ct_cycle st < length (pl_replicas (cr_plan r))"
  shows "plan_owned r x'"
proof -
  let ?i = "pl_id (cr_plan r)" and ?d = "pl_deployment (cr_plan r)"
  let ?x1 = "x\<lparr>dp_slots := free_slot ?d ?i (ct_cycle st) (dp_slots x)\<rparr>"
  from assms(2) obtain current where cur: "plan_state (cr_controller r) x = Inr current" by (auto simp: settle_capacity_def Let_def res_iff)
  with row plan_state_Inr have c: "current = st" by fastforce
  note t = plan_tied [OF o cur]
  from assms(2) cur c obtain closed nt where s: "save_capacity (cr_controller r)
      (st\<lparr>ct_phase := (if closed then CapClosed else CapOne), ct_cycle := ct_cycle st + 1, ct_memory := empty_memory\<rparr>) nt ?x1 = Inr x'"
    by (auto simp: settle_capacity_def Let_def res_iff)
  have u: "unique_keys (dp_slots x)" using ownsD(1) [OF o] by (simp add: slots_owned_def)
  have "lookup (dp_slots ?x1) dep = Some (?i, n) \<Longrightarrow> lookup (dp_slots x) dep = Some (?i, n)" for dep n
    by (simp add: lookup_free_slot [OF u] split: if_splits)
  then have slots: "slots_owned (cr_plan r) (dp_slots ?x1) (w_authority (dp_routes ?x1))"
    using slots_owned_shrink [OF ownsD(1) [OF o]] unique_keys_free_slot [OF u] by simp
  have "\<not> held ?i (lookup (dp_slots ?x1) ?d)"
    using t c by (auto simp: lookup_free_slot [OF u] tied_def held_def split: option.splits)
  moreover have "extra_ready ?i (dp_routes x) = {}" using tied_ready [OF t] c st by auto
  ultimately have "tied (cr_plan r) (st\<lparr>ct_phase := (if closed then CapClosed else CapOne), ct_cycle := ct_cycle st + 1, ct_memory := empty_memory\<rparr>)
      (lookup (dp_slots ?x1) ?d) (extra_ready ?i (dp_routes ?x1))"
    using tied_samples [OF t] c st(2) by (simp add: tied_def)
  then show ?thesis by (intro save_owns [OF s] slots)
qed

text \<open>Enrollment of any plan: it takes the deployment only from a closed plan without a slot.\<close>

lemma enroll_Inr:
  assumes "enroll_body cc payload x = Inr (st, x')"
  shows "dp_slots x' = dp_slots x" and "w_members (dp_routes x') = w_members (dp_routes x)"
    and "dp_plans x' = insert_or_ignore (cc_id cc) (payload, st) (dp_plans x)"
    and "w_authority (dp_routes x') = upsert (cc_deployment cc) (cc_id cc) (w_authority (dp_routes x))"
    and "prior_owner cc x = Inr ()" and "lookup (dp_plans x) (cc_id cc) = None \<Longrightarrow> st = new_capacity (cc_id cc)"
  using assms by (auto simp: enroll_body_def Let_def res_iff advance_pool_def split: if_splits option.splits)

lemma prior_owner_free:
  assumes "prior_owner cc x = Inr ()" and "lookup (dp_slots x) dep = Some (i, c)" and "lookup (w_authority (dp_routes x)) dep = Some i"
  shows "dep \<noteq> cc_deployment cc \<or> i = cc_id cc"
  using assms by (auto simp: prior_owner_def res_iff split: if_splits option.splits)

lemma enroll_keeps:
  assumes "enroll_body cc payload x = Inr (st, x')"
  shows "keeps r x x'"
proof -
  note e = enroll_Inr [OF assms]
  let ?i = "pl_id (cr_plan r)"
  have ready: "extra_ready ?i (dp_routes x') = extra_ready ?i (dp_routes x)" by (simp add: extra_ready_def e)
  have row: "lookup (dp_plans x') ?i = (if ?i = cc_id cc \<and> lookup (dp_plans x) ?i = None then Some (payload, new_capacity ?i)
      else lookup (dp_plans x) ?i)"
    using e(6) by (auto simp: e(3) lookup_insert_or_ignore split: option.splits)
  have "slots_owned (cr_plan r) (dp_slots x') (w_authority (dp_routes x'))"
    if o: "slots_owned (cr_plan r) (dp_slots x) (w_authority (dp_routes x))"
    using o prior_owner_free [OF e(5)] unfolding slots_owned_def e(1,4) lookup_upsert by (metis (no_types, lifting))
  moreover have "tied (cr_plan r) (new_capacity ?i) slot {}" if "\<And>c. slot \<noteq> Some (?i, c)" for slot
    using that by (auto simp: tied_def new_capacity_def held_def split: option.splits)
  ultimately show ?thesis
    unfolding keeps_def plan_owned_def Let_def row ready e(1) by (auto split: option.splits if_splits)
qed

subsection \<open>Calls\<close>

lemma host_keeps: "keeps r x (snd (on_host f x))"
  by (rule keeps_same) (simp_all add: on_host_def split: prod.splits)

lemma warm_keeps:
  assumes "\<And>db. pool_same db (snd (f db))"
  shows "keeps r x (snd (on_warm f x))"
  using assms [of "dp_routes x"] by (intro keeps_same) (auto simp: on_warm_def pool_same_def split: prod.splits)

lemma stores_keeps:
  assumes "\<And>s. pool_same (fst s) (fst (snd (f s)))"
  shows "keeps r x (snd (on_stores f x))"
  using assms [of "(dp_routes x, dp_control x)"] by (intro keeps_same) (auto simp: on_stores_def pool_same_def split: prod.splits)

lemma depot_step_keeps: "keeps r x (depot_step r op x)"
proof (cases op)
  case (D_enroll cc payload)
  then show ?thesis by (simp add: pair_txn_rel [where R = "keeps r"] depot.refl enroll_keeps)
qed (simp_all add: fenced_def Let_def host_keeps stores_keeps warm_step_same other_transactions depot.refl)

lemma depot_steps_keeps: "keeps r x (depot_steps r ops x)"
  unfolding depot_steps_def
proof (induction ops arbitrary: x)
  case (Cons op ops)
  show ?case using depot.trans [OF depot_step_keeps Cons.IH] by simp
qed (simp add: depot.refl)

lemma bump_keeps [simp]: "dp_plans (bump x) = dp_plans x" "dp_slots (bump x) = dp_slots x" "dp_routes (bump x) = dp_routes x"
  by (simp_all add: bump_def)

lemma owns_bump [simp]: "plan_owned r (bump x) = plan_owned r x"
  by (simp add: plan_owned_def Let_def split: option.splits)

lemma keeps_bump [simp]: "keeps r x (bump x') = keeps r x x'"
  by (simp add: keeps_def)

lemma disk_keeps:
  assumes "\<And>x. keeps r x (snd (f x))"
  shows "keeps r x (snd (disk r f x))"
proof -
  have "keeps r x (snd (f (depot_steps r (cr_others r (depot_tick x)) x)))"
    using depot.trans [OF depot_steps_keeps assms] .
  then show ?thesis by (auto simp: disk_def Let_def split: prod.splits)
qed

text \<open>A transaction of the plan, seen at the moment it runs.\<close>

lemma disk_preserves:
  assumes "\<And>x'. keeps r x x' \<Longrightarrow> preserves r x' (snd (f x'))"
  shows "preserves r x (snd (disk r f x))"
proof -
  let ?x' = "depot_steps r (cr_others r (depot_tick x)) x"
  have "preserves r x (snd (f ?x'))"
    using owned_depot.trans [OF keeps_preserves [OF depot_steps_keeps] assms [OF depot_steps_keeps]] .
  then show ?thesis by (auto simp: disk_def Let_def preserves_def split: prod.splits)
qed

lemma pair_preserves:
  "(\<And>a x'. plan_owned r x \<Longrightarrow> f x = Inr (a, x') \<Longrightarrow> plan_owned r x') \<Longrightarrow> preserves r x (snd (pair_txn cc f x))"
  by (rule pair_txn_rel [where R = "preserves r"]) (simp_all add: preserves_def)

lemma pool_preserves:
  "(\<And>a x'. plan_owned r x \<Longrightarrow> f x = Inr (a, x') \<Longrightarrow> plan_owned r x') \<Longrightarrow> preserves r x (snd (pool_txn cc f x))"
  by (rule pool_txn_rel [where R = "preserves r"]) (simp_all add: preserves_def)

lemmas depot_rules = depot.seq_steps depot.recover_steps depot.attempt_steps depot.pure depot.on_sum depot.on_option depot.on_if
  disk_keeps host_keeps

lemma read_keeps: "keeps r x (snd (read_capacity r x))"
  unfolding read_capacity_def Let_def by (rule pool_txn_rel [where R = "keeps r"]) (auto simp: depot.refl res_iff)

lemma launched_keeps: "keeps r x (snd (launched_stage r sid x))"
  unfolding launched_stage_def by (intro depot_rules)

lemma stop_keeps: "keeps r x (snd (stop_replica r st s b found x))"
  unfolding stop_replica_def Let_def by (intro depot_rules stores_keeps unserved_same drained_same)

lemma launch_preserves:
  assumes "ct_phase st = CapWarming"
  shows "preserves r x (snd (launch_replica r st x))"
proof -
  have publish: "preserves r w (snd (seq (fallible (replica_of (cr_plan r) st)) (\<lambda>s. pair_txn (cr_controller r) (publish_ready (cr_controller r) st s receipt)) w))"
    for receipt w
  proof (cases "replica_of (cr_plan r) st")
    case (Inr s)
    then show ?thesis using publish_owns [OF _ _ Inr assms] by (simp add: seq_def fallible_def pair_preserves)
  qed (simp add: seq_def fallible_def owned_depot.refl)
  show ?thesis unfolding launch_replica_def Let_def
    by (intro owned_depot.seq_steps owned_depot.pure disk_preserves publish keeps_preserves [OF host_keeps])
      (rule keeps_preserves, intro depot_rules warm_keeps register_same)
qed

lemma disk_Inr:
  "disk r f x = (Inr a, x') \<Longrightarrow> \<exists>x1 x2. keeps r x x1 \<and> f x1 = (Inr a, x2) \<and> x' = bump x2"
  unfolding disk_def Let_def using depot_steps_keeps by (fastforce split: prod.splits if_splits)

definition row_is :: "'w capacity_runner \<Rightarrow> capacity_state \<Rightarrow> 'w depot \<Rightarrow> bool" where
  "row_is r st x \<longleftrightarrow> plan_owned r x \<and> (\<exists>payload. lookup (dp_plans x) (pl_id (cr_plan r)) = Some (payload, st))"

lemma row_kept: "row_is r st x \<Longrightarrow> keeps r x x' \<Longrightarrow> row_is r st x'"
  by (auto simp: row_is_def keeps_def)

lemma row_seq:
  assumes "row_is r st w" and "keeps r w (snd (f w))" and "\<And>a w'. row_is r st w' \<Longrightarrow> plan_owned r (snd (g a w'))"
  shows "plan_owned r (snd (seq f g w))"
proof (cases "f w")
  case (Pair q w')
  then have "row_is r st w'" using row_kept [OF assms(1,2)] by simp
  with Pair assms(3) show ?thesis by (cases q) (auto simp: seq_def row_is_def)
qed

lemma settle_disk:
  assumes "row_is r st w" and "ct_phase st \<in> {CapDraining, CapBlocked}" "ct_cycle st < length (pl_replicas (cr_plan r))"
  shows "plan_owned r (snd (disk r (pair_txn (cr_controller r) (settle_capacity (cr_controller r) st)) w))"
proof -
  have "preserves r w (snd (disk r (pair_txn (cr_controller r) (settle_capacity (cr_controller r) st)) w))"
  proof (rule disk_preserves, rule pair_preserves)
    fix w' a w''
    assume k: "keeps r w w'" and o: "plan_owned r w'" and s: "settle_capacity (cr_controller r) st w' = Inr (a, w'')"
    obtain payload where "lookup (dp_plans w') (pl_id (cr_plan r)) = Some (payload, st)"
      using row_kept [OF assms(1) k] by (auto simp: row_is_def)
    from settle_owns [OF o s this assms(2,3)] show "plan_owned r w''" .
  qed
  with assms(1) show ?thesis by (simp add: preserves_def row_is_def)
qed

lemma cleanup_owned:
  assumes "row_is r st x" and "ct_phase st \<in> {CapDraining, CapBlocked}"
  shows "plan_owned r (snd (cleanup_replica r st x))"
proof (cases "replica_of (cr_plan r) st")
  case (Inl e)
  with assms(1) show ?thesis by (simp add: cleanup_replica_def Let_def seq_def fallible_def row_is_def)
next
  case (Inr s)
  then have less: "ct_cycle st < length (pl_replicas (cr_plan r))" by (simp add: replica_of_def split: if_splits)
  show ?thesis unfolding cleanup_replica_def Let_def
  proof (rule row_seq, rule assms(1), rule depot.pure(3), rule row_seq, assumption, rule depot.pure(3),
      rule row_seq, assumption, rule launched_keeps, rule row_seq, assumption, rule stop_keeps)
    fix b stopped w
    assume row: "row_is r st w"
    have "plan_owned r (snd (seq (disk r (on_warm (release_retired_endpoint (cc_codec (cr_controller r)) (cc_routes (cr_controller r)) b)))
        (\<lambda>_. disk r (pair_txn (cr_controller r) (settle_capacity (cr_controller r) st))) w))"
      by (rule row_seq [OF row]) (rule disk_keeps, rule warm_keeps, rule release_same, rule settle_disk [OF _ assms(2) less])
    with row show "plan_owned r (snd ((if \<not> stopped then return ()
      else seq (disk r (on_warm (release_retired_endpoint (cc_codec (cr_controller r)) (cc_routes (cr_controller r)) b)))
        (\<lambda>_. disk r (pair_txn (cr_controller r) (settle_capacity (cr_controller r) st)))) w))"
      by (simp add: return_def row_is_def)
  qed
qed

text \<open>A tick: after the sample the row is the state it returned; nobody else changes it before the
  cleanup settles it.\<close>

lemma disk_row:
  assumes "\<And>x1 x2 a. plan_owned r x1 \<Longrightarrow> f x1 = (Inr a, x2) \<Longrightarrow> row_is r a x2" and "plan_owned r x"
    and "disk r f x = (Inr a, x')"
  shows "row_is r a x'"
proof -
  obtain x1 x2 where "keeps r x x1" "f x1 = (Inr a, x2)" "x' = bump x2" using disk_Inr [OF assms(3)] by blast
  with assms(1,2) show ?thesis by (auto simp: keeps_def row_is_def)
qed

lemma advance_row:
  assumes "plan_owned r x1" and "pair_txn (cr_controller r) (advance_capacity (cr_controller r) now) x1 = (Inr st, x2)"
  shows "row_is r st x2"
  using assms advance_owns by (fastforce simp: pair_txn_def pool_txn_def atomically_commit res_iff row_is_def)

lemma read_row:
  assumes "plan_owned r x1" and "read_capacity r x1 = (Inr st, x2)"
  shows "row_is r st x2"
  using assms plan_state_Inr by (fastforce simp: read_capacity_def Let_def pool_txn_def atomically_commit res_iff row_is_def)

lemma reconcile_owned:
  assumes row: "row_is r st x"
  shows "plan_owned r (snd (reconcile_capacity r st x))"
proof -
  let ?first = "if ct_phase st = CapWarming then seq (launch_replica r st) (\<lambda>_. disk r (read_capacity r)) else return st"
  have first: "plan_owned r (snd (?first x)) \<and> (\<forall>now x'. ?first x = (Inr now, x') \<longrightarrow> row_is r now x')"
  proof (cases "ct_phase st = CapWarming")
    case True
    have o: "plan_owned r (snd (launch_replica r st x))"
      using launch_preserves [OF True, of r x] row by (simp add: preserves_def row_is_def)
    moreover have "plan_owned r (snd (disk r (read_capacity r) w))" if "plan_owned r w" for w
      using disk_keeps [OF read_keeps, of r w] that by (simp add: keeps_def)
    moreover have "row_is r now x'" if "plan_owned r w" "disk r (read_capacity r) w = (Inr now, x')" for w now x'
      using disk_row [OF read_row that] .
    ultimately show ?thesis using True
      by (cases "launch_replica r st x"; cases "fst (launch_replica r st x)") (auto simp: seq_def)
  qed (use row in \<open>simp add: return_def row_is_def\<close>)
  obtain q w where w: "?first x = (q, w)" by fastforce
  show ?thesis
  proof (cases q)
    case (Inl e)
    with first w show ?thesis by (simp add: reconcile_capacity_def seq_def)
  next
    case (Inr now)
    with first w have "row_is r now w" by blast
    then show ?thesis using w Inr cleanup_owned [of r now w]
      by (cases "ct_phase now \<in> {CapDraining, CapBlocked}") (auto simp: reconcile_capacity_def seq_def return_def row_is_def)
  qed
qed

lemma block_preserves: "preserves r x (snd (block_after r e x))"
proof -
  have "preserves r x (snd (disk r (pool_txn (cr_controller r) (block_capacity (cr_controller r) err)) x))" for err x
    by (intro disk_preserves pool_preserves) (rule block_owns)
  then show ?thesis unfolding block_after_def Let_def
    by (intro owned_depot.seq_steps owned_depot.on_if owned_depot.pure)
qed

lemma tick_preserves: "preserves r x (snd (tick_capacity r x))"
proof -
  have after: "plan_owned r (snd (seq (recover (reconcile_capacity r st) (block_after r)) (\<lambda>_. disk r (read_capacity r)) w))"
    if "row_is r st w" for st w
  proof -
    have "plan_owned r (snd (recover (reconcile_capacity r st) (block_after r) w))"
      using reconcile_owned [OF that] block_preserves
      by (cases "reconcile_capacity r st w"; cases "fst (reconcile_capacity r st w)") (auto simp: recover_def preserves_def)
    moreover have "plan_owned r (snd (disk r (read_capacity r) w'))" if "plan_owned r w'" for w'
      using disk_keeps [OF read_keeps, of r w'] that by (simp add: keeps_def)
    ultimately show ?thesis by (auto simp: seq_def split: prod.splits sum.splits)
  qed
  have sampled: "preserves r w (snd (seq (disk r (\<lambda>x. pair_txn (cr_controller r) (advance_capacity (cr_controller r) (re_clock (cr_env r) (depot_tick x))) x))
      (\<lambda>st. seq (recover (reconcile_capacity r st) (block_after r)) (\<lambda>_. disk r (read_capacity r))) w))" for w
  proof -
    let ?f = "\<lambda>x. pair_txn (cr_controller r) (advance_capacity (cr_controller r) (re_clock (cr_env r) (depot_tick x))) x"
    have "preserves r w (snd (disk r ?f w))"
      by (intro disk_preserves pair_preserves) (use advance_owns in blast)
    moreover have "row_is r st w'" if "plan_owned r w" "disk r ?f w = (Inr st, w')" for st w'
      using disk_row [OF advance_row that] .
    ultimately show ?thesis using after
      by (cases "disk r ?f w"; cases "fst (disk r ?f w)") (auto simp: seq_def preserves_def)
  qed
  show ?thesis unfolding tick_capacity_def Let_def
    by (intro owned_depot.seq_steps [OF keeps_preserves [OF disk_keeps [OF host_keeps]]] sampled)
qed

lemma close_preserves: "preserves r x (snd (close_capacity r x))"
proof -
  have "preserves r x (snd (disk r (pool_txn (cr_controller r) (shutdown_capacity (cr_controller r))) x))" for x
    by (intro disk_preserves pool_preserves) (rule shutdown_owns)
  then show ?thesis unfolding close_capacity_def Let_def
    by (intro owned_depot.seq_steps tick_preserves keeps_preserves [OF disk_keeps [OF host_keeps]])
qed

subsection \<open>Histories of a plan\<close>

text \<open>The calls for one plan, by any processes, and what everybody else does between them.\<close>

datatype 'w capacity_call = Tick "nat \<Rightarrow> 'w depot_op list" string | Close "nat \<Rightarrow> 'w depot_op list" string | Elsewhere "'w depot_op"

fun make_call :: "'w capacity_runner \<Rightarrow> 'w capacity_call \<Rightarrow> 'w depot \<Rightarrow> 'w depot" where
  "make_call r (Tick others epoch) x =
     snd (tick_capacity (r\<lparr>cr_controller := (cr_controller r)\<lparr>cc_epoch := epoch\<rparr>, cr_others := others\<rparr>) x)"
| "make_call r (Close others epoch) x =
     snd (close_capacity (r\<lparr>cr_controller := (cr_controller r)\<lparr>cc_epoch := epoch\<rparr>, cr_others := others\<rparr>) x)"
| "make_call r (Elsewhere op) x = depot_step r op x"

definition capacity_calls :: "'w capacity_runner \<Rightarrow> 'w capacity_call list \<Rightarrow> 'w depot \<Rightarrow> 'w depot" where
  "capacity_calls r calls x = fold (make_call r) calls x"

definition new_depot :: "'w host \<Rightarrow> warm_db \<Rightarrow> control_db \<Rightarrow> 'w depot" where
  "new_depot h db c = \<lparr>dp_host = h, dp_routes = db, dp_control = c, dp_plans = [], dp_slots = [], dp_receipts = [], dp_events = []\<rparr>"

lemma capacity_call_preserves: "preserves r x (make_call r c x)"
proof (cases c)
  case (Tick others epoch)
  then show ?thesis using tick_preserves [of "r\<lparr>cr_controller := (cr_controller r)\<lparr>cc_epoch := epoch\<rparr>, cr_others := others\<rparr>" x]
    by (simp add: preserves_def plan_owned_def)
next
  case (Close others epoch)
  then show ?thesis using close_preserves [of "r\<lparr>cr_controller := (cr_controller r)\<lparr>cc_epoch := epoch\<rparr>, cr_others := others\<rparr>" x]
    by (simp add: preserves_def plan_owned_def)
qed (simp add: keeps_preserves depot_step_keeps)

lemma capacity_calls_preserve: "preserves r x (capacity_calls r calls x)"
  unfolding capacity_calls_def
proof (induction calls arbitrary: x)
  case (Cons c calls)
  show ?case using owned_depot.trans [OF capacity_call_preserves Cons.IH] by simp
qed (simp add: owned_depot.refl)

lemma new_depot_owned: "w_members db = [] \<Longrightarrow> plan_owned r (new_depot h db c)"
  by (simp add: plan_owned_def Let_def slots_owned_def new_depot_def extra_ready_def)

text \<open>C39: Whatever calls, cancellations and other processes have done since a store without pool members
  was opened, a capacity plan holds no slot but that of its deployment, for its current cycle and under
  its authority; while it warms or serves two it holds it; the only extra member it offers to traffic is the replica of that cycle,
  and only while it serves two; and it has taken no more samples and cycles than were frozen.\<close>

theorem extra_replica_is_owned:
  assumes "w_members db = []" and "x = capacity_calls r calls (new_depot h db c)"
    and "lookup (dp_plans x) (pl_id (cr_plan r)) = Some (payload, st)"
  shows "(\<forall>dep n. lookup (dp_slots x) dep = Some (pl_id (cr_plan r), n) \<longrightarrow> dep = pl_deployment (cr_plan r) \<and> n = ct_cycle st \<and>
       lookup (w_authority (dp_routes x)) dep = Some (pl_id (cr_plan r)) \<and>
       ct_phase st \<in> {CapWarming, CapTwo, CapDraining, CapBlocked}) \<and>
     (ct_phase st \<in> {CapWarming, CapTwo} \<longrightarrow>
       lookup (dp_slots x) (pl_deployment (cr_plan r)) = Some (pl_id (cr_plan r), ct_cycle st)) \<and>
     (\<forall>rid m. (rid, m) \<in> set (w_members (dp_routes x)) \<longrightarrow> pm_plan m = pl_id (cr_plan r) \<longrightarrow> pm_ready m \<longrightarrow>
       ct_phase st = CapTwo \<and> rid = launch_id_of (pl_replicas (cr_plan r) ! ct_cycle st)) \<and>
     ct_samples st \<le> pl_samples (cr_plan r) \<and> ct_cycle st \<le> length (pl_replicas (cr_plan r))"
proof -
  have o: "plan_owned r x"
    using capacity_calls_preserve [of r "new_depot h db c" calls] new_depot_owned [OF assms(1), of r h c] assms(2) by (simp add: preserves_def)
  note t = ownsD(2) [OF o assms(3)] and s = ownsD(1) [OF o]
  have "dep = pl_deployment (cr_plan r) \<and> n = ct_cycle st \<and> lookup (w_authority (dp_routes x)) dep = Some (pl_id (cr_plan r)) \<and>
      ct_phase st \<in> {CapWarming, CapTwo, CapDraining, CapBlocked}"
    if "lookup (dp_slots x) dep = Some (pl_id (cr_plan r), n)" for dep n
  proof -
    from s that have "dep = pl_deployment (cr_plan r)" "lookup (w_authority (dp_routes x)) dep = Some (pl_id (cr_plan r))"
      unfolding slots_owned_def by blast+
    with t that show ?thesis by (simp add: tied_def)
  qed
  moreover have "ct_phase st = CapTwo \<and> rid = launch_id_of (pl_replicas (cr_plan r) ! ct_cycle st)"
    if "(rid, m) \<in> set (w_members (dp_routes x))" "pm_plan m = pl_id (cr_plan r)" "pm_ready m" for rid m
  proof -
    from that have "rid \<in> extra_ready (pl_id (cr_plan r)) (dp_routes x)" by (auto simp: extra_ready_def)
    with t show ?thesis unfolding tied_def by blast
  qed
  ultimately show ?thesis using t unfolding tied_def by blast
qed

end
