(* ===== verification/CapacityRetirement.thy ===== *)
theory CapacityRetirement
  imports CapacityGuarantees
begin

text \<open>
  A plan goes past a replica only when the replica's revision is retired: the relation \<open>moves\<close> keeps the
  traffic store's invariant and every retirement, and lets a cycle end only behind a retirement.
\<close>

subsection \<open>Cycles and retirements\<close>

definition cycle_at :: "string \<Rightarrow> 'w depot \<Rightarrow> nat option" where
  "cycle_at i x = map_option (ct_cycle \<circ> snd) (lookup (dp_plans x) i)"

abbreviation replica_id :: "'w capacity_runner \<Rightarrow> nat \<Rightarrow> string" where
  "replica_id r n \<equiv> launch_id_of (pl_replicas (cr_plan r) ! n)"

abbreviation cr_codec :: "'w capacity_runner \<Rightarrow> stage_codec" where
  "cr_codec r \<equiv> cc_codec (cr_controller r)"

definition passed :: "'w capacity_runner \<Rightarrow> 'w depot \<Rightarrow> bool" where
  "passed r x \<longleftrightarrow> (\<forall>c n. cycle_at (pl_id (cr_plan r)) x = Some c \<longrightarrow> n < c \<longrightarrow> retired (dp_routes x) (replica_id r n))"

definition retains :: "'z route_codec_scheme \<Rightarrow> warm_db \<Rightarrow> warm_db \<Rightarrow> bool" where
  "retains cd db db' \<longleftrightarrow> (warm_inv cd db \<longrightarrow> warm_inv cd db' \<and> (\<forall>k. retired db k \<longrightarrow> retired db' k))"

interpretation growth: effect "retains cd" for cd
  by unfold_locales (auto simp: retains_def)

definition moves :: "'w capacity_runner \<Rightarrow> 'w depot \<Rightarrow> 'w depot \<Rightarrow> bool" where
  "moves r x x' \<longleftrightarrow> retains (cr_codec r) (dp_routes x) (dp_routes x') \<and>
     (warm_inv (cr_codec r) (dp_routes x) \<and> passed r x \<longrightarrow> passed r x')"

interpretation moving: effect "moves r" for r
  by unfold_locales (auto simp: moves_def retains_def)

lemma retains_delta: "warm_delta cd K (core db) (core db') \<Longrightarrow> retains cd db db'"
  using warm_inv_delta [of cd K "core db" "core db'"] retired_delta [of cd K "core db" "core db'"] by (auto simp: retains_def)

lemma retains_core: "core db' = core db \<Longrightarrow> retains cd db db'"
  by (rule retains_delta [where K = "{}"]) (simp add: warm_delta.idle)

lemma retains_warm_step: "retains cd (fst s) (fst (warm_step cd h ch op s))"
proof (cases "warm_inv cd (fst s)")
  case True
  show ?thesis by (rule retains_delta [OF warm_step_core [OF True]])
qed (simp add: retains_def)

lemma moves_frame:
  assumes "retains (cr_codec r) (dp_routes x) (dp_routes x')"
    and "cycle_at (pl_id (cr_plan r)) x' \<in> {cycle_at (pl_id (cr_plan r)) x, Some 0}"
  shows "moves r x x'"
  using assms by (auto simp: moves_def passed_def retains_def)

lemma moves_bump [simp]: "moves r x (bump x') = moves r x x'" "passed r (bump x) = passed r x"
  by (simp_all add: moves_def passed_def cycle_at_def)

subsection \<open>Transactions\<close>

lemma core_dropped [simp]: "core (dp_routes (drop_members cc x)) = core (dp_routes x)"
  by (simp add: drop_members_def remove_members_def advance_pool_def core_def Let_def)

lemma cycle_dropped [simp]: "cycle_at i (drop_members cc x) = cycle_at i x"
  by (simp add: drop_members_def cycle_at_def)

lemma published [simp]: "core (dp_routes (publish_member cc s receipt x)) = core (dp_routes x)"
  "cycle_at i (publish_member cc s receipt x) = cycle_at i x"
  by (simp_all add: publish_member_def advance_pool_def core_def cycle_at_def Let_def)

lemma cycle_slots [simp]: "cycle_at i (x\<lparr>dp_slots := slots\<rparr>) = cycle_at i x"
  by (simp add: cycle_at_def)

lemma state_cycle: "plan_state cc x = Inr st \<Longrightarrow> cycle_at (cc_id cc) x = Some (ct_cycle st)"
  by (auto simp: cycle_at_def dest: plan_state_Inr)

lemma save_cycle:
  assumes "save_capacity cc st note x = Inr x'"
  shows "cycle_at i x' = (if i = cc_id cc then Some (ct_cycle st) else cycle_at i x)" and "dp_routes x' = dp_routes x"
  using save_row [OF assms] save_Inr [OF assms]
  by (auto simp: cycle_at_def lookup_set_capacity option.map_comp comp_def split_beta cong: option.map_cong)

text \<open>Every transaction of a controller but the settlement keeps all cycles.\<close>

definition same_cycles :: "'w depot \<Rightarrow> 'w depot \<Rightarrow> bool" where
  "same_cycles x x' \<longleftrightarrow> core (dp_routes x') = core (dp_routes x) \<and> (\<forall>i. cycle_at i x' = cycle_at i x)"

lemma same_moves: "same_cycles x x' \<Longrightarrow> moves r x x'"
  by (rule moves_frame) (simp_all add: same_cycles_def retains_core)

lemma save_same:
  assumes "save_capacity cc st' note x1 = Inr x'" and "same_cycles x x1" and "cycle_at (cc_id cc) x = Some (ct_cycle st')"
  shows "same_cycles x x'"
  using assms(2,3) by (simp add: same_cycles_def save_cycle [OF assms(1)])

lemma same_parts [simp]: "same_cycles x x" "same_cycles x (drop_members cc x)" "same_cycles x (x\<lparr>dp_slots := slots\<rparr>)"
  "same_cycles x (publish_member cc s receipt x)"
  by (simp_all add: same_cycles_def)

lemma advance_same:
  assumes "advance_capacity cc now x = Inr (a, x')"
  shows "same_cycles x x'"
  using assms
proof (cases rule: sample_cases)
  case (expire st nt)
  show ?thesis by (rule save_same [OF expire(3)]) (simp_all add: state_cycle [OF expire(1)] expire(2))
qed (auto elim!: save_same dest!: state_cycle)

lemma publish_same: "publish_ready cc st s receipt x = Inr (a, x') \<Longrightarrow> same_cycles x x'"
  by (auto simp: publish_ready_def res_iff dest!: state_cycle split: if_splits elim!: save_same)

lemma block_same: "block_capacity cc e x = Inr (a, x') \<Longrightarrow> same_cycles x x'"
  by (auto simp: block_capacity_def res_iff dest!: state_cycle elim!: save_same)

lemma shutdown_same: "shutdown_capacity cc x = Inr (a, x') \<Longrightarrow> same_cycles x x'"
  by (auto simp: shutdown_capacity_def res_iff dest!: state_cycle split: if_splits elim!: save_same)

lemma settle_Inr:
  assumes "settle_capacity cc st x = Inr (a, x')"
  shows "core (dp_routes x') = core (dp_routes x)" and "cycle_at (cc_id cc) x = Some (ct_cycle st)"
    and "cycle_at i x' = (if i = cc_id cc then Some (Suc (ct_cycle st)) else cycle_at i x)"
  using assms by (auto simp: settle_capacity_def Let_def res_iff save_cycle dest!: state_cycle split: if_splits)

text \<open>A settlement whose call is cancelled while it commits is followed by the transaction that blocks the
  plan: the plan is then blocked in its next cycle, for which it holds no slot.\<close>

lemma cancelled_settlement_blocks:
  assumes "settle_capacity cc st x = Inr (a, x1)" and "block_capacity cc e x1 = Inr (b, x2)" and "unique_keys (dp_slots x)"
  shows "\<exists>payload now. lookup (dp_plans x2) (cc_id cc) = Some (payload, now) \<and> ct_phase now = CapBlocked \<and>
    ct_cycle now = Suc (ct_cycle st) \<and> lookup (dp_slots x2) (cc_deployment cc) \<noteq> Some (cc_id cc, ct_cycle st)"
proof -
  from assms(2) obtain now where now: "plan_state cc x1 = Inr now"
    and s: "save_capacity cc (now\<lparr>ct_phase := CapBlocked, ct_error := Some e\<rparr>) (Note ''owned_operation_unresolved'') (drop_members cc x1) = Inr x2"
    by (auto simp: block_capacity_def res_iff)
  have "ct_cycle now = Suc (ct_cycle st)" using state_cycle [OF now] settle_Inr(3) [OF assms(1), of "cc_id cc"] by simp
  moreover have "dp_slots x1 = free_slot (cc_deployment cc) (cc_id cc) (ct_cycle st) (dp_slots x)"
    using assms(1) by (auto simp: settle_capacity_def Let_def res_iff dest!: save_Inr split: if_splits)
  moreover have "dp_slots x2 = dp_slots x1" using save_Inr [OF s] by (simp add: drop_members_def)
  ultimately show ?thesis using save_row [OF s] assms(3) by (auto simp: lookup_free_slot)
qed

lemma enroll_moves:
  assumes "enroll_body cc payload x = Inr (st, x')"
  shows "moves r x x'"
proof (rule moves_frame)
  show "retains (cr_codec r) (dp_routes x) (dp_routes x')"
    using assms by (auto intro!: retains_core simp: enroll_body_def Let_def res_iff advance_pool_def core_def split: if_splits)
  show "cycle_at (pl_id (cr_plan r)) x' \<in> {cycle_at (pl_id (cr_plan r)) x, Some 0}"
    using enroll_Inr(3,6) [OF assms] by (auto simp: cycle_at_def lookup_insert_or_ignore new_capacity_def split: option.splits)
qed

subsection \<open>Calls\<close>

lemma host_moves: "moves r x (snd (on_host f x))"
  by (rule moves_frame) (simp_all add: on_host_def cycle_at_def growth.refl split: prod.splits)

lemma warm_moves:
  assumes "\<And>db. warm_delta (cr_codec r) {} (core db) (core (snd (f db)))"
  shows "moves r x (snd (on_warm f x))"
proof (rule moves_frame)
  show "retains (cr_codec r) (dp_routes x) (dp_routes (snd (on_warm f x)))"
    using retains_delta [OF assms, of "dp_routes x"] by (auto simp: on_warm_def split: prod.splits)
qed (simp add: on_warm_def cycle_at_def split: prod.splits)

lemma stores_moves:
  assumes "\<And>s. retains (cr_codec r) (fst s) (fst (snd (f s)))"
  shows "moves r x (snd (on_stores f x))"
  using assms [of "(dp_routes x, dp_control x)"] by (intro moves_frame) (auto simp: on_stores_def cycle_at_def split: prod.splits)

lemma pair_same: "(\<And>a x'. f x = Inr (a, x') \<Longrightarrow> same_cycles x x') \<Longrightarrow> moves r x (snd (pair_txn cc f x))"
  by (rule pair_txn_rel [where R = "moves r", OF moving.refl]) (rule same_moves)

lemma pool_same_cycles: "(\<And>a x'. f x = Inr (a, x') \<Longrightarrow> same_cycles x x') \<Longrightarrow> moves r x (snd (pool_txn cc f x))"
  by (rule pool_txn_rel [where R = "moves r", OF moving.refl]) (rule same_moves)

lemma own_moves: "moves r x (snd (pair_txn cc (advance_capacity cc now) x))"
  "moves r x (snd (pair_txn cc (publish_ready cc st s receipt) x))"
  "moves r x (snd (pool_txn cc (block_capacity cc e) x))" "moves r x (snd (pool_txn cc (shutdown_capacity cc) x))"
  by (rule pair_same pool_same_cycles, erule advance_same publish_same block_same shutdown_same)+

lemma settle_other:
  assumes "cc_id cc \<noteq> pl_id (cr_plan r)"
  shows "moves r x (snd (pair_txn cc (settle_capacity cc st) x))"
proof (rule pair_txn_rel [where R = "moves r", OF moving.refl])
  fix a x' assume s: "settle_capacity cc st x = Inr (a, x')"
  show "moves r x x'" by (rule moves_frame) (use assms in \<open>simp_all add: retains_core settle_Inr [OF s]\<close>)
qed

lemma depot_step_moves: "moves r x (depot_step r op x)"
proof (cases op)
  case (D_enroll cc payload)
  then show ?thesis by (simp add: pair_txn_rel [where R = "moves r"] moving.refl enroll_moves)
next
  case (D_warm op)
  then show ?thesis by (simp add: stores_moves retains_warm_step moving.refl)
qed (simp_all add: fenced_def Let_def host_moves settle_other moving.refl own_moves)

lemma depot_steps_moves: "moves r x (depot_steps r ops x)"
  unfolding depot_steps_def
proof (induction ops arbitrary: x)
  case (Cons op ops)
  show ?case using moving.trans [OF depot_step_moves Cons.IH] by simp
qed (simp add: moving.refl)

lemma disk_moves:
  assumes "\<And>x. moves r x (snd (f x))"
  shows "moves r x (snd (disk r f x))"
proof -
  have "moves r x (snd (f (depot_steps r (cr_others r (depot_tick x)) x)))"
    using moving.trans [OF depot_steps_moves assms] .
  then show ?thesis by (auto simp: disk_def Let_def split: prod.splits)
qed

lemma disk_moved: "disk r f x = (Inr a, x') \<Longrightarrow> \<exists>x1 x2. moves r x x1 \<and> f x1 = (Inr a, x2) \<and> x' = bump x2"
  unfolding disk_def Let_def using depot_steps_moves by (fastforce split: prod.splits if_splits)

lemmas moving_rules = moving.seq_steps moving.recover_steps moving.attempt_steps moving.pure moving.on_sum moving.on_option moving.on_if
  disk_moves host_moves

lemma read_moves: "moves r x (snd (read_capacity r x))"
  unfolding read_capacity_def Let_def by (rule pool_same_cycles) (auto simp: res_iff)

lemma traffic_moves: "moves r x (snd (on_warm (register h b) x))" "moves r x (snd (on_warm (release_retired_endpoint cd h b) x))"
  "moves r x (snd (on_stores (retire_unserved cd h ch b) x))" "moves r x (snd (on_stores (retire_drained cd h ch b now) x))"
  by (intro warm_moves register_delta release_delta stores_moves retains_delta [OF retire_unserved_delta]
      retains_delta [OF retire_drained_delta])+

lemma launch_moves: "moves r x (snd (launch_replica r st x))"
  unfolding launch_replica_def Let_def by (intro moving_rules traffic_moves own_moves)

lemma stop_moves: "moves r x (snd (stop_replica r st s b found x))"
  unfolding stop_replica_def Let_def by (intro moving_rules traffic_moves)

text \<open>The cleanup settles a cycle only after the endpoint of the retired replica is released.\<close>

lemma release_retired:
  assumes "on_warm (release_retired_endpoint cd h b) x = (Inr (), x')"
  shows "retired (dp_routes x') (backend_id b)"
  using assms by (auto simp: on_warm_def release_retired_endpoint_def release_body_def warm_txn_def atomically_def Let_def retired_def
      split: prod.splits sum.splits if_splits)

lemma settle_disk_moves:
  assumes "retired (dp_routes w) (replica_id r (ct_cycle st))"
  shows "moves r w (snd (disk r (pair_txn (cr_controller r) (settle_capacity (cr_controller r) st)) w))"
proof -
  let ?x = "depot_steps r (cr_others r (depot_tick w)) w"
  have m: "moves r w ?x" by (rule depot_steps_moves)
  have "moves r w (snd (pair_txn (cr_controller r) (settle_capacity (cr_controller r) st) ?x))"
  proof (rule pair_txn_rel [where R = "\<lambda>_. moves r w", OF m])
    fix a x' assume s: "settle_capacity (cr_controller r) st ?x = Inr (a, x')"
    have g: "retains (cr_codec r) (dp_routes ?x) (dp_routes x')" by (rule retains_core) (rule settle_Inr(1) [OF s])
    moreover have "passed r x'" if "warm_inv (cr_codec r) (dp_routes w)" "passed r w"
    proof -
      from that m have p: "passed r ?x" "retired (dp_routes ?x) (replica_id r (ct_cycle st))" "warm_inv (cr_codec r) (dp_routes ?x)"
        using assms by (auto simp: moves_def retains_def)
      have "retired (dp_routes ?x) (replica_id r n)" if "n < Suc (ct_cycle st)" for n
        using p settle_Inr(2) [OF s] that by (auto simp: passed_def less_Suc_eq)
      with g p(3) show ?thesis by (auto simp: passed_def retains_def settle_Inr(3) [OF s])
    qed
    ultimately show "moves r w x'" using m growth.trans by (auto simp: moves_def)
  qed
  then show ?thesis by (auto simp: disk_def Let_def split: prod.splits)
qed

lemma settle_after_release:
  assumes "backend_id b = replica_id r (ct_cycle st)"
  shows "moves r w (snd (seq (disk r (on_warm (release_retired_endpoint cd h b)))
    (\<lambda>_. disk r (pair_txn (cr_controller r) (settle_capacity (cr_controller r) st))) w))"
proof -
  obtain q w' where q: "disk r (on_warm (release_retired_endpoint cd h b)) w = (q, w')" by fastforce
  have "moves r w (snd (disk r (on_warm (release_retired_endpoint cd h b)) w))" by (intro disk_moves traffic_moves)
  with q have m: "moves r w w'" by simp
  show ?thesis
  proof (cases q)
    case (Inl e)
    with q m show ?thesis by (simp add: seq_def)
  next
    case (Inr u)
    with disk_moved [of r _ w "()" w'] q obtain x1 x2
      where "on_warm (release_retired_endpoint cd h b) x1 = (Inr (), x2)" "w' = bump x2" by fastforce
    then have "retired (dp_routes w') (replica_id r (ct_cycle st))" using release_retired [of cd h b x1 x2] assms by simp
    from moving.trans [OF m settle_disk_moves [OF this]] q Inr show ?thesis by (simp add: seq_def)
  qed
qed

lemma cleanup_moves: "moves r x (snd (cleanup_replica r st x))"
proof (cases "replica_of (cr_plan r) st")
  case (Inl e)
  then show ?thesis by (simp add: cleanup_replica_def Let_def seq_def fallible_def moving.refl)
next
  case (Inr s)
  then have s: "s = pl_replicas (cr_plan r) ! ct_cycle st" by (simp add: replica_of_def split: if_splits)
  show ?thesis
  proof (cases "backend_of (cr_codec r) (lp_revision s) (lp_profile s)")
    case (Inl e)
    with Inr show ?thesis by (simp add: cleanup_replica_def Let_def seq_def fallible_def moving.refl)
  next
    case b: (Inr b)
    then have "backend_id b = replica_id r (ct_cycle st)" by (auto simp: backend_of_def Let_def res_iff s)
    note final = settle_after_release [OF this]
    have "moves r x (snd (seq (launched_stage r sid) (\<lambda>found. seq (stop_replica r st s b found) (\<lambda>stopped.
        if \<not> stopped then return () else seq (disk r (on_warm (release_retired_endpoint cd h b)))
          (\<lambda>_. disk r (pair_txn (cr_controller r) (settle_capacity (cr_controller r) st))))) x))" for sid cd h
      unfolding launched_stage_def by (intro moving.seq_steps moving.on_if final stop_moves moving_rules)
    then show ?thesis using Inr b by (simp add: cleanup_replica_def Let_def seq_def [of "fallible q" for q] fallible_def)
  qed
qed

lemma tick_moves: "moves r x (snd (tick_capacity r x))"
proof -
  have sample: "moves r x (snd (disk r (\<lambda>x. pair_txn cc (advance_capacity cc (f (depot_tick x))) x) x))" for x cc f
    by (intro disk_moves own_moves)
  show ?thesis unfolding tick_capacity_def reconcile_capacity_def block_after_def Let_def
    by (intro moving_rules sample launch_moves cleanup_moves read_moves own_moves)
qed

lemma close_moves: "moves r x (snd (close_capacity r x))"
  unfolding close_capacity_def Let_def by (intro moving_rules tick_moves own_moves)

lemma moves_same_plan:
  "moves (r\<lparr>cr_controller := (cr_controller r)\<lparr>cc_epoch := epoch\<rparr>, cr_others := others\<rparr>) x x' = moves r x x'"
  by (simp add: moves_def passed_def)

lemma capacity_call_moves: "moves r x (make_call r c x)"
proof (cases c)
  case (Tick others epoch)
  then show ?thesis using tick_moves [of "r\<lparr>cr_controller := (cr_controller r)\<lparr>cc_epoch := epoch\<rparr>, cr_others := others\<rparr>" x]
    by (simp add: moves_same_plan)
next
  case (Close others epoch)
  then show ?thesis using close_moves [of "r\<lparr>cr_controller := (cr_controller r)\<lparr>cc_epoch := epoch\<rparr>, cr_others := others\<rparr>" x]
    by (simp add: moves_same_plan)
qed (simp add: depot_step_moves)

lemma capacity_calls_move: "moves r x (capacity_calls r calls x)"
  unfolding capacity_calls_def
proof (induction calls arbitrary: x)
  case (Cons c calls)
  show ?case using moving.trans [OF capacity_call_moves Cons.IH] by simp
qed (simp add: moving.refl)

text \<open>C40: Once the plan has gone past a replica, its revision is retired: whatever anybody does
  afterwards, it stays retired and no deployment's traffic is routed to it.\<close>

theorem passed_replica_is_retired:
  assumes "x = capacity_calls r calls (new_depot h (fst (warm_run (cr_codec r) wh ch ops (new_warm_db i pooled, c))) control)"
    and "lookup (dp_plans x) (pl_id (cr_plan r)) = Some (payload, st)" and "n < ct_cycle st"
    and "x' = capacity_calls r later x"
  shows "retired (dp_routes x') (launch_id_of (pl_replicas (cr_plan r) ! n)) \<and>
     (\<forall>dep rt. lookup (w_routes (dp_routes x')) dep = Some rt \<longrightarrow> ro_revision rt \<noteq> launch_id_of (pl_replicas (cr_plan r) ! n))"
proof -
  let ?db = "fst (warm_run (cr_codec r) wh ch ops (new_warm_db i pooled, c))"
  let ?d = "new_depot h ?db control"
  have "warm_inv (cr_codec r) (dp_routes ?d)" "passed r ?d"
    using warm_run_inv [OF refl, of "cr_codec r" wh ch ops i pooled c] by (simp_all add: new_depot_def passed_def cycle_at_def)
  with capacity_calls_move [of r ?d calls] assms(1) have i: "warm_inv (cr_codec r) (dp_routes x)" and "passed r x"
    by (auto simp: moves_def retains_def)
  with assms(2,3) have "retired (dp_routes x) (replica_id r n)" by (auto simp: passed_def cycle_at_def)
  with i capacity_calls_move [of r x later] assms(4)
  have "retired (dp_routes x') (replica_id r n)" "warm_inv (cr_codec r) (dp_routes x')" by (auto simp: moves_def retains_def)
  then show ?thesis using not_routed by blast
qed

end
