(* ===== verification/CapacityDemo.thy ===== *)
theory CapacityDemo
  imports CapacityRetirement
begin

text \<open>A concrete plan under load: it is enrolled, sampled twice and takes the slot; its launch then fails,
  since its primary was never launched, and the slot stays owned.  The next tick finds that the launch
  never made an attempt, retires the replica and settles the cycle.\<close>

definition capacity_codec :: stage_codec where
  "capacity_codec = demo_stage_codec\<lparr>profile_json := \<lambda>_. [], uk_loads := \<lambda>t. if t = ''p'' then Inr (JObj [(''plan'', JStr ''j''),
     (''routes'', JStr demo_identity), (''control'', JStr demo_identity)]) else Inl (ValueError t)\<rparr>"

definition capacity_site :: "bool runtime_env" where
  "capacity_site = demo_runtime\<lparr>re_codec := capacity_codec, re_clock := of_nat\<rparr>"

definition capacity_replica :: launch_spec where
  "capacity_replica = demo_launch\<lparr>lp_profile := (lp_profile demo_launch)\<lparr>pr_base_url := ''v'', pr_parameters_json := ''c''\<rparr>, lp_revision := demo_revision ''b''\<rparr>"

definition demo_plan :: capacity_plan where
  "demo_plan = \<lparr>pl_id = ''q'', pl_deployment = ''d'', pl_generation = 0, pl_approval = ''job'', pl_primary_stage = ''l'',
     pl_model_stage = ''m'', pl_build_stage = ''b'', pl_primary = demo_launch, pl_replicas = [capacity_replica], pl_workspace = ''/w'',
     pl_policy = demo_capacity_policy, pl_requests = 1, pl_samples = 9\<rparr>"

definition demo_controller :: "bool capacity_controller" where
  "demo_controller = \<lparr>cc_plan = demo_plan, cc_routes = demo_pooled, cc_control = demo_control, cc_env = capacity_site,
     cc_plan_json = (\<lambda>_. ''j''), cc_epoch = ''e''\<rparr>"

definition demo_runner :: "bool capacity_runner" where
  "demo_runner = \<lparr>cr_controller = demo_controller, cr_others = \<lambda>_. []\<rparr>"

text \<open>The primary's route with a stream on it, and its stable controller.\<close>

definition primary_route :: route where
  "primary_route = \<lparr>ro_deployment = ''d'', ro_revision = ''a'', ro_digest = [], ro_generation = 0, ro_changed_at = 1,
     ro_durable = True, ro_pooled = True\<rparr>"

definition busy_stream :: admission_row where
  "busy_stream = \<lparr>ap_route = primary_route, ap_backend = demo_backend ''a'', ap_kind = Some Serving, ap_phase = Some Dispatched,
     ap_anchor = Some (Some primary_route), ap_pool_generation = Some (Some 1)\<rparr>"

definition busy_routes :: warm_db where
  "busy_routes = (new_warm_db demo_identity True)\<lparr>w_backends := [(''a'', ''http://a'', demo_backend ''a'')],
     w_routes := [(''d'', primary_route)], w_events := [(''d'', primary_route)], w_admissions := [(''1'', ''a'', busy_stream)],
     w_pool_generations := [(''d'', 1)], w_pool_history := [(''d'', 1, ''route:'')]\<rparr>"

definition busy_ops :: "warm_op list" where
  "busy_ops = [W_register (demo_backend ''a''), W_bootstrap ''d'' ''a'' 1, W_select ''1'' primary_route ''r'' None,
     W_dispatch \<lparr>al_id = ''1'', al_route = primary_route, al_backend = demo_backend ''a'', al_started = 0, al_closed = 0,
       al_kind = Some Serving, al_phase = Reserved, al_anchor = Some primary_route, al_pool_generation = Some 1\<rparr>]"

lemma busy_reachable:
  "fst (warm_run capacity_codec demo_pooled demo_control busy_ops (new_warm_db demo_identity True, empty_control demo_identity)) = busy_routes"
  by (simp add: busy_ops_def busy_routes_def primary_route_def busy_stream_def demo_warm_defs warm_eval capacity_codec_def
      demo_stage_codec_def select_body_def select_admission_def pool_loads_def pool_candidates_def authorized_plan_def
      member_limit_def advance_pool_def min_by_def mark_dispatched_def return_def)

definition steady_control :: control_db where
  "steady_control = (empty_control demo_identity)\<lparr>c_deployments := [(''d'',
     \<lparr>d_deployment_id = ''d'', d_active_revision = ''a'', d_known_good_revision = ''a'', d_generation = 0, d_rollback_id = None\<rparr>)]\<rparr>"

definition enrolled_journal :: journal where
  "enrolled_journal = (empty_journal (demo_store\<lparr>as_files := [(''p'', ''p'')]\<rparr>))\<lparr>jn_stages := map (\<lambda>sid. (sid,
     \<lparr>sr_version = 0, sr_payload = planned_stage sid \<lparr>af_namespace = ''n'', af_sha256 = ''p'', af_size = 1\<rparr>\<rparr>))
       [''q:capacity-input'', ''q:replica-0-launch'']\<rparr>"

definition quiet_host :: "nat \<Rightarrow> bool host" where
  "quiet_host i = \<lparr>ho_journal = enrolled_journal, ho_files = [], ho_docker = False, ho_tick = i, ho_log = []\<rparr>"

text \<open>The depot once the plan is enrolled, with its state, its slot and its events.\<close>

definition enrolled_routes :: warm_db where
  "enrolled_routes = busy_routes\<lparr>w_plans := [(''q'', pool_plan_of demo_plan)], w_authority := [(''d'', ''q'')],
     w_pool_generations := [(''d'', 2)], w_pool_history := [(''d'', 1, ''route:''), (''d'', 2, ''enroll:q'')]\<rparr>"

definition depot_of :: "warm_db \<Rightarrow> nat \<Rightarrow> capacity_state \<Rightarrow> (string \<times> nat) table \<Rightarrow> (string \<times> capacity_state \<times> capacity_note) list \<Rightarrow> bool depot" where
  "depot_of db i st slots events = \<lparr>dp_host = quiet_host i, dp_routes = db, dp_control = steady_control,
     dp_plans = [(''q'', ''p'', st)], dp_slots = slots, dp_receipts = [], dp_events = events\<rparr>"

abbreviation enrolled :: "nat \<Rightarrow> capacity_state \<Rightarrow> (string \<times> nat) table \<Rightarrow> (string \<times> capacity_state \<times> capacity_note) list \<Rightarrow> bool depot" where
  "enrolled \<equiv> depot_of enrolled_routes"

lemma demo_identities: "verify_identity (Some demo_identity) demo_identity = Inr ()"
  by (simp add: verify_identity_def read_identity_def demo_identity_def lower_hex_def)

lemma demo_txn:
  assumes "w_identity db = Some demo_identity"
  shows "pool_txn demo_controller f (depot_of db i st sl ev) = atomically f (depot_of db i st sl ev)"
    and "pair_txn demo_controller f (depot_of db i st sl ev) = atomically f (depot_of db i st sl ev)"
  using demo_identities assms
  by (simp_all add: pool_txn_def pair_txn_def atomically_def depot_of_def steady_control_def empty_control_def demo_controller_def
      demo_pooled_def demo_control_def)

lemma demo_routes: "w_identity enrolled_routes = Some demo_identity" "w_authority enrolled_routes = [(''d'', ''q'')]"
  by (simp_all add: enrolled_routes_def busy_routes_def new_warm_db_def)

lemma demo_disk: "disk demo_runner f x = (case f x of (q, x') \<Rightarrow> (q, bump x'))"
  by (simp add: disk_def demo_runner_def demo_controller_def capacity_site_def demo_runtime_def depot_steps_def split: prod.splits)

lemma demo_bump: "bump (depot_of db i st sl ev) = depot_of db (Suc i) st sl ev"
  by (simp add: bump_def depot_of_def quiet_host_def)

lemma demo_state_of: "ct_cycle st \<le> 8 \<Longrightarrow> w_authority db = [(''d'', ''q'')] \<Longrightarrow> plan_state demo_controller (depot_of db i st sl ev) = Inr st"
  by (simp add: plan_state_def depot_of_def demo_controller_def demo_plan_def enrolled_routes_def quiet_host_def enrolled_journal_def
      capacity_site_def capacity_codec_def demo_stage_codec_def read_stage_def input_stage_def artifact_get_def verify_content_def
      demo_store_def empty_journal_def planned_stage_def field_of_def any_holds_False differs_def demo_pooled_def demo_control_def
      valid_capacity_state_def)

lemma demo_stable: "stable_anchor demo_controller (enrolled i st sl ev) = Inr True"
  by (simp add: stable_anchor_def depot_of_def demo_controller_def demo_plan_def enrolled_routes_def busy_routes_def
      new_warm_db_def current_route_def load_record_def steady_control_def primary_route_def demo_launch_def demo_revision_def
      capacity_site_def capacity_codec_def demo_stage_codec_def revision_digest_def)

lemma demo_save: "ct_cycle st \<le> 8 \<Longrightarrow> w_authority db = [(''d'', ''q'')] \<Longrightarrow>
    save_capacity demo_controller st' nt (depot_of db i st sl ev) = Inr (depot_of db i st' sl (ev @ [(''q'', st', nt)]))"
  using demo_state_of [of st db i sl ev]
  by (simp add: save_capacity_def) (simp add: depot_of_def set_capacity_def demo_controller_def demo_plan_def)

lemma demo_enrolled:
  "depot_step demo_runner (D_enroll demo_controller ''p'') (new_depot (quiet_host 0) busy_routes steady_control) =
     enrolled 0 (new_capacity ''q'') [] []"
proof -
  note i = demo_identities
  have s: "stable_anchor demo_controller (new_depot (quiet_host 0) busy_routes steady_control) = Inr True"
    by (simp add: stable_anchor_def new_depot_def demo_controller_def demo_plan_def busy_routes_def
        new_warm_db_def current_route_def load_record_def steady_control_def primary_route_def demo_launch_def demo_revision_def
        capacity_site_def capacity_codec_def demo_stage_codec_def revision_digest_def)
  have e: "enroll_body demo_controller ''p'' (new_depot (quiet_host 0) busy_routes steady_control) =
      Inr (new_capacity ''q'', enrolled 0 (new_capacity ''q'') [] [])"
    unfolding enroll_body_def s Let_def
    by (simp add: new_depot_def prior_owner_def demo_controller_def demo_plan_def busy_routes_def new_warm_db_def
        insert_or_ignore_def advance_pool_def depot_of_def enrolled_routes_def)
  show ?thesis using i e
    by (simp add: pool_txn_def pair_txn_def atomically_def new_depot_def busy_routes_def new_warm_db_def
        steady_control_def empty_control_def demo_controller_def demo_pooled_def demo_control_def)
qed

definition demo_load :: "nat \<Rightarrow> flt \<Rightarrow> observation" where
  "demo_load n t = \<lparr>ob_sequence = n, ob_epoch = ''e'', ob_seconds = t, ob_active = 1, ob_capacity = 1, ob_members = 1,
     ob_unresolved = False, ob_rejected = 0\<rparr>"

lemma demo_observed: "0 \<le> t \<Longrightarrow> observe_pool demo_controller st t (enrolled i st' sl ev) = Inr (demo_load (ct_samples st) t)"
  by (simp add: observe_pool_def depot_of_def enrolled_routes_def busy_routes_def new_warm_db_def demo_controller_def demo_plan_def
      demo_launch_def demo_revision_def busy_stream_def serving_now_def unresolved_now_def demo_load_def valid_observation_def
      bounded_text_def)

definition first_sample :: capacity_state where
  "first_sample = (new_capacity ''q'')\<lparr>ct_memory := restarted (demo_load 0 1) (Some 1), ct_samples := 1\<rparr>"

definition second_sample :: capacity_state where
  "second_sample = first_sample\<lparr>ct_memory := \<lparr>me_last = Some (demo_load 1 4), me_high = 0, me_low = 0, me_action_at = Some 4\<rparr>,
     ct_samples := 2, ct_phase := CapWarming\<rparr>"

lemma demo_decisions:
  "decide_capacity demo_capacity_policy (demo_load 0 1) empty_memory = Inr (restarted (demo_load 0 1) (Some 1), Hold)"
  "decide_capacity demo_capacity_policy (demo_load 1 4) (restarted (demo_load 0 1) (Some 1)) =
     Inr (\<lparr>me_last = Some (demo_load 1 4), me_high = 0, me_low = 0, me_action_at = Some 4\<rparr>, Up)"
  by (simp_all add: decide_capacity_def empty_memory_def restarted_def demo_load_def demo_capacity_policy_def fresh_decision_def
      next_streak_def is_high_def is_low_def consecutive_def cooled_def rejecting_def float_ops)

lemma demo_first:
  "advance_capacity demo_controller 1 (enrolled i (new_capacity ''q'') [] ev) =
     Inr (first_sample, enrolled i first_sample [] (ev @ [(''q'', first_sample, Sampled (demo_load 0 1) Hold)]))"
proof -
  have "ct_cycle (new_capacity ''q'') \<le> 8" "ct_phase (new_capacity ''q'') = CapOne" "ct_samples (new_capacity ''q'') = 0"
    "ct_memory (new_capacity ''q'') = empty_memory" "pl_samples (cc_plan demo_controller) = 9"
    "pl_policy (cc_plan demo_controller) = demo_capacity_policy"
    by (simp_all add: new_capacity_def demo_controller_def demo_plan_def)
  then show ?thesis
    by (simp add: advance_capacity_def demo_state_of demo_routes demo_stable demo_observed demo_decisions demo_save Let_def first_sample_def)
qed

lemma demo_second:
  "advance_capacity demo_controller 4 (enrolled i first_sample [] ev) =
     Inr (second_sample, enrolled i second_sample [(''d'', ''q'', 0)] (ev @ [(''q'', second_sample, Sampled (demo_load 1 4) Up)]))"
proof -
  have "ct_cycle first_sample = 0" "ct_phase first_sample = CapOne" "ct_samples first_sample = 1"
    "ct_memory first_sample = restarted (demo_load 0 1) (Some 1)" "pl_samples (cc_plan demo_controller) = 9"
    "pl_policy (cc_plan demo_controller) = demo_capacity_policy" "pl_id (cc_plan demo_controller) = ''q''"
    "pl_deployment (cc_plan demo_controller) = ''d''" "length (pl_replicas (cc_plan demo_controller)) = 1"
    by (simp_all add: first_sample_def new_capacity_def demo_controller_def demo_plan_def)
  moreover have "enrolled i first_sample [] ev\<lparr>dp_slots := [(''d'', ''q'', 0)]\<rparr> = enrolled i first_sample [(''d'', ''q'', 0)] ev"
    "dp_slots (enrolled i first_sample [] ev) = []"
    by (simp_all add: depot_of_def)
  ultimately show ?thesis
    by (simp add: advance_capacity_def demo_state_of demo_routes demo_stable demo_observed demo_decisions [simplified] demo_save Let_def insert_new_def
        second_sample_def numeral_2_eq_2)
qed

lemma demo_blocks:
  "ct_cycle st \<le> 8 \<Longrightarrow> block_capacity demo_controller e (enrolled i st sl ev) =
     Inr ((), enrolled i (st\<lparr>ct_phase := CapBlocked, ct_error := Some e\<rparr>) sl
       (ev @ [(''q'', st\<lparr>ct_phase := CapBlocked, ct_error := Some e\<rparr>, Note ''owned_operation_unresolved'')]))"
proof -
  assume c: "ct_cycle st \<le> 8"
  have "drop_members demo_controller (enrolled i st sl ev) = enrolled i st sl ev"
    by (simp add: drop_members_def depot_of_def remove_members_def enrolled_routes_def busy_routes_def new_warm_db_def)
  with c show ?thesis by (simp add: block_capacity_def demo_state_of demo_routes demo_save)
qed

lemma demo_read: "ct_cycle st \<le> 8 \<Longrightarrow> w_authority db = [(''d'', ''q'')] \<Longrightarrow> w_identity db = Some demo_identity \<Longrightarrow>
    read_capacity demo_runner (depot_of db i st sl ev) = (Inr st, depot_of db i st sl ev)"
  by (simp add: read_capacity_def demo_runner_def demo_txn demo_routes demo_state_of atomically_def)

lemma demo_directory: "on_host (owned_directory capacity_site p) (enrolled i st sl ev) = (Inr (), enrolled i st sl ev)"
  by (simp add: on_host_def owned_directory_def capacity_site_def demo_runtime_def fallible_def
      depot_of_def)

definition blocked_sample :: capacity_state where
  "blocked_sample = second_sample\<lparr>ct_phase := CapBlocked, ct_error := Some ''NoResultFound''\<rparr>"

lemma demo_runner_parts: "cr_controller demo_runner = demo_controller" "cc_env demo_controller = capacity_site"
  "cc_plan demo_controller = demo_plan" "re_clock capacity_site = of_nat" "depot_tick (enrolled i st sl ev) = i"
  by (simp_all add: demo_runner_def demo_controller_def capacity_site_def depot_tick_def depot_of_def quiet_host_def)

lemma demo_states: "ct_cycle first_sample = 0" "ct_phase first_sample = CapOne" "ct_cycle second_sample = 0"
  "ct_phase second_sample = CapWarming"
  by (simp_all add: first_sample_def second_sample_def new_capacity_def)

lemma demo_tick_one:
  "tick_capacity demo_runner (enrolled 0 (new_capacity ''q'') [] []) =
     (Inr first_sample, enrolled 3 first_sample [] [(''q'', first_sample, Sampled (demo_load 0 1) Hold)])"
  using demo_first [of 1 "[]"]
  by (simp add: tick_capacity_def Let_def demo_directory demo_runner_parts seq_def demo_disk demo_bump demo_txn demo_routes atomically_def recover_def
      reconcile_capacity_def demo_states return_def demo_read numeral_3_eq_3)

lemma demo_launch_fails:
  "launch_replica demo_runner second_sample (enrolled i second_sample sl ev) = (Inl (Other ''NoResultFound''), enrolled (Suc (Suc i)) second_sample sl ev)"
proof -
  have s: "replica_of demo_plan second_sample = Inr capacity_replica"
    by (simp add: replica_of_def demo_states demo_plan_def)
  have l: "on_host (seq (stage_of capacity_site ''l'') f) (enrolled i second_sample sl ev) =
      (Inl (Other ''NoResultFound''), enrolled (Suc i) second_sample sl ev)" for f :: "stage_state \<Rightarrow> (bool host, runtime_receipt) action"
    by (simp add: on_host_def seq_def stage_of_def journaled_def Let_def depot_of_def quiet_host_def enrolled_journal_def
        empty_journal_def read_stage_def capacity_site_def demo_runtime_def stage_ops_def)
  have "pl_primary_stage demo_plan = ''l''" by (simp add: demo_plan_def)
  then show ?thesis using s l
    by (simp add: launch_replica_def demo_runner_parts Let_def fallible_def seq_def [of "\<lambda>s. (Inr capacity_replica, s)"]
        seq_def [of "disk r f" for r f] demo_disk demo_bump)
qed

lemma demo_tick_two:
  "tick_capacity demo_runner (enrolled 3 first_sample [] ev) =
     (Inr blocked_sample, enrolled 9 blocked_sample [(''d'', ''q'', 0)] (ev @ [(''q'', second_sample, Sampled (demo_load 1 4) Up),
       (''q'', blocked_sample, Note ''owned_operation_unresolved'')]))"
proof -
  have n: "9 = Suc (Suc (Suc (Suc (Suc (Suc 3)))))" by simp
  have b: "ct_cycle blocked_sample = 0" "class_name (Other ''NoResultFound'') = ''NoResultFound''"
    by (simp_all add: blocked_sample_def demo_states)
  show ?thesis unfolding n
    using demo_second [of 4 ev] demo_blocks [of second_sample "''NoResultFound''"]
    by (simp add: tick_capacity_def Let_def demo_directory demo_runner_parts seq_def demo_disk demo_bump demo_txn demo_routes atomically_def recover_def
      reconcile_capacity_def demo_states return_def demo_read demo_launch_fails block_after_def b blocked_sample_def [symmetric])
qed

definition demo_calls :: "bool capacity_call list" where
  "demo_calls = [Elsewhere (D_enroll demo_controller ''p''), Tick (\<lambda>_. []) ''e'', Tick (\<lambda>_. []) ''e'']"

lemma demo_run:
  "\<exists>ev. capacity_calls demo_runner demo_calls (new_depot (quiet_host 0) busy_routes steady_control) =
     enrolled 9 blocked_sample [(''d'', ''q'', 0)] ev"
proof -
  have "demo_runner\<lparr>cr_controller := (cr_controller demo_runner)\<lparr>cc_epoch := ''e''\<rparr>, cr_others := \<lambda>_. []\<rparr> = demo_runner"
    by (simp add: demo_runner_def demo_controller_def)
  then show ?thesis
    by (simp add: capacity_calls_def demo_calls_def demo_enrolled demo_tick_one demo_tick_two del: depot_step.simps) blast
qed

theorem extra_replica_is_owned_witness:
  "\<exists>x. x = capacity_calls demo_runner demo_calls (new_depot (quiet_host 0) busy_routes steady_control) \<and>
     lookup (dp_slots x) ''d'' = Some (''q'', ct_cycle blocked_sample) \<and> ct_phase blocked_sample = CapBlocked \<and>
     extra_ready ''q'' (dp_routes x) = {}"
proof -
  obtain ev where x: "capacity_calls demo_runner demo_calls (new_depot (quiet_host 0) busy_routes steady_control) =
      enrolled 9 blocked_sample [(''d'', ''q'', 0)] ev" using demo_run by blast
  have m: "w_members busy_routes = []" by (simp add: busy_routes_def new_warm_db_def)
  have r: "lookup (dp_plans (enrolled 9 blocked_sample [(''d'', ''q'', 0)] ev)) (pl_id (cr_plan demo_runner)) = Some (''p'', blocked_sample)"
    by (simp add: depot_of_def demo_runner_parts demo_plan_def)
  have p: "pl_id (cr_plan demo_runner) = ''q''" "ct_phase blocked_sample = CapBlocked"
    by (simp_all add: demo_runner_parts demo_plan_def blocked_sample_def)
  have s: "lookup (dp_slots (enrolled 9 blocked_sample [(''d'', ''q'', 0)] ev)) ''d'' = Some (''q'', 0)" by (simp add: depot_of_def)
  note own = extra_replica_is_owned [OF m x [symmetric] r, unfolded p(1)]
  then have "0 = ct_cycle blocked_sample" using s by blast
  moreover have "extra_ready ''q'' (dp_routes (enrolled 9 blocked_sample [(''d'', ''q'', 0)] ev)) = {}"
    using own p(2) unfolding extra_ready_def by auto
  ultimately show ?thesis using x s p(2) by auto
qed

text \<open>The cleanup of the blocked cycle, whose launch stage was declared but never attempted.\<close>

definition replica_backend :: warm_backend where
  "replica_backend = \<lparr>wb_revision = demo_revision ''b'', wb_configuration = \<lparr>cf_base_url = ''v'', cf_model = ''q'', cf_credential_env = None\<rparr>,
     wb_profile = Some (lp_profile capacity_replica)\<rparr>"

definition backends_with :: "string \<Rightarrow> warm_db" where
  "backends_with url = enrolled_routes\<lparr>w_backends := [(''a'', ''http://a'', demo_backend ''a''), (''b'', url, replica_backend)],
     w_retirements := [(''b'', [])]\<rparr>"

definition settled_sample :: capacity_state where
  "settled_sample = blocked_sample\<lparr>ct_phase := CapClosed, ct_cycle := 1, ct_memory := empty_memory\<rparr>"

lemma demo_backend_of: "backend_of capacity_codec (lp_revision capacity_replica) (lp_profile capacity_replica) = Inr replica_backend"
  by (simp add: backend_of_def capacity_codec_def demo_stage_codec_def capacity_replica_def demo_launch_def demo_revision_def Let_def
      valid_configuration_def configuration_matches_def verify_revision_def profile_digest_def bounded_text_def replica_backend_def)

lemma demo_unserved:
  "on_stores (retire_unserved capacity_codec demo_pooled demo_control replica_backend) (enrolled i st sl ev) =
     (Inr True, depot_of (backends_with ''v'') i st sl ev)"
  using demo_identities
  by (simp add: on_stores_def depot_of_def retire_unserved_def both_txn_def retire_unserved_body_def enrolled_routes_def busy_routes_def
      new_warm_db_def steady_control_def empty_control_def demo_pooled_def demo_control_def atomically_def Let_def retirement_blocked_def
      served_def controlled_def primary_route_def replica_backend_def demo_revision_def insert_backend_def retirement_conflict_def
      retire_def insert_or_ignore_def revision_digest_def capacity_codec_def demo_stage_codec_def backends_with_def admissions_of_def)

lemma demo_release:
  "on_warm (release_retired_endpoint capacity_codec demo_pooled replica_backend) (depot_of (backends_with ''v'') i st sl ev) =
     (Inr (), depot_of (backends_with ''retired:b'') i st sl ev)"
  using demo_identities
  by (simp add: on_warm_def depot_of_def release_retired_endpoint_def release_body_def warm_txn_def backends_with_def enrolled_routes_def
      busy_routes_def new_warm_db_def demo_pooled_def atomically_def Let_def replica_backend_def demo_revision_def revision_digest_def
      capacity_codec_def demo_stage_codec_def)

lemma backends_with_fields: "w_identity (backends_with url) = Some demo_identity" "w_authority (backends_with url) = [(''d'', ''q'')]"
  by (simp_all add: backends_with_def demo_routes)

lemma demo_settle:
  "pair_txn demo_controller (settle_capacity demo_controller blocked_sample) (depot_of (backends_with url) i blocked_sample [(''d'', ''q'', 0)] ev) =
     (Inr (), depot_of (backends_with url) i settled_sample [] (ev @ [(''q'', settled_sample, Note ''exact_owned_cleanup_complete'')]))"
proof -
  have c: "ct_cycle blocked_sample = 0" by (simp add: blocked_sample_def demo_states)
  have f: "depot_of db i st [(''d'', ''q'', 0)] ev\<lparr>dp_slots := free_slot ''d'' ''q'' 0 (dp_slots (depot_of db i st [(''d'', ''q'', 0)] ev))\<rparr> =
      depot_of db i st [] ev" for db st ev by (simp add: depot_of_def free_slot_def)
  have p: "pl_id demo_plan = ''q''" "pl_deployment demo_plan = ''d''" "length (pl_replicas demo_plan) = 1" by (simp_all add: demo_plan_def)
  show ?thesis
    by (simp add: demo_txn backends_with_fields atomically_def settle_capacity_def Let_def demo_state_of demo_save demo_runner_parts c f p
        settled_sample_def)
qed

lemma demo_launched:
  "launched_stage demo_runner ''q:replica-0-launch'' (enrolled i st sl ev) = (Inr (Some (planned_stage ''q:replica-0-launch''
     \<lparr>af_namespace = ''n'', af_sha256 = ''p'', af_size = 1\<rparr>)), enrolled (Suc (Suc i)) st sl ev)"
  by (simp add: launched_stage_def recover_def seq_def demo_disk demo_runner_parts on_host_def stage_of_def journaled_def Let_def depot_of_def
      quiet_host_def enrolled_journal_def empty_journal_def read_stage_def capacity_site_def demo_runtime_def stage_ops_def bump_def return_def)

lemma demo_cleanup:
  "cleanup_replica demo_runner blocked_sample (enrolled i blocked_sample [(''d'', ''q'', 0)] ev) =
     (Inr (), depot_of (backends_with ''retired:b'') (Suc (Suc (Suc (Suc (Suc i))))) settled_sample []
       (ev @ [(''q'', settled_sample, Note ''exact_owned_cleanup_complete'')]))"
proof -
  have r: "replica_of demo_plan blocked_sample = Inr capacity_replica" "ct_cycle blocked_sample = 0"
    by (simp_all add: replica_of_def blocked_sample_def demo_states demo_plan_def)
  have c: "cycle_stage demo_plan 0 ''-launch'' = ''q:replica-0-launch''" by (simp add: cycle_stage_def demo_plan_def decimal_zero)
  have k: "cc_routes demo_controller = demo_pooled" "cc_control demo_controller = demo_control" "re_codec capacity_site = capacity_codec"
    by (simp_all add: demo_controller_def capacity_site_def)
  have n: "ss_status (planned_stage sid a) \<noteq> Completed" "ss_attempt (planned_stage sid a) = None" for sid a
    by (simp_all add: planned_stage_def)
  show ?thesis
    by (simp add: cleanup_replica_def stop_replica_def Let_def demo_runner_parts r c k n seq_def fallible_def demo_backend_of demo_launched
        demo_disk demo_bump demo_unserved demo_release demo_settle return_def)
qed

lemma demo_advance_blocked: "advance_capacity demo_controller t (enrolled i blocked_sample sl ev) = Inr (blocked_sample, enrolled i blocked_sample sl ev)"
proof -
  have "ct_cycle blocked_sample = 0" "ct_phase blocked_sample = CapBlocked" "ct_samples blocked_sample = 2" "pl_samples demo_plan = 9"
    by (simp_all add: blocked_sample_def demo_states second_sample_def demo_plan_def)
  then show ?thesis by (simp add: advance_capacity_def Let_def demo_state_of demo_routes demo_stable demo_runner_parts)
qed

lemma demo_tick_three:
  "tick_capacity demo_runner (enrolled 9 blocked_sample [(''d'', ''q'', 0)] ev) =
     (Inr settled_sample, depot_of (backends_with ''retired:b'') 17 settled_sample []
       (ev @ [(''q'', settled_sample, Note ''exact_owned_cleanup_complete'')]))"
proof -
  have n: "17 = Suc (Suc (Suc (Suc (Suc (Suc (Suc (Suc 9)))))))" by simp
  have p: "ct_phase blocked_sample = CapBlocked" "ct_cycle settled_sample = 1" by (simp_all add: blocked_sample_def settled_sample_def)
  show ?thesis unfolding n
    by (simp add: tick_capacity_def Let_def demo_directory demo_runner_parts seq_def demo_disk demo_bump demo_txn demo_routes atomically_def
        recover_def reconcile_capacity_def demo_advance_blocked p demo_cleanup return_def demo_read backends_with_fields)
qed

lemma demo_settled_run:
  "\<exists>ev. capacity_calls demo_runner (demo_calls @ [Tick (\<lambda>_. []) ''e'']) (new_depot (quiet_host 0) busy_routes steady_control) =
     depot_of (backends_with ''retired:b'') 17 settled_sample [] ev"
proof -
  have "demo_runner\<lparr>cr_controller := (cr_controller demo_runner)\<lparr>cc_epoch := ''e''\<rparr>, cr_others := \<lambda>_. []\<rparr> = demo_runner"
    by (simp add: demo_runner_def demo_controller_def)
  then show ?thesis using demo_run demo_tick_three by (auto simp: capacity_calls_def)
qed

theorem passed_replica_is_retired_witness:
  "\<exists>x. x = capacity_calls demo_runner (demo_calls @ [Tick (\<lambda>_. []) ''e'']) (new_depot (quiet_host 0) busy_routes steady_control) \<and>
     lookup (dp_slots x) ''d'' = None \<and> retired (dp_routes x) ''b''"
proof -
  obtain ev where x: "capacity_calls demo_runner (demo_calls @ [Tick (\<lambda>_. []) ''e'']) (new_depot (quiet_host 0) busy_routes steady_control) =
      depot_of (backends_with ''retired:b'') 17 settled_sample [] ev" (is "?x = ?y") using demo_settled_run by blast
  have r: "lookup (dp_plans ?y) (pl_id (cr_plan demo_runner)) = Some (''p'', settled_sample)" "0 < ct_cycle settled_sample"
    "launch_id_of (pl_replicas (cr_plan demo_runner) ! 0) = ''b''" "lookup (dp_slots ?y) ''d'' = None"
    by (simp_all add: depot_of_def demo_runner_parts demo_plan_def settled_sample_def capacity_replica_def demo_revision_def)
  have c: "cr_codec demo_runner = capacity_codec" by (simp add: demo_runner_parts capacity_site_def)
  have "?y = capacity_calls demo_runner (demo_calls @ [Tick (\<lambda>_. []) ''e'']) (new_depot (quiet_host 0)
      (fst (warm_run (cr_codec demo_runner) demo_pooled demo_control busy_ops (new_warm_db demo_identity True, empty_control demo_identity)))
      steady_control)" unfolding c busy_reachable by (rule x [symmetric])
  from passed_replica_is_retired [OF this r(1,2), of ?y "[]"] r(3,4) x show ?thesis by (auto simp: capacity_calls_def)
qed

end
