(* ===== verification/Spec2Isabelle.thy ===== *)
theory Spec2Isabelle
  imports CapacityDemo
begin

text \<open>
  Verification library of FinServe, a serving stack for language models.  The Python package
  \<open>src/finserve\<close> is modelled component by component; every definition follows one function,
  class or statement of the source, in the order of its checks.

  \<^bold>\<open>How the parts interact.\<close>  A request enters the gateway, which admits it, asks an engine's
  streaming client for tokens and accounts for the answer.  A replica router chooses engines.  The
  traffic store names the backend that serves a deployment and pins streams to it; the control
  store names the revision a deployment should run and owns rollbacks.  The rollback controller
  moves traffic through an adapter; the probe monitor decides when.  Revisions reach the control
  store through the promotion gate, which recomputes evidence that producers record in a journal of
  stages over an artifact store.  A release is a job of the metadata registry: its lifecycle
  recomputes the gate over registered artifacts, asks a deployment adapter to cut traffic over,
  and the release stages then make the control store agree with the promoted route.  Image jobs
  have a store and a coordinator of their own.

  \<^bold>\<open>Foundations.\<close>
  \<^item> \<open>Prelude\<close>: exceptions as one datatype, results as sums, transactions that roll back,
    sequencing of actions with the equations of \<open>outcome\<close>, SQL tables as association lists,
    and the contract of insert-once tables.
  \<^item> \<open>Float64\<close>: binary64 rounding as a function on rationals; every finite double is the
    rational it denotes, and each arithmetic operation rounds to nearest, ties to even.
  \<^item> \<open>Json\<close>: JSON values with duplicate-key hooks.

  \<^bold>\<open>Control plane.\<close>
  \<^item> \<open>Deployment\<close>: \<open>contracts/deployment.py\<close> and \<open>reliability/store_identity.py\<close>.
  \<^item> \<open>ControlStore\<close>, \<open>ControlProofs\<close>, \<open>ControlGuarantees\<close>: \<open>DeploymentStore\<close> of
    \<open>reliability/rollback.py\<close>; its invariant over all reachable stores, one live rollback per
    deployment, the generation fence, leases, idempotent activation, the audit trail.
  \<^item> \<open>RollbackController\<close>: the same file's controller over an arbitrary adapter; an apply call
    is preceded by its recorded intent and, without idempotent replay, made at most once.
  \<^item> \<open>WarmStore\<close>, \<open>WarmDrain\<close>, \<open>WarmControl\<close>, \<open>WarmProofs\<close>, \<open>WarmGuarantees\<close>: the
    traffic store of \<open>reliability/warm_routes.py\<close>, \<open>warm_drain.py\<close> and
    \<open>capacity_store.py\<close>; retirement is final, histories are complete, streams stay pinned.
  \<^item> \<open>RouteAdapter\<close>, \<open>AdapterGuarantees\<close>: the adapter between the two, and what a restored
    rollback means for traffic.
  \<^item> \<open>Monitor\<close>, \<open>MonitorGuarantees\<close>: \<open>reliability/monitor.py\<close>; its run returns.
  \<^item> \<open>CapacityPolicy\<close>: the hysteresis of \<open>reliability/capacity_policy.py\<close>.

  \<^bold>\<open>Serving.\<close>
  \<^item> \<open>Routing\<close>, \<open>RouterGuarantees\<close>: \<open>scheduler/\<close> and \<open>contracts/routing.py\<close>; reservations
    within capacity, the least score, leases released once.
  \<^item> \<open>Gateway\<close>: \<open>gateway/admission.py\<close> and the request body limit.
  \<^item> \<open>OutputConstraint\<close>, \<open>Inference\<close>: the request contracts, the language each constraint
    accepts and the shapes it guarantees.
  \<^item> \<open>Engine\<close>, \<open>EngineGuarantees\<close>: \<open>engines/openai_adapter.py\<close> and
    \<open>chat_protocol.py\<close>; the event decoder, the accounting of frames, failures.
  \<^item> \<open>Ingress\<close>, \<open>IngressGuarantees\<close>: the handlers of \<open>gateway/app.py\<close> with
    \<open>cache/redis_state.py\<close>; capacity returned once, collected and streamed answers agree.

  \<^bold>\<open>Evidence and jobs.\<close>
  \<^item> \<open>Stages\<close>, \<open>StageGuarantees\<close>: \<open>registry/artifacts.py\<close>, \<open>producer_stages.py\<close> and the
    owned attempts of \<open>producer_tasks.py\<close>; histories are paths, completed stages are final.
  \<^item> \<open>Quality\<close>, \<open>Evidence\<close>, \<open>Promotion\<close>: \<open>evaluation/quality.py\<close>, the validated part of
    \<open>benchmark/runner.py\<close>, \<open>metrics.py\<close>, \<open>workload.py\<close>, and \<open>reliability/promotion.py\<close>.
  \<^item> \<open>Jobs\<close>: \<open>multimodal/jobs.py\<close>; a cancelled job never succeeds.

  \<^bold>\<open>Releases.\<close>
  \<^item> \<open>Registry\<close>, \<open>RegistryGuarantees\<close>: \<open>registry/metadata.py\<close>, one definition per transaction over
    a value of its nine tables, and \<open>registry_op\<close>, the list of transactions any process may run;
    immutable records, histories as paths of the stage graph, the deployment lock.
  \<^item> \<open>Lifecycle\<close>: run registration, \<open>registry/release_gate.py\<close> and \<open>registry/lifecycle.py\<close>.  A
    worker is an action on a \<open>cycle\<close> (registry, artifacts, the adapter's world, a log of apply
    calls); before each of its transactions the other processes run the arbitrary list
    \<open>le_others\<close>, so its lemmas are about every interleaving.
  \<^item> \<open>LifecycleGuarantees\<close>: what every step leaves of the history and of the log of apply calls, by
    one rule per way of composing actions (the locale \<open>effect\<close>); apply calls are intended first and
    not repeated without idempotent replay.
  \<^item> \<open>LifecyclePromotion\<close>: a promotion rests on a recorded decision that the gate computed from the
    registered artifacts.  \<open>sound\<close> says that digests match their documents and is an invariant;
    \<open>no_collision\<close>, where assumed, that the digests of recorded documents tell them apart.
  \<^item> \<open>LifecycleLiveness\<close>: undisturbed, one call brings an approved job to promoted.
  \<^item> \<open>LifecycleDemo\<close>: a concrete release, from empty tables to promotion.
  \<^item> \<open>ReleaseActivation\<close>: \<open>registry/release_activation.py\<close> over the route adapter, the control store
    and the monitor; an acknowledged release is promoted, measured, routed and named by the controller.

  \<^bold>\<open>Managed runtimes.\<close>
  \<^item> \<open>RuntimeSpec\<close>: \<open>contracts/managed_runtime.py\<close>, the records and the image validation of
    \<open>registry/runtime_build.py\<close>, and \<open>inspect_runtime\<close>; Docker's documents are arbitrary JSON values.
  \<^item> \<open>ManagedRuntime\<close>: \<open>DockerRuntime\<close> of \<open>registry/managed_runtime.py\<close>.  A \<open>host\<close> is the journal, the files
    of the attempt directories, the daemon and the log of commands; the command line is an arbitrary
    function of the daemon's state, and every \<open>owned_disk\<close> call may be the last of its caller.
  \<^item> \<open>RuntimeStages\<close>: \<open>registry/runtime_stages.py\<close> and \<open>runtime_abort.py\<close>, the launch, stop and abort of
    an attempt with the journal interfering between their steps.
  \<^item> \<open>RuntimeGuarantees\<close>: the relation \<open>evolves\<close> that every step keeps; an attempt asks for one container
    and one start, an aborted one for none, and a removal follows a confirmed stop.
  \<^item> \<open>RuntimeDemo\<close>: a concrete daemon, its inspection and the stop of its container.

  \<^bold>\<open>Local capacity.\<close>
  \<^item> \<open>LocalCapacity\<close>: \<open>contracts/capacity.py\<close> and the transactions of \<open>registry/local_capacity.py\<close> over a
    \<open>depot\<close>, which joins the host, the traffic and control stores and the capacity tables.
  \<^item> \<open>CapacityRunner\<close>: the controller's calls (\<open>tick\<close>, \<open>close\<close>, \<open>freeze_capacity\<close>) and \<open>run_plan\<close> of
    \<open>registry/capacity_cli.py\<close>; before each disk operation the other processes run an arbitrary list
    of transactions, except those of the same plan, which wait for its fence.
  \<^item> \<open>CapacityGuarantees\<close>: the relation \<open>plan_owned\<close> between a plan's phase, the deployment's slot and the
    published members, kept by every transaction; an extra replica is offered only while it is owned.
  \<^item> \<open>CapacityRetirement\<close>: the relation \<open>moves\<close>, under which retirements stay and a cycle ends only behind
    the retirement of its replica; what a cancelled settlement leaves.
  \<^item> \<open>CapacityDemo\<close>: a plan that is enrolled, sampled, blocked by a failed launch with its slot owned, and
    settled by the next tick.

  \<^bold>\<open>Interfaces.\<close>  The locales state what one part promises another: \<open>bounded_pool\<close> for
  admission, \<open>accounting\<close> for the two engine protocols, the insert-once tables of the prelude,
  \<open>attested\<close> for an adapter whose health the controller may trust, and \<open>effect\<close> for the reflexive and
  transitive relations that a worker's steps keep.  Each is interpreted on the
  model's own definitions.

  \<^bold>\<open>Parameters.\<close>  SHA-256, JSON renderings and parsers, the HTTP client, the line decoder, clocks,
  random identities and process schedules are arguments or record fields.  A hypothesis about one
  of them is stated where it is used.  A hash is nowhere assumed injective unless a statement says so.

  \<^bold>\<open>Bounds and fuel.\<close>  Loops over data are structural.  \<open>run_monitor\<close> takes a bound on its
  rounds and \<open>None\<close> says that the bound did not suffice; the configured number of probes always
  suffices.  \<open>readiness\<close> runs at most \<open>re_rounds\<close> rounds and raises an exception of its own when they do
  not suffice; its properties hold for every bound.  Decimal numerals and the integer language are bounded by 128 digits, as in the source.

  \<^bold>\<open>Not modelled.\<close>  Operating-system effects (the Docker daemon and image builds, kernel locks, process
  control), the HTTP probe of an engine, network servers, telemetry, load generation, Ray and tensor code, the GraphQL and MLflow views, the
  TypeScript front end and infrastructure.  Concurrency is modelled as interleaving of committed
  transactions, as SQLite's \<open>BEGIN IMMEDIATE\<close> serialises them; asyncio tasks as sequences of their
  awaited effects.  SQL isolation and durability are assumed of the database.
\<close>

end
